(* ===== verification/Py_Prelude.thy ===== *)
theory Py_Prelude
  imports Complex_Main "HOL-Library.Sublist"
begin

text \<open>
  What every component of the development shares: Python exceptions as values, results
  that are either an exception or a value, stateful actions that keep the state they had
  when an exception left them, and generic facts on lists and results.

  A Python class is represented by its method resolution order, the list of the names of
  the class and of its ancestors, so that \<open>class B(A)\<close> is \<open>''B'' # A\<close> and
  \<open>issubclass\<close> is a membership test. An exception object is its class and its message
  (\<open>str(ex)\<close>).
\<close>

named_theorems exn_classes \<open>unfolds the exception classes of the program\<close>
named_theorems act_simps \<open>evaluates stateful actions\<close>

section \<open>Exception classes and exceptions\<close>

type_synonym pyclass = "string list"

definition PyBaseException :: pyclass where
  "PyBaseException = [''BaseException'']"
definition PyException :: pyclass where
  "PyException = ''Exception'' # PyBaseException"
definition PyKeyboardInterrupt :: pyclass where
  "PyKeyboardInterrupt = ''KeyboardInterrupt'' # PyBaseException"
definition PyValueError :: pyclass where
  "PyValueError = ''ValueError'' # PyException"
definition PyTypeError :: pyclass where
  "PyTypeError = ''TypeError'' # PyException"
definition PyLookupError :: pyclass where
  "PyLookupError = ''LookupError'' # PyException"
definition PyKeyError :: pyclass where
  "PyKeyError = ''KeyError'' # PyLookupError"
definition PyIndexError :: pyclass where
  "PyIndexError = ''IndexError'' # PyLookupError"
definition PyAttributeError :: pyclass where
  "PyAttributeError = ''AttributeError'' # PyException"
definition PyAssertionError :: pyclass where
  "PyAssertionError = ''AssertionError'' # PyException"
definition PyRuntimeError :: pyclass where
  "PyRuntimeError = ''RuntimeError'' # PyException"
definition PyNotImplementedError :: pyclass where
  "PyNotImplementedError = ''NotImplementedError'' # PyRuntimeError"
definition PyStopIteration :: pyclass where
  "PyStopIteration = ''StopIteration'' # PyException"
definition PySkipTest :: pyclass where
  "PySkipTest = ''SkipTest'' # PyException"

lemmas py_class_defs [exn_classes] =
  PyBaseException_def PyException_def PyKeyboardInterrupt_def PyValueError_def
  PyTypeError_def PyLookupError_def PyKeyError_def PyIndexError_def PyAttributeError_def
  PyAssertionError_def PyRuntimeError_def PyNotImplementedError_def PyStopIteration_def
  PySkipTest_def

definition issubclass :: "pyclass \<Rightarrow> pyclass \<Rightarrow> bool" where
  "issubclass c d = (case d of [] \<Rightarrow> False | n # _ \<Rightarrow> n \<in> set c)"

datatype exn = Exn (exn_class: pyclass) (exn_msg: string)

definition isinstance_exn :: "exn \<Rightarrow> pyclass \<Rightarrow> bool" where
  "isinstance_exn e c = issubclass (exn_class e) c"

text \<open>An \<open>except (C1, ..., Cn)\<close> clause catches the instances of its classes.\<close>

definition catches :: "pyclass list \<Rightarrow> exn \<Rightarrow> bool" where
  "catches cs e = (\<exists>c \<in> set cs. isinstance_exn e c)"

lemma issubclass_self: "c \<noteq> [] \<Longrightarrow> issubclass c c"
  by (cases c) (auto simp: issubclass_def)

lemma catches_Nil [simp]: "\<not> catches [] e"
  by (simp add: catches_def)

lemma catches_Cons: "catches (c # cs) e \<longleftrightarrow> isinstance_exn e c \<or> catches cs e"
  by (simp add: catches_def)

section \<open>Results\<close>

type_synonym 'a res = "exn + 'a"

abbreviation Raise :: "pyclass \<Rightarrow> string \<Rightarrow> 'a res" where
  "Raise c m \<equiv> Inl (Exn c m)"

text \<open>Truthiness: what \<open>if x\<close> and \<open>x or y\<close> see of an optional value.\<close>

definition opt_or :: "('a \<Rightarrow> bool) \<Rightarrow> 'a option \<Rightarrow> 'a option \<Rightarrow> 'a option" where
  "opt_or truthy x y =
     (case x of Some v \<Rightarrow> if truthy v then Some v else y | None \<Rightarrow> y)"

lemma opt_or_simps [simp]:
  "opt_or p None y = y"
  "p v \<Longrightarrow> opt_or p (Some v) y = Some v"
  "\<not> p v \<Longrightarrow> opt_or p (Some v) y = y"
  by (simp_all add: opt_or_def)

text \<open>Running a fallible function over a list stops at the first exception.\<close>

fun map_res :: "('a \<Rightarrow> 'b res) \<Rightarrow> 'a list \<Rightarrow> 'b list res" where
  "map_res f [] = Inr []"
| "map_res f (x # xs) =
     (case f x of Inl e \<Rightarrow> Inl e
      | Inr y \<Rightarrow> (case map_res f xs of Inl e \<Rightarrow> Inl e | Inr ys \<Rightarrow> Inr (y # ys)))"

lemma map_res_cong [fundef_cong]: "xs = ys \<Longrightarrow> (\<And>x. x \<in> set ys \<Longrightarrow> f x = g x) \<Longrightarrow> map_res f xs = map_res g ys"
proof (induction ys arbitrary: xs)
  case (Cons y ys)
  then have "map_res f ys = map_res g ys" "f y = g y" by simp_all
  with Cons.prems(1) show ?case by (simp cong: sum.case_cong)
qed simp

lemma map_res_length: "map_res f xs = Inr ys \<Longrightarrow> length ys = length xs"
  by (induction xs arbitrary: ys) (auto split: sum.splits)

lemma map_res_nth: "map_res f xs = Inr ys \<Longrightarrow> i < length xs \<Longrightarrow> f (xs ! i) = Inr (ys ! i)"
  by (induction xs arbitrary: ys i) (auto split: sum.splits simp: nth_Cons')

lemma map_res_set: "map_res f xs = Inr ys \<Longrightarrow> y \<in> set ys \<Longrightarrow> \<exists>x \<in> set xs. f x = Inr y"
  by (induction xs arbitrary: ys) (auto split: sum.splits)

lemma map_res_Inr: "(\<And>x. x \<in> set xs \<Longrightarrow> f x = Inr (g x)) \<Longrightarrow> map_res f xs = Inr (map g xs)"
  by (induction xs) auto

lemma map_sum_eq_Inr: "map_sum id g x = Inr y \<longleftrightarrow> (\<exists>z. x = Inr z \<and> y = g z)"
  by (cases x) auto

lemma map_sum_eq_Inl: "map_sum id g x = Inl e \<longleftrightarrow> x = Inl e"
  by (cases x) auto

section \<open>Stateful actions\<close>

text \<open>
  An action takes the state and returns a result with the state it leaves, also when it
  raises: Python does not undo assignments when an exception propagates.
\<close>

type_synonym ('s, 'a) act = "'s \<Rightarrow> 'a res \<times> 's"

definition ret :: "'a \<Rightarrow> ('s, 'a) act" where
  "ret x s = (Inr x, s)"

definition raise_act :: "exn \<Rightarrow> ('s, 'a) act" where
  "raise_act e s = (Inl e, s)"

definition bindA :: "('s, 'a) act \<Rightarrow> ('a \<Rightarrow> ('s, 'b) act) \<Rightarrow> ('s, 'b) act" where
  "bindA m f s = (case m s of (Inl e, t) \<Rightarrow> (Inl e, t) | (Inr x, t) \<Rightarrow> f x t)"

text \<open>\<open>try: m except e: h e\<close> for the exceptions \<open>p\<close> selects, and \<open>try: m finally: g\<close>.\<close>

definition try_except :: "('s, 'a) act \<Rightarrow> (exn \<Rightarrow> bool) \<Rightarrow> (exn \<Rightarrow> ('s, 'a) act) \<Rightarrow> ('s, 'a) act" where
  "try_except m p h s =
     (case m s of (Inl e, t) \<Rightarrow> if p e then h e t else (Inl e, t) | (Inr x, t) \<Rightarrow> (Inr x, t))"

definition try_finally :: "('s, 'a) act \<Rightarrow> ('s \<Rightarrow> 's) \<Rightarrow> ('s, 'a) act" where
  "try_finally m g s = (case m s of (r, t) \<Rightarrow> (r, g t))"

lemmas act_defs [act_simps] = ret_def raise_act_def bindA_def try_except_def try_finally_def

lemma bindA_ret [simp]: "bindA (ret x) f = f x"
  by (rule ext) (simp add: act_simps)

lemma bindA_raise [simp]: "bindA (raise_act e) f = raise_act e"
  by (rule ext) (simp add: act_simps)

lemma bindA_assoc: "bindA (bindA m f) g = bindA m (\<lambda>x. bindA (f x) g)"
  by (rule ext) (simp add: act_simps split: prod.splits sum.splits)

lemma bindA_eq_Inr: "bindA m f s = (Inr y, t) \<longleftrightarrow> (\<exists>x u. m s = (Inr x, u) \<and> f x u = (Inr y, t))"
  by (auto simp: bindA_def split: prod.splits sum.splits)

text \<open>A fallible function, and an action on the first part of the state.\<close>

definition lift_res :: "'a res \<Rightarrow> ('s, 'a) act" where
  "lift_res r s = (r, s)"

definition on_fst :: "('w, 'a) act \<Rightarrow> ('w \<times> 'x, 'a) act" where
  "on_fst m s = (case m (fst s) of (r, w) \<Rightarrow> (r, (w, snd s)))"

definition set_snd :: "('x \<Rightarrow> 'x) \<Rightarrow> ('w \<times> 'x, unit) act" where
  "set_snd f s = (Inr (), (fst s, f (snd s)))"

text \<open>Running an action on every element of a list, in order, up to the first exception.\<close>

fun map_act :: "('a \<Rightarrow> ('s, 'b) act) \<Rightarrow> 'a list \<Rightarrow> ('s, 'b list) act" where
  "map_act f [] s = (Inr [], s)"
| "map_act f (x # xs) s =
     (case f x s of
        (Inl e, t) \<Rightarrow> (Inl e, t)
      | (Inr y, t) \<Rightarrow>
          (case map_act f xs t of (Inl e, u) \<Rightarrow> (Inl e, u) | (Inr ys, u) \<Rightarrow> (Inr (y # ys), u)))"

lemma map_act_pure: "(\<And>x. x \<in> set xs \<Longrightarrow> f x s = (Inr (g x), s)) \<Longrightarrow> map_act f xs s = (Inr (map g xs), s)"
  by (induction xs) auto

text \<open>
  What holds after an action: \<open>Q\<close> of its result and the state when it returns, \<open>E\<close> of the state
  when it raises.
\<close>

named_theorems triple_intros \<open>rules for what holds after an action\<close>

definition triple :: "('s \<Rightarrow> bool) \<Rightarrow> ('s, 'a) act \<Rightarrow> ('a \<Rightarrow> 's \<Rightarrow> bool) \<Rightarrow> ('s \<Rightarrow> bool) \<Rightarrow> bool" where
  "triple P m Q E \<longleftrightarrow> (\<forall>s. P s \<longrightarrow> (case m s of (Inr x, t) \<Rightarrow> Q x t | (Inl e, t) \<Rightarrow> E t))"

lemma tripleI: "(\<And>s. P s \<Longrightarrow> case m s of (Inr x, t) \<Rightarrow> Q x t | (Inl e, t) \<Rightarrow> E t) \<Longrightarrow> triple P m Q E"
  by (simp add: triple_def)

lemma triple_at: "triple P m Q E \<Longrightarrow> P s \<Longrightarrow> case m s of (Inr x, t) \<Rightarrow> Q x t | (Inl e, t) \<Rightarrow> E t"
  by (simp add: triple_def)

lemma tripleD: "triple P m Q E \<Longrightarrow> P s \<Longrightarrow> m s = (Inr x, t) \<Longrightarrow> Q x t"
  using triple_at[of P m Q E s] by simp

lemma triple_raised: "triple P m Q E \<Longrightarrow> P s \<Longrightarrow> m s = (Inl e, t) \<Longrightarrow> E t"
  using triple_at[of P m Q E s] by simp

lemma triple_kept: "triple P m (\<lambda>_. I) I \<Longrightarrow> P s \<Longrightarrow> I (snd (m s))"
  using triple_at[of P m "\<lambda>_. I" I s] by (cases "m s") (auto split: sum.splits)

lemma triple_ret: "(\<And>s. P s \<Longrightarrow> Q x s) \<Longrightarrow> triple P (ret x) Q E"
  by (simp add: triple_def ret_def)

lemma triple_raise: "(\<And>s. P s \<Longrightarrow> E s) \<Longrightarrow> triple P (raise_act e) Q E"
  by (simp add: triple_def raise_act_def)

lemma triple_bind:
  assumes m: "triple P m Q E" and f: "\<And>x. triple (Q x) (f x) R E"
  shows "triple P (bindA m f) R E"
proof (rule tripleI)
  fix s assume "P s"
  from triple_at[OF m this] show "case bindA m f s of (Inr x, t) \<Rightarrow> R x t | (Inl e, t) \<Rightarrow> E t"
    using triple_at[OF f] by (cases "m s"; cases "fst (m s)") (simp_all add: bindA_def)
qed

lemma triple_try:
  assumes m: "triple P m Q E" and h: "\<And>e. triple E (h e) Q E"
  shows "triple P (try_except m p h) Q E"
proof (rule tripleI)
  fix s assume "P s"
  from triple_at[OF m this] show "case try_except m p h s of (Inr x, t) \<Rightarrow> Q x t | (Inl e, t) \<Rightarrow> E t"
    using triple_at[OF h] by (cases "m s"; cases "fst (m s)") (simp_all add: try_except_def)
qed

lemma triple_post:
  assumes m: "triple P m Q E" and "\<And>x s. Q x s \<Longrightarrow> R x s"
  shows "triple P m R E"
proof (rule tripleI)
  fix s assume "P s"
  from triple_at[OF m this] show "case m s of (Inr x, t) \<Rightarrow> R x t | (Inl e, t) \<Rightarrow> E t"
    using assms(2) by (cases "m s"; cases "fst (m s)") simp_all
qed

lemma triple_map:
  assumes f: "\<And>x. triple I (f x) (\<lambda>_. I) I"
  shows "triple I (map_act f xs) (\<lambda>_. I) I"
proof (rule tripleI)
  fix s assume "I s"
  then show "case map_act f xs s of (Inr x, t) \<Rightarrow> I t | (Inl e, t) \<Rightarrow> I t"
  proof (induction xs arbitrary: s)
    case (Cons x xs)
    obtain r t where r: "f x s = (r, t)" by (cases "f x s")
    with triple_kept[OF f Cons.prems, of x] have t: "I t" by simp
    from Cons.IH[OF t] t r show ?case
      by (cases r; cases "map_act f xs t"; cases "fst (map_act f xs t)") simp_all
  qed simp
qed

lemmas triple_rules [triple_intros] = triple_ret triple_raise triple_bind triple_try triple_map

section \<open>Lists used as dictionaries\<close>

text \<open>
  A Python dictionary keeps its keys in insertion order: \<open>d[k] = v\<close> replaces the value
  in place or appends the pair.
\<close>

fun dict_set :: "('k \<times> 'v) list \<Rightarrow> 'k \<Rightarrow> 'v \<Rightarrow> ('k \<times> 'v) list" where
  "dict_set [] k v = [(k, v)]"
| "dict_set ((k', v') # d) k v =
     (if k' = k then (k, v) # d else (k', v') # dict_set d k v)"

definition dict_update :: "('k \<times> 'v) list \<Rightarrow> ('k \<times> 'v) list \<Rightarrow> ('k \<times> 'v) list" where
  "dict_update d e = foldl (\<lambda>m (k, v). dict_set m k v) d e"

lemma map_of_dict_set [simp]: "map_of (dict_set d k v) = (map_of d)(k \<mapsto> v)"
  by (induction d k v rule: dict_set.induct) auto

lemma keys_dict_set: "fst ` set (dict_set d k v) = insert k (fst ` set d)"
  by (induction d k v rule: dict_set.induct) auto

lemma distinct_dict_set: "distinct (map fst d) \<Longrightarrow> distinct (map fst (dict_set d k v))"
proof (induction d k v rule: dict_set.induct)
  case (2 k' v' d k v)
  have "fst ` set (dict_set d k v) = insert k (fst ` set d)" by (rule keys_dict_set)
  with 2 show ?case by auto
qed simp

lemma keys_dict_update: "fst ` set (dict_update d e) = fst ` set d \<union> fst ` set e"
  unfolding dict_update_def
proof (induction e arbitrary: d)
  case (Cons p e)
  then show ?case by (cases p) (simp add: keys_dict_set)
qed simp

lemma distinct_dict_update: "distinct (map fst d) \<Longrightarrow> distinct (map fst (dict_update d e))"
  unfolding dict_update_def
  by (induction e arbitrary: d) (auto simp: distinct_dict_set)

lemma map_of_dict_update: "map_of (dict_update d e) = map_of d ++ map_of (rev e)"
  unfolding dict_update_def
proof (induction e arbitrary: d)
  case (Cons p e)
  then show ?case by (cases p) (simp add: map_add_def fun_eq_iff split: option.splits)
qed simp

lemma dict_set_present: "distinct (map fst d) \<Longrightarrow> (k, v) \<in> set d \<Longrightarrow> dict_set d k v = d"
proof (induction d k v rule: dict_set.induct)
  case (2 k' v' d k v)
  then show ?case by (auto simp: rev_image_eqI)
qed simp

lemma dict_update_present: "distinct (map fst d) \<Longrightarrow> set e \<subseteq> set d \<Longrightarrow> dict_update d e = d"
  unfolding dict_update_def by (induction e) (auto simp: dict_set_present)

lemma map_of_filter_values:
  "distinct (map fst d) \<Longrightarrow>
     map_of (filter (\<lambda>(k, v). P v) d) k = (case map_of d k of None \<Rightarrow> None | Some v \<Rightarrow> if P v then Some v else None)"
  by (induction d) (auto simp: map_of_eq_None_iff split: option.splits)

text \<open>\<open>list.insert\<close>.\<close>

definition insert_at :: "int \<Rightarrow> 'a \<Rightarrow> 'a list \<Rightarrow> 'a list" where
  "insert_at i x xs =
     (let n = int (length xs); j = nat (max 0 (min n (if i < 0 then i + n else i)))
      in take j xs @ [x] @ drop j xs)"

section \<open>Removing duplicates, first occurrences first\<close>

fun uniq_onto :: "('a \<Rightarrow> 'a \<Rightarrow> bool) \<Rightarrow> 'a list \<Rightarrow> 'a list \<Rightarrow> 'a list" where
  "uniq_onto eq seen [] = []"
| "uniq_onto eq seen (x # xs) =
     (if \<exists>y \<in> set seen. eq y x then uniq_onto eq seen xs
      else x # uniq_onto eq (x # seen) xs)"

lemma uniq_onto_subset: "set (uniq_onto eq seen xs) \<subseteq> set xs"
  by (induction eq seen xs rule: uniq_onto.induct) auto

end
