(* ===== verification/Py_Strings.thy ===== *)
theory Py_Strings
  imports Py_Prelude
begin

text \<open>
  The methods of Python's \<open>str\<close> that the program uses, on ASCII text: \<open>strip\<close>,
  \<open>split\<close>, \<open>rsplit\<close>, \<open>splitlines\<close>, \<open>startswith\<close>, \<open>in\<close>, \<open>join\<close>, \<open>lower\<close>,
  \<open>int(text)\<close> and \<open>str(number)\<close>. \<open>prefix\<close> and \<open>suffix\<close> of the library are
  \<open>startswith\<close> and \<open>endswith\<close>.
\<close>

section \<open>White space, stripping\<close>

definition py_space :: "char \<Rightarrow> bool" where
  "py_space c = (c \<in> set [CHR '' '', CHR 0x09, CHR 0x0A, CHR 0x0B, CHR 0x0C, CHR 0x0D,
                          CHR 0x1C, CHR 0x1D, CHR 0x1E, CHR 0x1F])"

definition lstrip_by :: "(char \<Rightarrow> bool) \<Rightarrow> string \<Rightarrow> string" where
  "lstrip_by p s = dropWhile p s"

definition rstrip_by :: "(char \<Rightarrow> bool) \<Rightarrow> string \<Rightarrow> string" where
  "rstrip_by p s = rev (dropWhile p (rev s))"

definition strip_by :: "(char \<Rightarrow> bool) \<Rightarrow> string \<Rightarrow> string" where
  "strip_by p s = rstrip_by p (lstrip_by p s)"

definition strip :: "string \<Rightarrow> string" where
  "strip = strip_by py_space"

lemma hd_lstrip: "lstrip_by p s \<noteq> [] \<Longrightarrow> \<not> p (hd (lstrip_by p s))"
  unfolding lstrip_by_def by (rule hd_dropWhile)

lemma last_rstrip: "rstrip_by p s \<noteq> [] \<Longrightarrow> \<not> p (last (rstrip_by p s))"
  unfolding rstrip_by_def by (simp add: last_rev hd_dropWhile)

lemma rstrip_append_last: "\<not> p c \<Longrightarrow> rstrip_by p (xs @ [c]) = xs @ [c]"
  by (simp add: rstrip_by_def)

lemma rstrip_id: "s = [] \<or> \<not> p (last s) \<Longrightarrow> rstrip_by p s = s"
  by (cases s rule: rev_cases) (auto simp: rstrip_by_def)

lemma lstrip_id: "s = [] \<or> \<not> p (hd s) \<Longrightarrow> lstrip_by p s = s"
  by (cases s) (auto simp: lstrip_by_def)

lemma strip_id: "s = [] \<or> \<not> p (hd s) \<and> \<not> p (last s) \<Longrightarrow> strip_by p s = s"
  by (auto simp: strip_by_def lstrip_id rstrip_id)

section \<open>Searching\<close>

fun str_find :: "string \<Rightarrow> string \<Rightarrow> nat option" where
  "str_find p [] = (if p = [] then Some 0 else None)"
| "str_find p (c # s) = (if prefix p (c # s) then Some 0 else map_option Suc (str_find p s))"

definition str_in :: "string \<Rightarrow> string \<Rightarrow> bool" where
  "str_in p s = (str_find p s \<noteq> None)"

lemma str_in_skip:
  "p \<noteq> [] \<Longrightarrow> \<forall>c \<in> set a. c \<noteq> hd p \<Longrightarrow> str_in p (a @ w) = str_in p w"
proof (induction a)
  case (Cons x a)
  then have "\<not> prefix p (x # a @ w)" by (cases p) auto
  with Cons show ?case by (auto simp: str_in_def)
qed simp

lemma str_find_Some: "str_find p s = Some i \<Longrightarrow> \<exists>ys. s = take i s @ p @ ys \<and> i + length p \<le> length s"
proof (induction p s arbitrary: i rule: str_find.induct)
  case (2 p c s)
  show ?case
  proof (cases "prefix p (c # s)")
    case True
    with 2(2) have "i = 0" by simp
    moreover from True obtain ys where ys: "c # s = p @ ys" by (auto simp: prefix_def)
    moreover from ys have "length p \<le> length (c # s)" by (metis length_append le_add1)
    ultimately show ?thesis by auto
  next
    case False
    with 2(2) obtain j where j: "str_find p s = Some j" "i = Suc j" by auto
    from 2(1)[OF False j(1)] j(2) show ?thesis by auto
  qed
qed (auto split: if_splits)

lemma str_find_prefix: "prefix p s \<Longrightarrow> str_find p s = Some 0"
  by (cases s) auto

lemma str_in_iff: "str_in p s \<longleftrightarrow> (\<exists>us vs. s = us @ p @ vs)"
proof
  assume "str_in p s"
  then obtain i where "str_find p s = Some i" by (auto simp: str_in_def)
  from str_find_Some[OF this] obtain ys where "s = take i s @ p @ ys" by auto
  then show "\<exists>us vs. s = us @ p @ vs" by blast
next
  assume "\<exists>us vs. s = us @ p @ vs"
  then obtain us vs where "s = us @ p @ vs" by blast
  then show "str_in p s"
  proof (induction us arbitrary: s)
    case Nil
    then show ?case by (simp add: str_in_def str_find_prefix)
  next
    case (Cons u us)
    then show ?case by (auto simp: str_in_def)
  qed
qed

section \<open>Splitting and joining\<close>

text \<open>\<open>text.split(sep)\<close>; the callers pass a separator that is not empty.\<close>

function split_on :: "string \<Rightarrow> string \<Rightarrow> string list" where
  "split_on sep s =
     (case str_find sep s of None \<Rightarrow> [s]
      | Some i \<Rightarrow> if sep = [] then [s] else take i s # split_on sep (drop (i + length sep) s))"
  by pat_completeness auto
termination
proof (relation "measure (\<lambda>(sep, s). length s)", goal_cases)
  case (2 sep s i)
  then have "i + length sep \<le> length s" using str_find_Some by blast
  moreover have "0 < length sep" using 2 by simp
  ultimately have "0 < length s" and "0 < i + length sep" by linarith+
  then show ?case by simp
qed simp

declare split_on.simps [simp del]

text \<open>\<open>text.split(sep, n)\<close>: at most \<open>n\<close> cuts.\<close>

fun split_max :: "nat \<Rightarrow> string \<Rightarrow> string \<Rightarrow> string list" where
  "split_max 0 sep s = [s]"
| "split_max (Suc n) sep s =
     (case str_find sep s of None \<Rightarrow> [s]
      | Some i \<Rightarrow> take i s # split_max n sep (drop (i + length sep) s))"

text \<open>\<open>text.rsplit(c, 1)\<close> for a one character separator that occurs in the text.\<close>

definition rsplit1 :: "char \<Rightarrow> string \<Rightarrow> (string \<times> string) option" where
  "rsplit1 c s =
     (if c \<in> set s
      then Some (rev (tl (dropWhile (\<lambda>x. x \<noteq> c) (rev s))), rev (takeWhile (\<lambda>x. x \<noteq> c) (rev s)))
      else None)"

lemma rsplit1_shorter: "rsplit1 c s = Some (a, b) \<Longrightarrow> length a < length s"
proof -
  assume "rsplit1 c s = Some (a, b)"
  then have c: "c \<in> set s" and a: "a = rev (tl (dropWhile (\<lambda>x. x \<noteq> c) (rev s)))"
    by (auto simp: rsplit1_def split: if_splits)
  have "length (dropWhile (\<lambda>x. x \<noteq> c) (rev s)) \<le> length s"
    using length_dropWhile_le[of _ "rev s"] by simp
  moreover have "0 < length s" using c by (cases s) auto
  ultimately have "length (dropWhile (\<lambda>x. x \<noteq> c) (rev s)) - 1 < length s" by linarith
  then show ?thesis by (simp add: a)
qed

text \<open>\<open>repr(text)\<close> of a text without quotes, backslashes or control characters.\<close>

definition str_repr :: "string \<Rightarrow> string" where
  "str_repr s = CHR 0x27 # s @ [CHR 0x27]"

text \<open>\<open>text.split()\<close> and \<open>text.split(maxsplit=n)\<close>, on runs of white space.\<close>

function split_ws :: "string \<Rightarrow> string list" where
  "split_ws s =
     (let t = dropWhile py_space s in
      if t = [] then []
      else takeWhile (\<lambda>c. \<not> py_space c) t # split_ws (dropWhile (\<lambda>c. \<not> py_space c) t))"
  by pat_completeness auto
termination
proof (relation "measure length", goal_cases)
  case (2 s t)
  have le: "length t \<le> length s" unfolding 2 by (rule length_dropWhile_le)
  from 2 have "\<not> py_space (hd t)" by (metis hd_dropWhile)
  with 2(2) have "length (dropWhile (\<lambda>c. \<not> py_space c) t) < length t"
    by (cases t) (auto simp: le_imp_less_Suc length_dropWhile_le)
  with le show ?case by simp
qed simp

declare split_ws.simps [simp del]

fun split_ws_max :: "nat \<Rightarrow> string \<Rightarrow> string list" where
  "split_ws_max n s =
     (let t = dropWhile py_space s in
      if t = [] then []
      else case n of 0 \<Rightarrow> [t]
           | Suc m \<Rightarrow> takeWhile (\<lambda>c. \<not> py_space c) t
                      # split_ws_max m (dropWhile (\<lambda>c. \<not> py_space c) t))"

declare split_ws_max.simps [simp del]

fun str_join :: "string \<Rightarrow> string list \<Rightarrow> string" where
  "str_join sep [] = []"
| "str_join sep [x] = x"
| "str_join sep (x # y # zs) = x @ sep @ str_join sep (y # zs)"

lemma str_join_Cons: "xs \<noteq> [] \<Longrightarrow> str_join sep (x # xs) = x @ sep @ str_join sep xs"
  by (cases xs) auto

lemma split_on_nonempty: "split_on sep s \<noteq> []"
  by (subst split_on.simps) (auto split: option.splits)

text \<open>Joining what was split gives the text back.\<close>

lemma join_split_on: "str_join sep (split_on sep s) = s"
proof (induction sep s rule: split_on.induct)
  case (1 sep s)
  show ?case
  proof (cases "str_find sep s")
    case None
    then show ?thesis by (simp add: split_on.simps)
  next
    case (Some i)
    show ?thesis
    proof (cases "sep = []")
      case True
      with Some show ?thesis by (simp add: split_on.simps)
    next
      case False
      from str_find_Some[OF Some] obtain ys where ys: "s = take i s @ sep @ ys"
        and len: "i + length sep \<le> length s" by auto
      from ys len have "drop (i + length sep) s = ys"
        by (metis append_eq_conv_conj drop_drop add.commute le_add1 length_take min.absorb2 order.trans)
      with 1[OF Some False] have "str_join sep (split_on sep ys) = ys" by simp
      moreover have "split_on sep s = take i s # split_on sep ys"
        using Some False \<open>drop (i + length sep) s = ys\<close> by (simp add: split_on.simps)
      ultimately show ?thesis using ys by (simp add: str_join_Cons split_on_nonempty)
    qed
  qed
qed

text \<open>Splitting at one character: the parts between its occurrences.\<close>

lemma str_find_char_None: "c \<notin> set s \<Longrightarrow> str_find [c] s = None"
  by (induction s) auto

lemma str_find_char_Some: "c \<notin> set a \<Longrightarrow> str_find [c] (a @ c # s) = Some (length a)"
  by (induction a) auto

lemma split_on_char: "c \<notin> set a \<Longrightarrow> split_on [c] a = [a]"
  by (simp add: split_on.simps str_find_char_None)

lemma split_on_char_append: "c \<notin> set a \<Longrightarrow> split_on [c] (a @ c # s) = a # split_on [c] s"
  by (subst split_on.simps) (simp add: str_find_char_Some)

lemma split_on_char_free: "x \<in> set (split_on [c] s) \<Longrightarrow> c \<notin> set x"
proof (induction "length s" arbitrary: s rule: less_induct)
  case less
  show ?case
  proof (cases "c \<in> set s")
    case False
    with less.prems show ?thesis by (simp add: split_on_char)
  next
    case True
    then obtain a b where s: "s = a @ c # b" "c \<notin> set a" by (metis split_list_first)
    then show ?thesis using less.hyps[of b] less.prems by (auto simp: split_on_char_append)
  qed
qed

lemma split_on_join:
  "xs \<noteq> [] \<Longrightarrow> \<forall>x \<in> set xs. c \<notin> set x \<Longrightarrow> split_on [c] (str_join [c] xs) = xs"
proof (induction xs)
  case (Cons x xs)
  then show ?case by (cases xs) (simp_all add: split_on_char split_on_char_append)
qed simp

lemma split_ws_word:
  assumes "w \<noteq> []" and "\<forall>c \<in> set w. \<not> py_space c"
  shows "split_ws w = [w]" and "py_space b \<Longrightarrow> split_ws (w @ b # s) = w # split_ws s"
proof -
  have hd: "\<not> py_space (hd w)" using assms by simp
  have drop: "dropWhile py_space (w @ r) = w @ r" for r using assms hd by (cases w) simp_all
  have take: "takeWhile (\<lambda>c. \<not> py_space c) w = w" "dropWhile (\<lambda>c. \<not> py_space c) w = []"
    using assms(2) by (simp_all add: takeWhile_eq_all_conv dropWhile_eq_Nil_conv)
  show "split_ws w = [w]"
  proof -
    have e: "split_ws [] = []" by (simp add: split_ws.simps)
    have "split_ws w = w # split_ws (dropWhile (\<lambda>c. \<not> py_space c) w)"
      using drop[of "[]"] take(1) assms(1) by (subst split_ws.simps) (simp del: split_ws.simps)
    then show ?thesis by (simp only: take(2) e)
  qed
  assume b: "py_space b"
  have "takeWhile (\<lambda>c. \<not> py_space c) (w @ b # s) = w" "dropWhile (\<lambda>c. \<not> py_space c) (w @ b # s) = b # s"
    using assms(2) b by (simp_all add: takeWhile_tail dropWhile_append1 takeWhile_append2 dropWhile_append2)
  moreover have "split_ws (b # s) = split_ws s" using b by (subst (1 2) split_ws.simps) simp
  ultimately show "split_ws (w @ b # s) = w # split_ws s"
    using drop assms(1) by (subst split_ws.simps) simp
qed

definition word :: "string \<Rightarrow> bool" where
  "word w = (w \<noteq> [] \<and> (\<forall>c \<in> set w. \<not> py_space c))"

lemma split_ws_words: "\<forall>w \<in> set ws. word w \<Longrightarrow> split_ws (str_join '' '' ws) = ws"
proof (induction ws)
  case (Cons w ws)
  have sp: "py_space (CHR '' '')" by (simp add: py_space_def)
  show ?case
  proof (cases ws)
    case Nil
    with Cons.prems show ?thesis using split_ws_word(1) by (simp add: word_def)
  next
    case (Cons v vs)
    then have "str_join '' '' (w # ws) = w @ CHR '' '' # str_join '' '' ws" by simp
    with Cons.IH Cons.prems show ?thesis using split_ws_word(2)[of w "CHR '' ''"] sp by (simp add: word_def)
  qed
qed (simp add: split_ws.simps)

lemma strip_words:
  assumes "\<forall>w \<in> set ws. word w"
  shows "strip (str_join '' '' ws) = str_join '' '' ws"
proof -
  let ?t = "str_join '' '' ws"
  have "ws \<noteq> [] \<longrightarrow> ?t \<noteq> [] \<and> \<not> py_space (hd ?t) \<and> \<not> py_space (last ?t)"
    using assms
  proof (induction ws)
    case (Cons w ws)
    then show ?case by (cases "ws = []") (auto simp: word_def str_join_Cons)
  qed simp
  then have "?t = [] \<or> \<not> py_space (hd ?t) \<and> \<not> py_space (last ?t)" by (cases "ws = []") simp_all
  then show ?thesis unfolding strip_def by (rule strip_id)
qed

text \<open>An item of a list of words: \<open>words[i]\<close>.\<close>

definition nth_field :: "string list \<Rightarrow> nat \<Rightarrow> string res" where
  "nth_field xs i = (if i < length xs then Inr (xs ! i) else Raise PyIndexError ''list index out of range'')"

section \<open>Lines\<close>

definition line_break :: "char \<Rightarrow> bool" where
  "line_break c = (c \<in> set [CHR 0x0A, CHR 0x0B, CHR 0x0C, CHR 0x0D, CHR 0x1C, CHR 0x1D, CHR 0x1E])"

text \<open>\<open>text.splitlines()\<close>: the accumulator is the line read so far, reversed.\<close>

fun splitlines_aux :: "string \<Rightarrow> string \<Rightarrow> string list" where
  "splitlines_aux acc [] = (if acc = [] then [] else [rev acc])"
| "splitlines_aux acc (c # s) =
     (if c = CHR 0x0D \<and> s \<noteq> [] \<and> hd s = CHR 0x0A then rev acc # splitlines_aux [] (tl s)
      else if line_break c then rev acc # splitlines_aux [] s
      else splitlines_aux (c # acc) s)"

definition splitlines :: "string \<Rightarrow> string list" where
  "splitlines s = splitlines_aux [] s"

section \<open>Case, justification, numbers\<close>

definition lower_char :: "char \<Rightarrow> char" where
  "lower_char c =
     (let n = of_char c :: nat in if 65 \<le> n \<and> n \<le> 90 then char_of (n + 32) else c)"

definition str_lower :: "string \<Rightarrow> string" where
  "str_lower = map lower_char"

definition ljust :: "nat \<Rightarrow> string \<Rightarrow> string" where
  "ljust n s = s @ replicate (n - length s) (CHR '' '')"

definition is_digit :: "char \<Rightarrow> bool" where
  "is_digit c = (c \<in> set ''0123456789'')"

text \<open>\<open>\w\<close> of the regular expressions, on ASCII text.\<close>

definition word_char :: "char \<Rightarrow> bool" where
  "word_char c =
     (let n = of_char c :: nat in is_digit c \<or> c = CHR ''_'' \<or> (97 \<le> n \<and> n \<le> 122) \<or> (65 \<le> n \<and> n \<le> 90))"

definition digit_val :: "char \<Rightarrow> nat" where
  "digit_val c = of_char c - 48"

definition nat_of_digits :: "string \<Rightarrow> nat" where
  "nat_of_digits s = foldl (\<lambda>n c. 10 * n + digit_val c) 0 s"

fun str_nat :: "nat \<Rightarrow> string" where
  "str_nat n = (if n < 10 then [char_of (48 + n)] else str_nat (n div 10) @ [char_of (48 + n mod 10)])"

declare str_nat.simps [simp del]

definition str_int :: "int \<Rightarrow> string" where
  "str_int i = (if i < 0 then CHR ''-'' # str_nat (nat (- i)) else str_nat (nat i))"

text \<open>\<open>int(text)\<close>: white space around, a sign, digits with single underscores between.\<close>

definition parse_digits :: "string \<Rightarrow> nat option" where
  "parse_digits s =
     (let ps = split_on ''_'' s
      in if list_all (\<lambda>p. p \<noteq> [] \<and> list_all is_digit p) ps
         then Some (nat_of_digits (concat ps)) else None)"

definition py_int :: "string \<Rightarrow> int res" where
  "py_int s =
     (let t = strip s; err = Raise PyValueError (''invalid literal for int() with base 10'')
      in case t of
           [] \<Rightarrow> err
         | c # ds \<Rightarrow>
             if c = CHR ''-'' then (case parse_digits ds of Some n \<Rightarrow> Inr (- int n) | None \<Rightarrow> err)
             else if c = CHR ''+'' then (case parse_digits ds of Some n \<Rightarrow> Inr (int n) | None \<Rightarrow> err)
             else (case parse_digits t of Some n \<Rightarrow> Inr (int n) | None \<Rightarrow> err))"

definition digit_char_ok :: "nat \<Rightarrow> bool" where
  "digit_char_ok n =
     (let c = char_of (48 + n) in is_digit c \<and> digit_val c = n \<and> \<not> py_space c \<and> c \<noteq> CHR ''_''
        \<and> c \<noteq> CHR ''-'' \<and> c \<noteq> CHR ''+'')"

lemma digit_chars_ok: "list_all digit_char_ok [0..<10]"
  by code_simp

lemma digit_char:
  assumes "n < (10::nat)"
  shows "is_digit (char_of (48 + n))" and "digit_val (char_of (48 + n)) = n"
    and "\<not> py_space (char_of (48 + n))" and "char_of (48 + n) \<noteq> CHR ''_''"
    and "char_of (48 + n) \<noteq> CHR ''-''" and "char_of (48 + n) \<noteq> CHR ''+''"
proof -
  have "digit_char_ok n" using digit_chars_ok assms by (auto simp only: list_all_iff set_upt atLeastLessThan_iff)
  then show "is_digit (char_of (48 + n))" and "digit_val (char_of (48 + n)) = n"
    and "\<not> py_space (char_of (48 + n))" and "char_of (48 + n) \<noteq> CHR ''_''"
    and "char_of (48 + n) \<noteq> CHR ''-''" and "char_of (48 + n) \<noteq> CHR ''+''"
    unfolding digit_char_ok_def Let_def by blast+
qed

lemma str_nat_chars: "c \<in> set (str_nat n) \<Longrightarrow> \<exists>d < 10. c = char_of (48 + d :: nat)"
proof (induction n rule: str_nat.induct)
  case (1 n)
  show ?case
  proof (cases "n < 10")
    case True
    with 1(2) show ?thesis by (auto simp: str_nat.simps[of n])
  next
    case False
    with 1 show ?thesis
      by (auto simp: str_nat.simps[of n] intro: exI[of _ "n mod 10"])
  qed
qed

lemma str_nat_nonempty: "str_nat n \<noteq> []"
  by (subst str_nat.simps) auto

lemma nat_of_digits_snoc: "nat_of_digits (s @ [c]) = 10 * nat_of_digits s + digit_val c"
  by (simp add: nat_of_digits_def)

lemma nat_of_digits_str_nat: "nat_of_digits (str_nat n) = n"
proof (induction n rule: str_nat.induct)
  case (1 n)
  show ?case
  proof (cases "n < 10")
    case True
    then show ?thesis by (simp add: str_nat.simps[of n] nat_of_digits_def digit_char)
  next
    case False
    with 1 have "nat_of_digits (str_nat (n div 10)) = n div 10" by simp
    with False show ?thesis
      by (simp add: str_nat.simps[of n] nat_of_digits_snoc digit_char)
  qed
qed

lemma str_find_absent: "CHR ''_'' \<notin> set s \<Longrightarrow> str_find ''_'' s = None"
  by (induction s) (auto simp: prefix_def)

lemma parse_digits_str_nat: "parse_digits (str_nat n) = Some n"
proof -
  have "CHR ''_'' \<notin> set (str_nat n)"
  proof
    assume "CHR ''_'' \<in> set (str_nat n)"
    then obtain d :: nat where "d < 10" "CHR ''_'' = char_of (48 + d)" using str_nat_chars by blast
    with digit_char(4)[of d] show False by simp
  qed
  then have "split_on ''_'' (str_nat n) = [str_nat n]"
    by (simp add: split_on.simps str_find_absent)
  moreover have "list_all is_digit (str_nat n)"
    using str_nat_chars[of _ n] digit_char(1) by (auto simp: list_all_iff)
  ultimately show ?thesis
    by (simp add: parse_digits_def str_nat_nonempty nat_of_digits_str_nat)
qed

text \<open>\<open>int(str(i)) == i\<close>.\<close>

lemma str_nat_char:
  assumes "c \<in> set (str_nat n)"
  shows "\<not> py_space c" and "c \<noteq> CHR ''-''" and "c \<noteq> CHR ''+''"
  using str_nat_chars[OF assms] digit_char(3,5,6) by auto

lemma strip_str_int: "strip (str_int i) = str_int i"
proof -
  have minus: "\<not> py_space (CHR ''-'')" by (simp add: py_space_def)
  have "\<not> py_space (hd (str_nat n))" and "\<not> py_space (last (str_nat n))" for n
    by (rule str_nat_char(1)[of _ n], simp add: str_nat_nonempty)+
  with minus show ?thesis
    unfolding strip_def str_int_def by (intro strip_id) (simp add: str_nat_nonempty)
qed

lemma py_int_error: "py_int s = Inl e \<Longrightarrow> isinstance_exn e PyValueError"
  by (auto simp: py_int_def Let_def isinstance_exn_def issubclass_def PyValueError_def split: list.splits if_splits option.splits)

lemma py_int_str_int: "py_int (str_int i) = Inr i"
proof (cases "i < 0")
  case True
  then have "str_int i = CHR ''-'' # str_nat (nat (- i))" by (simp add: str_int_def)
  with True show ?thesis
    using strip_str_int[of i] by (simp add: py_int_def parse_digits_str_nat)
next
  case False
  then have eq: "str_int i = str_nat (nat i)" by (simp add: str_int_def)
  obtain c cs where c: "str_nat (nat i) = c # cs"
    using str_nat_nonempty by (cases "str_nat (nat i)") auto
  have "c \<noteq> CHR ''-''" "c \<noteq> CHR ''+''"
    using str_nat_char(2,3)[of c "nat i"] c by auto
  moreover have "parse_digits (c # cs) = Some (nat i)"
    using parse_digits_str_nat[of "nat i"] c by simp
  ultimately show ?thesis
    using strip_str_int[of i] eq c False by (simp add: py_int_def)
qed

end
