(* ===== verification/Tobiko_Exceptions.thy ===== *)
theory Tobiko_Exceptions
  imports Py_Strings
begin

text \<open>
  tobiko/common/_exception.py: the base exception class with its message template, the
  type check, re-raising, and the treatment of testtools' \<open>MultipleExceptions\<close>.

  A template is formatted by Python's \<open>str.format\<close> with keyword arguments. How a property
  prints after the field name (\<open>!r\<close>, \<open>.attribute\<close>, ...) depends on the property's own
  class, so it is the parameter \<open>show\<close>.
\<close>

section \<open>str.format\<close>

datatype seg = Lit char | Field string

function fmt_parse :: "string \<Rightarrow> seg list res" where
  "fmt_parse [] = Inr []"
| "fmt_parse (c # s) =
     (if c = CHR ''{'' then
        if s \<noteq> [] \<and> hd s = CHR ''{'' then map_sum id ((#) (Lit c)) (fmt_parse (tl s))
        else if CHR ''}'' \<in> set s
        then map_sum id ((#) (Field (takeWhile (\<lambda>x. x \<noteq> CHR ''}'') s)))
               (fmt_parse (tl (dropWhile (\<lambda>x. x \<noteq> CHR ''}'') s)))
        else Raise PyValueError ''expected '}' before end of string''
      else if c = CHR ''}'' then
        if s \<noteq> [] \<and> hd s = CHR ''}'' then map_sum id ((#) (Lit c)) (fmt_parse (tl s))
        else Raise PyValueError ''Single '}' encountered in format string''
      else map_sum id ((#) (Lit c)) (fmt_parse s))"
  by pat_completeness auto
termination
proof (relation "measure length", goal_cases)
  case (3 c s)
  have "length (dropWhile (\<lambda>x. x \<noteq> CHR ''}'') s) \<le> length s" by (rule length_dropWhile_le)
  then show ?case by simp
qed auto

text \<open>The keyword of a replacement field: what precedes an attribute, index, conversion or format.\<close>

definition field_name :: "string \<Rightarrow> string" where
  "field_name f = takeWhile (\<lambda>c. c \<notin> set ''.[!:'') f"

definition field_spec :: "string \<Rightarrow> string" where
  "field_spec f = dropWhile (\<lambda>c. c \<notin> set ''.[!:'') f"

definition fmt_seg :: "('v \<Rightarrow> string \<Rightarrow> string res) \<Rightarrow> (string \<times> 'v) list \<Rightarrow> seg \<Rightarrow> string res" where
  "fmt_seg show props g =
     (case g of
        Lit c \<Rightarrow> Inr [c]
      | Field f \<Rightarrow>
          if list_all is_digit (field_name f)
          then Raise PyIndexError ''Replacement index out of range for positional args tuple''
          else (case map_of props (field_name f) of
                  None \<Rightarrow> Raise PyKeyError (field_name f)
                | Some v \<Rightarrow> show v (field_spec f)))"

definition str_format :: "('v \<Rightarrow> string \<Rightarrow> string res) \<Rightarrow> string \<Rightarrow> (string \<times> 'v) list \<Rightarrow> string res" where
  "str_format show template props =
     (case fmt_parse template of Inl e \<Rightarrow> Inl e
      | Inr segs \<Rightarrow> map_sum id concat (map_res (fmt_seg show props) segs))"

text \<open>The fields a template names.\<close>

definition template_fields :: "string \<Rightarrow> string list" where
  "template_fields template =
     (case fmt_parse template of Inl _ \<Rightarrow> []
      | Inr segs \<Rightarrow> concat (map (\<lambda>g. case g of Lit _ \<Rightarrow> [] | Field f \<Rightarrow> [field_name f]) segs))"

lemma map_res_Inl: "x \<in> set xs \<Longrightarrow> f x = Inl e \<Longrightarrow> \<exists>e'. map_res f xs = Inl e'"
  by (induction xs) (auto split: sum.splits)

text \<open>Formatting fails when the template names a keyword that is not given.\<close>

lemma str_format_missing:
  assumes "k \<in> set (template_fields template)" and "map_of props k = None"
  shows "\<exists>e. str_format show template props = Inl e"
proof (cases "fmt_parse template")
  case (Inr segs)
  with assms(1) obtain f where f: "Field f \<in> set segs" "k = field_name f"
    by (auto simp: template_fields_def split: seg.splits)
  obtain e where "fmt_seg show props (Field f) = Inl e"
    using assms(2) f(2) by (cases "list_all is_digit (field_name f)") (auto simp: fmt_seg_def)
  from map_res_Inl[of _ _ "fmt_seg show props", OF f(1) this]
  obtain e where "map_res (fmt_seg show props) segs = Inl e" by blast
  with Inr show ?thesis by (simp add: str_format_def)
qed (simp add: str_format_def)

section \<open>TobikoException\<close>

definition TobikoException :: pyclass where
  "TobikoException = ''TobikoException'' # PyException"

declare TobikoException_def [exn_classes]

text \<open>
  \<open>__init__\<close>: the message given, or the class attribute \<open>message\<close>, formatted when there
  are properties. An exception of the formatting leaves the constructor.
\<close>

definition tobiko_exception ::
  "('v \<Rightarrow> string \<Rightarrow> string res) \<Rightarrow> pyclass \<Rightarrow> string \<Rightarrow> string option \<Rightarrow> (string \<times> 'v) list \<Rightarrow> exn res" where
  "tobiko_exception show cls cls_message message props =
     (let message = (case message of Some m \<Rightarrow> if m \<noteq> [] then m else cls_message | None \<Rightarrow> cls_message)
      in if props \<noteq> []
         then (case str_format show message props of Inl e \<Rightarrow> Inl e | Inr m \<Rightarrow> Inr (Exn cls m))
         else Inr (Exn cls message))"

text \<open>What the statement \<open>raise Cls(prop=..., ...)\<close> raises.\<close>

definition raised ::
  "('v \<Rightarrow> string \<Rightarrow> string res) \<Rightarrow> pyclass \<Rightarrow> string \<Rightarrow> (string \<times> 'v) list \<Rightarrow> exn" where
  "raised show cls cls_message props =
     (case tobiko_exception show cls cls_message None props of Inl e \<Rightarrow> e | Inr e \<Rightarrow> e)"

text \<open>\<open>__getattr__\<close>: an unknown attribute is looked up among the properties.\<close>

definition exception_getattr :: "(string \<times> 'v) list \<Rightarrow> string \<Rightarrow> 'v res" where
  "exception_getattr props name =
     (case map_of props name of Some v \<Rightarrow> Inr v
      | None \<Rightarrow> Raise PyAttributeError (''object has no attribute '' @ name))"

text \<open>\<open>__eq__\<close>: the same class and the same text.\<close>

definition exception_eq :: "exn \<Rightarrow> exn \<Rightarrow> bool" where
  "exception_eq a b = (exn_class a = exn_class b \<and> exn_msg a = exn_msg b)"

definition check_valid_type ::
  "('a \<Rightarrow> pyclass) \<Rightarrow> ('a \<Rightarrow> string) \<Rightarrow> (pyclass \<Rightarrow> string) \<Rightarrow> 'a \<Rightarrow> pyclass list \<Rightarrow> 'a res" where
  "check_valid_type type_of repr str_of obj valid_types =
     (if \<not> list_ex (issubclass (type_of obj)) valid_types
      then Raise PyTypeError
             (''Object '' @ repr obj @ '' is not of a valid type ('' @
              str_join '', '' (map str_of valid_types) @ '')'')
      else Inr obj)"

section \<open>Re-raising\<close>

record exception_info =
  ei_type :: "pyclass option"
  ei_value :: "exn option"
  reraise_on_exit :: bool

text \<open>\<open>reraise(tp, value, tb)\<close> never returns.\<close>

definition reraise :: "pyclass \<Rightarrow> exn option \<Rightarrow> exn" where
  "reraise tp value = (case value of None \<Rightarrow> Exn tp [] | Some v \<Rightarrow> v)"

definition info_reraise :: "exception_info \<Rightarrow> unit res" where
  "info_reraise i = (case ei_type i of None \<Rightarrow> Inr () | Some tp \<Rightarrow> Inl (reraise tp (ei_value i)))"

text \<open>\<open>exc_info()\<close> reads the exception being handled, if any.\<close>

definition exc_info :: "exn option \<Rightarrow> bool \<Rightarrow> exception_info" where
  "exc_info handled on_exit =
     \<lparr>ei_type = map_option exn_class handled, ei_value = handled, reraise_on_exit = on_exit\<rparr>"

definition info_exit :: "exception_info \<Rightarrow> unit res" where
  "info_exit i = (if reraise_on_exit i then info_reraise i else Inr ())"

lemma info_reraise_exc_info [simp]:
  "info_reraise (exc_info handled b) = (case handled of None \<Rightarrow> Inr () | Some e \<Rightarrow> Inl e)"
  by (simp add: info_reraise_def exc_info_def reraise_def split: option.split)

section \<open>MultipleExceptions\<close>

text \<open>
  An exception object of testtools, with its identity: a single exception, or a
  \<open>MultipleExceptions\<close> whose arguments are the information of other exceptions.
\<close>

datatype exc = Single (exc_id: nat) exn | Multi (exc_id: nat) "exc list"

text \<open>
  Membership in a Python set of exceptions: TobikoExceptions compare by class and text,
  every other exception by identity.
\<close>

fun exc_eq :: "exc \<Rightarrow> exc \<Rightarrow> bool" where
  "exc_eq (Single i a) (Single j b) =
     (i = j \<or> (isinstance_exn a TobikoException \<and> exception_eq a b))"
| "exc_eq (Multi i xs) (Multi j ys) = (i = j)"
| "exc_eq _ _ = False"

text \<open>
  The loop of \<open>list_exc_infos\<close>. The stack \<open>visiting\<close> has its top at the head; the code
  pushes the arguments reversed, so that the first argument is the next one popped.
\<close>

function list_exc_loop :: "exc list \<Rightarrow> exc list \<Rightarrow> exc list" where
  "list_exc_loop visited [] = []"
| "list_exc_loop visited (x # visiting) =
     (if \<exists>v \<in> set visited. exc_eq v x then list_exc_loop visited visiting
      else case x of
             Multi i args \<Rightarrow> list_exc_loop (x # visited) (args @ visiting)
           | Single i e \<Rightarrow> x # list_exc_loop (x # visited) visiting)"
  by pat_completeness auto
termination
  by (relation "measure (\<lambda>(v, xs). size_list size xs)") auto

definition list_exc_infos :: "exc option \<Rightarrow> exc list" where
  "list_exc_infos info = (case info of None \<Rightarrow> [] | Some x \<Rightarrow> list_exc_loop [] [x])"

text \<open>
  \<open>handle_multiple_exceptions\<close> around a body that ended with a value or an exception: the
  first exception of a \<open>MultipleExceptions\<close> is raised again, the others go to the handler,
  whose own \<open>Exception\<close>s are only logged; an empty one is swallowed.
\<close>

fun handle_others :: "(exc \<Rightarrow> ('s, unit) act) \<Rightarrow> exc list \<Rightarrow> ('s, unit) act" where
  "handle_others h [] s = (Inr (), s)"
| "handle_others h (x # xs) s =
     (case h x s of
        (Inr _, t) \<Rightarrow> handle_others h xs t
      | (Inl e, t) \<Rightarrow> if catches [PyException] e then handle_others h xs t else (Inl e, t))"

definition handle_multiple_exceptions ::
  "(exc \<Rightarrow> ('s, unit) act) \<Rightarrow> nat \<Rightarrow> (exc + 'a) \<times> 's \<Rightarrow> (exc + 'a option) \<times> 's" where
  "handle_multiple_exceptions h new_id body =
     (case body of
        (Inr a, s) \<Rightarrow> (Inr (Some a), s)
      | (Inl (Single i e), s) \<Rightarrow> (Inl (Single i e), s)
      | (Inl (Multi i args), s) \<Rightarrow>
          (case list_exc_infos (Some (Multi i args)) of
             [] \<Rightarrow> (Inr None, s)
           | x # xs \<Rightarrow>
               (case handle_others h xs s of
                  (Inl e, t) \<Rightarrow> (Inl (Single new_id e), t)
                | (Inr _, t) \<Rightarrow> (Inl x, t))))"

section \<open>What list_exc_infos returns\<close>

fun leaves :: "exc \<Rightarrow> exc list" where
  "leaves (Single i e) = [Single i e]"
| "leaves (Multi i args) = concat (map leaves args)"

fun subexcs :: "exc \<Rightarrow> exc list" where
  "subexcs (Single i e) = [Single i e]"
| "subexcs (Multi i args) = Multi i args # concat (map subexcs args)"

text \<open>Objects with the same identity are the same object.\<close>

definition same_objects :: "exc set \<Rightarrow> bool" where
  "same_objects X = (\<forall>x \<in> X. \<forall>y \<in> X. exc_id x = exc_id y \<longrightarrow> x = y)"

definition covered :: "exc list \<Rightarrow> exc list \<Rightarrow> bool" where
  "covered seen xs = (\<forall>x \<in> set xs. \<exists>v \<in> set seen. exc_eq v x)"

lemma exc_eq_refl [simp]: "exc_eq x x"
  by (cases x) auto

lemma leaves_Single: "l \<in> set (leaves x) \<Longrightarrow> \<exists>i e. l = Single i e"
  by (induction x rule: leaves.induct) auto

lemma leaves_nest: "y \<in> set (leaves x) \<Longrightarrow> y \<in> set (subexcs x)"
  by (induction x rule: leaves.induct) auto

lemma uniq_onto_covered: "covered seen xs \<Longrightarrow> uniq_onto exc_eq seen (xs @ ys) = uniq_onto exc_eq seen ys"
  by (induction xs) (auto simp: covered_def)

lemma size_arg: "x \<in> set args \<Longrightarrow> size x < size (Multi i args)"
  using size_list_estimation'[of x args "size x" size] by (simp add: less_Suc_eq_le)

lemma subexcs_self: "x \<in> set (subexcs x)"
  by (cases x) auto

text \<open>Adding a \<open>Multi\<close> to the seen exceptions does not hide a leaf.\<close>

lemma uniq_onto_Multi:
  assumes "\<forall>l \<in> set ls. \<exists>i e. l = Single i e"
  shows "uniq_onto exc_eq (a @ Multi i args # b) ls = uniq_onto exc_eq (a @ b) ls"
  using assms
proof (induction ls arbitrary: a)
  case (Cons l ls)
  have "uniq_onto exc_eq ((l # a) @ Multi i args # b) ls = uniq_onto exc_eq ((l # a) @ b) ls"
    using Cons by (intro Cons.IH) auto
  moreover have "\<not> exc_eq (Multi i args) l" using Cons.prems by auto
  ultimately show ?case using Cons by auto
qed simp

text \<open>
  Among objects with consistent identities the comparison is transitive.
\<close>

lemma same_objectsD:
  "same_objects U \<Longrightarrow> x \<in> U \<Longrightarrow> y \<in> U \<Longrightarrow> exc_id x = exc_id y \<Longrightarrow> x = y"
  unfolding same_objects_def by blast

lemma exc_eq_cases:
  assumes "same_objects U" "a \<in> U" "b \<in> U" "exc_eq a b"
  obtains "a = b"
  | i e j f where "a = Single i e" "b = Single j f" "isinstance_exn e TobikoException"
      "exception_eq e f"
proof (cases "exc_id a = exc_id b")
  case True
  then show ?thesis using assms same_objectsD that(1) by blast
next
  case False
  then show ?thesis using assms(4) that(2) by (cases a; cases b) auto
qed

lemma exception_eq_isinstance:
  "exception_eq e f \<Longrightarrow> isinstance_exn f c = isinstance_exn e c"
  by (simp add: exception_eq_def isinstance_exn_def)

lemma exc_eq_trans:
  assumes "same_objects U" "a \<in> U" "b \<in> U" "c \<in> U" "exc_eq a b" "exc_eq b c"
  shows "exc_eq a c"
proof (rule exc_eq_cases[OF assms(1,2,3,5)])
  fix i e j f
  assume ab: "a = Single i e" "b = Single j f" "isinstance_exn e TobikoException" "exception_eq e f"
  show ?thesis
    by (rule exc_eq_cases[OF assms(1,3,4,6)]) (use ab in \<open>auto simp: exception_eq_def\<close>)
qed (use assms(6) in simp)

text \<open>
  The invariant of the loop: for every \<open>MultipleExceptions\<close> already expanded, its leaves
  have been visited or are still due in a top part of the stack of smaller exceptions.
\<close>

definition due :: "exc list \<Rightarrow> exc list \<Rightarrow> exc \<Rightarrow> bool" where
  "due visited stack m =
     (\<exists>top rest. stack = top @ rest \<and> (\<forall>y \<in> set top. size y < size m) \<and>
        covered (visited @ concat (map leaves top)) (leaves m))"

definition exc_inv :: "exc set \<Rightarrow> exc list \<Rightarrow> exc list \<Rightarrow> bool" where
  "exc_inv U visited stack =
     (same_objects U \<and> (\<forall>x \<in> set visited \<union> set stack. set (subexcs x) \<subseteq> U) \<and>
      (\<forall>m \<in> set visited. \<forall>i args. m = Multi i args \<longrightarrow> due visited stack m))"

lemma covered_mono: "covered seen xs \<Longrightarrow> set seen \<subseteq> set seen' \<Longrightarrow> covered seen' xs"
  unfolding covered_def by blast

lemma exc_inv_D:
  assumes "exc_inv U visited stack"
  shows "same_objects U" and "x \<in> set visited \<union> set stack \<Longrightarrow> set (subexcs x) \<subseteq> U"
    and "x \<in> set visited \<union> set stack \<Longrightarrow> x \<in> U"
    and "Multi i args \<in> set visited \<Longrightarrow> due visited stack (Multi i args)"
  using assms subexcs_self[of x] unfolding exc_inv_def by blast+

lemma seen_covered:
  assumes inv: "exc_inv U visited (x # stack)" and v: "v \<in> set visited" "exc_eq v x"
  shows "covered visited (leaves x)"
proof (cases x)
  case (Single i e)
  with v show ?thesis by (auto simp: covered_def)
next
  case (Multi i args)
  with v(2) obtain args' where va: "v = Multi i args'" by (cases v) auto
  have "v \<in> U" "x \<in> U" using exc_inv_D(3)[OF inv] v(1) by auto
  with va Multi have "v = x" by (intro same_objectsD[OF exc_inv_D(1)[OF inv]]) auto
  then have "due visited (x # stack) x" using exc_inv_D(4)[OF inv, of i args] v(1) Multi by simp
  then obtain top rest where t: "x # stack = top @ rest" "\<forall>y \<in> set top. size y < size x"
    "covered (visited @ concat (map leaves top)) (leaves x)" by (auto simp: due_def)
  from t(1,2) have "top = []" by (cases top) auto
  with t(3) show ?thesis by simp
qed

lemma due_pop_seen:
  assumes inv: "exc_inv U visited (x # stack)" and cov: "covered visited (leaves x)"
    and m: "m \<in> set visited" and d: "due visited (x # stack) m"
  shows "due visited stack m"
proof -
  from d obtain top rest where t: "x # stack = top @ rest" "\<forall>y \<in> set top. size y < size m"
    "covered (visited @ concat (map leaves top)) (leaves m)" by (auto simp: due_def)
  show ?thesis
  proof (cases top)
    case Nil
    with t(3) show ?thesis by (auto simp: due_def intro: exI[of _ "[]"])
  next
    case (Cons y top')
    with t(1) have top: "y = x" "stack = top' @ rest" by auto
    have "\<exists>w \<in> set (visited @ concat (map leaves top')). exc_eq w l" if l: "l \<in> set (leaves m)" for l
    proof -
      from t(3) l obtain w where "w \<in> set (visited @ concat (map leaves top))" "exc_eq w l"
        unfolding covered_def by blast
      then have w: "w \<in> set visited \<or> w \<in> set (leaves x) \<or> w \<in> set (concat (map leaves top'))"
        "exc_eq w l" using Cons top(1) by auto
      show ?thesis
      proof (cases "w \<in> set (leaves x)")
        case True
        with cov obtain v where v: "v \<in> set visited" "exc_eq v w" by (auto simp: covered_def)
        have "v \<in> U" "w \<in> U" "l \<in> U"
          using exc_inv_D(2,3)[OF inv] v(1) leaves_nest[OF True] leaves_nest[OF l] m by auto
        with v(2) w(2) have "exc_eq v l" using exc_eq_trans exc_inv_D(1)[OF inv] by blast
        with v(1) show ?thesis by auto
      qed (use w in auto)
    qed
    with top(2) t(2) Cons show ?thesis by (auto simp: due_def covered_def)
  qed
qed

lemma due_push:
  assumes d: "due visited (x # stack) m" and "\<forall>y \<in> set new. size y < size x"
    and "set (leaves x) \<subseteq> insert x (set (concat (map leaves new)))"
  shows "due (x # visited) (new @ stack) m"
proof -
  from d obtain top rest where t: "x # stack = top @ rest" "\<forall>y \<in> set top. size y < size m"
    "covered (visited @ concat (map leaves top)) (leaves m)" by (auto simp: due_def)
  show ?thesis
  proof (cases top)
    case Nil
    with t(3) have "covered (x # visited) (leaves m)" by (auto intro: covered_mono)
    then show ?thesis by (auto simp: due_def intro: exI[of _ "[]"])
  next
    case (Cons y top')
    with t(1) have top: "y = x" "stack = top' @ rest" by auto
    have "covered ((x # visited) @ concat (map leaves (new @ top'))) (leaves m)"
      using t(3) by (rule covered_mono) (use assms(3) Cons top(1) in auto)
    moreover have "\<forall>z \<in> set (new @ top'). size z < size m"
      using assms(2) t(2) Cons top(1) by fastforce
    ultimately show ?thesis unfolding due_def top(2) by (metis append.assoc)
  qed
qed

lemma list_exc_loop_leaves:
  "exc_inv U visited stack \<Longrightarrow>
     list_exc_loop visited stack = uniq_onto exc_eq visited (concat (map leaves stack))"
proof (induction visited stack rule: list_exc_loop.induct)
  case (2 visited x stack)
  note D = exc_inv_D[OF 2(4)]
  show ?case
  proof (cases "\<exists>v \<in> set visited. exc_eq v x")
    case True
    with seen_covered[OF 2(4)] have cov: "covered visited (leaves x)" by blast
    have "exc_inv U visited stack"
      using 2(4) due_pop_seen[OF 2(4) cov] unfolding exc_inv_def by auto
    with 2(1)[OF True] True cov show ?thesis by (simp add: uniq_onto_covered)
  next
    case False
    show ?thesis
    proof (cases x)
      case (Single i e)
      have "exc_inv U (x # visited) stack"
        using 2(4) due_push[of visited x stack _ "[]"] Single unfolding exc_inv_def by auto
      with 2(2)[OF False Single] False Single show ?thesis by simp
    next
      case (Multi i args)
      have sizes: "\<forall>y \<in> set args. size y < size x" using size_arg Multi by blast
      have "due (x # visited) (args @ stack) x"
        unfolding due_def by (rule exI[of _ args], rule exI[of _ stack])
          (use sizes Multi in \<open>auto simp: covered_def intro: exc_eq_refl\<close>)
      moreover have "due (x # visited) (args @ stack) m" if "m \<in> set visited" "m = Multi j as" for m j as
        using due_push[of visited x stack m args] D(4)[of j as] that sizes Multi by auto
      moreover have "\<forall>y \<in> set args. set (subexcs y) \<subseteq> U" using D(2)[of x] Multi by auto
      ultimately have "exc_inv U (x # visited) (args @ stack)"
        using 2(4) unfolding exc_inv_def by auto
      then have "list_exc_loop (x # visited) (args @ stack)
          = uniq_onto exc_eq (x # visited) (concat (map leaves (args @ stack)))"
        using 2(3)[OF False Multi] by blast
      also have "\<dots> = uniq_onto exc_eq visited (concat (map leaves (args @ stack)))"
        using uniq_onto_Multi[of "concat (map leaves (args @ stack))" "[]" i args visited] Multi
          leaves_Single by fastforce
      finally show ?thesis using False Multi by simp
    qed
  qed
qed simp

lemma list_exc_infos_uniq:
  "same_objects (set (subexcs x)) \<Longrightarrow> list_exc_infos (Some x) = uniq_onto exc_eq [] (leaves x)"
  using list_exc_loop_leaves[of "set (subexcs x)" "[]" "[x]"]
  by (simp add: exc_inv_def list_exc_infos_def)

text \<open>
  Property (C5). \<open>list_exc_infos\<close> of an exception returns the single exceptions nested in it,
  left to right, each one once: an exception seen before (the same object, or an equal
  TobikoException) is left out, and the walk ends however deep the nesting is.
\<close>
theorem list_exc_infos_leaves:
  assumes "same_objects (set (subexcs x))"
  shows "list_exc_infos (Some x) = uniq_onto exc_eq [] (leaves x)"
  by (rule list_exc_infos_uniq[OF assms])

lemma list_exc_infos_leaves_witness:
  "list_exc_infos (Some (Multi 0 [Multi 1 [Single 2 (Exn PyValueError ''a''), Single 3 (Exn PyKeyError ''b'')],
                                  Single 2 (Exn PyValueError ''a'')]))
     = [Single 2 (Exn PyValueError ''a''), Single 3 (Exn PyKeyError ''b'')]"
  by (subst list_exc_infos_leaves) (auto simp: same_objects_def isinstance_exn_def issubclass_def exn_classes)

lemma handle_others_Exceptions:
  assumes "\<And>x s e t. h x s = (Inl e, t) \<Longrightarrow> catches [PyException] e"
  shows "\<exists>t. handle_others h xs s = (Inr (), t)"
  using assms by (induction xs arbitrary: s) (fastforce split: prod.splits sum.splits)+

text \<open>With a handler that only writes to the log, nothing else happens to the state.\<close>

lemma handle_others_log: "handle_others (\<lambda>x s. (Inr (), s)) xs s = (Inr (), s)"
  by (induction xs) simp_all

lemma handle_multiple_log:
  assumes "same_objects (set (subexcs (Multi i args)))"
  shows "handle_multiple_exceptions (\<lambda>x s. (Inr (), s)) n (Inl (Multi i args), s) =
           (case leaves (Multi i args) of [] \<Rightarrow> Inr None | l # _ \<Rightarrow> Inl l, s)"
  using list_exc_infos_uniq[OF assms]
  by (cases "leaves (Multi i args)")
    (simp_all add: handle_multiple_exceptions_def handle_others_log del: leaves.simps)

text \<open>
  When the body of \<open>handle_multiple_exceptions\<close> raises a \<open>MultipleExceptions\<close>
  and the handler raises only ordinary exceptions, the exception that goes on is the first
  one nested in it; a \<open>MultipleExceptions\<close> with nothing nested is swallowed.
\<close>
theorem handle_multiple_exceptions_first:
  assumes "same_objects (set (subexcs (Multi i args)))"
    and "\<And>x s e t. h x s = (Inl e, t) \<Longrightarrow> catches [PyException] e"
  shows "fst (handle_multiple_exceptions h n (Inl (Multi i args), s)) =
           (case leaves (Multi i args) of [] \<Rightarrow> Inr None | l # _ \<Rightarrow> Inl l)"
proof -
  note list_exc_infos_uniq[OF assms(1)]
  moreover obtain t where "handle_others h (tl (uniq_onto exc_eq [] (leaves (Multi i args)))) s = (Inr (), t)"
    using handle_others_Exceptions[of h] assms(2) by blast
  ultimately show ?thesis
    by (cases "leaves (Multi i args)") (simp_all add: handle_multiple_exceptions_def del: leaves.simps)
qed

lemma handle_multiple_exceptions_first_witness:
  "fst (handle_multiple_exceptions (\<lambda>x (s :: nat). (Inr (), Suc s)) 9
          (Inl (Multi 0 [Multi 1 [], Single 2 (Exn PyValueError ''a''), Single 3 (Exn PyKeyError ''b'')]), 0)
          :: (exc + nat option) \<times> nat)
     = Inl (Single 2 (Exn PyValueError ''a''))"
  by (subst handle_multiple_exceptions_first) (auto simp: same_objects_def)

end
