(* ===== verification/Tobiko_Select.thy ===== *)
theory Tobiko_Select
  imports Tobiko_Exceptions "HOL-Library.Multiset"
begin

text \<open>
  tobiko/common/_select.py: selections, the lists of objects every listing function of
  tobiko returns, with selection by predicate, by attributes and by dictionary items.

  A selection is the list of its objects. Reading an attribute may raise, so the
  accessor is a parameter \<open>getattr\<close> with a result. A matcher is a compiled pattern,
  modelled by its \<open>match\<close> method, or a value to compare with.
\<close>

section \<open>Matchers\<close>

datatype 'v matcher = MPattern "'v \<Rightarrow> bool res" | MValue 'v

definition match_value :: "'v matcher \<Rightarrow> 'v \<Rightarrow> bool res" where
  "match_value matcher value =
     (case matcher of MPattern p \<Rightarrow> p value | MValue v \<Rightarrow> Inr (v = value))"

text \<open>\<open>equal_attributes\<close>: the first attribute whose matching is \<open>inverse\<close> (here \<open>inverted\<close>) decides.\<close>

fun equal_attributes ::
  "('o \<Rightarrow> string \<Rightarrow> 'v res) \<Rightarrow> 'o \<Rightarrow> (string \<times> 'v matcher) list \<Rightarrow> bool \<Rightarrow> bool res" where
  "equal_attributes getattr obj [] inverted = Inr True"
| "equal_attributes getattr obj ((key, matcher) # attributes) inverted =
     (case getattr obj key of Inl e \<Rightarrow> Inl e
      | Inr value \<Rightarrow>
          (case match_value matcher value of Inl e \<Rightarrow> Inl e
           | Inr matching \<Rightarrow>
               if matching = inverted then Inr False
               else equal_attributes getattr obj attributes inverted))"

text \<open>\<open>obj[key]\<close> of a dictionary.\<close>

definition dict_get :: "(string \<times> 'v) list \<Rightarrow> string \<Rightarrow> 'v res" where
  "dict_get obj key = (case map_of obj key of None \<Rightarrow> Raise PyKeyError key | Some v \<Rightarrow> Inr v)"

fun equal_items ::
  "(string \<times> 'v) list \<Rightarrow> (string \<times> 'v matcher) list \<Rightarrow> bool \<Rightarrow> bool res" where
  "equal_items obj [] inverted = Inr True"
| "equal_items obj ((key, matcher) # items) inverted =
     (case dict_get obj key of Inl e \<Rightarrow> Inl e
      | Inr value \<Rightarrow>
          (case match_value matcher value of Inl e \<Rightarrow> Inl e
           | Inr matching \<Rightarrow>
               if matching = inverted then Inr False else equal_items obj items inverted))"

section \<open>Selections\<close>

text \<open>\<open>select(predicate, expect)\<close>: the objects in order; the first exception ends it.\<close>

fun select :: "('o \<Rightarrow> bool res) \<Rightarrow> bool \<Rightarrow> 'o list \<Rightarrow> 'o list res" where
  "select predicate expect [] = Inr []"
| "select predicate expect (obj # objs) =
     (case predicate obj of Inl e \<Rightarrow> Inl e
      | Inr b \<Rightarrow>
          (case select predicate expect objs of Inl e \<Rightarrow> Inl e
           | Inr rest \<Rightarrow> Inr (if b = expect then obj # rest else rest)))"

definition unselect :: "('o \<Rightarrow> bool res) \<Rightarrow> 'o list \<Rightarrow> 'o list res" where
  "unselect predicate objs = select predicate False objs"

definition with_attributes ::
  "('o \<Rightarrow> string \<Rightarrow> 'v res) \<Rightarrow> (string \<times> 'v matcher) list \<Rightarrow> 'o list \<Rightarrow> 'o list res" where
  "with_attributes getattr attributes objs =
     select (\<lambda>obj. equal_attributes getattr obj attributes False) True objs"

definition without_attributes ::
  "('o \<Rightarrow> string \<Rightarrow> 'v res) \<Rightarrow> (string \<times> 'v matcher) list \<Rightarrow> 'o list \<Rightarrow> 'o list res" where
  "without_attributes getattr attributes objs =
     select (\<lambda>obj. equal_attributes getattr obj attributes True) True objs"

definition with_items ::
  "(string \<times> 'v matcher) list \<Rightarrow> (string \<times> 'v) list list \<Rightarrow> (string \<times> 'v) list list res" where
  "with_items items objs = select (\<lambda>obj. equal_items obj items False) True objs"

definition without_items ::
  "(string \<times> 'v matcher) list \<Rightarrow> (string \<times> 'v) list list \<Rightarrow> (string \<times> 'v) list list res" where
  "without_items items objs = select (\<lambda>obj. equal_items obj items True) True objs"

text \<open>\<open>select_uniques\<close> appends to the destination what is not in it yet.\<close>

fun select_uniques :: "'o list \<Rightarrow> 'o list \<Rightarrow> 'o list" where
  "select_uniques [] destination = destination"
| "select_uniques (obj # objs) destination =
     (if obj \<notin> set destination then select_uniques objs (destination @ [obj])
      else select_uniques objs destination)"

definition ObjectNotFound :: pyclass where
  "ObjectNotFound = ''ObjectNotFound'' # TobikoException"

definition MultipleObjectsFound :: pyclass where
  "MultipleObjectsFound = ''MultipleObjectsFound'' # TobikoException"

declare ObjectNotFound_def [exn_classes] MultipleObjectsFound_def [exn_classes]

definition object_not_found :: exn where
  "object_not_found = Exn ObjectNotFound ''Object not found''"

definition select_first :: "'o list \<Rightarrow> 'o res" where
  "select_first objs = (case objs of [] \<Rightarrow> Inl object_not_found | x # _ \<Rightarrow> Inr x)"

definition select_last :: "'o list \<Rightarrow> 'o res" where
  "select_last objs = (case objs of [] \<Rightarrow> Inl object_not_found | _ \<Rightarrow> Inr (last objs))"

text \<open>
  \<open>unique\<close>. The list is passed to \<open>MultipleObjectsFound\<close> as its message, not as the property
  \<open>objects\<close> of the class's template, so the text of the exception is the list itself.
\<close>

definition select_unique :: "('o list \<Rightarrow> string) \<Rightarrow> 'o list \<Rightarrow> 'o res" where
  "select_unique repr objs =
     (if length objs > 1 then Inl (Exn MultipleObjectsFound (repr objs)) else select_first objs)"

section \<open>Lemmas\<close>

lemma select_Inr:
  assumes "\<And>x. x \<in> set xs \<Longrightarrow> p x = Inr (q x)"
  shows "select p b xs = Inr (filter (\<lambda>x. q x = b) xs)"
  using assms by (induction xs) auto

lemma select_Inr_iff:
  "select p b xs = Inr ys \<Longrightarrow> \<forall>x \<in> set xs. \<exists>c. p x = Inr c"
  by (induction xs arbitrary: ys) (auto split: sum.splits)

lemma equal_attributes_Inr:
  assumes "\<And>k m. (k, m) \<in> set attrs \<Longrightarrow> getattr obj k = Inr (val k)"
    and "\<And>k m. (k, m) \<in> set attrs \<Longrightarrow> match_value m (val k) = Inr (ok k m)"
  shows "equal_attributes getattr obj attrs neg = Inr (\<forall>(k, m) \<in> set attrs. ok k m \<noteq> neg)"
  using assms
proof (induction attrs)
  case (Cons a attrs)
  obtain k m where a: "a = (k, m)" by (cases a)
  have "equal_attributes getattr obj attrs neg = Inr (\<forall>(k, m) \<in> set attrs. ok k m \<noteq> neg)"
    by (rule Cons.IH) (use Cons.prems in auto)
  moreover have "getattr obj k = Inr (val k)" "match_value m (val k) = Inr (ok k m)"
    using Cons.prems a by auto
  ultimately show ?case using a by simp
qed simp

lemma select_first_iff: "select_first xs = Inr x \<longleftrightarrow> (\<exists>ys. xs = x # ys)"
  by (cases xs) (auto simp: select_first_def)

lemma set_select_uniques: "set (select_uniques xs d) = set d \<union> set xs"
  by (induction xs arbitrary: d) auto

section \<open>Properties\<close>

text \<open>
  On objects whose attributes can be read and matched, \<open>with_attributes\<close> keeps
  the objects all of whose attributes match and \<open>without_attributes\<close> keeps the objects none
  of whose attributes match, both in order: with several attributes an object of which
  only some match is in neither of the two.
\<close>
theorem with_without_attributes:
  assumes "\<And>obj k m. obj \<in> set objs \<Longrightarrow> (k, m) \<in> set attrs \<Longrightarrow> getattr obj k = Inr (val obj k)"
    and "\<And>obj k m. obj \<in> set objs \<Longrightarrow> (k, m) \<in> set attrs \<Longrightarrow>
           match_value m (val obj k) = Inr (ok obj k m)"
  shows "with_attributes getattr attrs objs =
           Inr (filter (\<lambda>obj. \<forall>(k, m) \<in> set attrs. ok obj k m) objs) \<and>
         without_attributes getattr attrs objs =
           Inr (filter (\<lambda>obj. \<forall>(k, m) \<in> set attrs. \<not> ok obj k m) objs)"
proof -
  have eq: "equal_attributes getattr obj attrs neg = Inr (\<forall>(k, m) \<in> set attrs. ok obj k m \<noteq> neg)"
    if "obj \<in> set objs" for obj neg
    using equal_attributes_Inr[of attrs getattr obj "val obj" "ok obj" neg] assms that by blast
  show ?thesis
    unfolding with_attributes_def without_attributes_def
    using select_Inr[of objs, OF eq[of _ False]] select_Inr[of objs, OF eq[of _ True]] by simp
qed

definition pair_attr :: "nat \<times> nat \<Rightarrow> string \<Rightarrow> nat" where
  "pair_attr obj k = (if k = ''a'' then fst obj else snd obj)"

lemma with_without_attributes_witness:
  "with_attributes (\<lambda>obj k. Inr (pair_attr obj k))
       [(''a'', MValue 1), (''b'', MValue 2)] [(1, 2), (1, 3), (4, 5)] = Inr [(1, 2)] \<and>
   without_attributes (\<lambda>obj k. Inr (pair_attr obj k))
       [(''a'', MValue 1), (''b'', MValue 2)] [(1, 2), (1, 3), (4, 5)] = Inr [(4, 5)]"
proof -
  let ?objs = "[(1, 2), (1, 3), (4, 5)] :: (nat \<times> nat) list"
  let ?attrs = "[(''a'', MValue 1), (''b'', MValue 2)] :: (string \<times> nat matcher) list"
  have "with_attributes (\<lambda>obj k. Inr (pair_attr obj k)) ?attrs ?objs =
          Inr (filter (\<lambda>obj. \<forall>(k, m) \<in> set ?attrs. m = MValue (pair_attr obj k)) ?objs) \<and>
        without_attributes (\<lambda>obj k. Inr (pair_attr obj k)) ?attrs ?objs =
          Inr (filter (\<lambda>obj. \<forall>(k, m) \<in> set ?attrs. \<not> m = MValue (pair_attr obj k)) ?objs)"
    by (rule with_without_attributes[where val = pair_attr]) (auto simp: match_value_def)
  then show ?thesis by (simp add: pair_attr_def)
qed

text \<open>
  \<open>select\<close> and \<open>unselect\<close> with the same predicate split a selection in two:
  they succeed together, each keeps the order, and together they hold every object with
  its multiplicity, the matching ones in the first and the others in the second.
\<close>
theorem select_unselect_partition:
  assumes "select p True xs = Inr ys"
  shows "\<exists>zs. unselect p xs = Inr zs \<and> mset xs = mset ys + mset zs \<and> subseq ys xs \<and> subseq zs xs \<and>
           (\<forall>y \<in> set ys. p y = Inr True) \<and> (\<forall>z \<in> set zs. p z = Inr False)"
proof -
  from select_Inr_iff[OF assms] have "\<forall>x \<in> set xs. \<exists>c. p x = Inr c" .
  then obtain q where q: "\<And>x. x \<in> set xs \<Longrightarrow> p x = Inr (q x)" by metis
  from select_Inr[of xs p q, OF q] have eq: "select p b xs = Inr (filter (\<lambda>x. q x = b) xs)" for b
    by blast
  with assms have ys: "ys = filter q xs" by (simp add: eq[of True])
  have "unselect p xs = Inr (filter (\<lambda>x. \<not> q x) xs)" by (simp add: unselect_def eq)
  moreover have "mset xs = mset ys + mset (filter (\<lambda>x. \<not> q x) xs)"
    using multiset_partition[of "mset xs" q] by (simp only: ys mset_filter)
  moreover have "subseq ys xs" "subseq (filter (\<lambda>x. \<not> q x) xs) xs"
    unfolding ys by (rule subseq_filter_left)+
  moreover have "\<forall>y \<in> set ys. p y = Inr True" "\<forall>z \<in> set (filter (\<lambda>x. \<not> q x) xs). p z = Inr False"
    using q unfolding ys by (simp_all only: set_filter mem_Collect_eq) auto
  ultimately show ?thesis by (intro exI[of _ "filter (\<lambda>x. \<not> q x) xs"] conjI)
qed

lemma select_unselect_partition_witness:
  "\<exists>zs. unselect (\<lambda>n. Inr (even n)) [1, 2, 2, 3 :: nat] = Inr zs \<and>
     mset [1, 2, 2, 3] = mset [2, 2] + mset zs \<and> subseq [2, 2] [1, 2, 2, 3 :: nat] \<and>
     subseq zs [1, 2, 2, 3] \<and> (\<forall>y \<in> set [2, 2 :: nat]. Inr (even y) = (Inr True :: bool res)) \<and>
     (\<forall>z \<in> set zs. Inr (even z) = (Inr False :: bool res))"
  by (rule select_unselect_partition[of "\<lambda>n. Inr (even n)" "[1, 2, 2, 3 :: nat]" "[2, 2]"]) simp

text \<open>
  \<open>unique\<close> returns an object exactly when it is the only one of the selection;
  on an empty selection it raises \<open>ObjectNotFound\<close>, on a longer one \<open>MultipleObjectsFound\<close>
  with the list as its text.
\<close>
theorem select_unique_cases:
  "select_unique repr xs =
     (case xs of [] \<Rightarrow> Inl (Exn ObjectNotFound ''Object not found'')
      | [x] \<Rightarrow> Inr x
      | _ \<Rightarrow> Inl (Exn MultipleObjectsFound (repr xs)))"
  by (auto simp: select_unique_def select_first_def object_not_found_def split: list.split)

text \<open>
  \<open>select_uniques\<close> keeps the destination as a prefix, adds the objects it does
  not hold in the order of their first occurrence, and never adds one twice.
\<close>
theorem select_uniques_spec:
  assumes "distinct d"
  shows "distinct (select_uniques xs d) \<and> set (select_uniques xs d) = set d \<union> set xs \<and>
         (\<exists>ys. select_uniques xs d = d @ ys \<and> subseq ys xs)"
  using assms
proof (induction xs arbitrary: d)
  case (Cons x xs)
  show ?case
  proof (cases "x \<in> set d")
    case True
    with Cons.IH[OF Cons.prems] show ?thesis by auto
  next
    case False
    with Cons have "distinct (d @ [x])" by simp
    from Cons.IH[OF this] obtain ys where
      "distinct (select_uniques xs (d @ [x]))" "set (select_uniques xs (d @ [x])) = set d \<union> {x} \<union> set xs"
      "select_uniques xs (d @ [x]) = d @ x # ys" "subseq ys xs" by auto
    with False show ?thesis by (auto intro!: exI[of _ "x # ys"])
  qed
qed auto

lemma select_uniques_spec_witness:
  "distinct (select_uniques [3, 1, 3, 2] [1 :: nat]) \<and>
   set (select_uniques [3, 1, 3, 2] [1 :: nat]) = set [1] \<union> set [3, 1, 3, 2] \<and>
   (\<exists>ys. select_uniques [3, 1, 3, 2] [1 :: nat] = [1] @ ys \<and> subseq ys [3, 1, 3, 2])"
  by (rule select_uniques_spec) simp

end
