(* ===== verification/Tobiko_Retry.thy ===== *)
theory Tobiko_Retry
  imports Tobiko_Exceptions
begin

text \<open>
  tobiko/common/_time.py and tobiko/common/_retry.py: conversion of seconds, the limits of
  a retry, its iterator, and the decorator that retries a function on exceptions.

  Seconds are rationals (the rounding of floats is not modelled). The world \<open>'w\<close> holds
  whatever the body of the loop reads and changes; \<open>now\<close> and \<open>slp\<close> are \<open>time.time\<close>
  and \<open>time.sleep\<close> on it. The text of a limit error leaves out the attempt's details.
\<close>

section \<open>Seconds\<close>

datatype seconds_value = SNone | SNum rat | SStr string

text \<open>\<open>float_of\<close> is Python's \<open>float(text)\<close>.\<close>

definition to_seconds_float :: "(string \<Rightarrow> rat res) \<Rightarrow> seconds_value \<Rightarrow> rat res" where
  "to_seconds_float float_of value =
     (case value of
        SNone \<Rightarrow> Inr 0
      | SNum x \<Rightarrow> Inr (if x = 0 then 0 else max 0 x)
      | SStr s \<Rightarrow> if s = [] then Inr 0 else map_sum id (max 0) (float_of s))"

definition to_seconds :: "(string \<Rightarrow> rat res) \<Rightarrow> seconds_value \<Rightarrow> rat option res" where
  "to_seconds float_of value =
     (case value of SNone \<Rightarrow> Inr None | _ \<Rightarrow> map_sum id Some (to_seconds_float float_of value))"

text \<open>The same conversion on values that are numbers already, as the retry objects use it.\<close>

definition to_secs :: "rat option \<Rightarrow> rat option" where
  "to_secs = map_option (max 0)"

lemma to_seconds_num: "to_seconds f (case x of None \<Rightarrow> SNone | Some v \<Rightarrow> SNum v) = Inr (to_secs x)"
  by (cases x) (auto simp: to_seconds_def to_seconds_float_def to_secs_def)

definition true_seconds :: "rat option list \<Rightarrow> rat list" where
  "true_seconds seconds = concat (map (\<lambda>v. case to_secs v of None \<Rightarrow> [] | Some x \<Rightarrow> [x]) seconds)"

definition min_seconds :: "rat option list \<Rightarrow> rat option" where
  "min_seconds seconds =
     (case true_seconds seconds of [] \<Rightarrow> None | v # vs \<Rightarrow> Some (foldl min v vs))"

definition max_seconds :: "rat option list \<Rightarrow> rat option" where
  "max_seconds seconds =
     (case true_seconds seconds of [] \<Rightarrow> None | v # vs \<Rightarrow> Some (foldl max v vs))"

text \<open>
  The clock of the machine. \<open>sleep\<close> converts its argument and waits at least that long; here
  it waits exactly that long. Components with a world of their own extend this record.
\<close>

record world =
  wtime :: rat

definition py_time :: "'z world_scheme \<Rightarrow> rat" where
  "py_time w = wtime w"

definition py_sleep :: "rat \<Rightarrow> 'z world_scheme \<Rightarrow> 'z world_scheme" where
  "py_sleep seconds w =
     (let d = (case to_secs (Some seconds) of None \<Rightarrow> 0 | Some d \<Rightarrow> d) in w\<lparr>wtime := wtime w + d\<rparr>)"

text \<open>The clock of a world that is the first part of the state.\<close>

definition fst_now :: "'z world_scheme \<times> 'x \<Rightarrow> rat" where
  "fst_now s = py_time (fst s)"

definition fst_sleep :: "rat \<Rightarrow> 'z world_scheme \<times> 'x \<Rightarrow> 'z world_scheme \<times> 'x" where
  "fst_sleep d s = (py_sleep d (fst s), snd s)"

section \<open>Attempts\<close>

definition RetryException :: pyclass where
  "RetryException = ''RetryException'' # TobikoException"
definition RetryLimitError :: pyclass where
  "RetryLimitError = ''RetryLimitError'' # RetryException"
definition RetryCountLimitError :: pyclass where
  "RetryCountLimitError = ''RetryCountLimitError'' # RetryLimitError"
definition RetryTimeLimitError :: pyclass where
  "RetryTimeLimitError = ''RetryTimeLimitError'' # RetryLimitError"

declare RetryException_def [exn_classes] RetryLimitError_def [exn_classes]
  RetryCountLimitError_def [exn_classes] RetryTimeLimitError_def [exn_classes]

record retry_attempt =
  at_number :: int
  at_start :: rat
  at_elapsed :: rat
  at_count :: "int option"
  at_timeout :: "rat option"
  at_sleep :: "rat option"
  at_interval :: "rat option"

definition mk_retry_attempt ::
  "int \<Rightarrow> rat \<Rightarrow> rat \<Rightarrow> int option \<Rightarrow> rat option \<Rightarrow> rat option \<Rightarrow> rat option \<Rightarrow> retry_attempt" where
  "mk_retry_attempt number start_time elapsed_time count timeout sleep_time interval =
     \<lparr>at_number = number, at_start = start_time, at_elapsed = elapsed_time, at_count = count,
      at_timeout = to_secs timeout, at_sleep = to_secs sleep_time, at_interval = to_secs interval\<rparr>"

definition count_left :: "retry_attempt \<Rightarrow> int option" where
  "count_left a = (case at_count a of None \<Rightarrow> None | Some c \<Rightarrow> Some (max 0 (c - at_number a)))"

definition time_left :: "retry_attempt \<Rightarrow> rat option" where
  "time_left a = (case at_timeout a of None \<Rightarrow> None | Some t \<Rightarrow> Some (max 0 (t - at_elapsed a)))"

text \<open>The limit checks re-raise the exception being handled, when there is one.\<close>

definition check_count_left :: "exn option \<Rightarrow> retry_attempt \<Rightarrow> int option res" where
  "check_count_left handled a =
     (if count_left a = Some 0
      then (case info_reraise (exc_info handled True) of
              Inl e \<Rightarrow> Inl e
            | Inr _ \<Rightarrow> Raise RetryCountLimitError ''Retry count limit exceeded'')
      else Inr (count_left a))"

definition check_time_left :: "exn option \<Rightarrow> retry_attempt \<Rightarrow> rat option res" where
  "check_time_left handled a =
     (if time_left a = Some 0
      then (case info_reraise (exc_info handled True) of
              Inl e \<Rightarrow> Inl e
            | Inr _ \<Rightarrow> Raise RetryTimeLimitError ''Retry time limit exceeded'')
      else Inr (time_left a))"

definition check_limits :: "exn option \<Rightarrow> retry_attempt \<Rightarrow> unit res" where
  "check_limits handled a =
     (case check_count_left handled a of Inl e \<Rightarrow> Inl e
      | Inr _ \<Rightarrow> (case check_time_left handled a of Inl e \<Rightarrow> Inl e | Inr _ \<Rightarrow> Inr ()))"

text \<open>\<open>is_last\<close> is true when the check raises an \<open>Exception\<close>; other exceptions go through.\<close>

definition is_last :: "exn option \<Rightarrow> retry_attempt \<Rightarrow> bool res" where
  "is_last handled a =
     (case check_limits handled a of
        Inl e \<Rightarrow> if catches [PyException] e then Inr True else Inl e
      | Inr _ \<Rightarrow> Inr False)"

text \<open>The details of an attempt; \<open>show\<close> prints a number of seconds.\<close>

definition attempt_details :: "(rat \<Rightarrow> string) \<Rightarrow> retry_attempt \<Rightarrow> string" where
  "attempt_details show a =
     (let opt = (\<lambda>name v. case v of None \<Rightarrow> [] | Some x \<Rightarrow> [name @ show x])
      in str_join '', ''
           ([''number='' @ str_int (at_number a)] @
            (case at_count a of None \<Rightarrow> [] | Some c \<Rightarrow> [''count='' @ str_int c]) @
            [''elapsed_time='' @ show (at_elapsed a)] @
            opt ''timeout='' (at_timeout a) @
            opt ''sleep_time='' (at_sleep a) @
            opt ''interval='' (at_interval a)))"

section \<open>Retry objects\<close>

record retry_obj =
  rt_count :: "int option"
  rt_timeout :: "rat option"
  rt_sleep :: "rat option"
  rt_interval :: "rat option"

definition mk_retry :: "int option \<Rightarrow> rat option \<Rightarrow> rat option \<Rightarrow> rat option \<Rightarrow> retry_obj" where
  "mk_retry count timeout sleep_time interval =
     \<lparr>rt_count = count, rt_timeout = to_secs timeout, rt_sleep = to_secs sleep_time,
      rt_interval = to_secs interval\<rparr>"

text \<open>\<open>x or y\<close> on optional numbers: zero counts as not given.\<close>

abbreviation num_or :: "'n::zero option \<Rightarrow> 'n option \<Rightarrow> 'n option" where
  "num_or \<equiv> opt_or (\<lambda>v. v \<noteq> 0)"

definition retry ::
  "retry_obj option \<Rightarrow> int option \<Rightarrow> rat option \<Rightarrow> rat option \<Rightarrow> rat option \<Rightarrow>
   int option \<Rightarrow> rat option \<Rightarrow> rat option \<Rightarrow> rat option \<Rightarrow> retry_obj" where
  "retry other count timeout sleep_time interval
         default_count default_timeout default_sleep_time default_interval =
     (let count = (case other of None \<Rightarrow> count | Some o' \<Rightarrow> num_or count (rt_count o'));
          timeout = (case other of None \<Rightarrow> timeout | Some o' \<Rightarrow> num_or timeout (rt_timeout o'));
          sleep_time = (case other of None \<Rightarrow> sleep_time | Some o' \<Rightarrow> num_or sleep_time (rt_sleep o'));
          interval = (case other of None \<Rightarrow> interval | Some o' \<Rightarrow> num_or interval (rt_interval o'))
      in mk_retry (num_or count default_count) (num_or timeout default_timeout)
                  (num_or sleep_time default_sleep_time) (num_or interval default_interval))"

text \<open>
  One turn of \<open>for attempt in retry: body\<close>: the body is left by an exception, by \<open>break\<close>
  or \<open>return\<close> (\<open>Done\<close>), or goes on with the next attempt (\<open>Next\<close>).
\<close>

datatype 'a turn = Next | Done 'a

definition retry_number :: "retry_obj \<Rightarrow> rat \<Rightarrow> int \<Rightarrow> rat \<Rightarrow> retry_attempt" where
  "retry_number R start_time number elapsed_time =
     mk_retry_attempt number start_time elapsed_time (rt_count R) (rt_timeout R) (rt_sleep R)
       (rt_interval R)"

text \<open>What the iterator does between two attempts: the elapsed time and the pause.\<close>

definition retry_pause ::
  "('w \<Rightarrow> rat) \<Rightarrow> (rat \<Rightarrow> 'w \<Rightarrow> 'w) \<Rightarrow> retry_obj \<Rightarrow> retry_attempt \<Rightarrow> 'w \<Rightarrow> rat \<times> 'w" where
  "retry_pause now slp R attempt w =
     (let start_time = at_start attempt;
          elapsed_time = now w - start_time;
          sleep_time = (case rt_sleep R of
                          Some s \<Rightarrow> Some s
                        | None \<Rightarrow> map_option (\<lambda>i. of_int (at_number attempt) * i - elapsed_time)
                                    (rt_interval R))
      in case sleep_time of
           None \<Rightarrow> (elapsed_time, w)
         | Some s \<Rightarrow>
             (let s = max 0 s
              in if 0 < s \<and> (case time_left attempt of None \<Rightarrow> True | Some left \<Rightarrow> left > s)
                 then (let w' = slp s w in (now w' - start_time, w'))
                 else (elapsed_time, w)))"

partial_function (option) retry_loop ::
  "('w \<Rightarrow> rat) \<Rightarrow> (rat \<Rightarrow> 'w \<Rightarrow> 'w) \<Rightarrow> retry_obj \<Rightarrow> (retry_attempt \<Rightarrow> ('w, 'a turn) act) \<Rightarrow>
   rat \<Rightarrow> int \<Rightarrow> rat \<Rightarrow> 'w \<Rightarrow> ('a res \<times> 'w) option" where
  "retry_loop now slp R body start_time number elapsed_time w =
     (let attempt = retry_number R start_time number elapsed_time
      in case body attempt w of
           (Inl e, w1) \<Rightarrow> Some (Inl e, w1)
         | (Inr t, w1) \<Rightarrow>
             (case t of
                Done a \<Rightarrow> Some (Inr a, w1)
              | Next \<Rightarrow>
                  (case check_limits None attempt of
                     Inl e \<Rightarrow> Some (Inl e, w1)
                   | Inr _ \<Rightarrow>
                       (case retry_pause now slp R attempt w1 of
                          (elapsed', w2) \<Rightarrow>
                            retry_loop now slp R body start_time (number + 1) elapsed' w2))))"

text \<open>The whole \<open>for\<close> statement; None is a loop that never ends.\<close>

definition retry_iter ::
  "('w \<Rightarrow> rat) \<Rightarrow> (rat \<Rightarrow> 'w \<Rightarrow> 'w) \<Rightarrow> retry_obj \<Rightarrow> (retry_attempt \<Rightarrow> ('w, 'a turn) act) \<Rightarrow>
   'w \<Rightarrow> ('a res \<times> 'w) option" where
  "retry_iter now slp R body w = retry_loop now slp R body (now w) 1 0 w"

text \<open>The body of the wrapper that \<open>retry_on_exception\<close> makes of \<open>func\<close>.\<close>

definition retry_on_exception_body ::
  "pyclass list \<Rightarrow> ('w, 'a) act \<Rightarrow> (retry_attempt \<Rightarrow> ('w, unit) act) option \<Rightarrow>
   retry_attempt \<Rightarrow> ('w, 'a turn) act" where
  "retry_on_exception_body exceptions func on_exception attempt w =
     (case func w of
        (Inr x, w1) \<Rightarrow> (Inr (Done x), w1)
      | (Inl e, w1) \<Rightarrow>
          if catches exceptions e
          then (case check_limits (Some e) attempt of
                  Inl e' \<Rightarrow> (Inl e', w1)
                | Inr _ \<Rightarrow>
                    (case on_exception of
                       None \<Rightarrow> (Inr Next, w1)
                     | Some h \<Rightarrow>
                         (case h attempt w1 of
                            (Inl e', w2) \<Rightarrow> (Inl e', w2)
                          | (Inr _, w2) \<Rightarrow> (Inr Next, w2))))
          else (Inl e, w1))"

definition retry_on_exception ::
  "('w \<Rightarrow> rat) \<Rightarrow> (rat \<Rightarrow> 'w \<Rightarrow> 'w) \<Rightarrow> retry_obj \<Rightarrow> pyclass list \<Rightarrow>
   (retry_attempt \<Rightarrow> ('w, unit) act) option \<Rightarrow> ('w, 'a) act \<Rightarrow> 'w \<Rightarrow> ('a res \<times> 'w) option" where
  "retry_on_exception now slp retry_object exceptions on_exception func w =
     retry_iter now slp retry_object (retry_on_exception_body exceptions func on_exception) w"

text \<open>A loop that its first turn ends.\<close>

lemma retry_iter_first:
  "body (retry_number R (now w) 1 0) w = (Inr (Done a), u) \<Longrightarrow>
     retry_iter now slp R body w = Some (Inr a, u)"
  unfolding retry_iter_def by (subst retry_loop.simps) (simp add: Let_def)

end
