(* ===== verification/Retry_Runs.thy ===== *)
theory Retry_Runs
  imports Tobiko_Retry
begin

text \<open>
  The executions of the retry iterator of \<open>Tobiko_Retry\<close> as a big-step relation that also
  records the attempts made, and the properties of the limits, of the numbering and of the
  pauses that follow from it by rule induction.
\<close>

section \<open>Runs\<close>

inductive retry_run ::
  "('w \<Rightarrow> rat) \<Rightarrow> (rat \<Rightarrow> 'w \<Rightarrow> 'w) \<Rightarrow> retry_obj \<Rightarrow> (retry_attempt \<Rightarrow> ('w, 'a turn) act) \<Rightarrow> rat \<Rightarrow>
   int \<Rightarrow> rat \<Rightarrow> 'w \<Rightarrow> retry_attempt list \<Rightarrow> 'a res \<Rightarrow> 'w \<Rightarrow> bool"
  for now slp R body start where
  run_raise: "body (retry_number R start n el) w = (Inl e, w1) \<Longrightarrow>
     retry_run now slp R body start n el w [retry_number R start n el] (Inl e) w1"
| run_done: "body (retry_number R start n el) w = (Inr (Done a), w1) \<Longrightarrow>
     retry_run now slp R body start n el w [retry_number R start n el] (Inr a) w1"
| run_limit: "body (retry_number R start n el) w = (Inr Next, w1) \<Longrightarrow>
     check_limits None (retry_number R start n el) = Inl e \<Longrightarrow>
     retry_run now slp R body start n el w [retry_number R start n el] (Inl e) w1"
| run_again: "body (retry_number R start n el) w = (Inr Next, w1) \<Longrightarrow>
     check_limits None (retry_number R start n el) = Inr u \<Longrightarrow>
     retry_pause now slp R (retry_number R start n el) w1 = (el', w2) \<Longrightarrow>
     retry_run now slp R body start (n + 1) el' w2 atts r w3 \<Longrightarrow>
     retry_run now slp R body start n el w (retry_number R start n el # atts) r w3"

inductive_cases retry_run_elim: "retry_run now slp R body start n el w atts r w'"

lemma retry_loop_run:
  assumes "retry_loop now slp R body start n el w = Some y"
  shows "\<exists>atts. retry_run now slp R body start n el w atts (fst y) (snd y)"
proof (rule retry_loop.raw_induct[where P = "\<lambda>now slp R body start n el w y.
      \<exists>atts. retry_run now slp R body start n el w atts (fst y) (snd y)", OF _ assms])
  fix loop and now :: "'w \<Rightarrow> rat" and slp R and body :: "retry_attempt \<Rightarrow> ('w, 'a turn) act"
    and start n el w y
  assume IH: "\<And>now slp R body start n el w y. loop now slp R body start n el w = Some y \<Longrightarrow>
      \<exists>atts. retry_run now slp R body start n el w atts (fst y) (snd y)"
    and eq: "(let attempt = retry_number R start n el
      in case body attempt w of
           (Inl e, w1) \<Rightarrow> Some (Inl e, w1)
         | (Inr Next, w1) \<Rightarrow> (case check_limits None attempt of
                     Inl e \<Rightarrow> Some (Inl e, w1)
                   | Inr _ \<Rightarrow>
                       (case retry_pause now slp R attempt w1 of
                          (elapsed', w2) \<Rightarrow> loop now slp R body start (n + 1) elapsed' w2))
         | (Inr (Done a), w1) \<Rightarrow> Some (Inr a, w1)) = Some y"
  show "\<exists>atts. retry_run now slp R body start n el w atts (fst y) (snd y)"
  proof (cases "\<exists>w1 u. body (retry_number R start n el) w = (Inr Next, w1) \<and>
                 check_limits None (retry_number R start n el) = Inr u")
    case True
    then obtain w1 u where h: "body (retry_number R start n el) w = (Inr Next, w1)"
      "check_limits None (retry_number R start n el) = Inr u" by blast
    obtain el' w2 where p: "retry_pause now slp R (retry_number R start n el) w1 = (el', w2)"
      by fastforce
    with h eq have "loop now slp R body start (n + 1) el' w2 = Some y" by (simp add: Let_def)
    from IH[OF this] obtain atts where
      "retry_run now slp R body start (n + 1) el' w2 atts (fst y) (snd y)" ..
    from run_again[OF h p this] show ?thesis by blast
  next
    case False
    with eq show ?thesis
      by (auto simp: Let_def split: prod.splits sum.splits turn.splits)
        (blast intro: run_raise run_done run_limit)+
  qed
qed

lemma retry_run_loop:
  "retry_run now slp R body start n el w atts r w' \<Longrightarrow>
     retry_loop now slp R body start n el w = Some (r, w')"
  by (induction rule: retry_run.induct) (subst retry_loop.simps, simp)+

text \<open>The iterator returns exactly the results of its runs.\<close>

lemma retry_iter_iff_run:
  "retry_iter now slp R body w = Some (r, w') \<longleftrightarrow>
     (\<exists>atts. retry_run now slp R body (now w) 1 0 w atts r w')"
  unfolding retry_iter_def using retry_loop_run[of now slp R body "now w" 1 0 w "(r, w')"] retry_run_loop by fastforce

section \<open>Limits\<close>

lemma retry_number_sel [simp]:
  "at_number (retry_number R s n el) = n" "at_start (retry_number R s n el) = s"
  "at_elapsed (retry_number R s n el) = el" "at_count (retry_number R s n el) = rt_count R"
  "at_timeout (retry_number R s n el) = to_secs (rt_timeout R)"
  by (simp_all add: retry_number_def mk_retry_attempt_def)

lemma check_limits_None:
  "check_limits None a = (if count_left a = Some 0
     then Raise RetryCountLimitError ''Retry count limit exceeded''
     else if time_left a = Some 0 then Raise RetryTimeLimitError ''Retry time limit exceeded''
     else Inr ())"
  by (simp add: check_limits_def check_count_left_def check_time_left_def)

lemma check_limits_Some:
  "check_limits (Some e) a = (if count_left a = Some 0 \<or> time_left a = Some 0 then Inl e else Inr ())"
  by (simp add: check_limits_def check_count_left_def check_time_left_def)

text \<open>Numbering, and the limits every attempt but the last one has left.\<close>

lemma retry_run_attempts:
  "retry_run now slp R body start n el w atts r w' \<Longrightarrow>
     atts \<noteq> [] \<and> map at_number atts = [n .. n + int (length atts) - 1] \<and>
     (\<forall>a \<in> set (butlast atts). check_limits None a = Inr ()) \<and>
     at_elapsed (hd atts) = el"
proof (induction rule: retry_run.induct)
  case (run_again n el w w1 u el' w2 atts r w3)
  then have "[n .. n + 1 + int (length atts) - 1] = n # [n + 1 .. n + 1 + int (length atts) - 1]"
    by (simp add: upto_rec1)
  moreover have "check_limits None (retry_number R start n el) = Inr ()" using run_again by simp
  ultimately show ?case using run_again by (simp add: algebra_simps)
qed auto

text \<open>A retry with a count limit ends.\<close>

lemma retry_loop_total:
  assumes "rt_count R = Some c"
  shows "\<exists>atts r w'. retry_run now slp R body start n el w atts r w' \<and>
           int (length atts) \<le> max 1 (c - n + 1)"
proof (induction "nat (c - n)" arbitrary: n el w rule: less_induct)
  case less
  let ?a = "retry_number R start n el"
  obtain t w1 where b: "body ?a w = (t, w1)" by fastforce
  consider (raise) e where "t = Inl e" | (don) a where "t = Inr (Done a)" | (nxt) "t = Inr Next"
    by (metis sum.exhaust turn.exhaust)
  then show ?case
  proof cases
    case raise
    with b run_raise show ?thesis by (metis length_Cons list.size(3) max.cobounded1 of_nat_1 One_nat_def)
  next
    case don
    with b run_done show ?thesis by (metis length_Cons list.size(3) max.cobounded1 of_nat_1 One_nat_def)
  next
    case nxt
    show ?thesis
    proof (cases "check_limits None ?a")
      case (Inl e)
      with b nxt run_limit show ?thesis
        by (metis length_Cons list.size(3) max.cobounded1 of_nat_1 One_nat_def)
    next
      case (Inr u)
      then have "n < c" using assms by (auto simp: check_limits_None count_left_def split: if_splits)
      obtain el' w2 where p: "retry_pause now slp R ?a w1 = (el', w2)" by fastforce
      have "nat (c - (n + 1)) < nat (c - n)" using \<open>n < c\<close> by simp
      from less[OF this, of el' w2] obtain atts r w' where
        "retry_run now slp R body start (n + 1) el' w2 atts r w'"
        "int (length atts) \<le> max 1 (c - (n + 1) + 1)" by blast
      note run = this
      have "body ?a w = (Inr Next, w1)" using b nxt by simp
      from run_again[OF this Inr p run(1)] run(2) \<open>n < c\<close> show ?thesis
        by (intro exI[of _ "?a # atts"] exI[of _ r] exI[of _ w'] conjI) simp_all
    qed
  qed
qed

text \<open>
  Property (C1). A retry with a count limit of \<open>c\<close> always ends, whatever its body does: it
  makes at least one and at most \<open>max 1 c\<close> attempts, numbered 1, 2, 3, ...
\<close>
theorem retry_iter_count_bound:
  assumes "rt_count R = Some c"
  shows "\<exists>atts r w'. retry_iter now slp R body w = Some (r, w') \<and>
           retry_run now slp R body (now w) 1 0 w atts r w' \<and> atts \<noteq> [] \<and>
           map at_number atts = [1 .. int (length atts)] \<and> int (length atts) \<le> max 1 c"
proof -
  obtain atts r w' where run: "retry_run now slp R body (now w) 1 0 w atts r w'"
    and "int (length atts) \<le> max 1 c"
    using retry_loop_total[OF assms, of now slp body "now w" 1 0 w] by auto
  moreover have "retry_iter now slp R body w = Some (r, w')"
    using run retry_iter_iff_run[of now slp R body w r w'] by blast
  ultimately show ?thesis using retry_run_attempts[OF run] by auto
qed

lemma retry_iter_count_bound_witness:
  "\<exists>atts r w'. retry_iter py_time py_sleep (mk_retry (Some 3) None None None) (\<lambda>a w. (Inr Next :: unit turn res, w))
        \<lparr>wtime = 0\<rparr> = Some (r, w') \<and>
     retry_run py_time py_sleep (mk_retry (Some 3) None None None) (\<lambda>a w. (Inr Next, w))
        (py_time \<lparr>wtime = 0\<rparr>) 1 0 \<lparr>wtime = 0\<rparr> atts r w' \<and> atts \<noteq> [] \<and>
     map at_number atts = [1 .. int (length atts)] \<and> int (length atts) \<le> max 1 3"
  by (rule retry_iter_count_bound) (simp add: mk_retry_def)



section \<open>retry_on_exception\<close>

text \<open>
  The check in the handler of the wrapper comes first, so the iterator's own check never
  raises, and the check re-raises what the function raised.
\<close>

lemma on_exception_body_Next:
  assumes "retry_on_exception_body excs func h a w = (Inr Next, w1)"
  shows "check_limits None a = Inr ()"
  using assms
  by (auto simp: retry_on_exception_body_def check_limits_Some check_limits_None
      split: prod.splits sum.splits if_splits option.splits)

lemma on_exception_body_Inl:
  assumes "retry_on_exception_body excs func h a w = (Inl e, w1)"
  shows "(\<exists>v v'. func v = (Inl e, v')) \<or> (\<exists>g v v'. h = Some g \<and> g a v = (Inl e, v'))"
  using assms
  by (auto simp: retry_on_exception_body_def check_limits_Some
      split: prod.splits sum.splits if_splits option.splits)

lemma on_exception_run_Inl:
  assumes "retry_run now slp R (retry_on_exception_body excs func h) start n el w atts r w'"
    and "r = Inl e"
  shows "(\<exists>v v'. func v = (Inl e, v')) \<or> (\<exists>g a v v'. h = Some g \<and> g a v = (Inl e, v'))"
  using assms
proof (induction rule: retry_run.induct)
  case (run_raise n el w e' w1)
  then show ?case using on_exception_body_Inl[of excs func h _ w e w1] by blast
next
  case (run_limit n el w w1 e')
  then show ?case using on_exception_body_Next[of excs func h _ w w1] by fastforce
qed simp_all



section \<open>Pauses\<close>

text \<open>How many turns of at least \<open>d\<close> seconds fit into the time left.\<close>

lemma turns_left_less:
  fixes el el' d t :: rat
  assumes "el + d \<le> el'" and "0 < d" and "el < max 0 t"
  shows "nat \<lceil>(max 0 t - el') / d\<rceil> < nat \<lceil>(max 0 t - el) / d\<rceil>"
proof -
  have "(max 0 t - el') / d \<le> (max 0 t - el - d) / d"
    using assms(1,2) by (intro divide_right_mono) simp_all
  then have "(max 0 t - el') / d \<le> (max 0 t - el) / d - 1" using assms(2) by (simp add: diff_divide_distrib)
  then have "\<lceil>(max 0 t - el') / d\<rceil> \<le> \<lceil>(max 0 t - el) / d - 1\<rceil>" by (rule ceiling_mono)
  moreover have "0 < \<lceil>(max 0 t - el) / d\<rceil>" using assms(2,3) by simp
  ultimately show ?thesis by simp
qed

text \<open>What the pauses need of a clock: a sleep lasts at least as long as it was asked to.\<close>

locale py_clock =
  fixes now :: "'w \<Rightarrow> rat" and slp :: "rat \<Rightarrow> 'w \<Rightarrow> 'w"
  assumes sleep_lasts: "0 \<le> d \<Longrightarrow> now w + d \<le> now (slp d w)"
begin

lemma pause_elapsed: "retry_pause now slp R a w = (el', w2) \<Longrightarrow> el' = now w2 - at_start a"
  by (auto simp: retry_pause_def Let_def split: option.splits if_splits)

lemma pause_forward: "retry_pause now slp R a w = (el', w2) \<Longrightarrow> now w \<le> now w2"
proof -
  assume "retry_pause now slp R a w = (el', w2)"
  then have "w2 = w \<or> (\<exists>s > 0. w2 = slp s w)"
    by (auto simp: retry_pause_def Let_def split: option.splits if_splits)
  then show ?thesis
  proof (elim disjE exE conjE)
    fix s :: rat assume "0 < s" "w2 = slp s w"
    with sleep_lasts[of s w] show ?thesis by simp
  qed simp
qed

text \<open>
  With an interval, the next attempt starts after the interval's multiple, unless waiting
  for it would exceed the time left.
\<close>

lemma pause_interval:
  assumes "retry_pause now slp R a w = (el', w2)" and "rt_sleep R = None" and "rt_interval R = Some i"
  shows "of_int (at_number a) * i \<le> el' \<or>
         (\<exists>left. time_left a = Some left \<and> left \<le> of_int (at_number a) * i - (now w - at_start a))"
proof -
  define s where "s = of_int (at_number a) * i - (now w - at_start a)"
  have el': "el' = now w2 - at_start a" using pause_elapsed[OF assms(1)] .
  consider "s \<le> 0" | "0 < s" "case time_left a of None \<Rightarrow> True | Some left \<Rightarrow> left > s"
    | left where "time_left a = Some left" "left \<le> s"
    by (cases "time_left a") fastforce+
  then show ?thesis
  proof cases
    case 1
    with pause_forward[OF assms(1)] el' show ?thesis unfolding s_def by linarith
  next
    case 2
    have "w2 = slp s w"
      using assms 2 unfolding retry_pause_def Let_def s_def[symmetric]
      by (auto simp flip: s_def split: option.splits)
    then have "now w + s \<le> now w2" using sleep_lasts[of s w] 2(1) by simp
    with el' show ?thesis unfolding s_def by linarith
  next
    case 3
    then show ?thesis unfolding s_def by blast
  qed
qed

text \<open>A time limit ends the loop when every turn of the body takes some time.\<close>

lemma timeout_ends:
  assumes step: "\<And>a w r w'. body a w = (r, w') \<Longrightarrow> now w + d \<le> now w'" and d: "0 < d"
    and t: "rt_timeout R = Some t"
    and el: "el \<le> now w - start"
  shows "retry_loop now slp R body start n el w \<noteq> None"
  using el
proof (induction "nat \<lceil>(max 0 t - el) / d\<rceil>" arbitrary: n el w rule: less_induct)
  case less
  let ?a = "retry_number R start n el"
  obtain r w1 where b: "body ?a w = (r, w1)" by fastforce
  show ?case
  proof (cases "r = Inr Next \<and> check_limits None ?a = Inr ()")
    case True
    then have lim: "el < max 0 t" using t
      by (auto simp: check_limits_None time_left_def to_secs_def split: if_splits)
    obtain el' w2 where p: "retry_pause now slp R ?a w1 = (el', w2)" by fastforce
    have "now w1 \<le> now w2" "el' = now w2 - start"
      using pause_forward[OF p] pause_elapsed[OF p] by simp_all
    with step[OF b] less.prems have el': "el + d \<le> el'" "el' \<le> now w2 - start" by linarith+
    from less.hyps[OF turns_left_less[OF el'(1) d lim] el'(2), of "n + 1"] b True p show ?thesis
      by (subst retry_loop.simps) simp
  next
    case False
    with b show ?thesis
      by (subst retry_loop.simps) (auto simp: Let_def split: sum.splits turn.splits prod.splits)
  qed
qed

end

interpretation clk: py_clock py_time py_sleep
  by unfold_locales (simp add: py_time_def py_sleep_def to_secs_def)

text \<open>
  With an interval \<open>i\<close> and no sleep time, the attempt after attempt number \<open>k\<close> starts
  at least \<open>k * i\<close> seconds after the first, unless the wait until then would not fit in the
  time left, in which case there is no wait at all.
\<close>
theorem retry_pause_interval:
  assumes "rt_sleep R = None" and "rt_interval R = Some i"
  shows "case retry_pause py_time py_sleep R a w of (el', w2) \<Rightarrow>
           el' = py_time w2 - at_start a \<and>
           (case time_left a of
              Some left \<Rightarrow>
                if left \<le> of_int (at_number a) * i - (py_time w - at_start a) then w2 = w
                else of_int (at_number a) * i \<le> el'
            | None \<Rightarrow> of_int (at_number a) * i \<le> el')"
proof -
  obtain el' w2 where p: "retry_pause py_time py_sleep R a w = (el', w2)" by fastforce
  have "w2 = w" if "time_left a = Some left"
      "left \<le> of_int (at_number a) * i - (py_time w - at_start a)" for left
    using p assms that by (auto simp: retry_pause_def Let_def max_def split: if_splits)
  then show ?thesis
    using clk.pause_elapsed[OF p] clk.pause_interval[OF p assms] p by (auto split: option.splits)
qed

lemma retry_pause_interval_witness:
  "case retry_pause py_time py_sleep (mk_retry None None None (Some 5))
      (mk_retry_attempt 1 0 0 None None None (Some 5)) \<lparr>wtime = 1\<rparr> of (el', w2) \<Rightarrow>
     el' = py_time w2 - at_start (mk_retry_attempt 1 0 0 None None None (Some 5)) \<and>
     (case time_left (mk_retry_attempt 1 0 0 None None None (Some 5)) of
        Some left \<Rightarrow>
          if left \<le> of_int (at_number (mk_retry_attempt 1 0 0 None None None (Some 5))) * 5
               - (py_time \<lparr>wtime = 1\<rparr> - at_start (mk_retry_attempt 1 0 0 None None None (Some 5)))
          then w2 = \<lparr>wtime = 1\<rparr>
          else of_int (at_number (mk_retry_attempt 1 0 0 None None None (Some 5))) * 5 \<le> el'
      | None \<Rightarrow> of_int (at_number (mk_retry_attempt 1 0 0 None None None (Some 5))) * 5 \<le> el')"
  by (rule retry_pause_interval) (simp_all add: mk_retry_def to_secs_def)

text \<open>
  Property (C9). A retry with a time limit ends when every turn of its body takes at least some
  fixed time, even without a count limit and whatever the interval is.
\<close>
theorem retry_iter_timeout_ends:
  assumes "\<And>a w r w'. body a w = (r, w') \<Longrightarrow> py_time w + d \<le> py_time w'" and "0 < d"
    and "rt_timeout R = Some t"
  shows "retry_iter py_time py_sleep R body w \<noteq> None"
  unfolding retry_iter_def by (rule clk.timeout_ends[OF assms(1,2,3)]) simp_all

lemma retry_iter_timeout_ends_witness:
  "retry_iter py_time py_sleep (mk_retry None (Some 10) None (Some 3))
     (\<lambda>a w. (Inr Next :: unit turn res, py_sleep 1 w)) \<lparr>wtime = 0\<rparr> \<noteq> None"
  by (rule retry_iter_timeout_ends[where d = 1])
     (simp_all add: mk_retry_def to_secs_def py_time_def py_sleep_def)

text \<open>The state in which a retry with no time for its next pause spins.\<close>

lemma spin_run:
  assumes "retry_run py_time py_sleep (mk_retry None (Some 10) None (Some 3))
             (\<lambda>a w. (Inr Next :: unit turn res, w)) start n el w atts r w'"
    and "4 \<le> n" and "el = 9" and "wtime w = start + 9"
  shows False
  using assms
proof (induction rule: retry_run.induct)
  case (run_limit n el w w1 e)
  then show ?case
    by (auto simp: check_limits_None count_left_def time_left_def mk_retry_def to_secs_def)
next
  case (run_again n el w w1 u el' w2 atts r w3)
  then have eq: "w1 = w" by simp
  have "(3::rat) \<le> of_int n * 3 - 9" using run_again by simp
  then have "retry_pause py_time py_sleep (mk_retry None (Some 10) None (Some 3))
        (retry_number (mk_retry None (Some 10) None (Some 3)) start n el) w = (9, w)"
    using run_again by (simp add: retry_pause_def py_time_def mk_retry_def to_secs_def time_left_def Let_def)
  with run_again eq have "el' = 9" "w2 = w" by simp_all
  with run_again show ?case by simp
qed simp_all

lemma spin_step:
  assumes "retry_run py_time py_sleep (mk_retry None (Some 10) None (Some 3))
             (\<lambda>a w. (Inr Next :: unit turn res, w)) start n el w atts r w'"
    and "el = of_int n * 3 - 3" and "wtime w = start + el" and "1 \<le> n" and "n \<le> 3"
  shows "\<exists>atts' v. retry_run py_time py_sleep (mk_retry None (Some 10) None (Some 3))
             (\<lambda>a w. (Inr Next :: unit turn res, w)) start (n + 1) (of_int n * 3) v atts' r w' \<and>
             wtime v = start + of_int n * 3"
proof -
  let ?R = "mk_retry None (Some 10) None (Some 3)"
  have el: "el = 0 \<or> el = 3 \<or> el = 6"
    using assms(2,4,5) by (cases "n = 1"; cases "n = 2"; cases "n = 3") auto
  have pause: "retry_pause py_time py_sleep ?R (retry_number ?R start n el) w = (el', v) \<Longrightarrow>
      el' = of_int n * 3 \<and> wtime v = start + of_int n * 3" for el' v
    using assms(2,3) el
    by (auto simp: retry_pause_def py_time_def py_sleep_def mk_retry_def to_secs_def time_left_def Let_def
        split: if_splits)
  have lim: "check_limits None (retry_number ?R start n el) = Inr ()"
    using el by (auto simp: check_limits_None count_left_def time_left_def mk_retry_def to_secs_def)
  show ?thesis
    by (rule retry_run_elim[OF assms(1)]) (use lim pause in fastforce)+
qed

text \<open>
  The body's time is what ends such a loop: with a time limit of 10 and an interval
  of 3, a body that takes no time is called for ever, because from the fourth attempt on the
  wait for the next multiple of the interval does not fit in the second that is left, so the
  iterator retries without waiting.
\<close>
theorem retry_iter_spins:
  "retry_iter py_time py_sleep (mk_retry None (Some 10) None (Some 3))
     (\<lambda>a w. (Inr Next :: unit turn res, w)) w = None"
proof (rule ccontr)
  assume "\<not> ?thesis"
  then obtain r w' where "retry_iter py_time py_sleep (mk_retry None (Some 10) None (Some 3))
      (\<lambda>a w. (Inr Next :: unit turn res, w)) w = Some (r, w')" by auto
  then obtain atts where "retry_run py_time py_sleep (mk_retry None (Some 10) None (Some 3))
      (\<lambda>a w. (Inr Next, w)) (py_time w) 1 0 w atts r w'"
    unfolding retry_iter_iff_run by blast
  from spin_step[OF this] obtain atts1 v1 where
    1: "retry_run py_time py_sleep (mk_retry None (Some 10) None (Some 3))
      (\<lambda>a w. (Inr Next, w)) (py_time w) 2 3 v1 atts1 r w'" "wtime v1 = py_time w + 3"
    by (auto simp: py_time_def)
  from spin_step[OF 1(1)] 1(2) obtain atts2 v2 where
    2: "retry_run py_time py_sleep (mk_retry None (Some 10) None (Some 3))
      (\<lambda>a w. (Inr Next, w)) (py_time w) 3 6 v2 atts2 r w'" "wtime v2 = py_time w + 6" by auto
  from spin_step[OF 2(1)] 2(2) obtain atts3 v3 where
    3: "retry_run py_time py_sleep (mk_retry None (Some 10) None (Some 3))
      (\<lambda>a w. (Inr Next, w)) (py_time w) 4 9 v3 atts3 r w'" "wtime v3 = py_time w + 9" by auto
  from spin_run[OF 3(1)] 3(2) show False by simp
qed

text \<open>
  The parameters of \<open>retry\<close>: each is the first that is given and not zero among the
  argument, the other retry object and the default. So an explicit count or time limit of
  zero is no limit at all when nothing else sets one.
\<close>
theorem retry_defaults:
  "rt_count (retry (Some o') c t s i dc dt ds di) = num_or c (num_or (rt_count o') dc) \<and>
   rt_timeout (retry (Some o') c t s i dc dt ds di) = to_secs (num_or t (num_or (rt_timeout o') dt)) \<and>
   rt_count (retry None c t s i dc dt ds di) = num_or c dc \<and>
   rt_timeout (retry None c t s i dc dt ds di) = to_secs (num_or t dt) \<and>
   rt_count (retry None (Some 0) (Some 0) s i None None ds di) = None \<and>
   rt_timeout (retry None (Some 0) (Some 0) s i None None ds di) = None"
  by (auto simp: retry_def mk_retry_def Let_def opt_or_def to_secs_def split: option.split)

end
