(* ===== verification/Registry.thy ===== *)
theory Registry
  imports Py_Prelude
begin

text \<open>
  The pattern every cache of the program follows: look a key up, create the value when it
  is missing, store it, return it. The interface is a table with a lookup and a store; the
  clients are the fixture manager, the loader manager, the ping interface manager and the
  cached properties.
\<close>

definition get_or_create ::
  "('s \<Rightarrow> 'k \<Rightarrow> 'v option) \<Rightarrow> ('k \<Rightarrow> 'v \<Rightarrow> 's \<Rightarrow> 's) \<Rightarrow> ('s, 'v) act \<Rightarrow> 'k \<Rightarrow> ('s, 'v) act" where
  "get_or_create lookup store create k s =
     (case lookup s k of
        Some v \<Rightarrow> (Inr v, s)
      | None \<Rightarrow>
          (case create s of
             (Inl e, t) \<Rightarrow> (Inl e, t)
           | (Inr v, t) \<Rightarrow> (Inr v, store k v t)))"

locale memo_table =
  fixes lookup :: "'s \<Rightarrow> 'k \<Rightarrow> 'v option" and store :: "'k \<Rightarrow> 'v \<Rightarrow> 's \<Rightarrow> 's"
  assumes lookup_store: "lookup (store k v s) k' = (if k' = k then Some v else lookup s k')"
begin

lemma get_hit: "lookup s k = Some v \<Longrightarrow> get_or_create lookup store create k s = (Inr v, s)"
  by (simp add: get_or_create_def)

text \<open>Once a get has returned, every later get of the key returns the same value and changes nothing.\<close>

lemma get_again:
  assumes "get_or_create lookup store create k s = (Inr v, t)"
  shows "get_or_create lookup store create' k t = (Inr v, t)"
  using assms
  by (auto simp: get_or_create_def lookup_store split: option.splits prod.splits sum.splits)

text \<open>A failed creation stores nothing.\<close>

lemma get_fails:
  assumes "get_or_create lookup store create k s = (Inl e, t)"
  shows "lookup s k = None \<and> create s = (Inl e, t)"
  using assms by (auto simp: get_or_create_def split: option.splits prod.splits sum.splits)

text \<open>The entries present before are kept when the creation keeps them.\<close>

lemma get_keeps:
  assumes "get_or_create lookup store create k s = (r, t)"
    and "\<And>r u k' v'. create s = (r, u) \<Longrightarrow> lookup s k' = Some v' \<Longrightarrow> lookup u k' = Some v'"
    and "lookup s k' = Some v'"
  shows "lookup t k' = Some v'"
  using assms
  by (auto simp: get_or_create_def lookup_store split: option.splits prod.splits sum.splits)

end

text \<open>A table that also forgets keys.\<close>

locale forget_table = memo_table lookup store
  for lookup :: "'s \<Rightarrow> 'k \<Rightarrow> 'v option" and store :: "'k \<Rightarrow> 'v \<Rightarrow> 's \<Rightarrow> 's" +
  fixes forget :: "'k \<Rightarrow> 's \<Rightarrow> 's"
  assumes lookup_forget: "lookup (forget k s) k' = (if k' = k then None else lookup s k')"
begin

text \<open>After forgetting a key, the next get creates its value again.\<close>

lemma get_after_forget:
  "get_or_create lookup store create k (forget k s) =
     (case create (forget k s) of
        (Inl e, t) \<Rightarrow> (Inl e, t) | (Inr v, t) \<Rightarrow> (Inr v, store k v t))"
  by (simp add: get_or_create_def lookup_forget)

end

end
