(* ===== verification/Tobiko_Cached.thy ===== *)
theory Tobiko_Cached
  imports Registry
begin

text \<open>
  tobiko/common/_cached.py: the descriptor that calls a getter once and keeps its value in
  the object's \<open>__dict__\<close>. The state is the object's dictionary and the rest of the world
  that the getter, setter and deleter may read and change.
\<close>

type_synonym ('v, 'x) obj_state = "(string \<rightharpoonup> 'v) \<times> 'x"

record ('v, 'x) cached_property =
  cp_fget :: "(('v, 'x) obj_state, 'v) act option"
  cp_fset :: "('v \<Rightarrow> (('v, 'x) obj_state, unit) act) option"
  cp_fdel :: "(('v, 'x) obj_state, unit) act option"
  cp_id :: string

text \<open>\<open>own_id\<close> is the text of \<open>id(self)\<close>.\<close>

definition mk_cached_property ::
  "(('v, 'x) obj_state, 'v) act option \<Rightarrow> ('v \<Rightarrow> (('v, 'x) obj_state, unit) act) option \<Rightarrow>
   (('v, 'x) obj_state, unit) act option \<Rightarrow> string option \<Rightarrow> string \<Rightarrow> ('v, 'x) cached_property" where
  "mk_cached_property fget fset fdel cached_id own_id =
     \<lparr>cp_fget = fget, cp_fset = fset, cp_fdel = fdel,
      cp_id = (case cached_id of Some i \<Rightarrow> if i \<noteq> [] then i else ''_cached_'' @ own_id
               | None \<Rightarrow> ''_cached_'' @ own_id)\<rparr>"

text \<open>The decorators that add a getter, a setter or a deleter to the property.\<close>

definition cached_getter ::
  "(('v, 'x) obj_state, 'v) act \<Rightarrow> ('v, 'x) cached_property \<Rightarrow> ('v, 'x) cached_property" where
  "cached_getter fget p = p\<lparr>cp_fget := Some fget\<rparr>"

definition cached_setter ::
  "('v \<Rightarrow> (('v, 'x) obj_state, unit) act) \<Rightarrow> ('v, 'x) cached_property \<Rightarrow> ('v, 'x) cached_property" where
  "cached_setter fset p = p\<lparr>cp_fset := Some fset\<rparr>"

definition cached_deleter ::
  "(('v, 'x) obj_state, unit) act \<Rightarrow> ('v, 'x) cached_property \<Rightarrow> ('v, 'x) cached_property" where
  "cached_deleter fdel p = p\<lparr>cp_fdel := Some fdel\<rparr>"

definition get_cached :: "('v, 'x) obj_state \<Rightarrow> string \<Rightarrow> 'v option" where
  "get_cached s i = fst s i"

definition set_cached :: "string \<Rightarrow> 'v \<Rightarrow> ('v, 'x) obj_state \<Rightarrow> ('v, 'x) obj_state" where
  "set_cached i v s = ((fst s)(i \<mapsto> v), snd s)"

definition delete_cached :: "string \<Rightarrow> ('v, 'x) obj_state \<Rightarrow> ('v, 'x) obj_state" where
  "delete_cached i s = ((fst s)(i := None), snd s)"

text \<open>\<open>__set__\<close>: the setter, when there is one, runs before the value is kept.\<close>

definition cached_set :: "('v, 'x) cached_property \<Rightarrow> 'v \<Rightarrow> (('v, 'x) obj_state, unit) act" where
  "cached_set p v s =
     (case (case cp_fset p of None \<Rightarrow> (Inr (), s) | Some f \<Rightarrow> f v s) of
        (Inl e, t) \<Rightarrow> (Inl e, t)
      | (Inr _, t) \<Rightarrow> (Inr (), set_cached (cp_id p) v t))"

definition cached_get :: "('v, 'x) cached_property \<Rightarrow> (('v, 'x) obj_state, 'v) act" where
  "cached_get p s =
     (case get_cached s (cp_id p) of
        Some v \<Rightarrow> (Inr v, s)
      | None \<Rightarrow>
          (case cp_fget p of
             None \<Rightarrow> (Raise PyAttributeError ''Cached property has no getter method'', s)
           | Some f \<Rightarrow>
               (case f s of
                  (Inl e, t) \<Rightarrow> (Inl e, t)
                | (Inr v, t) \<Rightarrow>
                    (case cached_set p v t of
                       (Inl e, u) \<Rightarrow> (Inl e, u)
                     | (Inr _, u) \<Rightarrow> (Inr v, u)))))"

definition cached_delete :: "('v, 'x) cached_property \<Rightarrow> (('v, 'x) obj_state, unit) act" where
  "cached_delete p s =
     (case (case cp_fdel p of None \<Rightarrow> (Inr (), s) | Some f \<Rightarrow> f s) of
        (Inl e, t) \<Rightarrow> (Inl e, t)
      | (Inr _, t) \<Rightarrow> (Inr (), delete_cached (cp_id p) t))"

section \<open>The object's dictionary as a table\<close>

interpretation cch: forget_table get_cached set_cached delete_cached
  by unfold_locales (simp_all add: get_cached_def set_cached_def delete_cached_def)

text \<open>The getter followed by the setter is what creates a value.\<close>

definition cached_create :: "('v, 'x) cached_property \<Rightarrow> (('v, 'x) obj_state, 'v) act" where
  "cached_create p s =
     (case cp_fget p of
        None \<Rightarrow> (Raise PyAttributeError ''Cached property has no getter method'', s)
      | Some f \<Rightarrow>
          bindA f (\<lambda>v. bindA (case cp_fset p of None \<Rightarrow> ret () | Some g \<Rightarrow> g v) (\<lambda>_. ret v)) s)"

lemma cached_get_memo:
  "cached_get p s = get_or_create get_cached set_cached (cached_create p) (cp_id p) s"
  by (auto simp: cached_get_def get_or_create_def cached_create_def cached_set_def act_simps
      split: option.splits prod.splits sum.splits)

text \<open>
  Once a cached property has been read, reading it again returns the same value and
  calls neither getter nor setter, whatever the getter would now return; after it has been
  deleted, reading it runs the getter on the object without the cached value.
\<close>
theorem cached_get_once:
  assumes "cached_get p s = (Inr v, t)"
  shows "cached_get p t = (Inr v, t) \<and>
         cached_get (p\<lparr>cp_fget := fget'\<rparr>) t = (Inr v, t) \<and>
         (cp_fdel p = None \<longrightarrow>
            cached_get p (snd (cached_delete p t)) =
              (case cached_create p (delete_cached (cp_id p) t) of
                 (Inl e, u) \<Rightarrow> (Inl e, u) | (Inr w, u) \<Rightarrow> (Inr w, set_cached (cp_id p) w u)))"
proof -
  from assms have "get_or_create get_cached set_cached (cached_create p) (cp_id p) s = (Inr v, t)"
    by (simp add: cached_get_memo)
  note again = cch.get_again[OF this]
  have "cached_get p t = (Inr v, t)" "cached_get (p\<lparr>cp_fget := fget'\<rparr>) t = (Inr v, t)"
    by (simp_all add: cached_get_memo again)
  then show ?thesis by (simp add: cached_get_memo cached_delete_def cch.get_after_forget)
qed

lemma cached_get_once_witness:
  "cached_get (mk_cached_property (Some (\<lambda>s. (Inr (snd s), (fst s, Suc (snd s))))) None None (Some ''x'') [])
       ([''x'' \<mapsto> 0], 1) = (Inr (0 :: nat), ([''x'' \<mapsto> 0], 1)) \<and>
   cached_get (mk_cached_property (Some (\<lambda>s. (Inr (snd s), (fst s, Suc (snd s))))) None None (Some ''x'') [])
       (snd (cached_delete
          (mk_cached_property (Some (\<lambda>s. (Inr (snd s), (fst s, Suc (snd s))))) None None (Some ''x'') [])
          ([''x'' \<mapsto> 0], 1))) = (Inr (1 :: nat), ([''x'' \<mapsto> 1], 2))"
proof -
  let ?p = "mk_cached_property (Some (\<lambda>s :: (nat, nat) obj_state. (Inr (snd s), (fst s, Suc (snd s)))))
              None None (Some ''x'') []"
  have "cached_get ?p (Map.empty, 0) = (Inr 0, ([''x'' \<mapsto> 0], 1))"
    by (simp add: cached_get_def mk_cached_property_def get_cached_def cached_set_def set_cached_def)
  from cached_get_once[OF this] show ?thesis
    by (simp add: mk_cached_property_def cached_create_def act_simps set_cached_def delete_cached_def)
qed

end
