(* ===== verification/Tobiko_Loader.thy ===== *)
theory Tobiko_Loader
  imports Py_Strings Registry
begin

text \<open>
  tobiko/common/_loader.py: objects named by dotted ids, loaded by importing modules and
  reading attributes, and remembered by the loaders of a loader manager.

  The interpreter is a parameter: what a value is (\<open>None\<close> is Python's None), which objects
  are modules and which can be weakly referenced, and, on the interpreter's own state,
  \<open>sys.modules\<close>, which weakly referenced objects are still alive, \<open>getattr\<close> and
  \<open>importlib.import_module\<close>. A loader is the entry of the manager's table under its id.
\<close>

type_synonym 'o pyvalue = "'o option"

record ('o, 'x) python =
  ismodule :: "'o \<Rightarrow> bool"
  weakrefable :: "'o \<Rightarrow> bool"
  sys_modules :: "'x \<Rightarrow> string \<Rightarrow> 'o pyvalue option"
  alive :: "'x \<Rightarrow> 'o \<Rightarrow> bool"
  py_getattr :: "'o pyvalue \<Rightarrow> string \<Rightarrow> ('x, 'o pyvalue) act"
  import_module :: "string \<Rightarrow> ('x, 'o pyvalue) act"

section \<open>Loaders and their manager\<close>

text \<open>The method that \<open>self.get\<close> is bound to.\<close>

datatype 'o getter = GetNotCached | GetNone | GetModule | GetObject 'o

record 'o object_loader =
  ol_id :: string
  ol_name :: string
  ol_parent_id :: "string option"
  ol_is_module :: "bool option"
  ol_get :: "'o getter"

definition mk_loader :: "string \<Rightarrow> 'o object_loader" where
  "mk_loader object_id =
     (case rsplit1 (CHR ''.'') object_id of
        Some (parent_id, name) \<Rightarrow>
          \<lparr>ol_id = object_id, ol_name = name, ol_parent_id = Some parent_id,
           ol_is_module = None, ol_get = GetNotCached\<rparr>
      | None \<Rightarrow>
          \<lparr>ol_id = object_id, ol_name = object_id, ol_parent_id = None,
           ol_is_module = None, ol_get = GetNotCached\<rparr>)"

record ('o, 'x) load_state =
  ls_loaders :: "string \<rightharpoonup> 'o object_loader"
  ls_world :: 'x

definition find_loader :: "('o, 'x) load_state \<Rightarrow> string \<Rightarrow> 'o object_loader option" where
  "find_loader s k = ls_loaders s k"

definition put_loader :: "string \<Rightarrow> 'o object_loader \<Rightarrow> ('o, 'x) load_state \<Rightarrow> ('o, 'x) load_state" where
  "put_loader k l s = s\<lparr>ls_loaders := (ls_loaders s)(k \<mapsto> l)\<rparr>"

text \<open>A loader factory returns a loader, or the \<open>repr\<close> of something that is none.\<close>

type_synonym 'o loader_factory = "string \<Rightarrow> string + 'o object_loader"

definition create_loader :: "'o loader_factory option \<Rightarrow> string \<Rightarrow> (('o, 'x) load_state, 'o object_loader) act" where
  "create_loader new_loader object_id s =
     (case (case new_loader of None \<Rightarrow> Inr (mk_loader object_id) | Some f \<Rightarrow> f object_id) of
        Inl r \<Rightarrow> (Raise PyTypeError (r @ '' is not instance of class ObjectLoader''), s)
      | Inr l \<Rightarrow> (Inr l, s))"

definition get_loader :: "string \<Rightarrow> 'o loader_factory option \<Rightarrow> (('o, 'x) load_state, 'o object_loader) act" where
  "get_loader object_id new_loader =
     get_or_create find_loader put_loader (create_loader new_loader object_id) object_id"

interpretation ldr: memo_table find_loader put_loader
  by unfold_locales (simp add: find_loader_def put_loader_def)

text \<open>\<open>self\<close>, for the loader under the key \<open>k\<close>, which \<open>get_loader\<close> has put there.\<close>

definition loader_at :: "('o, 'x) load_state \<Rightarrow> string \<Rightarrow> 'o object_loader" where
  "loader_at s k = (case ls_loaders s k of Some l \<Rightarrow> l | None \<Rightarrow> mk_loader k)"

section \<open>What a loader remembers\<close>

definition not_cached :: "'o object_loader \<Rightarrow> 'a res" where
  "not_cached l = Raise PyRuntimeError (''Object '' @ str_repr (ol_id l) @ '' not cached'')"

definition loader_get :: "('o, 'x) python \<Rightarrow> 'o object_loader \<Rightarrow> 'x \<Rightarrow> 'o pyvalue res" where
  "loader_get P l x =
     (case ol_get l of
        GetNotCached \<Rightarrow> not_cached l
      | GetNone \<Rightarrow> Inr None
      | GetModule \<Rightarrow> (case sys_modules P x (ol_id l) of Some v \<Rightarrow> Inr v | None \<Rightarrow> not_cached l)
      | GetObject ob \<Rightarrow> if alive P x ob then Inr (Some ob) else not_cached l)"

definition loader_set :: "('o, 'x) python \<Rightarrow> string \<Rightarrow> 'o pyvalue \<Rightarrow> (('o, 'x) load_state, unit) act" where
  "loader_set P k v s =
     (let l = loader_at s k
      in case v of
           None \<Rightarrow> (Inr (), put_loader k (l\<lparr>ol_is_module := Some False, ol_get := GetNone\<rparr>) s)
         | Some ob \<Rightarrow>
             if ismodule P ob
             then (Inr (), put_loader k (l\<lparr>ol_is_module := Some True, ol_get := GetModule\<rparr>) s)
             else if weakrefable P ob
             then (Inr (), put_loader k (l\<lparr>ol_is_module := Some False, ol_get := GetObject ob\<rparr>) s)
             else (Raise PyTypeError ''cannot create weak reference'',
                   put_loader k (l\<lparr>ol_is_module := Some False\<rparr>) s))"

section \<open>Loading\<close>

definition on_world :: "('x, 'a) act \<Rightarrow> (('o, 'x) load_state, 'a) act" where
  "on_world f s = (case f (ls_world s) of (r, x) \<Rightarrow> (r, s\<lparr>ls_world := x\<rparr>))"

definition import_loader :: "('o, 'x) python \<Rightarrow> string \<Rightarrow> (('o, 'x) load_state, 'o pyvalue) act" where
  "import_loader P k s =
     bindA (on_world (import_module P (ol_id (loader_at s k))))
       (\<lambda>v. bindA (loader_set P k v) (\<lambda>_. ret v)) s"

text \<open>The key of the parent loader, when the loader has a parent id that is not empty.\<close>

definition parent_key :: "'o object_loader \<Rightarrow> string option" where
  "parent_key l = (case ol_parent_id l of None \<Rightarrow> None | Some p \<Rightarrow> if p = [] then None else Some p)"

text \<open>What \<open>load\<close> does once the parent \<open>p\<close> is loaded: read the attribute, or import.\<close>

definition load_child :: "('o, 'x) python \<Rightarrow> string \<Rightarrow> string \<Rightarrow> 'o pyvalue \<Rightarrow> (('o, 'x) load_state, 'o pyvalue) act" where
  "load_child P k p parent s =
     (case on_world (py_getattr P parent (ol_name (loader_at s k))) s of
        (Inr v, t) \<Rightarrow> bindA (loader_set P k v) (\<lambda>_. ret v) t
      | (Inl e, t) \<Rightarrow>
          if catches [PyAttributeError] e \<and> ol_is_module (loader_at t p) = Some True
          then import_loader P k t
          else (Inl e, t))"

partial_function (option) load ::
  "('o, 'x) python \<Rightarrow> bool \<Rightarrow> string \<Rightarrow> ('o, 'x) load_state \<Rightarrow> ('o pyvalue res \<times> ('o, 'x) load_state) option" where
  "load P cached k s =
     (case (if cached then loader_get P (loader_at s k) (ls_world s) else not_cached (loader_at s k)) of
        Inr v \<Rightarrow> Some (Inr v, s)
      | Inl _ \<Rightarrow>
          (case parent_key (loader_at s k) of
             None \<Rightarrow> Some (import_loader P k s)
           | Some p \<Rightarrow>
               (case get_loader p None s of
                  (Inl e, t) \<Rightarrow> Some (Inl e, t)
                | (Inr _, t) \<Rightarrow>
                    Option.bind (load P cached p t)
                      (\<lambda>(r, u). case r of Inl e \<Rightarrow> Some (Inl e, u)
                                | Inr parent \<Rightarrow> Some (load_child P k p parent u)))))"

definition load_object ::
  "('o, 'x) python \<Rightarrow> 'o loader_factory option \<Rightarrow> bool \<Rightarrow> string \<Rightarrow> ('o, 'x) load_state \<Rightarrow>
   ('o pyvalue res \<times> ('o, 'x) load_state) option" where
  "load_object P new_loader cached object_id s =
     (case get_loader object_id new_loader s of
        (Inl e, t) \<Rightarrow> Some (Inl e, t)
      | (Inr _, t) \<Rightarrow> load P cached object_id t)"

text \<open>\<open>ObjectLoader.load_module\<close>: the module itself or the nearest module around it.\<close>

partial_function (option) load_module_loop ::
  "('o, 'x) python \<Rightarrow> bool \<Rightarrow> string \<Rightarrow> ('o, 'x) load_state \<Rightarrow> ('o pyvalue res \<times> ('o, 'x) load_state) option" where
  "load_module_loop P cached k s =
     (if cached \<and> ol_is_module (loader_at s k) = Some True
      then Some (loader_get P (loader_at s k) (ls_world s), s)
      else Option.bind (load P cached k s)
        (\<lambda>(r, t). case r of
           Inl e \<Rightarrow> Some (Inl e, t)
         | Inr _ \<Rightarrow>
             if ol_is_module (loader_at t k) = Some True
             then Some (loader_get P (loader_at t k) (ls_world t), t)
             else (case parent_key (loader_at t k) of
                     None \<Rightarrow>
                       Some (Raise PyRuntimeError
                              (''Non-module object '' @ str_repr (ol_id (loader_at t k)) @ '' has no parent''), t)
                   | Some p \<Rightarrow>
                       (case get_loader p None t of
                          (Inl e, u) \<Rightarrow> Some (Inl e, u)
                        | (Inr _, u) \<Rightarrow> load_module_loop P True p u))))"

definition load_module ::
  "('o, 'x) python \<Rightarrow> 'o loader_factory option \<Rightarrow> bool \<Rightarrow> string \<Rightarrow> ('o, 'x) load_state \<Rightarrow>
   ('o pyvalue res \<times> ('o, 'x) load_state) option" where
  "load_module P new_loader cached object_id s =
     (case get_loader object_id new_loader s of
        (Inl e, t) \<Rightarrow> Some (Inl e, t)
      | (Inr _, t) \<Rightarrow> load_module_loop P cached object_id t)"

section \<open>Resolving a dotted name without any cache\<close>

text \<open>
  The specification: in an interpreter whose attributes and modules do not change, where
  \<open>G\<close> is \<open>getattr\<close> and \<open>M\<close> is \<open>import_module\<close>, a dotted id names an attribute of what its
  parent id names, or else the module of that name.
\<close>

definition is_module_value :: "('o, 'x) python \<Rightarrow> 'o pyvalue \<Rightarrow> bool" where
  "is_module_value P v = (case v of None \<Rightarrow> False | Some ob \<Rightarrow> ismodule P ob)"

definition storable :: "('o, 'x) python \<Rightarrow> 'o pyvalue \<Rightarrow> 'o pyvalue res" where
  "storable P v =
     (case v of None \<Rightarrow> Inr None
      | Some ob \<Rightarrow> if ismodule P ob \<or> weakrefable P ob then Inr (Some ob)
                   else Raise PyTypeError ''cannot create weak reference'')"

definition resolve_import :: "('o, 'x) python \<Rightarrow> (string \<Rightarrow> 'o pyvalue res) \<Rightarrow> string \<Rightarrow> 'o pyvalue res" where
  "resolve_import P M k = (case M k of Inl e \<Rightarrow> Inl e | Inr v \<Rightarrow> storable P v)"

lemma parent_key_shorter:
  "parent_key (mk_loader k) = Some p \<Longrightarrow> length p < length k"
  by (auto simp: parent_key_def mk_loader_def split: option.splits if_splits dest: rsplit1_shorter)

function resolve ::
  "('o, 'x) python \<Rightarrow> ('o pyvalue \<Rightarrow> string \<Rightarrow> 'o pyvalue res) \<Rightarrow> (string \<Rightarrow> 'o pyvalue res) \<Rightarrow>
   string \<Rightarrow> 'o pyvalue res" where
  "resolve P G M k =
     (case parent_key (mk_loader k :: 'o object_loader) of
        None \<Rightarrow> resolve_import P M k
      | Some p \<Rightarrow>
          (case resolve P G M p of
             Inl e \<Rightarrow> Inl e
           | Inr parent \<Rightarrow>
               (case G parent (ol_name (mk_loader k :: 'o object_loader)) of
                  Inr v \<Rightarrow> storable P v
                | Inl e \<Rightarrow> if catches [PyAttributeError] e \<and> is_module_value P parent
                           then resolve_import P M k else Inl e)))"
  by pat_completeness auto
termination
  by (relation "measure (\<lambda>(P, G, M, k). length k)") (auto dest: parent_key_shorter)

declare resolve.simps [simp del]

function resolve_module ::
  "('o, 'x) python \<Rightarrow> ('o pyvalue \<Rightarrow> string \<Rightarrow> 'o pyvalue res) \<Rightarrow> (string \<Rightarrow> 'o pyvalue res) \<Rightarrow>
   string \<Rightarrow> 'o pyvalue res" where
  "resolve_module P G M k =
     (case resolve P G M k of
        Inl e \<Rightarrow> Inl e
      | Inr v \<Rightarrow>
          if is_module_value P v then Inr v
          else (case parent_key (mk_loader k :: 'o object_loader) of
                  None \<Rightarrow> Raise PyRuntimeError (''Non-module object '' @ str_repr k @ '' has no parent'')
                | Some p \<Rightarrow> resolve_module P G M p))"
  by pat_completeness auto
termination
  by (relation "measure (\<lambda>(P, G, M, k). length k)") (auto dest: parent_key_shorter)

declare resolve_module.simps [simp del]

text \<open>
  The interpreter in the state \<open>x\<close> is settled: reading and importing change nothing, and an
  entry of \<open>sys.modules\<close> is the module its name resolves to.
\<close>

definition settled ::
  "('o, 'x) python \<Rightarrow> ('o pyvalue \<Rightarrow> string \<Rightarrow> 'o pyvalue res) \<Rightarrow> (string \<Rightarrow> 'o pyvalue res) \<Rightarrow> 'x \<Rightarrow> bool" where
  "settled P G M x =
     ((\<forall>v n. py_getattr P v n x = (G v n, x)) \<and> (\<forall>i. import_module P i x = (M i, x)) \<and>
      (\<forall>i v w. sys_modules P x i = Some v \<longrightarrow> resolve P G M i = Inr w \<longrightarrow> is_module_value P w \<longrightarrow> v = w))"

text \<open>A loader is right when what it remembers, if anything, is what its id resolves to.\<close>

definition loader_right ::
  "('o, 'x) python \<Rightarrow> 'o pyvalue res \<Rightarrow> string \<Rightarrow> 'o object_loader \<Rightarrow> bool" where
  "loader_right P r k l =
     (ol_id l = k \<and> ol_name l = ol_name (mk_loader k :: 'o object_loader) \<and>
      ol_parent_id l = ol_parent_id (mk_loader k :: 'o object_loader) \<and>
      (case ol_get l of
         GetNotCached \<Rightarrow> ol_is_module l \<noteq> Some True
       | GetNone \<Rightarrow> r = Inr None \<and> ol_is_module l = Some False
       | GetModule \<Rightarrow> (\<exists>ob. r = Inr (Some ob) \<and> ismodule P ob \<and> ol_is_module l = Some True)
       | GetObject ob \<Rightarrow> r = Inr (Some ob) \<and> \<not> ismodule P ob \<and> ol_is_module l = Some False))"

definition loaders_right ::
  "('o, 'x) python \<Rightarrow> ('o pyvalue \<Rightarrow> string \<Rightarrow> 'o pyvalue res) \<Rightarrow> (string \<Rightarrow> 'o pyvalue res) \<Rightarrow>
   ('o, 'x) load_state \<Rightarrow> bool" where
  "loaders_right P G M s =
     (\<forall>k l. ls_loaders s k = Some l \<longrightarrow> loader_right P (resolve P G M k) k l)"

lemma mk_loader_right: "loader_right P r k (mk_loader k)"
  by (auto simp: loader_right_def mk_loader_def split: option.splits)

lemma loader_at_right:
  "loaders_right P G M s \<Longrightarrow> loader_right P (resolve P G M k) k (loader_at s k)"
  by (auto simp: loaders_right_def loader_at_def mk_loader_right split: option.splits)

lemma loaders_right_put:
  "loaders_right P G M s \<Longrightarrow> loader_right P (resolve P G M k) k l \<Longrightarrow> loaders_right P G M (put_loader k l s)"
  by (simp add: loaders_right_def put_loader_def)

lemma parent_key_right:
  "loader_right P r k (l :: 'o object_loader) \<Longrightarrow> parent_key l = parent_key (mk_loader k :: 'o object_loader)"
  by (simp add: loader_right_def parent_key_def)

lemma get_loader_right:
  assumes "loaders_right P G M s"
  shows "\<exists>l t. get_loader k None s = (Inr l, t) \<and> loaders_right P G M t \<and> ls_world t = ls_world s"
  using assms mk_loader_right[of P _ k]
  by (auto simp: get_loader_def get_or_create_def create_loader_def loaders_right_put
      put_loader_def intro: loaders_right_put[unfolded put_loader_def] split: option.splits)

lemma loader_at_put [simp]: "loader_at (put_loader k l s) k = l"
  by (simp add: loader_at_def put_loader_def)

lemma ls_world_put [simp]: "ls_world (put_loader k l s) = ls_world s"
  by (simp add: put_loader_def)

text \<open>Keeping a value that the id resolves to.\<close>

lemma loader_set_right:
  assumes "loaders_right P G M s" and "resolve P G M k = storable P v"
  shows "\<exists>t. bindA (loader_set P k v) (\<lambda>_. ret v) s = (storable P v, t) \<and> loaders_right P G M t \<and>
             ls_world t = ls_world s \<and>
             (\<forall>w. storable P v = Inr w \<longrightarrow> ol_is_module (loader_at t k) = Some (is_module_value P w))"
proof -
  note right = loader_at_right[OF assms(1), of k]
  show ?thesis
    using right assms(2)
    by (cases v)
      (auto simp: act_simps loader_set_def storable_def Let_def is_module_value_def loader_right_def
         intro!: loaders_right_put[OF assms(1)] split: getter.splits if_splits)
qed

lemma import_loader_right:
  assumes "settled P G M (ls_world s)" and "loaders_right P G M s"
    and "resolve P G M k = resolve_import P M k"
  shows "\<exists>t. import_loader P k s = (resolve_import P M k, t) \<and> loaders_right P G M t \<and>
             ls_world t = ls_world s \<and>
             (\<forall>w. resolve_import P M k = Inr w \<longrightarrow> ol_is_module (loader_at t k) = Some (is_module_value P w))"
proof -
  have id: "ol_id (loader_at s k) = k" and world: "s\<lparr>ls_world := ls_world s\<rparr> = s"
    and im: "import_module P k (ls_world s) = (M k, ls_world s)"
    using loader_at_right[OF assms(2), of k] assms(1) by (simp_all add: loader_right_def settled_def)
  show ?thesis
  proof (cases "M k")
    case (Inl e)
    with id world im assms(2) show ?thesis
      by (simp add: import_loader_def bindA_def on_world_def resolve_import_def)
  next
    case (Inr v)
    then have "resolve P G M k = storable P v" using assms(3) by (simp add: resolve_import_def)
    from loader_set_right[OF assms(2) this] Inr id world im show ?thesis
      by (simp add: import_loader_def bindA_def on_world_def resolve_import_def)
  qed
qed

lemma loader_get_right:
  assumes "settled P G M x" and "loader_right P (resolve P G M k) k l" and "loader_get P l x = Inr v"
  shows "resolve P G M k = Inr v \<and> ol_is_module l = Some (is_module_value P v)"
proof (cases "ol_get l")
  case GetModule
  with assms obtain ob where r: "resolve P G M k = Inr (Some ob)" "ismodule P ob"
    "ol_is_module l = Some True" "sys_modules P x k = Some v"
    by (auto simp: loader_right_def loader_get_def not_cached_def split: option.splits)
  then have "is_module_value P (Some ob)" by (simp add: is_module_value_def)
  with r assms(1) have "v = Some ob" unfolding settled_def by blast
  with r show ?thesis by (simp add: is_module_value_def)
qed (use assms in \<open>auto simp: loader_right_def loader_get_def is_module_value_def not_cached_def split: if_splits\<close>)

lemma load_child_right:
  assumes st: "settled P G M (ls_world s)" and right: "loaders_right P G M s"
    and p: "parent_key (mk_loader k :: 'o object_loader) = Some p" "resolve P G M p = Inr parent"
    and flag: "ol_is_module (loader_at s p) = Some (is_module_value P parent)"
  shows "\<exists>t. load_child P k p (parent :: 'o pyvalue) s = (resolve P G M k, t) \<and> loaders_right P G M t \<and>
             ls_world t = ls_world s \<and>
             (\<forall>w. resolve P G M k = Inr w \<longrightarrow> ol_is_module (loader_at t k) = Some (is_module_value P w))"
proof -
  let ?n = "ol_name (mk_loader k :: 'o object_loader)"
  have name: "ol_name (loader_at s k) = ?n" and world: "s\<lparr>ls_world := ls_world s\<rparr> = s"
    and ga: "py_getattr P parent ?n (ls_world s) = (G parent ?n, ls_world s)"
    using loader_at_right[OF right, of k] st by (simp_all add: loader_right_def settled_def)
  note r = resolve.simps[of P G M k, unfolded p option.case sum.case]
  show ?thesis
  proof (cases "G parent ?n")
    case (Inr v)
    with r have "resolve P G M k = storable P v" by simp
    from loader_set_right[OF right this] this Inr name world ga show ?thesis
      by (simp add: load_child_def on_world_def)
  next
    case (Inl e)
    show ?thesis
    proof (cases "catches [PyAttributeError] e \<and> is_module_value P parent")
      case True
      with r Inl have "resolve P G M k = resolve_import P M k" by simp
      from import_loader_right[OF st right this] this True Inl name world ga flag show ?thesis
        by (simp add: load_child_def on_world_def)
    next
      case False
      with r Inl name world ga flag right show ?thesis
        by (auto simp: load_child_def on_world_def)
    qed
  qed
qed

lemma load_right:
  assumes "settled P G M (ls_world s)" and "loaders_right P G M s"
  shows "\<exists>t. load P cached (k :: string) s = Some (resolve P G M k, t) \<and> loaders_right P G M t \<and>
             ls_world t = ls_world s \<and>
             (\<forall>w. resolve P G M k = Inr w \<longrightarrow> ol_is_module (loader_at t k) = Some (is_module_value P w))"
  using assms
proof (induction k arbitrary: s rule: length_induct)
  case (1 k)
  note st = 1(2) and right = 1(3)
  let ?l = "loader_at s k"
  let ?hit = "if cached then loader_get P ?l (ls_world s) else not_cached ?l"
  show ?case
  proof (cases ?hit)
    case (Inr v)
    then have "cached" and "loader_get P ?l (ls_world s) = Inr v"
      by (auto simp: not_cached_def split: if_splits)
    from loader_get_right[OF st loader_at_right[OF right] this(2)] this(1) Inr right
    show ?thesis by (subst load.simps) (auto split: if_splits)
  next
    case (Inl e)
    note key = parent_key_right[OF loader_at_right[OF right, of k]]
    show ?thesis
    proof (cases "parent_key ?l")
      case None
      with key have eq: "resolve P G M k = resolve_import P M k" by (subst resolve.simps) simp
      from import_loader_right[OF st right this] eq Inl None show ?thesis
        by (subst load.simps) auto
    next
      case (Some p)
      with key have pk: "parent_key (mk_loader k :: 'a object_loader) = Some p" by simp
      obtain l t where g: "get_loader p None s = (Inr l, t)" "loaders_right P G M t"
        "ls_world t = ls_world s" using get_loader_right[OF right] by blast
      from 1(1) parent_key_shorter[OF pk] g(2,3) st obtain u where
        u: "load P cached p t = Some (resolve P G M p, u)" "loaders_right P G M u" "ls_world u = ls_world t"
          "\<forall>w. resolve P G M p = Inr w \<longrightarrow> ol_is_module (loader_at u p) = Some (is_module_value P w)"
        by metis
      have step: "load P cached k s = (case resolve P G M p of Inl e \<Rightarrow> Some (Inl e, u)
                    | Inr parent \<Rightarrow> Some (load_child P k p parent u))"
        using Inl Some g(1) u(1) by (subst load.simps) (simp split: sum.split)
      show ?thesis
      proof (cases "resolve P G M p")
        case (Inl e')
        with pk have "resolve P G M k = Inl e'" by (subst resolve.simps) simp
        with step Inl u g show ?thesis by simp
      next
        case (Inr parent)
        with load_child_right[OF _ u(2) pk Inr] u g st step show ?thesis by simp
      qed
    qed
  qed
qed

text \<open>
  Property (C3). Caching is transparent: in a settled interpreter \<open>load_object\<close> returns, with the
  cache or without it, exactly the object or the exception that the dotted id resolves to
  by importing the root module and reading attribute after attribute (importing when a
  module has no such attribute), and it leaves every loader of the manager right, so that
  this holds of every later load too.
\<close>
theorem load_object_resolves:
  assumes "settled P G M (ls_world s)" and "loaders_right P G M s"
  shows "\<exists>t. load_object P None cached i s = Some (resolve P G M i, t) \<and>
             loaders_right P G M t \<and> ls_world t = ls_world s"
proof -
  obtain l t where g: "get_loader i None s = (Inr l, t)" "loaders_right P G M t"
    "ls_world t = ls_world s" using get_loader_right[OF assms(2)] by blast
  with load_right[of P G M t cached i] assms(1) show ?thesis by (auto simp: load_object_def)
qed

text \<open>A small interpreter: the module \<open>a\<close> with a class \<open>B\<close> and a submodule \<open>c\<close> not yet an attribute.\<close>

definition demo_getattr :: "nat pyvalue \<Rightarrow> string \<Rightarrow> nat pyvalue res" where
  "demo_getattr v n =
     (if v = Some 0 \<and> n = ''B'' then Inr (Some 1) else Raise PyAttributeError n)"

definition demo_import :: "string \<Rightarrow> nat pyvalue res" where
  "demo_import i =
     (if i = ''a'' then Inr (Some 0) else if i = ''a.c'' then Inr (Some 2)
      else Raise [''ModuleNotFoundError''] i)"

definition demo_python :: "(nat, unit) python" where
  "demo_python =
     \<lparr>ismodule = (\<lambda>ob. ob \<noteq> 1), weakrefable = (\<lambda>_. True),
      sys_modules = (\<lambda>x. [''a'' \<mapsto> Some 0, ''a.c'' \<mapsto> Some 2]), alive = (\<lambda>_ _. True),
      py_getattr = (\<lambda>v n x. (demo_getattr v n, x)), import_module = (\<lambda>i x. (demo_import i, x))\<rparr>"

lemma demo_resolve:
  "resolve demo_python demo_getattr demo_import ''a'' = Inr (Some 0)"
  "resolve demo_python demo_getattr demo_import ''a.c'' = Inr (Some 2)"
  "resolve demo_python demo_getattr demo_import ''a.B'' = Inr (Some 1)"
proof -
  show a: "resolve demo_python demo_getattr demo_import ''a'' = Inr (Some 0)"
    by (subst resolve.simps) (simp add: parent_key_def mk_loader_def rsplit1_def resolve_import_def
        demo_import_def storable_def demo_python_def)
  show "resolve demo_python demo_getattr demo_import ''a.c'' = Inr (Some 2)"
    by (subst resolve.simps, simp add: parent_key_def mk_loader_def rsplit1_def a)
      (simp add: resolve_import_def demo_import_def storable_def demo_python_def demo_getattr_def is_module_value_def
        catches_Cons isinstance_exn_def issubclass_def exn_classes)
  show "resolve demo_python demo_getattr demo_import ''a.B'' = Inr (Some 1)"
    by (subst resolve.simps, simp add: parent_key_def mk_loader_def rsplit1_def a)
      (simp add: storable_def demo_python_def demo_getattr_def)
qed

lemma demo_settled: "settled demo_python demo_getattr demo_import ()"
  using demo_resolve by (auto simp: settled_def demo_python_def split: if_splits)

lemma load_object_resolves_witness:
  "\<exists>t. load_object demo_python None True ''a.c'' \<lparr>ls_loaders = Map.empty, ls_world = ()\<rparr>
         = Some (Inr (Some 2), t) \<and>
       (\<exists>u. load_object demo_python None True ''a.B'' t = Some (Inr (Some 1), u))"
proof -
  have st: "settled demo_python demo_getattr demo_import (ls_world s)" for s :: "(nat, unit) load_state"
    using demo_settled by simp
  have "loaders_right demo_python demo_getattr demo_import \<lparr>ls_loaders = Map.empty, ls_world = ()\<rparr>"
    by (simp add: loaders_right_def)
  from load_object_resolves[OF st this, of True "''a.c''"] obtain t where
    t: "load_object demo_python None True ''a.c'' \<lparr>ls_loaders = Map.empty, ls_world = ()\<rparr> = Some (Inr (Some 2), t)"
    "loaders_right demo_python demo_getattr demo_import t" by (auto simp: demo_resolve)
  from load_object_resolves[OF st t(2), of True "''a.B''"] t(1) show ?thesis by (auto simp: demo_resolve)
qed

section \<open>Loading modules\<close>

definition modules_listed ::
  "('o, 'x) python \<Rightarrow> ('o pyvalue \<Rightarrow> string \<Rightarrow> 'o pyvalue res) \<Rightarrow> (string \<Rightarrow> 'o pyvalue res) \<Rightarrow> 'x \<Rightarrow> bool" where
  "modules_listed P G M x =
     (\<forall>i w. resolve P G M i = Inr w \<longrightarrow> is_module_value P w \<longrightarrow> sys_modules P x i = Some w)"

lemma loader_get_module:
  assumes "modules_listed P G M x" and "loader_right P (resolve P G M k) k l"
    and "ol_is_module l = Some True"
  shows "\<exists>v. loader_get P l x = Inr v \<and> resolve P G M k = Inr v \<and> is_module_value P v"
proof -
  from assms(2,3) obtain ob where get: "ol_get l = GetModule" and r: "resolve P G M k = Inr (Some ob)"
    and "ismodule P ob" and "ol_id l = k"
    by (auto simp: loader_right_def split: getter.splits)
  moreover from this have "is_module_value P (Some ob)" by (simp add: is_module_value_def)
  moreover from this assms(1) r have "sys_modules P x k = Some (Some ob)" unfolding modules_listed_def by blast
  ultimately show ?thesis by (simp add: loader_get_def)
qed

lemma load_module_loop_right:
  assumes "settled P G M (ls_world s)" and "modules_listed P G M (ls_world s)" and "loaders_right P G M s"
  shows "\<exists>t. load_module_loop P cached (k :: string) s = Some (resolve_module P G M k, t) \<and> loaders_right P G M t \<and>
             ls_world t = ls_world s"
  using assms
proof (induction k arbitrary: s cached rule: length_induct)
  case (1 k)
  note st = 1(2) and listed = 1(3) and right = 1(4)
  show ?case
  proof (cases "cached \<and> ol_is_module (loader_at s k) = Some True")
    case True
    with loader_get_module[OF listed loader_at_right[OF right, of k]] right show ?thesis
      by (subst load_module_loop.simps, subst resolve_module.simps) auto
  next
    case False
    from load_right[OF st right, of cached k] obtain t where
      t: "load P cached k s = Some (resolve P G M k, t)" "loaders_right P G M t" "ls_world t = ls_world s"
        "\<forall>w. resolve P G M k = Inr w \<longrightarrow> ol_is_module (loader_at t k) = Some (is_module_value P w)" by blast
    note at = loader_at_right[OF t(2), of k]
    from False have nf: "(cached \<and> ol_is_module (loader_at s k) = Some True) = False" by simp
    note unf = load_module_loop.simps[of P cached k s, unfolded t(1) nf if_False] resolve_module.simps[of P G M k]
    show ?thesis
    proof (cases "resolve P G M k")
      case (Inl e)
      with t unf show ?thesis by simp
    next
      case (Inr v)
      show ?thesis
      proof (cases "is_module_value P v")
        case True
        with Inr t loader_get_module[OF _ at, of "ls_world s"] listed have
          "loader_get P (loader_at t k) (ls_world t) = Inr v" by auto
        with True Inr t unf show ?thesis by simp
      next
        case notmod: False
        show ?thesis
        proof (cases "parent_key (mk_loader k :: 'a object_loader)")
          case None
          with parent_key_right[OF at] have "parent_key (loader_at t k) = None" by simp
          moreover have "ol_id (loader_at t k) = k" using at by (simp add: loader_right_def)
          ultimately show ?thesis using None notmod Inr t unf by simp
        next
          case (Some p)
          with parent_key_right[OF at] have key: "parent_key (loader_at t k) = Some p" by simp
          obtain l u where g: "get_loader p None t = (Inr l, u)" "loaders_right P G M u"
            "ls_world u = ls_world t" using get_loader_right[OF t(2)] by blast
          with 1(1) parent_key_shorter[OF Some] st listed t(3) obtain w where
            "load_module_loop P True p u = Some (resolve_module P G M p, w)" "loaders_right P G M w"
            "ls_world w = ls_world u" by metis
          with Some key notmod Inr t g unf show ?thesis by simp
        qed
      qed
    qed
  qed
qed


lemma demo_is_module: "is_module_value demo_python v \<longleftrightarrow> v \<noteq> None \<and> v \<noteq> Some 1"
  by (cases v) (simp_all add: is_module_value_def demo_python_def)

lemma demo_storable: "storable demo_python v = Inr v"
  by (auto simp: storable_def demo_python_def split: option.splits)

lemma demo_modules_listed:
  "modules_listed demo_python demo_getattr demo_import ()"
  unfolding modules_listed_def
proof (intro allI impI)
  fix i w
  assume r: "resolve demo_python demo_getattr demo_import i = Inr w" "is_module_value demo_python w"
  from r(1)[unfolded resolve.simps[of demo_python demo_getattr demo_import i]] r(2)
  have "resolve_import demo_python demo_import i = Inr w"
    by (auto simp: demo_storable demo_is_module demo_getattr_def split: option.splits sum.splits if_splits)
  then show "sys_modules demo_python () i = Some w"
    by (auto simp: resolve_import_def demo_import_def demo_python_def storable_def split: if_splits)
qed


end
