(* ===== verification/Tobiko_Fixture.thy ===== *)
theory Tobiko_Fixture
  imports Tobiko_Exceptions Registry "HOL-Library.List_Lexorder" "HOL-Library.Char_ord"
begin

text \<open>
  tobiko/common/_fixture.py: the names of fixtures, the managers that keep one fixture for
  each name, creating, setting up, resetting, cleaning and removing fixtures, and finding
  the fixtures that tests and fixtures require.

  Python objects are the values of a type parameter. What the code asks of an object is a
  record of functions: its class, whether it is a fixture or a function, its names, its
  method resolution order and class dictionary. The attributes that tobiko itself sets on
  objects are state. Managers are numbered, 0 is \<open>FIXTURES\<close>. Fixture ids are texts.
\<close>

section \<open>Objects and the state\<close>

datatype 'o fixture_ref = FStr string | FObj 'o

record ('o, 'x) fx_state =
  fx_table :: "nat \<times> string \<rightharpoonup> 'o"
  fx_flag :: "'o \<Rightarrow> bool option"
  fx_name :: "'o \<Rightarrow> string option"
  fx_id :: "'o \<Rightarrow> string option"
  fx_required :: "'o \<Rightarrow> 'o fixture_ref list option"
  fx_world :: 'x

record ('o, 'k, 'x) fx_python =
  isinstance_fixture :: "'o \<Rightarrow> bool"
  isclass :: "'o \<Rightarrow> bool"
  subclass_fixture :: "'o \<Rightarrow> bool"
  type_of :: "'o \<Rightarrow> 'o"
  is_function :: "'o \<Rightarrow> bool"
  is_method :: "'o \<Rightarrow> bool"
  py_name :: "'o \<Rightarrow> string"
  qualname :: "'o \<Rightarrow> string option"
  module_of :: "'o \<Rightarrow> string option"
  mro :: "'o \<Rightarrow> 'o list"
  class_dict :: "'o \<Rightarrow> (string \<times> 'o) list"
  defaults_of :: "'o \<Rightarrow> 'o list option"
  required_property :: "'o \<Rightarrow> ('o fixture_ref \<times> string option \<times> nat option \<times> 'k) option"
  settable :: "'o \<Rightarrow> bool"
  own_manager :: "'o \<Rightarrow> nat option"
  py_repr :: "'o \<Rightarrow> string"
  test_case_class :: 'o
  shared_fixture_class :: 'o
  load_fixture_object :: "string \<Rightarrow> (('o, 'x) fx_state, 'o) act"
  construct :: "'o \<Rightarrow> 'k \<Rightarrow> (('o, 'x) fx_state, 'o) act"

text \<open>
  \<open>getattr(obj, name, None)\<close>: the attribute of the object itself, or the first one of the
  classes it inherits from (\<open>mro\<close> of a class starts with the class itself).
\<close>

definition lookup_order :: "('o, 'k, 'x) fx_python \<Rightarrow> 'o \<Rightarrow> 'o list" where
  "lookup_order P x = (if isclass P x then mro P x else x # mro P (type_of P x))"

definition attr_lookup :: "('o, 'k, 'x) fx_python \<Rightarrow> ('o \<Rightarrow> 'a option) \<Rightarrow> 'o \<Rightarrow> 'a option" where
  "attr_lookup P attr x =
     (case dropWhile (\<lambda>y. attr y = None) (lookup_order P x) of [] \<Rightarrow> None | y # _ \<Rightarrow> attr y)"

section \<open>Names\<close>

definition is_fixture :: "('o, 'k, 'x) fx_python \<Rightarrow> 'o \<Rightarrow> ('o, 'x) fx_state \<Rightarrow> bool" where
  "is_fixture P x s =
     (attr_lookup P (fx_flag s) x = Some True \<or> isinstance_fixture P x \<or>
      (isclass P x \<and> subclass_fixture P x))"

definition get_object_name :: "('o, 'k, 'x) fx_python \<Rightarrow> 'o fixture_ref \<Rightarrow> ('o, 'x) fx_state \<Rightarrow> string res" where
  "get_object_name P r s =
     (case r of
        FStr n \<Rightarrow> Inr n
      | FObj x \<Rightarrow>
          (case attr_lookup P (fx_name s) x of
             Some n \<Rightarrow> Inr n
           | None \<Rightarrow>
               (let ob = (if \<not> is_function P x \<and> \<not> is_method P x \<and> \<not> isclass P x then type_of P x else x)
                in case (module_of P ob, qualname P ob) of
                     (Some m, Some n) \<Rightarrow> Inr (m @ ''.'' @ n)
                   | _ \<Rightarrow> Raise PyTypeError (''Unable to get fixture name from object '' @ py_repr P ob))))"

definition get_fixture_name :: "('o, 'k, 'x) fx_python \<Rightarrow> 'o \<Rightarrow> (('o, 'x) fx_state, string) act" where
  "get_fixture_name P x s =
     (case attr_lookup P (fx_name s) x of
        Some n \<Rightarrow> (Inr n, s)
      | None \<Rightarrow>
          if \<not> is_fixture P x s
          then (Raise PyTypeError (''Object '' @ py_repr P x @ '' is not a fixture.''), s)
          else (case get_object_name P (FObj x) s of
                  Inl e \<Rightarrow> (Inl e, s)
                | Inr n \<Rightarrow>
                    (Inr n, if isclass P x then s
                            else s\<lparr>fx_flag := (fx_flag s)(x := Some True),
                                   fx_name := (fx_name s)(x := Some n)\<rparr>)))"

definition get_fixture_id :: "('o, 'k, 'x) fx_python \<Rightarrow> 'o \<Rightarrow> ('o, 'x) fx_state \<Rightarrow> string option" where
  "get_fixture_id P x s = attr_lookup P (fx_id s) x"

definition get_fixture_class :: "('o, 'k, 'x) fx_python \<Rightarrow> 'o fixture_ref \<Rightarrow> (('o, 'x) fx_state, 'o) act" where
  "get_fixture_class P r s =
     (case (case r of FStr n \<Rightarrow> load_fixture_object P n s | FObj x \<Rightarrow> (Inr x, s)) of
        (Inl e, t) \<Rightarrow> (Inl e, t)
      | (Inr x, t) \<Rightarrow>
          (let c = (if isclass P x then x else type_of P x)
           in if subclass_fixture P c then (Inr c, t) else (Raise PyAssertionError [], t)))"

definition get_name_and_object :: "('o, 'k, 'x) fx_python \<Rightarrow> 'o fixture_ref \<Rightarrow> (('o, 'x) fx_state, string \<times> 'o) act" where
  "get_name_and_object P r s =
     (case r of
        FStr n \<Rightarrow> (case load_fixture_object P n s of (Inl e, t) \<Rightarrow> (Inl e, t) | (Inr x, t) \<Rightarrow> (Inr (n, x), t))
      | FObj x \<Rightarrow> (case get_object_name P r s of Inl e \<Rightarrow> (Inl e, s) | Inr n \<Rightarrow> (Inr (n, x), s)))"

section \<open>The fixture manager\<close>

text \<open>The name a fixture has with an id: \<open>name-id\<close> when the id is not empty.\<close>

definition with_fixture_id :: "string \<Rightarrow> string option \<Rightarrow> string" where
  "with_fixture_id name fixture_id =
     (case fixture_id of None \<Rightarrow> name | Some i \<Rightarrow> if i = [] then name else name @ ''-'' @ i)"

definition init_fixture ::
  "('o, 'k, 'x) fx_python \<Rightarrow> 'o \<Rightarrow> string \<Rightarrow> string option \<Rightarrow> 'k \<Rightarrow> (('o, 'x) fx_state, 'o) act" where
  "init_fixture P x name fixture_id kwargs s =
     (case (if isinstance_fixture P x then construct P x kwargs s
            else if isclass P x \<and> subclass_fixture P x
            then (case construct P x kwargs s of
                    (Inl e, t) \<Rightarrow>
                      if catches [PyException] e
                      then (Raise PyTypeError (''Error creating fixture '' @ str_repr name @
                              '' from class '' @ py_repr P x @ ''.''), t)
                      else (Inl e, t)
                  | (Inr f, t) \<Rightarrow> (Inr f, t))
            else (Raise PyTypeError (''Invalid fixture object type: '' @ str_repr (py_repr P x)), s)) of
        (Inl e, t) \<Rightarrow> (Inl e, t)
      | (Inr f, t) \<Rightarrow>
          (Inr f, t\<lparr>fx_flag := (fx_flag t)(f := Some True), fx_name := (fx_name t)(f := Some name),
                    fx_id := (fx_id t)(f := fixture_id)\<rparr>))"

definition find_fixture :: "('o, 'x) fx_state \<Rightarrow> nat \<times> string \<Rightarrow> 'o option" where
  "find_fixture s k = fx_table s k"

definition put_fixture :: "nat \<times> string \<Rightarrow> 'o \<Rightarrow> ('o, 'x) fx_state \<Rightarrow> ('o, 'x) fx_state" where
  "put_fixture k f s = s\<lparr>fx_table := (fx_table s)(k \<mapsto> f)\<rparr>"

definition pop_fixture :: "nat \<times> string \<Rightarrow> ('o, 'x) fx_state \<Rightarrow> ('o, 'x) fx_state" where
  "pop_fixture k s = s\<lparr>fx_table := (fx_table s)(k := None)\<rparr>"

interpretation fxt: forget_table find_fixture put_fixture pop_fixture
  by unfold_locales (simp_all add: find_fixture_def put_fixture_def pop_fixture_def)

definition create_fixture ::
  "('o, 'k, 'x) fx_python \<Rightarrow> 'o \<Rightarrow> string \<Rightarrow> string option \<Rightarrow> 'k \<Rightarrow> (('o, 'x) fx_state, 'o) act" where
  "create_fixture P x name fixture_id kwargs s =
     (case init_fixture P x name fixture_id kwargs s of
        (Inl e, t) \<Rightarrow> (Inl e, t)
      | (Inr f, t) \<Rightarrow> if isinstance_fixture P f then (Inr f, t) else (Raise PyAssertionError [], t))"

definition manager_get_fixture ::
  "('o, 'k, 'x) fx_python \<Rightarrow> nat \<Rightarrow> 'o fixture_ref \<Rightarrow> string option \<Rightarrow> 'k \<Rightarrow> (('o, 'x) fx_state, 'o) act" where
  "manager_get_fixture P m r fixture_id kwargs s =
     (case get_name_and_object P r s of
        (Inl e, t) \<Rightarrow> (Inl e, t)
      | (Inr (n, x), t) \<Rightarrow>
          (let name = with_fixture_id n fixture_id
           in get_or_create find_fixture put_fixture (create_fixture P x name fixture_id kwargs) (m, name) t))"

definition manager_remove_fixture ::
  "('o, 'k, 'x) fx_python \<Rightarrow> nat \<Rightarrow> 'o fixture_ref \<Rightarrow> string option \<Rightarrow> (('o, 'x) fx_state, 'o option) act" where
  "manager_remove_fixture P m r fixture_id s =
     (case get_object_name P r s of
        Inl e \<Rightarrow> (Inl e, s)
      | Inr n \<Rightarrow>
          (let k = (m, with_fixture_id n fixture_id) in (Inr (find_fixture s k), pop_fixture k s)))"

definition fixture_manager ::
  "('o, 'k, 'x) fx_python \<Rightarrow> 'o fixture_ref \<Rightarrow> nat option \<Rightarrow> (('o, 'x) fx_state, nat) act" where
  "fixture_manager P r manager s =
     (case manager of
        Some m \<Rightarrow> (Inr m, s)
      | None \<Rightarrow>
          (case (case r of FStr n \<Rightarrow> load_fixture_object P n s | FObj x \<Rightarrow> (Inr x, s)) of
             (Inl e, t) \<Rightarrow> (Inl e, t)
           | (Inr x, t) \<Rightarrow> (Inr (case own_manager P x of Some m \<Rightarrow> m | None \<Rightarrow> 0), t)))"

definition get_fixture ::
  "('o, 'k, 'x) fx_python \<Rightarrow> 'o fixture_ref \<Rightarrow> string option \<Rightarrow> nat option \<Rightarrow> 'k \<Rightarrow> (('o, 'x) fx_state, 'o) act" where
  "get_fixture P r fixture_id manager kwargs s =
     (case r of
        FObj x \<Rightarrow>
          if isinstance_fixture P x then (Inr x, s)
          else bindA (fixture_manager P r manager)
                 (\<lambda>m. manager_get_fixture P m r fixture_id kwargs) s
      | FStr n \<Rightarrow>
          bindA (fixture_manager P r manager) (\<lambda>m. manager_get_fixture P m r fixture_id kwargs) s)"

definition remove_fixture ::
  "('o, 'k, 'x) fx_python \<Rightarrow> 'o fixture_ref \<Rightarrow> string option \<Rightarrow> nat option \<Rightarrow> (('o, 'x) fx_state, 'o option) act" where
  "remove_fixture P r fixture_id manager =
     bindA (fixture_manager P r manager) (\<lambda>m. manager_remove_fixture P m r fixture_id)"

section \<open>Setting fixtures up and cleaning them\<close>

text \<open>
  The methods of a fixture may raise a \<open>MultipleExceptions\<close>, so an action on them ends with
  an exception object. \<open>new_id\<close> is the identity of the exception an operation itself makes.
\<close>

type_synonym ('s, 'a) xact = "'s \<Rightarrow> (exc + 'a) \<times> 's"

record ('o, 's) fx_methods =
  fm_setUp :: "'o \<Rightarrow> ('s, unit) xact"
  fm_reset :: "'o \<Rightarrow> ('s, unit) xact"
  fm_cleanUp :: "'o \<Rightarrow> ('s, unit) xact"

definition single :: "nat \<Rightarrow> ('s, 'a) act \<Rightarrow> ('s, 'a) xact" where
  "single new_id f s = (case f s of (Inl e, t) \<Rightarrow> (Inl (Single new_id e), t) | (Inr x, t) \<Rightarrow> (Inr x, t))"

text \<open>\<open>handle_setup_error\<close> and \<open>log_unhandled_exception\<close> write to the log only.\<close>

definition handle_setup_error :: "exc \<Rightarrow> ('s, unit) act" where
  "handle_setup_error x s = (Inr (), s)"

definition log_unhandled_exception :: "exc \<Rightarrow> ('s, unit) act" where
  "log_unhandled_exception x s = (Inr (), s)"

text \<open>
  The loop of \<open>setup_fixture\<close> over the fixture and its alternative. It also returns the
  fixture that the local variable holds at the end.
\<close>

fun setup_first ::
  "('o \<Rightarrow> ('s, unit) xact) \<Rightarrow> nat \<Rightarrow> ('r \<Rightarrow> ('s, 'o) act) \<Rightarrow> 'r list \<Rightarrow> exc list \<Rightarrow> 'o option \<Rightarrow> 's \<Rightarrow>
   (exc + 'o) \<times> 'o option \<times> 's" where
  "setup_first setUp new_id get [] errors var s = (Inl (Multi new_id errors), var, s)"
| "setup_first setUp new_id get (r # rs) errors var s =
     (case get r s of
        (Inl e, t) \<Rightarrow> (Inl (Single new_id e), var, t)
      | (Inr f, t) \<Rightarrow>
          (case setUp f t of
             (Inr _, u) \<Rightarrow> (Inr f, Some f, u)
           | (Inl (Multi i args), u) \<Rightarrow> setup_first setUp new_id get rs (errors @ [Multi i args]) (Some f) u
           | (Inl (Single i e), u) \<Rightarrow> (Inl (Single i e), Some f, u)))"

definition setup_fixture ::
  "('o, 'k, 'x) fx_python \<Rightarrow> ('o, ('o, 'x) fx_state) fx_methods \<Rightarrow> nat \<Rightarrow> 'o fixture_ref \<Rightarrow> string option \<Rightarrow>
   nat option \<Rightarrow> 'o fixture_ref option \<Rightarrow> 'k \<Rightarrow> (('o, 'x) fx_state, 'o option) xact" where
  "setup_fixture P F new_id r fixture_id manager alternative kwargs s =
     (let objs = (case alternative of None \<Rightarrow> [r] | Some r' \<Rightarrow> [r, r'])
      in case setup_first (fm_setUp F) new_id (\<lambda>r. get_fixture P r fixture_id manager kwargs) objs [] None s of
           (body, var, t) \<Rightarrow>
             (case handle_multiple_exceptions handle_setup_error new_id (body, t) of
                (Inl e, u) \<Rightarrow> (Inl e, u)
              | (Inr _, u) \<Rightarrow> (Inr var, u)))"

text \<open>\<open>reset_fixture\<close> and \<open>cleanup_fixture\<close>: a method of the fixture, then the fixture.\<close>

definition on_fixture ::
  "('o \<Rightarrow> ('s, unit) xact) \<Rightarrow> nat \<Rightarrow> ('s, 'o) act \<Rightarrow> ('s, 'o) xact" where
  "on_fixture method new_id get s =
     (case get s of
        (Inl e, t) \<Rightarrow> (Inl (Single new_id e), t)
      | (Inr f, t) \<Rightarrow>
          (case handle_multiple_exceptions log_unhandled_exception new_id (method f t) of
             (Inl e, u) \<Rightarrow> (Inl e, u) | (Inr _, u) \<Rightarrow> (Inr f, u)))"

definition reset_fixture ::
  "('o, 'k, 'x) fx_python \<Rightarrow> ('o, ('o, 'x) fx_state) fx_methods \<Rightarrow> nat \<Rightarrow> 'o fixture_ref \<Rightarrow> string option \<Rightarrow>
   nat option \<Rightarrow> 'k \<Rightarrow> (('o, 'x) fx_state, 'o) xact" where
  "reset_fixture P F new_id r fixture_id manager kwargs =
     on_fixture (fm_reset F) new_id (get_fixture P r fixture_id manager kwargs)"

text \<open>\<open>no_kwargs\<close> is the empty dictionary of keyword arguments.\<close>

definition cleanup_fixture ::
  "('o, 'k, 'x) fx_python \<Rightarrow> ('o, ('o, 'x) fx_state) fx_methods \<Rightarrow> nat \<Rightarrow> 'k \<Rightarrow> 'o fixture_ref \<Rightarrow> string option \<Rightarrow>
   nat option \<Rightarrow> (('o, 'x) fx_state, 'o) xact" where
  "cleanup_fixture P F new_id no_kwargs r fixture_id manager =
     on_fixture (fm_cleanUp F) new_id (get_fixture P r fixture_id manager no_kwargs)"

text \<open>\<open>add_cleanup f\<close> registers the cleanup of \<open>f\<close> with the running test case.\<close>

definition use_fixture ::
  "('o, 'k, 'x) fx_python \<Rightarrow> ('o, ('o, 'x) fx_state) fx_methods \<Rightarrow> ('o option \<Rightarrow> (('o, 'x) fx_state, unit) act) \<Rightarrow>
   nat \<Rightarrow> 'o fixture_ref \<Rightarrow> string option \<Rightarrow> nat option \<Rightarrow> 'o fixture_ref option \<Rightarrow> 'k \<Rightarrow>
   (('o, 'x) fx_state, 'o option) xact" where
  "use_fixture P F add_cleanup new_id r fixture_id manager alternative kwargs s =
     (case setup_fixture P F new_id r fixture_id manager alternative kwargs s of
        (Inl e, t) \<Rightarrow> (Inl e, t)
      | (Inr f, t) \<Rightarrow>
          (case single new_id (add_cleanup f) t of (Inl e, u) \<Rightarrow> (Inl e, u) | (Inr _, u) \<Rightarrow> (Inr f, u)))"

section \<open>Required fixtures\<close>

definition is_test_method :: "('o, 'k, 'x) fx_python \<Rightarrow> 'o \<Rightarrow> bool" where
  "is_test_method P x = ((is_function P x \<or> is_method P x) \<and> prefix ''test_'' (py_name P x))"

text \<open>The classes of the resolution order before the common base class, if there is one.\<close>

definition searched_classes :: "('o, 'k, 'x) fx_python \<Rightarrow> 'o \<Rightarrow> 'o list" where
  "searched_classes P c =
     (if test_case_class P \<in> set (mro P c) then takeWhile (\<lambda>b. b \<noteq> test_case_class P) (mro P c)
      else if shared_fixture_class P \<in> set (mro P c)
      then takeWhile (\<lambda>b. b \<noteq> shared_fixture_class P) (mro P c)
      else mro P c)"

definition class_members :: "('o, 'k, 'x) fx_python \<Rightarrow> 'o \<Rightarrow> (string \<times> 'o) list" where
  "class_members P c = foldl (\<lambda>d b. dict_update d (class_dict P b)) [] (rev (searched_classes P c))"

definition get_required_fixture_properties :: "('o, 'k, 'x) fx_python \<Rightarrow> 'o \<Rightarrow> 'o list" where
  "get_required_fixture_properties P c =
     filter (\<lambda>m. required_property P m \<noteq> None) (map snd (sort_key fst (class_members P c)))"

text \<open>\<open>RequiredFixture.get_fixture\<close>.\<close>

definition property_fixture :: "('o, 'k, 'x) fx_python \<Rightarrow> 'o \<Rightarrow> (('o, 'x) fx_state, 'o) act" where
  "property_fixture P p s =
     (case required_property P p of
        None \<Rightarrow> (Raise PyAttributeError ''fixture'', s)
      | Some (r, i, m, kw) \<Rightarrow> get_fixture P r i m kw s)"

definition find_required :: "('o, 'k, 'x) fx_python \<Rightarrow> 'o \<Rightarrow> (('o, 'x) fx_state, 'o list) act" where
  "find_required P x s =
     (if is_test_method P x
      then (Inr (remdups (filter (\<lambda>d. is_fixture P d s) (case defaults_of P x of None \<Rightarrow> [] | Some ds \<Rightarrow> ds))), s)
      else if isclass P x
      then (case map_act (property_fixture P) (get_required_fixture_properties P x) s of
              (Inl e, t) \<Rightarrow> (Inl e, t) | (Inr fs, t) \<Rightarrow> (Inr (remdups fs), t))
      else (Inr [], s))"

text \<open>
  \<open>get_required_fixtures\<close>: the names kept on the object (or on a class it inherits from),
  or else the sorted names of what it requires, kept on the object when it lets itself be
  changed. A \<open>RequiredFixture\<close> property has its class as its only required fixture.
\<close>

definition get_required_fixtures :: "('o, 'k, 'x) fx_python \<Rightarrow> 'o \<Rightarrow> (('o, 'x) fx_state, 'o fixture_ref list) act" where
  "get_required_fixtures P x s =
     (case required_property P x of
        Some (r, _) \<Rightarrow> (Inr [r], s)
      | None \<Rightarrow>
          (case attr_lookup P (fx_required s) x of
             Some names \<Rightarrow> (Inr names, s)
           | None \<Rightarrow>
               (case find_required P x s of
                  (Inl e, t) \<Rightarrow> (Inl e, t)
                | (Inr fs, t) \<Rightarrow>
                    (case map_act (get_fixture_name P) fs t of
                       (Inl e, u) \<Rightarrow> (Inl e, u)
                     | (Inr ns, u) \<Rightarrow>
                         (let names = map FStr (sort ns)
                          in (Inr names, if settable P x
                                         then u\<lparr>fx_required := (fx_required u)(x := Some names)\<rparr> else u))))))"

text \<open>
  The loop of \<open>list_required_fixtures\<close> with \<open>visit_objects\<close> inside: \<open>objects.pop()\<close> takes
  the last object; one whose name or object cannot be found is left out.
\<close>

definition required_step ::
  "('o, 'k, 'x) fx_python \<Rightarrow> string \<Rightarrow> 'o \<Rightarrow> 'o fixture_ref list \<Rightarrow>
   (('o, 'x) fx_state, string list \<times> 'o fixture_ref list) act" where
  "required_step P name x objects s =
     (let fx = is_fixture P x s;
          ob = (if fx \<and> \<not> isclass P x then type_of P x else x);
          objects' = (if \<not> fx \<and> is_test_method P x
                      then (case rsplit1 (CHR ''.'') name of
                              Some (parent, _) \<Rightarrow> objects @ [FStr parent] | None \<Rightarrow> objects)
                      else objects)
      in case get_required_fixtures P ob s of
           (Inl e, t) \<Rightarrow> (Inl e, t)
         | (Inr rs, t) \<Rightarrow> (Inr (if fx then [name] else [], objects' @ rs), t))"

partial_function (option) required_loop ::
  "('o, 'k, 'x) fx_python \<Rightarrow> string list \<Rightarrow> string list \<Rightarrow> 'o fixture_ref list \<Rightarrow> ('o, 'x) fx_state \<Rightarrow>
   (string list res \<times> ('o, 'x) fx_state) option" where
  "required_loop P visited found objects s =
     (if objects = [] then Some (Inr (sort found), s)
      else (case get_name_and_object P (last objects) s of
              (Inl e, t) \<Rightarrow>
                if catches [PyException] e then required_loop P visited found (butlast objects) t
                else Some (Inl e, t)
            | (Inr nx, t) \<Rightarrow>
                if fst nx \<in> set visited then required_loop P visited found (butlast objects) t
                else (case required_step P (fst nx) (snd nx) (butlast objects) t of
                        (Inl e, u) \<Rightarrow> Some (Inl e, u)
                      | (Inr no, u) \<Rightarrow> required_loop P (fst nx # visited) (found @ fst no) (snd no) u)))"

definition list_required_fixtures ::
  "('o, 'k, 'x) fx_python \<Rightarrow> 'o fixture_ref list \<Rightarrow> ('o, 'x) fx_state \<Rightarrow> (string list res \<times> ('o, 'x) fx_state) option" where
  "list_required_fixtures P objects s = required_loop P [] [] objects s"

end
