(* ===== verification/Fixture_Lifecycle.thy ===== *)
theory Fixture_Lifecycle
  imports Tobiko_Fixture
begin

text \<open>
  What the operations of \<open>Tobiko_Fixture\<close> keep and return: one fixture for each name of a
  manager, registered under its own name, and the outcomes of setting a fixture up with an
  alternative.
\<close>

section \<open>One fixture for each name\<close>

text \<open>
  Once a manager has returned a fixture, it returns the same one, and creates
  nothing, for every reference that gives the same name together with its id, whatever
  other arguments come with it; removing the name returns that fixture and forgets it.
\<close>
theorem manager_get_fixture_same:
  assumes "get_name_and_object P r s = (Inr (n, x), s')"
    and "manager_get_fixture P m r i kw s = (Inr f, t)"
    and "get_name_and_object P r' u = (Inr (n', x'), u')" and "fx_table u' = fx_table t"
    and "with_fixture_id n' i' = with_fixture_id n i"
  shows "manager_get_fixture P m r' i' kw' u = (Inr f, u') \<and>
         manager_remove_fixture P m (FStr (with_fixture_id n i)) None t
           = (Inr (Some f), pop_fixture (m, with_fixture_id n i) t) \<and>
         find_fixture (pop_fixture (m, with_fixture_id n i) t) (m, with_fixture_id n i) = None"
proof -
  let ?k = "(m, with_fixture_id n i)"
  have "get_or_create find_fixture put_fixture (create_fixture P x (with_fixture_id n i) i kw) ?k s' = (Inr f, t)"
    using assms(1,2) by (simp add: manager_get_fixture_def Let_def)
  from fxt.get_again[OF this] have hit: "find_fixture t ?k = Some f"
    by (auto simp: get_or_create_def dest!: meta_spec[of _ "\<lambda>s. (Raise [] [], s)"] split: option.splits)
  then have "find_fixture u' ?k = Some f" using assms(4) by (simp add: find_fixture_def)
  with fxt.get_hit assms(3,5) hit show ?thesis
    by (simp add: manager_get_fixture_def manager_remove_fixture_def get_object_name_def Let_def
        with_fixture_id_def fxt.lookup_forget)
qed

text \<open>An interpreter with one fixture class, 0, whose new instances are numbered by the world.\<close>

definition counting_python :: "(nat, unit, nat) fx_python" where
  "counting_python =
     \<lparr>isinstance_fixture = (\<lambda>x. x \<noteq> 0), isclass = (\<lambda>x. x = 0), subclass_fixture = (\<lambda>x. x = 0),
      type_of = (\<lambda>_. 0), is_function = (\<lambda>_. False), is_method = (\<lambda>_. False), py_name = (\<lambda>_. []),
      qualname = (\<lambda>x. Some ''B''), module_of = (\<lambda>_. Some ''a''), mro = (\<lambda>x. [x]),
      class_dict = (\<lambda>x. []), defaults_of = Map.empty, required_property = Map.empty,
      settable = (\<lambda>_. True), own_manager = Map.empty, py_repr = (\<lambda>_. []), test_case_class = 0,
      shared_fixture_class = 0, load_fixture_object = (\<lambda>n s. (Inr 0, s)),
      construct = (\<lambda>x k s. if Suc (fx_world s) \<in> ran (fx_table s) then (Raise PyRuntimeError [], s)
                           else (Inr (Suc (fx_world s)), s\<lparr>fx_world := Suc (fx_world s)\<rparr>))\<rparr>"

definition counting_state :: "(nat, nat) fx_state" where
  "counting_state = \<lparr>fx_table = Map.empty, fx_flag = Map.empty, fx_name = Map.empty, fx_id = Map.empty,
     fx_required = Map.empty, fx_world = 0\<rparr>"

definition counting_state' :: "(nat, nat) fx_state" where
  "counting_state' = \<lparr>fx_table = [(0, ''a.B'') \<mapsto> 1], fx_flag = [1 \<mapsto> True], fx_name = [1 \<mapsto> ''a.B''],
     fx_id = Map.empty, fx_required = Map.empty, fx_world = 1\<rparr>"

lemma counting_get:
  "manager_get_fixture counting_python 0 (FObj 0) None () counting_state = (Inr 1, counting_state')"
  by (simp add: manager_get_fixture_def get_name_and_object_def get_object_name_def attr_lookup_def
      lookup_order_def get_or_create_def find_fixture_def put_fixture_def create_fixture_def init_fixture_def
      with_fixture_id_def counting_python_def counting_state_def counting_state'_def Let_def fun_eq_iff)

lemma manager_get_fixture_same_witness:
  "manager_get_fixture counting_python 0 (FStr ''a.B'') (Some []) () counting_state' = (Inr 1, counting_state')"
proof -
  have "get_name_and_object counting_python (FObj 0) counting_state = (Inr (''a.B'', 0), counting_state)"
    by (simp add: get_name_and_object_def get_object_name_def attr_lookup_def lookup_order_def
        counting_python_def counting_state_def)
  moreover have "get_name_and_object counting_python (FStr ''a.B'') counting_state' = (Inr (''a.B'', 0), counting_state')"
    by (simp add: get_name_and_object_def counting_python_def)
  moreover have "with_fixture_id ''a.B'' (Some []) = with_fixture_id ''a.B'' None"
    by (simp add: with_fixture_id_def)
  ultimately show ?thesis using manager_get_fixture_same[OF _ counting_get] by blast
qed

text \<open>The invariant of the managers: every fixture has the name it is registered under.\<close>

definition registered_right :: "('o, 'x) fx_state \<Rightarrow> bool" where
  "registered_right s = (\<forall>m k f. fx_table s (m, k) = Some f \<longrightarrow> fx_name s f = Some k)"

text \<open>
  What loading and constructing rely on: they keep the invariant, and a new object is not
  registered yet.
\<close>

definition objects_fresh :: "('o, 'k, 'x) fx_python \<Rightarrow> bool" where
  "objects_fresh P =
     ((\<forall>n s. registered_right s \<longrightarrow> registered_right (snd (load_fixture_object P n s))) \<and>
      (\<forall>x k s r t. registered_right s \<longrightarrow> construct P x k s = (r, t) \<longrightarrow>
         registered_right t \<and> (\<forall>f. r = Inr f \<longrightarrow> f \<notin> ran (fx_table t))))"

lemma name_object_right:
  assumes "objects_fresh P" and "registered_right s" and "get_name_and_object P r s = (res, t)"
  shows "registered_right t"
proof (cases r)
  case (FStr n)
  have "registered_right (snd (load_fixture_object P n s))" using assms(1,2) by (simp add: objects_fresh_def)
  with FStr assms(3) show ?thesis by (auto simp: get_name_and_object_def split: prod.splits sum.splits)
qed (use assms in \<open>auto simp: get_name_and_object_def split: sum.splits\<close>)

lemma fixture_manager_right:
  assumes "objects_fresh P" and "registered_right s" and "fixture_manager P r manager s = (res, t)"
  shows "registered_right t"
proof (cases r)
  case (FStr n)
  have "registered_right (snd (load_fixture_object P n s))" using assms(1,2) by (simp add: objects_fresh_def)
  with FStr assms(2,3) show ?thesis by (auto simp: fixture_manager_def split: prod.splits sum.splits option.splits)
qed (use assms in \<open>auto simp: fixture_manager_def split: option.splits\<close>)

lemma create_fixture_right:
  assumes "objects_fresh P" and "registered_right s" and "create_fixture P x name i kw s = (res, t)"
  shows "registered_right t \<and> (\<forall>f. res = Inr f \<longrightarrow> fx_name t f = Some name)"
proof -
  obtain r u where c: "construct P x kw s = (r, u)" by fastforce
  with assms(1,2) have "registered_right u" "\<And>f. r = Inr f \<Longrightarrow> f \<notin> ran (fx_table u)"
    unfolding objects_fresh_def by blast+
  with c assms(2,3) show ?thesis
    by (cases r)
      (auto simp: create_fixture_def init_fixture_def registered_right_def ran_def
         split: if_splits sum.splits)
qed

lemma put_fixture_right:
  "registered_right u \<Longrightarrow> fx_name u f = Some k \<Longrightarrow> registered_right (put_fixture (m, k) f u)"
  by (simp add: registered_right_def put_fixture_def)

lemma manager_get_right:
  assumes "objects_fresh P" and "registered_right s" and "manager_get_fixture P m r i kw s = (res, t)"
  shows "registered_right t"
proof -
  obtain no u where g: "get_name_and_object P r s = (no, u)" by fastforce
  with name_object_right assms have u: "registered_right u" by blast
  show ?thesis
  proof (cases no)
    case (Inl e)
    with g u assms(3) show ?thesis by (simp add: manager_get_fixture_def)
  next
    case (Inr nx)
    obtain n x where nx: "nx = (n, x)" by fastforce
    let ?name = "with_fixture_id n i"
    have step: "get_or_create find_fixture put_fixture (create_fixture P x ?name i kw) (m, ?name) u = (res, t)"
      using assms(3) g Inr nx by (simp add: manager_get_fixture_def Let_def)
    obtain cr v where c: "create_fixture P x ?name i kw u = (cr, v)" by fastforce
    from step c u create_fixture_right[OF assms(1) u c] show ?thesis
      by (auto simp: get_or_create_def put_fixture_right split: option.splits sum.splits)
  qed
qed

text \<open>
  Getting and removing fixtures keeps every registered fixture under the name it
  carries, so that a registered fixture that is an object of its own (no class) is found
  and removed by giving the fixture itself, without an id.
\<close>
theorem registered_fixture_names:
  assumes "objects_fresh P" and "registered_right s"
  shows "registered_right (snd (get_fixture P r i manager kw s)) \<and>
         registered_right (snd (remove_fixture P r i manager s)) \<and>
         (\<forall>m k f. fx_table s (m, k) = Some f \<and> \<not> isclass P f \<longrightarrow>
            remove_fixture P (FObj f) None (Some m) s = (Inr (Some f), pop_fixture (m, k) s))"
proof -
  have pop: "registered_right (pop_fixture k u)" if "registered_right u" for k :: "nat \<times> string" and u :: "('a, 'c) fx_state"
    using that by (simp add: registered_right_def pop_fixture_def)
  have got: "registered_right (snd (manager_get_fixture P m r i kw u))" if "registered_right u" for m u
    using manager_get_right[OF assms(1) that] by (metis prod.collapse)
  have "registered_right (snd (get_fixture P r i manager kw s))"
    using assms(2) fixture_manager_right[OF assms] got
    by (cases r) (auto simp: get_fixture_def bindA_def split: prod.split sum.split)
  moreover have "registered_right (snd (remove_fixture P r i manager s))"
    using assms(2) fixture_manager_right[OF assms] pop
    by (auto simp: remove_fixture_def bindA_def manager_remove_fixture_def Let_def split: prod.split sum.split)
  moreover have "remove_fixture P (FObj f) None (Some m) s = (Inr (Some f), pop_fixture (m, k) s)"
    if "fx_table s (m, k) = Some f" "\<not> isclass P f" for m k f
  proof -
    have "fx_name s f = Some k" using assms(2) that(1) by (simp add: registered_right_def)
    then have "get_object_name P (FObj f) s = Inr k"
      using that(2) by (simp add: get_object_name_def attr_lookup_def lookup_order_def)
    with that(1) show ?thesis
      by (simp add: remove_fixture_def bindA_def fixture_manager_def manager_remove_fixture_def
          with_fixture_id_def find_fixture_def)
  qed
  ultimately show ?thesis by blast
qed

lemma counting_fresh: "objects_fresh counting_python"
  by (auto simp: objects_fresh_def counting_python_def registered_right_def split: if_splits)

lemma registered_fixture_names_witness:
  "remove_fixture counting_python (FObj 1) None (Some 0) counting_state' =
     (Inr (Some 1), pop_fixture (0, ''a.B'') counting_state')"
proof -
  have "registered_right counting_state'" by (simp add: registered_right_def counting_state'_def)
  from registered_fixture_names[OF counting_fresh this] show ?thesis
    by (simp add: counting_state'_def) (simp add: counting_python_def)
qed

section \<open>Setting up with an alternative\<close>

lemma handle_setup_error_eq: "handle_setup_error = (\<lambda>x s. (Inr (), s))"
  by (simp add: handle_setup_error_def fun_eq_iff)

text \<open>
  \<open>setup_fixture\<close> with an alternative: the alternative is not even created
  unless setting up the fixture raises a \<open>MultipleExceptions\<close>; a single exception goes on
  as it is; when both raise a \<open>MultipleExceptions\<close>, the first exception nested in the one
  of the fixture, or else of the alternative, is raised, and when nothing is nested in
  either the call returns the alternative as if it had been set up.
\<close>
theorem setup_fixture_alternative:
  assumes "get_fixture P r i m kw s = (Inr f, t)"
  shows "(fm_setUp F f t = (Inr (), u) \<longrightarrow> setup_fixture P F n r i m (Some r') kw s = (Inr (Some f), u)) \<and>
     (fm_setUp F f t = (Inl (Single k e), u) \<longrightarrow>
        setup_fixture P F n r i m (Some r') kw s = (Inl (Single k e), u)) \<and>
     (fm_setUp F f t = (Inl (Multi k args), u) \<and> get_fixture P r' i m kw u = (Inr g, v) \<longrightarrow>
        (fm_setUp F g v = (Inr (), w) \<longrightarrow> setup_fixture P F n r i m (Some r') kw s = (Inr (Some g), w)) \<and>
        (fm_setUp F g v = (Inl (Multi k' args'), w) \<and>
         same_objects (set (subexcs (Multi n [Multi k args, Multi k' args']))) \<longrightarrow>
           setup_fixture P F n r i m (Some r') kw s =
             (case leaves (Multi k args) @ leaves (Multi k' args') of
                [] \<Rightarrow> Inr (Some g) | x # _ \<Rightarrow> Inl x, w)))"
proof (intro conjI impI; (elim conjE)?)
  assume a: "fm_setUp F f t = (Inl (Multi k args), u)" "get_fixture P r' i m kw u = (Inr g, v)"
    "fm_setUp F g v = (Inl (Multi k' args'), w)"
    and same: "same_objects (set (subexcs (Multi n [Multi k args, Multi k' args'])))"
  have l: "leaves (Multi n [Multi k args, Multi k' args']) = leaves (Multi k args) @ leaves (Multi k' args')"
    by simp
  have "handle_multiple_exceptions handle_setup_error n (Inl (Multi n [Multi k args, Multi k' args']) :: exc + 'a, w)
      = (case leaves (Multi k args) @ leaves (Multi k' args') of [] \<Rightarrow> Inr None | x # _ \<Rightarrow> Inl x, w)"
    unfolding handle_setup_error_eq by (rule handle_multiple_log[OF same, unfolded l])
  with assms a show "setup_fixture P F n r i m (Some r') kw s =
          (case leaves (Multi k args) @ leaves (Multi k' args') of [] \<Rightarrow> Inr (Some g) | x # _ \<Rightarrow> Inl x, w)"
    by (cases "leaves (Multi k args) @ leaves (Multi k' args')")
      (simp_all add: setup_fixture_def del: leaves.simps)
qed (use assms in \<open>simp_all add: setup_fixture_def handle_multiple_exceptions_def\<close>)

definition failing_methods :: "(nat, (nat, nat) fx_state) fx_methods" where
  "failing_methods =
     \<lparr>fm_setUp = (\<lambda>f s. if f = 1 then (Inl (Multi 8 [Single 9 (Exn PyValueError [])]), s) else (Inr (), s)),
      fm_reset = (\<lambda>f s. (Inr (), s)), fm_cleanUp = (\<lambda>f s. (Inr (), s))\<rparr>"

lemma setup_fixture_alternative_witness:
  "fst (setup_fixture counting_python failing_methods 7 (FObj 1) None None (Some (FObj 2)) () counting_state')
     = Inr (Some 2)"
proof -
  have g: "get_fixture counting_python (FObj 1) None None () counting_state' = (Inr 1, counting_state')"
    "get_fixture counting_python (FObj 2) None None () counting_state' = (Inr 2, counting_state')"
    by (simp_all add: get_fixture_def counting_python_def)
  have "setup_fixture counting_python failing_methods 7 (FObj 1) None None (Some (FObj 2)) () counting_state'
          = (Inr (Some 2), counting_state')"
    using setup_fixture_alternative[OF g(1), of failing_methods _ 7 "FObj 2" 8 _
        "[Single 9 (Exn PyValueError [])]" 2 counting_state' counting_state'] g(2)
    by (simp add: failing_methods_def)
  then show ?thesis by simp
qed

end
