(* ===== verification/Fixture_Required.thy ===== *)
theory Fixture_Required
  imports Tobiko_Fixture
begin

text \<open>
  What \<open>list_required_fixtures\<close> and \<open>get_required_fixture_properties\<close> of
  \<open>Tobiko_Fixture\<close> find: the first walks the graph of required names to its end, the
  second sees the most derived definition of every class member.
\<close>

section \<open>The members of a class\<close>

lemma map_of_foldl_dicts:
  assumes "\<And>b. b \<in> set bs \<Longrightarrow> distinct (map fst (D b))"
  shows "map_of (foldl (\<lambda>d b. dict_update d (D b)) d bs) k =
     (case find (\<lambda>b. map_of (D b) k \<noteq> None) (rev bs) of
        None \<Rightarrow> map_of d k | Some b \<Rightarrow> map_of (D b) k)"
  using assms
proof (induction bs arbitrary: d)
  case (Cons b bs)
  have rev: "map_of (rev (D b)) = map_of (D b)"
    using Cons.prems[of b] by (intro map_of_eqI) (auto simp: distinct_rev simp flip: rev_map simp del: distinct_map)
  have "find p (xs @ [y]) = (case find p xs of None \<Rightarrow> if p y then Some y else None | Some x \<Rightarrow> Some x)"
    for p :: "'a \<Rightarrow> bool" and xs y by (induction xs) auto
  then show ?case using Cons
    by (simp add: map_of_dict_update rev map_add_def del: map_of_eq_Some_iff Some_eq_map_of_iff split: option.splits)
qed simp

lemma distinct_foldl_dicts:
  "distinct (map fst d) \<Longrightarrow> distinct (map fst (foldl (\<lambda>d b. dict_update d (D b)) d bs))"
  by (induction bs arbitrary: d) (simp_all add: distinct_dict_update)

text \<open>The first class of the searched part of the resolution order that defines the member.\<close>

definition defining_class :: "('o, 'k, 'x) fx_python \<Rightarrow> 'o \<Rightarrow> string \<Rightarrow> 'o option" where
  "defining_class P c n = find (\<lambda>b. map_of (class_dict P b) n \<noteq> None) (searched_classes P c)"

lemma class_members_lookup:
  assumes "\<And>b. distinct (map fst (class_dict P b))"
  shows "(n, m) \<in> set (class_members P c) \<longleftrightarrow>
         (\<exists>b. defining_class P c n = Some b \<and> map_of (class_dict P b) n = Some m)"
proof -
  have "distinct (map fst (class_members P c))"
    unfolding class_members_def by (rule distinct_foldl_dicts) simp
  then have "(n, m) \<in> set (class_members P c) \<longleftrightarrow> map_of (class_members P c) n = Some m" by simp
  also have "map_of (class_members P c) n =
      (case defining_class P c n of None \<Rightarrow> None | Some b \<Rightarrow> map_of (class_dict P b) n)"
    unfolding class_members_def defining_class_def
    by (subst map_of_foldl_dicts) (use assms in \<open>simp_all split: option.splits\<close>)
  also have "\<dots> = Some m \<longleftrightarrow> (\<exists>b. defining_class P c n = Some b \<and> map_of (class_dict P b) n = Some m)"
    by (auto split: option.splits)
  finally show ?thesis .
qed

text \<open>
  The required fixtures of a class come from its members that are
  \<open>RequiredFixture\<close> properties where the most derived class that has a member of the name,
  before \<open>TestCase\<close> or \<open>SharedFixture\<close> in the resolution order, decides: a member that a
  subclass overrides by something else is not found, and the list is in the order of the
  member names.
\<close>
theorem get_required_fixture_properties_members:
  assumes "\<And>b. distinct (map fst (class_dict P b))"
  shows "set (get_required_fixture_properties P c) =
           {m. required_property P m \<noteq> None \<and>
               (\<exists>n b. defining_class P c n = Some b \<and> map_of (class_dict P b) n = Some m)} \<and>
         (\<exists>ns. sorted ns \<and> distinct ns \<and> length ns = length (get_required_fixture_properties P c) \<and>
               (\<forall>i < length ns. \<exists>b. defining_class P c (ns ! i) = Some b \<and>
                  map_of (class_dict P b) (ns ! i) = Some (get_required_fixture_properties P c ! i)))"
proof
  show "set (get_required_fixture_properties P c) =
           {m. required_property P m \<noteq> None \<and>
               (\<exists>n b. defining_class P c n = Some b \<and> map_of (class_dict P b) n = Some m)}"
    using class_members_lookup[OF assms, of _ _ c]
    by (force simp: get_required_fixture_properties_def image_iff)
next
  let ?ms = "sort_key fst (class_members P c)"
  let ?sel = "filter (\<lambda>nm. required_property P (snd nm) \<noteq> None) ?ms"
  let ?ns = "map fst ?sel"
  have eq: "get_required_fixture_properties P c = map snd ?sel"
    by (simp add: get_required_fixture_properties_def filter_map o_def)
  have "distinct (map fst (class_members P c))"
    unfolding class_members_def by (rule distinct_foldl_dicts) simp
  then have "distinct (map fst ?ms)" by (simp add: distinct_map)
  then have "distinct ?ns" by (rule distinct_map_filter)
  moreover have "sorted ?ns" by (rule sorted_filter) simp
  moreover have "\<forall>i < length ?ns. \<exists>b. defining_class P c (?ns ! i) = Some b \<and>
      map_of (class_dict P b) (?ns ! i) = Some (map snd ?sel ! i)"
  proof (intro allI impI)
    fix i assume i: "i < length ?ns"
    then have "?sel ! i \<in> set (class_members P c)" using nth_mem[of i ?sel] by auto
    then have "(?ns ! i, map snd ?sel ! i) \<in> set (class_members P c)" using i by simp
    then show "\<exists>b. defining_class P c (?ns ! i) = Some b \<and>
        map_of (class_dict P b) (?ns ! i) = Some (map snd ?sel ! i)"
      by (simp only: class_members_lookup[OF assms])
  qed
  ultimately show "\<exists>ns. sorted ns \<and> distinct ns \<and> length ns = length (get_required_fixture_properties P c) \<and>
               (\<forall>i < length ns. \<exists>b. defining_class P c (ns ! i) = Some b \<and>
                  map_of (class_dict P b) (ns ! i) = Some (get_required_fixture_properties P c ! i))"
    unfolding eq by (intro exI[of _ ?ns]) simp
qed

section \<open>The graph of required names\<close>

text \<open>
  A settled graph: names and objects are found without a change that matters, and what a
  name requires depends on the name. \<open>A\<close> gives the name and object of a reference, \<open>F\<close>
  tells the names of fixtures, \<open>C\<close> gives what a name requires, \<open>I\<close> holds of the states.
\<close>

definition settled_requirements ::
  "('o, 'k, 'x) fx_python \<Rightarrow> (('o, 'x) fx_state \<Rightarrow> bool) \<Rightarrow> ('o fixture_ref \<Rightarrow> (string \<times> 'o) res) \<Rightarrow>
   (string \<Rightarrow> bool) \<Rightarrow> (string \<Rightarrow> 'o fixture_ref list) \<Rightarrow> bool" where
  "settled_requirements P I A F C =
     ((\<forall>s r. I s \<longrightarrow> (\<exists>t. get_name_and_object P r s = (A r, t) \<and> I t)) \<and>
      (\<forall>r e. A r = Inl e \<longrightarrow> catches [PyException] e) \<and>
      (\<forall>s r n x objs. I s \<longrightarrow> A r = Inr (n, x) \<longrightarrow>
         (\<exists>t. required_step P n x objs s = (Inr (if F n then [n] else [], objs @ C n), t) \<and> I t)))"

inductive reaches ::
  "('o fixture_ref \<Rightarrow> (string \<times> 'o) res) \<Rightarrow> (string \<Rightarrow> 'o fixture_ref list) \<Rightarrow> 'o fixture_ref list \<Rightarrow> string \<Rightarrow> bool"
  for A C objs where
  root: "r \<in> set objs \<Longrightarrow> A r = Inr (n, x) \<Longrightarrow> reaches A C objs n"
| required: "reaches A C objs n \<Longrightarrow> r \<in> set (C n) \<Longrightarrow> A r = Inr (m, x) \<Longrightarrow> reaches A C objs m"

text \<open>The invariant of the loop: what was required is visited or still to visit.\<close>

definition pending :: "('o fixture_ref \<Rightarrow> (string \<times> 'o) res) \<Rightarrow> string list \<Rightarrow> 'o fixture_ref list \<Rightarrow> 'o fixture_ref list \<Rightarrow> bool" where
  "pending A visited objects rs =
     (\<forall>r \<in> set rs. \<forall>n x. A r = Inr (n, x) \<longrightarrow> n \<in> set visited \<or> r \<in> set objects)"

definition walk_inv ::
  "('o fixture_ref \<Rightarrow> (string \<times> 'o) res) \<Rightarrow> (string \<Rightarrow> 'o fixture_ref list) \<Rightarrow> 'o fixture_ref list \<Rightarrow>
   string list \<Rightarrow> 'o fixture_ref list \<Rightarrow> bool" where
  "walk_inv A C objs visited objects =
     (distinct visited \<and> (\<forall>n \<in> set visited. reaches A C objs n) \<and>
      (\<forall>r \<in> set objects. \<forall>n x. A r = Inr (n, x) \<longrightarrow> reaches A C objs n) \<and>
      pending A visited objects objs \<and> (\<forall>n \<in> set visited. pending A visited objects (C n)))"

lemma pending_sub:
  assumes "pending A visited objects rs"
    and "\<And>r n x. r \<in> set objects \<Longrightarrow> A r = Inr (n, x) \<Longrightarrow> n \<in> set visited' \<or> r \<in> set objects'"
    and "set visited \<subseteq> set visited'"
  shows "pending A visited' objects' rs"
  using assms unfolding pending_def by blast

lemma walk_inv_skip:
  assumes "walk_inv A C objs visited objects" and "objects \<noteq> []"
    and "\<And>n x. A (last objects) = Inr (n, x) \<Longrightarrow> n \<in> set visited"
  shows "walk_inv A C objs visited (butlast objects)"
proof -
  have objects: "set objects = insert (last objects) (set (butlast objects))"
    using assms(2) by (metis append_butlast_last_id list.simps(15) rotate1.simps(2) set_rotate1)
  have "pending A visited (butlast objects) rs" if "pending A visited objects rs" for rs
    by (rule pending_sub[OF that]) (use assms(3) objects in auto)
  with assms(1) objects show ?thesis unfolding walk_inv_def by simp
qed

lemma walk_inv_visit:
  assumes inv: "walk_inv A C objs visited objects" and "objects \<noteq> []"
    and "A (last objects) = Inr (n, x)" and "n \<notin> set visited"
  shows "walk_inv A C objs (n # visited) (butlast objects @ C n)"
proof -
  have objects: "set objects = insert (last objects) (set (butlast objects))"
    using assms(2) by (metis append_butlast_last_id list.simps(15) rotate1.simps(2) set_rotate1)
  with inv assms(3) have n: "reaches A C objs n" unfolding walk_inv_def by blast
  have keep: "pending A (n # visited) (butlast objects @ C n) rs" if "pending A visited objects rs" for rs
    by (rule pending_sub[OF that]) (use assms(3) objects in auto)
  have "pending A (n # visited) (butlast objects @ C n) (C n)" by (simp add: pending_def)
  moreover have "reaches A C objs m" if "r \<in> set (butlast objects @ C n)" "A r = Inr (m, y)" for r m y
    using that inv objects reaches.required[OF n] unfolding walk_inv_def by auto
  ultimately show ?thesis
    using inv n keep assms(4) unfolding walk_inv_def by (simp del: set_append)
qed

lemma walk_inv_done:
  assumes "walk_inv A C objs visited []"
  shows "set visited = {n. reaches A C objs n}"
proof -
  have "n \<in> set visited" if "reaches A C objs n" for n
    using that by induction (use assms in \<open>auto simp: walk_inv_def pending_def\<close>)
  with assms show ?thesis by (auto simp: walk_inv_def)
qed

lemma required_loop_reaches:
  assumes settled: "settled_requirements P I A F C" and fin: "finite {n. reaches A C objs n}"
  shows "I s \<Longrightarrow> walk_inv A C objs visited objects \<Longrightarrow>
     \<exists>t. required_loop P visited (rev (filter F visited)) objects s =
           Some (Inr (sorted_list_of_set {n. reaches A C objs n \<and> F n}), t) \<and> I t"
proof (induction "(card ({n. reaches A C objs n} - set visited), length objects)"
    arbitrary: visited objects s rule: wf_induct[OF wf_lex_prod[OF wf_less_than wf_less_than]])
  case 1
  note IH = 1(1)[rule_format, OF _ refl] and I = 1(2) and inv = 1(3)
  show ?case
  proof (cases "objects = []")
    case True
    with inv have vis: "distinct visited" "set visited = {n. reaches A C objs n}"
      using walk_inv_done unfolding walk_inv_def by blast+
    have "sort (rev (filter F visited)) = sorted_list_of_set (set (rev (filter F visited)))"
      using vis(1) by (subst sorted_list_of_set_sort_remdups) (simp add: distinct_remdups_id)
    also have "set (rev (filter F visited)) = {n. reaches A C objs n \<and> F n}" using vis(2) by auto
    finally show ?thesis using True I by (subst required_loop.simps) simp
  next
    case False
    from settled I obtain t where
      t: "get_name_and_object P (last objects) s = (A (last objects), t)" "I t"
      unfolding settled_requirements_def by blast
    note unf = required_loop.simps[of P visited "rev (filter F visited)" objects s, unfolded t(1)]
    have skip: "\<exists>u. required_loop P visited (rev (filter F visited)) (butlast objects) t =
        Some (Inr (sorted_list_of_set {n. reaches A C objs n \<and> F n}), u) \<and> I u"
      if "\<And>n x. A (last objects) = Inr (n, x) \<Longrightarrow> n \<in> set visited"
      using IH[OF _ t(2) walk_inv_skip[OF inv False that]] False by (simp add: diff_less)
    show ?thesis
    proof (cases "A (last objects)")
      case (Inl e)
      with settled have "catches [PyException] e" unfolding settled_requirements_def by blast
      with skip Inl unf False show ?thesis by simp
    next
      case (Inr nx)
      then obtain n x where nx: "A (last objects) = Inr (n, x)" by (cases nx) auto
      show ?thesis
      proof (cases "n \<in> set visited")
        case True
        with skip nx unf False show ?thesis by simp
      next
        case new: False
        from settled t(2) nx obtain u where
          u: "required_step P n x (butlast objects) t
                = (Inr (if F n then [n] else [], butlast objects @ C n), u)" "I u"
          unfolding settled_requirements_def by blast
        have inv': "walk_inv A C objs (n # visited) (butlast objects @ C n)"
          by (rule walk_inv_visit[OF inv False nx new])
        then have "n \<in> {n. reaches A C objs n}" by (simp add: walk_inv_def)
        with new fin have "card ({n. reaches A C objs n} - set (n # visited)) < card ({n. reaches A C objs n} - set visited)"
          by (intro psubset_card_mono) auto
        with IH[OF _ u(2) inv'] obtain v where
          "required_loop P (n # visited) (rev (filter F (n # visited))) (butlast objects @ C n) u =
             Some (Inr (sorted_list_of_set {n. reaches A C objs n \<and> F n}), v)" "I v" by auto
        with unf nx new u False show ?thesis by (cases "F n") simp_all
      qed
    qed
  qed
qed


text \<open>Two fixture classes, \<open>a.B\<close> (0) and \<open>a.C\<close> (1), which require each other.\<close>

definition pair_load :: "string \<Rightarrow> nat res" where
  "pair_load n = (if n = ''a.B'' then Inr 0 else if n = ''a.C'' then Inr 1
                  else Inl (Exn (''ImportError'' # PyException) n))"

definition pair_python :: "(nat, unit, unit) fx_python" where
  "pair_python =
     \<lparr>isinstance_fixture = (\<lambda>_. False), isclass = (\<lambda>_. True), subclass_fixture = (\<lambda>_. True),
      type_of = id, is_function = (\<lambda>_. False), is_method = (\<lambda>_. False), py_name = (\<lambda>_. []),
      qualname = (\<lambda>x. if x = 0 then Some ''B'' else if x = 1 then Some ''C'' else None),
      module_of = (\<lambda>_. Some ''a''), mro = (\<lambda>x. [x]),
      class_dict = (\<lambda>x. if x = 0 then [(''other'', 5), (''name'', 7)] else []), defaults_of = Map.empty,
      required_property = (\<lambda>p. if p = 5 then Some (FStr ''a.C'', None, None, ()) else None),
      settable = (\<lambda>_. True), own_manager = Map.empty, py_repr = (\<lambda>_. []), test_case_class = 8,
      shared_fixture_class = 9, load_fixture_object = (\<lambda>n s. (pair_load n, s)),
      construct = (\<lambda>x k s. (Inr x, s))\<rparr>"

definition pair_state :: "(nat, unit) fx_state" where
  "pair_state = \<lparr>fx_table = Map.empty, fx_flag = Map.empty, fx_name = Map.empty, fx_id = Map.empty,
     fx_required = [0 \<mapsto> [FStr ''a.C''], 1 \<mapsto> [FStr ''a.B'']], fx_world = ()\<rparr>"

definition pair_names :: "nat fixture_ref \<Rightarrow> (string \<times> nat) res" where
  "pair_names r = fst (get_name_and_object pair_python r pair_state)"

definition pair_requires :: "string \<Rightarrow> nat fixture_ref list" where
  "pair_requires n = (if n = ''a.B'' then [FStr ''a.C''] else [FStr ''a.B''])"

lemma pair_names_eq:
  "pair_names r = (case r of FStr n \<Rightarrow> (case pair_load n of Inl e \<Rightarrow> Inl e | Inr x \<Rightarrow> Inr (n, x))
     | FObj x \<Rightarrow> if x = 0 then Inr (''a.B'', 0) else if x = 1 then Inr (''a.C'', 1)
                 else Raise PyTypeError ''Unable to get fixture name from object '')"
  by (auto simp: pair_names_def get_name_and_object_def pair_python_def pair_state_def get_object_name_def
      attr_lookup_def lookup_order_def split: fixture_ref.splits sum.splits)

lemma pair_settled:
  "settled_requirements pair_python (\<lambda>s. s = pair_state) pair_names (\<lambda>n. True) pair_requires"
proof -
  have "\<exists>t. get_name_and_object pair_python r s = (pair_names r, t) \<and> t = pair_state"
    if "s = pair_state" for r s
    using that by (auto simp: pair_names_def get_name_and_object_def pair_python_def split: fixture_ref.splits sum.splits)
  moreover have "catches [PyException] e" if "pair_names r = Inl e" for r e
    using that by (auto simp: pair_names_eq pair_load_def catches_Cons isinstance_exn_def issubclass_def
        exn_classes split: fixture_ref.splits if_splits)
  moreover have "\<exists>t. required_step pair_python n x objs s = (Inr ([n], objs @ pair_requires n), t) \<and> t = pair_state"
    if "s = pair_state" "pair_names r = Inr (n, x)" for r s n x objs
    using that by (auto simp: pair_names_eq pair_load_def required_step_def is_fixture_def pair_python_def
        get_required_fixtures_def pair_state_def attr_lookup_def lookup_order_def pair_requires_def
        split: fixture_ref.splits if_splits)
  ultimately show ?thesis unfolding settled_requirements_def by simp
qed

lemma pair_reaches: "{n. reaches pair_names pair_requires [FStr ''zz'', FStr ''a.B''] n} = {''a.B'', ''a.C''}"
proof -
  have "n \<in> {''a.B'', ''a.C''}" if "reaches pair_names pair_requires objs n" for objs n
    using that by induction (auto simp: pair_names_eq pair_load_def split: fixture_ref.splits if_splits)
  moreover have "reaches pair_names pair_requires [FStr ''zz'', FStr ''a.B''] ''a.B''"
    by (rule reaches.root[of "FStr ''a.B''" _ _ _ 0]) (simp_all add: pair_names_eq pair_load_def)
  moreover from this have "reaches pair_names pair_requires [FStr ''zz'', FStr ''a.B''] ''a.C''"
    by (rule reaches.required[of _ _ _ _ "FStr ''a.C''" _ 1])
      (simp_all add: pair_names_eq pair_load_def pair_requires_def)
  ultimately show ?thesis by blast
qed


lemma get_required_fixture_properties_members_witness:
  "5 \<in> set (get_required_fixture_properties pair_python 0) \<and>
   7 \<notin> set (get_required_fixture_properties pair_python 0)"
proof -
  have d: "distinct (map fst (class_dict pair_python b))" for b by (simp add: pair_python_def)
  have "defining_class pair_python 0 ''other'' = Some 0" and
    "map_of (class_dict pair_python 0) ''other'' = Some 5"
    and "required_property pair_python 5 \<noteq> None" "required_property pair_python 7 = None"
    by (simp_all add: defining_class_def searched_classes_def pair_python_def)
  with get_required_fixture_properties_members[OF d, of 0] show ?thesis by auto
qed

section \<open>Names kept on a base class\<close>

text \<open>
  \<open>get_required_fixtures\<close> keeps its result as an attribute of the class and
  reads it as an inherited one: once it has been called on a base class, a direct subclass
  for which it was not called yet gets the names of the base class, whatever required
  fixtures the subclass has itself.
\<close>
theorem get_required_fixtures_inherits:
  assumes "get_required_fixtures P b s = (Inr names, t)" and "settable P b"
    and "isclass P b" "isclass P c" and "mro P b = b # bs" "mro P c = c # mro P b"
    and "required_property P b = None" "required_property P c = None" and "fx_required t c = None"
  shows "get_required_fixtures P c t = (Inr names, t)"
proof -
  have "attr_lookup P (fx_required t) b = Some names"
  proof (cases "attr_lookup P (fx_required s) b")
    case None
    with assms(1,2,7) obtain u where "t = u\<lparr>fx_required := (fx_required u)(b \<mapsto> names)\<rparr>"
      by (auto simp: get_required_fixtures_def Let_def split: prod.splits sum.splits)
    then show ?thesis using assms(3,5) by (simp add: attr_lookup_def lookup_order_def)
  qed (use assms(1,7) in \<open>simp add: get_required_fixtures_def\<close>)
  then have "attr_lookup P (fx_required t) c = Some names"
    using assms(3,4,6,9) by (simp add: attr_lookup_def lookup_order_def)
  with assms(8) show ?thesis by (simp add: get_required_fixtures_def)
qed

lemma get_required_fixtures_inherits_witness:
  "get_required_fixtures (pair_python\<lparr>mro := (\<lambda>x. if x = 0 then [0, 2] else [x])\<rparr>) 0
       (pair_state\<lparr>fx_required := [2 \<mapsto> []]\<rparr>) = (Inr [], pair_state\<lparr>fx_required := [2 \<mapsto> []]\<rparr>) \<and>
   get_required_fixture_properties (pair_python\<lparr>mro := (\<lambda>x. if x = 0 then [0, 2] else [x])\<rparr>) 0 \<noteq> []"
proof
  let ?P = "pair_python\<lparr>mro := (\<lambda>x. if x = 0 then [0, 2] else [x])\<rparr>"
  let ?s = "pair_state\<lparr>fx_required := Map.empty\<rparr>"
  have "searched_classes ?P 2 = [2]" by (simp add: searched_classes_def pair_python_def)
  then have "get_required_fixture_properties ?P 2 = []"
    by (simp add: get_required_fixture_properties_def class_members_def)
      (simp add: pair_python_def dict_update_def)
  then have "find_required ?P 2 ?s = (Inr [], ?s)"
    by (simp add: find_required_def is_test_method_def) (simp add: pair_python_def)
  moreover have "attr_lookup ?P (fx_required ?s) 2 = None" "required_property ?P 2 = None" "settable ?P 2"
    by (simp_all add: attr_lookup_def lookup_order_def pair_python_def)
  ultimately have "get_required_fixtures ?P 2 ?s = (Inr [], pair_state\<lparr>fx_required := [2 \<mapsto> []]\<rparr>)"
    by (simp add: get_required_fixtures_def)
  from get_required_fixtures_inherits[OF this, of 0 "[]"]
  show "get_required_fixtures ?P 0 (pair_state\<lparr>fx_required := [2 \<mapsto> []]\<rparr>)
          = (Inr [], pair_state\<lparr>fx_required := [2 \<mapsto> []]\<rparr>)"
    by (simp add: pair_python_def)
  show "get_required_fixture_properties ?P 0 \<noteq> []"
    by (simp add: get_required_fixture_properties_def class_members_def searched_classes_def pair_python_def
        dict_update_def less_char_def)
qed

end
