(* ===== verification/Tobiko_Skip.thy ===== *)
theory Tobiko_Skip
  imports Tobiko_Exceptions
begin

text \<open>
  tobiko/common/_skip.py: skipping a test, and the decorators that skip a function, or the
  \<open>setUp\<close> of a class, for a reason, on a predicate, or on an error of a predicate.

  A method is an action on the state for each of its arguments; a predicate is an action
  that returns an optional value (None is Python's None), \<open>truthy\<close> is \<open>bool\<close> of it. \<open>show\<close>
  and \<open>show_exn\<close> are what \<open>format\<close> makes of a returned value and of a cause.
\<close>

definition skip_test :: "string \<Rightarrow> exn option \<Rightarrow> nat option \<Rightarrow> exn" where
  "skip_test reason cause bugzilla =
     Exn PySkipTest
       (reason @
        (case bugzilla of None \<Rightarrow> []
         | Some b \<Rightarrow> CHR 0x0A # ''https://bugzilla.redhat.com/show_bug.cgi?id='' @ str_nat b @ [CHR 0x0A]) @
        (case cause of None \<Rightarrow> [] | Some e \<Rightarrow> CHR 0x0A # exn_msg e @ [CHR 0x0A]))"

text \<open>The text of the reason, with the returned value or the cause in it.\<close>

definition skip_reason ::
  "('v option \<Rightarrow> string \<Rightarrow> string res) \<Rightarrow> (exn option \<Rightarrow> string \<Rightarrow> string res) \<Rightarrow> string \<Rightarrow> 'v option \<Rightarrow> exn option \<Rightarrow>
   string res" where
  "skip_reason show show_exn reason return_value cause =
     (case (if str_in ''{return_value'' reason
            then str_format show reason [(''return_value'', return_value)] else Inr reason) of
        Inl e \<Rightarrow> Inl e
      | Inr r \<Rightarrow> if str_in ''{cause'' reason then str_format show_exn reason [(''cause'', cause)] else Inr r)"

record ('s, 'v) skip_options =
  so_reason :: string
  so_unless :: "bool option"
  so_error_type :: "pyclass list"
  so_bugzilla :: "nat option"
  so_predicate :: "('s, 'v option) act option"

record 'v skip_formats =
  sf_truthy :: "'v option \<Rightarrow> bool"
  sf_show :: "'v option \<Rightarrow> string \<Rightarrow> string res"
  sf_show_exn :: "exn option \<Rightarrow> string \<Rightarrow> string res"

text \<open>The wrapper that \<open>_skip_decorator\<close> makes of a method.\<close>

definition skip_now :: "'v skip_formats \<Rightarrow> ('s, 'v) skip_options \<Rightarrow> 'v option \<Rightarrow> exn option \<Rightarrow> ('s, 'r) act" where
  "skip_now fmt opts return_value cause s =
     (case skip_reason (sf_show fmt) (sf_show_exn fmt) (so_reason opts) return_value cause of
        Inl e \<Rightarrow> (Inl e, s)
      | Inr reason \<Rightarrow> (Inl (skip_test reason cause (so_bugzilla opts)), s))"

definition skip_wrapper ::
  "'v skip_formats \<Rightarrow> ('s, 'v) skip_options \<Rightarrow> ('a \<Rightarrow> ('s, 'r) act) \<Rightarrow> 'a \<Rightarrow> ('s, 'r) act" where
  "skip_wrapper fmt opts method args s =
     (case so_predicate opts of
        None \<Rightarrow> (Inl (skip_test (so_reason opts) None (so_bugzilla opts)), s)
      | Some predicate \<Rightarrow>
          (case predicate s of
             (Inl e, t) \<Rightarrow>
               if catches (so_error_type opts) e then skip_now fmt opts None (Some e) t else (Inl e, t)
           | (Inr v, t) \<Rightarrow>
               if so_unless opts = None \<or> so_unless opts = Some (sf_truthy fmt v)
               then method args t
               else skip_now fmt opts v None t))"

text \<open>What can be decorated: a function, a class with or without a \<open>setUp\<close>, or something else.\<close>

datatype ('s, 'a, 'r) skip_target =
    TFun "'a \<Rightarrow> ('s, 'r) act"
  | TClass "('a \<Rightarrow> ('s, 'r) act) option" "'a \<Rightarrow> ('s, 'r) act"
  | TOther string

text \<open>\<open>_get_skip_method\<close>; the second argument of a class is the inherited \<open>setUp\<close> that a new one calls.\<close>

definition get_skip_method :: "('s, 'a, 'r) skip_target \<Rightarrow> ('a \<Rightarrow> ('s, 'r) act) res" where
  "get_skip_method obj =
     (case obj of
        TFun f \<Rightarrow> Inr f
      | TClass (Some setUp) inherited \<Rightarrow> Inr setUp
      | TClass None inherited \<Rightarrow> Inr inherited
      | TOther r \<Rightarrow> Raise PyTypeError (''Object '' @ r @ '' is not a class or a function''))"

definition skip_decorator ::
  "'v skip_formats \<Rightarrow> ('s, 'v) skip_options \<Rightarrow> ('s, 'a, 'r) skip_target \<Rightarrow> ('s, 'a, 'r) skip_target res" where
  "skip_decorator fmt opts obj =
     (case get_skip_method obj of
        Inl e \<Rightarrow> Inl e
      | Inr method \<Rightarrow>
          (case obj of
             TClass _ inherited \<Rightarrow> Inr (TClass (Some (skip_wrapper fmt opts method)) inherited)
           | _ \<Rightarrow> Inr (TFun (skip_wrapper fmt opts method))))"

definition skip ::
  "'v skip_formats \<Rightarrow> string \<Rightarrow> nat option \<Rightarrow> ('s, 'a, 'r) skip_target \<Rightarrow> ('s, 'a, 'r) skip_target res" where
  "skip fmt reason bugzilla =
     skip_decorator fmt \<lparr>so_reason = reason, so_unless = None, so_error_type = [], so_bugzilla = bugzilla,
                         so_predicate = None\<rparr>"

definition skip_if ::
  "'v skip_formats \<Rightarrow> string \<Rightarrow> ('s, 'v option) act \<Rightarrow> nat option \<Rightarrow> ('s, 'a, 'r) skip_target \<Rightarrow>
   ('s, 'a, 'r) skip_target res" where
  "skip_if fmt reason predicate bugzilla =
     skip_decorator fmt \<lparr>so_reason = reason, so_unless = Some False, so_error_type = [],
                         so_bugzilla = bugzilla, so_predicate = Some predicate\<rparr>"

definition skip_unless ::
  "'v skip_formats \<Rightarrow> string \<Rightarrow> ('s, 'v option) act \<Rightarrow> nat option \<Rightarrow> ('s, 'a, 'r) skip_target \<Rightarrow>
   ('s, 'a, 'r) skip_target res" where
  "skip_unless fmt reason predicate bugzilla =
     skip_decorator fmt \<lparr>so_reason = reason, so_unless = Some True, so_error_type = [],
                         so_bugzilla = bugzilla, so_predicate = Some predicate\<rparr>"

definition skip_on_error ::
  "'v skip_formats \<Rightarrow> string \<Rightarrow> ('s, 'v option) act \<Rightarrow> pyclass list \<Rightarrow> nat option \<Rightarrow> ('s, 'a, 'r) skip_target \<Rightarrow>
   ('s, 'a, 'r) skip_target res" where
  "skip_on_error fmt reason predicate error_type bugzilla =
     skip_decorator fmt \<lparr>so_reason = reason, so_unless = None, so_error_type = error_type,
                         so_bugzilla = bugzilla, so_predicate = Some predicate\<rparr>"

section \<open>When a decorated method runs\<close>

definition run_target :: "('s, 'a, 'r) skip_target res \<Rightarrow> 'a \<Rightarrow> ('s, 'r) act" where
  "run_target obj args s =
     (case obj of
        Inl e \<Rightarrow> (Inl e, s)
      | Inr ob \<Rightarrow> (case get_skip_method ob of Inl e \<Rightarrow> (Inl e, s) | Inr f \<Rightarrow> f args s))"

lemma run_skip_decorator:
  "get_skip_method obj = Inr method \<Longrightarrow>
     run_target (skip_decorator fmt opts obj) args s = skip_wrapper fmt opts method args s"
  by (cases obj) (auto simp: run_target_def skip_decorator_def get_skip_method_def split: option.splits)

lemma skip_reason_plain:
  "\<not> str_in ''{return_value'' reason \<Longrightarrow> \<not> str_in ''{cause'' reason \<Longrightarrow>
     skip_reason sh she reason v c = Inr reason"
  by (simp add: skip_reason_def)

text \<open>
  A decorated function, or the \<open>setUp\<close> of a decorated class, with a reason
  without placeholders. After the predicate has returned, \<open>skip_if\<close> runs the method when
  the value is false and skips when it is true, \<open>skip_unless\<close> the other way round; on an
  error of the predicate both raise that error. \<open>skip_on_error\<close> runs the method whatever
  the predicate returns, skips with the error as the cause on its error types and raises
  any other error. A skip raises \<open>SkipTest\<close> without having run the method.
\<close>
theorem skip_decorators_run:
  assumes "get_skip_method obj = Inr method"
    and "\<not> str_in ''{return_value'' reason" and "\<not> str_in ''{cause'' reason"
  shows "run_target (skip_if fmt reason p b obj) args s =
           (case p s of (Inl e, t) \<Rightarrow> (Inl e, t)
            | (Inr v, t) \<Rightarrow> if sf_truthy fmt v then (Inl (skip_test reason None b), t) else method args t) \<and>
         run_target (skip_unless fmt reason p b obj) args s =
           (case p s of (Inl e, t) \<Rightarrow> (Inl e, t)
            | (Inr v, t) \<Rightarrow> if sf_truthy fmt v then method args t else (Inl (skip_test reason None b), t)) \<and>
         run_target (skip_on_error fmt reason p errs b obj) args s =
           (case p s of
              (Inl e, t) \<Rightarrow> (Inl (if catches errs e then skip_test reason (Some e) b else e), t)
            | (Inr v, t) \<Rightarrow> method args t) \<and>
         run_target (skip fmt reason b obj) args s = (Inl (skip_test reason None b), s)"
  by (auto simp: skip_def skip_if_def skip_unless_def skip_on_error_def run_skip_decorator[OF assms(1)]
      skip_wrapper_def skip_now_def skip_reason_plain[OF assms(2,3)] split: prod.split sum.split)

lemma skip_decorators_run_witness:
  "run_target (skip_if \<lparr>sf_truthy = (\<lambda>v. v = Some True), sf_show = (\<lambda>_ _. Inr []), sf_show_exn = (\<lambda>_ _. Inr [])\<rparr>
       ''no network'' (\<lambda>s :: nat. (Inr (Some True), s)) (Some 7) (TFun (\<lambda>a s. (Inr a, Suc s)))) (3 :: nat) 5
     = (Inl (skip_test ''no network'' None (Some 7)), 5)"
  using skip_decorators_run[of "TFun (\<lambda>a s. (Inr a, Suc s))" "\<lambda>a s. (Inr a, Suc s)" "''no network''"
      "\<lparr>sf_truthy = (\<lambda>v. v = Some True), sf_show = (\<lambda>_ _. Inr []), sf_show_exn = (\<lambda>_ _. Inr [])\<rparr>"
      "\<lambda>s. (Inr (Some True), s)" "Some 7" "3 :: nat" "5 :: nat"]
  by (simp add: get_skip_method_def str_in_def)

end
