(* ===== verification/Tobiko_Config.thy ===== *)
theory Tobiko_Config
  imports Tobiko_Skip
begin

text \<open>
  tobiko/config.py: the values of environment variables, the registry of configuration
  sources and the search for an option in several of them, the configuration files of a
  workspace, and the proxy variables. The environment of the process is a map; what the
  configuration library keeps is a parameter.
\<close>

type_synonym environ = "string \<rightharpoonup> string"

section \<open>Environment variables\<close>

definition get_env :: "environ \<Rightarrow> string \<Rightarrow> string option" where
  "get_env env name = (case env name of None \<Rightarrow> None | Some v \<Rightarrow> if v \<noteq> [] then Some v else None)"

definition get_int_env :: "environ \<Rightarrow> string \<Rightarrow> int option res" where
  "get_int_env env name =
     (case get_env env name of
        None \<Rightarrow> Inr None
      | Some v \<Rightarrow>
          (case py_int v of
             Inr i \<Rightarrow> Inr (Some i)
           | Inl e \<Rightarrow> if catches [PyTypeError] e then Inr None else Inl e))"

definition get_bool_env :: "environ \<Rightarrow> string \<Rightarrow> bool option" where
  "get_bool_env env name =
     (case get_env env name of
        None \<Rightarrow> None
      | Some v \<Rightarrow>
          (let v = str_lower v
           in if v \<in> set [''true'', ''1'', ''yes''] then Some True
              else if v \<in> set [''false'', ''0'', ''no''] then Some False
              else None))"

definition get_list_env :: "environ \<Rightarrow> string \<Rightarrow> string \<Rightarrow> string list" where
  "get_list_env env name separator =
     (case get_env env name of None \<Rightarrow> [] | Some v \<Rightarrow> split_on separator v)"

definition is_prevent_create :: "environ \<Rightarrow> bool" where
  "is_prevent_create env = (get_bool_env env ''TOBIKO_PREVENT_CREATE'' = Some True)"

definition skip_if_prevent_create ::
  "bool skip_formats \<Rightarrow> ('s \<Rightarrow> environ) \<Rightarrow> ('s, 'a, 'r) skip_target \<Rightarrow> ('s, 'a, 'r) skip_target res" where
  "skip_if_prevent_create fmt environ_of =
     skip_if fmt ''TOBIKO_PREVENT_CREATE is True'' (\<lambda>s. (Inr (Some (is_prevent_create (environ_of s))), s)) None"

definition skip_unless_prevent_create ::
  "bool skip_formats \<Rightarrow> ('s \<Rightarrow> environ) \<Rightarrow> ('s, 'a, 'r) skip_target \<Rightarrow> ('s, 'a, 'r) skip_target res" where
  "skip_unless_prevent_create fmt environ_of =
     skip_unless fmt ''TOBIKO_PREVENT_CREATE is False'' (\<lambda>s. (Inr (Some (is_prevent_create (environ_of s))), s)) None"

section \<open>Configuration sources\<close>

definition NoSuchConfigSource :: pyclass where
  "NoSuchConfigSource = ''NoSuchConfigSource'' # PyAttributeError"

declare NoSuchConfigSource_def [exn_classes]

text \<open>\<open>GlobalConfig\<close>: a source that is there already may only be set to itself.\<close>

definition set_source :: "string \<Rightarrow> 'v option \<Rightarrow> (string \<rightharpoonup> 'v, unit) act" where
  "set_source name source_conf sources =
     (case source_conf of
        None \<Rightarrow> (Raise PyTypeError ''Config source cannot be None'', sources)
      | Some conf \<Rightarrow>
          (case sources name of
             None \<Rightarrow> (Inr (), sources(name \<mapsto> conf))
           | Some actual \<Rightarrow>
               if actual \<noteq> conf
               then (Raise PyRuntimeError (''Config source already registered: '' @ str_repr name), sources)
               else (Inr (), sources)))"

definition get_source :: "(string \<rightharpoonup> 'v) \<Rightarrow> string \<Rightarrow> 'v res" where
  "get_source sources name =
     (case sources name of
        None \<Rightarrow> Raise NoSuchConfigSource (''Config source not registered: '' @ str_repr name)
      | Some v \<Rightarrow> Inr v)"

text \<open>
  \<open>EnvironConfig\<close>; \<open>no_such_opt\<close> is the class of the configuration library's \<open>NoSuchOptError\<close>,
  whose text is its argument.
\<close>

definition environ_config :: "pyclass \<Rightarrow> environ \<Rightarrow> string \<Rightarrow> string res" where
  "environ_config no_such_opt env name =
     (case get_env env name of
        None \<Rightarrow> Raise no_such_opt (''Environment variable not defined: '' @ str_repr name)
      | Some v \<Rightarrow> Inr v)"

text \<open>
  \<open>get_any_option\<close>: each source is a dotted path followed from \<open>CONF\<close>; \<open>missing\<close> holds the
  three classes of the errors that mean the option is not there.
\<close>

fun follow_path :: "('v \<Rightarrow> string \<Rightarrow> 'v res) \<Rightarrow> pyclass list \<Rightarrow> 'v \<Rightarrow> string list \<Rightarrow> 'v option res" where
  "follow_path get_attr missing value [] = Inr (Some value)"
| "follow_path get_attr missing value (name # names) =
     (case get_attr value name of
        Inr v \<Rightarrow> follow_path get_attr missing v names
      | Inl e \<Rightarrow> if catches missing e then Inr None else Inl e)"

fun get_any_option :: "('v \<Rightarrow> string \<Rightarrow> 'v res) \<Rightarrow> pyclass list \<Rightarrow> 'v \<Rightarrow> string list \<Rightarrow> 'v \<Rightarrow> 'v res" where
  "get_any_option get_attr missing conf [] dflt = Inr dflt"
| "get_any_option get_attr missing conf (source # sources) dflt =
     (case follow_path get_attr missing conf (split_on ''.'' source) of
        Inl e \<Rightarrow> Inl e
      | Inr None \<Rightarrow> get_any_option get_attr missing conf sources dflt
      | Inr (Some v) \<Rightarrow>
          if v \<noteq> dflt then Inr v else get_any_option get_attr missing conf sources dflt)"

section \<open>Configuration files\<close>

text \<open>
  \<open>workspace_config_files\<close>; the real path of the current directory is the list of its
  components, last one first, and \<open>isfile\<close> is \<open>os.path.isfile\<close>.
\<close>

definition dir_path :: "string list \<Rightarrow> string" where
  "dir_path components = concat (map (\<lambda>c. CHR 0x2F # c) (rev components))"

definition config_filenames :: "string option \<Rightarrow> string option \<Rightarrow> string list" where
  "config_filenames project prog =
     (case prog of None \<Rightarrow> [] | Some p \<Rightarrow> [p @ ''.conf'']) @
     [(case project of Some p \<Rightarrow> if p \<noteq> [] then p else ''tobiko'' | None \<Rightarrow> ''tobiko'') @ ''.conf'']"

fun files_from :: "(string \<Rightarrow> bool) \<Rightarrow> string list \<Rightarrow> string list \<Rightarrow> string list" where
  "files_from isfile filenames [] = []"
| "files_from isfile filenames (d # ds) =
     filter isfile (map (\<lambda>f. dir_path (d # ds) @ ''/'' @ f) filenames) @ files_from isfile filenames ds"

definition workspace_config_files :: "(string \<Rightarrow> bool) \<Rightarrow> string list \<Rightarrow> string option \<Rightarrow> string option \<Rightarrow> string list" where
  "workspace_config_files isfile cwd project prog = files_from isfile (config_filenames project prog) cwd"

section \<open>Proxies\<close>

record http_proxy_fixture =
  hp_http_proxy :: "string option"
  hp_https_proxy :: "string option"
  hp_no_proxy :: "string option"
  hp_source :: "string option"

definition truthy_str :: "string option \<Rightarrow> bool" where
  "truthy_str v = (v \<noteq> None \<and> v \<noteq> Some [])"

definition set_truthy :: "string \<Rightarrow> string option \<Rightarrow> environ \<Rightarrow> environ" where
  "set_truthy name v env = (if truthy_str v then env(name := v) else env)"

text \<open>\<open>HttpProxyFixture.setup_fixture\<close>, with the three options of the configuration.\<close>

definition setup_http_proxy ::
  "string option \<Rightarrow> string option \<Rightarrow> string option \<Rightarrow> environ \<Rightarrow> http_proxy_fixture \<times> environ" where
  "setup_http_proxy conf_http conf_https conf_no env =
     (let in_env = truthy_str (env ''http_proxy'') \<or> truthy_str (env ''https_proxy'');
          env' = (if in_env then env
                  else set_truthy ''no_proxy'' conf_no
                         (set_truthy ''https_proxy'' conf_https (set_truthy ''http_proxy'' conf_http env)));
          source = (if in_env then Some ''environment''
                    else if truthy_str conf_http \<or> truthy_str conf_https \<or> truthy_str conf_no
                    then Some ''tobiko.conf'' else None)
      in (\<lparr>hp_http_proxy = env' ''http_proxy'', hp_https_proxy = env' ''https_proxy'',
           hp_no_proxy = env' ''no_proxy'', hp_source = source\<rparr>, env'))"

section \<open>Properties\<close>

text \<open>
  When no source fails with another error, \<open>get_any_option\<close> returns the value of
  the first source that has the option with a value other than the default, and the
  default when there is none; later sources do not matter.
\<close>
theorem get_any_option_first:
  assumes "\<And>s. s \<in> set sources \<Longrightarrow> \<exists>v. follow_path get_attr missing conf (split_on ''.'' s) = Inr v"
  shows "get_any_option get_attr missing conf sources dflt =
           Inr (hd ([v. s \<leftarrow> sources, v \<leftarrow> (case follow_path get_attr missing conf (split_on ''.'' s) of
                        Inr (Some v) \<Rightarrow> [v] | _ \<Rightarrow> []), v \<noteq> dflt] @ [dflt]))"
  using assms
proof (induction sources)
  case (Cons s sources)
  from Cons.prems obtain v where "follow_path get_attr missing conf (split_on ''.'' s) = Inr v" by auto
  with Cons show ?case by (cases v) auto
qed simp

lemma get_any_option_first_witness:
  "get_any_option (\<lambda>v n. if n = ''a'' then Inr (v + 1) else Raise NoSuchConfigSource n) [NoSuchConfigSource] (3 :: nat)
     [''zz'', ''a''] 3 = Inr 4"
proof -
  have s: "split_on ''.'' ''zz'' = [''zz'']" "split_on ''.'' ''a'' = [''a'']"
    by (simp_all add: split_on.simps)
  have c: "catches [NoSuchConfigSource] (Exn NoSuchConfigSource n)" for n
    by (simp add: catches_Cons isinstance_exn_def issubclass_def exn_classes)
  show ?thesis by (subst get_any_option_first) (auto simp: s c)
qed

text \<open>
  \<open>get_int_env\<close> of a variable that is set to something else than an integer raises
  ValueError; the warning and the None that the code has for it are never reached.
\<close>
theorem get_int_env_raises:
  "get_int_env env name =
     (case get_env env name of None \<Rightarrow> Inr None | Some v \<Rightarrow> map_sum id Some (py_int v)) \<and>
   (\<forall>i. get_int_env (env(name \<mapsto> str_int i)) name = Inr (Some i)) \<and>
   (\<forall>e. get_int_env env name = Inl e \<longrightarrow> exn_class e = PyValueError)"
proof -
  have nt: "\<not> catches [PyTypeError] e" and cls: "exn_class e = PyValueError" if "py_int v = Inl e" for e v
    using that by (auto simp: py_int_def Let_def catches_Cons isinstance_exn_def issubclass_def exn_classes
        split: option.splits if_splits list.splits)
  have ne: "str_int i \<noteq> []" for i by (simp add: str_int_def str_nat_nonempty)
  show ?thesis
    using nt cls by (auto simp: get_int_env_def get_env_def py_int_str_int ne split: option.splits sum.splits)
qed

lemma get_int_env_raises_witness:
  "get_int_env [''N'' \<mapsto> ''-12''] ''N'' = Inr (Some (- 12)) \<and>
   (\<exists>m. get_int_env [''N'' \<mapsto> ''abc''] ''N'' = Raise PyValueError m)"
proof
  have "str_int (-12) = ''-12''" by code_simp
  with get_int_env_raises[of Map.empty "''N''"] show "get_int_env [''N'' \<mapsto> ''-12''] ''N'' = Inr (Some (- 12))"
    by metis
  have abc: "py_int ''abc'' = Raise PyValueError ''invalid literal for int() with base 10''" by code_simp
  obtain e where "get_int_env [''N'' \<mapsto> ''abc''] ''N'' = Inl e"
    using abc get_int_env_raises[of "[''N'' \<mapsto> ''abc'']" "''N''"] by (auto simp: get_env_def)
  with get_int_env_raises[of "[''N'' \<mapsto> ''abc'']" "''N''"] show "\<exists>m. get_int_env [''N'' \<mapsto> ''abc''] ''N'' = Raise PyValueError m"
    by (cases e) auto
qed

end
