(* ===== verification/Fixture_Shared.thy ===== *)
theory Fixture_Shared
  imports Fixture_Required Tobiko_Config
begin

text \<open>
  \<open>SharedFixture\<close> of tobiko/common/_fixture.py as a state machine: \<open>setUp\<close> and \<open>cleanUp\<close>
  around those of the fixtures library, which are parameters, as are the cleanups that the
  library keeps on the fixture. Also the fixture properties.
\<close>

record 'x shared_fixture =
  setup_executed :: bool
  cleanup_executed :: bool
  sf_rest :: 'x

text \<open>The base class: \<open>setUp\<close> calls back \<open>_setUp\<close>, that is \<open>setup_fixture\<close>; \<open>cleanUp\<close> runs the cleanups.\<close>

record ('x, 'r) base_fixture =
  base_setUp :: "('x, unit) xact"
  base_cleanUp :: "bool \<Rightarrow> ('x, 'r) xact"
  base_clear_cleanups :: "'x \<Rightarrow> 'x"
  add_cleanup_fixture :: "'x \<Rightarrow> 'x"
  environ_of :: "'x \<Rightarrow> environ"

text \<open>\<open>__init__\<close>, after that of the base class, and \<open>_remove_state\<close> clear the cleanups.\<close>

definition shared_init :: "('x, 'r) base_fixture \<Rightarrow> 'x \<Rightarrow> 'x shared_fixture" where
  "shared_init B x =
     \<lparr>setup_executed = False, cleanup_executed = False, sf_rest = base_clear_cleanups B x\<rparr>"

definition remove_state :: "('x, 'r) base_fixture \<Rightarrow> 'x shared_fixture \<Rightarrow> 'x shared_fixture" where
  "remove_state B s = s\<lparr>sf_rest := base_clear_cleanups B (sf_rest s)\<rparr>"

definition shared_setUp :: "('x, 'r) base_fixture \<Rightarrow> ('x shared_fixture, unit) xact" where
  "shared_setUp B s =
     (if \<not> setup_executed s
      then (case base_setUp B (sf_rest s) of
              (Inl e, x) \<Rightarrow> (Inl e, s\<lparr>sf_rest := x\<rparr>)
            | (Inr _, x) \<Rightarrow> (Inr (), s\<lparr>sf_rest := x, cleanup_executed := False, setup_executed := True\<rparr>))
      else (Inr (), s))"

definition registers_cleanup :: "('x, 'r) base_fixture \<Rightarrow> 'x shared_fixture \<Rightarrow> bool" where
  "registers_cleanup B s =
     (get_bool_env (environ_of B (sf_rest s)) ''TOBIKO_PREVENT_CREATE'' \<noteq> Some True \<and> \<not> cleanup_executed s)"

definition shared_cleanUp :: "('x, 'r) base_fixture \<Rightarrow> bool \<Rightarrow> ('x shared_fixture, 'r) xact" where
  "shared_cleanUp B raise_first s =
     (let x = (if registers_cleanup B s then add_cleanup_fixture B (sf_rest s) else sf_rest s)
      in case base_cleanUp B raise_first x of
           (Inl e, y) \<Rightarrow> (Inl e, s\<lparr>sf_rest := y\<rparr>)
         | (Inr r, y) \<Rightarrow> (Inr r, s\<lparr>sf_rest := y, setup_executed := False, cleanup_executed := True\<rparr>))"

section \<open>Runs of a shared fixture\<close>

text \<open>
  The calls that reach the base class: whether they returned, and for \<open>cleanUp\<close> whether the
  fixture's own \<open>cleanup_fixture\<close> was registered for it.
\<close>

datatype base_call = BaseSetUp bool | BaseCleanUp bool bool

definition returned :: "exc + 'a \<Rightarrow> bool" where
  "returned r = (case r of Inl _ \<Rightarrow> False | Inr _ \<Rightarrow> True)"

inductive shared_run ::
  "('x, 'r) base_fixture \<Rightarrow> 'x shared_fixture \<Rightarrow> base_call list \<Rightarrow> 'x shared_fixture \<Rightarrow> bool"
  for B where
  start: "shared_run B s [] s"
| setUp: "shared_run B s cs t \<Longrightarrow> shared_setUp B t = (r, u) \<Longrightarrow>
    shared_run B s (cs @ (if setup_executed t then [] else [BaseSetUp (returned r)])) u"
| cleanUp: "shared_run B s cs t \<Longrightarrow> shared_cleanUp B b t = (r, u) \<Longrightarrow>
    shared_run B s (cs @ [BaseCleanUp (returned r) (registers_cleanup B t)]) u"

text \<open>
  The protocol of the base class's calls: no successful set up while the fixture is up, and
  no registration of \<open>cleanup_fixture\<close> after a cleanup that returned until the fixture has
  been set up again. The result is whether the fixture is up and whether it is clean.
\<close>

fun protocol_step :: "(bool \<times> bool) option \<Rightarrow> base_call \<Rightarrow> (bool \<times> bool) option" where
  "protocol_step None c = None"
| "protocol_step (Some (up, clean)) (BaseSetUp ok) =
     (if up then None else Some (ok, clean \<and> \<not> ok))"
| "protocol_step (Some (up, clean)) (BaseCleanUp ok reg) =
     (if reg \<and> clean then None else Some (up \<and> \<not> ok, clean \<or> ok))"

definition protocol :: "base_call list \<Rightarrow> (bool \<times> bool) option" where
  "protocol cs = foldl protocol_step (Some (False, False)) cs"

lemma protocol_snoc [simp]: "protocol (cs @ [c]) = protocol_step (protocol cs) c"
  by (simp add: protocol_def)

lemma shared_setUp_cases:
  "shared_setUp B t = (r, u) \<Longrightarrow>
     setup_executed u = (setup_executed t \<or> returned r) \<and>
     cleanup_executed u = (cleanup_executed t \<and> (setup_executed t \<or> \<not> returned r)) \<and>
     (setup_executed t \<longrightarrow> r = Inr () \<and> u = t)"
  by (auto simp: shared_setUp_def returned_def split: if_splits prod.splits sum.splits)

lemma shared_cleanUp_cases:
  "shared_cleanUp B b t = (r, u) \<Longrightarrow>
     setup_executed u = (setup_executed t \<and> \<not> returned r) \<and>
     cleanup_executed u = (cleanup_executed t \<or> returned r)"
  by (auto simp: shared_cleanUp_def Let_def returned_def split: prod.splits sum.splits)


definition counting_base :: "(nat, unit) base_fixture" where
  "counting_base = \<lparr>base_setUp = (\<lambda>n. if n = 0 then (Inl (Single 0 (Exn PyValueError [])), 1) else (Inr (), n)),
     base_cleanUp = (\<lambda>b n. (Inr (), n)), base_clear_cleanups = id, add_cleanup_fixture = Suc,
     environ_of = (\<lambda>_. Map.empty)\<rparr>"


section \<open>Fixture properties\<close>

text \<open>\<open>FixtureProperty.__get__\<close>: without an instance, the fixture of the owner class.\<close>

definition fixture_property_get ::
  "('o, 'k, 'x) fx_python \<Rightarrow> 'k \<Rightarrow> ('o \<Rightarrow> (('o, 'x) fx_state, 'a) act) \<Rightarrow> 'o option \<Rightarrow> 'o \<Rightarrow>
   (('o, 'x) fx_state, 'a) act" where
  "fixture_property_get P no_kwargs fget inst owner =
     (case inst of
        Some x \<Rightarrow> fget x
      | None \<Rightarrow> bindA (get_fixture P (FObj owner) None None no_kwargs) fget)"

text \<open>
  \<open>RequiredFixture.setup_fixture\<close>; \<open>gather\<close> is the registration of \<open>gather_details\<close> as a
  cleanup of an instance that has cleanups and details.
\<close>

definition required_fixture_setup ::
  "('o, 'k, 'x) fx_python \<Rightarrow> ('o, ('o, 'x) fx_state) fx_methods \<Rightarrow> nat \<Rightarrow>
   (('o \<Rightarrow> (('o, 'x) fx_state, unit) act) option) \<Rightarrow> 'o \<Rightarrow> (('o, 'x) fx_state, 'o) xact" where
  "required_fixture_setup P F new_id gather p s =
     (case required_property P p of
        None \<Rightarrow> (Inl (Single new_id (Exn PyAttributeError ''fixture'')), s)
      | Some (r, i, m, kw) \<Rightarrow>
          (case property_fixture P p s of
             (Inl e, t) \<Rightarrow> (Inl (Single new_id e), t)
           | (Inr f, t) \<Rightarrow>
               (case setup_fixture P F new_id (FObj f) i m None kw t of
                  (Inl e, u) \<Rightarrow> (Inl e, u)
                | (Inr _, u) \<Rightarrow>
                    (case gather of
                       None \<Rightarrow> (Inr f, u)
                     | Some g \<Rightarrow>
                         (case single new_id (g f) u of (Inl e, v) \<Rightarrow> (Inl e, v) | (Inr _, v) \<Rightarrow> (Inr f, v))))))"

end
