(* ===== verification/Tobiko_Operation.thy ===== *)
theory Tobiko_Operation
  imports Fixture_Shared
begin

text \<open>
  tobiko/common/_operation.py: operations, fixtures that run once in the middle of a test
  session, the configuration that says which of them have run already, the names of the
  operations that objects run, and the decorators for the tests before and after them.
\<close>

section \<open>Configuration\<close>

record operations_config =
  after_operations :: "string set"
  run_operations :: bool

text \<open>\<open>OperationsConfigFixture.setup_fixture\<close>.\<close>

definition operation_config :: "environ \<Rightarrow> operations_config" where
  "operation_config env =
     \<lparr>after_operations = set (get_list_env env ''TOBIKO_AFTER_OPERATIONS'' '',''),
      run_operations = (get_bool_env env ''TOBIKO_RUN_OPERATIONS'' = Some True)\<rparr>"

section \<open>An operation\<close>

record 'x operation =
  op_is_after :: "bool option"
  op_rest :: 'x

definition operation_is_after :: "operations_config \<Rightarrow> string \<Rightarrow> 'x operation \<Rightarrow> bool \<times> 'x operation" where
  "operation_is_after cfg name s =
     (case op_is_after s of
        Some b \<Rightarrow> (b, s)
      | None \<Rightarrow> (let b = name \<in> after_operations cfg in (b, s\<lparr>op_is_after := Some b\<rparr>)))"

definition operation_is_before :: "operations_config \<Rightarrow> string \<Rightarrow> 'x operation \<Rightarrow> bool \<times> 'x operation" where
  "operation_is_before cfg name s = (case operation_is_after cfg name s of (b, t) \<Rightarrow> (\<not> b, t))"

text \<open>\<open>setup_fixture\<close>: an exception of \<open>run_operation\<close> is raised again, after marking the operation.\<close>

definition operation_setup_fixture ::
  "operations_config \<Rightarrow> string \<Rightarrow> ('x, unit) act \<Rightarrow> ('x operation, unit) act" where
  "operation_setup_fixture cfg name run_operation s =
     (case operation_is_after cfg name s of
        (True, t) \<Rightarrow> (Inr (), t)
      | (False, t) \<Rightarrow>
          (case run_operation (op_rest t) of
             (r, x) \<Rightarrow> (r, t\<lparr>op_rest := x, op_is_after := Some True\<rparr>)))"

text \<open>
  \<open>get_operation\<close> for the operation that the fixture manager has under the object, given the
  \<open>setUp\<close> of that fixture.
\<close>

definition get_operation ::
  "operations_config \<Rightarrow> string \<Rightarrow> (('x operation) shared_fixture, unit) xact \<Rightarrow> (('x operation) shared_fixture, unit) xact" where
  "get_operation cfg name setUp s =
     (case operation_is_before cfg name (sf_rest s) of
        (before, x) \<Rightarrow>
          if before \<and> run_operations cfg then setUp (s\<lparr>sf_rest := x\<rparr>) else (Inr (), s\<lparr>sf_rest := x\<rparr>))"

text \<open>
  Property (C10). An operation runs at most once: however its set up ended, it counts as done
  afterwards, and setting it up again neither runs it nor changes anything; an operation
  listed in \<open>TOBIKO_AFTER_OPERATIONS\<close> is never run, one that is not listed and not set up
  yet is run by its set up, whose result is the one of the operation.
\<close>
theorem operation_runs_once:
  "operation_is_after cfg name (snd (operation_setup_fixture cfg name run s)) =
     (True, snd (operation_setup_fixture cfg name run s)) \<and>
   operation_setup_fixture cfg name run' (snd (operation_setup_fixture cfg name run s)) =
     (Inr (), snd (operation_setup_fixture cfg name run s)) \<and>
   operation_setup_fixture (operation_config env) name run \<lparr>op_is_after = None, op_rest = x\<rparr> =
     (if name \<in> set (get_list_env env ''TOBIKO_AFTER_OPERATIONS'' '','')
      then (Inr (), \<lparr>op_is_after = Some True, op_rest = x\<rparr>)
      else (fst (run x), \<lparr>op_is_after = Some True, op_rest = snd (run x)\<rparr>))"
  by (auto simp: operation_setup_fixture_def operation_is_after_def operation_config_def Let_def
      split: option.splits bool.splits prod.splits)

text \<open>
  \<open>get_operation\<close> sets an operation up only when operations are to be run and it is
  not done: otherwise the fixture's \<open>setUp\<close> is not called. When the \<open>setUp\<close> of the base class
  does what \<open>setup_fixture\<close> does, getting an operation a second time calls nothing.
\<close>
theorem get_operation_sets_up:
  assumes "\<And>x. \<exists>r p. operation_setup_fixture cfg name run x = (r, p) \<and>
                base_setUp B x = (case r of Inl e \<Rightarrow> Inl (Single n e) | Inr u \<Rightarrow> Inr u, p)"
  shows "(\<not> run_operations cfg \<or> fst (operation_is_after cfg name (sf_rest s)) \<longrightarrow>
            get_operation cfg name setUp s =
              (Inr (), s\<lparr>sf_rest := snd (operation_is_after cfg name (sf_rest s))\<rparr>)) \<and>
         (run_operations cfg \<and> \<not> setup_executed s \<longrightarrow>
            get_operation cfg name setUp (snd (get_operation cfg name (shared_setUp B) s)) =
              (Inr (), snd (get_operation cfg name (shared_setUp B) s)))"
proof
  show "\<not> run_operations cfg \<or> fst (operation_is_after cfg name (sf_rest s)) \<longrightarrow>
            get_operation cfg name setUp s =
              (Inr (), s\<lparr>sf_rest := snd (operation_is_after cfg name (sf_rest s))\<rparr>)"
    by (auto simp: get_operation_def operation_is_before_def split: prod.splits)
next
  have set: "op_is_after (snd (base_setUp B x)) = Some True" for x
    using assms[of x]
    by (auto simp: operation_setup_fixture_def operation_is_after_def Let_def split: option.splits bool.splits prod.splits)
  have after: "operation_is_after cfg name (sf_rest t) = (True, sf_rest t)"
    if "\<not> setup_executed u" "t = snd (shared_setUp B u)" for t u
    using that set[of "sf_rest u"]
    by (auto simp: shared_setUp_def operation_is_after_def split: prod.splits sum.splits)
  obtain b x where bx: "operation_is_after cfg name (sf_rest s) = (b, x)" by fastforce
  show "run_operations cfg \<and> \<not> setup_executed s \<longrightarrow>
            get_operation cfg name setUp (snd (get_operation cfg name (shared_setUp B) s)) =
              (Inr (), snd (get_operation cfg name (shared_setUp B) s))"
  proof (cases b)
    case True
    with bx have "operation_is_after cfg name x = (True, x)"
      by (auto simp: operation_is_after_def Let_def split: option.splits)
    with True bx show ?thesis by (simp add: get_operation_def operation_is_before_def)
  next
    case False
    with bx after[of "s\<lparr>sf_rest := x\<rparr>"] show ?thesis
      by (auto simp: get_operation_def operation_is_before_def)
  qed
qed

definition demo_base :: "operations_config \<Rightarrow> (nat operation, unit) base_fixture" where
  "demo_base cfg = \<lparr>base_setUp = (\<lambda>x. case operation_setup_fixture cfg ''op'' (\<lambda>n. (Inr (), Suc n)) x of
         (r, p) \<Rightarrow> (case r of Inl e \<Rightarrow> Inl (Single 0 e) | Inr u \<Rightarrow> Inr u, p)),
     base_cleanUp = (\<lambda>b n. (Inr (), n)), base_clear_cleanups = id, add_cleanup_fixture = id,
     environ_of = (\<lambda>_. Map.empty)\<rparr>"

lemma get_operation_sets_up_witness:
  "get_operation \<lparr>after_operations = {}, run_operations = True\<rparr> ''op''
       (\<lambda>s. (Inl (Single 0 (Exn PyRuntimeError ''set up again'')), s))
       \<lparr>setup_executed = True, cleanup_executed = False, sf_rest = \<lparr>op_is_after = Some True, op_rest = Suc 0\<rparr>\<rparr> =
     (Inr (), \<lparr>setup_executed = True, cleanup_executed = False, sf_rest = \<lparr>op_is_after = Some True, op_rest = Suc 0\<rparr>\<rparr>)"
proof -
  let ?cfg = "\<lparr>after_operations = {}, run_operations = True\<rparr>"
  let ?s = "\<lparr>setup_executed = False, cleanup_executed = False, sf_rest = \<lparr>op_is_after = None, op_rest = 0\<rparr>\<rparr>"
  have h: "\<exists>r p. operation_setup_fixture ?cfg ''op'' (\<lambda>n. (Inr (), Suc n)) x = (r, p) \<and>
        base_setUp (demo_base ?cfg) x = (case r of Inl e \<Rightarrow> Inl (Single 0 e) | Inr u \<Rightarrow> Inr u, p)" for x
    by (simp add: demo_base_def split: prod.split)
  have "snd (get_operation ?cfg ''op'' (shared_setUp (demo_base ?cfg)) ?s) =
     \<lparr>setup_executed = True, cleanup_executed = False, sf_rest = \<lparr>op_is_after = Some True, op_rest = Suc 0\<rparr>\<rparr>"
    by (simp add: get_operation_def operation_is_before_def operation_is_after_def shared_setUp_def
        demo_base_def operation_setup_fixture_def)
  with get_operation_sets_up[where run = "\<lambda>n. (Inr (), Suc n)" and B = "demo_base ?cfg" and n = 0 and
      cfg = ?cfg and name = "''op''" and s = ?s
      and setUp = "\<lambda>s. (Inl (Single 0 (Exn PyRuntimeError ''set up again'')), s)", OF h]
  show ?thesis by simp
qed

section \<open>The operations of an object\<close>

text \<open>
  The attribute \<open>__tobiko_runs_operations__\<close>: names still being collected, or frozen ones.
  It is kept beside the state of the fixtures.
\<close>

datatype ops_attr = OSet "string list" | OTuple "string list"

type_synonym ('o, 'x) ops_state = "('o \<Rightarrow> ops_attr option) \<times> ('o, 'x) fx_state"

definition add_runs_operation_name ::
  "('o, 'k, 'x) fx_python \<Rightarrow> 'o \<Rightarrow> string \<Rightarrow> ('o \<Rightarrow> ops_attr option) \<Rightarrow> ('o \<Rightarrow> ops_attr option)" where
  "add_runs_operation_name P x name attr =
     (case attr_lookup P attr x of
        Some (OSet names) \<Rightarrow>
          (case attr x of
             Some _ \<Rightarrow> attr(x \<mapsto> OSet (names @ [name]))
           | None \<Rightarrow>
               (case dropWhile (\<lambda>y. attr y = None) (lookup_order P x) of
                  [] \<Rightarrow> attr | y # _ \<Rightarrow> attr(y \<mapsto> OSet (names @ [name]))))
      | Some (OTuple names) \<Rightarrow> attr(x \<mapsto> OSet (names @ [name]))
      | None \<Rightarrow> attr(x \<mapsto> OSet [name]))"

text \<open>
  \<open>get_runs_operation_names\<close> of a reference (\<open>Inl\<close>) and of the members of a class one after
  the other (\<open>Inr\<close>). A \<open>RunsOperationProperty\<close> has the frozen name of its operation,
  \<open>property_operation\<close>.
\<close>

definition visible_members :: "('o, 'k, 'x) fx_python \<Rightarrow> 'o \<Rightarrow> 'o list" where
  "visible_members P c =
     map snd (filter (\<lambda>(n, _). \<not> prefix ''__'' n) (sort_key fst (class_members P c)))"

definition freeze :: "'o \<Rightarrow> string list \<Rightarrow> ('o, 'x) ops_state \<Rightarrow> string list \<times> ('o, 'x) ops_state" where
  "freeze x names s = (let ops = sort (remdups names) in (ops, ((fst s)(x \<mapsto> OTuple ops), snd s)))"

partial_function (option) runs_operations ::
  "('o, 'k, 'x) fx_python \<Rightarrow> ('o \<Rightarrow> string option) \<Rightarrow> ('o \<Rightarrow> 'o fixture_ref) \<Rightarrow> 'o fixture_ref + 'o list \<Rightarrow>
   ('o, 'x) ops_state \<Rightarrow> (string list res \<times> ('o, 'x) ops_state) option" where
  "runs_operations P property_operation member_ref work s =
     (case work of
        Inr ms \<Rightarrow>
          (case ms of
             [] \<Rightarrow> Some (Inr [], s)
           | m # ms' \<Rightarrow>
               Option.bind (runs_operations P property_operation member_ref (Inl (member_ref m)) s)
                 (\<lambda>(r, t). case r of
                    Inl e \<Rightarrow> Some (Inl e, t)
                  | Inr ns \<Rightarrow>
                      Option.bind (runs_operations P property_operation member_ref (Inr ms') t)
                        (\<lambda>(r', u). Some (case r' of Inl e \<Rightarrow> Inl e | Inr ns' \<Rightarrow> Inr (ns @ ns'), u))))
      | Inl ref \<Rightarrow>
          (case get_name_and_object P ref (snd s) of
             (Inl e, f) \<Rightarrow> Some (Inl e, (fst s, f))
           | (Inr nx, f) \<Rightarrow>
               (let x = snd nx in
                case (case property_operation x of Some n \<Rightarrow> Some (OTuple [n]) | None \<Rightarrow> attr_lookup P (fst s) x) of
                  Some (OTuple ops) \<Rightarrow> Some (Inr ops, (fst s, f))
                | found \<Rightarrow>
                    if \<not> settable P x then Some (Inr [], (fst s, f))
                    else (let own = (case found of Some (OSet names) \<Rightarrow> names | _ \<Rightarrow> []);
                              s' = ((fst s)(x \<mapsto> OTuple []), f)
                          in if is_method P x \<or> is_function P x
                             then (case freeze x own s' of (ops, t) \<Rightarrow> Some (Inr ops, t))
                             else Option.bind
                               (runs_operations P property_operation member_ref
                                  (Inr (visible_members P (if isclass P x then x else type_of P x))) s')
                               (\<lambda>(r, t). case r of
                                  Inl e \<Rightarrow> Some (Inl e, t)
                                | Inr ns \<Rightarrow> (case freeze x (own @ ns) t of (ops, u) \<Rightarrow> Some (Inr ops, u)))))))"

definition get_runs_operation_names ::
  "('o, 'k, 'x) fx_python \<Rightarrow> ('o \<Rightarrow> string option) \<Rightarrow> ('o \<Rightarrow> 'o fixture_ref) \<Rightarrow> 'o fixture_ref \<Rightarrow>
   ('o, 'x) ops_state \<Rightarrow> (string list res \<times> ('o, 'x) ops_state) option" where
  "get_runs_operation_names P property_operation member_ref ref =
     runs_operations P property_operation member_ref (Inl ref)"

lemma attr_lookup_own:
  "lookup_order P x = x # ys \<Longrightarrow> attr x = Some a \<Longrightarrow> attr_lookup P attr x = Some a"
  by (simp add: attr_lookup_def)

lemma freeze_attr: "freeze x ns s = (ops, t) \<Longrightarrow> fst t x = Some (OTuple ops)"
  by (auto simp: freeze_def Let_def)

lemma freeze_names: "freeze x ns s = (ops, t) \<Longrightarrow> sorted ops \<and> distinct ops"
  by (auto simp: freeze_def Let_def)

lemma bind_freeze:
  assumes "Option.bind m (\<lambda>(r, t). case r of Inl e \<Rightarrow> Some (Inl e, t)
      | Inr ns \<Rightarrow> (case freeze x (own @ ns) t of (ops, u) \<Rightarrow> Some (Inr ops, u))) = Some (Inr ops, t)"
  shows "\<exists>ns u. freeze x ns u = (ops, t)"
proof -
  from assms obtain r u where m: "m = Some (r, u)" by (cases m) auto
  with assms obtain ns where "r = Inr ns" by (cases r) auto
  with m assms have "freeze x (own @ ns) u = (ops, t)" by (cases "freeze x (own @ ns) u") simp
  then show ?thesis by blast
qed

lemma runs_operations_frozen:
  assumes "runs_operations P po mr (Inl ref) s = Some (Inr ops, t)"
    and "get_name_and_object P ref (snd s) = (Inr (n, x), f)"
    and "po x = None" and "settable P x" and "lookup_order P x = x # ys"
  shows "attr_lookup P (fst t) x = Some (OTuple ops) \<and>
         ((\<exists>ns. attr_lookup P (fst s) x = Some (OTuple ns)) \<or> sorted ops \<and> distinct ops)"
proof (cases "\<exists>ns. attr_lookup P (fst s) x = Some (OTuple ns)")
  case True
  with assms(1-4) show ?thesis by (subst (asm) runs_operations.simps) auto
next
  case False
  define own where "own = (case attr_lookup P (fst s) x of Some (OSet names) \<Rightarrow> names | _ \<Rightarrow> [])"
  let ?s = "((fst s)(x \<mapsto> OTuple []), f)"
  have "runs_operations P po mr (Inl ref) s =
      (if is_method P x \<or> is_function P x
       then (case freeze x own ?s of (ops, t) \<Rightarrow> Some (Inr ops, t))
       else Option.bind
         (runs_operations P po mr (Inr (visible_members P (if isclass P x then x else type_of P x))) ?s)
         (\<lambda>(r, t). case r of
            Inl e \<Rightarrow> Some (Inl e, t)
          | Inr ns \<Rightarrow> (case freeze x (own @ ns) t of (ops, u) \<Rightarrow> Some (Inr ops, u))))"
  proof (cases "attr_lookup P (fst s) x")
    case None
    then have "own = []" by (simp add: own_def)
    show ?thesis unfolding \<open>own = []\<close> using None by (subst runs_operations.simps) (simp add: assms(2-4) Let_def)
  next
    case (Some a)
    with False obtain names where a: "a = OSet names" by (cases a) auto
    with Some have "own = names" by (simp add: own_def)
    show ?thesis unfolding \<open>own = names\<close> using Some a by (subst runs_operations.simps) (simp add: assms(2-4) Let_def)
  qed
  note body = this[symmetric, unfolded assms(1)]
  have "\<exists>ns u. freeze x ns u = (ops, t)"
  proof (cases "is_method P x \<or> is_function P x")
    case True
    with body have "freeze x own ?s = (ops, t)" by (cases "freeze x own ?s") simp
    then show ?thesis by blast
  next
    case False
    with body show ?thesis by (intro bind_freeze) simp
  qed
  with freeze_attr attr_lookup_own[OF assms(5)] freeze_names show ?thesis by metis
qed

text \<open>
  Once the operations of an object have been found they are frozen on it, in
  alphabetical order and without duplicates: asking again, through any reference that
  gives the same object, returns the same names and changes nothing.
\<close>
theorem get_runs_operation_names_frozen:
  assumes "get_runs_operation_names P po mr ref s = Some (Inr ops, t)"
    and "get_name_and_object P ref (snd s) = (Inr (n, x), f)"
    and "get_name_and_object P ref' (snd t) = (Inr (n', x), snd t)"
    and "po x = None" and "settable P x" and "lookup_order P x = x # ys"
  shows "get_runs_operation_names P po mr ref' t = Some (Inr ops, t) \<and>
         (attr_lookup P (fst s) x = None \<longrightarrow> sorted ops \<and> distinct ops)"
proof -
  note frozen = runs_operations_frozen[OF assms(1)[unfolded get_runs_operation_names_def] assms(2,4,5,6)]
  have "runs_operations P po mr (Inl ref') t = Some (Inr ops, t)"
    using assms(3,4) frozen[THEN conjunct1] by (subst runs_operations.simps) simp
  with frozen show ?thesis by (auto simp: get_runs_operation_names_def)
qed

lemma get_runs_operation_names_frozen_witness:
  "get_runs_operation_names (pair_python\<lparr>is_function := (\<lambda>_. True)\<rparr>) Map.empty FObj (FStr ''a.B'')
     ([0 \<mapsto> OTuple [''x'', ''y'']], pair_state) = Some (Inr [''x'', ''y''], ([0 \<mapsto> OTuple [''x'', ''y'']], pair_state))"
proof -
  let ?P = "pair_python\<lparr>is_function := (\<lambda>_. True)\<rparr>"
  have name: "get_name_and_object ?P r pair_state = (Inr (''a.B'', 0), pair_state)"
    if "r = FObj 0 \<or> r = FStr ''a.B''" for r
    using that by (auto simp: get_name_and_object_def get_object_name_def attr_lookup_def lookup_order_def
        pair_python_def pair_state_def pair_load_def)
  have props: "settable ?P 0" "lookup_order ?P 0 = [0]" "is_function ?P 0"
    by (simp_all add: lookup_order_def pair_python_def)
  then have props': "settable pair_python 0" "lookup_order ?P 0 = [0]" "is_function ?P 0" by simp_all
  have fz: "freeze 0 [''y'', ''x'', ''y''] ([0 \<mapsto> OTuple []], pair_state)
      = ([''x'', ''y''], ([0 \<mapsto> OTuple [''x'', ''y'']], pair_state))"
    by (simp add: freeze_def less_char_def Let_def)
  have "get_runs_operation_names ?P Map.empty FObj (FObj 0) ([0 \<mapsto> OSet [''y'', ''x'', ''y'']], pair_state)
      = Some (Inr [''x'', ''y''], ([0 \<mapsto> OTuple [''x'', ''y'']], pair_state))"
    unfolding get_runs_operation_names_def
    by (subst runs_operations.simps)
      (simp add: name[of "FObj 0"] props' fz attr_lookup_own[OF props(2)] Let_def)
  from get_runs_operation_names_frozen[OF this, of "''a.B''" 0 pair_state "FStr ''a.B''" "''a.B''" "[]"]
  show ?thesis using name props by (auto simp: pair_python_def)
qed

section \<open>Decorators\<close>

record 'o operation_property =
  rp_name :: string
  rp_obj :: 'o

definition mk_operation_property ::
  "('o, 'k, 'x) fx_python \<Rightarrow> 'o fixture_ref \<Rightarrow> (('o, 'x) fx_state, 'o operation_property) act" where
  "mk_operation_property P ref =
     bindA (get_name_and_object P ref) (\<lambda>(n, x). ret \<lparr>rp_name = n, rp_obj = x\<rparr>)"

text \<open>\<open>is_after\<close> is the action that gets the operation of the property and asks it.\<close>

definition before_operation ::
  "bool skip_formats \<Rightarrow> 'o operation_property \<Rightarrow> ('s, bool) act \<Rightarrow> ('s, 'a, 'r) skip_target \<Rightarrow>
   ('s, 'a, 'r) skip_target res" where
  "before_operation fmt p is_after =
     skip_unless fmt (''Before operation '' @ rp_name p) (bindA is_after (\<lambda>b. ret (Some (\<not> b)))) None"

definition after_operation ::
  "bool skip_formats \<Rightarrow> 'o operation_property \<Rightarrow> ('s, bool) act \<Rightarrow> ('s, 'a, 'r) skip_target \<Rightarrow>
   ('s, 'a, 'r) skip_target res" where
  "after_operation fmt p is_after =
     skip_unless fmt (''After operation '' @ rp_name p) (bindA is_after (\<lambda>b. ret (Some b))) None"

definition with_operation ::
  "('o, 'k, 'x) fx_python \<Rightarrow> 'o operation_property \<Rightarrow> 'o \<Rightarrow> ('o \<Rightarrow> ops_attr option) \<Rightarrow> ('o \<Rightarrow> ops_attr option)" where
  "with_operation P p x = add_runs_operation_name P x (rp_name p)"

end
