(* ===== verification/Tobiko_TableData.thy ===== *)
theory Tobiko_TableData
  imports Py_Strings "HOL-Library.Multiset"
begin

text \<open>
  tobiko/common/_tabledata.py: tables, lists of dictionaries with the same keys, with
  reading and writing of CSV text, querying, replacing and printing. Cells are None,
  integers and texts; a row is a dictionary, a list of key and value with distinct keys.
  Regular expression substitution and \<open>eval\<close> are parameters; CSV is the dialect that
  Python's csv module uses by default. The log of the queried columns is left out.
\<close>

datatype cell = CNone | CInt int | CStr string

definition cell_str :: "cell \<Rightarrow> string" where
  "cell_str c = (case c of CNone \<Rightarrow> ''None'' | CInt i \<Rightarrow> str_int i | CStr s \<Rightarrow> s)"

type_synonym row = "(string \<times> cell) list"

datatype item = IDict row | ITuple "cell list"

record table =
  td_schema :: "string list"
  td_data :: "row list"

definition empty_table :: table where
  "empty_table = \<lparr>td_schema = [], td_data = []\<rparr>"

definition keys :: "row \<Rightarrow> string list" where
  "keys r = map fst r"

section \<open>Validation and construction\<close>

definition validate_item :: "item \<Rightarrow> (table, row) act" where
  "validate_item it t =
     (case it of
        ITuple _ \<Rightarrow> (Raise PyTypeError ''Items must be dictionaries'', t)
      | IDict r \<Rightarrow>
          if td_schema t = []
          then (let t' = t\<lparr>td_schema := keys r\<rparr>
                in if keys r = []
                   then (Raise PyValueError ''Cannot infer schema from an empty dictionary as the first item.'', t')
                   else (Inr r, t'))
          else if set (keys r) \<noteq> set (td_schema t)
          then (Raise PyValueError ''Dictionary keys do not match schema.'', t)
          else (Inr r, t))"

definition table_append :: "item \<Rightarrow> (table, unit) act" where
  "table_append it t =
     (case validate_item it t of
        (Inl e, u) \<Rightarrow> (Inl e, u)
      | (Inr r, u) \<Rightarrow> (Inr (), u\<lparr>td_data := td_data u @ [r]\<rparr>))"

text \<open>\<open>__init__\<close> with columns and without; the first dictionary gives the schema.\<close>

fun init_columns :: "string list \<Rightarrow> item list \<Rightarrow> table \<Rightarrow> table res" where
  "init_columns columns [] t = Inr t"
| "init_columns columns (IDict r # items) t =
     Raise PyValueError ''If columns are provided, all items must be tuples''"
| "init_columns columns (ITuple vs # items) t =
     (case table_append (IDict (dict_update [] (zip columns vs))) t of
        (Inl e, _) \<Rightarrow> Inl e | (Inr _, u) \<Rightarrow> init_columns columns items u)"

fun init_dicts :: "item list \<Rightarrow> table \<Rightarrow> table res" where
  "init_dicts [] t = Inr t"
| "init_dicts (ITuple vs # items) t =
     Raise PyValueError ''If columns are not provided, all items must be dictionaries''"
| "init_dicts (IDict r # items) t =
     (case table_append (IDict r) t of (Inl e, _) \<Rightarrow> Inl e | (Inr _, u) \<Rightarrow> init_dicts items u)"

definition mk_table :: "item list option \<Rightarrow> string list option \<Rightarrow> table res" where
  "mk_table initial_data columns =
     (case initial_data of
        None \<Rightarrow> Inr empty_table
      | Some [] \<Rightarrow> Inr empty_table
      | Some (it # items) \<Rightarrow>
          (case columns of
             Some (c # cs) \<Rightarrow> init_columns (c # cs) (it # items) \<lparr>td_schema = c # cs, td_data = []\<rparr>
           | _ \<Rightarrow>
               (case it of
                  ITuple _ \<Rightarrow> Raise PyValueError ''If columns are not provided, all items must be dictionaries''
                | IDict r \<Rightarrow> init_dicts items \<lparr>td_schema = keys r, td_data = [r]\<rparr>)))"

definition table_of :: "row list \<Rightarrow> table res" where
  "table_of rows = mk_table (Some (map IDict rows)) None"

definition from_dict :: "(string \<times> cell list) list \<Rightarrow> table res" where
  "from_dict d =
     (case d of
        [] \<Rightarrow> Inr empty_table
      | (c, vs) # _ \<Rightarrow>
          if \<not> list_all (\<lambda>(_, ws). length ws = length vs) d
          then Raise PyValueError ''All columns must have the same number of rows''
          else table_of (map (\<lambda>i. map (\<lambda>(k, ws). (k, ws ! i)) d) [0..<length vs]))"

section \<open>Changing a table\<close>

text \<open>List indices and slices with step 1.\<close>

definition index_of :: "int \<Rightarrow> 'a list \<Rightarrow> nat res" where
  "index_of i xs =
     (let n = int (length xs); j = (if i < 0 then i + n else i)
      in if 0 \<le> j \<and> j < n then Inr (nat j) else Raise PyIndexError ''list index out of range'')"

definition slice_bounds :: "int option \<Rightarrow> int option \<Rightarrow> 'a list \<Rightarrow> nat \<times> nat" where
  "slice_bounds lo hi xs =
     (let n = int (length xs); clamp = (\<lambda>i. nat (max 0 (min n (if i < 0 then i + n else i))));
          a = (case lo of None \<Rightarrow> 0 | Some i \<Rightarrow> clamp i);
          b = (case hi of None \<Rightarrow> length xs | Some i \<Rightarrow> clamp i)
      in (a, max a b))"

definition table_insert :: "int \<Rightarrow> item \<Rightarrow> (table, unit) act" where
  "table_insert i it t =
     (case validate_item it t of
        (Inl e, u) \<Rightarrow> (Inl e, u)
      | (Inr r, u) \<Rightarrow> (Inr (), u\<lparr>td_data := insert_at i r (td_data u)\<rparr>))"

definition table_setitem :: "int \<Rightarrow> item \<Rightarrow> (table, unit) act" where
  "table_setitem i it t =
     (case it of
        ITuple _ \<Rightarrow> (Raise PyTypeError ''Must assign a dictionaries to an index'', t)
      | IDict _ \<Rightarrow>
          (case validate_item it t of
             (Inl e, u) \<Rightarrow> (Inl e, u)
           | (Inr r, u) \<Rightarrow>
               (case index_of i (td_data u) of
                  Inl e \<Rightarrow> (Inl e, u)
                | Inr j \<Rightarrow> (Inr (), u\<lparr>td_data := (td_data u)[j := r]\<rparr>))))"

definition table_setslice :: "int option \<Rightarrow> int option \<Rightarrow> item list \<Rightarrow> (table, unit) act" where
  "table_setslice lo hi items t =
     (case map_act validate_item items t of
        (Inl e, u) \<Rightarrow> (Inl e, u)
      | (Inr rs, u) \<Rightarrow>
          (case slice_bounds lo hi (td_data u) of
             (a, b) \<Rightarrow> (Inr (), u\<lparr>td_data := take a (td_data u) @ rs @ drop b (td_data u)\<rparr>)))"

definition table_add :: "table \<Rightarrow> item list \<Rightarrow> table res" where
  "table_add t other = mk_table (Some (map IDict (td_data t) @ other)) None"

fun table_iadd :: "item list \<Rightarrow> (table, unit) act" where
  "table_iadd [] t = (Inr (), t)"
| "table_iadd (it # items) t =
     (case table_append it t of (Inl e, u) \<Rightarrow> (Inl e, u) | (Inr _, u) \<Rightarrow> table_iadd items u)"

definition get_cell :: "row \<Rightarrow> string \<Rightarrow> cell res" where
  "get_cell r k = (case map_of r k of None \<Rightarrow> Raise PyKeyError k | Some v \<Rightarrow> Inr v)"

definition set_columns :: "string list \<Rightarrow> (table, unit) act" where
  "set_columns new_columns t =
     (if length new_columns \<noteq> length (td_schema t)
      then (Raise PyValueError ''Number of new columns must match existing schema'', t)
      else (case map_res (\<lambda>r. map_res (get_cell r) (td_schema t)) (td_data t) of
              Inl e \<Rightarrow> (Inl e, t)
            | Inr vss \<Rightarrow>
                (Inr (), \<lparr>td_schema = new_columns,
                          td_data = map (\<lambda>vs. dict_update [] (zip new_columns vs)) vss\<rparr>)))"

definition table_empty :: "table \<Rightarrow> bool" where
  "table_empty t = (length (td_data t) = 0)"

definition table_concat :: "table list \<Rightarrow> table res" where
  "table_concat tables =
     (if tables = [] then Inr empty_table else table_of (concat (map td_data tables)))"

section \<open>Querying\<close>

text \<open>
  Replacing a column name at word boundaries; \<open>before\<close> is the character before the text. A
  boundary is where a word character meets another or the end.
\<close>

definition boundary :: "char option \<Rightarrow> char option \<Rightarrow> bool" where
  "boundary a b =
     ((case a of None \<Rightarrow> False | Some c \<Rightarrow> word_char c) \<noteq> (case b of None \<Rightarrow> False | Some c \<Rightarrow> word_char c))"

definition head_char :: "string \<Rightarrow> char option" where
  "head_char s = (case s of [] \<Rightarrow> None | c # _ \<Rightarrow> Some c)"

function sub_word :: "string \<Rightarrow> string \<Rightarrow> char option \<Rightarrow> string \<Rightarrow> string" where
  "sub_word w new before s =
     (case s of
        [] \<Rightarrow> []
      | c # cs \<Rightarrow>
          if w \<noteq> [] \<and> prefix w s \<and> boundary before (Some c) \<and>
             boundary (Some (last w)) (head_char (drop (length w) s))
          then new @ sub_word w new (Some (last w)) (drop (length w) s)
          else c # sub_word w new (Some c) cs)"
  by pat_completeness auto
termination
  by (relation "measure (\<lambda>(w, new, before, s). length s)") (auto simp: prefix_def)

declare sub_word.simps [simp del]

definition eval_text :: "cell \<Rightarrow> string" where
  "eval_text v = (case v of CStr s \<Rightarrow> CHR 0x22 # s @ [CHR 0x22] | _ \<Rightarrow> cell_str v)"

text \<open>\<open>_build_eval_expr\<close>: longer names first; a name that does not occur is not looked up.\<close>

fun build_eval :: "row \<Rightarrow> string list \<Rightarrow> string \<Rightarrow> string res" where
  "build_eval r [] expr = Inr expr"
| "build_eval r (c # cs) expr =
     (if sub_word c [] None expr = expr then build_eval r cs expr
      else (case get_cell r c of
              Inl e \<Rightarrow> Inl e
            | Inr v \<Rightarrow> build_eval r cs (sub_word c (eval_text v) None expr)))"

definition build_eval_expr :: "table \<Rightarrow> row \<Rightarrow> string \<Rightarrow> string res" where
  "build_eval_expr t r expr = build_eval r (rev (sort_key length (rev (td_schema t)))) expr"

text \<open>The first match of the regular expression of the \<open>column.str.contains("text")\<close> form.\<close>

definition contains_op :: string where
  "contains_op = ''.str.contains('' @ [CHR 0x22]"

fun contains_match :: "string \<Rightarrow> (string \<times> string) option" where
  "contains_match [] = None"
| "contains_match (c # cs) =
     (let w = takeWhile word_char (c # cs); rest = drop (length w) (c # cs);
          rest' = drop (length contains_op) rest;
          text = takeWhile (\<lambda>x. x \<noteq> CHR 0x22) rest'
      in if w \<noteq> [] \<and> prefix contains_op rest \<and> text \<noteq> [] \<and>
            prefix (CHR 0x22 # '')'') (drop (length text) rest')
         then Some (w, text) else contains_match cs)"

fun query_rows :: "(string \<Rightarrow> bool res) \<Rightarrow> pyclass list \<Rightarrow> table \<Rightarrow> string \<Rightarrow> row list \<Rightarrow> row list res" where
  "query_rows py_eval skipped t expr [] = Inr []"
| "query_rows py_eval skipped t expr (r # rs) =
     (case (case contains_match expr of
              Some (col, text) \<Rightarrow>
                Inr (case map_of r col of None \<Rightarrow> False | Some v \<Rightarrow> str_in text (cell_str v))
            | None \<Rightarrow>
                (case build_eval_expr t r expr of
                   Inl e \<Rightarrow> Inl e
                 | Inr x \<Rightarrow>
                     (case py_eval x of Inr b \<Rightarrow> Inr b
                      | Inl e \<Rightarrow> if catches skipped e then Inr False else Inl e))) of
        Inl e \<Rightarrow> Inl e
      | Inr keep \<Rightarrow>
          (case query_rows py_eval skipped t expr rs of
             Inl e \<Rightarrow> Inl e | Inr found \<Rightarrow> Inr (if keep then r # found else found)))"

definition PySyntaxError :: pyclass where
  "PySyntaxError = ''SyntaxError'' # PyException"
definition PyNameError :: pyclass where
  "PyNameError = ''NameError'' # PyException"

definition query :: "(string \<Rightarrow> bool res) \<Rightarrow> table \<Rightarrow> string \<Rightarrow> table res" where
  "query py_eval t expr =
     (case query_rows py_eval [PySyntaxError, PyNameError, PyValueError] t expr (td_data t) of
        Inl e \<Rightarrow> Inl e | Inr rows \<Rightarrow> table_of rows)"

section \<open>Columns and indexing\<close>

record column_data =
  cd_data :: "cell list"
  cd_name :: string

datatype table_key = KCol string | KBools "bool list" | KIndex int | KSlice "int option" "int option"

datatype table_value = VColumn column_data | VTable table | VRow row

definition table_getitem :: "table \<Rightarrow> table_key \<Rightarrow> table_value res" where
  "table_getitem t key =
     (case key of
        KCol c \<Rightarrow>
          (case map_res (\<lambda>r. get_cell r c) (td_data t) of
             Inl e \<Rightarrow> Inl e | Inr vs \<Rightarrow> Inr (VColumn \<lparr>cd_data = vs, cd_name = c\<rparr>))
      | KBools bs \<Rightarrow>
          if length bs \<noteq> length (td_data t)
          then Raise PyValueError (''Boolean index length doesn'' @ CHR 0x27 # ''t match table length'')
          else map_sum id VTable (table_of (map fst (filter snd (zip (td_data t) bs))))
      | KIndex i \<Rightarrow> map_sum id (\<lambda>j. VRow (td_data t ! j)) (index_of i (td_data t))
      | KSlice lo hi \<Rightarrow>
          (case slice_bounds lo hi (td_data t) of
             (a, b) \<Rightarrow> map_sum id VTable (table_of (take (b - a) (drop a (td_data t))))))"

definition column_unique :: "column_data \<Rightarrow> cell list" where
  "column_unique c = uniq_onto (=) [] (cd_data c)"

definition column_tolist :: "column_data \<Rightarrow> cell list" where
  "column_tolist c = cd_data c"

definition column_count :: "column_data \<Rightarrow> nat" where
  "column_count c = length (filter (\<lambda>v. v \<noteq> CNone) (cd_data c))"

definition column_values_item :: "column_data \<Rightarrow> cell res" where
  "column_values_item c =
     (case cd_data c of
        [v] \<Rightarrow> Inr v
      | [] \<Rightarrow> Raise PyValueError (''Can'' @ CHR 0x27 # ''t call item() on empty data'')
      | _ \<Rightarrow> Raise PyValueError ''Can only call item() on single-element data'')"

definition column_contains :: "column_data \<Rightarrow> string \<Rightarrow> bool list" where
  "column_contains c pattern = map (\<lambda>v. str_in pattern (cell_str v)) (cd_data c)"

section \<open>Replacing\<close>

datatype replacing = RNone | RDict "(string \<times> cell) list" | RValue cell

definition falsy_cell :: "cell \<Rightarrow> bool" where
  "falsy_cell v = (v = CNone \<or> v = CInt 0 \<or> v = CStr [])"

text \<open>\<open>re_sub pattern replacement text\<close> is \<open>re.sub\<close>, whose pattern may be any value.\<close>

definition replace_cell ::
  "(cell \<Rightarrow> cell \<Rightarrow> string \<Rightarrow> string res) \<Rightarrow> replacing \<Rightarrow> cell \<Rightarrow> bool \<Rightarrow> string \<Rightarrow> cell \<Rightarrow> cell res" where
  "replace_cell re_sub to_replace value regex col v =
     (let pattern = (case to_replace of RNone \<Rightarrow> None | RDict d \<Rightarrow> map_of d col
                     | RValue p \<Rightarrow> if p = CNone then None else Some p)
      in case pattern of
           None \<Rightarrow> Inr v
         | Some p \<Rightarrow>
             if regex
             then map_sum id CStr (re_sub p (if falsy_cell value then CStr [] else value) (cell_str v))
             else Inr (if v = p then value else v))"

definition replace_row ::
  "(cell \<Rightarrow> cell \<Rightarrow> string \<Rightarrow> string res) \<Rightarrow> replacing \<Rightarrow> cell \<Rightarrow> bool \<Rightarrow> row \<Rightarrow> row res" where
  "replace_row re_sub to_replace value regex r =
     map_res (\<lambda>(c, v). map_sum id (Pair c) (replace_cell re_sub to_replace value regex c v)) r"

text \<open>In place, the rows before a failing one have been replaced.\<close>

fun replace_rows :: "(row \<Rightarrow> row res) \<Rightarrow> row list \<Rightarrow> unit res \<times> row list" where
  "replace_rows f [] = (Inr (), [])"
| "replace_rows f (r # rs) =
     (case f r of
        Inl e \<Rightarrow> (Inl e, r # rs)
      | Inr r' \<Rightarrow> (case replace_rows f rs of (res, rs') \<Rightarrow> (res, r' # rs')))"

definition replace_inplace ::
  "(cell \<Rightarrow> cell \<Rightarrow> string \<Rightarrow> string res) \<Rightarrow> replacing \<Rightarrow> cell \<Rightarrow> bool \<Rightarrow> (table, unit) act" where
  "replace_inplace re_sub to_replace value regex t =
     (case replace_rows (replace_row re_sub to_replace value regex) (td_data t) of
        (res, rows) \<Rightarrow> (res, t\<lparr>td_data := rows\<rparr>))"

definition replace_copy ::
  "(cell \<Rightarrow> cell \<Rightarrow> string \<Rightarrow> string res) \<Rightarrow> replacing \<Rightarrow> cell \<Rightarrow> bool \<Rightarrow> table \<Rightarrow> table res" where
  "replace_copy re_sub to_replace value regex t =
     (case table_of (td_data t) of
        Inl e \<Rightarrow> Inl e
      | Inr target \<Rightarrow>
          (case replace_inplace re_sub to_replace value regex target of
             (Inl e, _) \<Rightarrow> Inl e | (Inr _, target') \<Rightarrow> Inr target'))"

section \<open>Printing\<close>

fun max_width :: "row list \<Rightarrow> string \<Rightarrow> nat \<Rightarrow> nat res" where
  "max_width [] col w = Inr w"
| "max_width (r # rs) col w =
     (case get_cell r col of Inl e \<Rightarrow> Inl e | Inr v \<Rightarrow> max_width rs col (max w (length (cell_str v))))"

definition to_string :: "table \<Rightarrow> string res" where
  "to_string t =
     (if td_data t = [] then Inr ''Empty TableData''
      else (case map_res (\<lambda>c. max_width (td_data t) c (length c)) (td_schema t) of
              Inl e \<Rightarrow> Inl e
            | Inr ws \<Rightarrow>
                (case map_res (\<lambda>r. map_res (\<lambda>(c, w). map_sum id (\<lambda>v. ljust w (cell_str v)) (get_cell r c))
                                     (zip (td_schema t) ws)) (td_data t) of
                   Inl e \<Rightarrow> Inl e
                 | Inr cells \<Rightarrow>
                     Inr (str_join [CHR 0x0A]
                       (map (str_join ''  '') (map (\<lambda>(c, w). ljust w c) (zip (td_schema t) ws) # cells))))))"

end
