(* ===== verification/Table_Csv.thy ===== *)
theory Table_Csv
  imports Tobiko_TableData
begin

text \<open>
  The tables of \<open>Tobiko_TableData\<close> keep one schema, and the CSV text written for a table of
  texts reads back as the same table.
\<close>

section \<open>One schema for all rows\<close>

definition table_inv :: "table \<Rightarrow> bool" where
  "table_inv t =
     ((\<forall>r \<in> set (td_data t). set (keys r) = set (td_schema t)) \<and> (td_schema t = [] \<longrightarrow> td_data t = []))"

lemma validate_inv:
  assumes "table_inv t" and "validate_item it t = (res, u)"
  shows "table_inv u \<and> td_data u = td_data t \<and>
         (\<forall>r. res = Inr r \<longrightarrow> set (keys r) = set (td_schema u) \<and> td_schema u \<noteq> []) \<and>
         (td_schema t \<noteq> [] \<longrightarrow> td_schema u = td_schema t)"
  using assms by (auto simp: validate_item_def table_inv_def Let_def split: item.splits if_splits)

lemma append_inv:
  assumes "table_inv t" and "table_append it t = (res, u)"
  shows "table_inv u"
proof -
  obtain r v where val: "validate_item it t = (r, v)" by fastforce
  from validate_inv[OF assms(1) val] val assms(2) show ?thesis
    by (cases r) (auto simp: table_append_def table_inv_def)
qed

lemma init_columns_inv: "table_inv t \<Longrightarrow> init_columns cs items t = Inr u \<Longrightarrow> table_inv u"
  by (induction cs items t rule: init_columns.induct) (auto dest: append_inv split: prod.splits sum.splits)

lemma init_dicts_inv: "table_inv t \<Longrightarrow> init_dicts items t = Inr u \<Longrightarrow> table_inv u"
  by (induction items t rule: init_dicts.induct) (auto dest: append_inv split: prod.splits sum.splits)

lemma mk_table_inv:
  assumes "mk_table items cols = Inr t" and "\<And>its. items \<noteq> Some (IDict [] # its)"
  shows "table_inv t"
proof -
  have start: "table_inv \<lparr>td_schema = c # cs, td_data = []\<rparr>" for c cs by (simp add: table_inv_def)
  have first: "table_inv \<lparr>td_schema = keys r, td_data = [r]\<rparr>" if "r \<noteq> []" for r
    using that by (simp add: table_inv_def keys_def)
  show ?thesis
  proof (cases "items = None \<or> items = Some []")
    case True
    with assms(1) show ?thesis by (auto simp: mk_table_def empty_table_def table_inv_def)
  next
    case False
    then obtain it its where items: "items = Some (it # its)" by (cases items) (auto simp: neq_Nil_conv)
    show ?thesis
    proof (cases "cols = None \<or> cols = Some []")
      case True
      with assms(1) items obtain r where r: "it = IDict r" "init_dicts its \<lparr>td_schema = keys r, td_data = [r]\<rparr> = Inr t"
        by (cases it) (auto simp: mk_table_def)
      with assms(2) items have "r \<noteq> []" by auto
      from init_dicts_inv[OF first[OF this] r(2)] show ?thesis .
    next
      case False
      then obtain c cs where "cols = Some (c # cs)" by (cases cols) (auto simp: neq_Nil_conv)
      with assms(1) items init_columns_inv[OF start] show ?thesis by (simp add: mk_table_def)
    qed
  qed
qed

lemma iadd_inv: "table_inv t \<Longrightarrow> table_inv (snd (table_iadd items t))"
  by (induction items t rule: table_iadd.induct) (auto dest: append_inv split: prod.splits sum.splits)

lemma set_insert_at: "set (insert_at i x xs) = insert x (set xs)"
proof -
  obtain j where "insert_at i x xs = take j xs @ [x] @ drop j xs" by (auto simp: insert_at_def Let_def)
  moreover have "set xs = set (take j xs) \<union> set (drop j xs)" by (metis append_take_drop_id set_append)
  ultimately show ?thesis by simp
qed

lemma insert_inv: "table_inv t \<Longrightarrow> table_inv (snd (table_insert i it t))"
proof -
  assume t: "table_inv t"
  obtain res u where v: "validate_item it t = (res, u)" by fastforce
  from validate_inv[OF t v] v show ?thesis
    by (auto simp: table_insert_def table_inv_def set_insert_at split: sum.splits)
qed

lemma setitem_inv: "table_inv t \<Longrightarrow> table_inv (snd (table_setitem i it t))"
proof -
  assume t: "table_inv t"
  obtain res u where v: "validate_item it t = (res, u)" by fastforce
  note V = validate_inv[OF t v]
  show ?thesis
  proof (cases it)
    case (IDict r)
    with V v show ?thesis
      by (cases res) (auto simp: table_setitem_def table_inv_def split: sum.splits
          dest!: set_update_subset_insert[THEN subsetD])
  qed (simp add: table_setitem_def t)
qed

lemma validate_all_inv:
  "table_inv t \<Longrightarrow> map_act validate_item items t = (res, u) \<Longrightarrow>
     table_inv u \<and> (\<forall>rs. res = Inr rs \<longrightarrow> (\<forall>r \<in> set rs. set (keys r) = set (td_schema u)) \<and> (rs \<noteq> [] \<longrightarrow> td_schema u \<noteq> [])) \<and>
     (td_schema t \<noteq> [] \<longrightarrow> td_schema u = td_schema t)"
proof (induction items arbitrary: t res u)
  case (Cons it items)
  obtain r1 t1 where v: "validate_item it t = (r1, t1)" by fastforce
  note V = validate_inv[OF Cons.prems(1) v]
  show ?case
  proof (cases r1)
    case (Inl e)
    with V v Cons.prems show ?thesis by auto
  next
    case (Inr r)
    obtain r2 t2 where m: "map_act validate_item items t1 = (r2, t2)" by fastforce
    from Cons.IH[OF _ m] V Inr v m Cons.prems(2) show ?thesis by (cases r2) auto
  qed
qed auto

lemma setslice_inv: "table_inv t \<Longrightarrow> table_inv (snd (table_setslice lo hi items t))"
proof -
  assume t: "table_inv t"
  obtain res u where v: "map_act validate_item items t = (res, u)" by fastforce
  with validate_all_inv[OF t v] show ?thesis
    by (auto simp: table_setslice_def table_inv_def split: sum.splits prod.splits dest: in_set_takeD in_set_dropD)
qed

lemma columns_inv: "table_inv t \<Longrightarrow> table_inv (snd (set_columns cs t))"
proof -
  assume t: "table_inv t"
  have "set (keys (dict_update [] (zip cs vs))) = set cs" if "length vs = length cs" for vs :: "cell list"
    using that keys_dict_update[of "[]" "zip cs vs"] by (simp add: keys_def flip: set_map)
  moreover have "length vs = length (td_schema t)"
    if "map_res (\<lambda>r. map_res (get_cell r) (td_schema t)) rows = Inr vss" "vs \<in> set vss" for rows vss vs
    using map_res_set[OF that] map_res_length by blast
  ultimately show ?thesis using t
    by (auto simp: set_columns_def table_inv_def split: sum.splits dest: map_res_length)
qed

lemma replace_row_keys: "replace_row f to v rx r = Inr r' \<Longrightarrow> keys r' = keys r"
  unfolding replace_row_def keys_def
  by (induction r arbitrary: r') (auto split: sum.splits simp: map_sum_eq_Inr)

lemma replace_rows_keys:
  "replace_rows (replace_row f to v rx) rs = (res, rs') \<Longrightarrow> map keys rs' = map keys rs"
  by (induction rs arbitrary: rs') (auto split: sum.splits prod.splits dest: replace_row_keys)

lemma replace_inv: "table_inv t \<Longrightarrow> table_inv (snd (replace_inplace f to v rx t))"
proof -
  assume t: "table_inv t"
  obtain res rows where r: "replace_rows (replace_row f to v rx) (td_data t) = (res, rows)" by fastforce
  from replace_rows_keys[OF r] have "keys ` set rows = keys ` set (td_data t)" "rows = [] \<longleftrightarrow> td_data t = []"
    by (metis list.set_map, metis list.map_disc_iff)
  with t r show ?thesis unfolding table_inv_def replace_inplace_def
    by (auto simp: image_iff) (metis imageE imageI)+
qed



section \<open>Writing CSV text\<close>

definition csv_quote :: char where "csv_quote = CHR 0x22"

fun csv_escape :: "string \<Rightarrow> string" where
  "csv_escape [] = []"
| "csv_escape (c # cs) = (if c = csv_quote then [csv_quote, csv_quote] else [c]) @ csv_escape cs"

definition needs_quotes :: "string \<Rightarrow> bool" where
  "needs_quotes f = list_ex (\<lambda>c. c \<in> {CHR '','', csv_quote, CHR 0x0A, CHR 0x0D}) f"

definition csv_field :: "string \<Rightarrow> string" where
  "csv_field f = (if needs_quotes f then csv_quote # csv_escape f @ [csv_quote] else f)"

text \<open>A record of one empty field is written with quotes.\<close>

definition csv_record :: "string list \<Rightarrow> string" where
  "csv_record fs =
     (if fs = [[]] then [csv_quote, csv_quote] else str_join '','' (map csv_field fs)) @ [CHR 0x0D, CHR 0x0A]"

definition csv_cell :: "cell \<Rightarrow> string" where
  "csv_cell v = (if v = CNone then [] else cell_str v)"

definition csv_row :: "string list \<Rightarrow> row \<Rightarrow> string list" where
  "csv_row schema r = map (\<lambda>c. case map_of r c of None \<Rightarrow> [] | Some v \<Rightarrow> csv_cell v) schema"

definition to_csv :: "table \<Rightarrow> string" where
  "to_csv t =
     (if td_schema t \<noteq> [] \<and> td_data t \<noteq> []
      then concat (map csv_record (td_schema t # map (csv_row (td_schema t)) (td_data t)))
      else [])"

section \<open>Reading CSV text\<close>

text \<open>
  The reader of the csv module gets a text line by line and sees an end of line, here None,
  after every line.
\<close>

datatype csv_state = StartRecord | StartField | InField | InQuoted | QuoteInQuoted | EatNewline

fun end_lines :: "string \<Rightarrow> char option list" where
  "end_lines [] = []"
| "end_lines (c # cs) =
     (if c = CHR 0x0A then Some c # None # end_lines cs
      else if cs = [] then [Some c, None] else Some c # end_lines cs)"

definition newline :: "char option \<Rightarrow> bool" where
  "newline c = (c = Some (CHR 0x0A) \<or> c = Some (CHR 0x0D) \<or> c = None)"

definition after_newline :: "char option \<Rightarrow> csv_state" where
  "after_newline c = (if c = None then StartRecord else EatNewline)"

type_synonym csv_config = "csv_state \<times> string \<times> string list"

fun csv_step :: "char \<Rightarrow> csv_config \<Rightarrow> char option \<Rightarrow> csv_config res" where
  "csv_step sep (StartRecord, f, fs) c =
     (case c of
        None \<Rightarrow> Inr (StartRecord, f, fs)
      | Some x \<Rightarrow>
          if newline c then Inr (EatNewline, f, fs)
          else if x = csv_quote then Inr (InQuoted, f, fs)
          else if x = sep then Inr (StartField, [], fs @ [f])
          else Inr (InField, f @ [x], fs))"
| "csv_step sep (StartField, f, fs) c =
     (if newline c then Inr (after_newline c, [], fs @ [f])
      else if c = Some csv_quote then Inr (InQuoted, f, fs)
      else if c = Some sep then Inr (StartField, [], fs @ [f])
      else Inr (InField, f @ [the c], fs))"
| "csv_step sep (InField, f, fs) c =
     (if newline c then Inr (after_newline c, [], fs @ [f])
      else if c = Some sep then Inr (StartField, [], fs @ [f])
      else Inr (InField, f @ [the c], fs))"
| "csv_step sep (InQuoted, f, fs) c =
     (case c of
        None \<Rightarrow> Inr (InQuoted, f, fs)
      | Some x \<Rightarrow> if x = csv_quote then Inr (QuoteInQuoted, f, fs) else Inr (InQuoted, f @ [x], fs))"
| "csv_step sep (QuoteInQuoted, f, fs) c =
     (if newline c then Inr (after_newline c, [], fs @ [f])
      else if c = Some csv_quote then Inr (InQuoted, f @ [csv_quote], fs)
      else if c = Some sep then Inr (StartField, [], fs @ [f])
      else Inr (InField, f @ [the c], fs))"
| "csv_step sep (EatNewline, f, fs) c =
     (if c = None then Inr (StartRecord, f, fs)
      else if newline c then Inr (EatNewline, f, fs)
      else Raise [''Error'', ''Exception'', ''BaseException''] ''new-line character seen in unquoted field'')"

definition add_record :: "string list \<Rightarrow> string list list res \<Rightarrow> string list list res" where
  "add_record r records = (case records of Inl e \<Rightarrow> Inl e | Inr rs \<Rightarrow> Inr (r # rs))"

lemma add_record_Inr [simp]: "add_record r (Inr rs) = Inr (r # rs)"
  by (simp add: add_record_def)

fun csv_records :: "char \<Rightarrow> csv_config \<Rightarrow> char option list \<Rightarrow> string list list res" where
  "csv_records sep (st, f, fs) [] = Inr (if st = InQuoted \<or> f \<noteq> [] then [fs @ [f]] else [])"
| "csv_records sep cfg (c # cs) =
     (case csv_step sep cfg c of
        Inl e \<Rightarrow> Inl e
      | Inr (st, f, fs) \<Rightarrow>
          if c = None \<and> st = StartRecord
          then add_record fs (csv_records sep (StartRecord, [], []) cs)
          else csv_records sep (st, f, fs) cs)"

fun drop_line :: "string \<Rightarrow> string" where
  "drop_line [] = []"
| "drop_line (c # cs) = (if c = CHR 0x0A then cs else drop_line cs)"

fun stream_lines :: "string \<Rightarrow> string \<Rightarrow> string list" where
  "stream_lines cur [] = (if cur = [] then [] else [cur])"
| "stream_lines cur (c # cs) =
     (if c = CHR 0x0A then (cur @ [c]) # stream_lines [] cs else stream_lines (cur @ [c]) cs)"

definition read_whitespace_delimited :: "string \<Rightarrow> string list list" where
  "read_whitespace_delimited s =
     map split_ws (filter (\<lambda>l. l \<noteq> []) (map strip (stream_lines [] s)))"

definition read_multi_char_delimited :: "string \<Rightarrow> string \<Rightarrow> string list list" where
  "read_multi_char_delimited sep s =
     map (split_on sep)
       (filter (\<lambda>l. l \<noteq> []) (map (rstrip_by (\<lambda>c. c = CHR 0x0A \<or> c = CHR 0x0D)) (stream_lines [] s)))"

text \<open>A separator is one character or more.\<close>

definition read_csv_lines :: "nat \<Rightarrow> string \<Rightarrow> bool \<Rightarrow> string \<Rightarrow> string list list res" where
  "read_csv_lines skiprows sep delim_whitespace s =
     (let s = (drop_line ^^ skiprows) s
      in if delim_whitespace then Inr (read_whitespace_delimited s)
         else if 1 < length sep then Inr (read_multi_char_delimited sep s)
         else (case sep of
                 [] \<Rightarrow> Raise PyTypeError ''delimiter must be a 1-character string''
               | c # _ \<Rightarrow> csv_records c (StartRecord, [], []) (end_lines s)))"

definition determine_column_names :: "string list list \<Rightarrow> nat option \<Rightarrow> string list option \<Rightarrow> string list" where
  "determine_column_names lines header columns =
     (case (case header of Some h \<Rightarrow> if h < length lines then Some (lines ! h) else None | None \<Rightarrow> None) of
        Some l \<Rightarrow> l
      | None \<Rightarrow>
          (case columns of
             Some (c # cs) \<Rightarrow> c # cs
           | _ \<Rightarrow> map str_nat [0..<(case lines of [] \<Rightarrow> 0 | l # _ \<Rightarrow> length l)]))"

definition convert_lines_to_rows :: "string list list \<Rightarrow> string list \<Rightarrow> nat option \<Rightarrow> row list" where
  "convert_lines_to_rows lines column_names header =
     (let data_lines = (case header of Some h \<Rightarrow> if h < length lines then drop (Suc h) lines else lines
                        | None \<Rightarrow> lines)
      in map (\<lambda>l. dict_update [] (zip column_names (map CStr l)))
             (filter (\<lambda>l. length column_names \<le> length l) data_lines))"

definition read_csv ::
  "string \<Rightarrow> nat option \<Rightarrow> nat \<Rightarrow> string list option \<Rightarrow> string \<Rightarrow> bool \<Rightarrow> table res" where
  "read_csv s header skiprows columns sep delim_whitespace =
     (case read_csv_lines skiprows sep delim_whitespace s of
        Inl e \<Rightarrow> Inl e
      | Inr lines \<Rightarrow>
          if lines = [] then Inr empty_table
          else table_of (convert_lines_to_rows lines (determine_column_names lines header columns) header))"

section \<open>What is written reads back\<close>

lemma end_lines_Cons: "cs \<noteq> [] \<Longrightarrow> end_lines (c # cs) = (if c = CHR 0x0A then [Some c, None] else [Some c]) @ end_lines cs"
  by simp

text \<open>Inside quotes an escaped field is read as it was, ends of lines included.\<close>

lemma read_escaped:
  "rest \<noteq> [] \<Longrightarrow> csv_records sep (InQuoted, f, fs) (end_lines (csv_escape g @ csv_quote # rest)) =
     csv_records sep (QuoteInQuoted, f @ g, fs) (end_lines rest)"
proof (induction g arbitrary: f)
  case Nil
  then show ?case by (simp add: csv_quote_def)
next
  case (Cons c g)
  have "csv_escape g @ csv_quote # rest \<noteq> []" by simp
  with Cons show ?case by (simp add: csv_quote_def newline_def)
qed

lemma read_plain:
  "\<not> needs_quotes g \<Longrightarrow> rest \<noteq> [] \<Longrightarrow>
     csv_records (CHR '','') (InField, f, fs) (end_lines (g @ rest)) =
     csv_records (CHR '','') (InField, f @ g, fs) (end_lines rest)"
proof (induction g arbitrary: f)
  case (Cons c g)
  then have "g @ rest \<noteq> []" "\<not> needs_quotes g" by (simp_all add: needs_quotes_def)
  with Cons show ?case by (simp add: needs_quotes_def newline_def)
qed simp

text \<open>A field followed by a comma, and the last one followed by the end of the record.\<close>

definition reads_field :: "csv_state \<Rightarrow> bool" where
  "reads_field st = (st = StartRecord \<or> st = StartField)"

lemma read_field_comma:
  assumes "reads_field st" and "rest \<noteq> []"
  shows "csv_records (CHR '','') (st, [], fs) (end_lines (csv_field g @ CHR '','' # rest)) =
         csv_records (CHR '','') (StartField, [], fs @ [g]) (end_lines rest)"
proof (cases "needs_quotes g")
  case True
  then show ?thesis
    using assms read_escaped[of "CHR '','' # rest" "CHR '',''" "[]" fs g]
    by (auto simp: csv_field_def reads_field_def newline_def csv_quote_def)
next
  case False
  then show ?thesis
  proof (cases g)
    case (Cons c cs)
    with False have "\<not> needs_quotes cs" by (simp add: needs_quotes_def)
    from read_plain[OF this, of "CHR '','' # rest" "[c]" fs] False Cons assms show ?thesis
      by (auto simp: csv_field_def reads_field_def newline_def needs_quotes_def csv_quote_def)
  qed (use assms in \<open>auto simp: csv_field_def reads_field_def newline_def csv_quote_def needs_quotes_def\<close>)
qed

lemma csv_records_end:
  "csv_records sep (EatNewline, f, fs) (end_lines (CHR 0x0A # rest)) =
     add_record fs (csv_records sep (StartRecord, [], []) (end_lines rest))"
  by (simp add: newline_def)

lemma read_field_end:
  assumes "reads_field st" and "st = StartField \<or> g \<noteq> []"
  shows "csv_records (CHR '','') (st, [], fs) (end_lines (csv_field g @ CHR 0x0D # CHR 0x0A # rest)) =
         add_record (fs @ [g]) (csv_records (CHR '','') (StartRecord, [], []) (end_lines rest))"
proof (cases "needs_quotes g")
  case True
  then show ?thesis
    using assms read_escaped[of "CHR 0x0D # CHR 0x0A # rest" "CHR '',''" "[]" fs g]
    by (auto simp: csv_field_def reads_field_def newline_def csv_quote_def after_newline_def simp flip: csv_records_end)
next
  case False
  then show ?thesis
  proof (cases g)
    case (Cons c cs)
    with False have "\<not> needs_quotes cs" by (simp add: needs_quotes_def)
    from read_plain[OF this, of "CHR 0x0D # CHR 0x0A # rest" "[c]" fs] False Cons assms show ?thesis
      by (auto simp: csv_field_def reads_field_def newline_def needs_quotes_def csv_quote_def after_newline_def)
  qed (use assms in \<open>auto simp: csv_field_def reads_field_def newline_def csv_quote_def needs_quotes_def after_newline_def\<close>)
qed

lemma read_fields:
  assumes "fs \<noteq> []" and "reads_field st" and "st = StartField \<or> fs \<noteq> [[]]"
  shows "csv_records (CHR '','') (st, [], done') (end_lines (str_join '','' (map csv_field fs) @ CHR 0x0D # CHR 0x0A # rest)) =
         add_record (done' @ fs) (csv_records (CHR '','') (StartRecord, [], []) (end_lines rest))"
  using assms
proof (induction fs arbitrary: st done')
  case (Cons g fs)
  show ?case
  proof (cases fs)
    case Nil
    with Cons.prems read_field_end[of st g done' rest] show ?thesis by simp
  next
    case (Cons h hs)
    have ne: "str_join '','' (map csv_field fs) @ CHR 0x0D # CHR 0x0A # rest \<noteq> []" by simp
    have "str_join '','' (map csv_field (g # fs)) = csv_field g @ '','' @ str_join '','' (map csv_field fs)"
      using Cons by simp
    with read_field_comma[OF Cons.prems(2) ne] Cons.IH[of StartField "done' @ [g]"] Cons show ?thesis
      by (simp add: reads_field_def)
  qed
qed simp

lemma read_record:
  assumes "fs \<noteq> []"
  shows "csv_records (CHR '','') (StartRecord, [], []) (end_lines (csv_record fs @ rest)) =
         add_record fs (csv_records (CHR '','') (StartRecord, [], []) (end_lines rest))"
proof (cases "fs = [[]]")
  case True
  then show ?thesis by (simp add: csv_record_def newline_def csv_quote_def after_newline_def)
next
  case False
  with read_fields[OF assms, of StartRecord "[]" rest] show ?thesis by (simp add: csv_record_def reads_field_def)
qed

lemma read_records:
  "[] \<notin> set rows \<Longrightarrow>
     csv_records (CHR '','') (StartRecord, [], []) (end_lines (concat (map csv_record rows))) = Inr rows"
proof (induction rows)
  case (Cons fs rows)
  then have "fs \<noteq> []" by auto
  from read_record[OF this, of "concat (map csv_record rows)"] Cons show ?case by simp
qed simp

text \<open>A table of texts whose rows have the keys in the order of the schema.\<close>

definition text_table :: "table \<Rightarrow> bool" where
  "text_table t =
     (td_schema t \<noteq> [] \<and> distinct (td_schema t) \<and> td_data t \<noteq> [] \<and>
      (\<forall>r \<in> set (td_data t). keys r = td_schema t \<and> (\<forall>(k, v) \<in> set r. \<exists>s. v = CStr s)))"

lemma csv_row_text:
  assumes "keys r = schema" and "distinct schema" and "\<forall>(k, v) \<in> set r. \<exists>s. v = CStr s"
  shows "map CStr (csv_row schema r) = map snd r"
proof -
  have "map_of r k = Some v" if "(k, v) \<in> set r" for k v
    using that assms(1,2) by (simp add: keys_def)
  with assms(3) have "CStr (case map_of r (fst p) of None \<Rightarrow> [] | Some v \<Rightarrow> csv_cell v) = snd p" if "p \<in> set r" for p
    using that by (cases p) (fastforce simp: csv_cell_def cell_str_def)
  then show ?thesis using assms(1) by (auto simp: csv_row_def keys_def)
qed

lemma dict_update_zip:
  "distinct (map fst r) \<Longrightarrow> fst ` set d \<inter> fst ` set r = {} \<Longrightarrow> dict_update d r = d @ r"
proof (induction r arbitrary: d)
  case (Cons p r)
  obtain k v where p: "p = (k, v)" by fastforce
  have "dict_set d k v = d @ [(k, v)]" using Cons.prems p
    by (induction d) auto
  with Cons p have "dict_update (dict_set d k v) r = (d @ [(k, v)]) @ r"
    by (simp add: Cons.IH)
  with p show ?case by (simp add: dict_update_def)
qed (simp add: dict_update_def)

lemma table_of_rows:
  assumes "rows \<noteq> []" and "schema \<noteq> []" and "\<forall>r \<in> set rows. keys r = schema"
  shows "table_of rows = Inr \<lparr>td_schema = schema, td_data = rows\<rparr>"
proof -
  have dicts: "init_dicts (map IDict rs) \<lparr>td_schema = schema, td_data = d\<rparr>
      = Inr \<lparr>td_schema = schema, td_data = d @ rs\<rparr>" if "\<forall>r \<in> set rs. keys r = schema" for rs d
    using that assms(2) by (induction rs arbitrary: d) (simp_all add: table_append_def validate_item_def)
  obtain r rs where "rows = r # rs" using assms(1) by (cases rows) auto
  with dicts[of rs "[r]"] assms(3) show ?thesis by (simp add: table_of_def mk_table_def)
qed

text \<open>
  Property (C12). A table of texts written by \<open>to_csv\<close> and read by \<open>read_csv\<close>, with its first line
  as the header, is the same table, whatever the texts and the column names hold: commas,
  quotes, ends of lines or nothing.
\<close>
theorem csv_roundtrip:
  assumes "text_table t"
  shows "read_csv (to_csv t) (Some 0) 0 None '','' False = Inr t"
proof -
  let ?rows = "td_schema t # map (csv_row (td_schema t)) (td_data t)"
  have schema: "td_schema t \<noteq> []" "distinct (td_schema t)" "td_data t \<noteq> []" using assms by (simp_all add: text_table_def)
  then have "[] \<notin> set ?rows" by (auto simp: csv_row_def)
  from read_records[OF this] have lines: "read_csv_lines 0 '','' False (to_csv t) = Inr ?rows"
    using schema by (simp add: read_csv_lines_def to_csv_def)
  have row: "dict_update [] (zip (td_schema t) (map CStr (csv_row (td_schema t) r))) = r"
    if "r \<in> set (td_data t)" for r
  proof -
    from that assms have r: "keys r = td_schema t" "\<forall>(k, v) \<in> set r. \<exists>s. v = CStr s"
      by (auto simp: text_table_def)
    have "zip (td_schema t) (map CStr (csv_row (td_schema t) r)) = zip (map fst r) (map snd r)"
      using csv_row_text[OF r(1) schema(2) r(2)] r(1) by (simp add: keys_def)
    then show ?thesis using r(1) schema(2) by (simp add: zip_map_fst_snd dict_update_zip keys_def)
  qed
  have "convert_lines_to_rows ?rows (td_schema t) (Some 0) = td_data t"
    by (simp add: convert_lines_to_rows_def csv_row_def[symmetric] o_def)
      (use row in \<open>auto simp: csv_row_def o_def intro!: map_idI\<close>)
  moreover have "table_of (td_data t) = Inr t"
    using table_of_rows[of "td_data t" "td_schema t"] schema assms by (simp add: text_table_def)
  ultimately show ?thesis
    using lines by (simp add: read_csv_def determine_column_names_def)
qed

lemma csv_roundtrip_witness:
  "read_csv (to_csv \<lparr>td_schema = [''a'', ''b,c''], td_data = [[(''a'', CStr [CHR 0x22, CHR 0x0A]), (''b,c'', CStr [])]]\<rparr>)
     (Some 0) 0 None '','' False
   = Inr \<lparr>td_schema = [''a'', ''b,c''], td_data = [[(''a'', CStr [CHR 0x22, CHR 0x0A]), (''b,c'', CStr [])]]\<rparr>"
  by (rule csv_roundtrip) (simp add: text_table_def keys_def)

end
