(* ===== verification/Tobiko_Shelves.thy ===== *)
theory Tobiko_Shelves
  imports Py_Strings Tobiko_Retry
begin

text \<open>
  tobiko/common/_shelves.py: which test cases use a shared resource, kept in shelf files that
  all the workers of a test run read and write, with retries around the data base errors.

  A shelf maps resources to sets of test case ids. Opening a shelf file may raise and may
  take time; the file is created when it is missing. The lock that serialises the workers
  is left out: an operation is one step of the world.
\<close>

type_synonym shelf = "string \<rightharpoonup> string set"

record shelf_world = world +
  sw_shelves :: "string \<rightharpoonup> shelf"
  sw_files :: "string list"
  sw_run_uid :: "string option"

definition test_run_shelf :: string where "test_run_shelf = ''test_run''"

text \<open>
  \<open>open_shelf path\<close> is \<open>shelve.open\<close>: it raises or returns. \<open>dbm_errors\<close> are the classes of
  \<open>dbm.error\<close>, \<open>shelve_errors\<close> those of \<open>SHELVE_ERRORS\<close>.
\<close>

record 'z shelf_lib =
  open_shelf :: "string \<Rightarrow> ('z shelf_world_scheme, unit) act"
  dbm_errors :: "pyclass list"
  database_errors :: "pyclass list"

definition PyFileNotFoundError :: pyclass where
  "PyFileNotFoundError = ''FileNotFoundError'' # ''OSError'' # PyException"

definition get_shelf_path :: "string \<Rightarrow> string \<Rightarrow> string" where
  "get_shelf_path shelves_dir shelf = shelves_dir @ ''/'' @ shelf"

definition shelf_at :: "'z shelf_world_scheme \<Rightarrow> string \<Rightarrow> shelf" where
  "shelf_at w path = (case sw_shelves w path of None \<Rightarrow> Map.empty | Some db \<Rightarrow> db)"

definition put_shelf :: "string \<Rightarrow> shelf \<Rightarrow> 'z shelf_world_scheme \<Rightarrow> 'z shelf_world_scheme" where
  "put_shelf path db w = w\<lparr>sw_shelves := (sw_shelves w)(path \<mapsto> db)\<rparr>"

definition members :: "shelf \<Rightarrow> string \<Rightarrow> string set" where
  "members db resource = (case db resource of None \<Rightarrow> {} | Some s \<Rightarrow> s)"

text \<open>What the open shelf is changed to, and the value returned.\<close>

definition add_test :: "string \<Rightarrow> string \<Rightarrow> shelf \<Rightarrow> string set \<times> shelf" where
  "add_test resource testcase_id db =
     (let s = insert testcase_id (members db resource) in (s, db(resource \<mapsto> s)))"

definition remove_test :: "string \<Rightarrow> string \<Rightarrow> shelf \<Rightarrow> string set \<times> shelf" where
  "remove_test resource testcase_id db =
     (let s = members db resource - {testcase_id} in (s, db(resource \<mapsto> s)))"

definition remove_everywhere :: "string \<Rightarrow> shelf \<Rightarrow> shelf" where
  "remove_everywhere testcase_id db = (\<lambda>r. map_option (\<lambda>s. s - {testcase_id}) (db r))"

text \<open>One attempt to change a resource of a shelf.\<close>

definition shelf_turn ::
  "'z shelf_lib \<Rightarrow> string \<Rightarrow> (shelf \<Rightarrow> 'a \<times> shelf) \<Rightarrow> retry_attempt \<Rightarrow> ('z shelf_world_scheme, 'a turn) act" where
  "shelf_turn lib path change attempt w =
     (case open_shelf lib path w of
        (Inl e, u) \<Rightarrow>
          if catches (dbm_errors lib) e
          then (case is_last (Some e) attempt of
                  Inl e' \<Rightarrow> (Inl e', u)
                | Inr final \<Rightarrow> if final then (Inl e, u) else (Inr Next, u))
          else (Inl e, u)
      | (Inr _, u) \<Rightarrow> (case change (shelf_at u path) of (a, db) \<Rightarrow> (Inr (Done a), put_shelf path db u)))"

definition shelf_retry :: retry_obj where
  "shelf_retry = retry None None (Some 10) None (Some (1/2)) None None None None"

definition addme_to_shared_resource ::
  "'z shelf_lib \<Rightarrow> string \<Rightarrow> string \<Rightarrow> string \<Rightarrow> string \<Rightarrow> 'z shelf_world_scheme \<Rightarrow>
   (string set res \<times> 'z shelf_world_scheme) option" where
  "addme_to_shared_resource lib shelves_dir testcase_id shelf resource =
     retry_iter py_time py_sleep shelf_retry
       (shelf_turn lib (get_shelf_path shelves_dir shelf) (add_test resource testcase_id))"

definition removeme_from_shared_resource ::
  "'z shelf_lib \<Rightarrow> string \<Rightarrow> string \<Rightarrow> string \<Rightarrow> string \<Rightarrow> 'z shelf_world_scheme \<Rightarrow>
   (string set res \<times> 'z shelf_world_scheme) option" where
  "removeme_from_shared_resource lib shelves_dir testcase_id shelf resource =
     retry_iter py_time py_sleep shelf_retry
       (shelf_turn lib (get_shelf_path shelves_dir shelf) (remove_test resource testcase_id))"

text \<open>
  \<open>remove_test_from_shelf_resources\<close>; the path is a local variable of the loop, kept beside
  the world. The database of an unknown type is tried again without its extension.
\<close>

definition basename :: "string \<Rightarrow> string" where
  "basename path = (case rsplit1 (CHR 0x2F) path of None \<Rightarrow> path | Some (_, b) \<Rightarrow> b)"

definition remove_turn ::
  "'z shelf_lib \<Rightarrow> string \<Rightarrow> retry_attempt \<Rightarrow> ('z shelf_world_scheme \<times> string, unit turn) act" where
  "remove_turn lib testcase_id attempt wp =
     (case open_shelf lib (snd wp) (fst wp) of
        (Inr _, u) \<Rightarrow>
          (Inr (Done ()), (put_shelf (snd wp) (remove_everywhere testcase_id (shelf_at u (snd wp))) u, snd wp))
      | (Inl e, u) \<Rightarrow>
          if catches [PyFileNotFoundError] e then (Inr (Done ()), (u, snd wp))
          else if catches (dbm_errors lib @ database_errors lib) e
          then (if str_in ''db type could not be determined'' (exn_msg e) \<and> CHR ''.'' \<in> set (basename (snd wp))
                then (Inr Next, (u, case rsplit1 (CHR ''.'') (snd wp) of None \<Rightarrow> snd wp | Some (p, _) \<Rightarrow> p))
                else (case is_last (Some e) attempt of
                        Inl e' \<Rightarrow> (Inl e', (u, snd wp))
                      | Inr final \<Rightarrow> (Inr (if final then Done () else Next), (u, snd wp))))
          else (Inl e, (u, snd wp)))"

definition remove_test_from_shelf_resources ::
  "'z shelf_lib \<Rightarrow> string \<Rightarrow> string \<Rightarrow> string \<Rightarrow> 'z shelf_world_scheme \<Rightarrow>
   (unit res \<times> 'z shelf_world_scheme) option" where
  "remove_test_from_shelf_resources lib shelves_dir testcase_id shelf w =
     map_option (\<lambda>(r, wp). (r, fst wp))
       (retry_iter (\<lambda>wp. py_time (fst wp)) (\<lambda>d wp. (py_sleep d (fst wp), snd wp)) shelf_retry
          (remove_turn lib testcase_id) (w, get_shelf_path shelves_dir shelf))"

definition is_resource_shelf :: "string \<Rightarrow> bool" where
  "is_resource_shelf filename =
     (\<not> str_in test_run_shelf filename \<and> \<not> suffix ''-shm'' filename \<and> \<not> suffix ''-wal'' filename \<and>
      \<not> suffix ''-journal'' filename)"

fun remove_from_shelves ::
  "'z shelf_lib \<Rightarrow> string \<Rightarrow> string \<Rightarrow> string list \<Rightarrow> 'z shelf_world_scheme \<Rightarrow>
   (unit res \<times> 'z shelf_world_scheme) option" where
  "remove_from_shelves lib shelves_dir testcase_id [] w = Some (Inr (), w)"
| "remove_from_shelves lib shelves_dir testcase_id (f # fs) w =
     (if is_resource_shelf f
      then (case remove_test_from_shelf_resources lib shelves_dir testcase_id f w of
              None \<Rightarrow> None
            | Some (Inl e, u) \<Rightarrow> Some (Inl e, u)
            | Some (Inr _, u) \<Rightarrow> remove_from_shelves lib shelves_dir testcase_id fs u)
      else remove_from_shelves lib shelves_dir testcase_id fs w)"

text \<open>\<open>dir_exists\<close> is \<open>os.path.isdir\<close> of the shelves directory.\<close>

definition remove_test_from_all_shared_resources ::
  "'z shelf_lib \<Rightarrow> string \<Rightarrow> bool \<Rightarrow> string \<Rightarrow> 'z shelf_world_scheme \<Rightarrow> (unit res \<times> 'z shelf_world_scheme) option" where
  "remove_test_from_all_shared_resources lib shelves_dir dir_exists testcase_id w =
     (if \<not> dir_exists then Some (Inr (), w)
      else remove_from_shelves lib shelves_dir testcase_id (sw_files w) w)"

definition unlink_shelves :: "string \<Rightarrow> 'z shelf_world_scheme \<Rightarrow> 'z shelf_world_scheme" where
  "unlink_shelves shelves_dir w =
     (let gone = filter (\<lambda>f. \<not> str_in test_run_shelf f) (sw_files w)
      in w\<lparr>sw_shelves := (\<lambda>p. if p \<in> get_shelf_path shelves_dir ` set gone then None else sw_shelves w p),
           sw_files := filter (str_in test_run_shelf) (sw_files w)\<rparr>)"

definition initialize_turn ::
  "'z shelf_lib \<Rightarrow> string \<Rightarrow> string option \<Rightarrow> retry_attempt \<Rightarrow> ('z shelf_world_scheme, unit turn) act" where
  "initialize_turn lib shelves_dir test_run_uid attempt w =
     (case open_shelf lib (get_shelf_path shelves_dir test_run_shelf) w of
        (Inl e, u) \<Rightarrow>
          if catches (dbm_errors lib) e
          then (case is_last (Some e) attempt of
                  Inl e' \<Rightarrow> (Inl e', u)
                | Inr final \<Rightarrow> if final then (Inl e, u) else (Inr Next, u))
          else (Inl e, u)
      | (Inr _, u) \<Rightarrow>
          (Inr (Done ()),
           case test_run_uid of
             None \<Rightarrow> unlink_shelves shelves_dir u
           | Some uid \<Rightarrow>
               if sw_run_uid u = Some uid then u
               else unlink_shelves shelves_dir (u\<lparr>sw_run_uid := Some uid\<rparr>)))"

definition initialize_shelves ::
  "'z shelf_lib \<Rightarrow> string \<Rightarrow> string option \<Rightarrow> 'z shelf_world_scheme \<Rightarrow> (unit res \<times> 'z shelf_world_scheme) option" where
  "initialize_shelves lib shelves_dir test_run_uid =
     retry_iter py_time py_sleep (retry None None (Some 15) None (Some (1/2)) None None None None)
       (initialize_turn lib shelves_dir test_run_uid)"

section \<open>Users of a shared resource\<close>

lemma shelf_change_ok:
  assumes "open_shelf lib path w = (Inr (), u)"
  shows "retry_iter py_time py_sleep shelf_retry (shelf_turn lib path change) w =
           Some (Inr (fst (change (shelf_at u path))), put_shelf path (snd (change (shelf_at u path))) u)"
  by (rule retry_iter_first) (simp add: shelf_turn_def assms split: prod.split)

lemma members_put [simp]:
  "members (shelf_at (put_shelf p db w) q) r = (if q = p then members db r else members (shelf_at w q) r)"
  by (simp add: put_shelf_def shelf_at_def)

lemma members_changed [simp]:
  "members (snd (add_test r tc db)) q = (if q = r then insert tc (members db r) else members db q)"
  "members (snd (remove_test r tc db)) q = (if q = r then members db r - {tc} else members db q)"
  "members (remove_everywhere tc db) q = members db q - {tc}"
  "fst (add_test r tc db) = insert tc (members db r)" "fst (remove_test r tc db) = members db r - {tc}"
  by (simp_all add: add_test_def remove_test_def Let_def members_def remove_everywhere_def split: option.split)


definition ready_lib :: "unit shelf_lib" where
  "ready_lib = \<lparr>open_shelf = (\<lambda>p w. (Inr (), w)), dbm_errors = [], database_errors = []\<rparr>"


section \<open>Removing a test case from all resources\<close>

text \<open>
  When the shelves can be opened without other changes, removing a test case from
  all shared resources leaves it in no resource of the listed shelves and changes nothing
  else: the other users stay, and so do the shelf of the test run and unlisted shelves.
\<close>
theorem removed_from_all_resources:
  assumes "\<And>p w. open_shelf lib p w = (Inr (), w)"
  shows "\<exists>v. remove_test_from_all_shared_resources lib d True tc w = Some (Inr (), v) \<and>
           (\<forall>p r. members (shelf_at v p) r =
              (if \<exists>f \<in> set (sw_files w). is_resource_shelf f \<and> p = get_shelf_path d f
               then members (shelf_at w p) r - {tc} else members (shelf_at w p) r))"
proof -
  have one: "remove_test_from_shelf_resources lib d tc f w =
      Some (Inr (), put_shelf (get_shelf_path d f) (remove_everywhere tc (shelf_at w (get_shelf_path d f))) w)" for f w
  proof -
    have "retry_iter (\<lambda>wp. py_time (fst wp)) (\<lambda>d wp. (py_sleep d (fst wp), snd wp)) shelf_retry
          (remove_turn lib tc) (w, get_shelf_path d f)
        = Some (Inr (), (put_shelf (get_shelf_path d f) (remove_everywhere tc (shelf_at w (get_shelf_path d f))) w,
                         get_shelf_path d f))"
      by (rule retry_iter_first) (simp add: remove_turn_def assms)
    then show ?thesis by (simp add: remove_test_from_shelf_resources_def)
  qed
  have "\<exists>v. remove_from_shelves lib d tc fs w = Some (Inr (), v) \<and>
      (\<forall>p r. members (shelf_at v p) r =
         (if \<exists>f \<in> set fs. is_resource_shelf f \<and> p = get_shelf_path d f
          then members (shelf_at w p) r - {tc} else members (shelf_at w p) r))" for fs
  proof (induction fs arbitrary: w)
    case (Cons f fs)
    show ?case
    proof (cases "is_resource_shelf f")
      case True
      let ?u = "put_shelf (get_shelf_path d f) (remove_everywhere tc (shelf_at w (get_shelf_path d f))) w"
      from Cons.IH[of ?u] obtain v where "remove_from_shelves lib d tc fs ?u = Some (Inr (), v)"
        "\<forall>p r. members (shelf_at v p) r =
         (if \<exists>f \<in> set fs. is_resource_shelf f \<and> p = get_shelf_path d f
          then members (shelf_at ?u p) r - {tc} else members (shelf_at ?u p) r)" by blast
      with True show ?thesis by (auto simp: one)
    qed (use Cons.IH[of w] in auto)
  qed simp
  then show ?thesis by (simp add: remove_test_from_all_shared_resources_def)
qed

lemma removed_from_all_resources_witness:
  "\<exists>v. remove_test_from_all_shared_resources ready_lib ''/d'' True ''t1''
         \<lparr>wtime = 0, sw_shelves = [''/d/net'' \<mapsto> [''r'' \<mapsto> {''t1'', ''t2''}]], sw_files = [''net''], sw_run_uid = None\<rparr>
       = Some (Inr (), v) \<and> members (shelf_at v ''/d/net'') ''r'' = {''t2''}"
proof -
  let ?w = "\<lparr>wtime = 0, sw_shelves = [''/d/net'' \<mapsto> [''r'' \<mapsto> {''t1'', ''t2''}]], sw_files = [''net''], sw_run_uid = None\<rparr>"
  have "open_shelf ready_lib p w = (Inr (), w)" for p w by (simp add: ready_lib_def)
  from removed_from_all_resources[OF this, of "''/d''" "''t1''" ?w] obtain v where
    v: "remove_test_from_all_shared_resources ready_lib ''/d'' True ''t1'' ?w = Some (Inr (), v)"
      "\<And>p r. members (shelf_at v p) r =
         (if \<exists>f \<in> set (sw_files ?w). is_resource_shelf f \<and> p = get_shelf_path ''/d'' f
          then members (shelf_at ?w p) r - {''t1''} else members (shelf_at ?w p) r)" by (elim exE conjE) auto
  have "is_resource_shelf ''net''"
    by (simp add: is_resource_shelf_def test_run_shelf_def str_in_def suffix_def Cons_eq_append_conv append_eq_Cons_conv)
  then have "members (shelf_at v ''/d/net'') ''r'' = {''t2''}"
    using v(2)[of "''/d/net''" "''r''"] by (auto simp: get_shelf_path_def members_def shelf_at_def)
  with v(1) show ?thesis by blast
qed

end
