(* ===== verification/Tobiko_Version.thy ===== *)
theory Tobiko_Version
  imports Tobiko_Exceptions
begin

text \<open>
  tobiko/common/_version.py: parsing versions out of texts and checking that a version is in a
  range. The versions of the packaging library are a parameter: what it parses, their
  text and when one is less than another.
\<close>

record 'v version_lib =
  vl_parse :: "string \<Rightarrow> 'v option"
  vl_str :: "'v \<Rightarrow> string"
  vl_less :: "'v \<Rightarrow> 'v \<Rightarrow> bool"

datatype 'v version_arg = VText string | VVersion 'v

definition InvalidVersion :: pyclass where
  "InvalidVersion = ''InvalidVersion'' # TobikoException"
definition VersionMismatch :: pyclass where
  "VersionMismatch = ''VersionMismatch'' # TobikoException"

declare InvalidVersion_def [exn_classes] VersionMismatch_def [exn_classes]

text \<open>\<open>VERSION_PATTERN.search\<close>: three possibly empty runs of digits with dots between them.\<close>

fun version_match_at :: "string \<Rightarrow> string option" where
  "version_match_at s =
     (let a = takeWhile is_digit s; r = drop (length a) s
      in case r of
           [] \<Rightarrow> None
         | c # r' \<Rightarrow>
             if c \<noteq> CHR ''.'' then None
             else (let b = takeWhile is_digit r'; q = drop (length b) r'
                   in case q of
                        [] \<Rightarrow> None
                      | d # q' \<Rightarrow>
                          if d \<noteq> CHR ''.'' then None
                          else Some (a @ ''.'' @ b @ ''.'' @ takeWhile is_digit q')))"

fun version_search :: "string \<Rightarrow> string option" where
  "version_search [] = None"
| "version_search (c # cs) =
     (case version_match_at (c # cs) of Some m \<Rightarrow> Some m | None \<Rightarrow> version_search cs)"

definition show_text :: "string \<Rightarrow> string \<Rightarrow> string res" where
  "show_text v spec = Inr v"

definition parse_version :: "'v version_lib \<Rightarrow> string \<Rightarrow> 'v res" where
  "parse_version V text =
     (let text = (case version_search (strip text) of Some m \<Rightarrow> m | None \<Rightarrow> text)
      in case vl_parse V text of
           Some v \<Rightarrow> Inr v
         | None \<Rightarrow> Inl (raised show_text InvalidVersion ''invalid version: {text}'' [(''text'', text)]))"

definition get_version :: "'v version_lib \<Rightarrow> 'v version_arg \<Rightarrow> 'v res" where
  "get_version V arg = (case arg of VVersion v \<Rightarrow> Inr v | VText s \<Rightarrow> parse_version V s)"

definition arg_text :: "'v version_lib \<Rightarrow> 'v version_arg option \<Rightarrow> string" where
  "arg_text V arg =
     (case arg of None \<Rightarrow> ''None'' | Some (VText s) \<Rightarrow> s | Some (VVersion v) \<Rightarrow> vl_str V v)"

definition mismatch :: "'v version_lib \<Rightarrow> pyclass \<Rightarrow> 'v \<Rightarrow> string \<Rightarrow> exn" where
  "mismatch V mismatch_error actual cause =
     raised show_text mismatch_error ''version mismatch {version} {cause}''
       [(''version'', vl_str V actual), (''cause'', cause)]"

text \<open>
  \<open>check_version\<close>; the cause of both errors is the maximum version, as its argument was
  given when the minimum is checked and as a version when the maximum is.
\<close>

definition check_version ::
  "'v version_lib \<Rightarrow> pyclass \<Rightarrow> 'v version_arg \<Rightarrow> 'v version_arg option \<Rightarrow> 'v version_arg option \<Rightarrow> bool res" where
  "check_version V mismatch_error actual min_version max_version =
     (case get_version V actual of
        Inl e \<Rightarrow> Inl e
      | Inr a \<Rightarrow>
          (case (case min_version of
                   None \<Rightarrow> Inr ()
                 | Some m \<Rightarrow>
                     (case get_version V m of
                        Inl e \<Rightarrow> Inl e
                      | Inr lo \<Rightarrow>
                          if vl_less V a lo
                          then Inl (mismatch V mismatch_error a (''>= '' @ arg_text V max_version))
                          else Inr ())) of
             Inl e \<Rightarrow> Inl e
           | Inr _ \<Rightarrow>
               (case max_version of
                  None \<Rightarrow> Inr True
                | Some m \<Rightarrow>
                    (case get_version V m of
                       Inl e \<Rightarrow> Inl e
                     | Inr hi \<Rightarrow>
                         if \<not> vl_less V a hi
                         then Inl (mismatch V mismatch_error a (''>= '' @ vl_str V hi))
                         else Inr True))))"

definition match_version ::
  "'v version_lib \<Rightarrow> 'v version_arg \<Rightarrow> 'v version_arg option \<Rightarrow> 'v version_arg option \<Rightarrow> bool res" where
  "match_version V actual min_version max_version =
     (case check_version V VersionMismatch actual min_version max_version of
        Inr _ \<Rightarrow> Inr True
      | Inl e \<Rightarrow> if catches [VersionMismatch] e then Inr False else Inl e)"

lemma mismatch_eq:
  "mismatch V c a t = Exn c (''version mismatch '' @ vl_str V a @ '' '' @ t)"
proof -
  have "fmt_parse ''version mismatch {version} {cause}'' =
     Inr (map Lit ''version mismatch '' @ [Field ''version'', Lit (CHR '' ''), Field ''cause''])" by code_simp
  moreover have "field_name ''version'' = ''version''" "field_name ''cause'' = ''cause''" by code_simp+
  ultimately show ?thesis
    by (simp add: mismatch_def raised_def tobiko_exception_def str_format_def fmt_seg_def show_text_def is_digit_def)
qed

text \<open>
  When the texts are versions, \<open>match_version\<close> is true exactly for a version that
  is not less than the minimum and less than the maximum, each bound counting only when it
  is given; and a version below the minimum is reported by \<open>check_version\<close> with the
  maximum version as the cause, or \<open>None\<close> when there is none, never with the minimum.
\<close>
theorem match_version_range:
  assumes "get_version V actual = Inr a" and "get_version V (VText lo) = Inr l"
    and "get_version V (VText hi) = Inr h"
  shows "match_version V actual None None = Inr True \<and>
         match_version V actual (Some (VText lo)) None = Inr (\<not> vl_less V a l) \<and>
         match_version V actual None (Some (VText hi)) = Inr (vl_less V a h) \<and>
         match_version V actual (Some (VText lo)) (Some (VText hi)) = Inr (\<not> vl_less V a l \<and> vl_less V a h) \<and>
         (vl_less V a l \<longrightarrow>
            check_version V c actual (Some (VText lo)) (Some (VText hi)) =
              Raise c (''version mismatch '' @ vl_str V a @ '' >= '' @ hi) \<and>
            check_version V c actual (Some (VText lo)) None =
              Raise c (''version mismatch '' @ vl_str V a @ '' >= None''))"
  using assms
  by (simp add: match_version_def check_version_def mismatch_eq arg_text_def catches_Cons isinstance_exn_def
      issubclass_def exn_classes)

definition nat_versions :: "nat version_lib" where
  "nat_versions = \<lparr>vl_parse = (\<lambda>s. Some (length s)), vl_str = str_nat, vl_less = (<)\<rparr>"

lemma match_version_range_witness:
  "match_version nat_versions (VVersion 2) (Some (VText ''1.22.3'')) (Some (VText ''v 1.22.33-a'')) = Inr False"
proof -
  have "version_search (strip ''1.22.3'') = Some ''1.22.3''" "version_search (strip ''v 1.22.33-a'') = Some ''1.22.33''"
    by code_simp+
  then have "get_version nat_versions (VText ''1.22.3'') = Inr 6" "get_version nat_versions (VText ''v 1.22.33-a'') = Inr 7"
    by (simp_all add: get_version_def parse_version_def nat_versions_def)
  moreover have "get_version nat_versions (VVersion 2) = Inr 2" by (simp add: get_version_def)
  ultimately show ?thesis
    using match_version_range[of nat_versions "VVersion 2" 2] by (simp add: nat_versions_def)
qed

end
