(* ===== verification/Tobiko_Case.thy ===== *)
theory Tobiko_Case
  imports Py_Strings Tobiko_Retry
begin

text \<open>
  tobiko/common/_case.py: the stack of running test cases, running a test inside another one
  with its results forwarded, skipped test cases, failures, and retried test cases.

  Test cases are values of a type parameter, the dummy test case is one of its own. A test
  result is the list of the identities of a result object and of the results it forwards
  to, whose logs are state; unittest itself is a parameter.
\<close>

datatype 'c current_case = Case 'c | Dummy

datatype 'c event =
    StartTest 'c
  | StopTest 'c
  | AddError 'c exn
  | AddFailure 'c exn
  | AddSubTest 'c 'c "exn option"
  | AddSuccess 'c
  | AddSkip 'c string
  | AddExpectedFailure 'c exn
  | AddUnexpectedSuccess 'c

type_synonym result_ref = "nat list"

record 'c case_world = world +
  cw_cases :: "('c \<times> rat) list"
  cw_logs :: "nat \<Rightarrow> 'c event list"
  cw_next :: nat
  cw_outcome :: "'c \<rightharpoonup> result_ref"
  cw_cleanups :: "('c \<times> string) list"

section \<open>The stack of test cases\<close>

text \<open>The stack with its top first.\<close>

definition get_test_case :: "('c, 'z) case_world_scheme \<Rightarrow> 'c current_case" where
  "get_test_case w = (case cw_cases w of [] \<Rightarrow> Dummy | (c, _) # _ \<Rightarrow> Case c)"

definition get_parent_test_case :: "('c, 'z) case_world_scheme \<Rightarrow> 'c option" where
  "get_parent_test_case w = (case cw_cases w of _ # (c, _) # _ \<Rightarrow> Some c | _ \<Rightarrow> None)"

definition push_test_case :: "'c \<Rightarrow> (('c, 'z) case_world_scheme, 'c current_case) act" where
  "push_test_case c w =
     (Inr (get_test_case w), w\<lparr>cw_cases := (c, py_time w) # cw_cases w\<rparr>)"

definition pop_test_case :: "(('c, 'z) case_world_scheme, 'c) act" where
  "pop_test_case w =
     (case cw_cases w of
        [] \<Rightarrow> (Raise PyIndexError ''pop from empty list'', w)
      | (c, _) # cs \<Rightarrow> (Inr c, w\<lparr>cw_cases := cs\<rparr>))"

text \<open>
  \<open>enter_test_case\<close> around a body; \<open>sub_test parent id\<close> is what the \<open>subTest\<close> block of the
  parent makes of the body (the one of the dummy test case leaves it as it is), and
  \<open>cleanup\<close> removes the test from the shared resources.
\<close>

definition enter_test_case ::
  "('c \<Rightarrow> 'c \<Rightarrow> (('c, 'z) case_world_scheme, 'a) act \<Rightarrow> (('c, 'z) case_world_scheme, 'a) act) \<Rightarrow>
   ('c \<Rightarrow> (('c, 'z) case_world_scheme, unit) act) \<Rightarrow> 'c \<Rightarrow>
   (('c, 'z) case_world_scheme, 'a) act \<Rightarrow> (('c, 'z) case_world_scheme, 'a) act" where
  "enter_test_case sub_test cleanup c body w =
     (case push_test_case c w of
        (Inl e, w1) \<Rightarrow> (Inl e, w1)
      | (Inr parent, w1) \<Rightarrow>
          (case (case parent of Dummy \<Rightarrow> body w1 | Case p \<Rightarrow> sub_test p c body w1) of
             (r, w2) \<Rightarrow>
               (case pop_test_case w2 of
                  (Inl e, w3) \<Rightarrow> (Inl e, w3)
                | (Inr popped, w3) \<Rightarrow>
                    if popped \<noteq> c then (Raise PyAssertionError [], w3)
                    else (case cleanup c w3 of (Inl e, w4) \<Rightarrow> (Inl e, w4) | (Inr _, w4) \<Rightarrow> (r, w4)))))"

definition test_case :: "'c current_case option \<Rightarrow> ('c, 'z) case_world_scheme \<Rightarrow> 'c current_case" where
  "test_case c w = (case c of Some t \<Rightarrow> t | None \<Rightarrow> get_test_case w)"

definition get_sub_test_id ::
  "('c \<Rightarrow> string) \<Rightarrow> string \<Rightarrow> ('c \<Rightarrow> 'c option) \<Rightarrow> 'c current_case option \<Rightarrow> ('c, 'z) case_world_scheme \<Rightarrow> string" where
  "get_sub_test_id id_of dummy_id subtest_of c w =
     (case test_case c w of
        Dummy \<Rightarrow> dummy_id
      | Case t \<Rightarrow> (case subtest_of t of None \<Rightarrow> id_of t | Some s \<Rightarrow> id_of s))"

definition test_id :: "('c \<Rightarrow> string) \<Rightarrow> string \<Rightarrow> 'c current_case option \<Rightarrow> ('c, 'z) case_world_scheme \<Rightarrow> string" where
  "test_id id_of dummy_id c w = (case test_case c w of Dummy \<Rightarrow> dummy_id | Case t \<Rightarrow> id_of t)"

section \<open>Results\<close>

definition new_result :: "result_ref \<Rightarrow> (('c, 'z) case_world_scheme, result_ref) act" where
  "new_result forward w =
     (Inr (cw_next w # forward), w\<lparr>cw_next := Suc (cw_next w), cw_logs := (cw_logs w)(cw_next w := [])\<rparr>)"

text \<open>Each method of \<open>ForwardTestResult\<close> records the event and calls the same method of \<open>forward\<close>.\<close>

fun report :: "'c event \<Rightarrow> result_ref \<Rightarrow> ('c, 'z) case_world_scheme \<Rightarrow> ('c, 'z) case_world_scheme" where
  "report ev [] w = w"
| "report ev (i # forward) w =
     report ev forward (w\<lparr>cw_logs := (cw_logs w)(i := cw_logs w i @ [ev])\<rparr>)"

definition get_test_result :: "'c current_case option \<Rightarrow> (('c, 'z) case_world_scheme, result_ref) act" where
  "get_test_result c w =
     (case test_case c w of
        Dummy \<Rightarrow> new_result [] w
      | Case t \<Rightarrow> (case cw_outcome w t of None \<Rightarrow> new_result [] w | Some r \<Rightarrow> (Inr r, w)))"

definition test_result :: "result_ref option \<Rightarrow> 'c current_case option \<Rightarrow> (('c, 'z) case_world_scheme, result_ref) act" where
  "test_result r c w = (case r of Some x \<Rightarrow> (Inr x, w) | None \<Rightarrow> get_test_result c w)"

text \<open>\<open>run\<close> runs the test with a result.\<close>

definition run_test ::
  "(result_ref \<Rightarrow> (('c, 'z) case_world_scheme, unit) act) \<Rightarrow> result_ref option \<Rightarrow> bool \<Rightarrow>
   (('c, 'z) case_world_scheme, result_ref) act" where
  "run_test run r check =
     bindA (case r of
              Some x \<Rightarrow> ret x
            | None \<Rightarrow> if check then bindA (get_test_result None) new_result else new_result [])
       (\<lambda>x. bindA (run x) (\<lambda>_. ret x))"

definition skipped :: "'c event list \<Rightarrow> ('c \<times> string) list" where
  "skipped evs = concat (map (\<lambda>ev. case ev of AddSkip c reason \<Rightarrow> [(c, reason)] | _ \<Rightarrow> []) evs)"

definition get_skipped_test_cases ::
  "string option \<Rightarrow> result_ref option \<Rightarrow> 'c current_case option \<Rightarrow> (('c, 'z) case_world_scheme, 'c list) act" where
  "get_skipped_test_cases skip_reason r c =
     bindA (test_result r c)
       (\<lambda>x w. (Inr (map fst (filter (\<lambda>(_, reason). case skip_reason of None \<Rightarrow> True | Some s \<Rightarrow> str_in s reason)
                            (case x of [] \<Rightarrow> [] | i # _ \<Rightarrow> skipped (cw_logs w i)))), w))"

definition assert_test_case_was_skipped ::
  "'c \<Rightarrow> string option \<Rightarrow> result_ref option \<Rightarrow> 'c current_case option \<Rightarrow> (('c, 'z) case_world_scheme, unit) act" where
  "assert_test_case_was_skipped needle skip_reason r c =
     bindA (get_skipped_test_cases skip_reason r c)
       (\<lambda>cs. if needle \<in> set cs then ret () else raise_act (Exn PyAssertionError ''not found''))"

section \<open>Failures, cleanups and retries\<close>

definition fail :: "('c current_case \<Rightarrow> pyclass) \<Rightarrow> string \<Rightarrow> (('c, 'z) case_world_scheme, 'a) act" where
  "fail failure_exception msg w =
     (let failure_type = failure_exception (get_test_case w)
      in if \<not> issubclass failure_type PyException then (Raise PyAssertionError [], w)
         else (Inl (Exn failure_type msg), w))"

definition add_cleanup :: "string \<Rightarrow> (('c, 'z) case_world_scheme, unit) act" where
  "add_cleanup f w =
     (case get_test_case w of
        Dummy \<Rightarrow> (Inr (), w)
      | Case c \<Rightarrow> (Inr (), w\<lparr>cw_cleanups := (c, f) # cw_cleanups w\<rparr>))"

definition retry_test_case ::
  "pyclass list \<Rightarrow> pyclass list \<Rightarrow> int option \<Rightarrow> rat option \<Rightarrow> rat option \<Rightarrow> rat option \<Rightarrow>
   (retry_attempt \<Rightarrow> (('c, 'z) case_world_scheme, unit) act) \<Rightarrow>
   (('c, 'z) case_world_scheme, 'a) act \<Rightarrow> ('c, 'z) case_world_scheme \<Rightarrow>
   ('a res \<times> ('c, 'z) case_world_scheme) option" where
  "retry_test_case FailureException exceptions count timeout sleep_time interval report_traceback func =
     retry_on_exception py_time py_sleep
       (retry None count timeout sleep_time interval (Some 3) None None None)
       (if exceptions = [] then FailureException else exceptions) (Some report_traceback) func"

section \<open>Properties\<close>


lemma report_logs:
  "distinct r \<Longrightarrow> cw_logs (report ev r w) i = (if i \<in> set r then cw_logs w i @ [ev] else cw_logs w i)"
  by (induction ev r w rule: report.induct) auto

text \<open>
  A test run with \<open>check\<close> inside another test gets a new, empty result that
  forwards to the result of the running test case: every event of the nested test is
  logged, in order, in the new result and in the results it forwards to, and in no other.
\<close>
theorem run_test_forwards:
  assumes "get_test_case w = Case t" and "cw_outcome w t = Some r" and "distinct r"
    and "\<forall>i \<in> set r. i < cw_next w"
  shows "\<exists>u. run_test (\<lambda>x u. (Inr (), fold (\<lambda>ev. report ev x) evs u)) None True w = (Inr (cw_next w # r), u) \<and>
           cw_logs u (cw_next w) = evs \<and>
           (\<forall>i. i \<noteq> cw_next w \<longrightarrow> cw_logs u i = (if i \<in> set r then cw_logs w i @ evs else cw_logs w i))"
proof -
  have logs: "cw_logs (fold (\<lambda>ev. report ev x) evs v) i = (if i \<in> set x then cw_logs v i @ evs else cw_logs v i)"
    if "distinct x" for x i and v :: "('a, 'b) case_world_scheme"
    by (induction evs arbitrary: v) (simp_all add: report_logs[OF that])
  have "distinct (cw_next w # r)" using assms(3,4) by auto
  from logs[OF this] show ?thesis
    using assms by (simp add: run_test_def bindA_def ret_def get_test_result_def test_case_def new_result_def)
qed


lemma run_test_forwards_witness:
  "\<exists>u. run_test (\<lambda>x u. (Inr (), fold (\<lambda>ev. report ev x) [StartTest ''t'', StopTest ''t''] u)) None True
         \<lparr>wtime = 0, cw_cases = [(''p'', 0)], cw_logs = (\<lambda>_. []), cw_next = 1, cw_outcome = [''p'' \<mapsto> [0]],
          cw_cleanups = []\<rparr> = (Inr [1, 0], u) \<and> cw_logs u 0 = [StartTest ''t'', StopTest ''t'']"
proof -
  let ?w = "\<lparr>wtime = 0, cw_cases = [(''p'', 0)], cw_logs = (\<lambda>_. []), cw_next = 1, cw_outcome = [''p'' \<mapsto> [0]],
             cw_cleanups = []\<rparr>"
  let ?evs = "[StartTest ''t'', StopTest ''t'']"
  have p: "get_test_case ?w = Case ''p''" "cw_outcome ?w ''p'' = Some [0]" "distinct [0 :: nat]"
    "\<forall>i \<in> set [0]. i < cw_next ?w"
    by (simp_all add: get_test_case_def)
  obtain u where "run_test (\<lambda>x u. (Inr (), fold (\<lambda>ev. report ev x) ?evs u)) None True ?w = (Inr (cw_next ?w # [0]), u)"
    and "\<forall>i. i \<noteq> cw_next ?w \<longrightarrow> cw_logs u i = (if i \<in> set [0] then cw_logs ?w i @ ?evs else cw_logs ?w i)"
    using run_test_forwards[OF p, of ?evs] by (elim exE conjE) rule
  then show ?thesis by (intro exI[of _ u]) simp
qed

end
