(* ===== verification/Ping_Parameters.thy ===== *)
theory Ping_Parameters
  imports Py_Strings
begin

text \<open>
  tobiko/shell/ping/_parameters.py: the parameters of a ping command, their validation and
  their defaults, the IP version and the sizes of headers and payload. What netaddr makes
  of a text, if it is an address, and Python's \<open>float\<close> of a text are parameters.
\<close>

datatype number = NInt int | NFloat rat | NText string

datatype address = AddrIP int string | AddrName string

text \<open>What a caller may give as an address: an address or a text, or something else.\<close>

datatype address_arg = ArgAddr address | ArgOther string

record ping_params =
  host :: "address option"
  count :: "int option"
  deadline :: "int option"
  fragmentation :: "bool option"
  interval :: "rat option"
  ip_version :: "int option"
  packet_size :: "int option"
  source :: "address option"
  timeout :: "int option"
  network_namespace :: "string option"
  timestamps :: "bool option"

record number_lib =
  float_of :: "string \<Rightarrow> rat res"
  parse_ip :: "string \<Rightarrow> (int \<times> string) option"

definition trunc :: "rat \<Rightarrow> int" where
  "trunc q = (if 0 \<le> q then \<lfloor>q\<rfloor> else \<lceil>q\<rceil>)"

definition to_int :: "number \<Rightarrow> int res" where
  "to_int n = (case n of NInt i \<Rightarrow> Inr i | NFloat q \<Rightarrow> Inr (trunc q) | NText s \<Rightarrow> py_int s)"

definition to_float :: "number_lib \<Rightarrow> number \<Rightarrow> rat res" where
  "to_float N n = (case n of NInt i \<Rightarrow> Inr (of_int i) | NFloat q \<Rightarrow> Inr q | NText s \<Rightarrow> float_of N s)"

text \<open>\<open>get_positive_number\<close>; \<open>default\<close> is the value of the default parameters, when there are any.\<close>

definition get_positive_number ::
  "(number \<Rightarrow> 'n :: linordered_idom res) \<Rightarrow> string \<Rightarrow> number option \<Rightarrow> number option option \<Rightarrow> 'n option res" where
  "get_positive_number converter name v dflt =
     (case (case v of None \<Rightarrow> (case dflt of None \<Rightarrow> None | Some d \<Rightarrow> d) | Some x \<Rightarrow> Some x) of
        None \<Rightarrow> Inr None
      | Some x \<Rightarrow>
          (case converter x of
             Inl e \<Rightarrow> Inl e
           | Inr n \<Rightarrow>
               if n < 0 then Raise PyValueError (str_repr name @ '' value must be zero or greater'')
               else Inr (Some n)))"

definition get_boolean :: "bool option \<Rightarrow> bool option option \<Rightarrow> bool option" where
  "get_boolean v dflt = (case v of None \<Rightarrow> (case dflt of None \<Rightarrow> None | Some d \<Rightarrow> d) | Some b \<Rightarrow> Some b)"

definition get_string :: "string option \<Rightarrow> string option option \<Rightarrow> string option" where
  "get_string v dflt = (case v of None \<Rightarrow> (case dflt of None \<Rightarrow> None | Some d \<Rightarrow> d) | Some s \<Rightarrow> Some s)"

text \<open>
  \<open>netaddr.IPAddress\<close>: a text with a netmask is a \<open>ValueError\<close>, any other text that is no
  address an \<open>AddrFormatError\<close>, which is not a \<open>ValueError\<close>.
\<close>

definition AddrFormatError :: pyclass where
  "AddrFormatError = ''AddrFormatError'' # PyException"

declare AddrFormatError_def [exn_classes]

definition ip_address :: "number_lib \<Rightarrow> string \<Rightarrow> address res" where
  "ip_address N s =
     (case parse_ip N s of
        Some (v, t) \<Rightarrow> Inr (AddrIP v t)
      | None \<Rightarrow> if CHR ''/'' \<in> set s then Raise PyValueError s else Raise AddrFormatError s)"

definition get_address :: "number_lib \<Rightarrow> address_arg option \<Rightarrow> address option option \<Rightarrow> address option res" where
  "get_address N v dflt =
     (case (case v of None \<Rightarrow> (case dflt of None \<Rightarrow> None | Some d \<Rightarrow> map_option ArgAddr d) | Some a \<Rightarrow> Some a) of
        None \<Rightarrow> Inr None
      | Some (ArgAddr (AddrIP ver t)) \<Rightarrow> Inr (Some (AddrIP ver t))
      | Some (ArgAddr (AddrName s)) \<Rightarrow>
          (case ip_address N s of
             Inr a \<Rightarrow> Inr (Some a)
           | Inl e \<Rightarrow> if isinstance_exn e AddrFormatError then Inr (Some (AddrName s)) else Inl e)
      | Some (ArgOther r) \<Rightarrow> Raise PyTypeError (''Object '' @ str_repr r @ '' is not a valid address''))"

text \<open>The keyword arguments of \<open>ping_parameters\<close>.\<close>

record ping_args =
  a_host :: "address_arg option"
  a_count :: "number option"
  a_deadline :: "number option"
  a_fragmentation :: "bool option"
  a_interval :: "number option"
  a_ip_version :: "number option"
  a_packet_size :: "number option"
  a_source :: "address_arg option"
  a_timeout :: "number option"
  a_network_namespace :: "string option"
  a_timestamps :: "bool option"

definition no_args :: ping_args where
  "no_args = \<lparr>a_host = None, a_count = None, a_deadline = None, a_fragmentation = None, a_interval = None,
     a_ip_version = None, a_packet_size = None, a_source = None, a_timeout = None,
     a_network_namespace = None, a_timestamps = None\<rparr>"

definition dflt_int :: "ping_params option \<Rightarrow> (ping_params \<Rightarrow> int option) \<Rightarrow> number option option" where
  "dflt_int d f = map_option (\<lambda>p. map_option NInt (f p)) d"

text \<open>
  \<open>ping_parameters\<close> with the default parameters \<open>d\<close> (None for \<open>default=False\<close>); the fields
  are computed in the order of the code, the first error is raised.
\<close>

definition ping_parameters :: "number_lib \<Rightarrow> ping_params option \<Rightarrow> ping_args \<Rightarrow> ping_params res" where
  "ping_parameters N d a =
     (case get_positive_number to_int ''count'' (a_count a) (dflt_int d count) of Inl e \<Rightarrow> Inl e | Inr c \<Rightarrow>
     (case get_address N (a_host a) (map_option host d) of Inl e \<Rightarrow> Inl e | Inr h \<Rightarrow>
     (case get_positive_number to_int ''deadline'' (a_deadline a) (dflt_int d deadline) of Inl e \<Rightarrow> Inl e | Inr dl \<Rightarrow>
     (case get_positive_number (to_float N) ''interval'' (a_interval a)
             (map_option (\<lambda>p. map_option NFloat (interval p)) d) of Inl e \<Rightarrow> Inl e | Inr i \<Rightarrow>
     (case get_positive_number to_int ''ip_version'' (a_ip_version a) (dflt_int d ip_version) of Inl e \<Rightarrow> Inl e | Inr ver \<Rightarrow>
     (case get_positive_number to_int ''packet_size'' (a_packet_size a) (dflt_int d packet_size) of Inl e \<Rightarrow> Inl e | Inr sz \<Rightarrow>
     (case get_address N (a_source a) (map_option source d) of Inl e \<Rightarrow> Inl e | Inr src \<Rightarrow>
     (case get_positive_number to_int ''timeout'' (a_timeout a) (dflt_int d timeout) of Inl e \<Rightarrow> Inl e | Inr t \<Rightarrow>
       Inr \<lparr>host = h, count = c, deadline = dl,
            fragmentation = get_boolean (a_fragmentation a) (map_option fragmentation d),
            interval = i, ip_version = ver, packet_size = sz, source = src, timeout = t,
            network_namespace = get_string (a_network_namespace a) (map_option network_namespace d),
            timestamps = get_boolean (a_timestamps a) (map_option timestamps d)\<rparr>))))))))"

text \<open>\<open>conf\<close> holds the options of the configuration.\<close>

definition default_ping_parameters :: "number_lib \<Rightarrow> ping_args \<Rightarrow> ping_params res" where
  "default_ping_parameters N conf =
     ping_parameters N None
       (no_args\<lparr>a_count := a_count conf, a_deadline := a_deadline conf, a_fragmentation := a_fragmentation conf,
                a_interval := a_interval conf, a_packet_size := a_packet_size conf, a_timeout := a_timeout conf,
                a_timestamps := a_timestamps conf\<rparr>)"

text \<open>\<open>args\<close> None are no keyword arguments at all.\<close>

definition get_ping_parameters ::
  "number_lib \<Rightarrow> ping_args \<Rightarrow> ping_params option \<Rightarrow> ping_args option \<Rightarrow> ping_params res" where
  "get_ping_parameters N conf d args =
     (case (d, args) of
        (Some p, None) \<Rightarrow> Inr p
      | (Some p, Some a) \<Rightarrow> ping_parameters N (Some p) a
      | (None, _) \<Rightarrow>
          (case default_ping_parameters N conf of
             Inl e \<Rightarrow> Inl e
           | Inr p \<Rightarrow> ping_parameters N (Some p) (case args of None \<Rightarrow> no_args | Some a \<Rightarrow> a)))"

section \<open>IP version and sizes\<close>

fun version_of_addresses :: "int option \<Rightarrow> address option list \<Rightarrow> int option res" where
  "version_of_addresses v [] = Inr v"
| "version_of_addresses v (Some (AddrIP ver t) # as) =
     (if v \<noteq> Some ver
      then (if v \<noteq> None \<and> v \<noteq> Some 0
            then Raise PyValueError (t @ '' address IP version is not '' @ str_int (the v))
            else version_of_addresses (Some ver) as)
      else version_of_addresses v as)"
| "version_of_addresses v (a # as) = version_of_addresses v as"

definition get_ping_ip_version :: "ping_params \<Rightarrow> int option res" where
  "get_ping_ip_version p =
     (case ip_version p of
        Some v \<Rightarrow>
          if v \<noteq> 4 \<and> v \<noteq> 6 then Raise PyValueError (''Invalid IP version: '' @ str_int v)
          else version_of_addresses (Some v) [host p, source p]
      | None \<Rightarrow> version_of_addresses None [host p, source p])"

definition ip_header_size :: "int \<rightharpoonup> int" where
  "ip_header_size = [4 \<mapsto> 20, 6 \<mapsto> 40]"

definition icmp_header_size :: "int \<rightharpoonup> int" where
  "icmp_header_size = [4 \<mapsto> 8, 6 \<mapsto> 4]"

definition get_ping_header_size :: "ping_params \<Rightarrow> int res" where
  "get_ping_header_size p =
     (case get_ping_ip_version p of
        Inl e \<Rightarrow> Inl e
      | Inr None \<Rightarrow> Raise PyValueError (''can'' @ CHR 0x27 # ''t get ICMP header size without knowing IP version'')
      | Inr (Some v) \<Rightarrow>
          (case (ip_header_size v, icmp_header_size v) of
             (Some a, Some b) \<Rightarrow> Inr (a + b)
           | _ \<Rightarrow> Raise PyValueError (''Invalid IP version: '' @ str_int v)))"

definition get_ping_payload_size :: "ping_params \<Rightarrow> int option res" where
  "get_ping_payload_size p =
     (case packet_size p of
        None \<Rightarrow> Inr None
      | Some psize \<Rightarrow>
          (case get_ping_header_size p of
             Inl e \<Rightarrow> Inl e
           | Inr header \<Rightarrow>
               if psize < header
               then Raise PyValueError (''packet size '' @ str_int psize @ '' can'' @ CHR 0x27 #
                      ''t be smaller than header size '' @ str_int header)
               else Inr (Some (psize - header))))"

section \<open>Valid parameters\<close>

definition address_ok :: "number_lib \<Rightarrow> address option \<Rightarrow> bool" where
  "address_ok N a = (case a of Some (AddrName s) \<Rightarrow> parse_ip N s = None \<and> CHR ''/'' \<notin> set s | _ \<Rightarrow> True)"

definition nonneg :: "'n :: linordered_idom option \<Rightarrow> bool" where
  "nonneg v = (case v of None \<Rightarrow> True | Some n \<Rightarrow> 0 \<le> n)"

definition params_ok :: "number_lib \<Rightarrow> ping_params \<Rightarrow> bool" where
  "params_ok N p =
     (nonneg (count p) \<and> nonneg (deadline p) \<and> nonneg (interval p) \<and> nonneg (ip_version p) \<and>
      nonneg (packet_size p) \<and> nonneg (timeout p) \<and> address_ok N (host p) \<and> address_ok N (source p))"

lemma get_positive_nonneg: "get_positive_number c name v d = Inr r \<Longrightarrow> nonneg r"
  by (auto simp: get_positive_number_def nonneg_def split: option.splits sum.splits if_splits)

lemma get_address_ok: "get_address N v d = Inr r \<Longrightarrow> address_ok N r"
  by (auto simp: get_address_def address_ok_def ip_address_def isinstance_exn_def issubclass_def exn_classes
      split: option.splits address_arg.splits address.splits sum.splits if_splits)

lemma get_positive_default:
  assumes "nonneg v" and "\<And>x. v = Some x \<Longrightarrow> c (f x) = Inr x"
  shows "get_positive_number c name None (Some (map_option f v)) = Inr v"
  using assms by (auto simp: get_positive_number_def nonneg_def split: option.splits)

lemma get_address_default: "address_ok N a \<Longrightarrow> get_address N None (Some a) = Inr a"
  by (auto simp: ip_address_def isinstance_exn_def issubclass_def exn_classes get_address_def address_ok_def split: option.splits address.splits)

text \<open>
  Parameters are valid once they are made: no number is negative and no name is
  an address; and parameters made with valid ones as the default and nothing else are the
  default, while every number, flag and name that is given takes the place of the default.
\<close>
theorem ping_parameters_valid:
  "(ping_parameters N d a = Inr p \<longrightarrow> params_ok N p) \<and>
   (params_ok N q \<longrightarrow> ping_parameters N (Some q) no_args = Inr q) \<and>
   (params_ok N q \<and> 0 \<le> c \<longrightarrow> ping_parameters N (Some q) (no_args\<lparr>a_count := Some (NInt c)\<rparr>) = Inr (q\<lparr>count := Some c\<rparr>))"
proof (intro conjI impI)
  show "params_ok N p" if "ping_parameters N d a = Inr p"
    using that unfolding ping_parameters_def
    by (auto simp: params_ok_def dest: get_positive_nonneg get_address_ok split: sum.splits)
  have int: "get_positive_number to_int name None (Some (map_option NInt v)) = Inr v" if "nonneg v" for name v
    using that by (rule get_positive_default) (simp add: to_int_def)
  have flt: "get_positive_number (to_float N) name None (Some (map_option NFloat v)) = Inr v" if "nonneg v" for name v
    using that by (rule get_positive_default) (simp add: to_float_def)
  have given: "get_positive_number to_int name (Some (NInt c)) e = Inr (Some c)" if "0 \<le> c" for name e
    using that by (simp add: get_positive_number_def to_int_def)
  show "ping_parameters N (Some q) no_args = Inr q" if "params_ok N q"
    using that
    by (simp add: params_ok_def ping_parameters_def no_args_def dflt_int_def int flt get_address_default
        get_boolean_def get_string_def)
  show "ping_parameters N (Some q) (no_args\<lparr>a_count := Some (NInt c)\<rparr>) = Inr (q\<lparr>count := Some c\<rparr>)"
    if "params_ok N q \<and> 0 \<le> c"
    using that
    by (simp add: params_ok_def ping_parameters_def no_args_def dflt_int_def int flt get_address_default
        get_boolean_def get_string_def given)
qed

definition demo_lib :: number_lib where
  "demo_lib = \<lparr>float_of = (\<lambda>_. Raise PyValueError []), parse_ip = (\<lambda>s. if s = ''10.0.0.1'' then Some (4, s) else None)\<rparr>"

definition demo_params :: ping_params where
  "demo_params = \<lparr>host = Some (AddrIP 4 ''10.0.0.1''), count = Some 1, deadline = Some 5, fragmentation = None,
     interval = Some 1, ip_version = None, packet_size = Some 100, source = None, timeout = Some 300,
     network_namespace = None, timestamps = None\<rparr>"

lemma ping_parameters_valid_witness:
  "ping_parameters demo_lib (Some demo_params) (no_args\<lparr>a_count := Some (NInt 7)\<rparr>) = Inr (demo_params\<lparr>count := Some 7\<rparr>)"
  by (rule ping_parameters_valid[THEN conjunct2, THEN conjunct2, THEN mp])
    (simp add: params_ok_def nonneg_def address_ok_def demo_params_def)

lemma version_of_addresses_all:
  "version_of_addresses v as = Inr r \<Longrightarrow>
     (v \<noteq> None \<and> v \<noteq> Some 0 \<longrightarrow> r = v) \<and> (\<forall>a t. Some (AddrIP a t) \<in> set as \<and> a \<noteq> 0 \<longrightarrow> r = Some a)"
proof (induction as arbitrary: v)
  case (Cons a as)
  show ?case
  proof (cases "\<exists>ver t. a = Some (AddrIP ver t)")
    case True
    then obtain ver t where a: "a = Some (AddrIP ver t)" by blast
    show ?thesis
    proof (cases "v = Some ver")
      case True
      with Cons.prems a have "version_of_addresses v as = Inr r" by simp
      from Cons.IH[OF this] True a show ?thesis by auto
    next
      case False
      with Cons.prems a have v: "v = None \<or> v = Some 0" "version_of_addresses (Some ver) as = Inr r"
        by (simp_all split: if_splits)
      from Cons.IH[OF v(2)] v(1) a show ?thesis by auto
    qed
  next
    case False
    with Cons.prems have "version_of_addresses v as = Inr r"
      by (cases a) (simp, metis address.exhaust version_of_addresses.simps(4))
    from Cons.IH[OF this] False show ?thesis by (metis set_ConsD)
  qed
qed simp

text \<open>
  The payload that \<open>get_ping_payload_size\<close> asks for and the headers of the IP
  version add up to the packet size; a packet smaller than its headers, an unknown version
  or addresses of different versions are errors, so that no payload is negative.
\<close>
theorem payload_and_headers:
  assumes "get_ping_payload_size p = Inr (Some n)"
  shows "0 \<le> n \<and> (\<exists>v h. get_ping_ip_version p = Inr (Some v) \<and> (v = 4 \<and> h = 28 \<or> v = 6 \<and> h = 44) \<and>
           packet_size p = Some (n + h)) \<and>
         (\<forall>a t. a \<noteq> 0 \<and> (host p = Some (AddrIP a t) \<or> source p = Some (AddrIP a t)) \<longrightarrow>
            get_ping_ip_version p = Inr (Some a))"
proof -
  from assms obtain v psize where v: "get_ping_ip_version p = Inr (Some v)" and psize: "packet_size p = Some psize"
    and h: "get_ping_header_size p = Inr (psize - n)" "n \<ge> 0"
    by (auto simp: get_ping_payload_size_def get_ping_header_size_def split: option.splits sum.splits if_splits)
  have "v = 4 \<and> psize - n = 28 \<or> v = 6 \<and> psize - n = 44"
    using h(1) v by (auto simp: get_ping_header_size_def ip_header_size_def icmp_header_size_def split: if_splits)
  moreover have "v = a" if "a \<noteq> 0" "host p = Some (AddrIP a t) \<or> source p = Some (AddrIP a t)" for a t
  proof -
    obtain w where w: "version_of_addresses w [host p, source p] = Inr (Some v)"
      using v by (auto simp: get_ping_ip_version_def split: option.splits if_splits)
    have "Some (AddrIP a t) \<in> set [host p, source p]" using that(2) by auto
    with version_of_addresses_all[OF w] that(1) have "Some v = Some a" by blast
    then show ?thesis by simp
  qed
  ultimately show ?thesis using v psize h(2) by auto
qed

lemma payload_and_headers_witness:
  "get_ping_payload_size demo_params = Inr (Some 72) \<and> get_ping_ip_version demo_params = Inr (Some 4)"
proof -
  have p: "get_ping_payload_size demo_params = Inr (Some 72)"
    by (simp add: get_ping_payload_size_def get_ping_header_size_def get_ping_ip_version_def demo_params_def
        ip_header_size_def icmp_header_size_def)
  moreover have "get_ping_ip_version demo_params = Inr (Some 4)"
    using payload_and_headers[OF p] by (simp add: demo_params_def)
  ultimately show ?thesis by simp
qed

end
