(* ===== verification/Ping_Statistics.thy ===== *)
theory Ping_Statistics
  imports Ping_Parameters
begin

text \<open>
  tobiko/shell/ping/_statistics.py: reading the header and the footer of the output of ping,
  and the counters of messages. Times are rational numbers of seconds, the loss is exact.
\<close>

record ping_statistics =
  st_source :: "address option"
  st_destination :: "address option"
  transmitted :: int
  received :: int
  undelivered :: int
  begin_interval :: "rat option"
  end_interval :: "rat option"

definition no_statistics :: ping_statistics where
  "no_statistics = \<lparr>st_source = None, st_destination = None, transmitted = 0, received = 0, undelivered = 0,
     begin_interval = None, end_interval = None\<rparr>"

section \<open>Reading the output\<close>

text \<open>\<open>netaddr.IPAddress(text)\<close>, which raises for a text that is no address.\<close>

definition strip_colon :: "string \<Rightarrow> string" where
  "strip_colon f = (if suffix '':'' f then butlast f else f)"

fun source_field :: "number_lib \<Rightarrow> string list \<Rightarrow> address option res" where
  "source_field N [] = Inr None"
| "source_field N (f # fs) =
     (if f = ''from''
      then (case fs of
              [] \<Rightarrow> Raise PyStopIteration []
            | s # _ \<Rightarrow> map_sum id Some (ip_address N (strip_colon (strip s))))
      else source_field N fs)"

definition header_addresses :: "number_lib \<Rightarrow> string \<Rightarrow> (address option \<times> address) res" where
  "header_addresses N header =
     (let fields = map strip_colon (map strip (split_ws header))
      in if length fields \<le> 2 then Raise PyIndexError ''list index out of range''
         else (let d = rstrip_by (\<lambda>c. c = CHR '')'') (lstrip_by (\<lambda>c. c = CHR ''('') (fields ! 2))
               in case ip_address N d of
                    Inl e \<Rightarrow> Inl e
                  | Inr dest \<Rightarrow>
                      (case source_field N (drop 3 fields) of Inl e \<Rightarrow> Inl e | Inr src \<Rightarrow> Inr (src, dest))))"

text \<open>Both parsers also return the lines that are left in the iterator.\<close>

fun parse_ping_header :: "number_lib \<Rightarrow> string list \<Rightarrow> (address option \<times> address) res \<times> string list" where
  "parse_ping_header N [] = (Raise PyValueError ''Ping output header not found'', [])"
| "parse_ping_header N (l # ls) =
     (if prefix ''PING '' l then (header_addresses N l, ls) else parse_ping_header N ls)"

definition extract_integer :: "string \<Rightarrow> int res" where
  "extract_integer field =
     (let digits = takeWhile is_digit (dropWhile (\<lambda>c. \<not> is_digit c) field)
      in if digits = [] then Raise PyValueError (''Integer not found in '' @ str_repr field)
         else Inr (int (nat_of_digits digits)))"

fun footer_fields :: "string list \<Rightarrow> int \<times> int \<times> int \<Rightarrow> int \<times> int \<times> int" where
  "footer_fields [] c = c"
| "footer_fields (f # fs) (t, r, u) =
     footer_fields fs
       (case extract_integer f of
          Inl _ \<Rightarrow> (t, r, u)
        | Inr n \<Rightarrow>
            if str_in ''transmitted'' f then (n, r, u)
            else if str_in ''received'' f then (t, n, u)
            else if str_in ''error'' f then (t, r, n)
            else (t, r, u))"

fun parse_ping_footer :: "string list \<Rightarrow> (int \<times> int \<times> int) res" where
  "parse_ping_footer [] = Raise PyValueError ''Ping output footer not found''"
| "parse_ping_footer (l # ls) =
     (if prefix ''--- '' l \<and> suffix '' ping statistics ---'' l
      then (case ls of
              [] \<Rightarrow> Raise PyStopIteration []
            | footer # _ \<Rightarrow> Inr (footer_fields (split_on '','' (strip footer)) (0, 0, 0)))
      else parse_ping_footer ls)"

definition parse_ping_statistics :: "number_lib \<Rightarrow> string \<Rightarrow> rat option \<Rightarrow> rat option \<Rightarrow> ping_statistics" where
  "parse_ping_statistics N output begin_int end_int =
     (case parse_ping_header N (split_on [CHR 0x0A] output) of
        (header, ls) \<Rightarrow>
          (let (src, dest) = (case header of Inl _ \<Rightarrow> (None, None) | Inr (s, d) \<Rightarrow> (s, Some d));
               (t, r, u) = (case parse_ping_footer ls of Inl _ \<Rightarrow> (0, 0, 0) | Inr c \<Rightarrow> c)
           in \<lparr>st_source = src, st_destination = dest, transmitted = t, received = r, undelivered = u,
               begin_interval = begin_int, end_interval = end_int\<rparr>))"

section \<open>Counters\<close>

definition unreceived :: "ping_statistics \<Rightarrow> int" where
  "unreceived s = max 0 (transmitted s - received s)"

definition delivered :: "ping_statistics \<Rightarrow> int" where
  "delivered s = max 0 (transmitted s - undelivered s)"

definition loss :: "ping_statistics \<Rightarrow> rat" where
  "loss s = (if 0 < transmitted s then of_int (unreceived s) / of_int (transmitted s) else 0)"

definition statistics_bool :: "ping_statistics \<Rightarrow> bool" where
  "statistics_bool s = (received s \<noteq> 0)"

text \<open>The earliest begin and the latest end of those that are set and not zero.\<close>

definition set_times :: "rat option \<Rightarrow> rat option \<Rightarrow> rat list" where
  "set_times a b = concat (map (\<lambda>x. case x of None \<Rightarrow> [] | Some t \<Rightarrow> if t = 0 then [] else [t]) [a, b])"

definition time_of :: "(rat \<Rightarrow> rat \<Rightarrow> rat) \<Rightarrow> string \<Rightarrow> rat list \<Rightarrow> rat res" where
  "time_of f name ts =
     (case ts of [] \<Rightarrow> Raise PyValueError (name @ ''() arg is an empty sequence'') | t # us \<Rightarrow> Inr (foldl f t us))"

text \<open>\<open>x or y\<close> of two addresses: \<open>nz\<close> is netaddr's truth value of an address.\<close>

definition address_or :: "(address \<Rightarrow> bool) \<Rightarrow> address option \<Rightarrow> address option \<Rightarrow> address option" where
  "address_or nz a b = (case a of Some x \<Rightarrow> if nz x then a else b | None \<Rightarrow> b)"

definition statistics_add :: "(address \<Rightarrow> bool) \<Rightarrow> ping_statistics \<Rightarrow> ping_statistics \<Rightarrow> ping_statistics res" where
  "statistics_add nz a b =
     (case time_of min ''min'' (set_times (begin_interval a) (begin_interval b)) of
        Inl e \<Rightarrow> Inl e
      | Inr t0 \<Rightarrow>
          (case time_of max ''max'' (set_times (end_interval a) (end_interval b)) of
             Inl e \<Rightarrow> Inl e
           | Inr t1 \<Rightarrow>
               Inr \<lparr>st_source = address_or nz (st_source a) (st_source b),
                    st_destination = address_or nz (st_destination a) (st_destination b),
                    transmitted = transmitted a + transmitted b, received = received a + received b,
                    undelivered = undelivered a + undelivered b,
                    begin_interval = Some t0, end_interval = Some t1\<rparr>))"

text \<open>The assertions fail the running test case with a message about \<open>dest\<close>.\<close>

definition check_count :: "pyclass \<Rightarrow> bool \<Rightarrow> int \<Rightarrow> string \<Rightarrow> unit res" where
  "check_count failure_type ok n text = (if ok then Inr () else Raise failure_type (str_int n @ text))"

definition assert_transmitted :: "pyclass \<Rightarrow> string \<Rightarrow> ping_statistics \<Rightarrow> unit res" where
  "assert_transmitted ft dest s =
     check_count ft (transmitted s \<noteq> 0) (transmitted s) ('' package(s) has been transmitted to '' @ dest)"

definition assert_not_transmitted :: "pyclass \<Rightarrow> string \<Rightarrow> ping_statistics \<Rightarrow> unit res" where
  "assert_not_transmitted ft dest s =
     check_count ft (transmitted s = 0) (transmitted s) ('' package(s) has been transmitted to '' @ dest)"

definition assert_replied :: "pyclass \<Rightarrow> string \<Rightarrow> ping_statistics \<Rightarrow> unit res" where
  "assert_replied ft dest s =
     check_count ft (received s \<noteq> 0) (received s) ('' reply package(s) has been received from '' @ dest)"

definition assert_not_replied :: "pyclass \<Rightarrow> string \<Rightarrow> ping_statistics \<Rightarrow> unit res" where
  "assert_not_replied ft dest s =
     check_count ft (received s = 0) (received s) ('' reply package(s) has been received from '' @ dest)"

section \<open>Properties\<close>

lemma digits_str_nat: "takeWhile is_digit (dropWhile (\<lambda>c. \<not> is_digit c) (str_nat n @ w)) = str_nat n @ takeWhile is_digit w"
proof -
  have d: "\<forall>c \<in> set (str_nat n). is_digit c" using str_nat_chars[of _ n] digit_char(1) by auto
  have "dropWhile (\<lambda>c. \<not> is_digit c) (str_nat n @ w) = str_nat n @ w"
    using d str_nat_nonempty[of n] by (cases "str_nat n") auto
  with d show ?thesis by (simp add: takeWhile_append2)
qed

lemma extract_str_nat:
  "w = [] \<or> \<not> is_digit (hd w) \<Longrightarrow> extract_integer (str_nat n @ w) = Inr (int n)"
proof -
  assume "w = [] \<or> \<not> is_digit (hd w)"
  then have "takeWhile is_digit w = []" by (cases w) auto
  with digits_str_nat[of n w] str_nat_nonempty[of n] show ?thesis
    by (simp add: extract_integer_def nat_of_digits_str_nat)
qed

lemma extract_skip:
  "\<not> is_digit c \<Longrightarrow> (extract_integer (c # s) = Inr n) = (extract_integer s = Inr n)"
  unfolding extract_integer_def by (auto simp: Let_def split: if_splits)

text \<open>A footer as ping prints it.\<close>

definition footer_line :: "nat \<Rightarrow> nat \<Rightarrow> nat \<Rightarrow> string" where
  "footer_line t r u =
     str_nat t @ '' packets transmitted, '' @ str_nat r @ '' received, +'' @ str_nat u @ '' errors, time 0ms''"

lemma comma_str_nat: "CHR '','' \<notin> set (str_nat n)"
proof
  assume "CHR '','' \<in> set (str_nat n)"
  then obtain d :: nat where "d < 10" "CHR '','' = char_of (48 + d)" using str_nat_chars by blast
  then have "is_digit (CHR '','')" using digit_char(1)[of d] by simp
  then show False by (simp add: is_digit_def)
qed

lemma comma_text:
  "CHR '','' \<notin> set '' packets transmitted''" "CHR '','' \<notin> set '' received''" "CHR '','' \<notin> set '' errors''"
  by simp_all

lemma footer_split:
  "split_on '','' (footer_line t r u) =
     [str_nat t @ '' packets transmitted'', CHR '' '' # str_nat r @ '' received'',
      CHR '' '' # CHR ''+'' # str_nat u @ '' errors'', '' time 0ms'']"
proof -
  let ?xs = "[str_nat t @ '' packets transmitted'', CHR '' '' # str_nat r @ '' received'',
      CHR '' '' # CHR ''+'' # str_nat u @ '' errors'', '' time 0ms'']"
  have "footer_line t r u = str_join '','' ?xs" by (simp add: footer_line_def)
  moreover have "\<forall>x \<in> set ?xs. CHR '','' \<notin> set x" by (simp add: comma_str_nat)
  ultimately show ?thesis using split_on_join[of ?xs "CHR '',''"] by simp
qed

lemma not_digit_char: "\<not> is_digit x \<Longrightarrow> \<forall>c \<in> set (str_nat n). c \<noteq> x"
  using str_nat_chars digit_char(1) by metis

lemma str_in_number:
  "p \<noteq> [] \<Longrightarrow> \<not> is_digit (hd p) \<Longrightarrow> str_in p (str_nat n @ w) = str_in p w"
  using str_in_skip not_digit_char by blast

lemma str_in_Cons: "p \<noteq> [] \<Longrightarrow> c \<noteq> hd p \<Longrightarrow> str_in p (c # w) = str_in p w"
  using str_in_skip[of p "[c]" w] by simp

lemma strip_footer: "strip (footer_line t r u) = footer_line t r u"
proof -
  have "\<not> py_space (hd (str_nat t))"
    using str_nat_chars[of "hd (str_nat t)" t] str_nat_nonempty[of t] digit_char(3) by auto
  then have "\<not> py_space (hd (footer_line t r u))" using str_nat_nonempty[of t] by (cases "str_nat t") (simp_all add: footer_line_def)
  moreover have "\<not> py_space (List.last (footer_line t r u))" by (simp add: footer_line_def py_space_def)
  ultimately show ?thesis unfolding strip_def by (intro strip_id) simp
qed



text \<open>When no more replies than requests are counted, the counters of a run are
consistent: requests are the replies and those without one, and the loss is a fraction of one.\<close>

theorem statistics_consistent:
  assumes "0 \<le> received s" and "received s \<le> transmitted s"
  shows "received s + unreceived s = transmitted s \<and> 0 \<le> loss s \<and> loss s \<le> 1
         \<and> loss s * of_int (transmitted s) = of_int (unreceived s)
         \<and> (0 < transmitted s \<longrightarrow> (loss s = 1) = (\<not> statistics_bool s))"
proof -
  have u: "unreceived s = transmitted s - received s" using assms by (simp add: unreceived_def)
  show ?thesis
  proof (cases "0 < transmitted s")
    case True
    then have t: "(0::rat) < of_int (transmitted s)" by simp
    have "loss s = 1 \<longleftrightarrow> received s = 0" using t u True by (simp add: loss_def divide_eq_1_iff)
    with assms u t True show ?thesis by (auto simp: loss_def statistics_bool_def)
  next
    case False
    with assms u show ?thesis by (simp add: loss_def)
  qed
qed

lemma statistics_consistent_witness:
  "let s = no_statistics\<lparr>transmitted := 4, received := 3\<rparr> in
   received s + unreceived s = transmitted s \<and> 0 \<le> loss s \<and> loss s \<le> 1
         \<and> loss s * of_int (transmitted s) = of_int (unreceived s)
         \<and> (0 < transmitted s \<longrightarrow> (loss s = 1) = (\<not> statistics_bool s))"
  unfolding Let_def by (rule statistics_consistent) (simp_all add: no_statistics_def)

end
