(* ===== verification/Shell_Command.thy ===== *)
theory Shell_Command
  imports Py_Strings
begin

text \<open>
  tobiko/shell/sh/_command.py: a shell command is a tuple of texts, \<open>join\<close> writes it with
  quotes, \<open>split\<close> reads it back with the POSIX reader of Python's shlex.
\<close>

text \<open>What a caller may give as a command: a command, a text, or items already written with \<open>str\<close>.\<close>

datatype command_arg = Command "string list" | Text string | Items "string list"

section \<open>Writing\<close>

definition safe_char :: "char \<Rightarrow> bool" where
  "safe_char c = (word_char c \<or> c \<in> set ''@&%+=:,.;<>/-()[]|*~'')"

definition is_quoted :: "string \<Rightarrow> bool" where
  "is_quoted s =
     (let s' = (if s \<noteq> [] \<and> List.last s = CHR 0x0A then butlast s else s)
      in 2 \<le> length s' \<and> hd s' = List.last s' \<and> (hd s' = CHR 0x27 \<or> hd s' = CHR 0x22) \<and> CHR 0x0A \<notin> set s')"

definition double_quoted_quote :: string where
  "double_quoted_quote = [CHR 0x27, CHR 0x22, CHR 0x27, CHR 0x22, CHR 0x27]"

definition quote :: "string \<Rightarrow> string" where
  "quote s =
     (if s = [] then [CHR 0x27, CHR 0x27]
      else if is_quoted s then s
      else if list_all safe_char s then s
      else CHR 0x27 # concat (map (\<lambda>c. if c = CHR 0x27 then double_quoted_quote else [c]) s) @ [CHR 0x27])"

definition join_command :: "string list \<Rightarrow> string" where
  "join_command sequence = str_join '' '' (map quote sequence)"

section \<open>Reading\<close>

text \<open>
  The reader of \<open>shlex.shlex(command, posix=True)\<close> with \<open>whitespace_split\<close>. Its states are
  between words, in a word, in quotes, after a backslash (with the state to go back to) and
  in a comment; \<open>q\<close> tells that the word had quotes, \<open>w\<close> is the word read so far, reversed.
\<close>

datatype lex_state = LSpace | LWord | LQuote char | LEscape "char option" | LComment

definition lex_white :: "char \<Rightarrow> bool" where
  "lex_white c = (c \<in> set [CHR '' '', CHR 0x09, CHR 0x0D, CHR 0x0A])"

definition emit_word :: "bool \<Rightarrow> string \<Rightarrow> string list" where
  "emit_word q w = (if w \<noteq> [] \<or> q then [rev w] else [])"

definition cons_words :: "string list \<Rightarrow> string list res \<Rightarrow> string list res" where
  "cons_words ws r = map_sum id (\<lambda>rest. ws @ rest) r"

fun shlex_read :: "lex_state \<Rightarrow> bool \<Rightarrow> string \<Rightarrow> string \<Rightarrow> string list res" where
  "shlex_read LSpace q w [] = Inr []"
| "shlex_read LSpace q w (c # s) =
     (if lex_white c then shlex_read LSpace False [] s
      else if c = CHR ''#'' then shlex_read LComment False [] s
      else if c = CHR 0x5C then shlex_read (LEscape None) False [] s
      else if c = CHR 0x27 \<or> c = CHR 0x22 then shlex_read (LQuote c) False [] s
      else shlex_read LWord False [c] s)"
| "shlex_read LWord q w [] = Inr (emit_word q w)"
| "shlex_read LWord q w (c # s) =
     (if lex_white c then cons_words (emit_word q w) (shlex_read LSpace False [] s)
      else if c = CHR ''#'' then cons_words (emit_word q w) (shlex_read LComment False [] s)
      else if c = CHR 0x27 \<or> c = CHR 0x22 then shlex_read (LQuote c) q w s
      else if c = CHR 0x5C then shlex_read (LEscape None) q w s
      else shlex_read LWord q (c # w) s)"
| "shlex_read (LQuote k) q w [] = Raise PyValueError ''No closing quotation''"
| "shlex_read (LQuote k) q w (c # s) =
     (if c = k then shlex_read LWord True w s
      else if c = CHR 0x5C \<and> k = CHR 0x22 then shlex_read (LEscape (Some k)) True w s
      else shlex_read (LQuote k) True (c # w) s)"
| "shlex_read (LEscape k) q w [] = Raise PyValueError ''No escaped character''"
| "shlex_read (LEscape None) q w (c # s) = shlex_read LWord q (c # w) s"
| "shlex_read (LEscape (Some k)) q w (c # s) =
     shlex_read (LQuote k) q (if c \<noteq> CHR 0x5C \<and> c \<noteq> k then c # CHR 0x5C # w else c # w) s"
| "shlex_read LComment q w [] = Inr []"
| "shlex_read LComment q w (c # s) = shlex_read (if c = CHR 0x0A then LSpace else LComment) False [] s"

definition split_command :: "string \<Rightarrow> string list res" where
  "split_command command = shlex_read LSpace False [] command"

definition shell_command :: "command_arg \<Rightarrow> string list res" where
  "shell_command command =
     (case command of Command c \<Rightarrow> Inr c | Text s \<Rightarrow> split_command s | Items xs \<Rightarrow> Inr xs)"

definition command_add :: "string list \<Rightarrow> command_arg \<Rightarrow> string list res" where
  "command_add c other = map_sum id (\<lambda>d. c @ d) (shell_command other)"

definition command_contains :: "string list \<Rightarrow> string \<Rightarrow> bool" where
  "command_contains c item = str_in item (join_command c)"

definition command_as_list :: "string list \<Rightarrow> string list" where
  "command_as_list c = split_on '' '' (join_command c)"

section \<open>Reading what was written\<close>

definition lex_special :: "char \<Rightarrow> bool" where
  "lex_special c = (lex_white c \<or> c = CHR ''#'' \<or> c = CHR 0x27 \<or> c = CHR 0x22 \<or> c = CHR 0x5C)"

lemma safe_not_special: "safe_char c \<Longrightarrow> \<not> lex_special c"
proof
  assume "safe_char c" "lex_special c"
  then have "c \<in> set [CHR '' '', CHR 0x09, CHR 0x0D, CHR 0x0A, CHR ''#'', CHR 0x27, CHR 0x22, CHR 0x5C]"
    by (auto simp: lex_special_def lex_white_def)
  moreover have "list_all (\<lambda>c. \<not> safe_char c)
      [CHR '' '', CHR 0x09, CHR 0x0D, CHR 0x0A, CHR ''#'', CHR 0x27, CHR 0x22, CHR 0x5C]"
    by code_simp
  ultimately show False using \<open>safe_char c\<close> unfolding list_all_iff by blast
qed

lemma lex_safe: "list_all safe_char s \<Longrightarrow> shlex_read LWord q w (s @ r) = shlex_read LWord q (rev s @ w) r"
proof (induction s arbitrary: w)
  case (Cons c s)
  then have "\<not> lex_special c" using safe_not_special by simp
  with Cons show ?case by (simp add: lex_special_def)
qed simp

lemma lex_quoted:
  "shlex_read (LQuote (CHR 0x27)) q w (concat (map (\<lambda>c. if c = CHR 0x27 then double_quoted_quote else [c]) s) @ CHR 0x27 # r) =
     shlex_read LWord True (rev s @ w) r"
proof (induction s arbitrary: q w)
  case (Cons c s)
  then show ?case by (simp add: double_quoted_quote_def lex_white_def)
qed simp

lemma lex_quote:
  assumes "\<not> is_quoted s"
  shows "\<exists>q. (s = [] \<longrightarrow> q) \<and> shlex_read LSpace False [] (quote s @ r) = shlex_read LWord q (rev s) r"
proof (cases "s \<noteq> [] \<and> list_all safe_char s")
  case True
  then obtain c t where s: "s = c # t" by (cases s) auto
  then have "\<not> lex_special c" using True safe_not_special by simp
  then have "shlex_read LSpace False [] (s @ r) = shlex_read LWord False [c] (t @ r)" using s by (simp add: lex_special_def)
  also have "\<dots> = shlex_read LWord False (rev s) r" using lex_safe[of t False "[c]" r] True s by simp
  finally show ?thesis using True assms by (auto simp: quote_def)
next
  case False
  show ?thesis
  proof (cases "s = []")
    case False
    with assms \<open>\<not> (s \<noteq> [] \<and> list_all safe_char s)\<close> have "quote s = CHR 0x27 #
        concat (map (\<lambda>c. if c = CHR 0x27 then double_quoted_quote else [c]) s) @ [CHR 0x27]"
      by (simp add: quote_def)
    with lex_quoted[of False "[]" s r] False show ?thesis by (auto simp: lex_white_def)
  qed (auto simp: quote_def lex_white_def)
qed

lemma split_join:
  "\<forall>s \<in> set sequence. \<not> is_quoted s \<Longrightarrow> split_command (join_command sequence) = Inr sequence"
  unfolding split_command_def
proof (induction sequence)
  case (Cons s ss)
  have emit: "emit_word q (rev s) = [s]" if "s = [] \<longrightarrow> q" for q using that by (auto simp: emit_word_def)
  show ?case
  proof (cases ss)
    case Nil
    from lex_quote[of s "[]"] Cons.prems obtain q where "s = [] \<longrightarrow> q"
      and "shlex_read LSpace False [] (quote s) = shlex_read LWord q (rev s) []" by auto
    with Nil emit show ?thesis by (simp add: join_command_def)
  next
    case (Cons t ts)
    let ?r = "CHR '' '' # join_command ss"
    from lex_quote[of s ?r] Cons.prems obtain q where "s = [] \<longrightarrow> q"
      and l: "shlex_read LSpace False [] (quote s @ ?r) = shlex_read LWord q (rev s) ?r" by auto
    with emit have "shlex_read LSpace False [] (quote s @ ?r) = Inr (s # ss)"
      using Cons.IH Cons.prems by (simp add: lex_white_def cons_words_def)
    moreover have "join_command (s # ss) = quote s @ ?r" using Cons by (simp add: join_command_def)
    ultimately show ?thesis by simp
  qed
qed (simp add: join_command_def)

text \<open>
  Property (C16). A command written with \<open>join\<close> and read with \<open>split\<close> is the command again,
  whatever its words hold (spaces, quotes, backslashes, nothing), when no word is already
  between quotes of its own.
\<close>
theorem split_join_command:
  "\<forall>s \<in> set sequence. \<not> is_quoted s \<Longrightarrow> split_command (join_command sequence) = Inr sequence"
  by (rule split_join)

lemma split_join_command_witness:
  "split_command (join_command [''echo'', [], ''a b'' @ [CHR 0x27], ''x'' @ [CHR 0x5C]]) =
     Inr [''echo'', [], ''a b'' @ [CHR 0x27], ''x'' @ [CHR 0x5C]]"
  by (rule split_join_command) (simp add: is_quoted_def)

end
