(* ===== verification/Shell_Process.thy ===== *)
theory Shell_Process
  imports Shell_Command Tobiko_Exceptions
begin

text \<open>
  tobiko/shell/sh/_process.py, _exception.py and _execute.py: the command line a process is
  started with, its exit status, closing it, and executing it to a result; and keeping an
  external process alive. What the local or SSH subclass does (creating, polling, waiting,
  killing, reading the streams) is the parameter \<open>process_ops\<close>, actions on the world.
\<close>

section \<open>Errors\<close>

definition ShellError :: pyclass where
  "ShellError = ''ShellError'' # TobikoException"
definition ShellCommandFailed :: pyclass where
  "ShellCommandFailed = ''ShellCommandFailed'' # ShellError"
definition ShellTimeoutExpired :: pyclass where
  "ShellTimeoutExpired = ''ShellTimeoutExpired'' # ShellError"
definition ShellProcessTerminated :: pyclass where
  "ShellProcessTerminated = ''ShellProcessTerminated'' # ShellError"
definition ShellStdinClosed :: pyclass where
  "ShellStdinClosed = ''ShellStdinClosed'' # ShellError"

lemmas shell_class_defs [exn_classes] =
  ShellError_def ShellCommandFailed_def ShellTimeoutExpired_def ShellProcessTerminated_def ShellStdinClosed_def

section \<open>The command line\<close>

datatype flag = FBool bool | FText string

record process_parameters =
  pp_command :: command_arg
  pp_timeout :: "rat option"
  pp_network_namespace :: "string option"
  pp_shell :: "flag option"
  pp_sudo :: "flag option"
  pp_stdin :: bool
  pp_stdout :: bool
  pp_stderr :: bool

text \<open>The options \<open>tobiko.shell.command\<close> and \<open>tobiko.shell.sudo\<close>.\<close>

record shell_config =
  conf_shell :: command_arg
  conf_sudo :: command_arg

definition default_shell_command :: "shell_config \<Rightarrow> string list res" where
  "default_shell_command C = shell_command (conf_shell C)"

definition default_sudo_command :: "shell_config \<Rightarrow> string list res" where
  "default_sudo_command C = shell_command (conf_sudo C)"

definition network_namespace_command :: "string \<Rightarrow> string list \<Rightarrow> string list" where
  "network_namespace_command ns command = [''/sbin/ip'', ''netns'', ''exec'', ns] @ command"

definition with_shell :: "shell_config \<Rightarrow> flag option \<Rightarrow> string list \<Rightarrow> string list res" where
  "with_shell C shell command =
     (case shell of
        Some (FText sh) \<Rightarrow> map_sum id (\<lambda>ws. ws @ [join_command command]) (shell_command (Text sh))
      | Some (FBool True) \<Rightarrow> map_sum id (\<lambda>ws. ws @ [join_command command]) (default_shell_command C)
      | _ \<Rightarrow> Inr command)"

definition with_sudo :: "shell_config \<Rightarrow> flag option \<Rightarrow> string list \<Rightarrow> string list res" where
  "with_sudo C sudo command =
     (case sudo of
        Some (FBool True) \<Rightarrow> map_sum id (\<lambda>ws. ws @ command) (default_sudo_command C)
      | Some (FText s) \<Rightarrow> if s = [] then Inr command else map_sum id (\<lambda>ws. ws @ command) (shell_command (Text s))
      | _ \<Rightarrow> Inr command)"

definition setup_command :: "shell_config \<Rightarrow> flag option \<Rightarrow> process_parameters \<Rightarrow> string list res" where
  "setup_command C default_shell P =
     (case shell_command (pp_command P) of Inl e \<Rightarrow> Inl e | Inr c \<Rightarrow>
        (case with_shell C (case pp_shell P of None \<Rightarrow> default_shell | Some s \<Rightarrow> Some s) c of Inl e \<Rightarrow> Inl e | Inr c \<Rightarrow>
           (case pp_network_namespace P of
              None \<Rightarrow> with_sudo C (pp_sudo P) c
            | Some ns \<Rightarrow>
                if ns = [] then with_sudo C (pp_sudo P) c
                else with_sudo C (case pp_sudo P of None \<Rightarrow> Some (FBool True) | Some s \<Rightarrow> Some s)
                       (network_namespace_command ns c))))"

section \<open>The process\<close>

datatype stream_name = Stdin | Stdout | Stderr

record 'w process_ops =
  stream_closed :: "stream_name \<Rightarrow> 'w \<Rightarrow> bool option"
  stream_text :: "stream_name \<Rightarrow> 'w \<Rightarrow> string option"
  close_stream :: "stream_name \<Rightarrow> ('w, unit) act"
  poll_exit_status :: "('w, int option) act"
  wait_exit_status :: "rat option \<Rightarrow> ('w, int option) act"
  kill :: "('w, unit) act"
  wait_streams :: "rat option \<Rightarrow> ('w, unit) act"
  create_process :: "string list \<Rightarrow> ('w, unit) act"
  enter_fixture :: "('w, unit) act"
  exit_fixture :: "('w, unit) act"
  send_all :: "string \<Rightarrow> rat option \<Rightarrow> ('w, unit) act"
  rat_text :: "rat \<Rightarrow> string"
  self_repr :: string

text \<open>\<open>cached_status\<close> is the attribute \<open>_exit_status\<close>.\<close>

record 'w process_state =
  parameters :: process_parameters
  the_command :: "string list"
  cached_status :: "int option"
  world :: 'w

definition in_world :: "('w, 'a) act \<Rightarrow> ('w process_state, 'a) act" where
  "in_world m s = (case m (world s) of (r, w) \<Rightarrow> (r, s\<lparr>world := w\<rparr>))"

definition opt_text :: "string option \<Rightarrow> string" where
  "opt_text t = (case t of None \<Rightarrow> ''None'' | Some x \<Rightarrow> x)"

definition streams_report :: "'w process_ops \<Rightarrow> 'w process_state \<Rightarrow> string" where
  "streams_report ops s =
     [CHR 0x0A] @ ''stdin:'' @ [CHR 0x0A] @ opt_text (stream_text ops Stdin (world s)) @ [CHR 0x0A] @
     ''stdout:'' @ [CHR 0x0A] @ opt_text (stream_text ops Stdout (world s)) @ [CHR 0x0A] @
     ''stderr:'' @ [CHR 0x0A] @ opt_text (stream_text ops Stderr (world s))"

text \<open>\<open>setup_process\<close>: a status that is not zero is forgotten.\<close>

definition setup_process :: "'w process_ops \<Rightarrow> ('w process_state, unit) act" where
  "setup_process ops s =
     (let s' = (if cached_status s \<noteq> None \<and> cached_status s \<noteq> Some 0 then s\<lparr>cached_status := None\<rparr> else s)
      in in_world (create_process ops (the_command s)) s')"

definition exit_status :: "'w process_ops \<Rightarrow> ('w process_state, int option) act" where
  "exit_status ops s =
     (case cached_status s of
        Some k \<Rightarrow> (Inr (Some k), s)
      | None \<Rightarrow>
          (case in_world (poll_exit_status ops) s of
             (Inl e, t) \<Rightarrow> (Inl e, t)
           | (Inr None, t) \<Rightarrow> (Inr None, t)
           | (Inr (Some k), t) \<Rightarrow> (Inr (Some k), t\<lparr>cached_status := Some k\<rparr>)))"

definition is_running :: "'w process_ops \<Rightarrow> ('w process_state, bool) act" where
  "is_running ops = bindA (exit_status ops) (\<lambda>k. ret (k = None))"

definition check_is_running :: "'w process_ops \<Rightarrow> ('w process_state, unit) act" where
  "check_is_running ops =
     bindA (exit_status ops)
       (\<lambda>k s. case k of
          None \<Rightarrow> (Inr (), s)
        | Some k \<Rightarrow>
            (Raise ShellProcessTerminated (''command '' @ [CHR 0x27] @ join_command (the_command s) @ [CHR 0x27] @
               '' terminated (exit status is '' @ str_int k @ '');'' @ streams_report ops s), s))"

definition check_stdin_is_opened :: "'w process_ops \<Rightarrow> ('w process_state, unit) act" where
  "check_stdin_is_opened ops s =
     (case stream_closed ops Stdin (world s) of
        None \<Rightarrow> (Raise PyAttributeError [], s)
      | Some False \<Rightarrow> (Inr (), s)
      | Some True \<Rightarrow>
          (Raise ShellStdinClosed (''command '' @ join_command (the_command s) @ '': STDIN stream closed;'' @
             streams_report ops s), s))"

definition get_exit_status :: "'w process_ops \<Rightarrow> rat option \<Rightarrow> ('w process_state, int) act" where
  "get_exit_status ops timeout s =
     (let timeout = (case timeout of None \<Rightarrow> pp_timeout (parameters s) | Some t \<Rightarrow> Some t)
      in case in_world (wait_exit_status ops timeout) s of
           (Inl e, t) \<Rightarrow> (Inl e, t)
         | (Inr (Some k), t) \<Rightarrow> (Inr k, t)
         | (Inr None, t) \<Rightarrow>
             (Raise ShellTimeoutExpired (''command '' @ join_command (the_command t) @ '' timed out after '' @
                (case timeout of None \<Rightarrow> ''None'' | Some q \<Rightarrow> rat_text ops q) @ '' seconds;'' @ streams_report ops t), t))"

text \<open>\<open>check_timeout\<close> is an attribute that neither the class nor its parameters have.\<close>

definition check_exit_status :: "'w process_ops \<Rightarrow> int \<Rightarrow> ('w process_state, unit) act" where
  "check_exit_status ops expected =
     bindA (in_world (poll_exit_status ops))
       (\<lambda>k s. case k of
          None \<Rightarrow> (Raise PyAttributeError (''object '' @ self_repr ops @ '' has not attribute '' @ str_repr ''check_timeout''), s)
        | Some k \<Rightarrow>
            if expected \<noteq> k
            then (Raise ShellCommandFailed (''command '' @ [CHR 0x27] @ join_command (the_command s) @ [CHR 0x27] @
                    '' failed (exit status is '' @ str_int k @ '');'' @ streams_report ops s), s)
            else (Inr (), s))"

section \<open>Closing\<close>

text \<open>\<open>try: m except Exception: log\<close>.\<close>

definition quietly :: "('s, unit) act \<Rightarrow> ('s, unit) act" where
  "quietly m = try_except m (\<lambda>e. isinstance_exn e PyException) (\<lambda>_. ret ())"

definition close_std :: "'w process_ops \<Rightarrow> stream_name \<Rightarrow> ('w process_state, unit) act" where
  "close_std ops n s =
     (case stream_closed ops n (world s) of
        None \<Rightarrow> (Inr (), s)
      | Some True \<Rightarrow> (Inr (), s)
      | Some False \<Rightarrow> quietly (in_world (close_stream ops n)) s)"

definition terminate :: "'w process_ops \<Rightarrow> ('w process_state, unit) act" where
  "terminate ops =
     bindA (close_std ops Stdout) (\<lambda>_. bindA (close_std ops Stderr) (\<lambda>_ s.
       case get_exit_status ops None s of
         (Inr _, t) \<Rightarrow> (Inr (), t)
       | (Inl e, t) \<Rightarrow>
           (case quietly (in_world (kill ops)) t of (Inl e', u) \<Rightarrow> (Inl e', u) | (Inr _, u) \<Rightarrow> (Inl e, u))))"

definition close_process :: "'w process_ops \<Rightarrow> rat option \<Rightarrow> ('w process_state, unit) act" where
  "close_process ops timeout =
     bindA (close_std ops Stdin) (\<lambda>_ s.
       case in_world (wait_streams ops (case timeout of None \<Rightarrow> pp_timeout (parameters s) | Some t \<Rightarrow> Some t)) s of
         (r, t) \<Rightarrow> (case terminate ops t of (Inl e, u) \<Rightarrow> (Inl e, u) | (Inr _, u) \<Rightarrow> (r, u)))"

section \<open>Executing\<close>

datatype execute_status = SUCCEEDED | FAILED | TIMEDOUT | UNTERMINATED

record execute_result =
  r_command :: string
  r_exit_status :: "int option"
  r_timeout :: "rat option"
  r_status :: "execute_status option"
  r_login :: "string option"
  r_stdin :: "string option"
  r_stdout :: "string option"
  r_stderr :: "string option"

text \<open>The attributes of the exceptions of the shell.\<close>

record shell_exn =
  failed_stdout :: "exn \<Rightarrow> string option"
  failed_stderr :: "exn \<Rightarrow> string option"
  failed_status :: "exn \<Rightarrow> int"

fun status_name :: "execute_status \<Rightarrow> string" where
  "status_name SUCCEEDED = ''ShellExecuteStatus.SUCCEEDED''"
| "status_name FAILED = ''ShellExecuteStatus.FAILED''"
| "status_name TIMEDOUT = ''ShellExecuteStatus.TIMEDOUT''"
| "status_name UNTERMINATED = ''ShellExecuteStatus.UNTERMINATED''"

definition indent :: "string \<Rightarrow> string" where
  "indent text = ''    '' @ str_join (CHR 0x0A # ''    '') (split_on [CHR 0x0A] text)"

definition detail :: "string \<Rightarrow> ('a \<Rightarrow> string) \<Rightarrow> 'a option \<Rightarrow> string list" where
  "detail label f v = (case v of None \<Rightarrow> [] | Some x \<Rightarrow> [label @ f x])"

definition stream_detail :: "string \<Rightarrow> string option \<Rightarrow> string list" where
  "stream_detail label v = (case v of None \<Rightarrow> [] | Some t \<Rightarrow> if t = [] then [] else [label @ [CHR 0x0A] @ indent t])"

definition get_details :: "(rat \<Rightarrow> string) \<Rightarrow> execute_result \<Rightarrow> string" where
  "get_details rt r =
     str_join [CHR 0x0A]
       ([''command: '' @ str_repr (r_command r)] @ detail ''exit_status: '' str_int (r_exit_status r) @
        detail ''timeout: '' rt (r_timeout r) @ detail ''status: '' status_name (r_status r) @
        detail ''login: '' str_repr (r_login r) @ stream_detail ''stdin:'' (r_stdin r) @
        stream_detail ''stdout:'' (r_stdout r) @ stream_detail ''stderr:'' (r_stderr r))"

definition with_process :: "'w process_ops \<Rightarrow> ('w process_state, unit) act \<Rightarrow> ('w process_state, unit) act" where
  "with_process ops body =
     bindA (in_world (enter_fixture ops)) (\<lambda>_ s.
       case body s of
         (r, t) \<Rightarrow> (case in_world (exit_fixture ops) t of (Inl e, u) \<Rightarrow> (Inl e, u) | (Inr _, u) \<Rightarrow> (r, u)))"

definition feed :: "'w process_ops \<Rightarrow> string option \<Rightarrow> rat option \<Rightarrow> ('w process_state, unit) act" where
  "feed ops data timeout =
     (case data of Some d \<Rightarrow> if d \<noteq> [] then in_world (send_all ops d timeout) else ret () | None \<Rightarrow> ret ())"

text \<open>What the two \<open>try\<close> statements leave: the status and the error to raise again.\<close>

definition run_to_status ::
  "'w process_ops \<Rightarrow> string option \<Rightarrow> int option \<Rightarrow> rat option \<Rightarrow> ('w process_state, execute_status option \<times> exn option) act" where
  "run_to_status ops data expect timeout s =
     (case with_process ops (feed ops data timeout) s of
        (Inl e, t) \<Rightarrow>
          if isinstance_exn e ShellTimeoutExpired
          then (Inr (Some TIMEDOUT, if expect \<noteq> None then Some e else None), t)
          else (Inl e, t)
      | (Inr _, t) \<Rightarrow>
          (case expect of
             None \<Rightarrow> (Inr (None, None), t)
           | Some k \<Rightarrow>
               (case check_exit_status ops k t of
                  (Inr _, u) \<Rightarrow> (Inr (Some SUCCEEDED, None), u)
                | (Inl e, u) \<Rightarrow>
                    if isinstance_exn e ShellCommandFailed then (Inr (Some FAILED, Some e), u)
                    else (Inl e, u))))"

definition execute_process ::
  "'w process_ops \<Rightarrow> string option \<Rightarrow> int option \<Rightarrow> string option \<Rightarrow> rat option \<Rightarrow> ('w process_state, execute_result) act" where
  "execute_process ops data expect login timeout =
     bindA (run_to_status ops data expect timeout) (\<lambda>(status, err).
       bindA (exit_status ops) (\<lambda>k s.
         case err of
           Some e \<Rightarrow> (Inl e, s)
         | None \<Rightarrow>
             (Inr \<lparr>r_command = join_command (the_command s), r_exit_status = k, r_timeout = pp_timeout (parameters s),
                   r_status = status, r_login = login, r_stdin = stream_text ops Stdin (world s),
                   r_stdout = stream_text ops Stdout (world s), r_stderr = stream_text ops Stderr (world s)\<rparr>, s)))"

section \<open>Keeping an external process running\<close>

record 'w external =
  start_function :: "('w, unit) act"
  check_function :: "('w, unit) act"
  liveness_function :: "('w, bool) act"
  stop_function :: "('w, unit) act option"
  sleep3 :: "'w \<Rightarrow> 'w"
  fail_exception :: pyclass
  start_repr :: string
  kwargs_repr :: string

definition not_started :: "'w external \<Rightarrow> exn" where
  "not_started X =
     Exn (fail_exception X) (''Service did not start properly with function: '' @ start_repr X @ '' and arguments: '' @ kwargs_repr X)"

definition stop_and_check :: "'w external \<Rightarrow> ('w, unit) act" where
  "stop_and_check X =
     bindA (liveness_function X) (\<lambda>alive.
       if alive
       then bindA (case stop_function X of None \<Rightarrow> ret () | Some stop \<Rightarrow> bindA stop (\<lambda>_ w. (Inr (), sleep3 X w)))
              (\<lambda>_. check_function X)
       else ret ())"

definition restart_external :: "'w external \<Rightarrow> ('w, unit) act" where
  "restart_external X =
     bindA (start_function X) (\<lambda>_ w.
       bindA (liveness_function X)
         (\<lambda>alive. if alive then ret () else raise_act (not_started X))
         (sleep3 X w))"

definition check_or_start_external_process :: "'w external \<Rightarrow> ('w, unit) act" where
  "check_or_start_external_process X w =
     (case stop_and_check X w of
        (r, t) \<Rightarrow> (case restart_external X t of (Inl e, u) \<Rightarrow> (Inl e, u) | (Inr _, u) \<Rightarrow> (r, u)))"

section \<open>Properties\<close>

lemma with_shell_last:
  assumes "with_shell C (Some (FBool True)) c = Inr ws"
  shows "\<exists>sh. default_shell_command C = Inr sh \<and> ws = sh @ [join_command c]"
  using assms by (auto simp: with_shell_def map_sum_eq_Inr)

lemma with_sudo_suffix: "with_sudo C sudo c = Inr ws \<Longrightarrow> \<exists>su. ws = su @ c"
  by (auto simp: with_sudo_def map_sum_eq_Inr split: option.splits flag.splits bool.splits if_splits)

lemma with_sudo_True:
  "with_sudo C (Some (FBool True)) c = Inr ws \<Longrightarrow> \<exists>su. default_sudo_command C = Inr su \<and> ws = su @ c"
  by (auto simp: with_sudo_def map_sum_eq_Inr)

text \<open>
  When a process is run by the default shell, the shell's last argument, read
  as a shell reads it, is the command that was asked for, word by word; before it stand the
  words of sudo, those that enter the network namespace and those of the shell, in that order,
  and a network namespace brings sudo with it unless the caller decides.
\<close>
theorem setup_command_layout:
  assumes "setup_command C (Some (FBool True)) P = Inr ws" and "pp_shell P = None"
    and "shell_command (pp_command P) = Inr c" and "\<forall>w \<in> set c. \<not> is_quoted w"
  shows "split_command (List.last ws) = Inr c \<and>
    (\<exists>su ns sh. default_shell_command C = Inr sh \<and> ws = su @ ns @ sh @ [join_command c] \<and>
       ns = (case pp_network_namespace P of None \<Rightarrow> [] | Some n \<Rightarrow> if n = [] then [] else [''/sbin/ip'', ''netns'', ''exec'', n]) \<and>
       (ns \<noteq> [] \<and> pp_sudo P = None \<longrightarrow> default_sudo_command C = Inr su))"
proof -
  from assms(1-3) obtain sc where sc: "with_shell C (Some (FBool True)) c = Inr sc"
    by (cases "with_shell C (Some (FBool True)) c") (simp_all add: setup_command_def)
  from with_shell_last[OF sc] obtain sh where sh: "default_shell_command C = Inr sh" "sc = sh @ [join_command c]"
    by blast
  define ns where "ns = (case pp_network_namespace P of None \<Rightarrow> [] | Some n \<Rightarrow> if n = [] then [] else [''/sbin/ip'', ''netns'', ''exec'', n])"
  have "\<exists>su. ws = su @ ns @ sc \<and> (ns \<noteq> [] \<and> pp_sudo P = None \<longrightarrow> default_sudo_command C = Inr su)"
  proof (cases "ns = []")
    case True
    with assms(1-3) sc have "with_sudo C (pp_sudo P) sc = Inr ws"
      by (auto simp: setup_command_def ns_def split: option.splits if_splits)
    with True with_sudo_suffix show ?thesis by fastforce
  next
    case False
    then have ns: "network_namespace_command (the (pp_network_namespace P)) sc = ns @ sc"
      by (auto simp: ns_def network_namespace_command_def split: option.splits if_splits)
    from False assms(1-3) sc
    have w: "with_sudo C (case pp_sudo P of None \<Rightarrow> Some (FBool True) | Some s \<Rightarrow> Some s) (ns @ sc) = Inr ws"
      by (auto simp: setup_command_def ns_def network_namespace_command_def split: option.splits if_splits)
    show ?thesis
    proof (cases "pp_sudo P")
      case None
      with w with_sudo_True show ?thesis by fastforce
    next
      case (Some s)
      with w with_sudo_suffix show ?thesis by fastforce
    qed
  qed
  with sh show ?thesis unfolding ns_def using split_join[OF assms(4)] by fastforce
qed

definition demo_shell :: shell_config where
  "demo_shell = \<lparr>conf_shell = Items [''/bin/sh'', ''-c''], conf_sudo = Items [''sudo'']\<rparr>"

definition demo_parameters :: process_parameters where
  "demo_parameters = \<lparr>pp_command = Items [''echo'', ''a b''], pp_timeout = None, pp_network_namespace = Some ''ns1'',
     pp_shell = None, pp_sudo = None, pp_stdin = False, pp_stdout = True, pp_stderr = True\<rparr>"

lemma setup_command_layout_witness:
  "setup_command demo_shell (Some (FBool True)) demo_parameters =
     Inr [''sudo'', ''/sbin/ip'', ''netns'', ''exec'', ''ns1'', ''/bin/sh'', ''-c'', join_command [''echo'', ''a b'']]
   \<and> split_command (join_command [''echo'', ''a b'']) = Inr [''echo'', ''a b'']"
proof -
  let ?ws = "[''sudo'', ''/sbin/ip'', ''netns'', ''exec'', ''ns1'', ''/bin/sh'', ''-c'', join_command [''echo'', ''a b'']]"
  have run: "setup_command demo_shell (Some (FBool True)) demo_parameters = Inr ?ws"
    by (simp add: setup_command_def demo_parameters_def demo_shell_def with_shell_def with_sudo_def
        default_shell_command_def default_sudo_command_def shell_command_def network_namespace_command_def)
  have "split_command (List.last ?ws) = Inr [''echo'', ''a b'']"
    by (rule setup_command_layout[OF run, THEN conjunct1])
      (simp_all add: demo_parameters_def shell_command_def is_quoted_def)
  with run show ?thesis by simp
qed


text \<open>A process whose world is the status that polling finds.\<close>

definition quiet_ops :: "int option process_ops" where
  "quiet_ops = \<lparr>stream_closed = (\<lambda>_ _. None), stream_text = (\<lambda>_ _. None), close_stream = (\<lambda>_. ret ()),
     poll_exit_status = (\<lambda>w. (Inr w, w)), wait_exit_status = (\<lambda>_ w. (Inr w, w)), kill = ret (),
     wait_streams = (\<lambda>_. ret ()), create_process = (\<lambda>_ _. (Inr (), None)), enter_fixture = ret (), exit_fixture = ret (),
     send_all = (\<lambda>_ _. ret ()), rat_text = (\<lambda>_. []), self_repr = ''process''\<rparr>"

definition quiet_process :: "int option \<Rightarrow> int option \<Rightarrow> int option process_state" where
  "quiet_process cached w = \<lparr>parameters = demo_parameters, the_command = [''true''], cached_status = cached, world = w\<rparr>"

lemma quiet_run: "with_process quiet_ops (feed quiet_ops None None) (quiet_process None w) = (Inr (), quiet_process None w)"
  by (simp add: with_process_def feed_def quiet_ops_def quiet_process_def in_world_def ret_def bindA_def)


text \<open>
  A process object that is set up again forgets the exit status of its former
  run only when that was not zero: after a run that succeeded, the object keeps saying that
  the new process has ended with status zero, while a new process that still runs is there.
\<close>
theorem exit_status_stale:
  assumes "create_process ops (the_command s) (world s) = (Inr (), w)" and "poll_exit_status ops w = (Inr None, w)"
  shows "fst (bindA (setup_process ops) (\<lambda>_. is_running ops) s) = Inr (cached_status s \<noteq> Some 0)"
proof (cases "cached_status s")
  case None
  then show ?thesis using assms
    by (simp add: setup_process_def in_world_def bindA_def is_running_def exit_status_def ret_def)
next
  case (Some k)
  then show ?thesis using assms
    by (cases "k = 0") (simp_all add: setup_process_def in_world_def bindA_def is_running_def exit_status_def ret_def)
qed

lemma exit_status_stale_witness:
  "fst (bindA (setup_process quiet_ops) (\<lambda>_. is_running quiet_ops) (quiet_process (Some 0) (Some 0))) =
     Inr (cached_status (quiet_process (Some 0) (Some 0)) \<noteq> Some 0)"
  by (rule exit_status_stale[where w = None]) (simp_all add: quiet_ops_def)

text \<open>
  An external process is started again whatever stopping it and checking its
  log did; when it is then not alive the outcome is a failure, and when it is alive the outcome
  is that of the check, so that a failed check is reported only after the new process runs.
\<close>
theorem external_restarted:
  assumes "stop_and_check X w = (r, t)" and "start_function X t = (Inr (), u)"
    and "liveness_function X (sleep3 X u) = (Inr alive, v)"
  shows "check_or_start_external_process X w =
    (if alive then (r, v) else (Inl (not_started X), v))"
  using assms by (simp add: check_or_start_external_process_def restart_external_def bindA_def ret_def raise_act_def)

definition demo_external :: "string list external" where
  "demo_external = \<lparr>start_function = (\<lambda>w. (Inr (), ''start'' # w)), check_function = (\<lambda>w. (Raise PyAssertionError ''loss'', ''check'' # w)),
     liveness_function = (\<lambda>w. (Inr True, ''alive'' # w)), stop_function = Some (\<lambda>w. (Inr (), ''stop'' # w)),
     sleep3 = (\<lambda>w. ''sleep'' # w), fail_exception = PyAssertionError,
     start_repr = ''start'', kwargs_repr = ''{}''\<rparr>"

lemma external_restarted_witness:
  "check_or_start_external_process demo_external [] =
     (Raise PyAssertionError ''loss'', [''alive'', ''sleep'', ''start'', ''check'', ''sleep'', ''stop'', ''alive''])"
proof -
  have "check_or_start_external_process demo_external [] =
     (if True then (Raise PyAssertionError ''loss'', [''alive'', ''sleep'', ''start'', ''check'', ''sleep'', ''stop'', ''alive''])
      else (Inl (not_started demo_external), [''alive'', ''sleep'', ''start'', ''check'', ''sleep'', ''stop'', ''alive'']))"
    by (rule external_restarted[where t = "[''check'', ''sleep'', ''stop'', ''alive'']" and u = "[''start'', ''check'', ''sleep'', ''stop'', ''alive'']"])
      (simp_all add: stop_and_check_def demo_external_def bindA_def ret_def)
  then show ?thesis by simp
qed

end
