(* ===== verification/Ping_Interface.thy ===== *)
theory Ping_Interface
  imports Ping_Statistics Shell_Process Registry
begin

text \<open>
  tobiko/shell/ping/_interface.py: the implementations of ping that the program knows, how
  one is recognised from its usage text, the manager that keeps the one of every SSH client,
  and the command line each makes of the parameters. The text of a float and the truth value
  of an address (both belong to libraries) are parameters.
\<close>

datatype ping_iface =
    PingInterface
  | IpVersionPingInterface
  | IpUtilsPingInterface
  | IpUtilsIpVersionPingInterface
  | BusyBoxPingInterface
  | InetToolsPingInterface
  | BsdPingInterface

record ping_texts =
  float_text :: "rat \<Rightarrow> string"
  address_bool :: "address \<Rightarrow> bool"
  iface_repr :: "ping_iface \<Rightarrow> string"

definition UnsupportedPingOption :: pyclass where
  "UnsupportedPingOption = [''UnsupportedPingOption'', ''PingError'', ''PingException''] @ TobikoException"

declare UnsupportedPingOption_def [exn_classes]

section \<open>Usage texts\<close>

definition IPUTILS_PING_USAGE :: string where
  "IPUTILS_PING_USAGE = str_join [CHR 0x0A]
     [''ping: invalid option -- '' @ [CHR 0x27] @ ''-'' @ [CHR 0x27],
      ''Usage: ping [-aAbBdDfhLnOqrRUvV] [-c count] [-i interval] [-I interface]'',
      ''            [-m mark] [-M pmtudisc_option] [-l preload] [-p pattern] [-Q tos]'',
      ''            [-s packetsize] [-S sndbuf] [-t ttl] [-T timestamp_option]'',
      ''            [-w deadline] [-W timeout] [hop1 ...] destination'']"

definition IP_VERSION_IPUTILS_PING_USAGE :: string where
  "IP_VERSION_IPUTILS_PING_USAGE = str_join [CHR 0x0A]
     [''ping: invalid option -- '' @ [CHR 0x27] @ ''-'' @ [CHR 0x27],
      ''Usage: ping [-aAbBdDfhLnOqrRUvV64] [-c count] [-i interval] [-I interface]'',
      ''            [-m mark] [-M pmtudisc_option] [-l preload] [-p pattern] [-Q tos]'',
      ''            [-s packetsize] [-S sndbuf] [-t ttl] [-T timestamp_option]'',
      ''            [-w deadline] [-W timeout] [hop1 ...] destination'',
      ''Usage: ping -6 [-aAbBdDfhLnOqrRUvV] [-c count] [-i interval] [-I interface]'',
      ''             [-l preload] [-m mark] [-M pmtudisc_option]'',
      ''             [-N nodeinfo_option] [-p pattern] [-Q tclass] [-s packetsize]'',
      ''             [-S sndbuf] [-t ttl] [-T timestamp_option] [-w deadline]'',
      ''             [-W timeout] destination'']"

definition IP_VERSION_IPUTILS_PING_USAGE_NEW :: string where
  "IP_VERSION_IPUTILS_PING_USAGE_NEW = str_join [CHR 0x0A]
     [''ping: invalid option -- '' @ [CHR 0x27] @ ''-'' @ [CHR 0x27],
      [],
      ''Usage'',
      ''  ping [options] <destination>'',
      [],
      ''Options:'',
      ''  <destination>      dns name or ip address'',
      ''  -a                 use audible ping'',
      ''  -A                 use adaptive ping'',
      ''  -B                 sticky source address'',
      ''  -c <count>         stop after <count> replies'',
      ''  -D                 print timestamps'',
      ''  -d                 use SO_DEBUG socket option'',
      ''  -f                 flood ping'',
      ''  -h                 print help and exit'',
      ''  -I <interface>     either interface name or address'',
      ''  -i <interval>      seconds between sending each packet'',
      ''  -L                 suppress loopback of multicast packets'',
      ''  -l <preload>       send <preload> number of packages while waiting replies'',
      ''  -m <mark>          tag the packets going out'',
      ''  -M <pmtud opt>     define mtu discovery, can be one of <do|dont|want>'',
      ''  -n                 no dns name resolution'',
      ''  -O                 report outstanding replies'',
      ''  -p <pattern>       contents of padding byte'',
      ''  -q                 quiet output'',
      ''  -Q <tclass>        use quality of service <tclass> bits'',
      ''  -s <size>          use <size> as number of data bytes to be sent'',
      ''  -S <size>          use <size> as SO_SNDBUF socket option value'',
      ''  -t <ttl>           define time to live'',
      ''  -U                 print user-to-user latency'',
      ''  -v                 verbose output'',
      ''  -V                 print version and exit'',
      ''  -w <deadline>      reply wait <deadline> in seconds'',
      ''  -W <timeout>       time to wait for response'',
      [],
      ''IPv4 options:'',
      ''  -4                 use IPv4'',
      ''  -b                 allow pinging broadcast'',
      ''  -R                 record route'',
      ''  -T <timestamp>     define timestamp, can be one of <tsonly|tsandaddr|tsprespec>'',
      [],
      ''IPv6 options:'',
      ''  -6                 use IPv6'',
      ''  -F <flowlabel>     define flow label, default is random'',
      ''  -N <nodeinfo opt>  use icmp6 node info query, try <help> as argument'']"

definition INET_TOOLS_PING_USAGE :: string where
  "INET_TOOLS_PING_USAGE = str_join [CHR 0x0A]
     [''Usage: ping [OPTION...] HOST ...'',
      ''Send ICMP ECHO_REQUEST packets to network hosts.'',
      [],
      '' Options controlling ICMP request types:'',
      ''      --address              send ICMP_ADDRESS packets (root only)'',
      ''      --echo                 send ICMP_ECHO packets (default)'',
      ''      --mask                 same as --address'',
      ''      --timestamp            send ICMP_TIMESTAMP packets'',
      ''  -t, --type=TYPE            send TYPE packets'',
      [],
      '' Options valid for all request types:'',
      [],
      ''  -c, --count=NUMBER         stop after sending NUMBER packets'',
      ''  -d, --debug                set the SO_DEBUG option'',
      ''  -i, --interval=NUMBER      wait NUMBER seconds between sending each packet'',
      ''  -n, --numeric              do not resolve host addresses'',
      ''  -r, --ignore-routing       send directly to a host on an attached network'',
      ''      --ttl=N                specify N as time-to-live'',
      ''  -T, --tos=NUM              set type of service (TOS) to NUM'',
      ''  -v, --verbose              verbose output'',
      ''  -w, --timeout=N            stop after N seconds'',
      ''  -W, --linger=N             number of seconds to wait for response'',
      [],
      '' Options valid for --echo requests:'',
      [],
      ''  -f, --flood                flood ping (root only)'',
      ''      --ip-timestamp=FLAG    IP timestamp of type FLAG, which is one of'',
      ''                             '' @ [CHR 0x22] @ ''tsonly'' @ [CHR 0x22] @ '' and '' @ [CHR 0x22] @ ''tsaddr'' @ [CHR 0x22],
      ''  -l, --preload=NUMBER       send NUMBER packets as fast as possible before'',
      ''                             falling into normal mode of behavior (root only)'',
      ''  -p, --pattern=PATTERN      fill ICMP packet with given pattern (hex)'',
      ''  -q, --quiet                quiet output'',
      ''  -R, --route                record route'',
      ''  -s, --size=NUMBER          send NUMBER data octets'',
      [],
      ''  -?, --help                 give this help list'',
      ''      --usage                give a short usage message'',
      ''  -V, --version              print program version'']"

definition BSD_PING_USAGE :: string where
  "BSD_PING_USAGE = str_join [CHR 0x0A]
     [''ping: unrecognized option '' @ [CHR 0x60] @ ''--help'' @ [CHR 0x27],
      ''usage: ping [-AaDdfnoQqRrv] [-c count] [-G sweepmaxsize]'',
      ''            [-g sweepminsize] [-h sweepincrsize] [-i wait]'',
      ''            [-l preload] [-M mask | time] [-m ttl] [-p pattern]'',
      ''            [-S src_addr] [-s packetsize] [-t timeout][-W waittime]'',
      ''            [-z tos] host'',
      ''       ping [-AaDdfLnoQqRrv] [-c count] [-I iface] [-i wait]'',
      ''            [-l preload] [-M mask | time] [-m ttl] [-p pattern] [-S src_addr]'',
      ''            [-s packetsize] [-T ttl] [-t timeout] [-W waittime]'',
      ''            [-z tos] mcast-group'']"

section \<open>Recognising an implementation\<close>

fun match_ping_usage :: "ping_iface \<Rightarrow> string \<Rightarrow> bool" where
  "match_ping_usage IpUtilsPingInterface usage = prefix IPUTILS_PING_USAGE usage"
| "match_ping_usage IpUtilsIpVersionPingInterface usage =
     (prefix IP_VERSION_IPUTILS_PING_USAGE usage \<or> prefix IP_VERSION_IPUTILS_PING_USAGE_NEW usage \<or>
      (str_in '' -4 '' usage \<and> str_in '' -6 '' usage \<and> str_in '' -i '' usage \<and> str_in '' -M '' usage))"
| "match_ping_usage BusyBoxPingInterface usage = prefix ''BusyBox'' usage"
| "match_ping_usage InetToolsPingInterface usage = prefix INET_TOOLS_PING_USAGE usage"
| "match_ping_usage BsdPingInterface usage = prefix BSD_PING_USAGE usage"
| "match_ping_usage PingInterface usage = False"
| "match_ping_usage IpVersionPingInterface usage = False"

fun first_match :: "string \<Rightarrow> ping_iface list \<Rightarrow> ping_iface option" where
  "first_match usage [] = None"
| "first_match usage (i # is) = (if match_ping_usage i usage then Some i else first_match usage is)"

definition find_ping_interface :: "string \<Rightarrow> ping_iface list \<Rightarrow> ping_iface option" where
  "find_ping_interface usage is = (if usage \<noteq> [] then first_match usage is else None)"

text \<open>What \<open>ping --help\<close> printed; \<open>rt\<close> is the text of a float in the details of the result.\<close>

definition get_ping_usage :: "(rat \<Rightarrow> string) \<Rightarrow> execute_result res \<Rightarrow> string res" where
  "get_ping_usage rt result =
     (case result of Inl e \<Rightarrow> Inl e | Inr r \<Rightarrow>
       (let out = (case r_stdout r of None \<Rightarrow> [] | Some t \<Rightarrow> t);
            usage = strip (if out \<noteq> [] then out else (case r_stderr r of None \<Rightarrow> [] | Some t \<Rightarrow> t))
        in if r_exit_status r \<noteq> Some 0 \<and> str_in ''command not found'' (str_lower usage)
           then Raise PySkipTest ''ping command not installed on this instance''
           else if usage \<noteq> [] then Inr usage
           else Raise PyValueError (''Unable to get usage message from ping command:'' @ [CHR 0x0A] @ get_details rt r)))"

record 'c ping_manager =
  client_interfaces :: "'c \<rightharpoonup> ping_iface"
  interfaces :: "ping_iface list"

definition add_ping_interface :: "ping_iface \<Rightarrow> 'c ping_manager \<Rightarrow> 'c ping_manager" where
  "add_ping_interface i m = m\<lparr>interfaces := interfaces m @ [i]\<rparr>"

text \<open>The decorators of the module register the classes in the order of the file.\<close>

definition new_manager :: "'c ping_manager" where
  "new_manager = fold add_ping_interface
     [IpUtilsPingInterface, IpUtilsIpVersionPingInterface, BusyBoxPingInterface, InetToolsPingInterface, BsdPingInterface]
     \<lparr>client_interfaces = (\<lambda>_. None), interfaces = []\<rparr>"

definition client_interface :: "'c ping_manager \<Rightarrow> 'c \<Rightarrow> ping_iface option" where
  "client_interface m c = client_interfaces m c"

definition assign_interface :: "'c \<Rightarrow> ping_iface \<Rightarrow> 'c ping_manager \<Rightarrow> 'c ping_manager" where
  "assign_interface c i m = m\<lparr>client_interfaces := (client_interfaces m)(c \<mapsto> i)\<rparr>"

definition choose_interface ::
  "(rat \<Rightarrow> string) \<Rightarrow> ('c \<Rightarrow> execute_result res) \<Rightarrow> 'c \<Rightarrow> ('c ping_manager, ping_iface) act" where
  "choose_interface rt run c m =
     (case get_ping_usage rt (run c) of
        Inl e \<Rightarrow> (Inl e, m)
      | Inr usage \<Rightarrow>
          (Inr (case find_ping_interface usage (interfaces m) of Some i \<Rightarrow> i | None \<Rightarrow> PingInterface), m))"

definition get_ping_interface ::
  "(rat \<Rightarrow> string) \<Rightarrow> ('c \<Rightarrow> execute_result res) \<Rightarrow> 'c \<Rightarrow> ('c ping_manager, ping_iface) act" where
  "get_ping_interface rt run c = get_or_create client_interface assign_interface (choose_interface rt run c) c"

interpretation png: memo_table client_interface assign_interface
  by unfold_locales (simp add: client_interface_def assign_interface_def)

section \<open>The command line\<close>

fun has_ip_version_option :: "ping_iface \<Rightarrow> bool" where
  "has_ip_version_option IpVersionPingInterface = True"
| "has_ip_version_option IpUtilsIpVersionPingInterface = True"
| "has_ip_version_option BusyBoxPingInterface = True"
| "has_ip_version_option _ = False"

definition has_iputils_options :: "ping_iface \<Rightarrow> bool" where
  "has_iputils_options i = (i = IpUtilsPingInterface \<or> i = IpUtilsIpVersionPingInterface)"

definition has_interval_option :: "ping_iface \<Rightarrow> bool" where
  "has_interval_option i = has_iputils_options i"

definition has_timestamp_option :: "ping_iface \<Rightarrow> bool" where
  "has_timestamp_option i = has_iputils_options i"

definition has_fragment_option :: "ping_iface \<Rightarrow> bool" where
  "has_fragment_option i = has_iputils_options i"

fun address_text :: "address \<Rightarrow> string" where
  "address_text (AddrIP v t) = t"
| "address_text (AddrName s) = s"

text \<open>The words are given after \<open>str\<close>, as \<open>shell_command\<close> makes them.\<close>

definition get_ping_executable :: "ping_iface \<Rightarrow> ping_params \<Rightarrow> string res" where
  "get_ping_executable i p =
     (if has_ip_version_option i then Inr ''ping''
      else map_sum id (\<lambda>v. if v = Some 6 then ''ping6'' else ''ping'') (get_ping_ip_version p))"

definition version_option :: "ping_iface \<Rightarrow> int option \<Rightarrow> string list res" where
  "version_option i v =
     (case v of
        None \<Rightarrow> Inr []
      | Some n \<Rightarrow>
          if n = 4 then Inr (if has_ip_version_option i then [''-4''] else [])
          else if n = 6 then Inr (if has_ip_version_option i then [''-6''] else [])
          else Raise PyValueError (''Invalid IP version: '' @ str_int n))"

definition interface_option :: "ping_texts \<Rightarrow> ping_params \<Rightarrow> string list" where
  "interface_option T p =
     (case source p of None \<Rightarrow> [] | Some a \<Rightarrow> if address_bool T a then [''-I'', address_text a] else [])"

definition none_greater :: "'a res" where
  "none_greater = Raise PyTypeError (CHR 0x27 # ''>'' @ CHR 0x27 # '' not supported between instances of '' @
     str_repr ''NoneType'' @ '' and '' @ str_repr ''int'')"

definition get_deadline_option :: "ping_iface \<Rightarrow> ping_params \<Rightarrow> int \<Rightarrow> string list res" where
  "get_deadline_option i p d =
     (case i of
        BsdPingInterface \<Rightarrow> Inr [''-t'', str_int d]
      | InetToolsPingInterface \<Rightarrow>
          map_sum id (\<lambda>v. if v = Some 6 then [''-w'', str_int d] else [''-w'', str_int d, ''-W'', str_int d]) (get_ping_ip_version p)
      | _ \<Rightarrow> Inr [''-w'', str_int d, ''-W'', str_int d])"

definition deadline_option :: "ping_iface \<Rightarrow> ping_params \<Rightarrow> string list res" where
  "deadline_option i p =
     (case deadline p of None \<Rightarrow> none_greater | Some d \<Rightarrow> if d > 0 then get_deadline_option i p d else Inr [])"

definition count_option :: "ping_params \<Rightarrow> string list res" where
  "count_option p =
     (case count p of None \<Rightarrow> none_greater | Some c \<Rightarrow> Inr (if c > 0 then [''-c'', str_int c] else []))"

definition size_option :: "ping_params \<Rightarrow> string list res" where
  "size_option p =
     map_sum id (\<lambda>n. case n of None \<Rightarrow> [] | Some n \<Rightarrow> if n \<noteq> 0 then [''-s'', str_int n] else []) (get_ping_payload_size p)"

definition get_interval_option :: "ping_texts \<Rightarrow> rat \<Rightarrow> string list" where
  "get_interval_option T q = [''-i'', if of_int \<lfloor>q\<rfloor> = q then str_int \<lfloor>q\<rfloor> else float_text T q]"

definition interval_option :: "ping_texts \<Rightarrow> ping_iface \<Rightarrow> ping_params \<Rightarrow> string list" where
  "interval_option T i p =
     (case interval p of
        None \<Rightarrow> []
      | Some q \<Rightarrow> if q \<noteq> 0 \<and> q \<noteq> 1 \<and> has_interval_option i then get_interval_option T q else [])"

definition fragment_option :: "ping_texts \<Rightarrow> ping_iface \<Rightarrow> ping_params \<Rightarrow> string list res" where
  "fragment_option T i p =
     (case fragmentation p of
        None \<Rightarrow> Inr []
      | Some f \<Rightarrow>
          if has_fragment_option i then Inr [''-M'', if f then ''dont'' else ''do'']
          else Raise UnsupportedPingOption (iface_repr T i @ '' ping implementation doesn'' @ CHR 0x27 # ''t support '' @
                 CHR 0x27 # ''fragment='' @ (if f then ''True'' else ''False'') @ CHR 0x27 # '' option''))"

definition timestamp_option :: "ping_iface \<Rightarrow> ping_params \<Rightarrow> string list" where
  "timestamp_option i p = (if timestamps p = Some True \<and> has_timestamp_option i then [''-D''] else [])"

definition get_ping_options :: "ping_texts \<Rightarrow> ping_iface \<Rightarrow> ping_params \<Rightarrow> string list res" where
  "get_ping_options T i p =
     (case get_ping_ip_version p of Inl e \<Rightarrow> Inl e | Inr v \<Rightarrow>
        map_sum id concat
          (map_res id [version_option i v, Inr (interface_option T p), deadline_option i p, count_option p, size_option p,
             Inr (interval_option T i p), fragment_option T i p, Inr (timestamp_option i p)]))"

definition get_ping_command :: "ping_texts \<Rightarrow> ping_iface \<Rightarrow> ping_params \<Rightarrow> string list res" where
  "get_ping_command T i p =
     (case host p of
        None \<Rightarrow> Raise PyValueError (''Invalid destination host: '' @ str_repr ''None'')
      | Some h \<Rightarrow>
          if \<not> address_bool T h
          then Raise PyValueError (''Invalid destination host: '' @ CHR 0x27 # address_text h @ [CHR 0x27])
          else (case get_ping_executable i p of Inl e \<Rightarrow> Inl e | Inr x \<Rightarrow>
                 (case get_ping_options T i p of Inl e \<Rightarrow> Inl e | Inr opts \<Rightarrow> Inr ([x] @ opts @ [address_text h]))))"

section \<open>Properties\<close>

lemma new_manager_interfaces:
  "interfaces new_manager =
     [IpUtilsPingInterface, IpUtilsIpVersionPingInterface, BusyBoxPingInterface, InetToolsPingInterface, BsdPingInterface]"
  by (simp add: new_manager_def add_ping_interface_def)

text \<open>
  The implementation assigned to a client is the first registered one that
  recognises the usage text its ping prints, or the default one when none does; and once it is
  assigned every later request for the client answers the same, whatever ping would print then,
  while the assignments of the other clients stay.
\<close>
theorem ping_interface_assigned:
  assumes "get_ping_interface rt run c m = (Inr i, m')"
  shows "get_ping_interface rt run' c m' = (Inr i, m')
    \<and> (\<forall>d j. client_interfaces m d = Some j \<longrightarrow> client_interfaces m' d = Some j)
    \<and> (client_interfaces m c = None \<longrightarrow>
        (\<exists>usage. get_ping_usage rt (run c) = Inr usage \<and>
          (case filter (\<lambda>k. match_ping_usage k usage) (interfaces m) of [] \<Rightarrow> i = PingInterface | k # _ \<Rightarrow> i = k)))"
proof -
  have first: "first_match u is = (case filter (\<lambda>k. match_ping_usage k u) is of [] \<Rightarrow> None | k # _ \<Rightarrow> Some k)" for u "is"
    by (induction "is") auto
  have keeps: "client_interfaces m' d = Some j" if "client_interfaces m d = Some j" for d j
  proof -
    have "client_interface m' d = Some j"
    proof (rule png.get_keeps[OF assms[unfolded get_ping_interface_def]])
      show "client_interface u k = Some x"
        if "choose_interface rt run c m = (r, u)" "client_interface m k = Some x" for r u k x
        using that by (auto simp: choose_interface_def split: sum.splits)
    qed (use that in \<open>simp add: client_interface_def\<close>)
    then show ?thesis by (simp add: client_interface_def)
  qed
  have chosen: "\<exists>usage. get_ping_usage rt (run c) = Inr usage \<and>
          (case filter (\<lambda>k. match_ping_usage k usage) (interfaces m) of [] \<Rightarrow> i = PingInterface | k # _ \<Rightarrow> i = k)"
    if "client_interfaces m c = None"
  proof -
    from that assms obtain usage where u: "get_ping_usage rt (run c) = Inr usage"
      "i = (case find_ping_interface usage (interfaces m) of Some i \<Rightarrow> i | None \<Rightarrow> PingInterface)"
      by (auto simp: get_ping_interface_def get_or_create_def client_interface_def choose_interface_def split: sum.splits)
    from u(1) have "usage \<noteq> []" by (auto simp: get_ping_usage_def Let_def split: sum.splits if_splits)
    with u first[of usage "interfaces m"] show ?thesis
      by (auto simp: find_ping_interface_def split: list.splits)
  qed
  show ?thesis
    using png.get_again[OF assms[unfolded get_ping_interface_def]] keeps chosen by (simp add: get_ping_interface_def)
qed

definition help_result :: "string \<Rightarrow> execute_result" where
  "help_result text = \<lparr>r_command = ''ping --help'', r_exit_status = Some 2, r_timeout = None, r_status = None, r_login = None,
     r_stdin = None, r_stdout = None, r_stderr = Some text\<rparr>"

lemma busybox_usage: "get_ping_usage (\<lambda>_. []) (Inr (help_result ''BusyBox v1.23.2'')) = Inr ''BusyBox v1.23.2''"
  by code_simp

lemma busybox_chosen: "find_ping_interface ''BusyBox v1.23.2''
   [IpUtilsPingInterface, IpUtilsIpVersionPingInterface, BusyBoxPingInterface, InetToolsPingInterface, BsdPingInterface] = Some BusyBoxPingInterface"
  by code_simp

lemma ping_interface_assigned_witness:
  "\<exists>m'. get_ping_interface (\<lambda>_. []) (\<lambda>_. Inr (help_result ''BusyBox v1.23.2'')) (7::nat) new_manager = (Inr BusyBoxPingInterface, m')
     \<and> get_ping_interface (\<lambda>_. []) (\<lambda>_. Inl (Exn PyValueError [])) 7 m' = (Inr BusyBoxPingInterface, m')"
proof -
  let ?m = "assign_interface (7::nat) BusyBoxPingInterface new_manager"
  have "choose_interface (\<lambda>_. []) (\<lambda>_. Inr (help_result ''BusyBox v1.23.2'')) (7::nat) new_manager =
      (Inr BusyBoxPingInterface, new_manager)"
    by (simp add: choose_interface_def busybox_usage busybox_chosen new_manager_interfaces)
  moreover have "client_interface new_manager (7::nat) = None"
    by (simp add: client_interface_def new_manager_def add_ping_interface_def)
  ultimately have g: "get_ping_interface (\<lambda>_. []) (\<lambda>_. Inr (help_result ''BusyBox v1.23.2'')) (7::nat) new_manager =
      (Inr BusyBoxPingInterface, ?m)"
    by (simp add: get_ping_interface_def get_or_create_def)
  show ?thesis using g ping_interface_assigned[OF g, THEN conjunct1] by blast
qed

lemma map_res_id: "map_res id rs = Inr xs \<Longrightarrow> rs = map Inr xs"
  by (induction rs arbitrary: xs) (auto split: sum.splits)

text \<open>
  The command line made for the parameters: the executable, the options and
  the host. Ping is given a count or a deadline exactly when it is positive, the size of the
  payload that with the headers gives the packet size, and an interval other than one second
  only by an implementation that knows it; a request about fragmentation that the
  implementation does not know never makes a command.
\<close>
theorem ping_command_words:
  assumes "get_ping_command T i p = Inr ws"
  shows "\<exists>x v opts c d h.
    host p = Some h \<and> ws = [x] @ opts @ [address_text h] \<and> count p = Some c \<and> deadline p = Some d \<and>
    get_ping_ip_version p = Inr v \<and> x = (if v = Some 6 \<and> \<not> has_ip_version_option i then ''ping6'' else ''ping'') \<and>
    (\<exists>as bs. opts = as @ (if 0 < c then [''-c'', str_int c] else []) @ bs) \<and>
    (0 < d \<longrightarrow> (\<exists>as bs. opts = as @ [if i = BsdPingInterface then ''-t'' else ''-w'', str_int d] @ bs)) \<and>
    (\<forall>sz. packet_size p = Some sz \<longrightarrow>
       (\<exists>hs. get_ping_header_size p = Inr hs \<and> hs \<le> sz \<and> (hs < sz \<longrightarrow> (\<exists>as bs. opts = as @ [''-s'', str_int (sz - hs)] @ bs)))) \<and>
    (fragmentation p \<noteq> None \<longrightarrow> has_fragment_option i)"
proof -
  from assms obtain h where h: "host p = Some h" "address_bool T h"
    by (auto simp: get_ping_command_def split: option.splits if_splits)
  with assms obtain x opts where x: "get_ping_executable i p = Inr x" and opts: "get_ping_options T i p = Inr opts"
    and ws: "ws = [x] @ opts @ [address_text h]"
    by (auto simp: get_ping_command_def split: sum.splits)
  from opts obtain v where v: "get_ping_ip_version p = Inr v"
    by (auto simp: get_ping_options_def split: sum.splits)
  from opts v obtain z where z: "map_res id [version_option i v, Inr (interface_option T p), deadline_option i p,
       count_option p, size_option p, Inr (interval_option T i p), fragment_option T i p, Inr (timestamp_option i p)] = Inr z"
     "opts = concat z"
    by (simp add: get_ping_options_def map_sum_eq_Inr del: map_res.simps) blast
  from map_res_id[OF z(1)] z(2) obtain o1 o3 o4 o5 o7 where o: "version_option i v = Inr o1" "deadline_option i p = Inr o3"
     "count_option p = Inr o4" "size_option p = Inr o5" "fragment_option T i p = Inr o7"
     and cat: "opts = o1 @ interface_option T p @ o3 @ o4 @ o5 @ interval_option T i p @ o7 @ timestamp_option i p"
    by (auto simp: Cons_eq_map_conv)
  from o(3) obtain c where c: "count p = Some c" "o4 = (if 0 < c then [''-c'', str_int c] else [])"
    by (auto simp: count_option_def none_greater_def split: option.splits)
  from o(2) obtain d where d: "deadline p = Some d" "(if d > 0 then get_deadline_option i p d else Inr []) = Inr o3"
    by (auto simp: deadline_option_def none_greater_def split: option.splits)
  have d3: "\<exists>r. o3 = [if i = BsdPingInterface then ''-t'' else ''-w'', str_int d] @ r" if "0 < d"
    using d(2) that by (auto simp: get_deadline_option_def map_sum_eq_Inr split: ping_iface.splits if_splits)
  have frag: "fragmentation p \<noteq> None \<longrightarrow> has_fragment_option i"
    using o(5) by (auto simp: fragment_option_def split: option.splits if_splits)
  have exe: "x = (if v = Some 6 \<and> \<not> has_ip_version_option i then ''ping6'' else ''ping'')"
    using x v by (auto simp: get_ping_executable_def split: if_splits)
  have size: "\<exists>hs. get_ping_header_size p = Inr hs \<and> hs \<le> sz \<and> (hs < sz \<longrightarrow> o5 = [''-s'', str_int (sz - hs)])"
    if "packet_size p = Some sz" for sz
    using o(4) that by (auto simp: size_option_def get_ping_payload_size_def map_sum_eq_Inr split: sum.splits if_splits)
  have split4: "\<exists>as bs. opts = as @ (if 0 < c then [''-c'', str_int c] else []) @ bs"
    unfolding cat c(2) by (metis append.assoc)
  have split3: "0 < d \<longrightarrow> (\<exists>as bs. opts = as @ [if i = BsdPingInterface then ''-t'' else ''-w'', str_int d] @ bs)"
    unfolding cat using d3 by (metis append.assoc)
  have split5: "\<exists>hs. get_ping_header_size p = Inr hs \<and> hs \<le> sz \<and> (hs < sz \<longrightarrow> (\<exists>as bs. opts = as @ [''-s'', str_int (sz - hs)] @ bs))"
    if "packet_size p = Some sz" for sz
    using size[OF that] unfolding cat by (metis append.assoc)
  show ?thesis
    using h(1) ws c(1) d(1) v exe split4 split3 split5 frag by blast
qed

definition demo_texts :: ping_texts where
  "demo_texts = \<lparr>float_text = (\<lambda>_. ''0.5''), address_bool = (\<lambda>_. True), iface_repr = (\<lambda>_. ''ping'')\<rparr>"

lemma ping_command_words_witness:
  "\<exists>ws. get_ping_command demo_texts BusyBoxPingInterface demo_params = Inr ws \<and>
     (\<exists>as bs. ws = as @ [''-s'', str_int 72] @ bs)"
proof -
  have run: "get_ping_command demo_texts BusyBoxPingInterface demo_params =
     Inr ([''ping''] @ [''-4'', ''-w'', str_int 5, ''-W'', str_int 5, ''-c'', str_int 1, ''-s'', str_int 72] @ [''10.0.0.1''])"
    by (simp add: get_ping_command_def demo_params_def demo_texts_def get_ping_executable_def get_ping_options_def
        get_ping_ip_version_def version_option_def interface_option_def deadline_option_def get_deadline_option_def
        count_option_def size_option_def get_ping_payload_size_def get_ping_header_size_def ip_header_size_def
        icmp_header_size_def interval_option_def fragment_option_def timestamp_option_def)
  have hs: "get_ping_header_size demo_params = Inr 28"
    by (simp add: get_ping_header_size_def get_ping_ip_version_def demo_params_def ip_header_size_def icmp_header_size_def)
  obtain x opts h where ws: "[''ping''] @ [''-4'', ''-w'', str_int 5, ''-W'', str_int 5, ''-c'', str_int 1, ''-s'', str_int 72] @ [''10.0.0.1'']
       = [x] @ opts @ [address_text h]"
     and sz: "\<forall>sz. packet_size demo_params = Some sz \<longrightarrow>
       (\<exists>hs. get_ping_header_size demo_params = Inr hs \<and> hs \<le> sz \<and> (hs < sz \<longrightarrow> (\<exists>as bs. opts = as @ [''-s'', str_int (sz - hs)] @ bs)))"
    using ping_command_words[OF run] by blast
  from sz hs obtain as bs where "opts = as @ [''-s'', str_int 72] @ bs" by (auto simp: demo_params_def)
  then have "[x] @ opts @ [address_text h] = (x # as) @ [''-s'', str_int 72] @ (bs @ [address_text h])" by simp
  with run ws show ?thesis by metis
qed

end
