(* ===== verification/Ping_Run.thy ===== *)
theory Ping_Run
  imports Ping_Interface Retry_Runs
begin

text \<open>
  tobiko/shell/ping/_ping.py: executing ping until enough messages are counted or the time
  is over, the errors that its output stands for, pinging a list of hosts and waiting for
  them. Running the command and the clock belong to the environment \<open>ping_env\<close>.
\<close>

section \<open>Errors\<close>

definition PingError :: pyclass where
  "PingError = [''PingError'', ''PingException''] @ TobikoException"
definition LocalPingError :: pyclass where
  "LocalPingError = ''LocalPingError'' # PingError"
definition SendToPingError :: pyclass where
  "SendToPingError = ''SendToPingError'' # PingError"
definition ConnectPingError :: pyclass where
  "ConnectPingError = ''ConnectPingError'' # PingError"
definition UnknowHostError :: pyclass where
  "UnknowHostError = ''UnknowHostError'' # PingError"
definition BadAddressPingError :: pyclass where
  "BadAddressPingError = ''BadAddressPingError'' # PingError"
definition PingFailed :: pyclass where
  "PingFailed = [''PingFailed'', ''PingError'', ''PingException'', ''TobikoException'', ''AssertionError''] @ PyException"
definition UnreachableHostsException :: pyclass where
  "UnreachableHostsException = ''UnreachableHostsException'' # PingFailed"
definition ReachableHostsException :: pyclass where
  "ReachableHostsException = ''ReachableHostsException'' # PingFailed"
definition PyUnboundLocalError :: pyclass where
  "PyUnboundLocalError = [''UnboundLocalError'', ''NameError''] @ PyException"

lemmas ping_class_defs [exn_classes] =
  PingError_def LocalPingError_def SendToPingError_def ConnectPingError_def UnknowHostError_def
  BadAddressPingError_def PingFailed_def UnreachableHostsException_def ReachableHostsException_def PyUnboundLocalError_def

text \<open>The handlers raise (Inl) or return.\<close>

definition handle_prefix :: "string \<Rightarrow> pyclass \<Rightarrow> string \<Rightarrow> unit res" where
  "handle_prefix p c text = (if prefix p text then Raise c (strip (drop (length p) text)) else Inr ())"

definition handle_suffix :: "string \<Rightarrow> pyclass \<Rightarrow> string \<Rightarrow> unit res" where
  "handle_suffix p c text = (if suffix p text then Raise c (strip (take (length text - length p) text)) else Inr ())"

definition handle_ping_bad_address_error :: "string \<Rightarrow> unit res" where
  "handle_ping_bad_address_error text =
     (if prefix ''bad address '' text
      then Raise BadAddressPingError (''bad address: '' @
             strip (filter (\<lambda>c. c \<noteq> CHR 0x27) (drop (length ''bad address '') text)))
      else Inr ())"

definition handle_ping_local_error :: "string \<Rightarrow> unit res" where
  "handle_ping_local_error = handle_prefix ''local error: '' LocalPingError"

definition handle_ping_connect_error :: "string \<Rightarrow> unit res" where
  "handle_ping_connect_error = handle_prefix ''connect: '' ConnectPingError"

definition handle_ping_send_to_error :: "string \<Rightarrow> unit res" where
  "handle_ping_send_to_error = handle_prefix ''sendto: '' SendToPingError"

fun first_raise :: "unit res list \<Rightarrow> unit res" where
  "first_raise [] = Inr ()"
| "first_raise (r # rs) = (case r of Inl e \<Rightarrow> Inl e | Inr _ \<Rightarrow> first_raise rs)"

definition handle_ping_unknow_host_error :: "string \<Rightarrow> unit res" where
  "handle_ping_unknow_host_error text =
     first_raise
       [handle_prefix ''unknown host'' UnknowHostError text,
        handle_prefix ''unreachable-host: '' UnknowHostError text,
        handle_suffix '': Name or service not known'' UnknowHostError text,
        handle_suffix '': No route to host'' UnknowHostError text,
        (if suffix '': Unknown host'' text
         then (let ws = split_ws (strip (take (length text - length '': Unknown host'') text))
               in if ws = [] then Raise PyIndexError ''list index out of range''
                  else Raise UnknowHostError (List.last ws))
         else Inr ())]"

definition handle_error_line :: "string \<Rightarrow> unit res" where
  "handle_error_line err =
     (let err = (if prefix ''ping: '' err then drop (length ''ping: '') err else err)
      in first_raise
           [handle_ping_bad_address_error err, handle_ping_local_error err, handle_ping_connect_error err,
            handle_ping_send_to_error err, handle_ping_unknow_host_error err, Raise PingError err])"

fun handle_error_lines :: "string list \<Rightarrow> unit res" where
  "handle_error_lines [] = Inr ()"
| "handle_error_lines (l # ls) =
     (if strip l \<noteq> [] then (case handle_error_line (strip l) of Inl e \<Rightarrow> Inl e | Inr _ \<Rightarrow> handle_error_lines ls)
      else handle_error_lines ls)"

definition handle_ping_command_error :: "string \<Rightarrow> unit res" where
  "handle_ping_command_error error_text = handle_error_lines (splitlines error_text)"

section \<open>Executing ping once\<close>

record 'w ping_env =
  env_now :: "'w \<Rightarrow> rat"
  env_sleep :: "rat \<Rightarrow> 'w \<Rightarrow> 'w"
  env_lib :: number_lib
  env_conf :: ping_args
  env_texts :: ping_texts
  env_interface :: "('w, ping_iface) act"
  env_execute :: "string list \<Rightarrow> rat \<Rightarrow> string option \<Rightarrow> ('w, execute_result) act"
  exn_stdout :: "exn \<Rightarrow> string option"
  exn_stderr :: "exn \<Rightarrow> string option"

definition ping_command_act :: "'w ping_env \<Rightarrow> ping_params \<Rightarrow> ('w, string list) act" where
  "ping_command_act E p =
     bindA (env_interface E) (\<lambda>i w. (get_ping_command (env_texts E) i p, w))"

text \<open>The local variable \<open>result\<close> is bound only when the command ran, so \<open>status\<close> is an option.\<close>

definition ping_output :: "bool \<Rightarrow> string option \<Rightarrow> string option \<Rightarrow> int option option \<Rightarrow> string option res" where
  "ping_output check out err status =
     (let output = (case out of Some t \<Rightarrow> if t \<noteq> [] then Some t else None | None \<Rightarrow> None)
      in case err of
           None \<Rightarrow> Inr output
         | Some t \<Rightarrow>
             if t = [] \<or> \<not> check then Inr output
             else (case status of
                     None \<Rightarrow> Raise PyUnboundLocalError ''local variable result referenced before assignment''
                   | Some st \<Rightarrow>
                       if st = None \<or> st = Some 0 then Inr output
                       else (case handle_ping_command_error t of Inl e \<Rightarrow> Inl e | Inr _ \<Rightarrow> Inr output)))"

definition execute_ping :: "'w ping_env \<Rightarrow> bool \<Rightarrow> ping_params \<Rightarrow> ('w, string option) act" where
  "execute_ping E check p w =
     (case ping_command_act E p w of
        (Inl e, w1) \<Rightarrow> (Inl e, w1)
      | (Inr command, w1) \<Rightarrow>
          (case deadline p of
             None \<Rightarrow> (Raise PyTypeError ''unsupported operand type(s) for +'', w1)
           | Some d \<Rightarrow>
               (case env_execute E command (of_int d + 3) (network_namespace p) w1 of
                  (Inr r, w2) \<Rightarrow> (ping_output check (r_stdout r) (r_stderr r) (Some (r_exit_status r)), w2)
                | (Inl e, w2) \<Rightarrow>
                    if catches [ShellError, RetryLimitError] e
                    then (ping_output check (exn_stdout E e) (exn_stderr E e) None, w2)
                    else (Inl e, w2))))"

section \<open>Executing ping until enough messages are counted\<close>

datatype message_type = TRANSMITTED | DELIVERED | UNDELIVERED | RECEIVED | UNRECEIVED

record iter_state =
  it_now :: rat
  it_deadline :: int
  it_transmitted :: int
  it_received :: int
  it_undelivered :: int
  it_count :: int
  it_enlapsed :: "rat option"

definition counted :: "message_type option \<Rightarrow> int \<Rightarrow> int \<Rightarrow> int \<Rightarrow> int" where
  "counted u t r ud =
     (case u of
        None \<Rightarrow> 0
      | Some TRANSMITTED \<Rightarrow> t
      | Some DELIVERED \<Rightarrow> t - ud
      | Some UNDELIVERED \<Rightarrow> ud
      | Some RECEIVED \<Rightarrow> r
      | Some UNRECEIVED \<Rightarrow> t - r)"

definition execute_parameters ::
  "'w ping_env \<Rightarrow> ping_params \<Rightarrow> int \<Rightarrow> message_type option \<Rightarrow> rat \<Rightarrow> iter_state \<Rightarrow> ping_params res" where
  "execute_parameters E p n until end_of_time st =
     (let left = n - it_count st;
          args = no_args\<lparr>a_deadline := Some (NInt (it_deadline st)), a_timeout := Some (NFloat (end_of_time - it_now st))\<rparr>
      in if until = Some RECEIVED
         then get_ping_parameters (env_lib E) (env_conf E) (Some p) (Some (args\<lparr>a_count := Some (NInt left)\<rparr>))
         else (case interval p of
                 None \<Rightarrow> Raise PyTypeError ''unsupported operand type(s) for *''
               | Some q \<Rightarrow>
                   (let limit = q * of_int (it_deadline st)
                    in get_ping_parameters (env_lib E) (env_conf E) (Some p)
                         (Some (args\<lparr>a_count := Some (if limit < of_int left then NFloat limit else NInt left)\<rparr>)))))"

definition loop_sleep :: "'w ping_env \<Rightarrow> iter_state \<Rightarrow> 'w \<Rightarrow> 'w" where
  "loop_sleep E st w =
     (case it_enlapsed st of
        Some e \<Rightarrow> if e < of_int (it_deadline st) then env_sleep E (of_int (it_deadline st) - e) w else w
      | None \<Rightarrow> w)"

text \<open>
  What the generator yields goes to \<open>consume\<close>, the body of the loop of its caller. Without
  output one message is counted as transmitted and undelivered.
\<close>

definition count_output ::
  "'w ping_env \<Rightarrow> (ping_statistics \<Rightarrow> 'a \<Rightarrow> 'a res) \<Rightarrow> iter_state \<Rightarrow> 'a \<Rightarrow> string option \<Rightarrow> 'w \<Rightarrow> (iter_state \<times> 'a) res" where
  "count_output E consume st acc output w =
     (case output of
        None \<Rightarrow> Inr (st\<lparr>it_transmitted := it_transmitted st + 1, it_undelivered := it_undelivered st + 1\<rparr>, acc)
      | Some text \<Rightarrow>
          (let s = parse_ping_statistics (env_lib E) text (Some (it_now st)) (Some (env_now E w))
           in map_sum id (\<lambda>acc'.
                (st\<lparr>it_transmitted := it_transmitted st + transmitted s, it_received := it_received st + received s,
                    it_undelivered := it_undelivered st + undelivered s\<rparr>, acc'))
                (consume s acc)))"

definition end_turn :: "'w ping_env \<Rightarrow> int \<Rightarrow> message_type option \<Rightarrow> rat \<Rightarrow> rat \<Rightarrow> 'w \<Rightarrow> iter_state \<Rightarrow> iter_state" where
  "end_turn E max_deadline until end_of_time start w st =
     (let n = env_now E w
      in st\<lparr>it_count := counted until (it_transmitted st) (it_received st) (it_undelivered st), it_now := n,
            it_deadline := min (trunc (end_of_time - n)) max_deadline, it_enlapsed := Some (n - start)\<rparr>)"

definition iter_turn ::
  "'w ping_env \<Rightarrow> ping_params \<Rightarrow> int \<Rightarrow> int \<Rightarrow> message_type option \<Rightarrow> bool \<Rightarrow> rat \<Rightarrow> (ping_statistics \<Rightarrow> 'a \<Rightarrow> 'a res) \<Rightarrow>
   iter_state \<Rightarrow> 'a \<Rightarrow> ('w, iter_state \<times> 'a) act" where
  "iter_turn E p n max_deadline until check end_of_time consume st acc w =
     (let w1 = loop_sleep E st w; start = env_now E w1
      in case execute_parameters E p n until end_of_time st of
           Inl e \<Rightarrow> (Inl e, w1)
         | Inr q \<Rightarrow>
             (case execute_ping E check q w1 of
                (Inl e, w2) \<Rightarrow> (Inl e, w2)
              | (Inr output, w2) \<Rightarrow>
                  (map_sum id (\<lambda>(st', acc'). (end_turn E max_deadline until end_of_time start w2 st', acc'))
                     (count_output E consume st acc output w2), w2)))"

partial_function (option) iter_loop ::
  "'w ping_env \<Rightarrow> ping_params \<Rightarrow> int \<Rightarrow> int \<Rightarrow> message_type option \<Rightarrow> bool \<Rightarrow> rat \<Rightarrow> (ping_statistics \<Rightarrow> 'a \<Rightarrow> 'a res) \<Rightarrow>
   iter_state \<Rightarrow> 'a \<Rightarrow> 'w \<Rightarrow> ((iter_state \<times> 'a) res \<times> 'w) option" where
  "iter_loop E p n max_deadline until check end_of_time consume st acc w =
     (if 0 < it_deadline st \<and> it_count st < n
      then (case iter_turn E p n max_deadline until check end_of_time consume st acc w of
              (Inl e, w') \<Rightarrow> Some (Inl e, w')
            | (Inr r, w') \<Rightarrow> iter_loop E p n max_deadline until check end_of_time consume (fst r) (snd r) w')
      else Some (Inr (st, acc), w))"

fun type_name :: "message_type \<Rightarrow> string" where
  "type_name TRANSMITTED = ''transmitted''"
| "type_name DELIVERED = ''delivered''"
| "type_name UNDELIVERED = ''undelivered''"
| "type_name RECEIVED = ''received''"
| "type_name UNRECEIVED = ''unreceived''"

definition ping_failed :: "int \<Rightarrow> int \<Rightarrow> int \<Rightarrow> message_type \<Rightarrow> exn" where
  "ping_failed t c n u =
     Exn PingFailed (''timeout of '' @ str_int t @ '' seconds expired after counting only '' @ str_int c @
       '' out of expected '' @ str_int n @ '' ICMP messages of type '' @ str_repr (type_name u))"

definition first_state :: "rat \<Rightarrow> int \<Rightarrow> iter_state" where
  "first_state n d = \<lparr>it_now = n, it_deadline = d, it_transmitted = 0, it_received = 0, it_undelivered = 0,
     it_count = 0, it_enlapsed = None\<rparr>"

definition iter_statistics ::
  "'w ping_env \<Rightarrow> ping_params \<Rightarrow> message_type option \<Rightarrow> bool \<Rightarrow> (ping_statistics \<Rightarrow> 'a \<Rightarrow> 'a res) \<Rightarrow> 'a \<Rightarrow> 'w \<Rightarrow>
   ('a res \<times> 'w) option" where
  "iter_statistics E p until check consume acc w =
     (case (timeout p, deadline p) of
        (Some t, Some d) \<Rightarrow>
          (case count p of
             None \<Rightarrow> if 0 < d \<or> until \<noteq> None then Some (Raise PyTypeError ''< not supported'', w) else Some (Inr acc, w)
           | Some n \<Rightarrow>
               (case iter_loop E p n d until check (env_now E w + of_int t) consume (first_state (env_now E w) d) acc w of
                  None \<Rightarrow> None
                | Some (Inl e, w') \<Rightarrow> Some (Inl e, w')
                | Some (Inr (st, acc'), w') \<Rightarrow>
                    Some (case until of
                            None \<Rightarrow> Inr acc'
                          | Some u \<Rightarrow> if it_count st < n then Inl (ping_failed t (it_count st) n u) else Inr acc', w')))
      | _ \<Rightarrow> Some (Raise PyTypeError ''unsupported operand type(s)'', w))"

definition get_statistics ::
  "'w ping_env \<Rightarrow> ping_params option \<Rightarrow> ping_args option \<Rightarrow> message_type option \<Rightarrow> bool \<Rightarrow> 'w \<Rightarrow> (ping_statistics res \<times> 'w) option" where
  "get_statistics E dflt args until check w =
     (case get_ping_parameters (env_lib E) (env_conf E) dflt args of
        Inl e \<Rightarrow> Some (Inl e, w)
      | Inr p \<Rightarrow>
          iter_statistics E p until check (\<lambda>s acc. statistics_add (address_bool (env_texts E)) acc s) no_statistics w)"

section \<open>Lists of hosts\<close>

text \<open>\<open>ping\<close> is the function \<open>ping\<close> with the count and the other parameters of the call.\<close>

fun ping_hosts_loop :: "('h \<Rightarrow> ('w, ping_statistics) act) \<Rightarrow> 'h list \<Rightarrow> 'h list \<times> 'h list \<Rightarrow> ('w, 'h list \<times> 'h list) act" where
  "ping_hosts_loop ping [] ru w = (Inr ru, w)"
| "ping_hosts_loop ping (h # hs) (r, u) w =
     (case ping h w of
        (Inl e, w') \<Rightarrow>
          if isinstance_exn e PingError then ping_hosts_loop ping hs (r, u @ [h]) w' else (Inl e, w')
      | (Inr s, w') \<Rightarrow>
          if received s \<noteq> 0 then ping_hosts_loop ping hs (r @ [h], u) w' else ping_hosts_loop ping hs (r, u @ [h]) w')"

definition ping_hosts :: "(int \<Rightarrow> 'h \<Rightarrow> ('w, ping_statistics) act) \<Rightarrow> int option \<Rightarrow> 'h list \<Rightarrow> ('w, 'h list \<times> 'h list) act" where
  "ping_hosts ping count_arg hosts = ping_hosts_loop (ping (case count_arg of None \<Rightarrow> 1 | Some c \<Rightarrow> c)) hosts ([], [])"

definition list_reachable_hosts :: "(int \<Rightarrow> 'h \<Rightarrow> ('w, ping_statistics) act) \<Rightarrow> int option \<Rightarrow> 'h list \<Rightarrow> ('w, 'h list) act" where
  "list_reachable_hosts ping count_arg hosts = bindA (ping_hosts ping count_arg hosts) (\<lambda>(r, u). ret r)"

definition list_unreachable_hosts :: "(int \<Rightarrow> 'h \<Rightarrow> ('w, ping_statistics) act) \<Rightarrow> int option \<Rightarrow> 'h list \<Rightarrow> ('w, 'h list) act" where
  "list_unreachable_hosts ping count_arg hosts = bindA (ping_hosts ping count_arg hosts) (\<lambda>(r, u). ret u)"

text \<open>The variable \<open>hosts\<close> of the loop is part of its state; \<open>report\<close> is the message with the hosts.\<close>

definition wait_turn ::
  "(int \<Rightarrow> 'h \<Rightarrow> ('w, ping_statistics) act) \<Rightarrow> int option \<Rightarrow> bool \<Rightarrow> ('h list \<Rightarrow> retry_attempt \<Rightarrow> string) \<Rightarrow>
   retry_attempt \<Rightarrow> ('w \<times> 'h list, unit turn) act" where
  "wait_turn ping count_arg check_unreachable report attempt s =
     (case ping_hosts ping count_arg (snd s) (fst s) of
        (Inl e, w) \<Rightarrow> (Inl e, (w, snd s))
      | (Inr (r, u), w) \<Rightarrow>
          (let hosts = (if check_unreachable then r else u)
           in if hosts = [] then (Inr (Done ()), (w, hosts))
              else (case is_last None attempt of
                      Inl e \<Rightarrow> (Inl e, (w, hosts))
                    | Inr True \<Rightarrow>
                        (Raise (if check_unreachable then ReachableHostsException else UnreachableHostsException)
                           (report hosts attempt), (w, hosts))
                    | Inr False \<Rightarrow> (Inr Next, (w, hosts)))))"

definition wait_for_ping_hosts ::
  "('w \<Rightarrow> rat) \<Rightarrow> (rat \<Rightarrow> 'w \<Rightarrow> 'w) \<Rightarrow> (int \<Rightarrow> 'h \<Rightarrow> ('w, ping_statistics) act) \<Rightarrow> ('h list \<Rightarrow> retry_attempt \<Rightarrow> string) \<Rightarrow>
   int option \<Rightarrow> bool \<Rightarrow> int option \<Rightarrow> rat option \<Rightarrow> rat option \<Rightarrow> rat option \<Rightarrow> 'h list \<Rightarrow> 'w \<Rightarrow>
   (unit res \<times> ('w \<times> 'h list)) option" where
  "wait_for_ping_hosts now slp ping report count_arg check_unreachable retry_count retry_timeout retry_interval timeout_param hosts w =
     retry_iter (\<lambda>s. now (fst s)) (\<lambda>d s. (slp d (fst s), snd s))
       (retry None retry_count (case retry_timeout of None \<Rightarrow> timeout_param | Some t \<Rightarrow> Some t) None retry_interval
          None (Some 300) None (Some 5))
       (wait_turn ping count_arg check_unreachable report) (w, hosts)"

section \<open>Ending\<close>

text \<open>The clock does not go back, sleeping waits at least as long as asked.\<close>

definition clock_forward :: "'w ping_env \<Rightarrow> bool" where
  "clock_forward E =
     ((\<forall>d w. 0 \<le> d \<longrightarrow> env_now E w + d \<le> env_now E (env_sleep E d w)) \<and>
      (\<forall>w r w'. env_interface E w = (r, w') \<longrightarrow> env_now E w \<le> env_now E w') \<and>
      (\<forall>c t ns w r w'. env_execute E c t ns w = (r, w') \<longrightarrow> env_now E w \<le> env_now E w'))"

lemma execute_ping_forward:
  assumes "clock_forward E" and "execute_ping E check p w = (r, w')"
  shows "env_now E w \<le> env_now E w'"
proof -
  obtain c w1 where c: "ping_command_act E p w = (c, w1)" by fastforce
  then have w1: "env_now E w \<le> env_now E w1"
    using assms(1) by (auto simp: ping_command_act_def bindA_def clock_forward_def split: prod.splits sum.splits)
  show ?thesis
  proof (cases "\<exists>command d. c = Inr command \<and> deadline p = Some d")
    case True
    then obtain command d where cd: "c = Inr command" "deadline p = Some d" by blast
    obtain x w2 where x: "env_execute E command (of_int d + 3) (network_namespace p) w1 = (x, w2)" by fastforce
    with assms(1) have "env_now E w1 \<le> env_now E w2" unfolding clock_forward_def by blast
    moreover have "w' = w2"
      using assms(2) c cd x by (auto simp: execute_ping_def split: sum.splits if_splits)
    ultimately show ?thesis using w1 by simp
  next
    case False
    with assms(2) c w1 show ?thesis by (auto simp: execute_ping_def split: sum.splits option.splits)
  qed
qed

lemma sleep_forward:
  assumes "clock_forward E" and "it_now st \<le> env_now E w"
  shows "it_now st \<le> env_now E (loop_sleep E st w)"
    and "it_enlapsed st = Some e \<Longrightarrow> it_now st - e + of_int (it_deadline st) \<le> env_now E (loop_sleep E st w)"
proof -
  have sl: "env_now E w + d \<le> env_now E (env_sleep E d w)" if "0 \<le> d" for d
    using assms(1) that by (auto simp: clock_forward_def)
  show "it_now st \<le> env_now E (loop_sleep E st w)"
    using assms(2) sl[of "of_int (it_deadline st) - the (it_enlapsed st)"]
    by (auto simp: loop_sleep_def split: option.splits)
  show "it_now st - e + of_int (it_deadline st) \<le> env_now E (loop_sleep E st w)" if "it_enlapsed st = Some e"
    using assms(2) that sl[of "of_int (it_deadline st) - e"] by (auto simp: loop_sleep_def)
qed

text \<open>What a turn leaves: it started after its sleep, and the new state is as of its end.\<close>

lemma iter_turn_state:
  assumes "clock_forward E" and "it_now st \<le> env_now E w"
    and "iter_turn E p n m until check eot consume st acc w = (Inr (st', acc'), w')"
  shows "it_now st' = env_now E w'" and "it_deadline st' \<le> trunc (eot - it_now st')"
    and "\<exists>e. it_enlapsed st' = Some e \<and> 0 \<le> e \<and> it_now st' - e = env_now E (loop_sleep E st w)"
proof -
  from assms(3) obtain q out where q: "execute_ping E check q (loop_sleep E st w) = (Inr out, w')"
    and "map_sum id (\<lambda>(s, a). (end_turn E m until eot (env_now E (loop_sleep E st w)) w' s, a))
           (count_output E consume st acc out w') = Inr (st', acc')"
    by (auto simp: iter_turn_def Let_def split: sum.splits prod.splits)
  then obtain s where st': "st' = end_turn E m until eot (env_now E (loop_sleep E st w)) w' s"
    by (auto simp: map_sum_eq_Inr)
  from execute_ping_forward[OF assms(1) q] have "env_now E (loop_sleep E st w) \<le> env_now E w'" .
  then show "it_now st' = env_now E w'" "it_deadline st' \<le> trunc (eot - it_now st')"
    "\<exists>e. it_enlapsed st' = Some e \<and> 0 \<le> e \<and> it_now st' - e = env_now E (loop_sleep E st w)"
    unfolding st' by (simp_all add: end_turn_def Let_def)
qed

lemma trunc_positive: "0 < trunc q \<Longrightarrow> 1 \<le> q"
  by (cases "0 \<le> q") (auto simp: trunc_def le_floor_iff)

lemma iter_loop_stop:
  "\<not> (0 < it_deadline st \<and> it_count st < n) \<Longrightarrow>
   iter_loop E p n m until check eot consume st acc w = Some (Inr (st, acc), w)"
  by (subst iter_loop.simps) (simp only: if_False)

lemma iter_loop_turn:
  assumes "0 < it_deadline st \<and> it_count st < n" and "iter_turn E p n m until check eot consume st acc w = (r, w')"
  shows "iter_loop E p n m until check eot consume st acc w =
    (case r of Inl e \<Rightarrow> Some (Inl e, w') | Inr x \<Rightarrow> iter_loop E p n m until check eot consume (fst x) (snd x) w')"
  by (subst iter_loop.simps) (simp add: assms split: sum.split)

lemma iter_loop_ends:
  assumes "clock_forward E"
  shows "it_enlapsed st = Some e \<Longrightarrow> 0 \<le> e \<Longrightarrow> it_now st \<le> env_now E w \<Longrightarrow>
    it_deadline st \<le> trunc (eot - it_now st) \<Longrightarrow> eot - (it_now st - e) < of_nat k \<Longrightarrow>
    \<exists>y. iter_loop E p n m until check eot consume st acc w = Some y"
proof (induction k arbitrary: st acc w e)
  case 0
  then have "eot - it_now st < 0" by simp
  then have "\<not> 0 < trunc (eot - it_now st)" using trunc_positive by force
  with 0 show ?case by (simp add: iter_loop_stop)
next
  case (Suc k)
  show ?case
  proof (cases "0 < it_deadline st \<and> it_count st < n")
    case True
    obtain r w' where turn: "iter_turn E p n m until check eot consume st acc w = (r, w')" by fastforce
    show ?thesis
    proof (cases r)
      case (Inl x)
      with iter_loop_turn[OF True turn] show ?thesis by simp
    next
      case (Inr sa)
      obtain st' acc' where sa: "sa = (st', acc')" by fastforce
      from Inr sa turn have t: "iter_turn E p n m until check eot consume st acc w = (Inr (st', acc'), w')" by simp
      note st' = iter_turn_state[OF assms Suc.prems(3) t]
      from st'(3) obtain e' where e': "it_enlapsed st' = Some e'" "0 \<le> e'" "it_now st' - e' = env_now E (loop_sleep E st w)"
        by blast
      have "1 \<le> it_deadline st" using True by simp
      then have "(1::rat) \<le> of_int (it_deadline st)" by (metis of_int_1_le_iff)
      with sleep_forward(2)[OF assms Suc.prems(3,1)] e'(3) have "it_now st - e + 1 \<le> it_now st' - e'" by linarith
      with Suc.prems(5) have "eot - (it_now st' - e') < of_nat k" by simp
      with Suc.IH[OF e'(1,2) _ st'(2)] st'(1) obtain y where
        "iter_loop E p n m until check eot consume st' acc' w' = Some y" by fastforce
      with iter_loop_turn[OF True t] show ?thesis by simp
    qed
  qed (simp add: iter_loop_stop)
qed

lemma iter_loop_total:
  assumes "clock_forward E" and "it_enlapsed st = None" and "it_now st \<le> env_now E w"
  shows "\<exists>y. iter_loop E p n m until check eot consume st acc w = Some y"
proof (cases "0 < it_deadline st \<and> it_count st < n")
  case True
  obtain r w' where turn: "iter_turn E p n m until check eot consume st acc w = (r, w')" by fastforce
  show ?thesis
  proof (cases r)
    case (Inl x)
    with iter_loop_turn[OF True turn] show ?thesis by simp
  next
    case (Inr sa)
    obtain st' acc' where sa: "sa = (st', acc')" by fastforce
    from Inr sa turn have t: "iter_turn E p n m until check eot consume st acc w = (Inr (st', acc'), w')" by simp
    note st' = iter_turn_state[OF assms(1,3) t]
    from st'(3) obtain e' where e': "it_enlapsed st' = Some e'" "0 \<le> e'" by blast
    obtain k :: nat where "eot - (it_now st' - e') < of_nat k" using reals_Archimedean2 by blast
    from iter_loop_ends[OF assms(1) e' _ st'(2) this, of w'] st'(1) obtain y where
      "iter_loop E p n m until check eot consume st' acc' w' = Some y" by fastforce
    with iter_loop_turn[OF True t] show ?thesis by simp
  qed
qed (simp add: iter_loop_stop)

text \<open>
  Property (C17). Pinging ends, whatever the command answers and however long it takes, when the
  clock does not go back and sleeping waits as long as asked: every turn but the first starts
  at least a second after the one before, and none starts when less than a second is left.
\<close>
theorem get_statistics_ends:
  assumes "clock_forward E"
  shows "\<exists>r w'. get_statistics E dflt args until check w = Some (r, w')"
proof (cases "get_ping_parameters (env_lib E) (env_conf E) dflt args")
  case (Inr p)
  let ?c = "\<lambda>s acc. statistics_add (address_bool (env_texts E)) acc s"
  have loop: "\<exists>x v. iter_loop E p n d until check eot ?c (first_state (env_now E w) d) no_statistics w = Some (x, v)" for n d eot
    using iter_loop_total[OF assms, of "first_state (env_now E w) d" w] by (simp add: first_state_def)
  have "\<exists>x v. iter_statistics E p until check ?c no_statistics w = Some (x, v)"
  proof (cases "\<exists>t d n. timeout p = Some t \<and> deadline p = Some d \<and> count p = Some n")
    case True
    then obtain t d n where f: "timeout p = Some t" "deadline p = Some d" "count p = Some n" by blast
    from loop[of n d "env_now E w + of_int t"] obtain x v where
      "iter_loop E p n d until check (env_now E w + of_int t) ?c (first_state (env_now E w) d) no_statistics w = Some (x, v)" by blast
    with f show ?thesis by (cases x) (auto simp: iter_statistics_def)
  next
    case False
    then show ?thesis by (auto simp: iter_statistics_def split: option.split)
  qed
  with Inr show ?thesis by (simp add: get_statistics_def)
qed (simp add: get_statistics_def)

section \<open>Counting\<close>

lemma iter_loop_inv:
  assumes "iter_loop E p n m until check eot consume st acc w = Some y"
    and "\<And>s a v s' a' v'. I s a \<Longrightarrow> iter_turn E p n m until check eot consume s a v = (Inr (s', a'), v') \<Longrightarrow> I s' a'"
    and "I st acc"
  shows "case fst y of Inl _ \<Rightarrow> True | Inr (st', acc') \<Rightarrow> I st' acc' \<and> \<not> (0 < it_deadline st' \<and> it_count st' < n)"
proof -
  let ?Q = "\<lambda>st acc y. I st acc \<longrightarrow>
      (case fst y of Inl _ \<Rightarrow> True | Inr (st', acc') \<Rightarrow> I st' acc' \<and> \<not> (0 < it_deadline st' \<and> it_count st' < n))"
  let ?P = "\<lambda>E' p' n' m' u' c' e' k' st acc w y.
    E' = E \<and> p' = p \<and> n' = n \<and> m' = m \<and> u' = until \<and> c' = check \<and> e' = eot \<and> k' = consume \<longrightarrow> ?Q st acc y"
  have "?P E p n m until check eot consume st acc w y"
  proof (rule iter_loop.raw_induct[where P = ?P, OF _ assms(1)])
    fix loop and E' :: "'b ping_env" and p' n' m' u' c' e' k' and st acc and w :: 'b and y
    assume IH: "\<And>E' p' n' m' u' c' e' k' st acc w y. loop E' p' n' m' u' c' e' k' st acc w = Some y \<Longrightarrow> ?P E' p' n' m' u' c' e' k' st acc w y"
      and eq: "(if 0 < it_deadline st \<and> it_count st < n'
        then (case iter_turn E' p' n' m' u' c' e' k' st acc w of
                (Inl e, w') \<Rightarrow> Some (Inl e, w')
              | (Inr r, w') \<Rightarrow> loop E' p' n' m' u' c' e' k' (fst r) (snd r) w')
        else Some (Inr (st, acc), w)) = Some y"
    show "?P E' p' n' m' u' c' e' k' st acc w y"
    proof (intro impI)
      assume same: "E' = E \<and> p' = p \<and> n' = n \<and> m' = m \<and> u' = until \<and> c' = check \<and> e' = eot \<and> k' = consume"
        and inv: "I st acc"
      obtain r w' where turn: "iter_turn E p n m until check eot consume st acc w = (r, w')" by fastforce
      show "case fst y of Inl _ \<Rightarrow> True | Inr (st', acc') \<Rightarrow> I st' acc' \<and> \<not> (0 < it_deadline st' \<and> it_count st' < n)"
      proof (cases "0 < it_deadline st \<and> it_count st < n")
        case True
        show ?thesis
        proof (cases r)
          case (Inr x)
          with True eq same turn have "loop E p n m until check eot consume (fst x) (snd x) w' = Some y" by simp
          from IH[OF this] assms(2)[OF inv, of w "fst x" "snd x" w'] turn Inr show ?thesis by simp
        qed (use True eq same turn in auto)
      qed (use eq same inv in auto)
    qed
  qed
  with assms(3) show ?thesis by blast
qed

definition counts_agree :: "message_type option \<Rightarrow> iter_state \<Rightarrow> ping_statistics \<Rightarrow> bool" where
  "counts_agree u st s =
     (it_received st = received s \<and> it_transmitted st - it_undelivered st = transmitted s - undelivered s \<and>
      it_count st = counted u (it_transmitted st) (it_received st) (it_undelivered st))"

lemma statistics_add_counts:
  "statistics_add nz a b = Inr c \<Longrightarrow> transmitted c = transmitted a + transmitted b \<and>
     received c = received a + received b \<and> undelivered c = undelivered a + undelivered b"
  by (auto simp: statistics_add_def split: sum.splits)

lemma counts_agree_turn:
  assumes "counts_agree u st s"
    and "iter_turn E p n m u check eot (\<lambda>s acc. statistics_add nz acc s) st s w = (Inr (st', s'), w')"
  shows "counts_agree u st' s'"
proof -
  from assms(2) obtain start out st1 where st1: "count_output E (\<lambda>s acc. statistics_add nz acc s) st s out w' = Inr (st1, s')"
      "st' = end_turn E m u eot start w' st1"
    by (auto simp: iter_turn_def Let_def map_sum_eq_Inr split: sum.splits prod.splits)
  have "it_received st1 = received s' \<and> it_transmitted st1 - it_undelivered st1 = transmitted s' - undelivered s'"
    using st1(1) assms(1)
    by (auto simp: count_output_def counts_agree_def Let_def map_sum_eq_Inr split: option.splits dest!: statistics_add_counts)
  then show ?thesis unfolding st1(2) by (simp add: counts_agree_def end_turn_def Let_def)
qed

text \<open>
  Property (C18). Pinging until messages are received, or until they are delivered, returns
  statistics only when they count at least as many of them as the parameters ask for; when the
  time is over with less the outcome is never a normal return.
\<close>
theorem get_statistics_counts:
  assumes "get_statistics E dflt args (Some u) check w = Some (Inr s, w')" and "u = RECEIVED \<or> u = DELIVERED"
  shows "\<exists>p n. get_ping_parameters (env_lib E) (env_conf E) dflt args = Inr p \<and> count p = Some n \<and>
    n \<le> counted (Some u) (transmitted s) (received s) (undelivered s)"
proof -
  from assms(1) obtain p where p: "get_ping_parameters (env_lib E) (env_conf E) dflt args = Inr p"
    and it: "iter_statistics E p (Some u) check (\<lambda>s acc. statistics_add (address_bool (env_texts E)) acc s) no_statistics w = Some (Inr s, w')"
    by (auto simp: get_statistics_def split: sum.splits)
  from it obtain t d n st where c: "count p = Some n" and nf: "\<not> it_count st < n"
    and l: "iter_loop E p n d (Some u) check (env_now E w + of_int t) (\<lambda>s acc. statistics_add (address_bool (env_texts E)) acc s)
        (first_state (env_now E w) d) no_statistics w = Some (Inr (st, s), w')"
    by (auto simp: iter_statistics_def split: option.splits sum.splits prod.splits if_splits)
  have "counts_agree (Some u) (first_state (env_now E w) d) no_statistics"
    using assms(2) by (auto simp: counts_agree_def first_state_def no_statistics_def counted_def)
  moreover have "counts_agree (Some u) s' a'" if "counts_agree (Some u) s0 a" and
      "iter_turn E p n d (Some u) check (env_now E w + of_int t) (\<lambda>s acc. statistics_add (address_bool (env_texts E)) acc s) s0 a v =
        (Inr (s', a'), v')" for s0 a v s' a' v'
    using that by (rule counts_agree_turn)
  ultimately have "counts_agree (Some u) st s"
    using iter_loop_inv[where I = "counts_agree (Some u)", OF l] by fastforce
  with nf have "n \<le> counted (Some u) (transmitted s) (received s) (undelivered s)"
    using assms(2) by (auto simp: counts_agree_def counted_def)
  with p c show ?thesis by blast
qed

section \<open>The errors of the output\<close>

lemma handle_error_line_raises:
  "\<exists>e. handle_error_line t = Inl e \<and> (isinstance_exn e PingError \<or> exn_class e = PyIndexError)"
proof -
  have c: "isinstance_exn (Exn c m) PingError" if "c \<in> {PingError, LocalPingError, SendToPingError, ConnectPingError, UnknowHostError, BadAddressPingError}" for c m
    using that by (auto simp: isinstance_exn_def issubclass_def exn_classes)
  have pre: "handle_prefix q c x = Inl e \<longrightarrow> isinstance_exn e PingError"
    if "c \<in> {PingError, LocalPingError, SendToPingError, ConnectPingError, UnknowHostError, BadAddressPingError}" for q c x e
    using c[OF that] by (auto simp: handle_prefix_def)
  have suf: "handle_suffix q UnknowHostError x = Inl e \<longrightarrow> isinstance_exn e PingError" for q x e
    using c[of UnknowHostError] by (auto simp: handle_suffix_def)
  have fr: "first_raise (rs @ [Inl e]) = Inl x \<Longrightarrow> x = e \<or> Inl x \<in> set rs" for rs e x
    by (induction rs) (auto split: sum.splits)
  have ex: "\<exists>x. first_raise (rs @ [Inl e]) = Inl x" for rs e by (induction rs) (auto split: sum.splits)
  have ff: "first_raise rs = Inl x \<Longrightarrow> Inl x \<in> set rs" for rs x by (induction rs) (auto split: sum.splits)
  have unk: "handle_ping_unknow_host_error u = Inl x \<Longrightarrow> isinstance_exn x PingError \<or> exn_class x = PyIndexError" for u x
    unfolding handle_ping_unknow_host_error_def
    by (drule ff) (use pre[of UnknowHostError] suf c[of UnknowHostError] in \<open>auto simp: Let_def split: if_splits\<close>)
  have bad: "handle_ping_bad_address_error u = Inl x \<Longrightarrow> isinstance_exn x PingError" for u x
    using c[of BadAddressPingError] by (auto simp: handle_ping_bad_address_error_def split: if_splits)
  let ?u = "if prefix ''ping: '' t then drop (length ''ping: '') t else t"
  let ?rs = "[handle_ping_bad_address_error ?u, handle_ping_local_error ?u, handle_ping_connect_error ?u,
            handle_ping_send_to_error ?u, handle_ping_unknow_host_error ?u]"
  have t: "handle_error_line t = first_raise (?rs @ [Inl (Exn PingError ?u)])"
    unfolding handle_error_line_def Let_def by simp
  from ex obtain x where x: "handle_error_line t = Inl x" unfolding t by blast
  have "x = Exn PingError ?u \<or> Inl x \<in> set ?rs" using fr x unfolding t by blast
  then have "isinstance_exn x PingError \<or> exn_class x = PyIndexError"
    using unk bad pre c[of PingError] unfolding handle_ping_local_error_def handle_ping_connect_error_def handle_ping_send_to_error_def
    by (simp only: set_simps insert_iff) (metis insert_iff empty_iff)
  with x show ?thesis by blast
qed

text \<open>
  The error text of a failed ping is an error exactly when one of its lines is
  not blank, and the first such line decides; the exception is then a \<open>PingError\<close>, except for
  a line that names an unknown host and no host, where the code takes the last word of nothing.
\<close>
theorem ping_error_text:
  "(case filter (\<lambda>l. strip l \<noteq> []) (splitlines text) of
      [] \<Rightarrow> handle_ping_command_error text = Inr ()
    | l # _ \<Rightarrow> \<exists>e. handle_ping_command_error text = Inl e \<and> handle_error_line (strip l) = Inl e \<and>
        (isinstance_exn e PingError \<or> exn_class e = PyIndexError))"
proof -
  have "(case filter (\<lambda>l. strip l \<noteq> []) ls of
      [] \<Rightarrow> handle_error_lines ls = Inr ()
    | l # _ \<Rightarrow> \<exists>e. handle_error_lines ls = Inl e \<and> handle_error_line (strip l) = Inl e \<and>
        (isinstance_exn e PingError \<or> exn_class e = PyIndexError))" for ls
  proof (induction ls)
    case (Cons l ls)
    obtain e where e: "handle_error_line (strip l) = Inl e" "isinstance_exn e PingError \<or> exn_class e = PyIndexError"
      using handle_error_line_raises by blast
    show ?case
    proof (cases "strip l = []")
      case True
      then have eq: "filter (\<lambda>l. strip l \<noteq> []) (l # ls) = filter (\<lambda>l. strip l \<noteq> []) ls"
        "handle_error_lines (l # ls) = handle_error_lines ls" by simp_all
      show ?thesis unfolding eq by (rule Cons.IH)
    next
      case False
      with e show ?thesis by simp
    qed
  qed simp
  then show ?thesis unfolding handle_ping_command_error_def .
qed

text \<open>
  When the shell fails to run ping (it times out, for instance) with something on
  its error stream, and the check of errors is on, the code reads a variable that is not bound:
  an error that is no \<open>PingError\<close>, which no caller treats as an unreachable host.
\<close>
theorem execute_ping_unbound:
  assumes "ping_command_act E p w = (Inr c, w1)" and "deadline p = Some d"
    and "env_execute E c (of_int d + 3) (network_namespace p) w1 = (Inl e, w2)"
    and "isinstance_exn e ShellError" and "exn_stderr E e = Some t" and "t \<noteq> []"
  shows "\<exists>x. execute_ping E True p w = (Inl x, w2) \<and> exn_class x = PyUnboundLocalError \<and> \<not> isinstance_exn x PingError"
  using assms by (simp add: execute_ping_def catches_Cons ping_output_def isinstance_exn_def issubclass_def exn_classes)

section \<open>Waiting for hosts\<close>

lemma ping_hosts_loop_split:
  "ping_hosts_loop ping hs (r0, u0) w = (Inr (r, u), w') \<Longrightarrow>
    \<exists>r1 u1. r = r0 @ r1 \<and> u = u0 @ u1 \<and> set hs = set r1 \<union> set u1 \<and>
      (\<forall>h \<in> set r1. \<exists>w0 s w1. ping h w0 = (Inr s, w1) \<and> received s \<noteq> 0) \<and>
      (\<forall>h \<in> set u1. \<exists>w0 x w1. ping h w0 = (x, w1) \<and> (case x of Inl e \<Rightarrow> isinstance_exn e PingError | Inr s \<Rightarrow> received s = 0))"
proof (induction hs arbitrary: r0 u0 w)
  case (Cons h hs)
  obtain x w1 where x: "ping h w = (x, w1)" by fastforce
  show ?case
  proof (cases "\<exists>s. x = Inr s \<and> received s \<noteq> 0")
    case True
    with Cons.prems x have "ping_hosts_loop ping hs (r0 @ [h], u0) w1 = (Inr (r, u), w')" by auto
    from Cons.IH[OF this] obtain r1 u1 where "r = r0 @ h # r1" "u = u0 @ u1" "set hs = set r1 \<union> set u1"
      "\<forall>h \<in> set r1. \<exists>w0 s w1. ping h w0 = (Inr s, w1) \<and> received s \<noteq> 0"
      "\<forall>h \<in> set u1. \<exists>w0 x w1. ping h w0 = (x, w1) \<and> (case x of Inl e \<Rightarrow> isinstance_exn e PingError | Inr s \<Rightarrow> received s = 0)"
      by auto
    with True x show ?thesis by (intro exI[of _ "h # r1"] exI[of _ u1]) auto
  next
    case False
    with Cons.prems x have l: "ping_hosts_loop ping hs (r0, u0 @ [h]) w1 = (Inr (r, u), w')"
      and bad: "case x of Inl e \<Rightarrow> isinstance_exn e PingError | Inr s \<Rightarrow> received s = 0"
      by (auto split: sum.splits if_splits)
    from Cons.IH[OF l] obtain r1 u1 where "r = r0 @ r1" "u = u0 @ h # u1" "set hs = set r1 \<union> set u1"
      "\<forall>h \<in> set r1. \<exists>w0 s w1. ping h w0 = (Inr s, w1) \<and> received s \<noteq> 0"
      "\<forall>h \<in> set u1. \<exists>w0 x w1. ping h w0 = (x, w1) \<and> (case x of Inl e \<Rightarrow> isinstance_exn e PingError | Inr s \<Rightarrow> received s = 0)"
      by auto
    with bad x show ?thesis by (intro exI[of _ r1] exI[of _ "h # u1"]) auto
  qed
qed simp

text \<open>A host answered when one ping to it received something, and failed when one did not.\<close>

definition answered :: "('h \<Rightarrow> ('w, ping_statistics) act) \<Rightarrow> 'h \<Rightarrow> bool" where
  "answered ping h = (\<exists>w0 s w1. ping h w0 = (Inr s, w1) \<and> received s \<noteq> 0)"

definition unanswered :: "('h \<Rightarrow> ('w, ping_statistics) act) \<Rightarrow> 'h \<Rightarrow> bool" where
  "unanswered ping h =
     (\<exists>w0 x w1. ping h w0 = (x, w1) \<and> (case x of Inl e \<Rightarrow> isinstance_exn e PingError | Inr s \<Rightarrow> received s = 0))"

lemma ping_hosts_split:
  assumes "ping_hosts ping n hs w = (Inr (r, u), w')"
  shows "set hs = set r \<union> set u \<and> (\<forall>h \<in> set r. answered (ping (case n of None \<Rightarrow> 1 | Some c \<Rightarrow> c)) h) \<and>
    (\<forall>h \<in> set u. unanswered (ping (case n of None \<Rightarrow> 1 | Some c \<Rightarrow> c)) h)"
  using ping_hosts_loop_split[OF assms[unfolded ping_hosts_def]] by (auto simp: answered_def unanswered_def)

lemma wait_run_done:
  assumes "retry_run nw sl R (wait_turn ping n cu report) start k el s atts x s'" and "x = Inr ()" and sl: "\<And>d s. snd (sl d s) = snd s"
  shows "\<forall>h \<in> set (snd s). (if cu then unanswered else answered) (ping (case n of None \<Rightarrow> 1 | Some c \<Rightarrow> c)) h"
  using assms(1,2)
proof (induction rule: retry_run.induct)
  case (run_done m e w a w1)
  then show ?case
    by (auto simp: wait_turn_def Let_def split: prod.splits sum.splits if_splits bool.splits dest!: ping_hosts_split)
next
  case (run_again m e w w1 u el' w2 atts x w3)
  from run_again.hyps(1) obtain r us v where ph: "ping_hosts ping n (snd w) (fst w) = (Inr (r, us), v)"
     and w1: "w1 = (v, if cu then r else us)"
    by (auto simp: wait_turn_def Let_def split: prod.splits sum.splits if_splits bool.splits)
  have "snd w2 = snd w1" using run_again.hyps(3) by (auto simp: sl retry_pause_def Let_def split: option.splits if_splits)
  with run_again.IH run_again.prems w1 have rest: "\<forall>h \<in> set (if cu then r else us).
      (if cu then unanswered else answered) (ping (case n of None \<Rightarrow> 1 | Some c \<Rightarrow> c)) h" by simp
  with ping_hosts_split[OF ph] rest show ?case by (cases cu) auto
qed simp_all

text \<open>
  Property (C19). Waiting for hosts returns only when every host of the list has answered a ping
  (or, when it waits for unreachable hosts, has failed to answer one) in some attempt; a host
  that still does not is never dropped, and the error at the end carries it.
\<close>
theorem wait_for_hosts_answered:
  assumes "wait_for_ping_hosts nw sl ping report n cu rc rt ri tp hosts w = Some (Inr (), s)"
  shows "\<forall>h \<in> set hosts. (if cu then unanswered else answered) (ping (case n of None \<Rightarrow> 1 | Some c \<Rightarrow> c)) h"
proof -
  from retry_loop_run[OF assms[unfolded wait_for_ping_hosts_def retry_iter_def]]
  obtain atts where "retry_run (\<lambda>s. nw (fst s)) (\<lambda>d s. (sl d (fst s), snd s))
       (retry None rc (case rt of None \<Rightarrow> tp | Some t \<Rightarrow> Some t) None ri None (Some 300) None (Some 5))
       (wait_turn ping n cu report) (nw w) 1 0 (w, hosts) atts (Inr ()) s" by auto
  from wait_run_done[OF this] show ?thesis by simp

qed

section \<open>A run\<close>

definition pong :: string where
  "pong = str_join [CHR 0x0A] [''PING 10.0.0.1 (10.0.0.1): 56 data bytes'', ''--- 10.0.0.1 ping statistics ---'', footer_line 1 1 0]"

definition pong_result :: execute_result where
  "pong_result = \<lparr>r_command = ''ping'', r_exit_status = Some 0, r_timeout = None, r_status = None, r_login = None,
     r_stdin = None, r_stdout = Some pong, r_stderr = None\<rparr>"

text \<open>Every command takes two seconds; the world is the clock.\<close>

definition demo_env :: "execute_result res \<Rightarrow> rat ping_env" where
  "demo_env r = \<lparr>env_now = (\<lambda>w. w), env_sleep = (\<lambda>d w. w + d), env_lib = demo_lib, env_conf = no_args, env_texts = demo_texts,
     env_interface = ret BusyBoxPingInterface, env_execute = (\<lambda>_ _ _ w. (r, w + 2)),
     exn_stdout = (\<lambda>_. None), exn_stderr = (\<lambda>_. Some ''ping: sendto: Network is unreachable'')\<rparr>"

lemma demo_env_forward: "clock_forward (demo_env r)"
  by (simp add: clock_forward_def demo_env_def ret_def)

lemma get_statistics_ends_witness:
  "\<exists>r w'. get_statistics (demo_env (Inr pong_result)) (Some demo_params) None (Some UNRECEIVED) True 5 = Some (r, w')"
  by (rule get_statistics_ends[OF demo_env_forward])

definition pong_statistics :: ping_statistics where
  "pong_statistics = \<lparr>st_source = None, st_destination = Some (AddrIP 4 ''10.0.0.1''), transmitted = 1, received = 1, undelivered = 0,
      begin_interval = Some 5, end_interval = Some 7\<rparr>"

definition pong_state :: iter_state where
  "pong_state = \<lparr>it_now = 7, it_deadline = 5, it_transmitted = 1, it_received = 1, it_undelivered = 0, it_count = 1, it_enlapsed = Some 2\<rparr>"

lemma pong_turn:
  "iter_turn (demo_env (Inr pong_result)) demo_params 1 5 (Some RECEIVED) True 305 (\<lambda>s acc. statistics_add (\<lambda>_. True) acc s)
     (first_state 5 5) no_statistics 5 = (Inr (pong_state, pong_statistics), 7)"
  by code_simp

lemma pong_loop:
  "iter_loop (demo_env (Inr pong_result)) demo_params 1 5 (Some RECEIVED) True 305 (\<lambda>s acc. statistics_add (\<lambda>_. True) acc s)
     (first_state 5 5) no_statistics 5 = Some (Inr (pong_state, pong_statistics), 7)"
proof -
  have go: "0 < it_deadline (first_state 5 5) \<and> it_count (first_state 5 5) < 1" by (simp add: first_state_def)
  have "\<not> (0 < it_deadline pong_state \<and> it_count pong_state < 1)" by (simp add: pong_state_def)
  from iter_loop_turn[OF go pong_turn] iter_loop_stop[OF this] show ?thesis by simp
qed

lemma demo_received:
  "get_statistics (demo_env (Inr pong_result)) (Some demo_params) None (Some RECEIVED) True 5 = Some (Inr pong_statistics, 7)"
proof -
  have p: "get_ping_parameters (env_lib (demo_env (Inr pong_result))) (env_conf (demo_env (Inr pong_result))) (Some demo_params) None = Inr demo_params"
    by (simp add: get_ping_parameters_def)
  have f: "timeout demo_params = Some 300" "deadline demo_params = Some 5" "count demo_params = Some 1"
    by (simp_all add: demo_params_def)
  have e: "env_now (demo_env (Inr pong_result)) 5 = 5" "address_bool (env_texts (demo_env (Inr pong_result))) = (\<lambda>_. True)"
    by (simp_all add: demo_env_def demo_texts_def)
  show ?thesis using pong_loop by (simp add: get_statistics_def p iter_statistics_def f e) (simp add: pong_state_def)
qed

lemma get_statistics_counts_witness:
  "\<exists>s w'. get_statistics (demo_env (Inr pong_result)) (Some demo_params) None (Some RECEIVED) True 5 = Some (Inr s, w') \<and>
     (\<exists>p n. get_ping_parameters demo_lib no_args (Some demo_params) None = Inr p \<and> count p = Some n \<and>
        n \<le> counted (Some RECEIVED) (transmitted s) (received s) (undelivered s))"
  using get_statistics_counts[OF demo_received] demo_received by (simp add: demo_env_def)

lemma execute_ping_unbound_witness:
  "\<exists>x. execute_ping (demo_env (Raise ShellTimeoutExpired [])) True demo_params 5 = (Inl x, 7) \<and>
     exn_class x = PyUnboundLocalError \<and> \<not> isinstance_exn x PingError"
proof (rule execute_ping_unbound[where d = 5 and e = "Exn ShellTimeoutExpired []" and t = "''ping: sendto: Network is unreachable''"])
  show "ping_command_act (demo_env (Raise ShellTimeoutExpired [])) demo_params 5 =
     (Inr [''ping'', ''-4'', ''-w'', ''5'', ''-W'', ''5'', ''-c'', ''1'', ''-s'', ''72'', ''10.0.0.1''], 5)"
    by code_simp
qed (simp_all add: demo_params_def demo_env_def isinstance_exn_def issubclass_def exn_classes)

text \<open>Two hosts, of which the second answers only after time 5.\<close>

definition late_ping :: "int \<Rightarrow> nat \<Rightarrow> (rat, ping_statistics) act" where
  "late_ping n h w = (Inr (no_statistics\<lparr>received := (if h = 0 \<or> 5 \<le> w then n else 0)\<rparr>), w + 1)"

lemma late_wait:
  "wait_for_ping_hosts (\<lambda>w. w) (\<lambda>d w. w + d) late_ping (\<lambda>_ _. []) None False None None None None [0, 1] 0 = Some (Inr (), (6, []))"
proof -
  let ?R = "retry None None None None None None (Some 300) None (Some (5::rat))"
  let ?b = "wait_turn late_ping None False (\<lambda>_ _. [])"
  have r: "?R = mk_retry None (Some 300) None (Some 5)" by (simp add: retry_def)
  have t1: "?b (retry_number (mk_retry None (Some 300) None (Some 5)) 0 1 0) (0, [0, 1]) = (Inr Next, (2, [1]))"
    by code_simp
  have t2: "?b (retry_number (mk_retry None (Some 300) None (Some 5)) 0 2 5) (5, [1]) = (Inr (Done ()), (6, []))"
    by code_simp
  have p: "retry_pause (\<lambda>s. fst s) (\<lambda>d s. (fst s + d, snd s)) (mk_retry None (Some 300) None (Some 5))
      (retry_number (mk_retry None (Some 300) None (Some 5)) 0 1 0) (2, [1::nat]) = (5, (5, [1]))"
    by code_simp
  have c: "check_limits None (retry_number (mk_retry None (Some 300) None (Some 5)) 0 1 0) = Inr ()"
    by code_simp
  have l2: "retry_loop fst (\<lambda>d s. (fst s + d, snd s)) (mk_retry None (Some 300) None (Some 5)) ?b 0 2 5 (5, [1]) = Some (Inr (), (6, []))"
    by (subst retry_loop.simps) (simp add: Let_def t2 del: One_nat_def)
  have l1: "retry_loop fst (\<lambda>d s. (fst s + d, snd s)) (mk_retry None (Some 300) None (Some 5)) ?b 0 1 0 (0, [0, 1]) = Some (Inr (), (6, []))"
    by (subst retry_loop.simps) (simp add: Let_def t1 c p l2 del: One_nat_def)
  show ?thesis
    unfolding wait_for_ping_hosts_def retry_iter_def option.case r using l1 by (simp del: One_nat_def)
qed

lemma wait_for_hosts_answered_witness: "answered (late_ping 1) 0 \<and> answered (late_ping 1) 1"
  using wait_for_hosts_answered[OF late_wait] by simp

end
