(* ===== verification/Shell_Ss.thy ===== *)
theory Shell_Ss
  imports Ping_Statistics Shell_Process
begin

text \<open>
  tobiko/shell/ss.py: reading the table that ss prints: its header, the processes of a
  socket, and the addresses of a socket. What netaddr makes of an address is a parameter.
\<close>

definition SocketLookupError :: pyclass where
  "SocketLookupError = ''SocketLookupError'' # TobikoException"

declare SocketLookupError_def [exn_classes]

section \<open>The header\<close>

definition parse_header :: "string \<Rightarrow> string list" where
  "parse_header h =
     (if str_in ''Netid'' h then [''protocol''] else []) @ (if str_in ''State'' h then [''state''] else []) @
     (if str_in ''Recv-Q'' h then [''recv_q''] else []) @ (if str_in ''Send-Q'' h then [''send_q''] else []) @
     (if str_in ''Local Address:Port'' h then [''local''] else []) @
     (if str_in ''Peer Address:Port'' h then [''remote''] else []) @ (if str_in ''Process'' h then [''process''] else [])"

fun replace_first :: "string \<Rightarrow> string list \<Rightarrow> string list \<Rightarrow> string list" where
  "replace_first name new [] = []"
| "replace_first name new (x # xs) = (if x = name then new @ xs else x # replace_first name new xs)"

definition extend_ports :: "string list \<Rightarrow> string list" where
  "extend_ports h =
     replace_first ''remote'' [''remote_addr'', ''remote_port''] (replace_first ''local'' [''local_addr'', ''local_port''] h)"

section \<open>The processes of a socket\<close>

text \<open>
  One pass over the text: \<open>i\<close> is the index of the next character, \<open>stack\<close> holds the indices
  of open brackets, the last one first. The result tells whether there was an open bracket, and
  lists in order the texts on which the function calls itself (None is a pop from an empty
  stack): the first bracket of the text is never popped.
\<close>

fun bracket_scan :: "string \<Rightarrow> nat \<Rightarrow> nat list \<Rightarrow> bool \<Rightarrow> string \<Rightarrow> bool \<times> string option list" where
  "bracket_scan whole i stack nested [] = (nested, [])"
| "bracket_scan whole i stack nested (c # s) =
     (if c = CHR ''('' then bracket_scan whole (i + 1) (i # stack) True s
      else if c = CHR '')'' \<and> length stack = 1
      then (case bracket_scan whole (i + 1) stack nested s of
              (n, parts) \<Rightarrow> (n, Some (take (i - (hd stack + 1)) (drop (hd stack + 1) whole)) # parts))
      else if c = CHR '')'' \<and> stack \<noteq> [] then bracket_scan whole (i + 1) (tl stack) nested s
      else if c = CHR '')'' then (nested, [None])
      else bracket_scan whole (i + 1) stack nested s)"

lemma bracket_scan_parts:
  "Some p \<in> set (snd (bracket_scan whole i stack nested s)) \<Longrightarrow> whole \<noteq> [] \<Longrightarrow> length p < length whole"
proof (induction whole i stack nested s rule: bracket_scan.induct)
  case (2 whole i stack nested c s)
  have "length (take (i - (hd stack + 1)) (drop (hd stack + 1) whole)) < length whole"
    using 2(6) by (cases whole) (auto simp: min_def)
  with 2 show ?case by (auto split: if_splits prod.splits)
qed simp

function get_processes :: "string \<Rightarrow> string list res" where
  "get_processes processes =
     (case bracket_scan processes 0 [] False processes of
        (nested, parts) \<Rightarrow>
          (case map_res (\<lambda>p. case p of
                   None \<Rightarrow> Raise PyIndexError ''pop from empty list''
                 | Some q \<Rightarrow> get_processes q) parts of
             Inl e \<Rightarrow> Inl e
           | Inr names \<Rightarrow>
               if nested then Inr (concat names)
               else (case split_max 2 [CHR 0x22] processes of
                       _ # name # _ \<Rightarrow> Inr (concat names @ [name])
                     | _ \<Rightarrow> Raise PyIndexError ''list index out of range'')))"
  by pat_completeness auto
termination
proof (relation "measure length", goal_cases)
  case (2 processes nested parts p q)
  then have "Some q \<in> set (snd (bracket_scan processes 0 [] False processes))" by (metis snd_conv)
  moreover from this have "processes \<noteq> []" by (cases processes) auto
  ultimately show ?case using bracket_scan_parts by simp
qed simp

declare get_processes.simps [simp del]

section \<open>Sockets\<close>

datatype sock_value = SockText string | SockAddress address | SockProcesses "string list"

type_synonym sock_data = "(string \<times> sock_value) list"

definition bare_address :: "string \<Rightarrow> string" where
  "bare_address ip = strip_by (\<lambda>c. c = CHR '']'' \<or> c = CHR ''['') ip"

definition split_port :: "string \<Rightarrow> (string \<times> string) res" where
  "split_port field =
     (case rsplit1 (CHR '':'') (strip field) of
        None \<Rightarrow> Raise PyValueError ''not enough values to unpack (expected 2, got 1)''
      | Some ap \<Rightarrow> Inr ap)"

fun detect_ip_version :: "number_lib \<Rightarrow> (string \<times> string) list \<Rightarrow> int option res" where
  "detect_ip_version N [] = Inr None"
| "detect_ip_version N ((header, field) # rest) =
     (if header = ''local'' \<or> header = ''remote''
      then (case split_port field of
              Inl e \<Rightarrow> Inl e
            | Inr (ip, port) \<Rightarrow>
                if ip = ''*'' then detect_ip_version N rest
                else (case ip_address N (bare_address ip) of
                        Inr (AddrIP v t) \<Rightarrow> Inr (Some v)
                      | _ \<Rightarrow> detect_ip_version N rest))
      else detect_ip_version N rest)"

definition parse_socket_address :: "string \<Rightarrow> int option \<Rightarrow> string" where
  "parse_socket_address ip ver =
     (if ip = ''*'' then (if ver = Some 4 then ''0.0.0.0'' else ''::'') else ip)"

definition socket_processes :: "string \<Rightarrow> string \<Rightarrow> sock_value res" where
  "socket_processes sock_info field =
     (case get_processes field of
        Inr ps \<Rightarrow> Inr (SockProcesses ps)
      | Inl e \<Rightarrow>
          if isinstance_exn e PyIndexError
          then Raise PyValueError (''Unable to parse processes part of the line: '' @ sock_info) else Inl e)"

definition tcp_field :: "number_lib \<Rightarrow> string \<Rightarrow> int option \<Rightarrow> string \<times> string \<Rightarrow> sock_data res" where
  "tcp_field N sock_info ver hf =
     (case hf of (header, field) \<Rightarrow>
        if header = [] then Inr []
        else if header = ''local'' \<or> header = ''remote''
        then (case split_port field of
                Inl e \<Rightarrow> Inl e
              | Inr (ip, port) \<Rightarrow>
                  (case ip_address N (bare_address (parse_socket_address ip ver)) of
                     Inl e \<Rightarrow> Inl e
                   | Inr a \<Rightarrow> Inr [(header @ ''_addr'', SockAddress a), (header @ ''_port'', SockText port)]))
        else if header = ''process''
        then map_sum id (\<lambda>v. [(header, v)]) (socket_processes sock_info field)
        else Inr [(header, SockText field)])"

definition unix_field :: "string \<Rightarrow> string \<times> string \<Rightarrow> sock_data res" where
  "unix_field sock_info hf =
     (case hf of (header, field) \<Rightarrow>
        if header = [] then Inr []
        else if header = ''process''
        then map_sum id (\<lambda>v. [(header, v)]) (socket_processes sock_info field)
        else Inr [(header, SockText field)])"

definition make_socket :: "sock_data list \<Rightarrow> sock_data" where
  "make_socket parts = dict_update [] (concat parts)"

definition line_fields :: "string list \<Rightarrow> string \<Rightarrow> (string \<times> string) list res" where
  "line_fields headers sock_info =
     (if length headers \<noteq> length (split_ws sock_info)
      then Raise PyValueError (''Unable to parse line: '' @ [CHR 0x22] @ sock_info @ [CHR 0x22])
      else Inr (zip headers (split_ws sock_info)))"

definition parse_tcp_socket :: "number_lib \<Rightarrow> string list \<Rightarrow> string \<Rightarrow> sock_data res" where
  "parse_tcp_socket N headers sock_info =
     (case line_fields headers sock_info of Inl e \<Rightarrow> Inl e | Inr fs \<Rightarrow>
       (case detect_ip_version N fs of Inl e \<Rightarrow> Inl e | Inr v \<Rightarrow>
          map_sum id make_socket (map_res (tcp_field N sock_info v) fs)))"

definition parse_unix_socket :: "string list \<Rightarrow> string \<Rightarrow> sock_data res" where
  "parse_unix_socket headers sock_info =
     (case line_fields headers sock_info of Inl e \<Rightarrow> Inl e | Inr fs \<Rightarrow>
        map_sum id make_socket (map_res (unix_field sock_info) fs))"

section \<open>Running ss\<close>

text \<open>A line that the parser refuses with a \<open>ValueError\<close> is left out.\<close>

fun ss_lines :: "(string list \<Rightarrow> string \<Rightarrow> sock_data res) option \<Rightarrow> string list option \<Rightarrow> string list \<Rightarrow> sock_data list res" where
  "ss_lines parser headers [] = Inr []"
| "ss_lines parser None (line # lines) = ss_lines parser (Some (parse_header line)) lines"
| "ss_lines parser (Some h) (line # lines) =
     (case (case parser of
              Some f \<Rightarrow> if h \<noteq> [] then map_sum id (\<lambda>x. [x]) (f h (strip line)) else Inr [[(''raw_data'', SockText (strip line))]]
            | None \<Rightarrow> Inr [[(''raw_data'', SockText (strip line))]]) of
        Inr xs \<Rightarrow> map_sum id (\<lambda>ys. xs @ ys) (ss_lines parser (Some h) lines)
      | Inl e \<Rightarrow> if isinstance_exn e PyValueError then ss_lines parser (Some h) lines else Inl e)"

definition ss_command :: "string list option \<Rightarrow> string \<Rightarrow> string" where
  "ss_command table_header params =
     (if table_header \<noteq> None \<and> table_header \<noteq> Some [] then ''ss -Hnp '' @ params else ''ss -np '' @ params)"

definition run_ss ::
  "shell_exn \<Rightarrow> (string \<Rightarrow> ('w, execute_result) act) \<Rightarrow> string list option \<Rightarrow>
   (string list \<Rightarrow> string \<Rightarrow> sock_data res) option \<Rightarrow> string \<Rightarrow> ('w, sock_data list) act" where
  "run_ss X sh table_header parser params w =
     (case sh (ss_command table_header params) w of
        (Inr r, w') \<Rightarrow>
          (ss_lines parser (case table_header of Some [] \<Rightarrow> None | h \<Rightarrow> h) (splitlines (case r_stdout r of None \<Rightarrow> [] | Some t \<Rightarrow> t)), w')
      | (Inl e, w') \<Rightarrow>
          if \<not> isinstance_exn e ShellCommandFailed then (Inl e, w')
          else (case failed_stdout X e of
                  None \<Rightarrow> (Raise PyAttributeError ''NoneType object has no attribute startswith'', w')
                | Some out \<Rightarrow>
                    if prefix ''Error'' out
                    then (Raise SocketLookupError (''ss command '' @ [CHR 0x22] @ ss_command table_header params @ [CHR 0x22] @
                            '' failed with the error '' @ [CHR 0x22] @ opt_text (failed_stderr X e) @ [CHR 0x22]), w')
                    else if failed_status X e > 0 then (Inl e, w')
                    else (Raise [''UnboundLocalError'', ''NameError'', ''Exception'', ''BaseException''] ''stdout'', w')))"

definition option_text :: "string \<Rightarrow> string \<Rightarrow> string" where
  "option_text name value = (if value = [] then [] else '' '' @ name @ '' '' @ value)"

definition listening_header :: "string list" where
  "listening_header = parse_header ''Recv-Q Send-Q Local Address:PortPeer Address:Port Process''"

definition connected_header :: "string list" where
  "connected_header = parse_header ''State Recv-Q Send-Q Local Address:PortPeer Address:Port Process''"

definition unix_header :: "string list" where
  "unix_header = extend_ports (parse_header ''Netid Recv-Q Send-Q Local Address:PortPeer Address:Port Process'')"

definition tcp_listening ::
  "number_lib \<Rightarrow> shell_exn \<Rightarrow> (string \<Rightarrow> ('w, execute_result) act) \<Rightarrow> string \<Rightarrow> string \<Rightarrow> ('w, sock_data list) act" where
  "tcp_listening N X sh address port =
     run_ss X sh (Some listening_header) (Some (parse_tcp_socket N))
       (''-t state listening'' @ option_text ''sport'' port @ option_text ''src'' address)"

definition tcp_connected ::
  "number_lib \<Rightarrow> shell_exn \<Rightarrow> (string \<Rightarrow> ('w, execute_result) act) \<Rightarrow> string \<Rightarrow> string \<Rightarrow> string \<Rightarrow> string \<Rightarrow>
   ('w, sock_data list) act" where
  "tcp_connected N X sh src_address src_port dst_address dst_port =
     run_ss X sh (Some connected_header) (Some (parse_tcp_socket N))
       (''-t state connected'' @ option_text ''sport'' src_port @ option_text ''src'' src_address @
        option_text ''dport'' dst_port @ option_text ''dst'' dst_address)"

definition unix_listening ::
  "shell_exn \<Rightarrow> (string \<Rightarrow> ('w, execute_result) act) \<Rightarrow> string \<Rightarrow> ('w, sock_data list) act" where
  "unix_listening X sh file_name =
     run_ss X sh (Some unix_header) (Some parse_unix_socket) (''-x state listening'' @ option_text ''src'' file_name)"

section \<open>What is found\<close>

definition plain :: "string \<Rightarrow> bool" where
  "plain t = (CHR ''('' \<notin> set t \<and> CHR '')'' \<notin> set t)"

lemma bracket_scan_plain:
  "plain a \<Longrightarrow> bracket_scan whole i stack nested (a @ s) = bracket_scan whole (i + length a) stack nested s"
  by (induction a arbitrary: i) (auto simp: plain_def)

definition bracketed :: "string \<Rightarrow> string" where
  "bracketed t = CHR ''('' # t @ [CHR '')'']"

definition more :: "string list \<Rightarrow> string" where
  "more ts = concat (map (\<lambda>t. CHR '','' # bracketed t) ts)"

lemma bracket_scan_more:
  "\<forall>t \<in> set ts. plain t \<Longrightarrow>
   bracket_scan whole i [k] True (more ts @ s) = bracket_scan whole (i + length (more ts)) [k] True s"
proof (induction ts arbitrary: i)
  case (Cons t ts)
  have "bracket_scan whole (Suc (Suc i)) [Suc i, k] True (t @ CHR '')'' # more ts @ s) =
      bracket_scan whole (Suc (Suc i) + length t) [Suc i, k] True (CHR '')'' # more ts @ s)"
    by (rule bracket_scan_plain) (use Cons.prems in simp)
  with Cons show ?case by (simp add: more_def bracketed_def add.assoc)
qed (simp add: more_def)

lemma get_processes_plain:
  assumes "plain t" and "CHR 0x22 \<notin> set a" and "CHR 0x22 \<notin> set n" and "t = a @ CHR 0x22 # n @ CHR 0x22 # b"
  shows "get_processes t = Inr [n]"
proof -
  have scan: "bracket_scan t 0 [] False t = (False, [])" using bracket_scan_plain[OF assms(1), of t 0 "[]" False "[]"] by simp
  have "split_max 2 [CHR 0x22] t = [a, n, b]"
    using assms(2-4) by (simp add: numeral_2_eq_2 str_find_char_Some)
  with scan show ?thesis by (simp add: get_processes.simps)
qed

text \<open>
  The documentation of \<open>get_processes\<close> promises the names of all the processes
  of a socket; of the list that ss prints for any number of processes the code returns the
  name of the first one only, since the outer bracket of its recursion is never popped.
\<close>
theorem get_processes_first:
  assumes "plain t" and "\<forall>u \<in> set ts. plain u" and "t = CHR 0x22 # n @ CHR 0x22 # b" and "CHR 0x22 \<notin> set n"
  shows "get_processes (''users:'' @ bracketed (bracketed t @ more ts)) = Inr [n]"
proof -
  have one: "get_processes t = Inr [n]" using get_processes_plain[OF assms(1), of "[]" n b] assms(3,4) by simp
  let ?inner = "bracketed t @ more ts"
  have inner_scan: "bracket_scan ?inner 0 [] False ?inner = (True, [Some t])"
  proof -
    have a: "bracket_scan ?inner 1 [0] True (t @ CHR '')'' # more ts) =
        bracket_scan ?inner (1 + length t) [0] True (CHR '')'' # more ts)"
      by (rule bracket_scan_plain[OF assms(1)])
    have b: "bracket_scan ?inner (Suc (1 + length t)) [0] True (more ts) = (True, [])"
      using bracket_scan_more[OF assms(2), of ?inner "Suc (1 + length t)" 0 "[]"] by simp
    from a b show ?thesis by (simp add: bracketed_def)
  qed
  then have two: "get_processes ?inner = Inr [n]" using one by (subst get_processes.simps) simp
  let ?all = "''users:'' @ bracketed ?inner"
  have "bracket_scan ?all 0 [] False ?all = (True, [Some ?inner])"
  proof -
    have p: "bracket_scan ?all 0 [] False ?all = bracket_scan ?all 7 [6] True (?inner @ '')'')"
      using bracket_scan_plain[of "''users:''" ?all 0 "[]" False "bracketed ?inner"] by (simp add: plain_def bracketed_def eval_nat_numeral)
    have q: "bracket_scan ?all 7 [6] True (?inner @ '')'') = bracket_scan ?all (8 + length t) [7, 6] True (CHR '')'' # more ts @ '')'')"
      using bracket_scan_plain[OF assms(1), of ?all 8 "[7, 6]" True "CHR '')'' # more ts @ '')''"] by (simp add: bracketed_def eval_nat_numeral) 
    have r: "bracket_scan ?all (9 + length t) [6] True (more ts @ '')'') = bracket_scan ?all (9 + length t + length (more ts)) [6] True '')''"
      by (rule bracket_scan_more[OF assms(2)])
    have len: "9 + length t + length (more ts) - 7 = length ?inner" by (simp add: bracketed_def)
    have t: "take (9 + length t + length (more ts) - 7) (drop 7 ?all) = ?inner" unfolding len by (simp add: bracketed_def)
    show ?thesis using p q r t by (simp add: eval_nat_numeral)
  qed
  with two show ?thesis by (subst get_processes.simps) simp
qed

lemma get_processes_first_witness:
  "get_processes (''users:'' @ bracketed (bracketed (CHR 0x22 # ''httpd'' @ CHR 0x22 # '',pid=4969,fd=53'') @
      more [CHR 0x22 # ''sshd'' @ CHR 0x22 # '',pid=3328,fd=53''])) = Inr [''httpd'']"
  by (rule get_processes_first[where b = "'',pid=4969,fd=53''"]) (simp_all add: plain_def)

end
