(* ===== verification/Shell_Hosts.thy ===== *)
theory Shell_Hosts
  imports Ping_Parameters Shell_Process Tobiko_Select Registry
begin

text \<open>
  What tobiko/shell/sh reads from a host: its name (_hostname.py) and where its commands are
  (_which.py), both cached, the command line of a process (_cmdline.py), the time since the
  last boot (_uptime.py), sizes of files, directories (_wc.py, _mkdirs.py, _mktemp.py), and the
  executable path of the environment (_path.py). \<open>sh\<close> executes a command as an action on the
  world; a command given as a text has been split by the shell.
\<close>

section \<open>Host names\<close>

definition HostnameError :: pyclass where
  "HostnameError = ''HostnameError'' # TobikoException"

declare HostnameError_def [exn_classes]

definition hostname_error :: "string \<Rightarrow> exn" where
  "hostname_error err = Exn HostnameError (''Unable to get hostname from host: '' @ err)"

definition first_name :: "string list \<Rightarrow> string option" where
  "first_name lines = find (\<lambda>h. h \<noteq> []) (map strip lines)"

text \<open>\<open>result_text\<close> is how an execution result is printed.\<close>

definition ssh_hostname ::
  "shell_exn \<Rightarrow> (execute_result \<Rightarrow> string) \<Rightarrow> ('c \<Rightarrow> string \<Rightarrow> ('w, execute_result) act) \<Rightarrow> 'c \<Rightarrow> bool \<Rightarrow> ('w, string) act" where
  "ssh_hostname X result_text sh client fqdn w =
     (case sh client (if fqdn then ''hostname -f'' else ''hostname'') w of
        (Inl e, w') \<Rightarrow>
          if isinstance_exn e ShellCommandFailed then (Inl (hostname_error (opt_text (failed_stderr X e))), w') else (Inl e, w')
      | (Inr r, w') \<Rightarrow>
          (case r_stdout r of
             None \<Rightarrow> (Raise PyAttributeError ''NoneType object has no attribute splitlines'', w')
           | Some t \<Rightarrow>
               (case first_name (splitlines t) of
                  None \<Rightarrow> (Inl (hostname_error (''Invalid result: '' @ str_repr (result_text r))), w')
                | Some h \<Rightarrow> (Inr h, w'))))"

text \<open>The two caches, by client; whether the qualified name is asked for selects the cache.\<close>

record 'c hostnames =
  hostnames_cache :: "'c \<rightharpoonup> string"
  hostnames_fqdn_cache :: "'c \<rightharpoonup> string"

definition find_hostname :: "'w \<times> 'c hostnames \<Rightarrow> bool \<times> 'c \<Rightarrow> string option" where
  "find_hostname s k = (if fst k then hostnames_fqdn_cache (snd s) (snd k) else hostnames_cache (snd s) (snd k))"

definition put_hostname :: "bool \<times> 'c \<Rightarrow> string \<Rightarrow> 'w \<times> 'c hostnames \<Rightarrow> 'w \<times> 'c hostnames" where
  "put_hostname k h s =
     (fst s,
      if fst k then (snd s)\<lparr>hostnames_fqdn_cache := (hostnames_fqdn_cache (snd s))(snd k \<mapsto> h)\<rparr>
      else (snd s)\<lparr>hostnames_cache := (hostnames_cache (snd s))(snd k \<mapsto> h)\<rparr>)"

interpretation hostnames: memo_table find_hostname put_hostname
  by unfold_locales (auto simp: find_hostname_def put_hostname_def prod_eq_iff)

definition get_hostname ::
  "('w, string) act \<Rightarrow> ('c \<Rightarrow> bool \<Rightarrow> ('w, string) act) \<Rightarrow> 'c option \<Rightarrow> bool \<Rightarrow> bool \<Rightarrow> ('w \<times> 'c hostnames, string) act" where
  "get_hostname local_name ask client cached fqdn s =
     (case client of
        None \<Rightarrow> (case local_name (fst s) of (r, w) \<Rightarrow> (r, (w, snd s)))
      | Some c \<Rightarrow>
          (let ask_it = (\<lambda>s. case ask c fqdn (fst s) of (r, w) \<Rightarrow> (r, (w, snd s)))
           in if cached then get_or_create find_hostname put_hostname ask_it (fqdn, c) s else ask_it s))"

text \<open>
  Once the name of a host was got with the cache, it is got again without asking
  the host, whatever the host would answer; the qualified and the short name do not mix.
\<close>
theorem hostname_cached:
  assumes "get_hostname loc ask (Some c) True fqdn s = (Inr h, s')"
  shows "get_hostname loc' ask' (Some c) True fqdn s' = (Inr h, s') \<and>
    find_hostname s' (\<not> fqdn, c) = find_hostname s (\<not> fqdn, c)"
proof -
  let ?ask = "\<lambda>s. case ask c fqdn (fst s) of (r, w) \<Rightarrow> (r, (w, snd s))"
  have g: "get_or_create find_hostname put_hostname ?ask (fqdn, c) s = (Inr h, s')"
    using assms by (simp add: get_hostname_def)
  have "find_hostname s' (\<not> fqdn, c) = find_hostname s (\<not> fqdn, c)"
    using g by (auto simp: get_or_create_def find_hostname_def put_hostname_def split: option.splits prod.splits sum.splits)
  with hostnames.get_again[OF g] show ?thesis by (simp add: get_hostname_def)
qed

lemma hostname_cached_witness:
  "get_hostname (ret ''here'') (\<lambda>c b w. (Inr (str_nat (w + 1)), w + 1)) (Some (1 :: nat)) True False
      (1 :: nat, \<lparr>hostnames_cache = [1 \<mapsto> ''1''], hostnames_fqdn_cache = Map.empty\<rparr>) =
    (Inr ''1'', (1, \<lparr>hostnames_cache = [1 \<mapsto> ''1''], hostnames_fqdn_cache = Map.empty\<rparr>))"
proof -
  have one: "str_nat (Suc 0) = ''1''" by code_simp
  have "get_hostname (ret ''here'') (\<lambda>c b w. (Inr (str_nat (w + 1)), w + 1)) (Some (1 :: nat)) True False
      (0 :: nat, \<lparr>hostnames_cache = Map.empty, hostnames_fqdn_cache = Map.empty\<rparr>) =
    (Inr ''1'', (1, \<lparr>hostnames_cache = [1 \<mapsto> ''1''], hostnames_fqdn_cache = Map.empty\<rparr>))"
    using one by (simp add: get_hostname_def get_or_create_def find_hostname_def put_hostname_def)
  from hostname_cached[OF this, THEN conjunct1] show ?thesis .
qed

section \<open>Commands\<close>

definition CommandNotFound :: pyclass where
  "CommandNotFound = ''CommandNotFound'' # ObjectNotFound"

definition SkipOnCommandNotFound :: pyclass where
  "SkipOnCommandNotFound = ''SkipOnCommandNotFound'' # CommandNotFound @ ''SkipException'' # PySkipTest"

declare CommandNotFound_def [exn_classes] SkipOnCommandNotFound_def [exn_classes]

text \<open>The cache of the decorator: by command, client, \<open>sudo\<close> and \<open>skip\<close>; a lookup that raises is not kept.\<close>

type_synonym 'c which_key = "string \<times> 'c option \<times> bool \<times> bool"

definition find_which :: "'w \<times> ('c which_key \<rightharpoonup> string) \<Rightarrow> 'c which_key \<Rightarrow> string option" where
  "find_which s k = snd s k"

definition put_which :: "'c which_key \<Rightarrow> string \<Rightarrow> 'w \<times> ('c which_key \<rightharpoonup> string) \<Rightarrow> 'w \<times> ('c which_key \<rightharpoonup> string)" where
  "put_which k p s = (fst s, (snd s)(k \<mapsto> p))"

interpretation which: memo_table find_which put_which
  by unfold_locales (simp add: find_which_def put_which_def)

definition which_command ::
  "('w, string) act \<Rightarrow> (string list \<Rightarrow> bool \<Rightarrow> ('w, execute_result) act) \<Rightarrow> string \<Rightarrow> bool \<Rightarrow> bool \<Rightarrow> ('w, string) act" where
  "which_command hostname sh command sudo skip =
     bindA hostname (\<lambda>h w.
       case sh [''which'', command] sudo w of
         (Inr r, w') \<Rightarrow> (Inr (strip (case r_stdout r of None \<Rightarrow> [] | Some t \<Rightarrow> t)), w')
       | (Inl e, w') \<Rightarrow>
           if isinstance_exn e ShellCommandFailed
           then (Raise (if skip then SkipOnCommandNotFound else CommandNotFound)
                   (''Command '' @ str_repr command @ '' not found on host '' @ str_repr h), w')
           else (Inl e, w'))"

definition find_command ::
  "('c option \<Rightarrow> ('w, string) act) \<Rightarrow> ('c option \<Rightarrow> string list \<Rightarrow> bool \<Rightarrow> ('w, execute_result) act) \<Rightarrow>
   string \<Rightarrow> 'c option \<Rightarrow> bool \<Rightarrow> bool \<Rightarrow> ('w \<times> ('c which_key \<rightharpoonup> string), string) act" where
  "find_command hostname sh command client sudo skip =
     get_or_create find_which put_which
       (\<lambda>s. case which_command (hostname client) (sh client) command sudo skip (fst s) of (r, w) \<Rightarrow> (r, (w, snd s)))
       (command, client, sudo, skip)"

text \<open>A command that was found stays found where it was.\<close>

lemma find_command_again:
  "find_command hn sh command client sudo skip s = (Inr p, s') \<Longrightarrow>
     find_command hn' sh' command client sudo skip s' = (Inr p, s')"
  unfolding find_command_def by (rule which.get_again)

section \<open>Command lines\<close>

definition GetCommandLineError :: pyclass where
  "GetCommandLineError = ''GetCommandLineError'' # TobikoException"
definition GetCommandLineMismatch :: pyclass where
  "GetCommandLineMismatch = ''GetCommandLineMismatch'' # GetCommandLineError"

declare GetCommandLineError_def [exn_classes] GetCommandLineMismatch_def [exn_classes]

definition last_part :: "string \<Rightarrow> string" where
  "last_part path = (case rsplit1 (CHR 0x2F) path of None \<Rightarrow> path | Some (_, b) \<Rightarrow> b)"

definition parse_command_line :: "int \<Rightarrow> string option \<Rightarrow> string \<Rightarrow> string list res" where
  "parse_command_line pid command output =
     (let words = butlast (split_on [CHR 0x00] (strip output))
      in if words = [] then Raise GetCommandLineError ''Unable to get process command line: command line is empty''
         else if command \<noteq> None \<and> Some (last_part (hd words)) \<noteq> command
         then Raise GetCommandLineMismatch (''Command line of process ('' @ str_int pid @ '') doesn't match its command ('' @
                opt_text command @ ''): '' @ join_command words)
         else Inr words)"

definition get_command_line ::
  "shell_exn \<Rightarrow> (string \<Rightarrow> ('w, execute_result) act) \<Rightarrow> int \<Rightarrow> string option \<Rightarrow> ('w, string list) act" where
  "get_command_line X sh pid command w =
     (case sh (''cat /proc/'' @ str_int pid @ ''/cmdline'') w of
        (Inl e, w') \<Rightarrow>
          if isinstance_exn e ShellCommandFailed
          then (Raise GetCommandLineError (''Unable to get process command line: '' @ opt_text (failed_stderr X e)), w')
          else (Inl e, w')
      | (Inr r, w') \<Rightarrow> (parse_command_line pid command (case r_stdout r of None \<Rightarrow> [] | Some t \<Rightarrow> t), w'))"

section \<open>Uptime, files and directories\<close>

definition UptimeError :: pyclass where
  "UptimeError = ''UptimeError'' # TobikoException"

declare UptimeError_def [exn_classes]

definition get_uptime :: "number_lib \<Rightarrow> (string \<Rightarrow> ('w, execute_result) act) \<Rightarrow> ('w, rat) act" where
  "get_uptime N sh =
     bindA (sh ''cat /proc/uptime'') (\<lambda>r w.
       (let output = strip (case r_stdout r of None \<Rightarrow> [] | Some t \<Rightarrow> t)
        in if (r_exit_status r \<noteq> None \<and> r_exit_status r \<noteq> Some 0) \<or> output = []
           then Raise UptimeError (''Unable to get uptime from host: '' @ opt_text (r_stderr r))
           else (case nth_field (splitlines output) 0 of
                   Inl e \<Rightarrow> Inl e
                 | Inr line \<Rightarrow> (case nth_field (split_ws line) 0 of Inl e \<Rightarrow> Inl e | Inr f \<Rightarrow> float_of N f)), w))"

definition double_quoted :: "string \<Rightarrow> string" where
  "double_quoted s = CHR 0x22 # s @ [CHR 0x22]"

definition get_file_size :: "(string \<Rightarrow> ('w, execute_result) act) \<Rightarrow> string \<Rightarrow> ('w, int) act" where
  "get_file_size sh file_name =
     bindA (sh (''wc -c '' @ double_quoted file_name)) (\<lambda>r w.
       (case split_max 1 '' '' (strip (case r_stdout r of None \<Rightarrow> [] | Some t \<Rightarrow> t)) of
          [n, _] \<Rightarrow> py_int n
        | _ \<Rightarrow> Raise PyValueError ''not enough values to unpack (expected 2, got 1)'', w))"

definition assert_file_size :: "(string \<Rightarrow> ('w, execute_result) act) \<Rightarrow> int \<Rightarrow> string \<Rightarrow> ('w, unit) act" where
  "assert_file_size sh expected file_name =
     bindA (get_file_size sh file_name)
       (\<lambda>n. if n = expected then ret () else raise_act (Exn PyAssertionError (str_int expected @ '' != '' @ str_int n)))"

definition make_remote_dirs :: "(string \<Rightarrow> ('w, execute_result) act) \<Rightarrow> string \<Rightarrow> ('w, unit) act" where
  "make_remote_dirs sh file_name = bindA (sh (''mkdir -p '' @ double_quoted file_name)) (\<lambda>_. ret ())"

text \<open>\<open>add_cleanup\<close> has the running test case execute a command in the end.\<close>

definition make_temp_dir :: "(string \<Rightarrow> ('w, execute_result) act) \<Rightarrow> (string \<Rightarrow> ('w, unit) act) \<Rightarrow> ('w, string) act" where
  "make_temp_dir sh add_cleanup =
     bindA (sh ''mktemp -d'') (\<lambda>r.
       let dir = strip (case r_stdout r of None \<Rightarrow> [] | Some t \<Rightarrow> t)
       in bindA (add_cleanup (''rm -fR '' @ double_quoted dir)) (\<lambda>_. ret dir))"

section \<open>The executable path\<close>

type_synonym path_environ = "string \<rightharpoonup> string"

definition path_dirs :: "path_environ \<Rightarrow> string list" where
  "path_dirs env = split_on '':'' (case env ''PATH'' of None \<Rightarrow> [] | Some p \<Rightarrow> p)"

fun missing_dirs :: "string list \<Rightarrow> string list \<Rightarrow> string list \<Rightarrow> string list" where
  "missing_dirs present missing [] = missing"
| "missing_dirs present missing (d # ds) =
     (if d \<notin> set present \<and> d \<notin> set missing then missing_dirs present (missing @ [d]) ds
      else missing_dirs present missing ds)"

text \<open>The new environment, and the directories that the cleanup removes again, if any.\<close>

definition setup_path :: "string list \<Rightarrow> path_environ \<Rightarrow> path_environ \<times> string list option" where
  "setup_path executable_dirs env =
     (let missing = missing_dirs (path_dirs env) [] executable_dirs
      in if missing = [] then (env, None)
         else (env(''PATH'' \<mapsto> str_join '':'' (missing @ path_dirs env)), Some missing))"

definition remove_executable_dirs :: "string list \<Rightarrow> path_environ \<Rightarrow> path_environ" where
  "remove_executable_dirs removal env =
     (let removal_dirs = set removal \<inter> set (path_dirs env)
      in if removal_dirs = {} then env
         else env(''PATH'' \<mapsto> str_join '':'' (filter (\<lambda>p. p \<notin> removal_dirs) (path_dirs env))))"

definition cleanup_path :: "string list option \<Rightarrow> path_environ \<Rightarrow> path_environ" where
  "cleanup_path removal env = (case removal of None \<Rightarrow> env | Some ds \<Rightarrow> remove_executable_dirs ds env)"

lemma missing_dirs_set:
  "set (missing_dirs present missing ds) = set missing \<union> (set ds - set present)"
  by (induction present missing ds rule: missing_dirs.induct) auto

lemma path_dirs_join: "xs \<noteq> [] \<Longrightarrow> \<forall>x \<in> set xs. CHR '':'' \<notin> set x \<Longrightarrow> path_dirs (env(''PATH'' \<mapsto> str_join '':'' xs)) = xs"
  by (simp add: path_dirs_def split_on_join)

lemma path_dirs_free: "x \<in> set (path_dirs env) \<Longrightarrow> CHR '':'' \<notin> set x"
  unfolding path_dirs_def by (rule split_on_char_free)

text \<open>
  Property (C28). While the path fixture is set up every directory is on the path and those that
  were there come after the new ones in their old order; cleaning up gives the old path back.
\<close>
theorem path_restored:
  assumes "\<forall>d \<in> set dirs. CHR '':'' \<notin> set d" and "setup_path dirs env = (env', removal)"
  shows "set dirs \<subseteq> set (path_dirs env') \<and>
    (\<exists>new. path_dirs env' = new @ path_dirs env \<and> set new = set dirs - set (path_dirs env)) \<and>
    path_dirs (cleanup_path removal env') = path_dirs env \<and>
    (\<forall>k. k \<noteq> ''PATH'' \<longrightarrow> cleanup_path removal env' k = env k)"
proof -
  let ?new = "missing_dirs (path_dirs env) [] dirs"
  have new: "set ?new = set dirs - set (path_dirs env)" by (simp add: missing_dirs_set)
  show ?thesis
  proof (cases "?new = []")
    case True
    with assms(2) have e: "env' = env" "removal = None" by (simp_all add: setup_path_def Let_def)
    from True new have "set dirs \<subseteq> set (path_dirs env)" by auto
    with e show ?thesis by (auto simp: cleanup_path_def)
  next
    case False
    with assms(2) have e: "env' = env(''PATH'' \<mapsto> str_join '':'' (?new @ path_dirs env))" "removal = Some ?new"
      by (auto simp: setup_path_def Let_def)
    have "\<forall>x \<in> set (?new @ path_dirs env). CHR '':'' \<notin> set x" using assms(1) new path_dirs_free by auto
    then have dirs': "path_dirs env' = ?new @ path_dirs env" unfolding e using False by (intro path_dirs_join) simp_all
    have keep: "filter (\<lambda>p. p \<notin> set ?new) (path_dirs env) = path_dirs env" using new by (auto simp: filter_id_conv)
    have ne: "path_dirs env \<noteq> []" unfolding path_dirs_def by (rule split_on_nonempty)
    have "set ?new \<inter> set (path_dirs env') \<noteq> {}" using False by (cases ?new) (auto simp: dirs')
    then have cleaned: "cleanup_path removal env' = env'(''PATH'' \<mapsto> str_join '':'' (path_dirs env))"
      using keep by (simp add: cleanup_path_def e(2) remove_executable_dirs_def Let_def dirs' filter_empty_conv Int_absorb2)
    have "path_dirs (cleanup_path removal env') = path_dirs env"
      unfolding cleaned using ne path_dirs_free by (intro path_dirs_join) auto
    with dirs' new cleaned e show ?thesis by auto
  qed
qed

lemma path_restored_witness:
  "path_dirs (cleanup_path (Some [''/opt/bin'']) [''PATH'' \<mapsto> ''/opt/bin:/bin:/usr/bin'']) = path_dirs [''PATH'' \<mapsto> ''/bin:/usr/bin'']"
proof -
  have "path_dirs [''PATH'' \<mapsto> ''/bin:/usr/bin''] = [''/bin'', ''/usr/bin'']" by code_simp
  then have s: "setup_path [''/bin'', ''/opt/bin''] [''PATH'' \<mapsto> ''/bin:/usr/bin''] = ([''PATH'' \<mapsto> ''/opt/bin:/bin:/usr/bin''], Some [''/opt/bin''])"
    by (simp add: setup_path_def)
  show ?thesis by (rule path_restored[OF _ s, THEN conjunct2, THEN conjunct2, THEN conjunct1]) simp
qed

end
