(* ===== verification/Shell_Ip.thy ===== *)
theory Shell_Ip
  imports Ping_Statistics Shell_Hosts
begin

text \<open>
  tobiko/shell/ip.py, tobiko/shell/ifconfig.py and tobiko/shell/sh/_nameservers.py: reading
  the addresses, namespaces, interfaces, routes and name servers of a host from the output of
  its commands. Running a command is an action on the world.
\<close>

section \<open>ip\<close>

definition IpError :: pyclass where
  "IpError = ''IpError'' # TobikoException"

declare IpError_def [exn_classes]

definition ip_error_message :: string where
  "ip_error_message = ''Unable to get IP addresses from host (exit_status={exit_status!r}): {error!s}''"

text \<open>\<open>raise IpError(...)\<close> with texts as properties.\<close>

definition ip_error :: "(string \<times> string) list \<Rightarrow> exn" where
  "ip_error props = raised (\<lambda>v spec. Inr v) IpError ip_error_message props"

definition INETS :: "int option \<Rightarrow> string list option" where
  "INETS ver =
     (case ver of
        None \<Rightarrow> Some [''inet'', ''inet6'']
      | Some n \<Rightarrow> if n = 4 then Some [''inet''] else if n = 6 then Some [''inet6''] else None)"

type_synonym 'w shell = "string list \<Rightarrow> ('w, execute_result) act"

definition IP_COMMAND :: "string list" where
  "IP_COMMAND = [''/sbin/ip'']"

definition empty_command :: "command_arg \<Rightarrow> bool" where
  "empty_command c = (case c of Command ws \<Rightarrow> ws = [] | Text t \<Rightarrow> t = [] | Items ws \<Rightarrow> ws = [])"

definition execute_ip :: "'w shell \<Rightarrow> command_arg option \<Rightarrow> bool \<Rightarrow> string list \<Rightarrow> ('w, string) act" where
  "execute_ip sh ip_command ignore_errors args w =
     (case (case ip_command of
              None \<Rightarrow> Inr IP_COMMAND
            | Some c \<Rightarrow> if empty_command c then Inr IP_COMMAND else shell_command c) of
        Inl e \<Rightarrow> (Inl e, w)
      | Inr cmd \<Rightarrow>
          (case sh (cmd @ args) w of
             (Inl e, w') \<Rightarrow> (Inl e, w')
           | (Inr r, w') \<Rightarrow>
               (case r_exit_status r of
                  Some k \<Rightarrow>
                    if \<not> ignore_errors \<and> k \<noteq> 0
                    then (Inl (ip_error [(''error'', opt_text (r_stderr r)), (''exit_status'', str_int k)]), w')
                    else (Inr (case r_stdout r of None \<Rightarrow> [] | Some t \<Rightarrow> t), w')
                | None \<Rightarrow> (Inr (case r_stdout r of None \<Rightarrow> [] | Some t \<Rightarrow> t), w'))))"

definition parse_ip_address :: "number_lib \<Rightarrow> string \<Rightarrow> (address \<times> int) res" where
  "parse_ip_address N text =
     (case split_max 1 ''/'' text of
        a # p # _ \<Rightarrow>
          (case py_int p of Inl e \<Rightarrow> Inl e | Inr n \<Rightarrow> map_sum id (\<lambda>x. (x, n)) (ip_address N a))
      | _ \<Rightarrow> map_sum id (\<lambda>x. (x, 0)) (ip_address N text))"

text \<open>The field after the first \<open>scope\<close>; a scope that is empty or None selects every line.\<close>

fun field_after :: "string \<Rightarrow> string list \<Rightarrow> string option" where
  "field_after name [] = None"
| "field_after name (x # xs) = (if x = name then (case xs of [] \<Rightarrow> None | y # _ \<Rightarrow> Some y) else field_after name xs)"

definition scope_selected :: "string option \<Rightarrow> string list \<Rightarrow> bool" where
  "scope_selected scope xs =
     (case scope of None \<Rightarrow> True | Some s \<Rightarrow> s = [] \<or> field_after ''scope'' xs = Some s)"

definition address_of_line :: "number_lib \<Rightarrow> string list \<Rightarrow> string option \<Rightarrow> string \<Rightarrow> address list res" where
  "address_of_line N inets scope line =
     (let xs = split_ws (strip line)
      in case nth_field xs 2 of
           Inl e \<Rightarrow> Inl e
         | Inr inet \<Rightarrow>
             if inet \<notin> set inets then Inr []
             else if \<not> scope_selected scope xs then Inr []
             else (case nth_field xs 3 of
                     Inl e \<Rightarrow> Inl e
                   | Inr t \<Rightarrow> map_sum id (\<lambda>a. [fst a]) (parse_ip_address N t)))"

definition list_ip_addresses ::
  "number_lib \<Rightarrow> 'w shell \<Rightarrow> int option \<Rightarrow> string option \<Rightarrow> string option \<Rightarrow> ('w, address list) act" where
  "list_ip_addresses N sh ver device scope w =
     (case INETS ver of
        None \<Rightarrow> (Inl (ip_error [(''error'', ''invalid IP version: '' @ (case ver of None \<Rightarrow> ''None'' | Some n \<Rightarrow> str_int n))]), w)
      | Some inets \<Rightarrow>
          (case execute_ip sh None False ([''-o'', ''address'', ''list''] @ (case device of None \<Rightarrow> [] | Some d \<Rightarrow> [d])) w of
             (Inl e, w') \<Rightarrow> (Inl e, w')
           | (Inr output, w') \<Rightarrow>
               (map_sum id concat (map_res (address_of_line N inets scope) (splitlines output)), w')))"

definition find_ip_address ::
  "number_lib \<Rightarrow> 'w shell \<Rightarrow> (address list \<Rightarrow> string) \<Rightarrow> int option \<Rightarrow> string option \<Rightarrow> string option \<Rightarrow> bool \<Rightarrow> ('w, address) act" where
  "find_ip_address N sh rep ver device scope unique =
     bindA (list_ip_addresses N sh ver device scope)
       (\<lambda>ips w. (if unique then select_unique rep ips else select_first ips, w))"

definition first_fields :: "string \<Rightarrow> string list res" where
  "first_fields output = map_res (\<lambda>line. nth_field (split_ws (strip line)) 0) (splitlines output)"

definition list_network_namespaces :: "'w shell \<Rightarrow> ('w, string list) act" where
  "list_network_namespaces sh = bindA (execute_ip sh None False [''-o'', ''netns'', ''list'']) (\<lambda>out w. (first_fields out, w))"

definition list_network_interfaces :: "'w shell \<Rightarrow> ('w, string list) act" where
  "list_network_interfaces sh =
     bindA (execute_ip sh None False [''--brief'', ''address'', ''list'']) (\<lambda>out w. (first_fields out, w))"

text \<open>The first line decides: it has a device or an error is raised.\<close>

definition get_network_main_route_device :: "'w shell \<Rightarrow> string \<Rightarrow> ('w, string option) act" where
  "get_network_main_route_device sh dest_ip =
     bindA (execute_ip sh None False [''route'', ''get'', dest_ip])
       (\<lambda>out w. (case splitlines out of
            [] \<Rightarrow> Inr None
          | line # _ \<Rightarrow>
              (let xs = split_ws (strip line)
               in if ''dev'' \<notin> set xs then Raise PyValueError (str_repr ''dev'' @ '' is not in list'')
                  else case field_after ''dev'' xs of
                         None \<Rightarrow> Raise PyIndexError ''list index out of range''
                       | Some d \<Rightarrow> Inr (Some d)), w))"

subsection \<open>What is listed\<close>

text \<open>An address as a line of \<open>ip -o address list\<close> shows it.\<close>

record ip_row =
  ir_head :: "string list"
  ir_inet :: string
  ir_address :: string
  ir_prefix :: nat
  ir_mid :: "string list"
  ir_scope :: string
  ir_rest :: "string list"

definition ip_words :: "ip_row \<Rightarrow> string list" where
  "ip_words r =
     ir_head r @ [ir_inet r, ir_address r @ ''/'' @ str_nat (ir_prefix r)] @ ir_mid r @ [''scope'', ir_scope r] @ ir_rest r"

definition ip_row_ok :: "number_lib \<Rightarrow> ip_row \<Rightarrow> bool" where
  "ip_row_ok N r =
     (length (ir_head r) = 2 \<and> (\<forall>w \<in> set (ip_words r). word w) \<and> CHR ''/'' \<notin> set (ir_address r) \<and>
      parse_ip N (ir_address r) \<noteq> None \<and> ''scope'' \<notin> set (ir_head r @ [ir_inet r] @ ir_mid r))"

definition row_address :: "number_lib \<Rightarrow> ip_row \<Rightarrow> address" where
  "row_address N r = (case the (parse_ip N (ir_address r)) of (v, t) \<Rightarrow> AddrIP v t)"

definition row_selected :: "string list \<Rightarrow> string option \<Rightarrow> ip_row \<Rightarrow> bool" where
  "row_selected inets scope r = (ir_inet r \<in> set inets \<and> (scope = None \<or> scope = Some [] \<or> scope = Some (ir_scope r)))"

lemma field_after_skip: "name \<notin> set xs \<Longrightarrow> field_after name (xs @ name # y # ys) = Some y"
  by (induction xs) auto

lemma address_of_row:
  assumes "ip_row_ok N r"
  shows "address_of_line N inets scope (str_join '' '' (ip_words r)) =
    Inr (if row_selected inets scope r then [row_address N r] else [])"
proof -
  let ?p = "ir_address r @ ''/'' @ str_nat (ir_prefix r)"
  obtain a b where h: "ir_head r = [a, b]"
    using assms by (auto simp: ip_row_ok_def numeral_2_eq_2 length_Suc_conv)
  have slash: "?p \<noteq> ''scope''"
  proof
    assume e: "?p = ''scope''"
    have "CHR ''/'' \<in> set ?p" by simp
    then show False unfolding e by simp
  qed
  then have "field_after ''scope'' ((ir_head r @ [ir_inet r, ?p] @ ir_mid r) @ ''scope'' # ir_scope r # ir_rest r) = Some (ir_scope r)"
    by (intro field_after_skip) (use assms in \<open>auto simp: ip_row_ok_def\<close>)
  then have s: "scope_selected scope (ip_words r) = (scope = None \<or> scope = Some [] \<or> scope = Some (ir_scope r))"
    by (auto simp: scope_selected_def ip_words_def split: option.splits)
  have "CHR ''/'' \<notin> set (ir_address r)" using assms by (simp add: ip_row_ok_def)
  then have "split_max 1 ''/'' ?p = [ir_address r, str_nat (ir_prefix r)]" by (simp add: str_find_char_Some)
  moreover have "py_int (str_nat n) = Inr (int n)" for n using py_int_str_int[of "int n"] by (simp add: str_int_def)
  moreover have "ip_address N (ir_address r) = Inr (row_address N r)"
    using assms by (auto simp: ip_row_ok_def ip_address_def row_address_def split: option.splits prod.splits)
  ultimately have p: "parse_ip_address N ?p = Inr (row_address N r, int (ir_prefix r))"
    by (simp add: parse_ip_address_def)
  have w: "split_ws (strip (str_join '' '' (ip_words r))) = ip_words r"
    using assms by (simp add: ip_row_ok_def strip_words split_ws_words)
  have n: "nth_field (ip_words r) 2 = Inr (ir_inet r)" "nth_field (ip_words r) 3 = Inr ?p"
    by (simp_all add: nth_field_def ip_words_def h)
  show ?thesis unfolding address_of_line_def Let_def w n s row_selected_def using p by auto
qed


definition demo_ip_row :: "nat \<Rightarrow> string \<Rightarrow> string \<Rightarrow> ip_row" where
  "demo_ip_row n a s = \<lparr>ir_head = [str_nat n @ '':'', ''eth0''], ir_inet = ''inet'', ir_address = a, ir_prefix = 24,
     ir_mid = [''brd'', ''10.0.0.255''], ir_scope = s, ir_rest = [''eth0'']\<rparr>"

definition demo_ip_out :: string where
  "demo_ip_out = ''2: eth0 inet 10.0.0.1/24 brd 10.0.0.255 scope global eth0'' @ [CHR 0x0A] @
     ''3: eth0 inet 10.0.0.1/24 brd 10.0.0.255 scope link eth0''"

definition demo_ip_shell :: "unit shell" where
  "demo_ip_shell c w = (Inr \<lparr>r_command = [], r_exit_status = Some 0, r_timeout = None, r_status = None, r_login = None,
     r_stdin = None, r_stdout = Some demo_ip_out, r_stderr = None\<rparr>, w)"


text \<open>
  The message of \<open>IpError\<close> shows an exit status, which the error for an unknown IP version
  does not give: the caller gets a \<open>KeyError\<close>.
\<close>

lemma ip_version_key_error:
  "list_ip_addresses N sh (Some 5) device scope w = (Raise PyKeyError ''exit_status'', w)"
proof -
  have "ip_error [(''error'', ''invalid IP version: 5'')] = Exn PyKeyError ''exit_status''" by code_simp
  moreover have "str_int 5 = ''5''" by code_simp
  ultimately show ?thesis by (simp add: list_ip_addresses_def INETS_def)
qed

section \<open>ifconfig\<close>

definition IfconfigError :: pyclass where
  "IfconfigError = ''IfconfigError'' # TobikoException"

declare IfconfigError_def [exn_classes]

definition ifconfig_error :: "string \<Rightarrow> exn" where
  "ifconfig_error err =
     raised (\<lambda>v spec. Inr v) IfconfigError ''Unable to get IP addresses from host: {error!s}'' [(''error'', err)]"

definition execute_ifconfig :: "'w shell \<Rightarrow> string list \<Rightarrow> ('w, string) act" where
  "execute_ifconfig sh args w =
     (case sh (''/sbin/ifconfig'' # args) w of
        (Inl e, w') \<Rightarrow> (Inl e, w')
      | (Inr r, w') \<Rightarrow>
          (if (r_exit_status r \<noteq> None \<and> r_exit_status r \<noteq> Some 0) \<or> r_stdout r = None \<or> r_stdout r = Some []
           then Inl (ifconfig_error (opt_text (r_stderr r))) else Inr (the (r_stdout r)), w'))"

definition ifconfig_field :: "string list \<Rightarrow> string res" where
  "ifconfig_field xs =
     (case nth_field xs 1 of
        Inl e \<Rightarrow> Inl e
      | Inr a \<Rightarrow>
          if prefix ''addr:'' a
          then (if drop (length ''addr:'') a = [] then nth_field xs 2 else Inr (drop (length ''addr:'') a))
          else Inr a)"

text \<open>A missing field leaves the line out.\<close>

definition ifconfig_line :: "number_lib \<Rightarrow> string list \<Rightarrow> string \<Rightarrow> address list res" where
  "ifconfig_line N inets line =
     (if \<not> prefix '' '' line then Inr []
      else (case split_ws (strip line) of
              [] \<Rightarrow> Inr []
            | x # xs \<Rightarrow>
                if x \<notin> set inets then Inr []
                else (case ifconfig_field (x # xs) of
                        Inl e \<Rightarrow> Inr []
                      | Inr a \<Rightarrow> map_sum id (\<lambda>a. [a]) (ip_address N (hd (split_max 1 ''/'' a))))))"

definition ifconfig_ip_addresses :: "number_lib \<Rightarrow> 'w shell \<Rightarrow> int option \<Rightarrow> ('w, address list) act" where
  "ifconfig_ip_addresses N sh ver w =
     (case INETS ver of
        None \<Rightarrow> (Inl (ifconfig_error (''invalid IP version: '' @ (case ver of None \<Rightarrow> ''None'' | Some n \<Rightarrow> str_int n))), w)
      | Some inets \<Rightarrow>
          bindA (execute_ifconfig sh [])
            (\<lambda>out w. (map_sum id concat (map_res (ifconfig_line N inets) (splitlines out)), w)) w)"

section \<open>Name servers\<close>

definition before_comment :: "string \<Rightarrow> string" where
  "before_comment line = hd (split_max 1 ''#'' (hd (split_max 1 '';'' line)))"

text \<open>A text that is no address is left out, unless it has a netmask.\<close>

definition known_address :: "number_lib \<Rightarrow> string \<Rightarrow> address list res" where
  "known_address N t =
     (case ip_address N t of
        Inr a \<Rightarrow> Inr [a]
      | Inl e \<Rightarrow> if isinstance_exn e AddrFormatError then Inr [] else Inl e)"

definition known_addresses :: "number_lib \<Rightarrow> string list \<Rightarrow> address list res" where
  "known_addresses N ts = map_sum id concat (map_res (known_address N) ts)"

definition nameservers_of_line :: "number_lib \<Rightarrow> string \<Rightarrow> address list res" where
  "nameservers_of_line N line =
     (case split_ws (str_lower (strip (before_comment line))) of
        [] \<Rightarrow> Inr []
      | x # xs \<Rightarrow> if x = ''nameserver'' then known_addresses N xs else Inr [])"

definition parse_resolv_conf_file :: "number_lib \<Rightarrow> (string \<Rightarrow> ('w, execute_result) act) \<Rightarrow> string \<Rightarrow> ('w, address list) act" where
  "parse_resolv_conf_file N sh filename =
     bindA (sh (''cat '' @ [CHR 0x27] @ filename @ [CHR 0x27]))
       (\<lambda>r w. (map_sum id concat
                (map_res (nameservers_of_line N) (splitlines (case r_stdout r of None \<Rightarrow> [] | Some t \<Rightarrow> t))), w))"

text \<open>tobiko/shell/sh/_nmcli.py: the connections of NetworkManager and their values.\<close>

definition get_nm_connection_ids :: "(string \<Rightarrow> ('w, execute_result) act) \<Rightarrow> ('w, string list) act" where
  "get_nm_connection_ids sh =
     bindA (sh ''nmcli -g UUID con'') (\<lambda>r. ret (splitlines (case r_stdout r of None \<Rightarrow> [] | Some t \<Rightarrow> t)))"

definition nm_values :: "string \<Rightarrow> string list" where
  "nm_values out =
     concat (map (\<lambda>line. if line = [] then [] else map (\<lambda>v. filter (\<lambda>c. c \<noteq> CHR 0x5C) (strip v)) (split_on ''|'' line))
       (splitlines out))"

definition get_nm_connection_values ::
  "(string \<Rightarrow> ('w, execute_result) act) \<Rightarrow> string \<Rightarrow> string \<Rightarrow> ('w, string list) act" where
  "get_nm_connection_values sh connection names =
     bindA (sh (''nmcli -g '' @ names @ '' con show '' @ [CHR 0x22] @ connection @ [CHR 0x22]))
       (\<lambda>r. ret (nm_values (case r_stdout r of None \<Rightarrow> [] | Some t \<Rightarrow> t)))"

definition parse_dns_nmcli :: "number_lib \<Rightarrow> (string \<Rightarrow> ('w, execute_result) act) \<Rightarrow> ('w, address list) act" where
  "parse_dns_nmcli N sh =
     bindA (get_nm_connection_ids sh)
       (\<lambda>cs. bindA (map_act (\<lambda>c w. case get_nm_connection_values sh c ''IP4.DNS,IP6.DNS'' w of
                  (Inl e, w') \<Rightarrow> (Inl e, w')
                | (Inr vs, w') \<Rightarrow> (known_addresses N vs, w')) cs)
          (\<lambda>as. ret (concat as)))"

definition has_version :: "int \<Rightarrow> address \<Rightarrow> bool" where
  "has_version ver a = (case a of AddrIP v t \<Rightarrow> v = ver | AddrName s \<Rightarrow> False)"

definition list_nameservers ::
  "number_lib \<Rightarrow> (string \<Rightarrow> ('w, execute_result) act) \<Rightarrow> ('w, unit) act \<Rightarrow> string list option \<Rightarrow> int option \<Rightarrow> ('w, address list) act" where
  "list_nameservers N sh find_nmcli filenames ver =
     bindA (map_act (parse_resolv_conf_file N sh) (case filenames of None \<Rightarrow> [''/etc/resolv.conf''] | Some fs \<Rightarrow> fs))
       (\<lambda>files. bindA
          (\<lambda>w. case find_nmcli w of
             (Inr _, w') \<Rightarrow> parse_dns_nmcli N sh w'
           | (Inl e, w') \<Rightarrow> if isinstance_exn e CommandNotFound then (Inr [], w') else (Inl e, w'))
          (\<lambda>dns. ret (let all = concat files @ dns
                      in case ver of None \<Rightarrow> all | Some v \<Rightarrow> if v = 0 then all else filter (has_version v) all)))"

end
