(* ===== verification/Shell_Ps.thy ===== *)
theory Shell_Ps
  imports Shell_Process Retry_Runs Tobiko_Select
begin

text \<open>
  tobiko/shell/sh/_ps.py: reading the table that ps prints, selecting processes, waiting for
  processes to end and killing one. Matching a regular expression and reading the command
  line of a process are parameters; running a command is an action on the world.
\<close>

definition PsError :: pyclass where
  "PsError = ''PsError'' # TobikoException"
definition PsWaitTimeout :: pyclass where
  "PsWaitTimeout = ''PsWaitTimeout'' # PsError"

declare PsError_def [exn_classes] PsWaitTimeout_def [exn_classes]

record ps_process =
  ps_command :: string
  ps_pid :: int

definition is_kernel :: "ps_process \<Rightarrow> bool" where
  "is_kernel p =
     (let t = ps_command p; c = (if suffix [CHR 0x0A] t then butlast t else t) in 2 \<le> length c \<and> hd c = CHR ''['' \<and> List.last c = CHR '']'' \<and> CHR 0x0A \<notin> set c)"

section \<open>Reading the table\<close>

datatype ps_column = PidColumn | CommandColumn

definition PS_TABLE_SCHEMA :: "string \<Rightarrow> ps_column option" where
  "PS_TABLE_SCHEMA name =
     (if name = ''pid'' then Some PidColumn
      else if name = ''cmd'' \<or> name = ''command'' then Some CommandColumn else None)"

text \<open>A row of the table is what its cells give, later cells over earlier ones.\<close>

record ps_row =
  row_pid :: "int option"
  row_command :: "string option"

definition set_cell :: "ps_column \<Rightarrow> string \<Rightarrow> ps_row \<Rightarrow> ps_row res" where
  "set_cell col text r =
     (case col of
        PidColumn \<Rightarrow> map_sum id (\<lambda>n. r\<lparr>row_pid := Some n\<rparr>) (py_int text)
      | CommandColumn \<Rightarrow> Inr (r\<lparr>row_command := Some text\<rparr>))"

fun read_row :: "(nat \<times> ps_column) list \<Rightarrow> string list \<Rightarrow> ps_row \<Rightarrow> ps_row res" where
  "read_row [] row r = Inr r"
| "read_row ((i, col) # getters) row r =
     (if i < length row
      then (case set_cell col (row ! i) r of Inl e \<Rightarrow> Inl e | Inr r' \<Rightarrow> read_row getters row r')
      else Raise PyIndexError ''list index out of range'')"

fun table_getters :: "nat \<Rightarrow> string list \<Rightarrow> (nat \<times> ps_column) list" where
  "table_getters i [] = []"
| "table_getters i (n # ns) =
     (case PS_TABLE_SCHEMA n of None \<Rightarrow> table_getters (i + 1) ns | Some c \<Rightarrow> (i, c) # table_getters (i + 1) ns)"

definition split_row :: "nat \<Rightarrow> string \<Rightarrow> string list" where
  "split_row columns line = (if columns = 0 then split_ws (strip line) else split_ws_max (columns - 1) (strip line))"

definition parse_row :: "string list \<Rightarrow> string \<Rightarrow> ps_row list res" where
  "parse_row names line =
     (let row = split_row (length names) line
      in if row = [] then Inr []
         else map_sum id (\<lambda>r. [r]) (read_row (table_getters 0 names) row \<lparr>row_pid = None, row_command = None\<rparr>))"

definition make_process :: "ps_row \<Rightarrow> ps_process res" where
  "make_process r =
     (case (row_command r, row_pid r) of
        (Some c, Some n) \<Rightarrow> Inr \<lparr>ps_command = c, ps_pid = n\<rparr>
      | _ \<Rightarrow> Raise PyTypeError ''missing required positional arguments'')"

text \<open>The rows are made one by one for the loop that makes processes of them with \<open>use\<close>.\<close>

definition parse_table :: "(ps_row \<Rightarrow> 'p res) \<Rightarrow> string list \<Rightarrow> 'p list res" where
  "parse_table use lines =
     (case dropWhile (\<lambda>l. l = []) lines of
        [] \<Rightarrow> Raise PyRuntimeError ''generator raised StopIteration''
      | header # rest \<Rightarrow>
          map_sum id concat
            (map_res (\<lambda>line. case parse_row (split_ws (str_lower (strip header))) line of
                Inl e \<Rightarrow> Inl e | Inr rows \<Rightarrow> map_res use rows) rest))"

section \<open>Selecting\<close>

text \<open>\<open>rx\<close> is \<open>re.compile(pattern).match\<close>; \<open>cmdline\<close> is the text of the command line of a process.\<close>

record ps_query =
  q_command :: "string option"
  q_pid :: "int option"
  q_is_kernel :: "bool option"
  q_command_line :: "command_arg option"

definition select_if :: "bool \<Rightarrow> ('p \<Rightarrow> bool res) \<Rightarrow> 'p list \<Rightarrow> 'p list res" where
  "select_if given p ps = (if ps \<noteq> [] \<and> given then select p True ps else Inr ps)"

definition command_pattern :: "ps_query \<Rightarrow> ps_process list \<Rightarrow> string option res" where
  "command_pattern q ps =
     (case (q_command_line q, q_command q) of
        (Some c, None) \<Rightarrow>
          if ps = [] then Inr None
          else (case shell_command c of
                  Inl e \<Rightarrow> Inl e
                | Inr [] \<Rightarrow> Raise PyIndexError ''tuple index out of range''
                | Inr (w # ws) \<Rightarrow> Inr (Some w))
      | (_, c) \<Rightarrow> Inr c)"

definition command_line_text :: "command_arg \<Rightarrow> string" where
  "command_line_text c = (case c of Command ws \<Rightarrow> join_command ws | Text s \<Rightarrow> s | Items ws \<Rightarrow> join_command ws)"

definition select_processes ::
  "(string \<Rightarrow> string \<Rightarrow> bool res) \<Rightarrow> (ps_process \<Rightarrow> string) \<Rightarrow> ps_query \<Rightarrow> ps_process list \<Rightarrow> ps_process list res" where
  "select_processes rx cmdline q ps =
     (case select_if (q_pid q \<noteq> None) (\<lambda>p. Inr (q_pid q = Some (ps_pid p))) ps of Inl e \<Rightarrow> Inl e | Inr ps1 \<Rightarrow>
      (case command_pattern q ps1 of Inl e \<Rightarrow> Inl e | Inr pat \<Rightarrow>
      (case select_if (pat \<noteq> None) (\<lambda>p. rx (the pat) (ps_command p)) ps1 of Inl e \<Rightarrow> Inl e | Inr ps2 \<Rightarrow>
      (case select_if (q_is_kernel q \<noteq> None) (\<lambda>p. Inr (q_is_kernel q = Some (is_kernel p))) ps2 of Inl e \<Rightarrow> Inl e | Inr ps3 \<Rightarrow>
         select_if (q_command_line q \<noteq> None) (\<lambda>p. rx (command_line_text (the (q_command_line q))) (cmdline p)) ps3))))"

section \<open>Listing, waiting, killing\<close>

definition ps_command_line :: "int option \<Rightarrow> bool option \<Rightarrow> string list res" where
  "ps_command_line pid is_cirros =
     (if pid = None \<or> is_cirros \<noteq> Some False then command_add [''ps''] (Text ''-A'')
      else command_add [''ps''] (Text (''-p '' @ str_int (the pid))))"

definition processes_of_output :: "string option \<Rightarrow> string option \<Rightarrow> ps_process list res" where
  "processes_of_output out err =
     (let output = strip (case out of None \<Rightarrow> [] | Some t \<Rightarrow> t)
      in if output = [] then Raise PsError (''Unable to list processes from host: '' @ opt_text err)
         else parse_table make_process (splitlines output))"

definition list_processes ::
  "(string \<Rightarrow> string \<Rightarrow> bool res) \<Rightarrow> (ps_process \<Rightarrow> string) \<Rightarrow> (string list \<Rightarrow> ('w, execute_result) act) \<Rightarrow>
   bool option \<Rightarrow> ps_query \<Rightarrow> ('w, ps_process list) act" where
  "list_processes rx cmdline sh is_cirros q w =
     (case ps_command_line (q_pid q) is_cirros of
        Inl e \<Rightarrow> (Inl e, w)
      | Inr c \<Rightarrow>
          (case sh c w of
             (Inl e, w') \<Rightarrow> (Inl e, w')
           | (Inr r, w') \<Rightarrow>
               (case processes_of_output (r_stdout r) (r_stderr r) of
                  Inl e \<Rightarrow> (Inl e, w')
                | Inr ps \<Rightarrow> (select_processes rx cmdline q ps, w'))))"

definition list_kernel_processes where
  "list_kernel_processes rx cmdline sh is_cirros q = list_processes rx cmdline sh is_cirros (q\<lparr>q_is_kernel := Some True\<rparr>)"

definition list_all_processes where
  "list_all_processes rx cmdline sh is_cirros q = list_processes rx cmdline sh is_cirros (q\<lparr>q_is_kernel := None\<rparr>)"

definition wait_message :: "string \<Rightarrow> string \<Rightarrow> ps_process list \<Rightarrow> string" where
  "wait_message hostname timeout_text ps =
     ''Process(es) still running on host '' @ str_repr hostname @ '' after '' @ timeout_text @ '' seconds:'' @ [CHR 0x0A] @
     str_join [CHR 0x0A] (map (\<lambda>p. ''    '' @ str_int (ps_pid p) @ '' '' @ ps_command p) ps)"

definition wait_processes_turn ::
  "('w, ps_process list) act \<Rightarrow> ('w, string) act \<Rightarrow> string \<Rightarrow> retry_attempt \<Rightarrow> ('w, unit turn) act" where
  "wait_processes_turn list_act hostname timeout_text attempt =
     bindA list_act (\<lambda>ps.
       if ps = [] then ret (Done ())
       else bindA hostname (\<lambda>h w.
              case is_last None attempt of
                Inl e \<Rightarrow> (Inl e, w)
              | Inr True \<Rightarrow> (Raise PsWaitTimeout (wait_message h timeout_text ps), w)
              | Inr False \<Rightarrow> (Inr Next, w)))"

definition wait_for_processes ::
  "('w \<Rightarrow> rat) \<Rightarrow> (rat \<Rightarrow> 'w \<Rightarrow> 'w) \<Rightarrow> ('w, ps_process list) act \<Rightarrow> ('w, string) act \<Rightarrow> string \<Rightarrow> rat option \<Rightarrow> rat option \<Rightarrow>
   'w \<Rightarrow> (unit res \<times> 'w) option" where
  "wait_for_processes now slp list_act hostname timeout_text timeout sleep_interval w =
     retry_iter now slp (retry None None timeout None sleep_interval None None None (Some 5))
       (wait_processes_turn list_act hostname timeout_text) w"

definition kill_process :: "(string list \<Rightarrow> ('w, execute_result) act) \<Rightarrow> int option \<Rightarrow> ps_process \<Rightarrow> ('w, unit) act" where
  "kill_process sh signal p w =
     (case (case signal of None \<Rightarrow> Inr [''kill''] | Some n \<Rightarrow> command_add [''kill''] (Text (''-s '' @ str_int n))) of
        Inl e \<Rightarrow> (Inl e, w)
      | Inr c \<Rightarrow>
          (case command_add c (Text (str_int (ps_pid p))) of
             Inl e \<Rightarrow> (Inl e, w)
           | Inr c' \<Rightarrow> bindA (sh c') (\<lambda>_. ret ()) w))"

section \<open>Properties\<close>

lemma split_ws_max_word:
  assumes "w \<noteq> []" and "\<forall>c \<in> set w. \<not> py_space c" and "py_space b"
  shows "split_ws_max (Suc m) (w @ b # s) = w # split_ws_max m (b # s)"
    and "split_ws_max m (b # s) = split_ws_max m s"
proof -
  have hd: "\<not> py_space (hd w)" using assms by simp
  have drop: "dropWhile py_space (w @ b # s) = w @ b # s" using assms hd by (cases w) simp_all
  have "takeWhile (\<lambda>c. \<not> py_space c) (w @ b # s) = w" "dropWhile (\<lambda>c. \<not> py_space c) (w @ b # s) = b # s"
    using assms(2,3) by (simp_all add: takeWhile_tail dropWhile_append1 takeWhile_append2 dropWhile_append2)
  with drop assms(1) show "split_ws_max (Suc m) (w @ b # s) = w # split_ws_max m (b # s)"
    by (subst split_ws_max.simps) (simp add: Let_def)
  show "split_ws_max m (b # s) = split_ws_max m s"
    using assms(3) by (subst (1 2) split_ws_max.simps) simp
qed

lemma split_ws_max_last: "c \<noteq> [] \<Longrightarrow> \<not> py_space (hd c) \<Longrightarrow> split_ws_max 0 c = [c]"
  by (cases c) (simp_all add: split_ws_max.simps)

text \<open>A line as ps prints it.\<close>

definition ps_line :: "nat \<Rightarrow> string \<Rightarrow> string \<Rightarrow> string \<Rightarrow> string" where
  "ps_line n tty time c = ''  '' @ str_nat n @ '' '' @ tty @ '' '' @ time @ '' '' @ c"

lemma word_str_nat: "word (str_nat n)"
  using str_nat_chars[of _ n] digit_char(3) str_nat_nonempty[of n] by (auto simp: word_def)

lemma strip_ps_line:
  assumes "c \<noteq> []" and "\<not> py_space (List.last c)"
  shows "strip (ps_line n tty time c) = str_nat n @ '' '' @ tty @ '' '' @ time @ '' '' @ c"
proof -
  obtain d ds where d: "str_nat n = d # ds" "\<not> py_space d"
    using word_str_nat[of n] by (cases "str_nat n") (auto simp: word_def)
  have sp: "py_space (CHR '' '')" by (simp add: py_space_def)
  have "lstrip_by py_space (ps_line n tty time c) = str_nat n @ '' '' @ tty @ '' '' @ time @ '' '' @ c"
    using d sp by (simp add: lstrip_by_def ps_line_def)
  moreover have "rstrip_by py_space (str_nat n @ '' '' @ tty @ '' '' @ time @ '' '' @ c) = str_nat n @ '' '' @ tty @ '' '' @ time @ '' '' @ c"
    by (rule rstrip_id) (use assms in simp)
  ultimately show ?thesis by (simp add: strip_def strip_by_def)
qed

lemma split_ps_line:
  assumes "word tty" and "word time" and "c \<noteq> []" and "\<not> py_space (hd c)"
  shows "split_ws_max 3 (str_nat n @ '' '' @ tty @ '' '' @ time @ '' '' @ c) = [str_nat n, tty, time, c]"
proof -
  have sp: "py_space (CHR '' '')" by (simp add: py_space_def)
  have w: "split_ws_max (Suc m) (w @ CHR '' '' # s) = w # split_ws_max m s" if "word w" for w m s
    using split_ws_max_word[of w "CHR '' ''"] that sp by (simp add: word_def)
  show ?thesis
    using w[OF word_str_nat[of n], of 2] w[OF assms(1), of 1] w[OF assms(2), of 0] split_ws_max_last[OF assms(3,4)]
    by (simp add: numeral_3_eq_3 numeral_2_eq_2)
qed

definition ps_header :: string where
  "ps_header = ''    PID TTY          TIME CMD''"

lemma ps_header_names: "split_ws (str_lower (strip ps_header)) = [''pid'', ''tty'', ''time'', ''cmd'']"
  by code_simp

lemma ps_getters: "table_getters 0 [''pid'', ''tty'', ''time'', ''cmd''] = [(0, PidColumn), (3, CommandColumn)]"
  by (simp add: PS_TABLE_SCHEMA_def)

text \<open>
  Reading the table that ps prints gives one process for each of its lines, in
  order, with its number and its whole command, spaces included.
\<close>
theorem ps_table_processes:
  assumes "\<forall>(n, tty, time, c) \<in> set rows. word tty \<and> word time \<and> c \<noteq> [] \<and> \<not> py_space (hd c) \<and> \<not> py_space (List.last c)"
  shows "parse_table make_process (ps_header # map (\<lambda>(n, tty, time, c). ps_line n tty time c) rows) =
    Inr (map (\<lambda>(n, tty, time, c). \<lparr>ps_command = c, ps_pid = int n\<rparr>) rows)"
proof -
  have line: "parse_row [''pid'', ''tty'', ''time'', ''cmd''] (ps_line n tty time c) =
      Inr [\<lparr>row_pid = Some (int n), row_command = Some c\<rparr>]"
    if "word tty" "word time" "c \<noteq> []" "\<not> py_space (hd c)" "\<not> py_space (List.last c)" for n tty time c
  proof -
    have "split_row 4 (ps_line n tty time c) = [str_nat n, tty, time, c]"
      using split_ps_line[OF that(1-4), of n] that by (simp add: split_row_def strip_ps_line)
    then have row: "split_row (Suc (Suc (Suc (Suc 0)))) (ps_line n tty time c) = [str_nat n, tty, time, c]"
      by (simp add: eval_nat_numeral)
    have "py_int (str_nat n) = Inr (int n)" using py_int_str_int[of "int n"] by (simp add: str_int_def)
    with row show ?thesis unfolding parse_row_def ps_getters by (simp add: set_cell_def)
  qed
have "map_res (\<lambda>line. case parse_row [''pid'', ''tty'', ''time'', ''cmd''] line of Inl e \<Rightarrow> Inl e | Inr rows \<Rightarrow> map_res make_process rows)
      (map (\<lambda>(n, tty, time, c). ps_line n tty time c) rows) = Inr (map (\<lambda>(n, tty, time, c). [\<lparr>ps_command = c, ps_pid = int n\<rparr>]) rows)"
    using assms by (induction rows) (auto simp: line make_process_def)
  moreover have "ps_header \<noteq> []" by (simp add: ps_header_def)
  moreover have "concat (map (\<lambda>(n, tty, time, c). [\<lparr>ps_command = c, ps_pid = int n\<rparr>]) rs) =
      map (\<lambda>(n, tty, time, c). \<lparr>ps_command = c, ps_pid = int n\<rparr>) rs" for rs :: "(nat \<times> string \<times> string \<times> string) list"
    by (induction rs) auto
  ultimately show ?thesis by (simp add: parse_table_def ps_header_names)
qed

lemma ps_table_processes_witness:
  "parse_table make_process (ps_header # map (\<lambda>(n, tty, time, c). ps_line n tty time c) [(17, ''?'', ''00:00:01'', ''nc -l -p 80'')]) =
    Inr (map (\<lambda>(n, tty, time, c). \<lparr>ps_command = c, ps_pid = int n\<rparr>) [(17, ''?'', ''00:00:01'', ''nc -l -p 80'')])"
  by (rule ps_table_processes) (simp add: word_def py_space_def)

text \<open>Waiting returns only when a listing was empty.\<close>

lemma wait_processes_done:
  assumes "retry_run nw sl R (wait_processes_turn list_act hostname tt) start k el w atts x w'" and "x = Inr ()"
  shows "\<exists>v. list_act v = (Inr [], w')"
  using assms
proof (induction rule: retry_run.induct)
  case (run_done m e w a w1)
  then show ?case
    by (auto simp: wait_processes_turn_def bindA_def ret_def split: prod.splits sum.splits if_splits bool.splits)
qed simp_all

lemma wait_for_processes_gone:
  assumes "wait_for_processes nw sl list_act hostname tt timeout interval w = Some (Inr (), w')"
  shows "\<exists>v. list_act v = (Inr [], w')"
  using retry_loop_run[OF assms[unfolded wait_for_processes_def retry_iter_def]] wait_processes_done by fastforce

end
