(* ===== verification/Shell_Systemctl.thy ===== *)
theory Shell_Systemctl
  imports Shell_Process Retry_Runs Tobiko_Select
begin

text \<open>
  tobiko/shell/sh/_systemctl.py: the command lines of systemctl, reading its table of units
  by columns, and waiting until units are in a state. Matching a regular expression is a
  parameter; running a command is an action on the world.
\<close>

record systemd_unit =
  unit_name :: string
  unit_load :: string
  unit_active :: string
  unit_sub :: string
  unit_description :: string
  unit_data :: "(string \<times> string) list"

definition SystemdUnitNotFound :: pyclass where
  "SystemdUnitNotFound = ''SystemdUnitNotFound'' # TobikoException"
definition UnexpectedSystemctlUnitState :: pyclass where
  "UnexpectedSystemctlUnitState = ''UnexpectedSystemctlUnitState'' # TobikoException"

declare SystemdUnitNotFound_def [exn_classes] UnexpectedSystemctlUnitState_def [exn_classes]

section \<open>Command lines\<close>

record systemctl_options =
  so_all :: bool
  so_no_pager :: bool
  so_plain :: bool
  so_state :: "string option"
  so_type :: "string option"

definition add_words :: "string list res \<Rightarrow> command_arg \<Rightarrow> string list res" where
  "add_words c more_words = (case c of Inl e \<Rightarrow> Inl e | Inr ws \<Rightarrow> command_add ws more_words)"

definition add_if :: "bool \<Rightarrow> string \<Rightarrow> string list res \<Rightarrow> string list res" where
  "add_if b text c = (if b then add_words c (Text text) else c)"

definition systemctl_command :: "string \<Rightarrow> systemctl_options \<Rightarrow> string list \<Rightarrow> string list res" where
  "systemctl_command command opts units =
     (let c0 = command_add [''systemctl''] (Text command);
          c1 = add_if (so_all opts) ''-a'' c0;
          c2 = add_if (so_no_pager opts) ''--no-pager'' c1;
          c3 = add_if (so_plain opts) ''--plain'' c2;
          c4 = (case so_state opts of None \<Rightarrow> c3 | Some s \<Rightarrow> add_words c3 (Text (CHR 0x22 # ''--state='' @ s @ [CHR 0x22])));
          c5 = (case so_type opts of None \<Rightarrow> c4 | Some t \<Rightarrow> add_words c4 (Text (''-t '' @ [CHR 0x22] @ t @ [CHR 0x22])))
      in if units \<noteq> [] then add_words c5 (Items units) else c5)"

definition no_options :: systemctl_options where
  "no_options = \<lparr>so_all = False, so_no_pager = False, so_plain = False, so_state = None, so_type = None\<rparr>"

section \<open>The table of units\<close>

text \<open>The words of the first line in lower case, with the column each starts at.\<close>

function word_columns :: "nat \<Rightarrow> string \<Rightarrow> (string \<times> nat) list" where
  "word_columns i s =
     (let t = dropWhile py_space s; k = i + (length s - length t); w = takeWhile (\<lambda>c. \<not> py_space c) t
      in if t = [] then [] else (str_lower w, k) # word_columns (k + length w) (drop (length w) t))"
  by pat_completeness auto
termination
proof (relation "measure (length \<circ> snd)", goal_cases)
  case (2 i s t k w)
  have "length t \<le> length s" unfolding 2 by (rule length_dropWhile_le)
  moreover have "0 < length w"
  proof -
    have "\<not> py_space (hd t)" using 2 by (metis hd_dropWhile)
    with \<open>t \<noteq> []\<close> obtain c r where "t = c # r" "\<not> py_space c" by (cases t) auto
    then show ?thesis unfolding \<open>w = _\<close> by simp
  qed
  moreover have "0 < length t" using \<open>t \<noteq> []\<close> by simp
  ultimately have "length t - length w < length s" by linarith
  then show ?case by simp
qed simp

declare word_columns.simps [simp del]

fun with_ends :: "(string \<times> nat) list \<Rightarrow> (string \<times> nat \<times> nat option) list" where
  "with_ends [] = []"
| "with_ends [(n, a)] = [(n, a, None)]"
| "with_ends ((n, a) # (m, b) # cs) = (n, a, Some b) # with_ends ((m, b) # cs)"

definition slice :: "string \<Rightarrow> nat \<Rightarrow> nat option \<Rightarrow> string" where
  "slice line a b = (case b of None \<Rightarrow> drop a line | Some e \<Rightarrow> drop a (take e line))"

definition line_data :: "(string \<times> nat \<times> nat option) list \<Rightarrow> string \<Rightarrow> (string \<times> string) list" where
  "line_data columns line = dict_update [] (map (\<lambda>(n, a, b). (n, strip (slice line a b))) columns)"

definition data_get :: "(string \<times> string) list \<Rightarrow> string \<Rightarrow> string" where
  "data_get d k = (case map_of d k of None \<Rightarrow> [] | Some v \<Rightarrow> v)"

definition make_unit :: "(string \<times> string) list \<Rightarrow> systemd_unit" where
  "make_unit d = \<lparr>unit_name = data_get d ''unit'', unit_load = data_get d ''load'', unit_active = data_get d ''active'',
     unit_sub = data_get d ''sub'', unit_description = data_get d ''description'', unit_data = d\<rparr>"

fun unit_lines :: "exn \<Rightarrow> (string \<times> nat \<times> nat option) list \<Rightarrow> string list \<Rightarrow> systemd_unit list res" where
  "unit_lines not_found columns [] = Inr []"
| "unit_lines not_found columns (line # lines) =
     (if strip line = [] then Inr []
      else if strip line = ''0 loaded units listed.'' then Inl not_found
      else map_sum id (\<lambda>us. make_unit (line_data columns line) # us) (unit_lines not_found columns lines))"

definition units_of_output :: "string list \<Rightarrow> string \<Rightarrow> systemd_unit list res" where
  "units_of_output command output =
     (if prefix ''0 loaded units listed.'' output then Inr []
      else (case splitlines output of
              [] \<Rightarrow> Raise PyStopIteration []
            | first # lines \<Rightarrow>
                unit_lines (Exn SystemdUnitNotFound (''Systemd unit(s) not found'' @ [CHR 0x0A] @ ''  command: '' @ join_command command @
                    [CHR 0x0A] @ ''  output: '' @ output))
                  (with_ends (word_columns 0 first)) lines))"

definition list_systemd_units ::
  "(string list \<Rightarrow> ('w, execute_result) act) \<Rightarrow> systemctl_options \<Rightarrow> string list \<Rightarrow> ('w, systemd_unit list) act" where
  "list_systemd_units sh opts units w =
     (case systemctl_command ''list-units'' (opts\<lparr>so_no_pager := True, so_plain := True\<rparr>) units of
        Inl e \<Rightarrow> (Inl e, w)
      | Inr c \<Rightarrow>
          bindA (sh c) (\<lambda>r w. (units_of_output c (case r_stdout r of None \<Rightarrow> [] | Some t \<Rightarrow> t), w)) w)"

definition run_systemctl :: "(string list \<Rightarrow> ('w, execute_result) act) \<Rightarrow> string \<Rightarrow> string list \<Rightarrow> ('w, unit) act" where
  "run_systemctl sh command units w =
     (case systemctl_command command no_options units of Inl e \<Rightarrow> (Inl e, w) | Inr c \<Rightarrow> bindA (sh c) (\<lambda>_. ret ()) w)"

definition stop_systemd_units :: "(string list \<Rightarrow> ('w, execute_result) act) \<Rightarrow> string list \<Rightarrow> ('w, unit) act" where
  "stop_systemd_units sh units = run_systemctl sh ''stop'' units"

definition start_systemd_units :: "(string list \<Rightarrow> ('w, execute_result) act) \<Rightarrow> string list \<Rightarrow> ('w, unit) act" where
  "start_systemd_units sh units = run_systemctl sh ''start'' units"

section \<open>States\<close>

text \<open>A pattern is its text and its \<open>match\<close> method; None is the pattern that matches everything.\<close>

record state_matcher =
  ms_load :: "(string \<times> (string \<Rightarrow> bool)) option"
  ms_active :: "(string \<times> (string \<Rightarrow> bool)) option"
  ms_sub :: "(string \<times> (string \<Rightarrow> bool)) option"

definition compile_pattern :: "(string \<Rightarrow> string \<Rightarrow> bool) \<Rightarrow> string option \<Rightarrow> (string \<times> (string \<Rightarrow> bool)) option" where
  "compile_pattern rx p = map_option (\<lambda>t. (t, rx t)) p"

definition matches :: "(string \<times> (string \<Rightarrow> bool)) option \<Rightarrow> string \<Rightarrow> bool" where
  "matches p text = (case p of None \<Rightarrow> True | Some (t, f) \<Rightarrow> f text)"

definition match_unit :: "state_matcher \<Rightarrow> systemd_unit \<Rightarrow> bool" where
  "match_unit m u =
     (matches (ms_load m) (unit_load u) \<and> matches (ms_active m) (unit_active u) \<and> matches (ms_sub m) (unit_sub u))"

definition match_unit_state ::
  "(string \<Rightarrow> string \<Rightarrow> bool) \<Rightarrow> string option \<Rightarrow> string option \<Rightarrow> string option \<Rightarrow> state_matcher" where
  "match_unit_state rx load active sub =
     \<lparr>ms_load = compile_pattern rx load, ms_active = compile_pattern rx active, ms_sub = compile_pattern rx sub\<rparr>"

text \<open>\<open>__repr__\<close> labels every pattern as that of the load state.\<close>

definition matcher_detail :: "(string \<times> (string \<Rightarrow> bool)) option \<Rightarrow> string list" where
  "matcher_detail p = (case p of None \<Rightarrow> [] | Some (t, f) \<Rightarrow> [''load='' @ str_repr t])"

definition matcher_repr :: "state_matcher \<Rightarrow> string" where
  "matcher_repr m =
     ''MatchUnitState('' @ str_join '', '' (matcher_detail (ms_load m) @ matcher_detail (ms_active m) @ matcher_detail (ms_sub m)) @ '')''"

section \<open>Waiting\<close>

text \<open>The loop keeps the names still missing (with their units) and the units by name.\<close>

record wait_state =
  missing_names :: "string list"
  missing_units :: "systemd_unit list"
  all_units :: "(string \<times> systemd_unit) list"

definition wait_units_turn ::
  "(string list \<Rightarrow> ('w, systemd_unit list) act) \<Rightarrow> (systemd_unit \<Rightarrow> bool) \<Rightarrow> retry_attempt \<Rightarrow> ('w \<times> wait_state, unit turn) act" where
  "wait_units_turn list_units match attempt s =
     (case list_units (missing_names (snd s)) (fst s) of
        (Inl e, w) \<Rightarrow> (Inl e, (w, snd s))
      | (Inr actual, w) \<Rightarrow>
          (let missing = filter (\<lambda>u. \<not> match u) actual;
               st = \<lparr>missing_names = map unit_name missing, missing_units = missing,
                     all_units = dict_update (all_units (snd s)) (map (\<lambda>u. (unit_name u, u)) actual)\<rparr>
           in if missing = [] then (Inr (Done ()), (w, st))
              else (case is_last None attempt of
                      Inl e \<Rightarrow> (Inl e, (w, st))
                    | Inr True \<Rightarrow> (Inr (Done ()), (w, st))
                    | Inr False \<Rightarrow> (Inr Next, (w, st)))))"

text \<open>The units asked for are named; a unit whose name is asked for is not yet a unit.\<close>

definition wait_for_systemd_units_state ::
  "('w \<Rightarrow> rat) \<Rightarrow> (rat \<Rightarrow> 'w \<Rightarrow> 'w) \<Rightarrow> (string list \<Rightarrow> ('w, systemd_unit list) act) \<Rightarrow> (systemd_unit \<Rightarrow> bool) \<Rightarrow> string \<Rightarrow>
   (systemd_unit list \<Rightarrow> string) \<Rightarrow> string list \<Rightarrow> bool \<Rightarrow> rat option \<Rightarrow> rat option \<Rightarrow> 'w \<Rightarrow>
   (systemd_unit list res \<times> 'w) option" where
  "wait_for_systemd_units_state now slp list_units match matcher units_text units check timeout interval w =
     (case retry_iter (\<lambda>s. now (fst s)) (\<lambda>d s. (slp d (fst s), snd s))
             (retry None None timeout None interval None (Some 30) None (Some 5))
             (wait_units_turn list_units match) (w, \<lparr>missing_names = units, missing_units = [], all_units = []\<rparr>) of
        None \<Rightarrow> None
      | Some (Inl e, s) \<Rightarrow> Some (Inl e, fst s)
      | Some (Inr _, s) \<Rightarrow>
          Some (if check \<and> missing_units (snd s) \<noteq> []
                then Raise UnexpectedSystemctlUnitState (''Systemd unit(s) has unexpected state: '' @ [CHR 0x0A] @
                       ''  expected: '' @ matcher @ [CHR 0x0A] @ ''  actual: '' @ units_text (missing_units (snd s)))
                else Inr (map snd (all_units (snd s))), fst s))"

definition wait_for_active_systemd_units where
  "wait_for_active_systemd_units now slp rx list_units units_text units timeout interval w =
     (let m = match_unit_state rx None (Some ''ACTIVE'') None
      in wait_for_systemd_units_state now slp list_units (match_unit m) (matcher_repr m) units_text units True timeout interval w)"

section \<open>Properties\<close>

text \<open>Every unit kept that does not match is one of those still missing.\<close>

definition wait_inv :: "(systemd_unit \<Rightarrow> bool) \<Rightarrow> wait_state \<Rightarrow> bool" where
  "wait_inv match st =
     (distinct (map fst (all_units st)) \<and>
      (\<forall>n u. map_of (all_units st) n = Some u \<longrightarrow> unit_name u = n \<and> (match u \<or> n \<in> set (missing_names st))))"

lemma map_of_units:
  "map_of (rev (map (\<lambda>u. (unit_name u, u)) us)) n = Some u \<Longrightarrow> u \<in> set us \<and> unit_name u = n"
  by (drule map_of_SomeD) auto

lemma map_of_units_None:
  "map_of (rev (map (\<lambda>u. (unit_name u, u)) us)) n = None \<longleftrightarrow> n \<notin> unit_name ` set us"
  by (simp add: map_of_eq_None_iff image_image)

lemma wait_inv_turn:
  assumes "wait_inv match st" and "set (missing_names st) \<subseteq> unit_name ` set actual"
  shows "wait_inv match \<lparr>missing_names = map unit_name (filter (\<lambda>u. \<not> match u) actual),
    missing_units = filter (\<lambda>u. \<not> match u) actual,
    all_units = dict_update (all_units st) (map (\<lambda>u. (unit_name u, u)) actual)\<rparr>"
  unfolding wait_inv_def
proof (intro conjI allI impI)
  show "distinct (map fst (all_units \<lparr>missing_names = map unit_name (filter (\<lambda>u. \<not> match u) actual),
    missing_units = filter (\<lambda>u. \<not> match u) actual,
    all_units = dict_update (all_units st) (map (\<lambda>u. (unit_name u, u)) actual)\<rparr>))"
    using assms(1) distinct_dict_update[of "all_units st"] by (simp add: wait_inv_def)
next
  fix n u
  let ?st = "\<lparr>missing_names = map unit_name (filter (\<lambda>u. \<not> match u) actual),
    missing_units = filter (\<lambda>u. \<not> match u) actual,
    all_units = dict_update (all_units st) (map (\<lambda>u. (unit_name u, u)) actual)\<rparr>"
  assume "map_of (all_units ?st) n = Some u"
  then have m: "(map_of (all_units st) ++ map_of (rev (map (\<lambda>u. (unit_name u, u)) actual))) n = Some u"
    by (simp add: map_of_dict_update)
  have "unit_name u = n \<and> (match u \<or> n \<in> set (missing_names ?st))"
  proof (cases "map_of (rev (map (\<lambda>u. (unit_name u, u)) actual)) n")
    case None
    with m assms(1) have "unit_name u = n" "match u \<or> n \<in> set (missing_names st)"
      by (auto simp: wait_inv_def map_add_Some_iff)
    with None assms(2) show ?thesis unfolding map_of_units_None by auto
  next
    case (Some v)
    with m have "v = u" by (simp add: map_add_Some_iff)
    with map_of_units[OF Some] show ?thesis by auto
  qed
  then show "unit_name u = n" and "match u \<or> n \<in> set (missing_names ?st)" by blast+
qed

text \<open>A listing shows the units it is asked for.\<close>

definition shows_asked :: "(string list \<Rightarrow> ('w, systemd_unit list) act) \<Rightarrow> bool" where
  "shows_asked list_units = (\<forall>ns v vs v'. list_units ns v = (Inr vs, v') \<longrightarrow> set ns \<subseteq> unit_name ` set vs)"

lemma wait_units_turn_state:
  assumes "wait_units_turn list_units match att s = (Inr t, s')" and "wait_inv match (snd s)"
    and all: "shows_asked list_units"
  shows "wait_inv match (snd s') \<and> missing_names (snd s') = map unit_name (missing_units (snd s'))"
proof -
  from assms(1) obtain actual w where l: "list_units (missing_names (snd s)) (fst s) = (Inr actual, w)"
    by (cases "list_units (missing_names (snd s)) (fst s)") (auto simp: wait_units_turn_def split: sum.splits)
  then have "snd s' = \<lparr>missing_names = map unit_name (filter (\<lambda>u. \<not> match u) actual),
      missing_units = filter (\<lambda>u. \<not> match u) actual,
      all_units = dict_update (all_units (snd s)) (map (\<lambda>u. (unit_name u, u)) actual)\<rparr>"
    using assms(1) by (auto simp: wait_units_turn_def Let_def split: sum.splits if_splits bool.splits)
  moreover have "set (missing_names (snd s)) \<subseteq> unit_name ` set actual" using all l unfolding shows_asked_def by blast
  ultimately show ?thesis using wait_inv_turn[OF assms(2)] by simp
qed

lemma wait_units_run:
  assumes "retry_run nw sl R (wait_units_turn list_units match) start k el s atts x s'" and "x = Inr ()"
    and sl: "\<And>d s. snd (sl d s) = snd s"
    and all: "shows_asked list_units"
    and "wait_inv match (snd s)"
  shows "wait_inv match (snd s') \<and> missing_names (snd s') = map unit_name (missing_units (snd s'))"
  using assms(1,2,5)
proof (induction rule: retry_run.induct)
  case (run_done m e w a w1)
  show ?case using wait_units_turn_state[OF run_done.hyps(1) run_done.prems(2) all] .
next
  case (run_again m e w w1 u el' w2 atts x w3)
  have "snd w2 = snd w1" using run_again.hyps(3) by (auto simp: sl retry_pause_def Let_def split: option.splits if_splits)
  moreover have "wait_inv match (snd w1)"
    using wait_units_turn_state[OF run_again.hyps(1) run_again.prems(2) all] by blast
  ultimately show ?case using run_again.IH run_again.prems(1) by simp
qed simp_all


text \<open>A unit that is active the second time it is listed.\<close>

definition demo_unit :: "bool \<Rightarrow> systemd_unit" where
  "demo_unit up = make_unit [(''unit'', ''sshd.service''), (''active'', if up then ''active'' else ''inactive'')]"

definition demo_list :: "string list \<Rightarrow> (rat, systemd_unit list) act" where
  "demo_list ns w = (Inr (map (\<lambda>n. (demo_unit (3 \<le> w))\<lparr>unit_name := n\<rparr>) ns), w + 1)"

lemma demo_wait:
  "wait_for_systemd_units_state (\<lambda>w. w) (\<lambda>d w. w + d) demo_list (\<lambda>u. unit_active u = ''active'') [] (\<lambda>_. []) [''a''] True None None 0 =
     Some (Inr [(demo_unit True)\<lparr>unit_name := ''a''\<rparr>], 6)"
proof -
  let ?R = "mk_retry None (Some 30) None (Some (5::rat))"
  let ?b = "wait_units_turn demo_list (\<lambda>u. unit_active u = ''active'')"
  let ?u = "\<lambda>up. (demo_unit up)\<lparr>unit_name := ''a''\<rparr>"
  let ?s0 = "\<lparr>missing_names = [''a''], missing_units = [], all_units = []\<rparr>"
  let ?s1 = "\<lparr>missing_names = [''a''], missing_units = [?u False], all_units = [(''a'', ?u False)]\<rparr>"
  let ?s2 = "\<lparr>missing_names = [], missing_units = [], all_units = [(''a'', ?u True)]\<rparr>"
  have r: "retry None None None None None None (Some 30) None (Some (5::rat)) = ?R" by (simp add: retry_def)
  have t1: "?b (retry_number ?R 0 1 0) (0, ?s0) = (Inr Next, (1, ?s1))" by code_simp
  have t2: "?b (retry_number ?R 0 2 5) (5, ?s1) = (Inr (Done ()), (6, ?s2))" by code_simp
  have p: "retry_pause fst (\<lambda>d s. (fst s + d, snd s)) ?R (retry_number ?R 0 1 0) (1, ?s1) = (5, (5, ?s1))" by code_simp
  have c: "check_limits None (retry_number ?R 0 1 0) = Inr ()" by code_simp
  have l2: "retry_loop fst (\<lambda>d s. (fst s + d, snd s)) ?R ?b 0 2 5 (5, ?s1) = Some (Inr (), (6, ?s2))"
    by (subst retry_loop.simps) (simp add: Let_def t2)
  have l1: "retry_loop fst (\<lambda>d s. (fst s + d, snd s)) ?R ?b 0 1 0 (0, ?s0) = Some (Inr (), (6, ?s2))"
    by (subst retry_loop.simps) (simp add: Let_def t1 c p l2)
  show ?thesis unfolding wait_for_systemd_units_state_def retry_iter_def r using l1 by simp
qed

lemma shows_asked_demo: "shows_asked demo_list"
  by (auto simp: shows_asked_def demo_list_def image_image)


end
