(* ===== verification/Retry_Partial.thy ===== *)
theory Retry_Partial
  imports Retry_Runs
begin

text \<open>
  Operations that may not end, since they hold retry loops: an operation takes the state and
  gives None, or its result with the state it leaves. Statements on them are triples: when the
  precondition holds and the operation ends, then the postcondition holds of its result,
  an exception or a value, and of the state.
\<close>

type_synonym ('s, 'a) pact = "'s \<Rightarrow> ('a res \<times> 's) option"

definition retP :: "'a \<Rightarrow> ('s, 'a) pact" where
  "retP x s = Some (Inr x, s)"

definition raiseP :: "exn \<Rightarrow> ('s, 'a) pact" where
  "raiseP e s = Some (Inl e, s)"

definition liftP :: "('s, 'a) act \<Rightarrow> ('s, 'a) pact" where
  "liftP m s = Some (m s)"

definition bindP :: "('s, 'a) pact \<Rightarrow> ('a \<Rightarrow> ('s, 'b) pact) \<Rightarrow> ('s, 'b) pact" where
  "bindP m f s =
     (case m s of None \<Rightarrow> None | Some (Inl e, t) \<Rightarrow> Some (Inl e, t) | Some (Inr x, t) \<Rightarrow> f x t)"

text \<open>\<open>try: m except e: h e\<close> for the exceptions \<open>p\<close> selects.\<close>

definition catchP :: "('s, 'a) pact \<Rightarrow> (exn \<Rightarrow> bool) \<Rightarrow> (exn \<Rightarrow> ('s, 'a) pact) \<Rightarrow> ('s, 'a) pact" where
  "catchP m p h s =
     (case m s of Some (Inl e, t) \<Rightarrow> if p e then h e t else Some (Inl e, t) | x \<Rightarrow> x)"

text \<open>Running an operation on every element of a list, in order, up to the first exception.\<close>

fun map_pact :: "('a \<Rightarrow> ('s, 'b) pact) \<Rightarrow> 'a list \<Rightarrow> ('s, 'b list) pact" where
  "map_pact f [] = retP []"
| "map_pact f (x # xs) = bindP (f x) (\<lambda>y. bindP (map_pact f xs) (\<lambda>ys. retP (y # ys)))"

lemma map_pact_pure: "(\<And>x s. x \<in> set xs \<Longrightarrow> f x s = Some (Inr (g x), s)) \<Longrightarrow> map_pact f xs s = Some (Inr (map g xs), s)"
  by (induction xs) (simp_all add: retP_def bindP_def)

text \<open>The retry iterator over a body that may not end.\<close>

partial_function (option) retry_ploop ::
  "('w \<Rightarrow> rat) \<Rightarrow> (rat \<Rightarrow> 'w \<Rightarrow> 'w) \<Rightarrow> retry_obj \<Rightarrow> (retry_attempt \<Rightarrow> ('w, 'a turn) pact) \<Rightarrow>
   rat \<Rightarrow> int \<Rightarrow> rat \<Rightarrow> 'w \<Rightarrow> ('a res \<times> 'w) option" where
  "retry_ploop now slp R body start n el w =
     (case body (retry_number R start n el) w of
        None \<Rightarrow> None
      | Some (Inl e, w1) \<Rightarrow> Some (Inl e, w1)
      | Some (Inr (Done a), w1) \<Rightarrow> Some (Inr a, w1)
      | Some (Inr Next, w1) \<Rightarrow>
          (case check_limits None (retry_number R start n el) of
             Inl e \<Rightarrow> Some (Inl e, w1)
           | Inr _ \<Rightarrow>
               (case retry_pause now slp R (retry_number R start n el) w1 of
                  (el', w2) \<Rightarrow> retry_ploop now slp R body start (n + 1) el' w2)))"

definition retry_piter ::
  "('w \<Rightarrow> rat) \<Rightarrow> (rat \<Rightarrow> 'w \<Rightarrow> 'w) \<Rightarrow> retry_obj \<Rightarrow> (retry_attempt \<Rightarrow> ('w, 'a turn) pact) \<Rightarrow> ('w, 'a) pact" where
  "retry_piter now slp R body w = retry_ploop now slp R body (now w) 1 0 w"

section \<open>Triples\<close>

definition valid :: "('s \<Rightarrow> bool) \<Rightarrow> ('s, 'a) pact \<Rightarrow> ('a res \<Rightarrow> 's \<Rightarrow> bool) \<Rightarrow> bool" where
  "valid P m Q = (\<forall>s r t. P s \<longrightarrow> m s = Some (r, t) \<longrightarrow> Q r t)"

text \<open>The postcondition with one part for exceptions and one for values.\<close>

definition post :: "(exn \<Rightarrow> 's \<Rightarrow> bool) \<Rightarrow> ('a \<Rightarrow> 's \<Rightarrow> bool) \<Rightarrow> 'a res \<Rightarrow> 's \<Rightarrow> bool" where
  "post E Q r t = (case r of Inl e \<Rightarrow> E e t | Inr x \<Rightarrow> Q x t)"

lemma post_simps [simp]: "post E Q (Inl e) = E e" "post E Q (Inr x) = Q x"
  by (simp_all add: post_def fun_eq_iff)

lemma post_const: "post (\<lambda>_. I) (\<lambda>_. I) = (\<lambda>_. I)"
  by (auto simp: post_def fun_eq_iff split: sum.split)

lemma validD: "valid P m Q \<Longrightarrow> P s \<Longrightarrow> m s = Some (r, t) \<Longrightarrow> Q r t"
  by (auto simp: valid_def)

lemma valid_conseq:
  "valid P' m Q' \<Longrightarrow> (\<And>s. P s \<Longrightarrow> P' s) \<Longrightarrow> (\<And>r t. Q' r t \<Longrightarrow> Q r t) \<Longrightarrow> valid P m Q"
  unfolding valid_def by blast

lemma valid_ret: "(\<And>s. P s \<Longrightarrow> Q (Inr x) s) \<Longrightarrow> valid P (retP x) Q"
  by (auto simp: valid_def retP_def)

lemma valid_raise: "(\<And>s. P s \<Longrightarrow> Q (Inl e) s) \<Longrightarrow> valid P (raiseP e) Q"
  by (auto simp: valid_def raiseP_def)

lemma valid_lift: "(\<And>s r t. P s \<Longrightarrow> m s = (r, t) \<Longrightarrow> Q r t) \<Longrightarrow> valid P (liftP m) Q"
  by (auto simp: valid_def liftP_def)

lemma valid_bind:
  "valid P m (post (\<lambda>e. Q (Inl e)) R) \<Longrightarrow> (\<And>x. valid (R x) (f x) Q) \<Longrightarrow> valid P (bindP m f) Q"
  unfolding valid_def bindP_def by (fastforce split: option.splits prod.splits sum.splits)

lemma valid_catch:
  assumes "valid P m (post R (\<lambda>x. Q (Inr x)))" and "\<And>e. p e \<Longrightarrow> valid (R e) (h e) Q"
    and "\<And>e s. \<not> p e \<Longrightarrow> R e s \<Longrightarrow> Q (Inl e) s"
  shows "valid P (catchP m p h) Q"
  unfolding valid_def
proof (intro allI impI)
  fix s r t assume P: "P s" and c: "catchP m p h s = Some (r, t)"
  obtain r' t' where m: "m s = Some (r', t')" using c by (auto simp: catchP_def split: option.splits)
  have pr: "post R (\<lambda>x. Q (Inr x)) r' t'" by (rule validD[OF assms(1) P m])
  show "Q r t"
  proof (cases r')
    case (Inl e)
    then have R: "R e t'" using pr by simp
    show ?thesis
    proof (cases "p e")
      case True
      with c m Inl have "h e t' = Some (r, t)" by (simp add: catchP_def)
      then show ?thesis using validD[OF assms(2)[OF True] R] by blast
    next
      case False
      with c m Inl have "r = Inl e" "t = t'" by (auto simp: catchP_def)
      then show ?thesis using assms(3)[OF False R] by simp
    qed
  next
    case (Inr x)
    with pr have "Q (Inr x) t'" by simp
    with c m Inr show ?thesis by (simp add: catchP_def)
  qed
qed

lemma valid_any: "valid P m (post (\<lambda>e s. True) (\<lambda>x s. True))"
  by (simp add: valid_def post_def split: sum.split)

text \<open>When only values matter, the parts before the last can do anything.\<close>

lemma valid_after:
  "(\<And>x. valid (\<lambda>s. True) (f x) (post (\<lambda>e s. True) Q)) \<Longrightarrow> valid P (bindP m f) (post (\<lambda>e s. True) Q)"
  by (rule valid_bind[where R = "\<lambda>x s. True"]) (simp_all add: valid_any)

lemma valid_if: "(b \<Longrightarrow> valid P m Q) \<Longrightarrow> (\<not> b \<Longrightarrow> valid P n Q) \<Longrightarrow> valid P (if b then m else n) Q"
  by simp

section \<open>Retry loops\<close>

definition limit_error :: "exn \<Rightarrow> bool" where
  "limit_error e = (exn_class e = RetryCountLimitError \<or> exn_class e = RetryTimeLimitError)"

lemma check_limits_error: "check_limits None a = Inl e \<Longrightarrow> limit_error e"
  by (auto simp: check_limits_None limit_error_def split: if_splits)

lemma check_limits_count: "check_limits None (retry_number R start n el) = Inr u \<Longrightarrow> rt_count R = Some c \<Longrightarrow> n < c"
  by (auto simp: check_limits_None count_left_def max_def split: if_splits)

text \<open>What one turn has to establish: an invariant indexed by the number of the attempt.\<close>

definition turn_post :: "('a res \<Rightarrow> 's \<Rightarrow> bool) \<Rightarrow> (int \<Rightarrow> 's \<Rightarrow> bool) \<Rightarrow> int \<Rightarrow> 'a turn res \<Rightarrow> 's \<Rightarrow> bool" where
  "turn_post Q I n r t =
     (case r of
        Inl e \<Rightarrow> Q (Inl e) t
      | Inr (Done x) \<Rightarrow> Q (Inr x) t
      | Inr Next \<Rightarrow> I (n + 1) t \<and> (\<forall>e. limit_error e \<longrightarrow> Q (Inl e) t))"

definition in_count :: "retry_obj \<Rightarrow> int \<Rightarrow> bool" where
  "in_count R n = (1 \<le> n \<and> (\<forall>c. rt_count R = Some c \<longrightarrow> n \<le> max 1 c))"

lemma pause_keeps:
  assumes "\<And>d s. I s \<Longrightarrow> I (slp d s)" and "I w" and "retry_pause now slp R a w = (el', w2)"
  shows "I w2"
  using assms by (auto simp: retry_pause_def Let_def split: option.splits if_splits)

lemma ploop_step:
  assumes IH: "\<And>now slp R body start n el w y. loop now slp R body start n el w = Some y \<Longrightarrow>
      I n w \<and> in_count R n \<and> (\<forall>n d s. I n s \<longrightarrow> I n (slp d s)) \<and>
      (\<forall>a. in_count R (at_number a) \<longrightarrow> valid (I (at_number a)) (body a) (turn_post Q I (at_number a))) \<longrightarrow>
      Q (fst y) (snd y)"
    and eq: "(case body (retry_number R start n el) w of
        None \<Rightarrow> None
      | Some (Inl e, w1) \<Rightarrow> Some (Inl e, w1)
      | Some (Inr Next, w1) \<Rightarrow>
          (case check_limits None (retry_number R start n el) of
             Inl e \<Rightarrow> Some (Inl e, w1)
           | Inr _ \<Rightarrow>
               (case retry_pause now slp R (retry_number R start n el) w1 of
                  (el', w2) \<Rightarrow> loop now slp R body start (n + 1) el' w2))
      | Some (Inr (Done a), w1) \<Rightarrow> Some (Inr a, w1)) = Some y"
    and I: "I n w" and cnt: "in_count R n" and slp: "\<forall>n d s. I n s \<longrightarrow> I n (slp d s)"
    and body: "\<forall>a. in_count R (at_number a) \<longrightarrow> valid (I (at_number a)) (body a) (turn_post Q I (at_number a))"
  shows "Q (fst y) (snd y)"
proof -
  let ?a = "retry_number R start n el"
  obtain r w1 where b: "body ?a w = Some (r, w1)" using eq by (cases "body ?a w") auto
  have "valid (I n) (body ?a) (turn_post Q I n)" using body cnt by (metis retry_number_sel(1))
  from validD[OF this I b] have p: "turn_post Q I n r w1" .
  show ?thesis
  proof (cases "r = Inr Next \<and> (\<exists>u. check_limits None ?a = Inr u)")
    case True
    then obtain u where u: "check_limits None ?a = Inr u" by blast
    obtain el' w2 where q: "retry_pause now slp R ?a w1 = (el', w2)" by fastforce
    have l: "loop now slp R body start (n + 1) el' w2 = Some y" using eq b True u q by simp
    have "I (n + 1) w1" using p True by (simp add: turn_post_def)
    then have "I (n + 1) w2" using pause_keeps[of "I (n + 1)" slp, OF _ _ q] slp by blast
    moreover have "in_count R (n + 1)" using check_limits_count[OF u] cnt by (fastforce simp: in_count_def)
    ultimately show ?thesis using IH[OF l] slp body by blast
  next
    case False
    with eq b p show ?thesis
      by (auto simp: turn_post_def intro: check_limits_error split: sum.splits turn.splits)
  qed
qed

lemma retry_ploop_valid:
  assumes "retry_ploop now slp R body start n el w = Some y" and "I n w" and "in_count R n"
    and slp: "\<And>n d s. I n s \<Longrightarrow> I n (slp d s)"
    and body: "\<And>a. in_count R (at_number a) \<Longrightarrow> valid (I (at_number a)) (body a) (turn_post Q I (at_number a))"
  shows "Q (fst y) (snd y)"
proof -
  have "I n w \<and> in_count R n \<and> (\<forall>n d s. I n s \<longrightarrow> I n (slp d s)) \<and>
      (\<forall>a. in_count R (at_number a) \<longrightarrow> valid (I (at_number a)) (body a) (turn_post Q I (at_number a))) \<longrightarrow>
      Q (fst y) (snd y)"
  proof (rule retry_ploop.raw_induct[where P = "\<lambda>now slp R body start n el w y.
      I n w \<and> in_count R n \<and> (\<forall>n d s. I n s \<longrightarrow> I n (slp d s)) \<and>
      (\<forall>a. in_count R (at_number a) \<longrightarrow> valid (I (at_number a)) (body a) (turn_post Q I (at_number a))) \<longrightarrow>
      Q (fst y) (snd y)", OF _ assms(1)], goal_cases)
    case (1 loop now slp R body start n el w y)
    show ?case
    proof (rule impI, elim conjE)
      assume a: "I n w" "in_count R n" "\<forall>n d s. I n s \<longrightarrow> I n (slp d s)"
        "\<forall>a. in_count R (at_number a) \<longrightarrow> valid (I (at_number a)) (body a) (turn_post Q I (at_number a))"
      show "Q (fst y) (snd y)" by (rule ploop_step[where loop = loop and now = now and slp = slp and R = R and body = body and start = start and n = n and el = el and w = w and y = y and I = I and Q = Q, OF 1 a])
    qed
  qed
  then show ?thesis using assms(2,3) slp body by blast
qed

lemma valid_retry_piter:
  assumes "\<And>n d s. I n s \<Longrightarrow> I n (slp d s)"
    and "\<And>a. in_count R (at_number a) \<Longrightarrow> valid (I (at_number a)) (body a) (turn_post Q I (at_number a))"
  shows "valid (I 1) (retry_piter now slp R body) Q"
  unfolding valid_def retry_piter_def
proof (intro allI impI)
  fix s r t assume "I 1 s" "retry_ploop now slp R body (now s) 1 0 s = Some (r, t)"
  then show "Q r t" using retry_ploop_valid[of now slp R body "now s" 1 0 s "(r, t)" I Q] assms
    by (simp add: in_count_def)
qed

text \<open>A body that always ends makes the loop of \<open>Tobiko_Retry\<close>.\<close>

lemma retry_run_ploop:
  "retry_run now slp R body start n el w atts r w' \<Longrightarrow>
     retry_ploop now slp R (\<lambda>a s. Some (body a s)) start n el w = Some (r, w')"
  by (induction rule: retry_run.induct) (subst retry_ploop.simps, simp)+

lemma retry_iter_piter:
  assumes "retry_iter now slp R body w = Some (r, w')"
  shows "retry_piter now slp R (\<lambda>a. liftP (body a)) w = Some (r, w')"
proof -
  obtain atts where "retry_run now slp R body (now w) 1 0 w atts r w'"
    using assms unfolding retry_iter_iff_run by blast
  moreover have "(\<lambda>a. liftP (body a)) = (\<lambda>a s. Some (body a s))" by (intro ext) (simp add: liftP_def)
  ultimately show ?thesis unfolding retry_piter_def using retry_run_ploop by metis
qed

lemma valid_retry_iter:
  assumes "\<And>n d s. I n s \<Longrightarrow> I n (slp d s)"
    and "\<And>a s r t. in_count R (at_number a) \<Longrightarrow> I (at_number a) s \<Longrightarrow> body a s = (r, t) \<Longrightarrow> turn_post Q I (at_number a) r t"
  shows "valid (I 1) (retry_iter now slp R body) Q"
proof -
  have "valid (I 1) (retry_piter now slp R (\<lambda>a. liftP (body a))) Q"
    by (rule valid_retry_piter) (use assms in \<open>auto intro: valid_lift\<close>)
  from validD[OF this _ retry_iter_piter] show ?thesis unfolding valid_def[of _ "retry_iter now slp R body"] by blast
qed

section \<open>Invariants\<close>

definition keeps :: "('s \<Rightarrow> bool) \<Rightarrow> ('s, 'a) pact \<Rightarrow> bool" where
  "keeps I m = valid I m (\<lambda>r t. I t)"

lemma keepsD: "keeps I m \<Longrightarrow> I s \<Longrightarrow> m s = Some (r, t) \<Longrightarrow> I t"
  unfolding keeps_def by (rule validD)

lemma keeps_ret: "keeps I (retP x)"
  and keeps_raise: "keeps I (raiseP e)"
  by (simp_all add: keeps_def valid_ret valid_raise)

lemma keeps_lift: "(\<And>s r t. I s \<Longrightarrow> m s = (r, t) \<Longrightarrow> I t) \<Longrightarrow> keeps I (liftP m)"
  unfolding keeps_def by (rule valid_lift)

text \<open>The same for operations that always end.\<close>

definition act_keeps :: "('s \<Rightarrow> bool) \<Rightarrow> ('s, 'a) act \<Rightarrow> bool" where
  "act_keeps I m = (\<forall>s. I s \<longrightarrow> I (snd (m s)))"

lemma act_keepsD: "act_keeps I m \<Longrightarrow> I s \<Longrightarrow> m s = (r, t) \<Longrightarrow> I t"
  by (auto simp: act_keeps_def)

lemma act_keeps_ret: "act_keeps I (ret x)"
  and act_keeps_raise: "act_keeps I (raise_act e)"
  by (simp_all add: act_keeps_def act_simps)

lemma act_keeps_bind: "act_keeps I m \<Longrightarrow> (\<And>x. act_keeps I (f x)) \<Longrightarrow> act_keeps I (bindA m f)"
  by (fastforce simp: act_keeps_def bindA_def split: prod.split sum.split)

lemmas act_keeps_rules = act_keeps_ret act_keeps_raise act_keeps_bind

lemma keeps_act: "act_keeps I m \<Longrightarrow> keeps I (liftP m)"
  by (rule keeps_lift) (rule act_keepsD)

lemma keeps_bind: "keeps I m \<Longrightarrow> (\<And>x. keeps I (f x)) \<Longrightarrow> keeps I (bindP m f)"
  unfolding keeps_def by (rule valid_bind[where R = "\<lambda>_. I"]) (simp_all add: post_const)

lemma keeps_catch: "keeps I m \<Longrightarrow> (\<And>e. p e \<Longrightarrow> keeps I (h e)) \<Longrightarrow> keeps I (catchP m p h)"
  unfolding keeps_def by (rule valid_catch[where R = "\<lambda>_. I"]) (simp_all add: post_const)

lemma keeps_retry:
  assumes "\<And>d s. I s \<Longrightarrow> I (slp d s)" and "\<And>a. keeps I (body a)"
  shows "keeps I (retry_piter now slp R body)"
  unfolding keeps_def
proof (rule valid_retry_piter)
  fix a show "valid I (body a) (turn_post (\<lambda>r t. I t) (\<lambda>_. I) (at_number a))"
    using assms(2)[of a] unfolding keeps_def by (rule valid_conseq) (simp_all add: turn_post_def split: sum.splits turn.splits)
qed (rule assms(1))

lemmas keeps_rules = keeps_ret keeps_raise keeps_act keeps_bind keeps_catch keeps_retry

section \<open>Operations that end\<close>

definition ends :: "('s, 'a) pact \<Rightarrow> bool" where
  "ends m = (\<forall>s. m s \<noteq> None)"

lemma ends_basic [simp]: "ends (retP x)" "ends (raiseP e)" "ends (liftP m')"
  by (simp_all add: ends_def retP_def raiseP_def liftP_def)

lemma ends_bind: "ends m \<Longrightarrow> (\<And>x. ends (f x)) \<Longrightarrow> ends (bindP m f)"
  by (fastforce simp: ends_def bindP_def split: option.splits sum.splits prod.splits)

lemma ends_catch: "ends m \<Longrightarrow> (\<And>e. ends (h e)) \<Longrightarrow> ends (catchP m p h)"
  by (fastforce simp: ends_def catchP_def split: option.splits sum.splits prod.splits)

text \<open>A count limit ends the loop.\<close>

lemma ploop_count_ends:
  assumes "rt_count R = Some c" and "\<And>a. ends (body a)"
  shows "retry_ploop now slp R body start n el w \<noteq> None"
proof (induction "nat (c - n)" arbitrary: n el w rule: less_induct)
  case less
  obtain r w1 where b: "body (retry_number R start n el) w = Some (r, w1)"
    using assms(2) unfolding ends_def by fastforce
  show ?case
  proof (cases "r = Inr Next \<and> (\<exists>u. check_limits None (retry_number R start n el) = Inr u)")
    case True
    then obtain u where u: "check_limits None (retry_number R start n el) = Inr u" by blast
    have "nat (c - (n + 1)) < nat (c - n)" using check_limits_count[OF u assms(1)] by simp
    from less.hyps[OF this] True b u show ?thesis by (subst retry_ploop.simps) (simp split: prod.split)
  next
    case False
    with b show ?thesis by (subst retry_ploop.simps) (auto split: sum.splits turn.splits)
  qed
qed

lemma retry_count_ends:
  "rt_count R = Some c \<Longrightarrow> (\<And>a. ends (body a)) \<Longrightarrow> ends (retry_piter now slp R body)"
  unfolding ends_def[of "retry_piter now slp R body"] retry_piter_def by (intro allI ploop_count_ends)

text \<open>
  A time limit ends the loop when time never goes back and, after a turn that goes on, every
  turn takes some time; what a turn that goes on leaves is described by \<open>J\<close>.
\<close>

context py_clock
begin

lemma ploop_timeout_ends:
  assumes total: "\<And>a. ends (body a)"
    and next_J: "\<And>a w w'. body a w = Some (Inr Next, w') \<Longrightarrow> J w' \<and> now w \<le> now w'"
    and step: "\<And>a w w'. J w \<Longrightarrow> body a w = Some (Inr Next, w') \<Longrightarrow> now w + d \<le> now w'"
    and J_sleep: "\<And>d w. J w \<Longrightarrow> J (slp d w)"
    and d: "0 < d" and t: "rt_timeout R = Some t" and el: "el \<le> now w - start" and "J w"
  shows "retry_ploop now slp R body start n el w \<noteq> None"
  using el \<open>J w\<close>
proof (induction "nat \<lceil>(max 0 t - el) / d\<rceil>" arbitrary: n el w rule: less_induct)
  case less
  let ?a = "retry_number R start n el"
  obtain r w1 where b: "body ?a w = Some (r, w1)" using total unfolding ends_def by fastforce
  show ?case
  proof (cases "r = Inr Next \<and> check_limits None ?a = Inr ()")
    case True
    then have lim: "el < max 0 t" using t
      by (auto simp: check_limits_None time_left_def to_secs_def split: if_splits)
    obtain el' w2 where p: "retry_pause now slp R ?a w1 = (el', w2)" by fastforce
    have J2: "J w2" using next_J[of ?a w w1] b True pause_keeps[of J slp, OF J_sleep _ p] by simp
    have "now w1 \<le> now w2" "el' = now w2 - start"
      using pause_forward[OF p] pause_elapsed[OF p] by simp_all
    moreover have "now w + d \<le> now w1" using step[OF less.prems(2), of ?a w1] b True by simp
    ultimately have el': "el + d \<le> el'" "el' \<le> now w2 - start" using less.prems(1) by linarith+
    from less.hyps[OF turns_left_less[OF el'(1) d lim] el'(2) J2, of "n + 1"] b True p show ?thesis
      by (subst retry_ploop.simps) simp
  next
    case False
    with b show ?thesis
      by (subst retry_ploop.simps) (auto split: sum.splits turn.splits prod.splits)
  qed
qed

lemma retry_timeout_ends:
  assumes total: "\<And>a. ends (body a)"
    and next_J: "\<And>a w w'. body a w = Some (Inr Next, w') \<Longrightarrow> J w' \<and> now w \<le> now w'"
    and step: "\<And>a w w'. J w \<Longrightarrow> body a w = Some (Inr Next, w') \<Longrightarrow> now w + d \<le> now w'"
    and J_sleep: "\<And>d w. J w \<Longrightarrow> J (slp d w)"
    and d: "0 < d" and t: "rt_timeout R = Some t"
  shows "ends (retry_piter now slp R body)"
  unfolding ends_def retry_piter_def
proof
  fix w
  let ?a = "retry_number R (now w) 1 0"
  obtain r w1 where b: "body ?a w = Some (r, w1)" using total unfolding ends_def by fastforce
  show "retry_ploop now slp R body (now w) 1 0 w \<noteq> None"
  proof (cases "r = Inr Next \<and> check_limits None ?a = Inr ()")
    case True
    obtain el' w2 where p: "retry_pause now slp R ?a w1 = (el', w2)" by fastforce
    have "J w2" using next_J[of ?a w w1] b True pause_keeps[of J slp, OF J_sleep _ p] by simp
    moreover have "el' \<le> now w2 - now w" using pause_elapsed[OF p] by simp
    ultimately have "retry_ploop now slp R body (now w) 2 el' w2 \<noteq> None"
      by (intro ploop_timeout_ends[OF total next_J step J_sleep d t])
    with b True p show ?thesis by (subst retry_ploop.simps) simp
  next
    case False
    with b show ?thesis by (subst retry_ploop.simps) (auto split: sum.splits turn.splits prod.splits)
  qed
qed

end

text \<open>The loops over bodies that end are those of \<open>Tobiko_Retry\<close>.\<close>

lemma retry_ploop_run:
  assumes "retry_ploop now slp R pbody start n el w = Some y" and "pbody = (\<lambda>a s. Some (body a s))"
  shows "\<exists>atts. retry_run now slp R body start n el w atts (fst y) (snd y)"
proof -
  have "pbody = (\<lambda>a s. Some (body a s)) \<longrightarrow> (\<exists>atts. retry_run now slp R body start n el w atts (fst y) (snd y))"
  proof (rule retry_ploop.raw_induct[where P = "\<lambda>now slp R pbody start n el w y.
      pbody = (\<lambda>a s. Some (body a s)) \<longrightarrow> (\<exists>atts. retry_run now slp R body start n el w atts (fst y) (snd y))",
      OF _ assms(1)], goal_cases)
    case (1 loop now slp R pbody start n el w y)
    show ?case
    proof
      assume pb: "pbody = (\<lambda>a s. Some (body a s))"
      let ?a = "retry_number R start n el"
      show "\<exists>atts. retry_run now slp R body start n el w atts (fst y) (snd y)"
      proof (cases "\<exists>w1 u. body ?a w = (Inr Next, w1) \<and> check_limits None ?a = Inr u")
        case True
        then obtain w1 u where h: "body ?a w = (Inr Next, w1)" "check_limits None ?a = Inr u" by blast
        obtain el' w2 where p: "retry_pause now slp R ?a w1 = (el', w2)" by fastforce
        have "loop now slp R pbody start (n + 1) el' w2 = Some y" using 1(2) h p by (simp add: pb)
        from 1(1)[OF this] pb obtain atts where
          "retry_run now slp R body start (n + 1) el' w2 atts (fst y) (snd y)" by blast
        from run_again[OF h p this] show ?thesis by blast
      next
        case False
        with 1(2) show ?thesis
          by (auto simp: pb split: prod.splits sum.splits turn.splits)
            (blast intro: run_raise run_done run_limit)+
      qed
    qed
  qed
  with assms(2) show ?thesis by blast
qed

lemma retry_iter_eq: "retry_iter now slp R body = retry_piter now slp R (\<lambda>a. liftP (body a))"
proof
  fix w
  have l: "(\<lambda>a. liftP (body a)) = (\<lambda>a s. Some (body a s))" by (intro ext) (simp add: liftP_def)
  show "retry_iter now slp R body w = retry_piter now slp R (\<lambda>a. liftP (body a)) w"
  proof (cases "retry_piter now slp R (\<lambda>a. liftP (body a)) w")
    case None
    then show ?thesis using retry_iter_piter[of now slp R body w] by (cases "retry_iter now slp R body w") auto
  next
    case (Some y)
    from retry_ploop_run[OF Some[unfolded retry_piter_def] l]
    have "retry_iter now slp R body w = Some (fst y, snd y)" unfolding retry_iter_iff_run .
    with Some show ?thesis by simp
  qed
qed

end
