(* ===== verification/Heat_Stack.thy ===== *)
theory Heat_Stack
  imports Retry_Partial Tobiko_Shelves
begin

text \<open>
  tobiko/openstack/heat/_stack.py: the life cycle of a Heat stack that a fixture creates,
  waits for, creates again when it is found failed, and deletes when no test uses it any
  longer. The state is the world with the attributes of the fixture. What the Heat client
  does, the quotas, the parameters of the template and the random numbers are parameters.
\<close>

definition INIT_IN_PROGRESS :: string where "INIT_IN_PROGRESS = ''INIT_IN_PROGRESS''"
definition INIT_COMPLETE :: string where "INIT_COMPLETE = ''INIT_COMPLETE''"
definition INIT_FAILED :: string where "INIT_FAILED = ''INIT_FAILED''"
definition CREATE_IN_PROGRESS :: string where "CREATE_IN_PROGRESS = ''CREATE_IN_PROGRESS''"
definition CREATE_COMPLETE :: string where "CREATE_COMPLETE = ''CREATE_COMPLETE''"
definition CREATE_FAILED :: string where "CREATE_FAILED = ''CREATE_FAILED''"
definition DELETE_IN_PROGRESS :: string where "DELETE_IN_PROGRESS = ''DELETE_IN_PROGRESS''"
definition DELETE_COMPLETE :: string where "DELETE_COMPLETE = ''DELETE_COMPLETE''"
definition DELETE_FAILED :: string where "DELETE_FAILED = ''DELETE_FAILED''"

named_theorems heat_status \<open>the names of the statuses\<close>

declare INIT_IN_PROGRESS_def [heat_status] INIT_COMPLETE_def [heat_status] INIT_FAILED_def [heat_status]
  CREATE_IN_PROGRESS_def [heat_status] CREATE_COMPLETE_def [heat_status] CREATE_FAILED_def [heat_status]
  DELETE_IN_PROGRESS_def [heat_status] DELETE_COMPLETE_def [heat_status] DELETE_FAILED_def [heat_status]

section \<open>Errors\<close>

definition InvalidFixtureError :: pyclass where
  "InvalidFixtureError = ''InvalidFixtureError'' # TobikoException"
definition HeatStackError :: pyclass where
  "HeatStackError = ''HeatStackError'' # TobikoException"
definition HeatStackNotFound :: pyclass where
  "HeatStackNotFound = ''HeatStackNotFound'' # HeatStackError"
definition InvalidHeatStackStatus :: pyclass where
  "InvalidHeatStackStatus = ''InvalidHeatStackStatus'' # InvalidFixtureError"
definition HeatStackCreationFailed :: pyclass where
  "HeatStackCreationFailed = ''HeatStackCreationFailed'' # InvalidHeatStackStatus"
definition HeatStackDeletionFailed :: pyclass where
  "HeatStackDeletionFailed = ''HeatStackDeletionFailed'' # InvalidHeatStackStatus"

declare InvalidFixtureError_def [exn_classes] HeatStackError_def [exn_classes] HeatStackNotFound_def [exn_classes]
  InvalidHeatStackStatus_def [exn_classes] HeatStackCreationFailed_def [exn_classes] HeatStackDeletionFailed_def [exn_classes]

record heat_stack =
  so_id :: string
  so_name :: string
  so_status :: string
  so_reason :: string

text \<open>The set of the expected statuses is printed in the order of the list.\<close>

definition status_message :: "heat_stack \<Rightarrow> string list \<Rightarrow> string" where
  "status_message st expected =
     ''stack '' @ str_repr (so_name st) @ '' status '' @ str_repr (so_status st) @ '' not in {'' @
     str_join '', '' (map str_repr expected) @ ''}'' @ [CHR 0x0A] @ so_reason st"

definition check_stack_status :: "heat_stack \<Rightarrow> string list \<Rightarrow> string res" where
  "check_stack_status st expected =
     (if so_status st \<in> set expected then Inr (so_status st)
      else if so_status st = CREATE_FAILED \<and> (CREATE_IN_PROGRESS \<in> set expected \<or> CREATE_COMPLETE \<in> set expected)
      then Raise HeatStackCreationFailed (status_message st expected)
      else if so_status st = DELETE_FAILED \<and> (DELETE_IN_PROGRESS \<in> set expected \<or> DELETE_COMPLETE \<in> set expected)
      then Raise HeatStackDeletionFailed (status_message st expected)
      else Raise InvalidHeatStackStatus (status_message st expected))"

section \<open>The fixture and its services\<close>

text \<open>\<open>ha_client\<close>: the attribute holds a Heat client; \<open>ha_outputs\<close>, \<open>ha_resources\<close>: it holds a fixture.\<close>

record heat_attrs =
  ha_stack :: "heat_stack option"
  ha_name :: "string option"
  ha_client :: bool
  ha_outputs :: bool
  ha_resources :: bool

text \<open>
  The attributes of the class, and what the fixture relies on: \<open>stacks.get\<close>, \<open>stacks.delete\<close>
  and \<open>stacks.create\<close> of the Heat client with the exceptions that they document, the values
  of the parameters, the quotas, the hook of the subclasses and the random numbers.
\<close>

record 'w heat_env =
  he_fixture_name :: string
  he_retry_count :: int
  he_retry_timeout :: rat
  he_min_interval :: rat
  he_max_interval :: rat
  he_wait_timeout :: "rat option"
  he_wait_interval :: "rat option"
  he_prevent_create :: bool
  he_client :: "('w, unit) act"
  he_get :: "string option \<Rightarrow> bool \<Rightarrow> ('w, heat_stack) act"
  he_delete :: "string \<Rightarrow> ('w, unit) act"
  he_create :: "string option \<Rightarrow> (string \<times> string) list \<Rightarrow> ('w, string) act"
  he_http_not_found :: "exn \<Rightarrow> bool"
  he_not_found :: "exn \<Rightarrow> bool"
  he_conflict :: "exn \<Rightarrow> bool"
  he_parameters :: "('w, (string \<times> string) list) act"
  he_neutron_quota :: "('w, unit) act"
  he_nova_quota :: "('w, unit) act"
  he_quota_error :: "exn \<Rightarrow> bool"
  he_prepare :: "('w, unit) act"
  he_project :: "('w, unit) act"
  he_template :: "('w, unit) act"
  he_random :: "'w \<Rightarrow> rat \<times> 'w"

definition set_attrs :: "(heat_attrs \<Rightarrow> heat_attrs) \<Rightarrow> ('w \<times> heat_attrs, unit) act" where
  "set_attrs f s = (Inr (), (fst s, f (snd s)))"

definition setup_stack_name :: "'w heat_env \<Rightarrow> ('w \<times> heat_attrs, string) act" where
  "setup_stack_name E s =
     (case ha_name (snd s) of
        Some n \<Rightarrow> (Inr n, s)
      | None \<Rightarrow> (Inr (he_fixture_name E), (fst s, (snd s)\<lparr>ha_name := Some (he_fixture_name E)\<rparr>)))"

definition setup_heat_client :: "'w heat_env \<Rightarrow> ('w \<times> heat_attrs, unit) act" where
  "setup_heat_client E s =
     (if ha_client (snd s) then (Inr (), s)
      else bindA (on_fst (he_client E)) (\<lambda>_. set_attrs (ha_client_update (\<lambda>_. True))) s)"

definition forget_caches :: "heat_attrs \<Rightarrow> heat_attrs" where
  "forget_caches a = a\<lparr>ha_outputs := False, ha_resources := False\<rparr>"

text \<open>\<open>get_stack\<close>: the caches are forgotten also when the client raises.\<close>

definition get_heat_stack :: "'w heat_env \<Rightarrow> bool \<Rightarrow> ('w \<times> heat_attrs, heat_stack option) act" where
  "get_heat_stack E resolve =
     bindA (setup_heat_client E)
       (\<lambda>_ s. case he_get E (ha_name (snd s)) resolve (fst s) of
          (Inr st, w) \<Rightarrow> (Inr (Some st), (w, forget_caches ((snd s)\<lparr>ha_stack := Some st\<rparr>)))
        | (Inl e, w) \<Rightarrow>
            if he_http_not_found E e then (Inr None, (w, forget_caches ((snd s)\<lparr>ha_stack := None\<rparr>)))
            else (Inl e, (w, forget_caches (snd s))))"

definition get_stack_id :: "'w heat_env \<Rightarrow> ('w \<times> heat_attrs, string) act" where
  "get_stack_id E s = (case ha_stack (snd s) of None \<Rightarrow> setup_stack_name E s | Some st \<Rightarrow> (Inr (so_id st), s))"

text \<open>\<open>delete_stack\<close>: the stack is forgotten before its id is asked for, so without an id the name is used.\<close>

definition delete_stack :: "'w heat_env \<Rightarrow> string option \<Rightarrow> ('w \<times> heat_attrs, unit) act" where
  "delete_stack E sid =
     bindA (set_attrs (\<lambda>a. forget_caches (a\<lparr>ha_stack := None\<rparr>))) (\<lambda>_.
     bindA (case sid of
              Some i \<Rightarrow> if i = [] then get_stack_id E else ret i
            | None \<Rightarrow> get_stack_id E) (\<lambda>i s.
       if \<not> ha_client (snd s) then (Raise PyAttributeError ''NoneType object has no attribute stacks'', s)
       else (case he_delete E i (fst s) of
               (Inr _, w) \<Rightarrow> (Inr (), (w, snd s))
             | (Inl e, w) \<Rightarrow> if he_not_found E e then (Inr (), (w, snd s)) else (Inl e, (w, snd s)))))"

section \<open>Waiting for a status\<close>

definition status_of :: "heat_stack option \<Rightarrow> string" where
  "status_of st = (case st of None \<Rightarrow> DELETE_COMPLETE | Some x \<Rightarrow> so_status x)"

definition in_progress :: "string \<Rightarrow> bool" where
  "in_progress status = suffix ''_IN_PROGRESS'' status"

text \<open>One turn; the flag is the local variable \<open>cached\<close>.\<close>

definition status_turn ::
  "'w heat_env \<Rightarrow> string list \<Rightarrow> retry_attempt \<Rightarrow> (('w \<times> heat_attrs) \<times> bool, heat_stack option turn) act" where
  "status_turn E expected attempt s =
     (case (if snd s \<and> ha_stack (snd (fst s)) \<noteq> None then (Inr (ha_stack (snd (fst s))), fst s)
            else get_heat_stack E False (fst s)) of
        (Inl e, s') \<Rightarrow> (Inl e, (s', False))
      | (Inr st, s') \<Rightarrow>
          if status_of st \<in> set expected \<or> \<not> in_progress (status_of st) then (Inr (Done st), (s', False))
          else (case is_last None attempt of
                  Inl e \<Rightarrow> (Inl e, (s', False))
                | Inr final \<Rightarrow> (Inr (if final then Done st else Next), (s', False))))"

definition check_status :: "string list \<Rightarrow> bool \<Rightarrow> string option \<Rightarrow> heat_stack option \<Rightarrow> heat_stack option res" where
  "check_status expected check name st =
     (if \<not> check then Inr st
      else (case st of
              None \<Rightarrow>
                if DELETE_COMPLETE \<in> set expected then Inr None
                else Raise HeatStackNotFound (''stack '' @ (case name of None \<Rightarrow> ''None'' | Some n \<Rightarrow> str_repr n) @ '' not found'')
            | Some x \<Rightarrow> map_sum id (\<lambda>_. Some x) (check_stack_status x expected)))"

definition wait_for_stack_status ::
  "'z world_scheme heat_env \<Rightarrow> string list \<Rightarrow> bool \<Rightarrow> bool \<Rightarrow> rat option \<Rightarrow> rat option \<Rightarrow>
   ('z world_scheme \<times> heat_attrs, heat_stack option) pact" where
  "wait_for_stack_status E expected check cached timeout interval s =
     (case retry_iter (\<lambda>s. fst_now (fst s)) (\<lambda>d s. (fst_sleep d (fst s), snd s))
             (retry None None timeout None interval None (he_wait_timeout E) None (he_wait_interval E))
             (status_turn E expected) (s, cached) of
        None \<Rightarrow> None
      | Some (Inl e, s') \<Rightarrow> Some (Inl e, fst s')
      | Some (Inr st, s') \<Rightarrow> Some (check_status expected check (ha_name (snd (fst s'))) st, fst s'))"

definition wait_for_create_complete where
  "wait_for_create_complete E cached check timeout interval =
     wait_for_stack_status E [CREATE_COMPLETE] check cached timeout interval"

definition wait_for_delete_complete where
  "wait_for_delete_complete E check cached timeout interval =
     wait_for_stack_status E [DELETE_COMPLETE] check cached timeout interval"

text \<open>\<open>tobiko.fail\<close> raises the failure exception of the test case: an \<open>AssertionError\<close>.\<close>

definition deleted_turn ::
  "'z world_scheme heat_env \<Rightarrow> bool \<Rightarrow> retry_attempt \<Rightarrow>
   (('z world_scheme \<times> heat_attrs) \<times> bool, unit turn) pact" where
  "deleted_turn E check attempt s =
     (case wait_for_delete_complete E check (snd s) (time_left attempt) (at_interval attempt) (fst s) of
        None \<Rightarrow> None
      | Some (Inl e, s') \<Rightarrow> Some (Inl e, (s', snd s))
      | Some (Inr None, s') \<Rightarrow> Some (Inr (Done ()), (s', snd s))
      | Some (Inr (Some st), s') \<Rightarrow>
          if so_status st \<noteq> DELETE_COMPLETE
          then Some (Raise HeatStackDeletionFailed (status_message st [DELETE_COMPLETE]), (s', snd s))
          else (case is_last None attempt of
                  Inl e \<Rightarrow> Some (Inl e, (s', snd s))
                | Inr True \<Rightarrow> Some (Raise PyAssertionError ''still present'', (s', snd s))
                | Inr False \<Rightarrow> Some (Inr Next, (s', False))))"

definition wait_until_stack_deleted ::
  "'z world_scheme heat_env \<Rightarrow> bool \<Rightarrow> bool \<Rightarrow> rat option \<Rightarrow> rat option \<Rightarrow>
   ('z world_scheme \<times> heat_attrs, unit) pact" where
  "wait_until_stack_deleted E check cached timeout interval s =
     map_option (\<lambda>(r, s'). (r, fst s'))
       (retry_piter (\<lambda>s. fst_now (fst s)) (\<lambda>d s. (fst_sleep d (fst s), snd s))
          (retry None None timeout None interval None (he_wait_timeout E) None (he_wait_interval E))
          (deleted_turn E check) (s, cached))"

section \<open>Creating\<close>

definition validate_created_stack where
  "validate_created_stack E = wait_for_stack_status E [CREATE_IN_PROGRESS, CREATE_COMPLETE] True True None None"

definition ensure_quota_limits :: "'w heat_env \<Rightarrow> ('w, unit) act" where
  "ensure_quota_limits E w =
     (case bindA (he_neutron_quota E) (\<lambda>_. he_nova_quota E) w of
        (Inl e, w') \<Rightarrow>
          if he_quota_error E e
          then (Raise InvalidFixtureError (''invalid fixture '' @ str_repr (he_fixture_name E)), w') else (Inl e, w')
      | (Inr u, w') \<Rightarrow> (Inr (), w'))"

text \<open>Asking for a new stack: None when there is one of that name already.\<close>

definition request_stack ::
  "'w heat_env \<Rightarrow> (string \<times> string) list \<Rightarrow> ('w \<times> heat_attrs, string option) act" where
  "request_stack E parameters s =
     (case bindA (setup_heat_client E) (\<lambda>_ s. on_fst (he_create E (ha_name (snd s)) parameters) s) s of
        (Inr i, s') \<Rightarrow> (Inr (Some i), s')
      | (Inl e, s') \<Rightarrow> if he_conflict E e then (Inr None, s') else (Inl e, s'))"

definition begin_stack :: "'w heat_env \<Rightarrow> ('w \<times> heat_attrs, string option) act" where
  "begin_stack E s =
     (if ha_stack (snd s) \<noteq> None then (Raise PyAssertionError [], s)
      else bindA (set_attrs forget_caches) (\<lambda>_.
           bindA (on_fst (he_parameters E)) (\<lambda>parameters.
           bindA (on_fst (ensure_quota_limits E)) (\<lambda>_.
           bindA (on_fst (he_prepare E)) (\<lambda>_.
             request_stack E parameters)))) s)"

definition drop_duplicate :: "'w heat_env \<Rightarrow> string \<Rightarrow> heat_stack option \<Rightarrow> ('w \<times> heat_attrs, heat_stack option) act" where
  "drop_duplicate E sid st =
     (case st of
        None \<Rightarrow> raise_act (Exn PyAttributeError ''NoneType object has no attribute id'')
      | Some x \<Rightarrow> if sid \<noteq> so_id x then bindA (delete_stack E (Some sid)) (\<lambda>_. ret st) else ret st)"

definition create_new_stack ::
  "'z world_scheme heat_env \<Rightarrow> ('z world_scheme \<times> heat_attrs, heat_stack option) pact" where
  "create_new_stack E =
     bindP (liftP (begin_stack E)) (\<lambda>sid.
       case sid of
         None \<Rightarrow> validate_created_stack E
       | Some i \<Rightarrow>
           bindP (catchP (validate_created_stack E) (\<lambda>e. isinstance_exn e InvalidFixtureError)
                    (\<lambda>e. bindP (liftP (delete_stack E (Some i))) (\<lambda>_. raiseP e)))
             (\<lambda>st. liftP (drop_duplicate E i st)))"

definition try_create_stack ::
  "'z world_scheme heat_env \<Rightarrow> ('z world_scheme \<times> heat_attrs, heat_stack option) pact" where
  "try_create_stack E =
     bindP (wait_for_stack_status E [CREATE_COMPLETE, CREATE_FAILED, CREATE_IN_PROGRESS, DELETE_COMPLETE, DELETE_FAILED]
              True True None None) (\<lambda>st.
       case st of
         None \<Rightarrow> create_new_stack E
       | Some x \<Rightarrow>
           if so_status x = CREATE_IN_PROGRESS \<or> so_status x = CREATE_COMPLETE then validate_created_stack E
           else bindP (if suffix ''_FAILED'' (so_status x) then liftP (delete_stack E (Some (so_id x))) else retP ()) (\<lambda>_.
                bindP (wait_until_stack_deleted E True True None None) (\<lambda>_.
                  create_new_stack E)))"

definition random_sleep_time :: "rat \<Rightarrow> rat \<Rightarrow> rat \<Rightarrow> rat" where
  "random_sleep_time min_time max_time random = (max_time - min_time) * random + min_time"

definition create_pause :: "'z world_scheme heat_env \<Rightarrow> ('z world_scheme \<times> heat_attrs, unit) act" where
  "create_pause E s =
     (case he_random E (fst s) of (r, w) \<Rightarrow>
        (Inr (), (py_sleep (random_sleep_time (he_min_interval E) (he_max_interval E) r) w, snd s)))"

definition create_turn ::
  "'z world_scheme heat_env \<Rightarrow> retry_attempt \<Rightarrow> ('z world_scheme \<times> heat_attrs, heat_stack option turn) pact" where
  "create_turn E attempt =
     catchP (bindP (try_create_stack E) (\<lambda>st. retP (Done st))) (\<lambda>e. isinstance_exn e InvalidFixtureError)
       (\<lambda>e. case is_last (Some e) attempt of
               Inl e' \<Rightarrow> raiseP e'
             | Inr True \<Rightarrow> raiseP e
             | Inr False \<Rightarrow> bindP (liftP (delete_stack E None)) (\<lambda>_. bindP (liftP (create_pause E)) (\<lambda>_. retP Next)))"

definition create_stack ::
  "'z world_scheme heat_env \<Rightarrow> retry_obj option \<Rightarrow> ('z world_scheme \<times> heat_attrs, heat_stack option) pact" where
  "create_stack E other =
     (if he_prevent_create E then validate_created_stack E
      else retry_piter fst_now fst_sleep
             (retry other (Some (he_retry_count E)) (Some (he_retry_timeout E)) None (Some 0) None None None None)
             (create_turn E))"

section \<open>Sharing\<close>

definition heat_shelf :: string where
  "heat_shelf = ''tobiko.openstack.heat._stack''"

definition lift_fst :: "('w, 'a) pact \<Rightarrow> ('w \<times> 'x, 'a) pact" where
  "lift_fst m s = map_option (\<lambda>(r, w). (r, (w, snd s))) (m (fst s))"

definition setup_stack ::
  "'z shelf_lib \<Rightarrow> string \<Rightarrow> string \<Rightarrow> 'z shelf_world_scheme heat_env \<Rightarrow>
   ('z shelf_world_scheme \<times> heat_attrs, heat_stack option) pact" where
  "setup_stack lib shelves testcase E =
     bindP (create_stack E None) (\<lambda>st.
       case st of
         None \<Rightarrow> raiseP (Exn PyAttributeError ''NoneType object has no attribute stack_name'')
       | Some x \<Rightarrow>
           bindP (lift_fst (addme_to_shared_resource lib shelves testcase heat_shelf (so_name x))) (\<lambda>_. retP st))"

definition setup_heat_fixture ::
  "'z shelf_lib \<Rightarrow> string \<Rightarrow> string \<Rightarrow> 'z shelf_world_scheme heat_env \<Rightarrow>
   ('z shelf_world_scheme \<times> heat_attrs, heat_stack option) pact" where
  "setup_heat_fixture lib shelves testcase E =
     bindP (liftP (bindA (setup_heat_client E) (\<lambda>_. bindA (on_fst (he_project E)) (\<lambda>_.
              bindA (setup_stack_name E) (\<lambda>_. bindA (on_fst (he_template E)) (\<lambda>_.
                on_fst (he_parameters E)))))))
       (\<lambda>_. setup_stack lib shelves testcase E)"

definition cleanup_stack :: "'z world_scheme heat_env \<Rightarrow> ('z world_scheme \<times> heat_attrs, unit) pact" where
  "cleanup_stack E = bindP (liftP (delete_stack E None)) (\<lambda>_. wait_until_stack_deleted E True True None None)"

text \<open>A fixture without a name has no key in the shelf.\<close>

definition cleanup_heat_fixture ::
  "'z shelf_lib \<Rightarrow> string \<Rightarrow> string \<Rightarrow> 'z shelf_world_scheme heat_env \<Rightarrow>
   ('z shelf_world_scheme \<times> heat_attrs, unit) pact" where
  "cleanup_heat_fixture lib shelves testcase E s =
     (case ha_name (snd s) of
        None \<Rightarrow> Some (Raise PyAttributeError ''NoneType object has no attribute encode'', s)
      | Some n \<Rightarrow>
          bindP (lift_fst (removeme_from_shared_resource lib shelves testcase heat_shelf n)) (\<lambda>users.
            if users = {} then bindP (liftP (setup_heat_client E)) (\<lambda>_. cleanup_stack E)
            else retP ()) s)"

section \<open>A server\<close>

text \<open>A Heat server that keeps in \<open>sw_files\<close> what was asked for; an answer takes a second.\<close>

definition demo_stack :: heat_stack where
  "demo_stack = \<lparr>so_id = ''1'', so_name = ''net'', so_status = CREATE_COMPLETE, so_reason = []\<rparr>"

definition demo_heat :: "shelf_world heat_env" where
  "demo_heat = \<lparr>he_fixture_name = ''net'', he_retry_count = 3, he_retry_timeout = 1200, he_min_interval = 1 / 10,
     he_max_interval = 3, he_wait_timeout = Some 600, he_wait_interval = Some 3, he_prevent_create = False,
     he_client = ret (),
     he_get = (\<lambda>name b w. (if sw_files w = [] then Raise [''HTTPNotFound''] [] else Inr demo_stack, w\<lparr>wtime := wtime w + 1\<rparr>)),
     he_delete = (\<lambda>i. ret ()), he_create = (\<lambda>name ps w. (Inr ''1'', w\<lparr>sw_files := ''net'' # sw_files w\<rparr>)),
     he_http_not_found = (\<lambda>e. isinstance_exn e [''HTTPNotFound'']), he_not_found = (\<lambda>e. False), he_conflict = (\<lambda>e. False),
     he_parameters = ret [], he_neutron_quota = ret (), he_nova_quota = ret (), he_quota_error = (\<lambda>e. False),
     he_prepare = ret (), he_project = ret (), he_template = ret (), he_random = (\<lambda>w. (1 / 2, w))\<rparr>"

definition demo_world :: "rat \<Rightarrow> string list \<Rightarrow> shelf_world" where
  "demo_world now stacks = \<lparr>wtime = now, sw_shelves = Map.empty, sw_files = stacks, sw_run_uid = None\<rparr>"

definition demo_attrs :: "heat_stack option \<Rightarrow> heat_attrs" where
  "demo_attrs st = \<lparr>ha_stack = st, ha_name = Some ''net'', ha_client = True, ha_outputs = False, ha_resources = False\<rparr>"

text \<open>One listing of a stack that is in an expected status is enough.\<close>

lemma wait_first:
  assumes "get_heat_stack E False s = (Inr st, s')" and "ha_stack (snd s) = None" and "status_of st \<in> set ex"
  shows "wait_for_stack_status E ex check cached timeout interval s = Some (check_status ex check (ha_name (snd s')) st, s')"
proof -
  have turn: "status_turn E ex a (s, cached) = (Inr (Done st), (s', False))" for a
    using assms by (simp add: status_turn_def)
  have "retry_iter (\<lambda>s. fst_now (fst s)) (\<lambda>d s. (fst_sleep d (fst s), snd s)) R (status_turn E ex) (s, cached)
      = Some (Inr st, (s', False))" for R
    by (rule retry_iter_first) (rule turn)
  then show ?thesis unfolding wait_for_stack_status_def by simp
qed

lemma demo_get:
  "get_heat_stack demo_heat False (demo_world t [], demo_attrs x) = (Inr None, (demo_world (t + 1) [], demo_attrs None))"
  "get_heat_stack demo_heat False (demo_world t (y # ys), demo_attrs x)
     = (Inr (Some demo_stack), (demo_world (t + 1) (y # ys), demo_attrs (Some demo_stack)))"
  by (simp_all add: get_heat_stack_def demo_heat_def demo_world_def demo_attrs_def setup_heat_client_def forget_caches_def
      bindA_def isinstance_exn_def issubclass_def)

lemma demo_heat_wait:
  "wait_for_stack_status demo_heat [CREATE_COMPLETE] True True None None (demo_world 0 [''net''], demo_attrs None)
     = Some (Inr (Some demo_stack), (demo_world 1 [''net''], demo_attrs (Some demo_stack)))"
  by (subst wait_first[OF demo_get(2)])
    (simp_all add: demo_attrs_def status_of_def demo_stack_def check_status_def check_stack_status_def)

lemma demo_try_create:
  "try_create_stack demo_heat (demo_world 0 [], demo_attrs None)
     = Some (Inr (Some demo_stack), (demo_world 2 [''net''], demo_attrs (Some demo_stack)))"
proof -
  have "wait_for_stack_status demo_heat [CREATE_COMPLETE, CREATE_FAILED, CREATE_IN_PROGRESS, DELETE_COMPLETE, DELETE_FAILED]
      True True None None (demo_world 0 [], demo_attrs None) = Some (Inr None, (demo_world 1 [], demo_attrs None))"
    by (subst wait_first[OF demo_get(1)]) (simp_all add: demo_attrs_def status_of_def check_status_def)
  moreover have "begin_stack demo_heat (demo_world 1 [], demo_attrs None) = (Inr (Some ''1''), (demo_world 1 [''net''], demo_attrs None))"
    by (simp add: begin_stack_def demo_attrs_def demo_world_def demo_heat_def set_attrs_def forget_caches_def on_fst_def
        ensure_quota_limits_def request_stack_def setup_heat_client_def act_simps)
  moreover have "validate_created_stack demo_heat (demo_world 1 [''net''], demo_attrs None)
      = Some (Inr (Some demo_stack), (demo_world 2 [''net''], demo_attrs (Some demo_stack)))"
    unfolding validate_created_stack_def
    by (subst wait_first[OF demo_get(2)])
      (simp_all add: demo_attrs_def status_of_def demo_stack_def check_status_def check_stack_status_def)
  moreover have "drop_duplicate demo_heat ''1'' (Some demo_stack) s = (Inr (Some demo_stack), s)" for s
    by (simp add: drop_duplicate_def demo_stack_def act_simps)
  ultimately show ?thesis
    by (simp add: try_create_stack_def create_new_stack_def bindP_def liftP_def catchP_def)
qed

lemma demo_create:
  "create_stack demo_heat None (demo_world 0 [], demo_attrs None)
     = Some (Inr (Some demo_stack), (demo_world 2 [''net''], demo_attrs (Some demo_stack)))"
proof -
  have "he_prevent_create demo_heat = False" by (simp add: demo_heat_def)
  moreover have "create_turn demo_heat a (demo_world 0 [], demo_attrs None)
      = Some (Inr (Done (Some demo_stack)), (demo_world 2 [''net''], demo_attrs (Some demo_stack)))" for a
    by (simp add: create_turn_def catchP_def bindP_def retP_def demo_try_create)
  ultimately show ?thesis
    unfolding create_stack_def retry_piter_def by (subst retry_ploop.simps) simp
qed

end
