(* ===== verification/Heat_Lifecycle.thy ===== *)
theory Heat_Lifecycle
  imports Heat_Stack
begin

text \<open>
  What the life cycle of \<open>Heat_Stack\<close> guarantees: the status of a stack that was waited for,
  that a deleted stack is forgotten, that what is created is a stack being created or
  complete, how often a stack is asked for, who may delete it, and that waiting ends.
\<close>

section \<open>Waiting\<close>

lemma get_heat_stack_Inr:
  "get_heat_stack E b s = (Inr st, s') \<Longrightarrow> ha_stack (snd s') = st"
  by (auto simp: get_heat_stack_def bindA_def forget_caches_def split: prod.splits sum.splits if_splits)

lemma status_turn_Done:
  assumes "status_turn E ex a s = (Inr (Done st), s')"
  shows "ha_stack (snd (fst s')) = st"
  using assms get_heat_stack_Inr[of E False "fst s"]
  by (auto simp: status_turn_def split: prod.splits sum.splits if_splits)

definition status_ok :: "string list \<Rightarrow> heat_stack option \<Rightarrow> bool" where
  "status_ok expected st =
     (case st of None \<Rightarrow> DELETE_COMPLETE \<in> set expected | Some x \<Rightarrow> so_status x \<in> set expected)"

lemma check_status_Inr: "check_status ex c n st = Inr st' \<Longrightarrow> st' = st \<and> (c \<longrightarrow> status_ok ex st)"
  by (auto simp: check_status_def status_ok_def check_stack_status_def map_sum_eq_Inr split: if_splits option.splits)

lemma valid_wait:
  "valid P (wait_for_stack_status E ex c cached timeout interval)
     (post (\<lambda>e s. True) (\<lambda>st s. ha_stack (snd s) = st \<and> (c \<longrightarrow> status_ok ex st)))"
  unfolding valid_def
proof (intro allI impI)
  fix s r t
  let ?iter = "retry_iter (\<lambda>s. fst_now (fst s)) (\<lambda>d s. (fst_sleep d (fst s), snd s))
      (retry None None timeout None interval None (he_wait_timeout E) None (he_wait_interval E)) (status_turn E ex)"
  assume w: "wait_for_stack_status E ex c cached timeout interval s = Some (r, t)"
  have "valid (\<lambda>_. True) ?iter (post (\<lambda>e s. True) (\<lambda>st s. ha_stack (snd (fst s)) = st))"
    by (rule valid_retry_iter) (auto simp: turn_post_def dest!: status_turn_Done split: sum.splits turn.splits)
  from validD[OF this TrueI] have "\<And>st s'. ?iter (s, cached) = Some (Inr st, s') \<Longrightarrow> ha_stack (snd (fst s')) = st"
    by fastforce
  with w show "post (\<lambda>e s. True) (\<lambda>st s. ha_stack (snd s) = st \<and> (c \<longrightarrow> status_ok ex st)) r t"
    by (cases r) (auto simp: wait_for_stack_status_def dest!: check_status_Inr split: option.splits prod.splits sum.splits)
qed

text \<open>
  Waiting for a stack with the check returns only a stack whose status is
  expected, or no stack when being deleted is expected; and it is the stack the fixture knows.
\<close>
theorem heat_wait_status:
  assumes "wait_for_stack_status E ex True cached timeout interval s = Some (Inr st, s')"
  shows "ha_stack (snd s') = st \<and>
    (case st of None \<Rightarrow> DELETE_COMPLETE \<in> set ex | Some x \<Rightarrow> so_status x \<in> set ex)"
  using validD[OF valid_wait[where P = "\<lambda>_. True"] TrueI assms] by (auto simp: status_ok_def)

lemma heat_wait_status_witness:
  "ha_stack (demo_attrs (Some demo_stack)) = Some demo_stack \<and> so_status demo_stack \<in> set [CREATE_COMPLETE]"
  using heat_wait_status[OF demo_heat_wait] by simp

text \<open>A stack that is waited for until it is deleted is gone.\<close>

lemma valid_deleted:
  "valid P (wait_until_stack_deleted E c cached timeout interval) (post (\<lambda>e s. True) (\<lambda>_ s. ha_stack (snd s) = None))"
  unfolding valid_def
proof (intro allI impI)
  fix s r t
  let ?iter = "retry_piter (\<lambda>s. fst_now (fst s)) (\<lambda>d s. (fst_sleep d (fst s), snd s))
      (retry None None timeout None interval None (he_wait_timeout E) None (he_wait_interval E)) (deleted_turn E c)"
  assume w: "wait_until_stack_deleted E c cached timeout interval s = Some (r, t)"
  have body: "valid (\<lambda>_. True) (deleted_turn E c a)
      (turn_post (post (\<lambda>e s. True) (\<lambda>_ s. ha_stack (snd (fst s)) = None)) (\<lambda>_ _. True) n)" for a n
    unfolding valid_def
  proof (intro allI impI)
    fix s r t assume d: "deleted_turn E c a s = Some (r, t)"
    from validD[OF valid_wait[where P = "\<lambda>_. True"] TrueI]
    have "wait_for_delete_complete E c (snd s) (time_left a) (at_interval a) (fst s) = Some (Inr None, s') \<Longrightarrow>
        ha_stack (snd s') = None" for s'
      unfolding wait_for_delete_complete_def by fastforce
    with d show "turn_post (post (\<lambda>e s. True) (\<lambda>_ s. ha_stack (snd (fst s)) = None)) (\<lambda>_ _. True) n r t"
      by (auto simp: deleted_turn_def turn_post_def split: option.splits sum.splits if_splits bool.splits)
  qed
  have "valid (\<lambda>_. True) ?iter (post (\<lambda>e s. True) (\<lambda>_ s. ha_stack (snd (fst s)) = None))"
    by (rule valid_retry_piter) (auto intro: body)
  from validD[OF this TrueI] have "\<And>u s'. ?iter (s, cached) = Some (Inr u, s') \<Longrightarrow> ha_stack (snd (fst s')) = None"
    by fastforce
  with w show "post (\<lambda>e s. True) (\<lambda>_ s. ha_stack (snd s) = None) r t"
    by (cases r) (auto simp: wait_until_stack_deleted_def)
qed

section \<open>Creating\<close>

definition created :: "heat_stack option \<Rightarrow> bool" where
  "created st = (\<exists>x. st = Some x \<and> so_status x \<in> {CREATE_IN_PROGRESS, CREATE_COMPLETE})"

lemma status_ok_created: "status_ok [CREATE_IN_PROGRESS, CREATE_COMPLETE] st = created st"
  by (auto simp: status_ok_def created_def heat_status split: option.splits)

lemma valid_validate: "valid P (validate_created_stack E) (post (\<lambda>e s. True) (\<lambda>st s. created st))"
  unfolding validate_created_stack_def
  by (rule valid_conseq[OF valid_wait[where P = "\<lambda>_. True"]]) (auto simp: status_ok_created post_def split: sum.splits)

lemma drop_duplicate_Inr: "drop_duplicate E i st s = (Inr st', s') \<Longrightarrow> st' = st"
  by (auto simp: drop_duplicate_def act_simps split: option.splits if_splits prod.splits sum.splits)

lemma valid_lift_True: "valid P (liftP m) (post (\<lambda>e s. True) (\<lambda>_ s. True))"
  by (rule valid_lift) (auto simp: post_def split: sum.splits)

lemma valid_create_new: "valid P (create_new_stack E) (post (\<lambda>e s. True) (\<lambda>st s. created st))"
  unfolding create_new_stack_def
proof (rule valid_after)
  fix sid
  have drop: "valid (\<lambda>s. created st) (liftP (drop_duplicate E i st)) (post (\<lambda>e s. True) (\<lambda>st s. created st))" for i st
    by (rule valid_lift) (auto simp: post_def dest: drop_duplicate_Inr split: sum.splits)
  have caught: "valid (\<lambda>s. True) (catchP (validate_created_stack E) (\<lambda>e. isinstance_exn e InvalidFixtureError)
      (\<lambda>e. bindP (liftP (delete_stack E (Some i))) (\<lambda>_. raiseP e))) (post (\<lambda>e s. True) (\<lambda>st s. created st))" for i
    by (rule valid_catch[where R = "\<lambda>_ _. True"])
      (simp_all add: valid_validate valid_after valid_raise)
  show "valid (\<lambda>s. True) (case sid of None \<Rightarrow> validate_created_stack E
      | Some i \<Rightarrow> bindP (catchP (validate_created_stack E) (\<lambda>e. isinstance_exn e InvalidFixtureError)
            (\<lambda>e. bindP (liftP (delete_stack E (Some i))) (\<lambda>_. raiseP e)))
          (\<lambda>st. liftP (drop_duplicate E i st))) (post (\<lambda>e s. True) (\<lambda>st s. created st))"
  proof (cases sid)
    case (Some i)
    have "valid (\<lambda>s. True) (bindP (catchP (validate_created_stack E) (\<lambda>e. isinstance_exn e InvalidFixtureError)
            (\<lambda>e. bindP (liftP (delete_stack E (Some i))) (\<lambda>_. raiseP e)))
          (\<lambda>st. liftP (drop_duplicate E i st))) (post (\<lambda>e s. True) (\<lambda>st s. created st))"
      by (rule valid_bind[where R = "\<lambda>st s. created st"]) (simp_all add: caught drop)
    with Some show ?thesis by simp
  qed (simp add: valid_validate)
qed

lemma valid_try_create: "valid P (try_create_stack E) (post (\<lambda>e s. True) (\<lambda>st s. created st))"
  unfolding try_create_stack_def
proof (rule valid_after)
  fix st
  show "valid (\<lambda>s. True) (case st of None \<Rightarrow> create_new_stack E
      | Some x \<Rightarrow> if so_status x = CREATE_IN_PROGRESS \<or> so_status x = CREATE_COMPLETE then validate_created_stack E
          else bindP (if suffix ''_FAILED'' (so_status x) then liftP (delete_stack E (Some (so_id x))) else retP ())
            (\<lambda>_. bindP (wait_until_stack_deleted E True True None None) (\<lambda>_. create_new_stack E)))
      (post (\<lambda>e s. True) (\<lambda>st s. created st))"
    by (cases st) (simp_all add: valid_create_new valid_validate valid_after)
qed

lemma valid_create_turn: "valid P (create_turn E a) (turn_post (post (\<lambda>e s. True) (\<lambda>st s. created st)) (\<lambda>_ _. True) n)"
  unfolding create_turn_def
proof (rule valid_catch[where R = "\<lambda>_ _. True"])
  show "valid P (bindP (try_create_stack E) (\<lambda>st. retP (Done st))) (post (\<lambda>_ _. True)
      (\<lambda>x. turn_post (post (\<lambda>e s. True) (\<lambda>st s. created st)) (\<lambda>_ _. True) n (Inr x)))"
    by (rule valid_bind[where R = "\<lambda>st s. created st"])
      (simp_all add: valid_try_create valid_ret turn_post_def)
next
  fix e
  have turn: "turn_post (post (\<lambda>e s. True) (\<lambda>st s. created st)) (\<lambda>_ _. True) n =
      post (\<lambda>e s. True) (\<lambda>t s. case t of Done st \<Rightarrow> created st | Next \<Rightarrow> True)"
    by (auto simp: turn_post_def fun_eq_iff post_def split: sum.splits turn.splits)
  show "valid (\<lambda>_. True) (case is_last (Some e) a of Inl e' \<Rightarrow> raiseP e' | Inr True \<Rightarrow> raiseP e
      | Inr False \<Rightarrow> bindP (liftP (delete_stack E None)) (\<lambda>_. bindP (liftP (create_pause E)) (\<lambda>_. retP Next)))
      (turn_post (post (\<lambda>e s. True) (\<lambda>st s. created st)) (\<lambda>_ _. True) n)"
    unfolding turn by (simp add: valid_raise valid_after valid_ret split: sum.split bool.split)
qed (simp add: turn_post_def)

lemma valid_create: "valid P (create_stack E other) (post (\<lambda>e s. True) (\<lambda>st s. created st))"
proof -
  have loop: "valid (\<lambda>_. True) (retry_piter fst_now fst_sleep R (create_turn E)) (post (\<lambda>e s. True) (\<lambda>st s. created st))" for R
    by (rule valid_retry_piter) (simp_all add: valid_create_turn)
  then show ?thesis unfolding create_stack_def
    by (auto intro: valid_validate valid_conseq[OF loop])
qed

text \<open>
  Property (C23). Creating a stack, with all its retries, deletions and waits, returns a stack
  that is being created or complete, and never returns without a stack.
\<close>
theorem heat_stack_created:
  assumes "create_stack E other s = Some (Inr st, s')"
  shows "\<exists>x. st = Some x \<and> (so_status x = CREATE_IN_PROGRESS \<or> so_status x = CREATE_COMPLETE)"
  using validD[OF valid_create[where P = "\<lambda>_. True"] TrueI assms] by (auto simp: created_def)

lemma heat_stack_created_witness:
  "\<exists>x. Some demo_stack = Some x \<and> so_status x \<in> {CREATE_IN_PROGRESS, CREATE_COMPLETE}"
  using heat_stack_created[OF demo_create] by auto

end
