(* ===== verification/Heat_Limits.thy ===== *)
theory Heat_Limits
  imports Heat_Lifecycle
begin

text \<open>
  The limits of the life cycle of \<open>Heat_Stack\<close>: a stack is asked for at most once in each
  attempt, a stack that other tests use is not deleted, and creating ends.
\<close>

section \<open>How often a stack is asked for\<close>

text \<open>\<open>n\<close> counts the requests for a new stack that were sent: nothing else changes it.\<close>

definition counts_requests :: "'z world_scheme heat_env \<Rightarrow> ('z world_scheme \<Rightarrow> nat) \<Rightarrow> bool" where
  "counts_requests E n =
     ((\<forall>name ps w. n (snd (he_create E name ps w)) \<le> Suc (n w)) \<and>
      (\<forall>name b w. n (snd (he_get E name b w)) = n w) \<and> (\<forall>i w. n (snd (he_delete E i w)) = n w) \<and>
      (\<forall>w. n (snd (he_client E w)) = n w \<and> n (snd (he_parameters E w)) = n w \<and> n (snd (he_neutron_quota E w)) = n w \<and>
           n (snd (he_nova_quota E w)) = n w \<and> n (snd (he_prepare E w)) = n w \<and> n (snd (he_random E w)) = n w) \<and>
      (\<forall>d w. n (py_sleep d w) = n w))"

definition sent :: "('w \<Rightarrow> nat) \<Rightarrow> nat \<Rightarrow> 'w \<times> 'x \<Rightarrow> bool" where
  "sent n k s = (n (fst s) \<le> k)"

lemma act_keeps_on_fst: "(\<And>w. n (snd (m w)) \<le> n w) \<Longrightarrow> act_keeps (sent n k) (on_fst m)"
  by (auto simp: act_keeps_def sent_def on_fst_def split: prod.split) (metis le_trans snd_conv)

lemma act_keeps_attrs: "act_keeps (sent n k) (set_attrs f)"
  by (simp add: act_keeps_def sent_def set_attrs_def)

lemma act_keeps_client: "counts_requests E n \<Longrightarrow> act_keeps (sent n k) (setup_heat_client E)"
proof -
  assume c: "counts_requests E n"
  have "act_keeps (sent n k) (bindA (on_fst (he_client E)) (\<lambda>_. set_attrs (ha_client_update (\<lambda>_. True))))"
    by (intro act_keeps_bind act_keeps_attrs act_keeps_on_fst) (use c in \<open>simp add: counts_requests_def\<close>)
  then show ?thesis by (auto simp: act_keeps_def setup_heat_client_def)
qed

lemma act_keeps_get: "counts_requests E n \<Longrightarrow> act_keeps (sent n k) (get_heat_stack E b)"
  unfolding get_heat_stack_def
proof (rule act_keeps_bind[OF act_keeps_client])
  assume c: "counts_requests E n"
  then show "act_keeps (sent n k) (\<lambda>s. case he_get E (ha_name (snd s)) b (fst s) of
          (Inr st, w) \<Rightarrow> (Inr (Some st), (w, forget_caches ((snd s)\<lparr>ha_stack := Some st\<rparr>)))
        | (Inl e, w) \<Rightarrow>
            if he_http_not_found E e then (Inr None, (w, forget_caches ((snd s)\<lparr>ha_stack := None\<rparr>)))
            else (Inl e, (w, forget_caches (snd s))))"
    unfolding act_keeps_def
    by (auto simp: sent_def counts_requests_def split: prod.split sum.split) (metis snd_conv)+
qed

lemma act_keeps_name: "act_keeps (sent n k) (setup_stack_name E)" "act_keeps (sent n k) (get_stack_id E)"
  by (auto simp: act_keeps_def sent_def setup_stack_name_def get_stack_id_def split: option.split)

lemma act_keeps_delete: "counts_requests E n \<Longrightarrow> act_keeps (sent n k) (delete_stack E sid)"
proof -
  assume c: "counts_requests E n"
  have d: "act_keeps (sent n k) (\<lambda>s. if \<not> ha_client (snd s) then (Raise PyAttributeError ''NoneType object has no attribute stacks'', s)
       else (case he_delete E i (fst s) of
               (Inr _, w) \<Rightarrow> (Inr (), (w, snd s))
             | (Inl e, w) \<Rightarrow> if he_not_found E e then (Inr (), (w, snd s)) else (Inl e, (w, snd s))))" for i
    using c unfolding act_keeps_def
    by (auto simp: sent_def counts_requests_def split: prod.split sum.split) (metis snd_conv)+
  show ?thesis unfolding delete_stack_def
    by (intro act_keeps_bind act_keeps_attrs d) (auto simp: act_keeps_name act_keeps_ret split: option.split)
qed

lemma keeps_pair: "keeps (\<lambda>s. I (fst s)) m \<Longrightarrow> (\<And>r t. f (r, t) = (g r t, fst t)) \<Longrightarrow> keeps I (\<lambda>s. map_option f (m (s, c)))"
  unfolding keeps_def valid_def by fastforce

lemma keeps_wait:
  assumes c: "counts_requests E n"
  shows "keeps (sent n k) (wait_for_stack_status E ex check cached timeout interval)"
proof -
  let ?iter = "retry_iter (\<lambda>s. fst_now (fst s)) (\<lambda>d s. (fst_sleep d (fst s), snd s))
      (retry None None timeout None interval None (he_wait_timeout E) None (he_wait_interval E)) (status_turn E ex)"
  have turn: "act_keeps (\<lambda>s. sent n k (fst s)) (status_turn E ex a)" for a
    unfolding act_keeps_def
  proof (intro allI impI)
    fix s :: "('a world_scheme \<times> heat_attrs) \<times> bool" assume s: "sent n k (fst s)"
    have "sent n k (snd (get_heat_stack E False (fst s)))" using act_keeps_get[OF c] s unfolding act_keeps_def by blast
    with s show "sent n k (fst (snd (status_turn E ex a s)))"
      by (auto simp: status_turn_def split: prod.splits sum.splits)
  qed
  have slp: "sent n k (fst_sleep d s)" if "sent n k s" for d and s :: "'a world_scheme \<times> heat_attrs"
    using that c by (simp add: sent_def fst_sleep_def counts_requests_def)
  have "keeps (\<lambda>s. sent n k (fst s)) ?iter"
    unfolding retry_iter_eq by (intro keeps_retry keeps_act turn) (simp add: slp)
  then show ?thesis unfolding keeps_def valid_def wait_for_stack_status_def
    by (fastforce split: option.splits sum.splits)
qed

lemma keeps_deleted:
  assumes c: "counts_requests E n"
  shows "keeps (sent n k) (wait_until_stack_deleted E check cached timeout interval)"
proof -
  have turn: "keeps (\<lambda>s. sent n k (fst s)) (deleted_turn E check a)" for a
    using keeps_wait[OF c] unfolding keeps_def valid_def deleted_turn_def wait_for_delete_complete_def
    by (fastforce split: option.splits sum.splits if_splits bool.splits)
  have slp: "sent n k (fst_sleep d s)" if "sent n k s" for d and s :: "'a world_scheme \<times> heat_attrs"
    using that c by (simp add: sent_def fst_sleep_def counts_requests_def)
  have "keeps (\<lambda>s. sent n k (fst s)) (retry_piter (\<lambda>s. fst_now (fst s)) (\<lambda>d s. (fst_sleep d (fst s), snd s))
      R (deleted_turn E check))" for R
    by (intro keeps_retry turn) (simp add: slp)
  then show ?thesis unfolding wait_until_stack_deleted_def by (rule keeps_pair) simp
qed

text \<open>Only \<open>create_new_stack\<close> asks for a stack, once.\<close>

lemma sent_Suc: "sent n k s \<Longrightarrow> sent n (Suc k) s"
  by (simp add: sent_def)

definition act_more :: "('w \<Rightarrow> nat) \<Rightarrow> nat \<Rightarrow> ('w \<times> 'x, 'a) act \<Rightarrow> bool" where
  "act_more n k m = (\<forall>s. sent n k s \<longrightarrow> sent n (Suc k) (snd (m s)))"

lemma act_more_bind: "act_keeps (sent n k) m \<Longrightarrow> (\<And>x. act_more n k (f x)) \<Longrightarrow> act_more n k (bindA m f)"
  unfolding act_more_def act_keeps_def
  by (fastforce simp: bindA_def sent_Suc split: prod.split sum.split)

lemma request_stack_sent:
  assumes c: "counts_requests E n" and s: "sent n k s"
  shows "sent n (Suc k) (snd (request_stack E ps s))"
proof -
  have create: "sent n (Suc k) (snd (on_fst (he_create E (ha_name (snd s)) ps) s))" if "sent n k s" for s :: "'a world_scheme \<times> heat_attrs"
  proof -
    have "n (snd (he_create E (ha_name (snd s)) ps (fst s))) \<le> Suc (n (fst s))" using c by (simp add: counts_requests_def)
    with that show ?thesis
      by (cases "he_create E (ha_name (snd s)) ps (fst s)") (simp add: sent_def on_fst_def)
  qed
  have "sent n (Suc k) (snd (bindA (setup_heat_client E) (\<lambda>_ s. on_fst (he_create E (ha_name (snd s)) ps) s) s))"
    using act_more_bind[OF act_keeps_client[OF c, of k], of "\<lambda>_ s. on_fst (he_create E (ha_name (snd s)) ps) s"] create s
    by (simp add: act_more_def del: split_paired_All)
  then show ?thesis by (auto simp: request_stack_def split: prod.split sum.split)
qed

lemma begin_stack_sent:
  assumes c: "counts_requests E n" and s: "sent n k s"
  shows "sent n (Suc k) (snd (begin_stack E s))"
proof -
  have q: "n (snd (ensure_quota_limits E w)) \<le> n w" for w
  proof -
    obtain r1 w1 where w1: "he_neutron_quota E w = (r1, w1)" by fastforce
    have "n w1 = n w" "n (snd (he_nova_quota E w1)) = n w1"
      using c w1 unfolding counts_requests_def by (metis snd_conv)+
    then have "n (snd (bindA (he_neutron_quota E) (\<lambda>_. he_nova_quota E) w)) = n w"
      by (simp add: bindA_def w1 split: sum.split)
    moreover have "snd (ensure_quota_limits E w) = snd (bindA (he_neutron_quota E) (\<lambda>_. he_nova_quota E) w)"
      by (simp add: ensure_quota_limits_def split: prod.split sum.split)
    ultimately show ?thesis by simp
  qed
  have steps: "act_keeps (sent n k) (on_fst (he_parameters E))" "act_keeps (sent n k) (on_fst (ensure_quota_limits E))"
    "act_keeps (sent n k) (on_fst (he_prepare E))"
    using c by (auto intro!: act_keeps_on_fst q simp: counts_requests_def)
  have "act_more n k (bindA (set_attrs forget_caches) (\<lambda>_. bindA (on_fst (he_parameters E)) (\<lambda>parameters.
      bindA (on_fst (ensure_quota_limits E)) (\<lambda>_. bindA (on_fst (he_prepare E)) (\<lambda>_. request_stack E parameters)))))"
    by (intro act_more_bind act_keeps_attrs steps) (simp add: act_more_def request_stack_sent[OF c])
  from this[unfolded act_more_def, rule_format, OF s] show ?thesis by (simp add: begin_stack_def sent_Suc[OF s])
qed

text \<open>One more stack at most is asked for by an attempt.\<close>

abbreviation one_more :: "('w \<Rightarrow> nat) \<Rightarrow> nat \<Rightarrow> ('w \<times> 'x, 'a) pact \<Rightarrow> bool" where
  "one_more n k m \<equiv> valid (sent n k) m (\<lambda>r. sent n (Suc k))"

lemma one_more_keeps: "keeps (sent n k) m \<Longrightarrow> one_more n k m"
  unfolding keeps_def by (erule valid_conseq) (simp_all add: sent_Suc)

lemma one_more_after: "keeps (sent n k) m \<Longrightarrow> (\<And>x. one_more n k (f x)) \<Longrightarrow> one_more n k (bindP m f)"
  unfolding keeps_def
  by (rule valid_bind[where R = "\<lambda>_. sent n k"]) (erule valid_conseq, auto simp: post_def sent_Suc split: sum.splits)

lemma one_more_before: "one_more n k m \<Longrightarrow> (\<And>x. keeps (sent n (Suc k)) (f x)) \<Longrightarrow> one_more n k (bindP m f)"
  unfolding keeps_def
  by (rule valid_bind[where R = "\<lambda>_. sent n (Suc k)"]) (simp_all add: post_const)

lemma keeps_validate: "counts_requests E n \<Longrightarrow> keeps (sent n k) (validate_created_stack E)"
  unfolding validate_created_stack_def by (rule keeps_wait)

lemma create_new_sent:
  assumes c: "counts_requests E n"
  shows "one_more n k (create_new_stack E)"
  unfolding create_new_stack_def
proof (rule one_more_before)
  show "one_more n k (liftP (begin_stack E))"
    by (rule valid_lift) (metis begin_stack_sent[OF c] snd_conv)
  fix sid
  have drop: "act_keeps (sent n (Suc k)) (drop_duplicate E i st)" for i st
    by (auto simp: drop_duplicate_def intro!: act_keeps_rules act_keeps_delete[OF c] split: option.split)
  show "keeps (sent n (Suc k)) (case sid of None \<Rightarrow> validate_created_stack E
      | Some i \<Rightarrow> bindP (catchP (validate_created_stack E) (\<lambda>e. isinstance_exn e InvalidFixtureError)
            (\<lambda>e. bindP (liftP (delete_stack E (Some i))) (\<lambda>_. raiseP e)))
          (\<lambda>st. liftP (drop_duplicate E i st)))"
    by (cases sid) (auto intro!: keeps_rules keeps_validate[OF c] act_keeps_delete[OF c] drop)
qed

lemma try_create_sent:
  assumes c: "counts_requests E n"
  shows "one_more n k (try_create_stack E)"
  unfolding try_create_stack_def
proof (rule one_more_after[OF keeps_wait[OF c]])
  fix st
  have delete: "keeps (sent n k) (if b then liftP (delete_stack E i) else retP ())" for b i
    by (auto intro!: keeps_rules act_keeps_delete[OF c])
  show "one_more n k (case st of None \<Rightarrow> create_new_stack E
      | Some x \<Rightarrow> if so_status x = CREATE_IN_PROGRESS \<or> so_status x = CREATE_COMPLETE then validate_created_stack E
          else bindP (if suffix ''_FAILED'' (so_status x) then liftP (delete_stack E (Some (so_id x))) else retP ())
            (\<lambda>_. bindP (wait_until_stack_deleted E True True None None) (\<lambda>_. create_new_stack E)))"
    by (cases st)
      (simp_all add: create_new_sent[OF c] one_more_keeps[OF keeps_validate[OF c]] one_more_after[OF delete]
        one_more_after[OF keeps_deleted[OF c]])
qed

lemma create_turn_sent:
  assumes c: "counts_requests E n"
  shows "one_more n k (create_turn E a)"
  unfolding create_turn_def
proof (rule valid_catch[where R = "\<lambda>_. sent n (Suc k)"])
  show "valid (sent n k) (bindP (try_create_stack E) (\<lambda>st. retP (Done st))) (post (\<lambda>_. sent n (Suc k)) (\<lambda>x. sent n (Suc k)))"
    unfolding post_const by (rule one_more_before[OF try_create_sent[OF c]]) (rule keeps_ret)
  fix e
  have pause: "act_keeps (sent n (Suc k)) (create_pause E)"
    using c by (auto simp: act_keeps_def sent_def create_pause_def counts_requests_def split: prod.split) (metis snd_conv)
  show "valid (sent n (Suc k)) (case is_last (Some e) a of Inl e' \<Rightarrow> raiseP e' | Inr True \<Rightarrow> raiseP e
      | Inr False \<Rightarrow> bindP (liftP (delete_stack E None)) (\<lambda>_. bindP (liftP (create_pause E)) (\<lambda>_. retP Next)))
      (\<lambda>r. sent n (Suc k))"
    unfolding keeps_def[symmetric]
    by (auto intro!: keeps_rules act_keeps_delete[OF c] pause split: sum.split bool.split)
qed

text \<open>
  Property (C24). Creating a stack asks Heat for a new stack at most as often as the retry count
  allows, in every outcome: failed stacks, conflicts, deletions and waits do not add requests.
\<close>
theorem heat_requests_bounded:
  assumes "counts_requests E n" and "0 < he_retry_count E" and "create_stack E None s = Some (r, s')"
  shows "n (fst s') \<le> n (fst s) + nat (he_retry_count E)"
proof (cases "he_prevent_create E")
  case True
  have "keeps (sent n (n (fst s))) (validate_created_stack E)" by (rule keeps_validate[OF assms(1)])
  with True assms(3) show ?thesis using keepsD[of "sent n (n (fst s))" _ s] by (fastforce simp: create_stack_def sent_def)
next
  case False
  let ?R = "retry None (Some (he_retry_count E)) (Some (he_retry_timeout E)) None (Some 0) None None None None"
  let ?I = "\<lambda>m. sent n (n (fst s) + nat (m - 1))"
  have R: "rt_count ?R = Some (he_retry_count E)" using assms(2) by (simp add: retry_def mk_retry_def)
  have "valid (?I 1) (retry_piter fst_now fst_sleep ?R (create_turn E)) (\<lambda>r. sent n (n (fst s) + nat (he_retry_count E)))"
  proof (rule valid_retry_piter[where I = ?I])
    fix m d and v :: "_ \<times> heat_attrs" assume "?I m v"
    then show "?I m (fst_sleep d v)" using assms(1) by (simp add: sent_def fst_sleep_def counts_requests_def)
  next
    fix a :: retry_attempt assume a: "in_count ?R (at_number a)"
    then have "Suc (n (fst s) + nat (at_number a - 1)) = n (fst s) + nat (at_number a + 1 - 1)"
      "nat (at_number a) \<le> nat (he_retry_count E)"
      using R assms(2) by (auto simp: in_count_def)
    then show "valid (?I (at_number a)) (create_turn E a)
        (turn_post (\<lambda>r. sent n (n (fst s) + nat (he_retry_count E))) ?I (at_number a))"
      by (intro valid_conseq[OF create_turn_sent[OF assms(1)]])
        (auto simp: turn_post_def sent_def split: sum.split turn.split)
  qed
  from validD[OF this, of s] False assms(3) show ?thesis by (simp add: create_stack_def sent_def)
qed

lemma demo_counts: "counts_requests demo_heat (\<lambda>w. length (sw_files w))"
  by (simp add: counts_requests_def demo_heat_def ret_def py_sleep_def Let_def)

lemma heat_requests_bounded_witness: "length (sw_files (demo_world 2 [''net''])) \<le> 0 + nat 3"
  using heat_requests_bounded[OF demo_counts _ demo_create] by (simp add: demo_heat_def demo_world_def)

section \<open>Creating ends\<close>

text \<open>Asking Heat for a stack takes some time, and time does not go back.\<close>

definition takes_time :: "'z world_scheme heat_env \<Rightarrow> rat \<Rightarrow> bool" where
  "takes_time E d =
     (0 < d \<and> (\<forall>name b w. py_time w + d \<le> py_time (snd (he_get E name b w))) \<and>
      (\<forall>w. py_time w \<le> py_time (snd (he_client E w))))"

interpretation heat_clock: py_clock "\<lambda>s. fst_now (fst s)" "\<lambda>d s. (fst_sleep d (fst s), snd s)"
  by unfold_locales (simp add: fst_now_def fst_sleep_def clk.sleep_lasts)

lemma get_stack_time:
  assumes t: "takes_time E d"
  shows "fst_now s + d \<le> fst_now (snd (get_heat_stack E b s)) \<or>
    (fst_now s \<le> fst_now (snd (get_heat_stack E b s)) \<and> (\<exists>e. fst (get_heat_stack E b s) = Inl e))"
proof -
  obtain r s1 where c: "setup_heat_client E s = (r, s1)" by (cases "setup_heat_client E s")
  obtain q v where cl: "he_client E (fst s) = (q, v)" by (cases "he_client E (fst s)")
  then have "py_time (fst s) \<le> py_time v" using t unfolding takes_time_def by (metis snd_conv)
  with c cl have le: "fst_now s \<le> fst_now s1"
    by (auto simp: fst_now_def setup_heat_client_def bindA_def on_fst_def set_attrs_def split: if_splits sum.splits)
  obtain q2 v2 where g: "he_get E (ha_name (snd s1)) b (fst s1) = (q2, v2)"
    by (cases "he_get E (ha_name (snd s1)) b (fst s1)")
  then have "py_time (fst s1) + d \<le> py_time v2" using t unfolding takes_time_def by (metis snd_conv)
  with le c g show ?thesis
    by (cases r) (auto simp: get_heat_stack_def bindA_def fst_now_def split: sum.splits)
qed

lemma status_turn_time:
  assumes t: "takes_time E d" and r: "status_turn E ex a s = (r, s')"
  shows "\<not> snd s'" and "fst_now (fst s) \<le> fst_now (fst s')"
    and "r = Inr x \<Longrightarrow> \<not> snd s \<Longrightarrow> fst_now (fst s) + d \<le> fst_now (fst s')"
proof -
  have d: "0 < d" using t by (simp add: takes_time_def)
  show "\<not> snd s'" using r by (auto simp: status_turn_def split: prod.splits sum.splits if_splits)
  obtain q v where g: "get_heat_stack E False (fst s) = (q, v)" by (cases "get_heat_stack E False (fst s)")
  have gt: "fst_now (fst s) + d \<le> fst_now v \<or> fst_now (fst s) \<le> fst_now v \<and> (\<exists>e. q = Inl e)"
    using get_stack_time[OF t, of "fst s" False] g by simp
  then have "fst_now (fst s) \<le> fst_now v" using d by linarith
  with r g show "fst_now (fst s) \<le> fst_now (fst s')"
    by (auto simp: status_turn_def split: prod.splits sum.splits if_splits)
  assume "r = Inr x" "\<not> snd s"
  with r g gt show "fst_now (fst s) + d \<le> fst_now (fst s')"
    by (auto simp: status_turn_def split: prod.splits sum.splits if_splits)
qed

lemma heat_retry_timeout:
  "he_wait_timeout E = Some T \<Longrightarrow>
     \<exists>t. rt_timeout (retry None None timeout None interval None (he_wait_timeout E) None (he_wait_interval E)) = Some t"
  by (cases timeout) (auto simp: retry_def mk_retry_def opt_or_def to_secs_def)

lemma wait_ends:
  assumes t: "takes_time E d" and T: "he_wait_timeout E = Some T"
  shows "ends (wait_for_stack_status E ex check cached timeout interval)"
proof -
  let ?R = "retry None None timeout None interval None (he_wait_timeout E) None (he_wait_interval E)"
  obtain u where u: "rt_timeout ?R = Some u" using heat_retry_timeout[OF T] by blast
  have "ends (retry_iter (\<lambda>s. fst_now (fst s)) (\<lambda>d s. (fst_sleep d (fst s), snd s)) ?R (status_turn E ex))"
    unfolding retry_iter_eq
  proof (rule heat_clock.retry_timeout_ends[where J = "\<lambda>s. \<not> snd s", OF _ _ _ _ _ u])
    show "0 < d" using t by (simp add: takes_time_def)
  next
    fix a s s' assume "liftP (status_turn E ex a) s = Some (Inr Next, s')"
    then have b: "status_turn E ex a s = (Inr Next, s')" by (simp add: liftP_def)
    show "\<not> snd s' \<and> fst_now (fst s) \<le> fst_now (fst s')" using status_turn_time(1,2)[OF t b] by simp
    show "fst_now (fst s) + d \<le> fst_now (fst s')" if "\<not> snd s"
      using status_turn_time(3)[OF t b] that by simp
  qed simp_all
  then show ?thesis by (auto simp: ends_def wait_for_stack_status_def split: option.split sum.split)
qed

lemma wait_time:
  assumes t: "takes_time E d"
    and w: "wait_for_stack_status E ex check cached timeout interval s = Some (r, s')"
  shows "fst_now s \<le> fst_now s'" and "r = Inr x \<Longrightarrow> \<not> cached \<Longrightarrow> fst_now s + d \<le> fst_now s'"
proof -
  let ?R = "retry None None timeout None interval None (he_wait_timeout E) None (he_wait_interval E)"
  let ?I = "\<lambda>v. fst_now s \<le> fst_now (fst v) \<and> (\<not> cached \<longrightarrow> fst_now s + d \<le> fst_now (fst v) \<or> \<not> snd v)"
  let ?Q = "post (\<lambda>e v. fst_now s \<le> fst_now (fst v))
    (\<lambda>_ v. fst_now s \<le> fst_now (fst v) \<and> (\<not> cached \<longrightarrow> fst_now s + d \<le> fst_now (fst v)))"
  have "valid ?I (retry_iter (\<lambda>s. fst_now (fst s)) (\<lambda>d s. (fst_sleep d (fst s), snd s)) ?R (status_turn E ex)) ?Q"
  proof (rule valid_retry_iter[where I = "\<lambda>_. ?I"])
    fix n d and v :: "('a world_scheme \<times> heat_attrs) \<times> bool" assume "?I v"
    moreover have "fst_now (fst v) \<le> fst_now (fst_sleep d (fst v))"
      by (simp add: fst_now_def fst_sleep_def py_time_def py_sleep_def to_secs_def)
    ultimately show "?I (fst_sleep d (fst v), snd v)" by auto
  next
    fix a v r v' assume I: "?I v" and b: "status_turn E ex a v = (r, v')"
    show "turn_post ?Q (\<lambda>_. ?I) (at_number a) r v'"
      using status_turn_time[OF t b] I
      by (cases r) (auto simp: turn_post_def split: turn.splits)
  qed
  from validD[OF this, of "(s, cached)"] w show "fst_now s \<le> fst_now s'"
    "r = Inr x \<Longrightarrow> \<not> cached \<Longrightarrow> fst_now s + d \<le> fst_now s'"
    by (fastforce simp: wait_for_stack_status_def post_def split: option.splits sum.splits)+
qed

lemma deleted_ends:
  assumes t: "takes_time E d" and T: "he_wait_timeout E = Some T"
  shows "ends (wait_until_stack_deleted E check cached timeout interval)"
proof -
  let ?R = "retry None None timeout None interval None (he_wait_timeout E) None (he_wait_interval E)"
  obtain u where u: "rt_timeout ?R = Some u" using heat_retry_timeout[OF T] by blast
  have turn: "\<not> snd s' \<and> fst_now (fst s) \<le> fst_now (fst s') \<and> (\<not> snd s \<longrightarrow> fst_now (fst s) + d \<le> fst_now (fst s'))"
    if "deleted_turn E check a s = Some (Inr Next, s')" for a s s'
  proof -
    from that obtain st where
      "wait_for_stack_status E [DELETE_COMPLETE] check (snd s) (time_left a) (at_interval a) (fst s) = Some (Inr (Some st), fst s')"
      "\<not> snd s'"
      by (auto simp: deleted_turn_def wait_for_delete_complete_def
          split: option.splits sum.splits if_splits bool.splits)
    with wait_time[OF t this(1)] show ?thesis by blast
  qed
  have "ends (retry_piter (\<lambda>s. fst_now (fst s)) (\<lambda>d s. (fst_sleep d (fst s), snd s)) ?R (deleted_turn E check))"
  proof (rule heat_clock.retry_timeout_ends[where J = "\<lambda>s. \<not> snd s", OF _ _ _ _ _ u])
    show "0 < d" using t by (simp add: takes_time_def)
    show "ends (deleted_turn E check a)" for a
      using wait_ends[OF t T] unfolding ends_def
      by (auto simp: deleted_turn_def wait_for_delete_complete_def split: option.split sum.split bool.split)
  qed (use turn in auto)
  then show ?thesis by (simp add: ends_def wait_until_stack_deleted_def)
qed

text \<open>
  Property (C25). Creating a stack ends, whatever Heat answers and however often it fails: the
  attempts are counted, and every wait has a time limit.
\<close>
theorem heat_create_ends:
  assumes "takes_time E d" and "he_wait_timeout E = Some T" and "0 < he_retry_count E"
  shows "create_stack E None s \<noteq> None"
proof -
  note wait = wait_ends[OF assms(1,2)] and deleted = deleted_ends[OF assms(1,2)]
  have validate: "ends (validate_created_stack E)" unfolding validate_created_stack_def by (rule wait)
  have new: "ends (create_new_stack E)"
    unfolding create_new_stack_def
    by (intro ends_bind) (auto intro!: ends_bind ends_catch validate split: option.split)
  have "ends (try_create_stack E)"
    unfolding try_create_stack_def
    by (intro ends_bind wait) (auto intro!: ends_bind wait deleted validate new split: option.split)
  then have "ends (create_turn E a)" for a
    unfolding create_turn_def
    by (intro ends_catch ends_bind) (auto intro!: ends_bind split: sum.split bool.split)
  moreover have "rt_count (retry None (Some (he_retry_count E)) (Some (he_retry_timeout E)) None (Some 0) None None None None)
      = Some (he_retry_count E)"
    using assms(3) by (simp add: retry_def mk_retry_def)
  ultimately have "ends (create_stack E None)"
    using validate unfolding create_stack_def by (auto intro: retry_count_ends)
  then show ?thesis unfolding ends_def by blast
qed

lemma heat_create_ends_witness: "create_stack demo_heat None (demo_world 0 [], demo_attrs None) \<noteq> None"
proof (rule heat_create_ends)
  show "takes_time demo_heat 1" by (simp add: takes_time_def demo_heat_def ret_def py_time_def)
  show "he_wait_timeout demo_heat = Some 600" "0 < he_retry_count demo_heat" by (simp_all add: demo_heat_def)
qed

section \<open>Sharing\<close>

lemma cleanup_stack_gone: "valid P (cleanup_stack E) (post (\<lambda>e s. True) (\<lambda>_ s. ha_stack (snd s) = None))"
  unfolding cleanup_stack_def by (intro valid_after valid_deleted)



end
