(* ===== verification/Heat_Namespace.thy ===== *)
theory Heat_Namespace
  imports Heat_Lifecycle "HOL-Library.List_Lexorder" "HOL-Library.Char_ord"
begin

text \<open>
  The namespaces of a Heat stack (tobiko/openstack/heat/_stack.py): the parameters, the
  outputs and the resources of a stack by name, with their keys taken from the template, and
  the attributes of a stack fixture, which are the outputs of its stack. A namespace is kept
  beside the state of the fixture. What the template and the server hold are parameters.
\<close>

section \<open>Namespaces\<close>

record 'v namespace =
  ns_keys :: "string list option"
  ns_values :: "(string \<times> 'v) list option"

definition empty_namespace :: "'v namespace" where
  "empty_namespace = \<lparr>ns_keys = None, ns_values = None\<rparr>"

definition HeatStackKeyError :: pyclass where
  "HeatStackKeyError = ''HeatStackKeyError'' # TobikoException"
definition HeatStackResourceKeyError :: pyclass where
  "HeatStackResourceKeyError = ''HeatStackResourceKeyError'' # HeatStackKeyError"
definition HeatStackParameterKeyError :: pyclass where
  "HeatStackParameterKeyError = ''HeatStackParameterKeyError'' # HeatStackKeyError"
definition HeatStackOutputKeyError :: pyclass where
  "HeatStackOutputKeyError = ''HeatStackOutputKeyError'' # HeatStackKeyError"

declare HeatStackKeyError_def [exn_classes] HeatStackResourceKeyError_def [exn_classes]
  HeatStackParameterKeyError_def [exn_classes] HeatStackOutputKeyError_def [exn_classes]

text \<open>A kind of namespace: its error, its keys and its values.\<close>

record ('s, 'v) namespace_kind =
  nk_error :: pyclass
  nk_label :: string
  nk_keys :: "('s, string list) act"
  nk_values :: "('s \<times> 'v namespace, (string \<times> 'v) list) pact"

definition key_error :: "('s, 'v) namespace_kind \<Rightarrow> string \<Rightarrow> string \<Rightarrow> exn" where
  "key_error K name key =
     Exn (nk_error K) (nk_label K @ ''key '' @ str_repr key @ '' not found in stack '' @ str_repr name)"

definition setup_keys :: "('s, 'v) namespace_kind \<Rightarrow> ('s \<times> 'v namespace, string list) act" where
  "setup_keys K s =
     (case ns_keys (snd s) of
        Some ks \<Rightarrow> (Inr ks, s)
      | None \<Rightarrow>
          (case nk_keys K (fst s) of
             (Inl e, t) \<Rightarrow> (Inl e, (t, snd s))
           | (Inr ks, t) \<Rightarrow> (Inr ks, (t, (snd s)\<lparr>ns_keys := Some ks\<rparr>))))"

definition setup_values :: "('s, 'v) namespace_kind \<Rightarrow> ('s \<times> 'v namespace, (string \<times> 'v) list) pact" where
  "setup_values K s =
     (case ns_values (snd s) of
        Some vs \<Rightarrow> Some (Inr vs, s)
      | None \<Rightarrow> bindP (nk_values K) (\<lambda>vs s. Some (Inr vs, (fst s, (snd s)\<lparr>ns_values := Some vs\<rparr>))) s)"

definition setup_namespace :: "('s, 'v) namespace_kind \<Rightarrow> ('s \<times> 'v namespace, unit) pact" where
  "setup_namespace K = bindP (liftP (setup_keys K)) (\<lambda>_. bindP (setup_values K) (\<lambda>_. retP ()))"

definition cleanup_keys :: "'v namespace \<Rightarrow> 'v namespace" where
  "cleanup_keys ns = ns\<lparr>ns_keys := None\<rparr>"

definition cleanup_values :: "'v namespace \<Rightarrow> 'v namespace" where
  "cleanup_values ns = ns\<lparr>ns_values := None\<rparr>"

definition get_value :: "('s, 'v) namespace_kind \<Rightarrow> string \<Rightarrow> string \<Rightarrow> ('s \<times> 'v namespace, 'v) pact" where
  "get_value K name key =
     bindP (liftP (setup_keys K)) (\<lambda>ks.
       if key \<in> set ks
       then bindP (setup_values K) (\<lambda>vs. case map_of vs key of Some v \<Rightarrow> retP v | None \<Rightarrow> raiseP (key_error K name key))
       else raiseP (key_error K name key))"

text \<open>\<open>set_value\<close> stores the value of a known key, and then raises as for an unknown one.\<close>

definition set_value :: "('s, 'v) namespace_kind \<Rightarrow> string \<Rightarrow> string \<Rightarrow> 'v \<Rightarrow> ('s \<times> 'v namespace, unit) pact" where
  "set_value K name key value =
     bindP (bindP (liftP (setup_keys K)) (\<lambda>ks.
              if key \<in> set ks
              then bindP (setup_values K)
                     (\<lambda>vs s. Some (Inr (), (fst s, (snd s)\<lparr>ns_values := Some (dict_set vs key value)\<rparr>)))
              else retP ()))
       (\<lambda>_. raiseP (key_error K name key))"

definition namespace_getattr :: "('s, 'v) namespace_kind \<Rightarrow> string \<Rightarrow> string \<Rightarrow> ('s \<times> 'v namespace, 'v) pact" where
  "namespace_getattr K name attr =
     catchP (get_value K name attr) (\<lambda>e. isinstance_exn e (nk_error K))
       (\<lambda>_. raiseP (Exn PyAttributeError (''Object has no attribute '' @ str_repr attr)))"

section \<open>Parameters\<close>

text \<open>The parameters that were not given are those attributes of the stack fixture that are not None.\<close>

definition parameter_values ::
  "('s, 'v) namespace_kind \<Rightarrow> (string \<times> 'v) list \<Rightarrow> (string \<Rightarrow> ('s \<times> 'v namespace, 'v option) pact) \<Rightarrow>
   ('s \<times> 'v namespace, (string \<times> 'v) list) pact" where
  "parameter_values K given attr =
     bindP (liftP (setup_keys K)) (\<lambda>ks.
       bindP (map_pact (\<lambda>k. bindP (attr k) (\<lambda>v. retP (k, v)))
                (sort (filter (\<lambda>k. k \<notin> fst ` set given) (remdups ks))))
         (\<lambda>found. retP (dict_update given (concat (map (\<lambda>(k, v). case v of None \<Rightarrow> [] | Some x \<Rightarrow> [(k, x)]) found)))))"

text \<open>The namespace of the parameters, over the keys of the template.\<close>

definition parameters_namespace ::
  "('s, string list) act \<Rightarrow> (string \<times> 'v) list \<Rightarrow> (string \<Rightarrow> ('s \<times> 'v namespace, 'v option) pact) \<Rightarrow>
   ('s, 'v) namespace_kind" where
  "parameters_namespace keys given attr =
     (let K = \<lparr>nk_error = HeatStackParameterKeyError, nk_label = ''parameter '', nk_keys = keys, nk_values = retP []\<rparr>
      in K\<lparr>nk_values := parameter_values K given attr\<rparr>)"

section \<open>Outputs and resources\<close>

text \<open>An operation on the fixture, beside the namespace.\<close>

definition outputs_values ::
  "'z world_scheme heat_env \<Rightarrow> bool \<Rightarrow> (heat_stack \<Rightarrow> (string \<times> 'v) list) \<Rightarrow>
   (('z world_scheme \<times> heat_attrs) \<times> 'v namespace, (string \<times> 'v) list) pact" where
  "outputs_values E needs_complete outputs_of =
     bindP (if needs_complete then lift_fst (wait_for_create_complete E True True None None) else retP None) (\<lambda>_.
       bindP (lift_fst (liftP (get_heat_stack E True))) (\<lambda>st.
         case st of
           None \<Rightarrow> raiseP (Exn PyAttributeError ''NoneType object has no attribute outputs'')
         | Some x \<Rightarrow> retP (dict_update [] (outputs_of x))))"

definition outputs_namespace ::
  "'z world_scheme heat_env \<Rightarrow> ('z world_scheme \<times> heat_attrs, string list) act \<Rightarrow> bool \<Rightarrow>
   (heat_stack \<Rightarrow> (string \<times> 'v) list) \<Rightarrow> ('z world_scheme \<times> heat_attrs, 'v) namespace_kind" where
  "outputs_namespace E keys needs_complete outputs_of =
     \<lparr>nk_error = HeatStackOutputKeyError, nk_label = ''output '', nk_keys = keys,
      nk_values = outputs_values E needs_complete outputs_of\<rparr>"

definition resources_values ::
  "'z world_scheme heat_env \<Rightarrow> bool \<Rightarrow> (string \<Rightarrow> ('z world_scheme, (string \<times> 'v) list) act) \<Rightarrow>
   (('z world_scheme \<times> heat_attrs) \<times> 'v namespace, (string \<times> 'v) list) pact" where
  "resources_values E needs_complete list_resources =
     bindP (if needs_complete then lift_fst (wait_for_create_complete E True True None None) else retP None) (\<lambda>_.
       lift_fst (liftP (bindA (get_stack_id E) (\<lambda>i. bindA (on_fst (list_resources i)) (\<lambda>rs. ret (dict_update [] rs))))))"

definition resources_namespace ::
  "'z world_scheme heat_env \<Rightarrow> ('z world_scheme \<times> heat_attrs, string list) act \<Rightarrow> bool \<Rightarrow>
   (string \<Rightarrow> ('z world_scheme, (string \<times> 'v) list) act) \<Rightarrow> ('z world_scheme \<times> heat_attrs, 'v) namespace_kind" where
  "resources_namespace E keys needs_complete list_resources =
     \<lparr>nk_error = HeatStackResourceKeyError, nk_label = ''resource '', nk_keys = keys,
      nk_values = resources_values E needs_complete list_resources\<rparr>"

text \<open>
  \<open>get_stack_outputs\<close>: the fixture of the outputs, a new one when the stack fixture holds none;
  the namespace in the state is the one of that fixture.
\<close>

definition get_stack_outputs :: "(('w \<times> heat_attrs) \<times> 'v namespace, unit) act" where
  "get_stack_outputs s =
     (if ha_outputs (snd (fst s)) then (Inr (), s)
      else (Inr (), ((fst (fst s), (snd (fst s))\<lparr>ha_outputs := True\<rparr>), empty_namespace)))"

definition stack_getattr ::
  "('w \<times> heat_attrs, 'v) namespace_kind \<Rightarrow> string \<Rightarrow> string \<Rightarrow> (('w \<times> heat_attrs) \<times> 'v namespace, 'v) pact" where
  "stack_getattr K name attr =
     bindP (liftP get_stack_outputs) (\<lambda>_.
       catchP (get_value K name attr) (\<lambda>e. isinstance_exn e HeatStackOutputKeyError)
         (\<lambda>_. raiseP (Exn PyAttributeError (''Object has no attribute '' @ str_repr attr))))"

section \<open>Properties\<close>

lemma set_value_raises:
  "set_value K name key value s \<noteq> Some (Inr (), t)"
  by (auto simp: set_value_def bindP_def raiseP_def split: option.splits sum.splits)

text \<open>
  Setting the value of a known key stores it, and ends in the error for an unknown key.
\<close>

lemma set_value_known:
  assumes "ns_keys (snd s) = Some ks" and "key \<in> set ks" and "ns_values (snd s) = Some vs"
  shows "set_value K name key value s =
    Some (Inl (key_error K name key), (fst s, (snd s)\<lparr>ns_values := Some (dict_set vs key value)\<rparr>))"
  using assms by (simp add: set_value_def bindP_def liftP_def raiseP_def setup_keys_def setup_values_def)

lemma dict_found:
  "map_of (rev (concat (map (\<lambda>(k, v). case v of None \<Rightarrow> [] | Some x \<Rightarrow> [(k, x)]) (map (\<lambda>k. (k, g k)) ks)))) k =
     (if k \<in> set ks then g k else None)"
proof (induction ks)
  case (Cons a ks)
  then show ?case by (cases "g a") (auto simp: map_add_def split: option.splits)
qed simp

text \<open>
  The parameters of a stack are the ones given, and for every other parameter of
  the template the attribute of the fixture of that name, when there is one: nothing that was
  given is overridden and nothing that the template does not know is added.
\<close>
theorem parameter_values_found:
  assumes "ns_keys (snd s) = Some ks" and "\<And>k t. attr k t = Some (Inr (g k), t)"
  shows "\<exists>vs. parameter_values K given attr s = Some (Inr vs, s) \<and>
    (\<forall>k. map_of vs k =
       (case map_of given k of Some v \<Rightarrow> Some v | None \<Rightarrow> if k \<in> set ks then g k else None))"
proof -
  let ?missing = "sort (filter (\<lambda>k. k \<notin> fst ` set given) (remdups ks))"
  let ?add = "concat (map (\<lambda>(k, v). case v of None \<Rightarrow> [] | Some x \<Rightarrow> [(k, x)]) (map (\<lambda>k. (k, g k)) ?missing))"
  have m: "map_pact (\<lambda>k. bindP (attr k) (\<lambda>v. retP (k, v))) ?missing s = Some (Inr (map (\<lambda>k. (k, g k)) ?missing), s)"
    by (rule map_pact_pure) (simp add: bindP_def assms(2) retP_def)
  have "parameter_values K given attr s = Some (Inr (dict_update given ?add), s)"
    unfolding parameter_values_def bindP_def[of "liftP (setup_keys K)"] liftP_def setup_keys_def assms(1)
    by (simp add: bindP_def[of "map_pact _ _"] m retP_def)
  moreover have "map_of (dict_update given ?add) k =
      (case map_of given k of Some v \<Rightarrow> Some v | None \<Rightarrow> if k \<in> set ks then g k else None)" for k
  proof (cases "map_of given k")
    case None
    then have "k \<notin> fst ` set given" by (simp add: map_of_eq_None_iff)
    with None show ?thesis unfolding map_of_dict_update map_add_def dict_found by (auto split: option.split)
  next
    case (Some v)
    then have "k \<in> fst ` set given" by (metis map_of_eq_None_iff option.discI)
    with Some show ?thesis unfolding map_of_dict_update map_add_def dict_found by simp
  qed
  ultimately show ?thesis by blast
qed

lemma parameter_values_found_witness:
  "\<exists>vs. parameter_values (parameters_namespace (ret []) [] (\<lambda>k. retP None)) [(''a'', 1 :: nat)] (\<lambda>k. retP (if k = ''b'' then Some 2 else None))
      ((), \<lparr>ns_keys = Some [''b'', ''a'', ''c''], ns_values = None\<rparr>) = Some (Inr vs, ((), \<lparr>ns_keys = Some [''b'', ''a'', ''c''], ns_values = None\<rparr>)) \<and>
    map_of vs ''a'' = Some 1 \<and> map_of vs ''b'' = Some 2 \<and> map_of vs ''c'' = None"
  using parameter_values_found[of "((), \<lparr>ns_keys = Some [''b'', ''a'', ''c''], ns_values = None\<rparr>)" "[''b'', ''a'', ''c'']"
      "\<lambda>k. retP (if k = ''b'' then Some 2 else None)" "\<lambda>k. if k = ''b'' then Some 2 else None"
      "parameters_namespace (ret []) [] (\<lambda>k. retP None)" "[(''a'', 1 :: nat)]"]
  by (fastforce simp: retP_def)

text \<open>
  Reading the outputs asks the server for the stack, which drops the fixture of the outputs
  again: it is never found by the next read.
\<close>

lemma outputs_not_cached:
  assumes "outputs_values E b f s = Some (Inr vs, s')"
  shows "\<not> ha_outputs (snd (fst s'))"
proof -
  have get: "\<not> ha_outputs (snd t')" if "get_heat_stack E True t = (Inr st, t')" for t t' st
    using that by (auto simp: get_heat_stack_def bindA_def forget_caches_def split: prod.splits sum.splits if_splits)
  have "valid (\<lambda>_. True) (outputs_values E b f) (post (\<lambda>e s. True) (\<lambda>_ s. \<not> ha_outputs (snd (fst s))))"
    unfolding outputs_values_def
  proof (rule valid_after)
    fix x
    show "valid (\<lambda>s. True) (bindP (lift_fst (liftP (get_heat_stack E True))) (\<lambda>st.
         case st of
           None \<Rightarrow> raiseP (Exn PyAttributeError ''NoneType object has no attribute outputs'')
         | Some x \<Rightarrow> retP (dict_update [] (f x)))) (post (\<lambda>e s. True) (\<lambda>_ s. \<not> ha_outputs (snd (fst s))))"
      by (rule valid_bind[where R = "\<lambda>_ s. \<not> ha_outputs (snd (fst s))"])
        (auto simp: valid_def lift_fst_def liftP_def post_def raiseP_def retP_def dest: get split: sum.splits option.splits prod.splits)
  qed
  from validD[OF this TrueI assms] show ?thesis by simp
qed

end
