(* ===== verification/Resource_Fixture.thy ===== *)
theory Resource_Fixture
  imports Heat_Stack
begin

text \<open>
  tobiko/openstack/base/_fixture.py: the fixtures of OpenStack resources that are not made by
  Heat. A resource is looked for, created when it is missing, shared by the tests that use it,
  and deleted when no test uses it. Finding, creating and deleting are those of a subclass.
\<close>

record 'r resource_attrs =
  ra_resource :: "'r option"
  ra_name :: "string option"
  ra_client :: bool
  ra_project :: "string option"
  ra_user :: "string option"

text \<open>\<open>re_truthy\<close> tells whether a resource counts as true, \<open>re_id\<close> is its item \<open>'id'\<close>.\<close>

record ('w, 'r) resource_env =
  re_fixture_name :: string
  re_prevent_create :: bool
  re_client :: "('w, unit) act"
  re_project_id :: "('w, string) act"
  re_user_id :: "('w, string) act"
  re_neutron_quota :: "('w, unit) act"
  re_nova_quota :: "('w, unit) act"
  re_quota_error :: "exn \<Rightarrow> bool"
  re_find :: "('w, 'r option) act"
  re_not_found :: "exn \<Rightarrow> bool"
  re_create :: "('w, 'r option) act"
  re_delete :: "('w, unit) act"
  re_truthy :: "'r \<Rightarrow> bool"
  re_id :: "'r \<Rightarrow> string option"

definition setup_resource_client :: "('w, 'r) resource_env \<Rightarrow> ('w \<times> 'r resource_attrs, unit) act" where
  "setup_resource_client E s =
     (case re_client E (fst s) of
        (Inl e, w) \<Rightarrow> (Inl e, (w, snd s))
      | (Inr _, w) \<Rightarrow> (Inr (), (w, (snd s)\<lparr>ra_client := True\<rparr>)))"

definition setup_project :: "('w, 'r) resource_env \<Rightarrow> ('w \<times> 'r resource_attrs, unit) act" where
  "setup_project E s =
     (if ra_project (snd s) \<noteq> None then (Inr (), s)
      else bindA (setup_resource_client E) (\<lambda>_ s.
             case re_project_id E (fst s) of
               (Inl e, w) \<Rightarrow> (Inl e, (w, snd s))
             | (Inr p, w) \<Rightarrow> (Inr (), (w, (snd s)\<lparr>ra_project := Some p\<rparr>))) s)"

definition setup_user :: "('w, 'r) resource_env \<Rightarrow> ('w \<times> 'r resource_attrs, unit) act" where
  "setup_user E s =
     (if ra_user (snd s) \<noteq> None then (Inr (), s)
      else bindA (setup_resource_client E) (\<lambda>_ s.
             case re_user_id E (fst s) of
               (Inl e, w) \<Rightarrow> (Inl e, (w, snd s))
             | (Inr u, w) \<Rightarrow> (Inr (), (w, (snd s)\<lparr>ra_user := Some u\<rparr>))) s)"

definition base_setup_fixture :: "('w, 'r) resource_env \<Rightarrow> ('w \<times> 'r resource_attrs, unit) act" where
  "base_setup_fixture E = bindA (setup_resource_client E) (\<lambda>_. bindA (setup_project E) (\<lambda>_. setup_user E))"

definition ensure_resource_quota :: "('w, 'r) resource_env \<Rightarrow> ('w \<times> 'r resource_attrs, unit) act" where
  "ensure_resource_quota E s =
     (case bindA (re_neutron_quota E) (\<lambda>_. re_nova_quota E) (fst s) of
        (Inl e, w) \<Rightarrow>
          if re_quota_error E e
          then (Raise InvalidFixtureError (''invalid fixture '' @ str_repr (re_fixture_name E)), (w, snd s))
          else (Inl e, (w, snd s))
      | (Inr _, w) \<Rightarrow> (Inr (), (w, snd s)))"

definition is_true :: "('w, 'r) resource_env \<Rightarrow> 'r option \<Rightarrow> bool" where
  "is_true E r = (case r of None \<Rightarrow> False | Some x \<Rightarrow> re_truthy E x)"

text \<open>The property \<open>resource\<close>.\<close>

definition resource :: "('w, 'r) resource_env \<Rightarrow> ('w \<times> 'r resource_attrs, 'r option) act" where
  "resource E s =
     (if is_true E (ra_resource (snd s)) then (Inr (ra_resource (snd s)), s)
      else (case re_find E (fst s) of
              (Inr r, w) \<Rightarrow> (Inr r, (w, (snd s)\<lparr>ra_resource := r\<rparr>))
            | (Inl e, w) \<Rightarrow>
                if re_not_found E e then (Inr None, (w, (snd s)\<lparr>ra_resource := None\<rparr>)) else (Inl e, (w, snd s))))"

definition resource_id :: "('w, 'r) resource_env \<Rightarrow> ('w \<times> 'r resource_attrs, string option) act" where
  "resource_id E =
     bindA (resource E) (\<lambda>r.
       if \<not> is_true E r then ret None
       else (case re_id E (the r) of None \<Rightarrow> raise_act (Exn PyKeyError (str_repr ''id'')) | Some i \<Rightarrow> ret (Some i)))"

definition try_create_resource :: "('w, 'r) resource_env \<Rightarrow> ('w \<times> 'r resource_attrs, unit) act" where
  "try_create_resource E =
     bindA (ensure_resource_quota E) (\<lambda>_. bindA (resource E) (\<lambda>r s.
       if is_true E r then (Inr (), s)
       else (case re_create E (fst s) of
               (Inl e, w) \<Rightarrow> (Inl e, (w, snd s))
             | (Inr r', w) \<Rightarrow> (Inr (), (w, (snd s)\<lparr>ra_resource := r'\<rparr>)))))"

text \<open>
  A missing resource: \<open>tobiko.fail\<close> gets the name of the resource as the cause of the failure,
  and \<open>raise ... from\<close> a text raises a \<open>TypeError\<close>.
\<close>

definition fail_with_name :: exn where
  "fail_with_name = Exn PyTypeError ''exception causes must derive from BaseException''"

definition resource_shelf :: string where
  "resource_shelf = ''tobiko.openstack.base._fixture''"

definition find_or_create :: "('w, 'r) resource_env \<Rightarrow> ('w \<times> 'r resource_attrs, unit) act" where
  "find_or_create E =
     bindA (base_setup_fixture E) (\<lambda>_.
     bindA (\<lambda>s. (Inr (), (fst s, (snd s)\<lparr>ra_name := Some (re_fixture_name E)\<rparr>))) (\<lambda>_.
     bindA (if re_prevent_create E then bindA (resource E) (\<lambda>_. ret ()) else try_create_resource E) (\<lambda>_.
     bindA (resource E) (\<lambda>r. if r = None then raise_act fail_with_name else ret ()))))"

definition resource_setup_fixture ::
  "'z shelf_lib \<Rightarrow> string \<Rightarrow> string \<Rightarrow> ('z shelf_world_scheme, 'r) resource_env \<Rightarrow>
   ('z shelf_world_scheme \<times> 'r resource_attrs, unit) pact" where
  "resource_setup_fixture lib shelves testcase E =
     bindP (liftP (find_or_create E)) (\<lambda>_.
     bindP (lift_fst (addme_to_shared_resource lib shelves testcase resource_shelf (re_fixture_name E))) (\<lambda>_. retP ()))"

definition cleanup_resource :: "('w, 'r) resource_env \<Rightarrow> ('w \<times> 'r resource_attrs, unit) act" where
  "cleanup_resource E =
     bindA (resource_id E) (\<lambda>i s.
       if i = None \<or> i = Some [] then (Inr (), s)
       else (case re_delete E (fst s) of
               (Inl e, w) \<Rightarrow> (Inl e, (w, snd s))
             | (Inr _, w) \<Rightarrow> (Inr (), (w, (snd s)\<lparr>ra_resource := None\<rparr>))))"

definition resource_cleanup_fixture ::
  "'z shelf_lib \<Rightarrow> string \<Rightarrow> string \<Rightarrow> ('z shelf_world_scheme, 'r) resource_env \<Rightarrow>
   ('z shelf_world_scheme \<times> 'r resource_attrs, unit) pact" where
  "resource_cleanup_fixture lib shelves testcase E s =
     (case ra_name (snd s) of
        None \<Rightarrow> Some (Raise PyAttributeError ''NoneType object has no attribute encode'', s)
      | Some n \<Rightarrow>
          bindP (lift_fst (removeme_from_shared_resource lib shelves testcase resource_shelf n)) (\<lambda>users.
            if users = {} then liftP (cleanup_resource E) else retP ()) s)"

section \<open>Properties\<close>

lemma resource_Inr: "resource E s = (Inr r, s') \<Longrightarrow> ra_resource (snd s') = r \<and> ra_name (snd s') = ra_name (snd s)"
  by (auto simp: resource_def split: if_splits prod.splits sum.splits)

lemma try_create_name: "try_create_resource E s = (r, s') \<Longrightarrow> ra_name (snd s') = ra_name (snd s)"
  by (auto simp: try_create_resource_def ensure_resource_quota_def resource_def bindA_def
      split: if_splits prod.splits sum.splits)

lemma find_or_create_Inr:
  assumes "find_or_create E s = (Inr u, s')"
  shows "\<exists>x. ra_resource (snd s') = Some x" and "ra_name (snd s') = Some (re_fixture_name E)"
proof -
  from assms obtain s1 s2 s3 u0 u1 u2 where
    s2: "(Inr (), (fst s1, (snd s1)\<lparr>ra_name := Some (re_fixture_name E)\<rparr>)) = (Inr u0, s2)"
    and mid: "(if re_prevent_create E then bindA (resource E) (\<lambda>_. ret ()) else try_create_resource E) s2 = (Inr u1, s3)"
    and res': "bindA (resource E) (\<lambda>r. if r = None then raise_act fail_with_name else ret ()) s3 = (Inr u2, s')"
    unfolding find_or_create_def bindA_eq_Inr[of "base_setup_fixture E"] bindA_eq_Inr[of "\<lambda>s. (Inr (), _ s)"]
      bindA_eq_Inr[of "if re_prevent_create E then _ else _"]
    by blast
  from s2 have two: "ra_name (snd s2) = Some (re_fixture_name E)" by auto
  from res' obtain r where res: "resource E s3 = (Inr r, s')" and r: "r \<noteq> None"
    by (auto simp: bindA_eq_Inr ret_def raise_act_def split: if_splits)
  have "ra_name (snd s3) = ra_name (snd s2)"
    using mid try_create_name[of E s2] resource_Inr[of E s2]
    by (auto simp: bindA_def ret_def split: if_splits prod.splits sum.splits)
  with two show "ra_name (snd s') = Some (re_fixture_name E)" using resource_Inr[OF res] by simp
  show "\<exists>x. ra_resource (snd s') = Some x" using resource_Inr[OF res] r by auto
qed


lemma resource_missing:
  assumes "re_prevent_create E" and "base_setup_fixture E (w, a) = (Inr (), (w, a))" and "\<not> is_true E (ra_resource a)"
    and "re_find E w = (Inr None, w)"
  shows "find_or_create E (w, a) = (Inl fail_with_name, (w, a\<lparr>ra_name := Some (re_fixture_name E), ra_resource := None\<rparr>))"
proof -
  have "resource E (w, a\<lparr>ra_name := n\<rparr>) = (Inr None, (w, a\<lparr>ra_name := n, ra_resource := None\<rparr>))" for n
    using assms(3,4) by (simp add: resource_def)
  moreover have "resource E (w, a\<lparr>ra_name := n, ra_resource := None\<rparr>) = (Inr None, (w, a\<lparr>ra_name := n, ra_resource := None\<rparr>))" for n
    using assms(4) by (simp add: resource_def is_true_def)
  ultimately show ?thesis
    using assms(1,2) by (simp add: find_or_create_def act_simps)
qed

definition demo_resource :: "(shelf_world, string) resource_env" where
  "demo_resource = \<lparr>re_fixture_name = ''net'', re_prevent_create = False, re_client = ret (), re_project_id = ret ''p'',
     re_user_id = ret ''u'', re_neutron_quota = ret (), re_nova_quota = ret (), re_quota_error = (\<lambda>e. False),
     re_find = ret None, re_not_found = (\<lambda>e. False), re_create = ret (Some ''r''), re_delete = ret (),
     re_truthy = (\<lambda>r. r \<noteq> []), re_id = Some\<rparr>"

definition fresh_attrs :: "string resource_attrs" where
  "fresh_attrs = \<lparr>ra_resource = None, ra_name = None, ra_client = False, ra_project = None, ra_user = None\<rparr>"

lemma demo_find_or_create:
  "find_or_create demo_resource (demo_world 0 [], fresh_attrs) =
     (Inr (), (demo_world 0 [], \<lparr>ra_resource = Some ''r'', ra_name = Some ''net'', ra_client = True, ra_project = Some ''p'', ra_user = Some ''u''\<rparr>))"
  by (simp add: find_or_create_def demo_resource_def fresh_attrs_def base_setup_fixture_def setup_resource_client_def
      setup_project_def setup_user_def try_create_resource_def ensure_resource_quota_def resource_def is_true_def act_simps)


end
