(* ===== verification/Shell_Reboot.thy ===== *)
theory Shell_Reboot
  imports Retry_Partial Shell_Command
begin

text \<open>
  tobiko/shell/sh/_reboot.py: rebooting a host over SSH and waiting until it has been up for
  less time than has passed since the command was sent. The SSH client of the host, pings and
  the reading of the uptime are parameters.
\<close>

datatype reboot_method = SOFT | HARD | CRASH

fun method_command :: "reboot_method \<Rightarrow> string" where
  "method_command SOFT = ''/sbin/reboot''"
| "method_command HARD = ''echo 1 > /proc/sys/kernel/sysrq && echo b > /proc/sysrq-trigger''"
| "method_command CRASH = ''echo 1 > /proc/sys/kernel/sysrq && echo c > /proc/sysrq-trigger''"

definition RebootHostError :: pyclass where
  "RebootHostError = ''RebootHostError'' # TobikoException"
definition RebootHostTimeoutError :: pyclass where
  "RebootHostTimeoutError = ''RebootHostTimeoutError'' # RebootHostError"

declare RebootHostError_def [exn_classes] RebootHostTimeoutError_def [exn_classes]

text \<open>
  The SSH client: \<open>connect\<close>, \<open>exec_command\<close>, \<open>close\<close>, its clean up, whether it has a client,
  the name of its host, and the uptime read through it.
\<close>

record 'w reboot_env =
  rb_connect :: "rat option \<Rightarrow> ('w, unit) act"
  rb_exec :: "string \<Rightarrow> ('w, unit) act"
  rb_close :: "('w, unit) act"
  rb_cleanup :: "('w, unit) act"
  rb_has_client :: "'w \<Rightarrow> bool"
  rb_hostname :: "('w, string) act"
  rb_uptime :: "('w, rat) act"
  rb_host :: string

record reboot_state =
  is_rebooted :: bool
  start_time :: "rat option"
  reboot_method :: reboot_method
  reboot_timeout :: "rat option"

definition mk_reboot :: "rat option \<Rightarrow> reboot_method \<Rightarrow> reboot_state" where
  "mk_reboot timeout method =
     \<lparr>is_rebooted = False, start_time = None, reboot_method = method, reboot_timeout = to_secs timeout\<rparr>"

definition reboot_command :: "reboot_state \<Rightarrow> string list" where
  "reboot_command r = [''sudo'', ''/bin/sh'', ''-c'', method_command (reboot_method r)]"

definition on_host :: "('w, 'a) act \<Rightarrow> ('w \<times> reboot_state, 'a) act" where
  "on_host m s = (case m (fst s) of (r, w) \<Rightarrow> (r, (w, snd s)))"

definition elapsed_time :: "'z world_scheme \<times> reboot_state \<Rightarrow> rat option" where
  "elapsed_time s = map_option (\<lambda>t. py_time (fst s) - t) (start_time (snd s))"

definition reboot_time_left :: "'z world_scheme \<times> reboot_state \<Rightarrow> rat option" where
  "reboot_time_left s =
     (case (reboot_timeout (snd s), elapsed_time s) of (Some t, Some e) \<Rightarrow> Some (t - e) | _ \<Rightarrow> None)"

definition default_reboot_retry :: "rat option \<Rightarrow> retry_obj" where
  "default_reboot_retry timeout = retry None None timeout None None (Some 60) (Some 300) None (Some 5)"

text \<open>\<open>finally: self.ssh_client.close()\<close>; an exception of the closing replaces the outcome.\<close>

definition then_close :: "'w reboot_env \<Rightarrow> ('w \<times> reboot_state, 'a) act \<Rightarrow> ('w \<times> reboot_state, 'a) act" where
  "then_close E m s =
     (case m s of (r, t) \<Rightarrow> (case on_host (rb_close E) t of (Inl e, u) \<Rightarrow> (Inl e, u) | (Inr _, u) \<Rightarrow> (r, u)))"

section \<open>Rebooting\<close>

definition send_reboot :: "'z world_scheme reboot_env \<Rightarrow> retry_attempt \<Rightarrow> ('z world_scheme \<times> reboot_state, unit) act" where
  "send_reboot E attempt =
     bindA (on_host (rb_connect E (time_left attempt))) (\<lambda>_.
     bindA (on_host (rb_hostname E)) (\<lambda>_.
     bindA (\<lambda>s. (Inr (), (fst s, (snd s)\<lparr>start_time := Some (py_time (fst s))\<rparr>))) (\<lambda>_ s.
       on_host (rb_exec E (join_command (reboot_command (snd s)))) s)))"

definition timeout_message :: "string \<Rightarrow> string \<Rightarrow> string" where
  "timeout_message hostname seconds = ''host '' @ str_repr hostname @ '' not rebooted after '' @ seconds @ '' seconds''"

text \<open>A failed attempt is retried while there was time left when it began.\<close>

definition reboot_failed ::
  "'z world_scheme reboot_env \<Rightarrow> (rat option \<Rightarrow> string) \<Rightarrow> retry_attempt \<Rightarrow> exn \<Rightarrow>
   ('z world_scheme \<times> reboot_state, unit turn) act" where
  "reboot_failed E show attempt e s =
     (if \<not> catches [PyException] e then (Inl e, s)
      else (case time_left attempt of
              None \<Rightarrow> (Raise PyTypeError ''NoneType and float cannot be compared'', s)
            | Some left \<Rightarrow>
                if 0 < left then (Inr Next, s)
                else bindA (on_host (rb_hostname E))
                       (\<lambda>h. raise_act (Exn RebootHostTimeoutError
                          (timeout_message (if h = [] then rb_host E else h) (show (at_timeout attempt))))) s))"

definition reboot_turn ::
  "'z world_scheme reboot_env \<Rightarrow> (rat option \<Rightarrow> string) \<Rightarrow> retry_attempt \<Rightarrow>
   ('z world_scheme \<times> reboot_state, unit turn) act" where
  "reboot_turn E show attempt =
     then_close E (\<lambda>s.
       case send_reboot E attempt s of
         (Inl e, t) \<Rightarrow> reboot_failed E show attempt e t
       | (Inr _, t) \<Rightarrow> bindA (on_host (rb_hostname E)) (\<lambda>_. ret (Done ())) t)"

definition run_operation ::
  "'z world_scheme reboot_env \<Rightarrow> (rat option \<Rightarrow> string) \<Rightarrow> ('z world_scheme \<times> reboot_state, unit) pact" where
  "run_operation E show s =
     retry_iter fst_now fst_sleep (default_reboot_retry (reboot_timeout (snd s))) (reboot_turn E show)
       (fst s, (snd s)\<lparr>is_rebooted := False, start_time := None\<rparr>)"

definition cleanup_reboot :: "reboot_state \<Rightarrow> reboot_state" where
  "cleanup_reboot r = r\<lparr>is_rebooted := False, start_time := None\<rparr>"

section \<open>Waiting\<close>

text \<open>Reading the uptime failed: the limits raise the exception that is being handled.\<close>

definition next_or_limit :: "exn option \<Rightarrow> retry_attempt \<Rightarrow> ('s, unit turn) act" where
  "next_or_limit handled attempt s = (map_sum id (\<lambda>_. Next) (check_limits handled attempt), s)"

definition compare_uptime ::
  "'z world_scheme reboot_env \<Rightarrow> retry_attempt \<Rightarrow> rat \<Rightarrow> ('z world_scheme \<times> reboot_state, unit turn) act" where
  "compare_uptime E attempt up_time s =
     (case elapsed_time s of
        None \<Rightarrow> (Raise PyTypeError ''float and NoneType cannot be compared'', s)
      | Some elapsed \<Rightarrow>
          if up_time < elapsed
          then if \<not> rb_has_client E (fst s) then (Raise PyAssertionError [], s)
               else bindA (on_host (rb_hostname E)) (\<lambda>_. ret (Done ())) (fst s, (snd s)\<lparr>is_rebooted := True\<rparr>)
          else bindA (on_host (rb_hostname E)) (\<lambda>_. next_or_limit None attempt) s)"

definition wait_reboot_turn ::
  "'z world_scheme reboot_env \<Rightarrow> retry_attempt \<Rightarrow> ('z world_scheme \<times> reboot_state, unit turn) act" where
  "wait_reboot_turn E attempt =
     bindA (on_host (rb_cleanup E)) (\<lambda>_.
     bindA (\<lambda>s. (if rb_has_client E (fst s) then Raise PyAssertionError [] else Inr (), s)) (\<lambda>_.
     bindA (on_host (rb_hostname E)) (\<lambda>_ s.
       case on_host (rb_uptime E) s of
         (Inr up_time, t) \<Rightarrow> compare_uptime E attempt up_time t
       | (Inl e, t) \<Rightarrow>
           if catches [PyException] e
           then bindA (on_host (rb_hostname E)) (\<lambda>_. next_or_limit (Some e) attempt) t
           else (Inl e, t))))"

definition wait_for_operation ::
  "'z world_scheme reboot_env \<Rightarrow> rat option \<Rightarrow> ('z world_scheme \<times> reboot_state, unit) pact" where
  "wait_for_operation E timeout s =
     (if is_rebooted (snd s) then Some (Inr (), s)
      else (case retry_iter fst_now fst_sleep
                   (default_reboot_retry (min_seconds [timeout, reboot_time_left s])) (wait_reboot_turn E) s of
              None \<Rightarrow> None
            | Some (r, t) \<Rightarrow>
                if is_rebooted (snd t) then Some (r, t)
                else Some (case on_host (rb_close E) t of (Inl e, u) \<Rightarrow> (Inl e, u) | (Inr _, u) \<Rightarrow> (r, u))))"

text \<open>
  \<open>reboot_host\<close>: \<open>start\<close> sets the operation up, which runs it; \<open>ping\<close> waits until the host
  does not answer, and an answer in spite of the reboot is only written to the log.
\<close>

definition reboot_host ::
  "'z world_scheme reboot_env \<Rightarrow> ('z world_scheme \<times> reboot_state, unit) pact \<Rightarrow> pyclass \<Rightarrow>
   ('z world_scheme \<times> reboot_state, unit) pact \<Rightarrow> bool \<Rightarrow> ('z world_scheme \<times> reboot_state, unit) pact" where
  "reboot_host E start reachable ping wait =
     bindP start (\<lambda>_.
       if wait
       then bindP (catchP ping (\<lambda>e. isinstance_exn e reachable) (\<lambda>_. retP ())) (\<lambda>_. wait_for_operation E None)
       else retP ())"

section \<open>Properties\<close>

lemma default_reboot_count: "rt_count (default_reboot_retry t) = Some 60"
  by (simp add: default_reboot_retry_def retry_def mk_retry_def)

text \<open>What the host was seen to answer: an uptime shorter than the time since the command.\<close>

definition rebooted_seen :: "'z world_scheme reboot_env \<Rightarrow> rat \<Rightarrow> bool" where
  "rebooted_seen E t0 = (\<exists>v up w. rb_uptime E v = (Inr up, w) \<and> up < py_time w - t0)"

lemma wait_turn_Done:
  assumes "wait_reboot_turn E a s = (Inr (Done ()), t)"
  shows "is_rebooted (snd t) \<and> start_time (snd t) = start_time (snd s) \<and>
    (\<exists>t0. start_time (snd s) = Some t0 \<and> rebooted_seen E t0)"
  using assms
  by (auto simp: wait_reboot_turn_def compare_uptime_def next_or_limit_def elapsed_time_def act_simps on_host_def rebooted_seen_def
      map_sum_eq_Inr split: prod.splits sum.splits if_splits option.splits) blast+

lemma wait_turn_Next:
  assumes "wait_reboot_turn E a s = (Inr Next, t)"
  shows "start_time (snd t) = start_time (snd s) \<and> is_rebooted (snd t) = is_rebooted (snd s)"
  using assms
  by (auto simp: wait_reboot_turn_def compare_uptime_def next_or_limit_def elapsed_time_def act_simps on_host_def
      map_sum_eq_Inr split: prod.splits sum.splits if_splits option.splits)

text \<open>
  Property (C29). Waiting for a reboot ends, after 60 attempts at most and whatever the host
  does. It returns only when the reboot was seen before, or when the host answered an uptime
  that is shorter than the time since the reboot command was sent.
\<close>
theorem reboot_seen:
  "case wait_for_operation E timeout s of
     None \<Rightarrow> False
   | Some (Inl e, s') \<Rightarrow> True
   | Some (Inr _, s') \<Rightarrow>
       is_rebooted (snd s') \<and>
       (if is_rebooted (snd s) then s' = s else \<exists>t0. start_time (snd s) = Some t0 \<and> rebooted_seen E t0)"
proof (cases "is_rebooted (snd s)")
  case True
  then show ?thesis by (simp add: wait_for_operation_def)
next
  case False
  let ?R = "default_reboot_retry (min_seconds [timeout, reboot_time_left s])"
  let ?iter = "retry_iter fst_now fst_sleep ?R (wait_reboot_turn E)"
  have total: "?iter s \<noteq> None"
  proof -
    have "ends ?iter" unfolding retry_iter_eq by (rule retry_count_ends[OF default_reboot_count]) simp
    then show ?thesis unfolding ends_def by blast
  qed
  have "valid (\<lambda>v. start_time (snd v) = start_time (snd s)) ?iter
      (post (\<lambda>e v. True) (\<lambda>_ v. is_rebooted (snd v) \<and> (\<exists>t0. start_time (snd s) = Some t0 \<and> rebooted_seen E t0)))"
  proof (rule valid_retry_iter[where I = "\<lambda>_ v. start_time (snd v) = start_time (snd s)"])
    fix a v r v' assume "start_time (snd v) = start_time (snd s)" "wait_reboot_turn E a v = (r, v')"
    then show "turn_post (post (\<lambda>e v. True) (\<lambda>_ v. is_rebooted (snd v) \<and> (\<exists>t0. start_time (snd s) = Some t0 \<and> rebooted_seen E t0)))
        (\<lambda>_ v. start_time (snd v) = start_time (snd s)) (at_number a) r v'"
      using wait_turn_Done[of E a v v'] wait_turn_Next[of E a v v']
      by (auto simp: turn_post_def split: sum.splits turn.splits)
  qed (simp add: fst_sleep_def)
  from validD[OF this] have seen: "?iter s = Some (Inr (), v) \<Longrightarrow>
      is_rebooted (snd v) \<and> (\<exists>t0. start_time (snd s) = Some t0 \<and> rebooted_seen E t0)" for v
    by fastforce
  obtain r v where i: "?iter s = Some (r, v)" using total by auto
  show ?thesis
  proof (cases "is_rebooted (snd v)")
    case True
    with i seen[of v] False show ?thesis by (cases r) (auto simp: wait_for_operation_def)
  next
    case notyet: False
    then have "r \<noteq> Inr ()" using seen[of v] i by auto
    with i False notyet show ?thesis
      by (cases r) (auto simp: wait_for_operation_def split: prod.split sum.split)
  qed
qed

end
