(* ===== verification/Py_Values.thy ===== *)
theory Py_Values
  imports Py_Strings Py_Prelude "HOL-Library.List_Lexorder" "HOL-Library.Char_ord"
begin

text \<open>
  Python values as JSON and YAML files hold them: None, flags, integers, texts, lists and
  dictionaries with texts as keys, in the order of their insertion. What \<open>if v\<close>,
  \<open>v or w\<close>, \<open>repr(v)\<close>, \<open>str(v)\<close>, \<open>int(v)\<close> and \<open>v.get(key)\<close> make of them.
\<close>

datatype pyval = PNone | PBool bool | PInt int | PText string | PList "pyval list" | PDict "(string \<times> pyval) list"

fun truthy :: "pyval \<Rightarrow> bool" where
  "truthy PNone = False"
| "truthy (PBool b) = b"
| "truthy (PInt i) = (i \<noteq> 0)"
| "truthy (PText t) = (t \<noteq> [])"
| "truthy (PList xs) = (xs \<noteq> [])"
| "truthy (PDict d) = (d \<noteq> [])"

definition val_or :: "pyval \<Rightarrow> pyval \<Rightarrow> pyval" where
  "val_or v w = (if truthy v then v else w)"

lemma truthy_or [simp]: "truthy (val_or v w) \<longleftrightarrow> truthy v \<or> truthy w"
  by (simp add: val_or_def)

lemma size_pair: "(k, v) \<in> set d \<Longrightarrow> size v < Suc (size_list (size_prod (\<lambda>_. 0) size) d)"
  by (induction d) auto

function val_repr :: "pyval \<Rightarrow> string" where
  "val_repr PNone = ''None''"
| "val_repr (PBool b) = (if b then ''True'' else ''False'')"
| "val_repr (PInt i) = str_int i"
| "val_repr (PText t) = str_repr t"
| "val_repr (PList xs) = ''['' @ str_join '', '' (map val_repr xs) @ '']''"
| "val_repr (PDict d) = ''{'' @ str_join '', '' (map (\<lambda>(k, v). str_repr k @ '': '' @ val_repr v) d) @ ''}''"
  by pat_completeness auto
termination
  by (relation "measure size") (auto dest: size_pair intro: le_less_trans[OF size_list_estimation'])

definition val_str :: "pyval \<Rightarrow> string" where
  "val_str v = (case v of PText t \<Rightarrow> t | _ \<Rightarrow> val_repr v)"

definition val_int :: "pyval \<Rightarrow> int res" where
  "val_int v =
     (case v of
        PInt i \<Rightarrow> Inr i
      | PBool b \<Rightarrow> Inr (if b then 1 else 0)
      | PText t \<Rightarrow> py_int t
      | _ \<Rightarrow> Raise PyTypeError ''int() argument must be a string or a number'')"

definition val_get :: "pyval \<Rightarrow> string \<Rightarrow> pyval res" where
  "val_get v key =
     (case v of
        PDict d \<Rightarrow> Inr (case map_of d key of None \<Rightarrow> PNone | Some w \<Rightarrow> w)
      | _ \<Rightarrow> Raise PyAttributeError ''object has no attribute get'')"

lemma val_str_nonempty: "truthy v \<Longrightarrow> val_str v \<noteq> []"
proof (cases v)
  case (PInt i)
  then show ?thesis by (simp add: val_str_def str_int_def str_nat_nonempty)
qed (simp_all add: val_str_def)

end
