(* ===== verification/Keystone_Credentials.thy ===== *)
theory Keystone_Credentials
  imports Py_Values Tobiko_Select Registry
begin

text \<open>
  tobiko/openstack/keystone/_credentials.py: the credentials of Keystone as a named tuple,
  their validation, and the fixtures that find them in the environment, in the configuration
  or by asking other fixtures. The connection to a host and its environment, and the other
  fixtures, are parameters; a fixture keeps its attributes beside the world, with the
  cleanups that are due.
\<close>

section \<open>Credentials\<close>

text \<open>The fields hold what was passed, with None for the defaults.\<close>

record credentials =
  kc_auth_url :: pyval
  kc_username :: pyval
  kc_password :: pyval
  kc_project_name :: pyval
  kc_api_version :: pyval
  kc_domain_name :: pyval
  kc_user_domain_name :: pyval
  kc_project_domain_name :: pyval
  kc_project_domain_id :: pyval
  kc_cacert :: pyval
  kc_trust_id :: pyval

definition credentials_dict :: "credentials \<Rightarrow> (string \<times> pyval) list" where
  "credentials_dict c =
     [(''auth_url'', kc_auth_url c), (''username'', kc_username c), (''password'', kc_password c),
      (''project_name'', kc_project_name c), (''api_version'', kc_api_version c), (''domain_name'', kc_domain_name c),
      (''user_domain_name'', kc_user_domain_name c), (''project_domain_name'', kc_project_domain_name c),
      (''project_domain_id'', kc_project_domain_id c), (''cacert'', kc_cacert c), (''trust_id'', kc_trust_id c)]"

definition required_params :: "string list" where
  "required_params = [''auth_url'', ''username'', ''password'', ''project_name'']"

definition default_params :: "string list" where
  "default_params = [''api_version'', ''domain_name'', ''user_domain_name'', ''project_domain_name'', ''project_domain_id'',
     ''cacert'', ''trust_id'']"

text \<open>\<open>KeystoneCredentials(**params)\<close>.\<close>

definition make_credentials :: "(string \<times> pyval) list \<Rightarrow> credentials res" where
  "make_credentials params =
     (let value = (\<lambda>k. case map_of params k of None \<Rightarrow> PNone | Some v \<Rightarrow> v)
      in if \<exists>k \<in> fst ` set params. k \<notin> set (required_params @ default_params)
         then Raise PyTypeError ''got an unexpected keyword argument''
         else if \<exists>k \<in> set required_params. k \<notin> fst ` set params
         then Raise PyTypeError ''missing required positional arguments''
         else Inr \<lparr>kc_auth_url = value ''auth_url'', kc_username = value ''username'', kc_password = value ''password'',
                    kc_project_name = value ''project_name'', kc_api_version = value ''api_version'',
                    kc_domain_name = value ''domain_name'', kc_user_domain_name = value ''user_domain_name'',
                    kc_project_domain_name = value ''project_domain_name'', kc_project_domain_id = value ''project_domain_id'',
                    kc_cacert = value ''cacert'', kc_trust_id = value ''trust_id''\<rparr>)"

definition to_dict :: "credentials \<Rightarrow> (string \<times> pyval) list" where
  "to_dict c = filter (\<lambda>(k, v). v \<noteq> PNone) (credentials_dict c)"

definition credentials_repr :: "credentials \<Rightarrow> string" where
  "credentials_repr c =
     (let params = map (\<lambda>(k, v). (k, if k = ''password'' then PText ''***'' else v)) (to_dict c)
      in ''keystone_credentials('' @
         str_join '', '' (map (\<lambda>(k, v). k @ ''='' @ val_repr v) (sort_key fst params)) @ '')'')"

text \<open>\<open>getattr(self, p)\<close> of a field.\<close>

definition credentials_getattr :: "credentials \<Rightarrow> string \<Rightarrow> pyval res" where
  "credentials_getattr c p =
     (case map_of (credentials_dict c) p of
        Some v \<Rightarrow> Inr v
      | None \<Rightarrow> Raise PyAttributeError (''KeystoneCredentials object has no attribute '' @ str_repr p))"

definition InvalidKeystoneCredentials :: pyclass where
  "InvalidKeystoneCredentials = ''InvalidKeystoneCredentials'' # TobikoException"
definition NoSuchKeystoneCredentials :: pyclass where
  "NoSuchKeystoneCredentials = ''NoSuchKeystoneCredentials'' # ObjectNotFound"

declare InvalidKeystoneCredentials_def [exn_classes] NoSuchKeystoneCredentials_def [exn_classes]

definition no_such_credentials :: "string \<Rightarrow> exn" where
  "no_such_credentials reason = Exn NoSuchKeystoneCredentials (''no such credentials. '' @ reason)"

definition validate :: "string list option \<Rightarrow> credentials \<Rightarrow> unit res" where
  "validate required c =
     (let ps = (case required of None \<Rightarrow> required_params | Some ps \<Rightarrow> ps)
      in case map_res (\<lambda>p. map_sum id (\<lambda>v. (p, truthy v)) (credentials_getattr c p)) ps of
           Inl e \<Rightarrow> Inl e
         | Inr found \<Rightarrow>
             (let missing = map fst (filter (\<lambda>(p, b). \<not> b) found)
              in if missing = [] then Inr ()
                 else Raise InvalidKeystoneCredentials
                        (''invalid Keystone credentials; undefined parameters: '' @ str_join '', '' missing @ ''; '' @
                         credentials_repr c)))"

section \<open>From an argument\<close>

text \<open>
  \<open>keystone_credentials(credentials, **params)\<close>. \<open>dflt\<close> are the default credentials, \<open>get\<close>
  sets a fixture up and returns its credentials, None for a fixture of another kind. The
  parameters given along with credentials are overwritten by those of the credentials
  before they are merged.
\<close>

datatype 'f credentials_arg = NoCredentials | Credentials credentials | FixtureArg 'f

definition keystone_credentials ::
  "('s, credentials) act \<Rightarrow> ('f \<Rightarrow> ('s, credentials option) act) \<Rightarrow> 'f credentials_arg \<Rightarrow> (string \<times> pyval) list \<Rightarrow>
   ('s, credentials) act" where
  "keystone_credentials dflt get arg params =
     (case arg of
        NoCredentials \<Rightarrow> if params \<noteq> [] then lift_res (make_credentials params) else dflt
      | _ \<Rightarrow>
          bindA (case arg of
                   FixtureArg f \<Rightarrow>
                     bindA (get f) (\<lambda>c. case c of None \<Rightarrow> raise_act (Exn PyAssertionError []) | Some c \<Rightarrow> ret c)
                 | Credentials c \<Rightarrow> ret c)
            (\<lambda>c. if params = [] then ret c
                 else (let params = to_dict c in lift_res (make_credentials (dict_update params params)))))"

definition api_version_from_url :: "pyval \<Rightarrow> pyval res" where
  "api_version_from_url auth_url =
     (case auth_url of
        PText u \<Rightarrow>
          Inr (if suffix ''/v2.0'' u then PInt 2 else if suffix ''/v3'' u then PInt 3 else PNone)
      | _ \<Rightarrow> Raise PyAttributeError ''object has no attribute endswith'')"

section \<open>Fixtures\<close>

text \<open>A connection, or what one is made from: a host or an SSH client.\<close>

datatype ('c, 'r) connection_attr = Connected 'c | Refers 'r

datatype keystone_cleanup = CleanupConnection | CleanupEnviron | CleanupCredentials

record ('c, 'r) keystone_attrs =
  ka_credentials :: "credentials option"
  ka_connection :: "('c, 'r) connection_attr option"
  ka_environ :: "(string \<rightharpoonup> string) option"
  ka_cleanups :: "keystone_cleanup list"

text \<open>
  What a fixture relies on: its name, the connection it chooses, making a connection, the
  login and the environment of a connection.
\<close>

record ('w, 'c, 'r) keystone_env =
  ke_name :: string
  ke_get_connection :: "('w, ('c, 'r) connection_attr) act"
  ke_shell_connection :: "'r \<Rightarrow> ('w, 'c) act"
  ke_login :: "'c \<Rightarrow> ('w, string) act"
  ke_get_environ :: "'c \<Rightarrow> ('w, string \<rightharpoonup> string) act"

definition resolve_connection ::
  "('w, 'c, 'r) keystone_env \<Rightarrow> ('c, 'r) connection_attr \<Rightarrow> ('w \<times> ('c, 'r, 'z) keystone_attrs_scheme, 'c) act" where
  "resolve_connection E a =
     (case a of
        Connected c \<Rightarrow> ret c
      | Refers r \<Rightarrow>
          bindA (on_fst (ke_shell_connection E r)) (\<lambda>c.
          bindA (set_snd (ka_connection_update (\<lambda>_. Some (Connected c)))) (\<lambda>_. ret c)))"

definition connection :: "('w, 'c, 'r) keystone_env \<Rightarrow> ('w \<times> ('c, 'r, 'z) keystone_attrs_scheme, 'c) act" where
  "connection E s =
     (case ka_connection (snd s) of
        Some a \<Rightarrow> resolve_connection E a s
      | None \<Rightarrow>
          bindA (on_fst (ke_get_connection E)) (\<lambda>a.
          bindA (set_snd (\<lambda>k. k\<lparr>ka_connection := Some a, ka_cleanups := ka_cleanups k @ [CleanupConnection]\<rparr>)) (\<lambda>_.
            resolve_connection E a)) s)"

definition login :: "('w, 'c, 'r) keystone_env \<Rightarrow> ('w \<times> ('c, 'r, 'z) keystone_attrs_scheme, string) act" where
  "login E = bindA (connection E) (\<lambda>c. on_fst (ke_login E c))"

definition os_variables :: "(string \<rightharpoonup> string) \<Rightarrow> string \<rightharpoonup> string" where
  "os_variables env name = (if prefix ''OS_'' name then env name else None)"

definition fixture_environ ::
  "('w, 'c, 'r) keystone_env \<Rightarrow> ('w \<times> ('c, 'r, 'z) keystone_attrs_scheme, string \<rightharpoonup> string) act" where
  "fixture_environ E s =
     (case ka_environ (snd s) of
        Some env \<Rightarrow> (Inr env, s)
      | None \<Rightarrow>
          bindA (connection E) (\<lambda>c.
          bindA (on_fst (ke_get_environ E c)) (\<lambda>env.
          bindA (set_snd (\<lambda>k. k\<lparr>ka_environ := Some (os_variables env), ka_cleanups := ka_cleanups k @ [CleanupEnviron]\<rparr>))
            (\<lambda>_. ret (os_variables env)))) s)"

text \<open>\<open>get\<close> is the \<open>_get_credentials\<close> of the class; the login is also read for the log.\<close>

definition setup_credentials ::
  "('w, 'c, 'r) keystone_env \<Rightarrow> ('w \<times> ('c, 'r, 'z) keystone_attrs_scheme, credentials) act \<Rightarrow>
   ('w \<times> ('c, 'r, 'z) keystone_attrs_scheme, credentials) act" where
  "setup_credentials E get s =
     (case ka_credentials (snd s) of
        Some c \<Rightarrow> (Inr c, s)
      | None \<Rightarrow>
          bindA (login E) (\<lambda>_.
          bindA get (\<lambda>c.
          bindA (set_snd (ka_credentials_update (\<lambda>_. Some c))) (\<lambda>_.
          bindA (login E) (\<lambda>_.
          bindA (set_snd (\<lambda>k. k\<lparr>ka_cleanups := ka_cleanups k @ [CleanupCredentials]\<rparr>)) (\<lambda>_. ret c))))) s)"

definition setup_keystone_fixture ::
  "('w, 'c, 'r) keystone_env \<Rightarrow> ('w \<times> ('c, 'r, 'z) keystone_attrs_scheme, credentials) act \<Rightarrow>
   ('w \<times> ('c, 'r, 'z) keystone_attrs_scheme, unit) act" where
  "setup_keystone_fixture E get =
     bindA (setup_credentials E get) (\<lambda>_ s.
       case ka_credentials (snd s) of
         None \<Rightarrow> (Raise PyAssertionError [], s)
       | Some c \<Rightarrow> (validate None c, s))"

fun run_cleanup :: "keystone_cleanup \<Rightarrow> ('c, 'r, 'z) keystone_attrs_scheme \<Rightarrow> ('c, 'r, 'z) keystone_attrs_scheme" where
  "run_cleanup CleanupConnection a = a\<lparr>ka_connection := None\<rparr>"
| "run_cleanup CleanupEnviron a = a\<lparr>ka_environ := None\<rparr>"
| "run_cleanup CleanupCredentials a = a\<lparr>ka_credentials := None\<rparr>"

text \<open>Cleaning up runs the cleanups that are due, the last one first.\<close>

definition cleanup_keystone_fixture ::
  "('c, 'r, 'z) keystone_attrs_scheme \<Rightarrow> ('c, 'r, 'z) keystone_attrs_scheme" where
  "cleanup_keystone_fixture a = (foldr run_cleanup (ka_cleanups a) a)\<lparr>ka_cleanups := []\<rparr>"

text \<open>The base class has no credentials of its own.\<close>

definition base_get_credentials :: "('w, 'c, 'r) keystone_env \<Rightarrow> ('s, credentials) act" where
  "base_get_credentials E = raise_act (no_such_credentials (''['' @ ke_name E @ ''] credentials not assigned''))"

section \<open>Credentials from the environment\<close>

definition env_value :: "(string \<rightharpoonup> string) \<Rightarrow> string \<Rightarrow> pyval" where
  "env_value env name = (case env name of None \<Rightarrow> PNone | Some t \<Rightarrow> PText t)"

definition env_int :: "(string \<rightharpoonup> string) \<Rightarrow> string \<Rightarrow> pyval res" where
  "env_int env name = (case env name of None \<Rightarrow> Inr PNone | Some t \<Rightarrow> map_sum id PInt (py_int t))"

definition version_or_url :: "pyval \<Rightarrow> pyval \<Rightarrow> pyval res" where
  "version_or_url version auth_url = (if truthy version then Inr version else api_version_from_url auth_url)"

definition environ_credentials :: "string \<Rightarrow> (string \<rightharpoonup> string) \<Rightarrow> credentials res" where
  "environ_credentials name env =
     (let get = env_value env; auth_url = get ''OS_AUTH_URL''
      in if \<not> truthy auth_url
         then Inl (no_such_credentials (''['' @ name @ ''] OS_AUTH_URL environment variable is '' @ val_repr auth_url))
         else case (case env_int env ''OS_IDENTITY_API_VERSION'' of
                      Inl e \<Rightarrow> Inl e | Inr v \<Rightarrow> version_or_url v auth_url) of
                Inl e \<Rightarrow> Inl e
              | Inr api_version \<Rightarrow>
                  (let username = val_or (get ''OS_USERNAME'') (get ''OS_USER_ID'');
                       password = get ''OS_PASSWORD'';
                       project_name = val_or (get ''OS_PROJECT_NAME'') (val_or (get ''OS_TENANT_NAME'')
                         (val_or (get ''OS_PROJECT_ID'') (get ''OS_TENANT_ID'')));
                       params = [(''api_version'', api_version), (''auth_url'', auth_url), (''username'', username),
                         (''password'', password), (''project_name'', project_name)]
                   in make_credentials
                        (if api_version = PInt 2 then params
                         else params @
                           [(''domain_name'', val_or (get ''OS_DOMAIN_NAME'') (get ''OS_DOMAIN_ID'')),
                            (''user_domain_name'', val_or (get ''OS_USER_DOMAIN_NAME'') (get ''OS_USER_DOMAIN_ID'')),
                            (''project_domain_name'', get ''OS_PROJECT_DOMAIN_NAME''),
                            (''project_domain_id'', get ''OS_PROJECT_DOMAIN_ID''),
                            (''trust_id'', get ''OS_TRUST_ID'')])))"

definition environ_get_credentials ::
  "('w, 'c, 'r) keystone_env \<Rightarrow> ('w \<times> ('c, 'r, 'z) keystone_attrs_scheme, credentials) act" where
  "environ_get_credentials E = bindA (fixture_environ E) (\<lambda>env. lift_res (environ_credentials (ke_name E) env))"

section \<open>Credentials from the configuration\<close>

text \<open>\<open>conf\<close> are the options of the section \<open>keystone\<close>.\<close>

definition config_credentials :: "(string \<Rightarrow> pyval) \<Rightarrow> credentials res" where
  "config_credentials conf =
     (let auth_url = conf ''auth_url''
      in if \<not> truthy auth_url
         then Inl (no_such_credentials
                (str_repr ''auth_url'' @ '' option not defined in '' @ str_repr ''keystone'' @ '' section of '' @
                 str_repr ''tobiko.conf'' @ '' file''))
         else case version_or_url (conf ''api_version'') auth_url of
                Inl e \<Rightarrow> Inl e
              | Inr api_version \<Rightarrow>
                  (let params = [(''api_version'', api_version), (''auth_url'', auth_url), (''username'', conf ''username''),
                         (''password'', conf ''password''), (''project_name'', conf ''project_name'')]
                   in make_credentials
                        (if api_version = PInt 2 then params
                         else params @ map (\<lambda>k. (k, conf k))
                           [''domain_name'', ''user_domain_name'', ''project_domain_name'', ''project_domain_id'', ''trust_id''])))"

section \<open>Credentials from other fixtures\<close>

text \<open>The fixtures that are asked by default: clouds files, the environment and the configuration.\<close>

datatype ('h, 'f) delegate = CloudsFileOn 'h | CloudsFileOnProxy | EnvironFixture | ConfigFixture | OtherFixture 'f

definition get_delegates :: "'h list option \<Rightarrow> bool \<Rightarrow> ('h, 'f) delegate list" where
  "get_delegates hosts proxy =
     map CloudsFileOn (case hosts of None \<Rightarrow> [] | Some hs \<Rightarrow> hs) @ (if proxy then [CloudsFileOnProxy] else []) @
     [EnvironFixture, ConfigFixture]"

text \<open>Each of the fixtures is set up in turn; \<open>asked\<close> sets one up and returns its credentials.\<close>

fun delegate_credentials ::
  "exn \<Rightarrow> ('d \<Rightarrow> ('s, credentials) act) \<Rightarrow> 'd list \<Rightarrow> ('s, credentials) act" where
  "delegate_credentials none asked [] = raise_act none"
| "delegate_credentials none asked (d # ds) =
     try_except (asked d) (\<lambda>e. isinstance_exn e NoSuchKeystoneCredentials) (\<lambda>_. delegate_credentials none asked ds)"

definition delegate_get_credentials ::
  "string \<Rightarrow> ('d list \<Rightarrow> string) \<Rightarrow> ('d \<Rightarrow> ('s, credentials) act) \<Rightarrow> 'd list \<Rightarrow> ('s, credentials) act" where
  "delegate_get_credentials name show asked delegates =
     delegate_credentials (no_such_credentials (''['' @ name @ ''] no credentials from delegates: '' @ show delegates))
       asked delegates"

definition register_default_credentials :: "'d \<Rightarrow> int option \<Rightarrow> 'd list \<Rightarrow> 'd list" where
  "register_default_credentials c position delegates =
     (case position of
        None \<Rightarrow> delegates @ [c]
      | Some i \<Rightarrow> insert_at i c delegates)"

section \<open>Whether there are credentials\<close>

text \<open>The cache of \<open>lru_cache\<close>, by the argument.\<close>

definition find_answer :: "'s \<times> ('o \<rightharpoonup> bool) \<Rightarrow> 'o \<Rightarrow> bool option" where
  "find_answer s k = snd s k"

definition put_answer :: "'o \<Rightarrow> bool \<Rightarrow> 's \<times> ('o \<rightharpoonup> bool) \<Rightarrow> 's \<times> ('o \<rightharpoonup> bool)" where
  "put_answer k v s = (fst s, (snd s)(k \<mapsto> v))"

interpretation answers: memo_table find_answer put_answer
  by unfold_locales (simp add: find_answer_def put_answer_def)

definition has_keystone_credentials ::
  "('o \<Rightarrow> ('s, credentials) act) \<Rightarrow> 'o \<Rightarrow> ('s \<times> ('o \<rightharpoonup> bool), bool) act" where
  "has_keystone_credentials credentials_of obj =
     get_or_create find_answer put_answer
       (on_fst (try_except (bindA (credentials_of obj) (\<lambda>_. ret True))
          (\<lambda>e. isinstance_exn e NoSuchKeystoneCredentials) (\<lambda>_. ret False))) obj"

section \<open>Properties\<close>

lemma credentials_keys: "map fst (credentials_dict c) = required_params @ default_params"
  by (simp add: credentials_dict_def required_params_def default_params_def)

lemma distinct_credentials: "distinct (map fst (credentials_dict c))"
  unfolding credentials_keys by (simp add: required_params_def default_params_def)

lemma distinct_to_dict: "distinct (map fst (to_dict c))"
  unfolding to_dict_def by (rule distinct_map_filter) (rule distinct_credentials)

lemma map_of_to_dict:
  "map_of (to_dict c) k =
     (case map_of (credentials_dict c) k of None \<Rightarrow> None | Some v \<Rightarrow> if v \<noteq> PNone then Some v else None)"
  unfolding to_dict_def by (rule map_of_filter_values[OF distinct_credentials])

definition complete :: "credentials \<Rightarrow> bool" where
  "complete c \<longleftrightarrow> kc_auth_url c \<noteq> PNone \<and> kc_username c \<noteq> PNone \<and> kc_password c \<noteq> PNone \<and> kc_project_name c \<noteq> PNone"

lemma to_dict_required: "(\<exists>k \<in> set required_params. k \<notin> fst ` set (to_dict c)) \<longleftrightarrow> \<not> complete c"
proof -
  have "k \<notin> fst ` set (to_dict c) \<longleftrightarrow> map_of (to_dict c) k = None" for k by (simp add: map_of_eq_None_iff)
  then show ?thesis
    by (simp add: map_of_to_dict required_params_def credentials_dict_def complete_def)
qed

lemma make_to_dict:
  "make_credentials (to_dict c) = (if complete c then Inr c else Raise PyTypeError ''missing required positional arguments'')"
proof -
  have known: "\<not> (\<exists>k \<in> fst ` set (to_dict c). k \<notin> set (required_params @ default_params))"
    unfolding to_dict_def credentials_keys[of c, symmetric] by auto
  have "(case map_of (to_dict c) k of None \<Rightarrow> PNone | Some v \<Rightarrow> v)
      = (case map_of (credentials_dict c) k of None \<Rightarrow> PNone | Some v \<Rightarrow> v)" for k
    unfolding map_of_to_dict by (simp split: option.split)
  then show ?thesis
    unfolding make_credentials_def Let_def to_dict_required if_not_P[OF known]
    by (simp add: credentials_dict_def)
qed

text \<open>
  The dictionary of credentials makes the same credentials again, when none of
  the four required fields is None. Parameters given along with credentials are lost: the
  result is the one without them.
\<close>
theorem keystone_credentials_params_lost:
  "keystone_credentials dflt get (Credentials c) params s =
     (if params = [] \<or> complete c then Inr c else Raise PyTypeError ''missing required positional arguments'', s)"
  by (simp add: keystone_credentials_def ret_def bindA_def lift_res_def Let_def
      dict_update_present[OF distinct_to_dict] make_to_dict)

lemma repr_password:
  "p \<noteq> PNone \<Longrightarrow> credentials_repr (c\<lparr>kc_password := p\<rparr>) = credentials_repr (c\<lparr>kc_password := PText ''***''\<rparr>)"
proof -
  assume "p \<noteq> PNone"
  then have "map (\<lambda>(k, v). (k, if k = ''password'' then PText ''***'' else v)) (to_dict (c\<lparr>kc_password := p\<rparr>))
      = map (\<lambda>(k, v). (k, if k = ''password'' then PText ''***'' else v)) (to_dict (c\<lparr>kc_password := PText ''***''\<rparr>))"
    by (simp add: to_dict_def credentials_dict_def)
  then show ?thesis unfolding credentials_repr_def by simp
qed

lemma getattr_password:
  "credentials_getattr (c\<lparr>kc_password := p\<rparr>) k =
     (if k = ''password'' then Inr p else credentials_getattr c k)"
  by (simp add: credentials_getattr_def credentials_dict_def)

text \<open>
  Property (C38). The text of credentials and the error of their validation do not tell two
  passwords apart: the password shows up in no message.
\<close>
theorem password_hidden:
  assumes "truthy p" and "truthy q"
  shows "credentials_repr (c\<lparr>kc_password := p\<rparr>) = credentials_repr (c\<lparr>kc_password := q\<rparr>) \<and>
    validate required (c\<lparr>kc_password := p\<rparr>) = validate required (c\<lparr>kc_password := q\<rparr>)"
proof -
  have repr: "credentials_repr (c\<lparr>kc_password := p\<rparr>) = credentials_repr (c\<lparr>kc_password := q\<rparr>)"
    using assms by (metis repr_password truthy.simps(1))
  have eq: "(\<lambda>k. map_sum id (\<lambda>v. (k, truthy v)) (credentials_getattr (c\<lparr>kc_password := p\<rparr>) k))
      = (\<lambda>k. map_sum id (\<lambda>v. (k, truthy v)) (credentials_getattr (c\<lparr>kc_password := q\<rparr>) k))"
    using assms by (simp add: getattr_password fun_eq_iff)
  show ?thesis unfolding validate_def Let_def repr eq by simp
qed

definition demo_credentials :: credentials where
  "demo_credentials = \<lparr>kc_auth_url = PText ''http://h/v3'', kc_username = PText ''u'', kc_password = PNone, kc_project_name = PText [],
     kc_api_version = PInt 3, kc_domain_name = PNone, kc_user_domain_name = PNone, kc_project_domain_name = PNone,
     kc_project_domain_id = PNone, kc_cacert = PNone, kc_trust_id = PNone\<rparr>"

lemma password_hidden_witness:
  "credentials_repr (demo_credentials\<lparr>kc_password := PText ''a''\<rparr>) = credentials_repr (demo_credentials\<lparr>kc_password := PInt 7\<rparr>) \<and>
   validate None (demo_credentials\<lparr>kc_password := PText ''a''\<rparr>) = validate None (demo_credentials\<lparr>kc_password := PInt 7\<rparr>)"
  using password_hidden[of "PText ''a''" "PInt 7" demo_credentials None] by simp

text \<open>What the validation asks for.\<close>

lemma validate_default:
  "validate None c = Inr () \<longleftrightarrow>
     truthy (kc_auth_url c) \<and> truthy (kc_username c) \<and> truthy (kc_password c) \<and> truthy (kc_project_name c)"
  by (simp add: validate_def required_params_def credentials_getattr_def credentials_dict_def)

definition given :: "(string \<rightharpoonup> string) \<Rightarrow> string list \<Rightarrow> bool" where
  "given env names \<longleftrightarrow> (\<exists>n \<in> set names. env n \<noteq> None \<and> env n \<noteq> Some [])"

lemma truthy_env: "truthy (env_value env n) \<longleftrightarrow> env n \<noteq> None \<and> env n \<noteq> Some []"
  by (simp add: env_value_def split: option.split)

text \<open>The credentials made from the parameters that every kind of fixture finds, and others.\<close>

lemma make_found:
  assumes "fst ` set others \<subseteq> set default_params"
  shows "\<exists>c. make_credentials ([(''api_version'', a), (''auth_url'', u), (''username'', n), (''password'', p), (''project_name'', j)] @ others) = Inr c
    \<and> kc_auth_url c = u \<and> kc_username c = n \<and> kc_password c = p \<and> kc_project_name c = j \<and> kc_api_version c = a"
proof -
  let ?ps = "[(''api_version'', a), (''auth_url'', u), (''username'', n), (''password'', p), (''project_name'', j)] @ others"
  have "\<not> (\<exists>k \<in> fst ` set ?ps. k \<notin> set (required_params @ default_params))"
    using assms by (auto simp: required_params_def default_params_def)
  moreover have "\<not> (\<exists>k \<in> set required_params. k \<notin> fst ` set ?ps)" by (simp add: required_params_def)
  ultimately show ?thesis unfolding make_credentials_def Let_def by (simp only: if_False) simp
qed

lemma version_or_url_errors:
  "version_or_url v (PText u) \<noteq> Inl e"
  by (simp add: version_or_url_def api_version_from_url_def)

text \<open>
  The environment gives credentials exactly when it has an authentication URL and
  an identity version that is a number, if any; they are valid exactly when the environment
  has a name or id of a user, a password, and a name or id of a project or tenant.
\<close>
theorem environ_credentials_valid:
  "case environ_credentials name env of
     Inl e \<Rightarrow>
       if given env [''OS_AUTH_URL'']
       then isinstance_exn e PyValueError \<and> env ''OS_IDENTITY_API_VERSION'' \<noteq> None else isinstance_exn e NoSuchKeystoneCredentials
   | Inr c \<Rightarrow>
       given env [''OS_AUTH_URL''] \<and>
       (validate None c = Inr () \<longleftrightarrow>
          given env [''OS_USERNAME'', ''OS_USER_ID''] \<and> given env [''OS_PASSWORD''] \<and>
          given env [''OS_PROJECT_NAME'', ''OS_TENANT_NAME'', ''OS_PROJECT_ID'', ''OS_TENANT_ID''])"
proof -
  let ?get = "env_value env"
  show ?thesis
  proof (cases "given env [''OS_AUTH_URL'']")
    case False
    then show ?thesis
      by (simp add: given_def truthy_env environ_credentials_def Let_def no_such_credentials_def isinstance_exn_def
          issubclass_def exn_classes)
  next
    case True
    then obtain u where u: "env ''OS_AUTH_URL'' = Some u" "u \<noteq> []" by (auto simp: given_def)
    then have url: "?get ''OS_AUTH_URL'' = PText u" by (simp add: env_value_def)
    show ?thesis
    proof (cases "env_int env ''OS_IDENTITY_API_VERSION''")
      case (Inl e)
      then have "isinstance_exn e PyValueError \<and> env ''OS_IDENTITY_API_VERSION'' \<noteq> None"
        by (auto simp: env_int_def py_int_error map_sum_eq_Inl split: option.splits)
      with True u url Inl show ?thesis by (simp add: environ_credentials_def Let_def)
    next
      case (Inr v)
      then obtain api where api: "version_or_url v (PText u) = Inr api"
        using version_or_url_errors by (cases "version_or_url v (PText u)") auto
      let ?n = "val_or (?get ''OS_USERNAME'') (?get ''OS_USER_ID'')" and ?p = "?get ''OS_PASSWORD''"
        and ?j = "val_or (?get ''OS_PROJECT_NAME'') (val_or (?get ''OS_TENANT_NAME'') (val_or (?get ''OS_PROJECT_ID'') (?get ''OS_TENANT_ID'')))"
      obtain c where c: "environ_credentials name env = Inr c" "kc_auth_url c = PText u" "kc_username c = ?n"
          "kc_password c = ?p" "kc_project_name c = ?j"
      proof (cases "api = PInt 2")
        case True
        with make_found[of "[]" api "PText u" ?n ?p ?j] url u Inr api that show ?thesis
          by (auto simp: environ_credentials_def Let_def)
      next
        case False
        let ?others = "[(''domain_name'', val_or (?get ''OS_DOMAIN_NAME'') (?get ''OS_DOMAIN_ID'')),
          (''user_domain_name'', val_or (?get ''OS_USER_DOMAIN_NAME'') (?get ''OS_USER_DOMAIN_ID'')),
          (''project_domain_name'', ?get ''OS_PROJECT_DOMAIN_NAME''), (''project_domain_id'', ?get ''OS_PROJECT_DOMAIN_ID''),
          (''trust_id'', ?get ''OS_TRUST_ID'')]"
        have "fst ` set ?others \<subseteq> set default_params" by (simp add: default_params_def)
        from make_found[OF this, of api "PText u" ?n ?p ?j] False url u Inr api that show ?thesis
          by (auto simp: environ_credentials_def Let_def)
      qed
      with True u show ?thesis by (simp add: validate_default truthy_env) (simp add: given_def)
    qed
  qed
qed

section \<open>Cleaning up\<close>

text \<open>
  What was found is undone by a due cleanup; a connection that was given by a name or a client
  may have been made into a connection.
\<close>

definition due :: "('c, 'r, 'z) keystone_attrs_scheme \<Rightarrow> ('c, 'r, 'z) keystone_attrs_scheme \<Rightarrow> bool" where
  "due a0 a \<longleftrightarrow>
     (if CleanupConnection \<in> set (ka_cleanups a) then ka_connection a0 = None
      else ka_connection a = ka_connection a0 \<or>
        (\<exists>r c. ka_connection a0 = Some (Refers r) \<and> ka_connection a = Some (Connected c))) \<and>
     (if CleanupEnviron \<in> set (ka_cleanups a) then ka_environ a0 = None else ka_environ a = ka_environ a0) \<and>
     (if CleanupCredentials \<in> set (ka_cleanups a) then ka_credentials a0 = None else ka_credentials a = ka_credentials a0)"

lemma due_connected:
  "due a0 k \<Longrightarrow> ka_connection k = Some (Refers x) \<Longrightarrow> due a0 (k\<lparr>ka_connection := Some (Connected c)\<rparr>)"
  by (cases "ka_connection a0") (auto simp: due_def split: if_splits)

lemma due_connection:
  "due a0 k \<Longrightarrow> ka_connection k = None \<Longrightarrow>
     due a0 (k\<lparr>ka_connection := Some a, ka_cleanups := ka_cleanups k @ [CleanupConnection]\<rparr>)"
  by (auto simp: due_def split: if_splits)

lemma due_environ:
  "due a0 k \<Longrightarrow> ka_environ k = None \<Longrightarrow>
     due a0 (k\<lparr>ka_environ := Some e, ka_cleanups := ka_cleanups k @ [CleanupEnviron]\<rparr>)"
  by (auto simp: due_def split: if_splits)

lemma resolve_due:
  assumes "resolve_connection E a s = (r, t)" and "due a0 (snd s)" and "ka_connection (snd s) = Some a"
  shows "due a0 (snd t) \<and> ka_environ (snd t) = ka_environ (snd s) \<and> ka_credentials (snd t) = ka_credentials (snd s)"
proof (cases a)
  case (Connected c)
  with assms show ?thesis by (simp add: resolve_connection_def ret_def)
next
  case (Refers x)
  obtain q w where "ke_shell_connection E x (fst s) = (q, w)" by (cases "ke_shell_connection E x (fst s)")
  with Refers assms show ?thesis
    by (cases q) (auto simp: resolve_connection_def bindA_def on_fst_def set_snd_def ret_def intro: due_connected)
qed

lemma connection_due:
  assumes "connection E s = (r, t)" and "due a0 (snd s)"
  shows "due a0 (snd t) \<and> ka_environ (snd t) = ka_environ (snd s) \<and> ka_credentials (snd t) = ka_credentials (snd s)"
proof (cases "ka_connection (snd s)")
  case (Some a)
  with assms show ?thesis by (auto simp: connection_def dest: resolve_due)
next
  case None
  obtain q w where get: "ke_get_connection E (fst s) = (q, w)" by (cases "ke_get_connection E (fst s)")
  show ?thesis
  proof (cases q)
    case (Inl e)
    with None get assms show ?thesis by (auto simp: connection_def bindA_def on_fst_def)
  next
    case (Inr a)
    let ?s = "(w, (snd s)\<lparr>ka_connection := Some a, ka_cleanups := ka_cleanups (snd s) @ [CleanupConnection]\<rparr>)"
    have "due a0 (snd ?s)" using due_connection[OF assms(2) None] by simp
    moreover have "resolve_connection E a ?s = (r, t)"
      using assms(1) None get Inr by (simp add: connection_def bindA_def on_fst_def set_snd_def)
    ultimately show ?thesis using resolve_due by fastforce
  qed
qed

lemma environ_due:
  assumes "fixture_environ E s = (r, t)" and "due a0 (snd s)"
  shows "due a0 (snd t) \<and> ka_credentials (snd t) = ka_credentials (snd s)"
proof (cases "ka_environ (snd s)")
  case (Some env)
  with assms show ?thesis by (auto simp: fixture_environ_def)
next
  case None
  obtain q u where c: "connection E s = (q, u)" by (cases "connection E s")
  have u: "due a0 (snd u)" "ka_environ (snd u) = None" "ka_credentials (snd u) = ka_credentials (snd s)"
    using connection_due[OF c assms(2)] None by auto
  show ?thesis
  proof (cases q)
    case (Inl e)
    with assms(1) None c u show ?thesis by (auto simp: fixture_environ_def bindA_def)
  next
    case (Inr x)
    obtain q' w where g: "ke_get_environ E x (fst u) = (q', w)" by (cases "ke_get_environ E x (fst u)")
    from assms(1) None c u g Inr show ?thesis
      by (cases q') (auto simp: fixture_environ_def bindA_def on_fst_def set_snd_def ret_def intro: due_environ)
  qed
qed

lemma login_due:
  assumes "login E s = (r, t)" and "due a0 (snd s)"
  shows "due a0 (snd t) \<and> ka_credentials (snd t) = ka_credentials (snd s)"
proof -
  obtain q u where c: "connection E s = (q, u)" by (cases "connection E s")
  with assms(1) connection_due[OF c assms(2)] show ?thesis
    by (auto simp: login_def bindA_def on_fst_def split: prod.splits sum.splits)
qed

lemma setup_credentials_due:
  assumes "setup_credentials E get s = (Inr c, t)" and "due a0 (snd s)"
    and get: "\<And>u r v. get u = (r, v) \<Longrightarrow> due a0 (snd u) \<Longrightarrow> due a0 (snd v) \<and> ka_credentials (snd v) = ka_credentials (snd u)"
  shows "due a0 (snd t) \<and> ka_credentials (snd t) = Some c"
proof (cases "ka_credentials (snd s)")
  case (Some d)
  with assms show ?thesis by (auto simp: setup_credentials_def)
next
  case None
  with assms(1) obtain l u v l' w where st: "login E s = (Inr l, u)" "get u = (Inr c, v)"
      "login E (fst v, (snd v)\<lparr>ka_credentials := Some c\<rparr>) = (Inr l', w)"
      "t = (fst w, (snd w)\<lparr>ka_cleanups := ka_cleanups (snd w) @ [CleanupCredentials]\<rparr>)"
    by (auto simp: setup_credentials_def bindA_eq_Inr set_snd_def ret_def)
  have v: "due a0 (snd v)" "ka_credentials (snd v) = None"
    using login_due[OF st(1) assms(2)] get[OF st(2)] None by auto
  show ?thesis
  proof (cases "CleanupCredentials \<in> set (ka_cleanups (snd v))")
    case True
    then have a0: "ka_credentials a0 = None" using v by (simp add: due_def)
    from True have "due a0 (snd (fst v, (snd v)\<lparr>ka_credentials := Some c\<rparr>))" using v by (auto simp: due_def)
    from login_due[OF st(3) this] a0 show ?thesis unfolding st(4) by (auto simp: due_def split: if_splits)
  next
    case False
    then have a0: "ka_credentials a0 = None" using v by (auto simp: due_def)
    have "due (a0\<lparr>ka_credentials := Some c\<rparr>) (snd (fst v, (snd v)\<lparr>ka_credentials := Some c\<rparr>))"
      using v False by (auto simp: due_def)
    from login_due[OF st(3) this] a0 show ?thesis unfolding st(4) by (auto simp: due_def split: if_splits)
  qed
qed

lemma run_cleanups:
  "ka_connection (foldr run_cleanup cs a) = (if CleanupConnection \<in> set cs then None else ka_connection a)"
  "ka_environ (foldr run_cleanup cs a) = (if CleanupEnviron \<in> set cs then None else ka_environ a)"
  "ka_credentials (foldr run_cleanup cs a) = (if CleanupCredentials \<in> set cs then None else ka_credentials a)"
proof (induction cs)
  case (Cons c cs)
  { case 1 with Cons show ?case by (cases c) auto }
  { case 2 with Cons show ?case by (cases c) auto }
  { case 3 with Cons show ?case by (cases c) auto }
qed simp_all

lemma cleanup_due:
  assumes "due a0 a"
  shows "ka_credentials (cleanup_keystone_fixture a) = ka_credentials a0 \<and>
    ka_environ (cleanup_keystone_fixture a) = ka_environ a0 \<and>
    (ka_connection (cleanup_keystone_fixture a) = ka_connection a0 \<or>
     (\<exists>r c. ka_connection a0 = Some (Refers r) \<and> ka_connection (cleanup_keystone_fixture a) = Some (Connected c)))"
  using assms by (auto simp: cleanup_keystone_fixture_def run_cleanups due_def split: if_splits)


definition demo_environ :: "string \<rightharpoonup> string" where
  "demo_environ = [''OS_AUTH_URL'' \<mapsto> ''http://h/v3'', ''OS_USERNAME'' \<mapsto> ''u'', ''OS_PASSWORD'' \<mapsto> ''p'', ''OS_TENANT_NAME'' \<mapsto> ''t'',
     ''HOME'' \<mapsto> ''/'']"

definition demo_keystone :: "(unit, string, string) keystone_env" where
  "demo_keystone = \<lparr>ke_name = ''f'', ke_get_connection = ret (Refers ''h''), ke_shell_connection = ret, ke_login = ret,
     ke_get_environ = (\<lambda>c. ret demo_environ)\<rparr>"

definition demo_keystone_attrs :: "(string, string) keystone_attrs" where
  "demo_keystone_attrs = \<lparr>ka_credentials = None, ka_connection = None, ka_environ = None, ka_cleanups = []\<rparr>"


section \<open>Asking others, and remembering the answer\<close>

text \<open>The credentials are those of the first fixture that has some, or its error.\<close>

lemma delegate_first:
  assumes "\<And>d s. asked d s = (r d, s)"
  shows "delegate_credentials none asked ds s =
    (case find (\<lambda>d. \<forall>e. r d = Inl e \<longrightarrow> \<not> isinstance_exn e NoSuchKeystoneCredentials) ds of
       None \<Rightarrow> Inl none | Some d \<Rightarrow> r d, s)"
  by (induction ds) (auto simp: assms act_simps split: sum.split)

text \<open>
  An answer is not asked for again: also not when credentials that were missing have turned up.
\<close>

lemma has_credentials_again:
  "has_keystone_credentials credentials_of obj s = (Inr b, t) \<Longrightarrow>
     has_keystone_credentials credentials_of' obj t = (Inr b, t)"
  unfolding has_keystone_credentials_def by (rule answers.get_again)

end
