(* ===== verification/Shell_Find.thy ===== *)
theory Shell_Find
  imports Shell_Process
begin

text \<open>
  tobiko/shell/find.py and tobiko/shell/grep.py: looking for files and for lines of files with
  the commands of a host. Executing a command and the login of the SSH client are parameters.
\<close>

definition stream_text :: "string option \<Rightarrow> string res" where
  "stream_text s = (case s of None \<Rightarrow> Raise PyAttributeError ''NoneType object has no attribute splitlines'' | Some t \<Rightarrow> Inr t)"

definition list_repr :: "string list \<Rightarrow> string" where
  "list_repr xs = ''['' @ str_join '', '' (map str_repr xs) @ '']''"

definition arg_show :: "command_arg \<Rightarrow> string" where
  "arg_show a = (case a of Command c \<Rightarrow> join_command c | Text t \<Rightarrow> t | Items xs \<Rightarrow> list_repr xs)"

definition arg_given :: "command_arg \<Rightarrow> bool" where
  "arg_given a = (case a of Command c \<Rightarrow> c \<noteq> [] | Text t \<Rightarrow> t \<noteq> [] | Items xs \<Rightarrow> xs \<noteq> [])"

definition show_login :: "string option \<Rightarrow> string" where
  "show_login l = (case l of None \<Rightarrow> ''None'' | Some t \<Rightarrow> t)"

section \<open>Finding files\<close>

definition FilesNotFound :: pyclass where
  "FilesNotFound = ''FilesNotFound'' # TobikoException"

declare FilesNotFound_def [exn_classes]

datatype file_names = OneName string | Names "string list"

definition names_of :: "file_names \<Rightarrow> string list" where
  "names_of n = (case n of OneName s \<Rightarrow> [s] | Names ss \<Rightarrow> ss)"

definition names_show :: "file_names option \<Rightarrow> string" where
  "names_show n = (case n of None \<Rightarrow> ''None'' | Some (OneName s) \<Rightarrow> s | Some (Names ss) \<Rightarrow> list_repr ss)"

definition single_quoted :: "string \<Rightarrow> string" where
  "single_quoted s = [CHR 0x27] @ s @ [CHR 0x27]"

definition add_option :: "('a \<Rightarrow> string) \<Rightarrow> 'a option \<Rightarrow> string list \<Rightarrow> string list res" where
  "add_option f v c = (case v of None \<Rightarrow> Inr c | Some x \<Rightarrow> command_add c (Text (f x)))"

definition name_tests :: "string list \<Rightarrow> string" where
  "name_tests names = str_join '' -o '' (map (\<lambda>n. ''-name '' @ single_quoted n) names)"

definition then_res :: "'a res \<Rightarrow> ('a \<Rightarrow> 'b res) \<Rightarrow> 'b res" where
  "then_res r f = (case r of Inl e \<Rightarrow> Inl e | Inr x \<Rightarrow> f x)"

lemma then_res_Inr: "then_res (Inr x) f = f x"
  by (simp add: then_res_def)

definition find_command_line ::
  "command_arg \<Rightarrow> command_arg \<Rightarrow> int option \<Rightarrow> string option \<Rightarrow> file_names option \<Rightarrow> rat option \<Rightarrow> string list res" where
  "find_command_line command path max_depth type name modified_since =
     then_res (shell_command command) (\<lambda>c.
     then_res (command_add c path) (\<lambda>c.
     then_res (add_option (\<lambda>d. ''-maxdepth '' @ single_quoted (str_int d)) max_depth c) (\<lambda>c.
     then_res (add_option (\<lambda>t. ''-type '' @ single_quoted t) type c) (\<lambda>c.
     then_res (case name of
                 None \<Rightarrow> Inr c
               | Some n \<Rightarrow> if names_of n = [] then Inr c else command_add c (Text (name_tests (names_of n)))) (\<lambda>c.
       add_option (\<lambda>m. ''-mmin '' @ str_int \<lceil>m / 60\<rceil>) modified_since c)))))"

definition files_not_found :: "command_arg \<Rightarrow> file_names option \<Rightarrow> string option \<Rightarrow> int option \<Rightarrow> string \<Rightarrow> exn" where
  "files_not_found path name login status err =
     Exn FilesNotFound (''Files not found (path='' @ arg_show path @ '', name='' @ names_show name @ '', login='' @
       show_login login @ '', exit_status='' @ (case status of None \<Rightarrow> ''None'' | Some i \<Rightarrow> str_int i) @ ''):'' @
       [CHR 0x0A] @ strip err)"

definition output_names :: "string \<Rightarrow> string list" where
  "output_names out = filter (\<lambda>l. l \<noteq> []) (map strip (splitlines out))"

definition find_files ::
  "(string list \<Rightarrow> ('w, execute_result) act) \<Rightarrow> ('w, string option) act \<Rightarrow> command_arg \<Rightarrow> command_arg \<Rightarrow> int option \<Rightarrow>
   string option \<Rightarrow> file_names option \<Rightarrow> rat option \<Rightarrow> ('w, string list) act" where
  "find_files sh login command path max_depth type name modified_since =
     (if \<not> arg_given path then raise_act (Exn PyValueError ''Path can not be empty'')
      else
        bindA (lift_res (find_command_line command path max_depth type name modified_since)) (\<lambda>c.
        bindA (sh c) (\<lambda>result.
        bindA (lift_res (stream_text (r_stdout result))) (\<lambda>out.
          if output_names out \<noteq> [] then ret (output_names out)
          else bindA login (\<lambda>l.
               bindA (lift_res (stream_text (r_stderr result))) (\<lambda>err.
                 raise_act (files_not_found path name l (r_exit_status result) err)))))))"

section \<open>Finding lines\<close>

definition NoMatchingLinesFound :: pyclass where
  "NoMatchingLinesFound = ''NoMatchingLinesFound'' # TobikoException"

declare NoMatchingLinesFound_def [exn_classes]

definition grep_command_line ::
  "string \<Rightarrow> command_arg option \<Rightarrow> command_arg \<Rightarrow> string list option \<Rightarrow> string list res" where
  "grep_command_line pattern command grep_command files =
     (let has_files = (case files of None \<Rightarrow> False | Some fs \<Rightarrow> fs \<noteq> [])
      in if pattern = [] then Raise PyValueError ''Pattern string can not be empty''
         else case command of
           Some cmd \<Rightarrow>
             if arg_given cmd
             then if has_files then Raise PyValueError ''File list must be empty when command is given''
                  else then_res (shell_command cmd) (\<lambda>c.
                       then_res (command_add (c @ [''|'']) grep_command) (\<lambda>c. Inr (c @ [''-e'', pattern])))
             else if has_files then then_res (shell_command grep_command) (\<lambda>c. Inr (c @ [''-e'', pattern] @ the files))
             else Raise PyValueError ''command and files can not be both empty or None''
         | None \<Rightarrow>
             if has_files then then_res (shell_command grep_command) (\<lambda>c. Inr (c @ [''-e'', pattern] @ the files))
             else Raise PyValueError ''command and files can not be both empty or None'')"

text \<open>An exit status of 1 says that nothing matched; a greater one is an error of the command.\<close>

definition grep_output ::
  "shell_exn \<Rightarrow> (string list \<Rightarrow> ('w, execute_result) act) \<Rightarrow> string list \<Rightarrow> ('w, string) act" where
  "grep_output X sh c w =
     (case sh c w of
        (Inr result, w') \<Rightarrow> (stream_text (r_stdout result), w')
      | (Inl e, w') \<Rightarrow>
          if isinstance_exn e ShellCommandFailed \<and> failed_status X e \<le> 1
          then (stream_text (failed_stdout X e), w') else (Inl e, w'))"

definition no_matching_lines :: "string \<Rightarrow> string list option \<Rightarrow> string option \<Rightarrow> exn" where
  "no_matching_lines pattern files login =
     Exn NoMatchingLinesFound (''No matching lines found in files (pattern='' @ single_quoted pattern @ '', files='' @
       (case files of None \<Rightarrow> ''None'' | Some fs \<Rightarrow> list_repr fs) @ '', login='' @ show_login login @ '')'')"

definition grep ::
  "shell_exn \<Rightarrow> (string list \<Rightarrow> ('w, execute_result) act) \<Rightarrow> ('w, string option) act \<Rightarrow> string \<Rightarrow> command_arg option \<Rightarrow>
   command_arg \<Rightarrow> string list option \<Rightarrow> bool \<Rightarrow> ('w, string list) act" where
  "grep X sh login pattern command grep_command files blank_lines =
     bindA (lift_res (grep_command_line pattern command grep_command files)) (\<lambda>c.
     bindA (grep_output X sh c) (\<lambda>out.
       (let output_lines = filter (\<lambda>line. blank_lines \<or> strip line \<noteq> []) (splitlines out)
        in if output_lines \<noteq> [] then ret output_lines
           else bindA login (\<lambda>l. raise_act (no_matching_lines pattern files l)))))"

definition zgrep :: command_arg where
  "zgrep = Text ''zgrep -Eh''"

definition grep_files where
  "grep_files X sh login pattern files = grep X sh login pattern None zgrep (Some files) True"

definition grep_lines where
  "grep_lines X sh login pattern command = grep X sh login pattern (Some command) zgrep None True"

section \<open>Properties\<close>

lemma lex_word:
  "c \<noteq> [] \<Longrightarrow> list_all (\<lambda>c. \<not> lex_special c) c \<Longrightarrow> shlex_read LSpace False [] (c @ r) = shlex_read LWord False (rev c) r"
proof (cases c)
  case (Cons a s)
  have word: "list_all (\<lambda>c. \<not> lex_special c) s \<Longrightarrow> shlex_read LWord q w (s @ r) = shlex_read LWord q (rev s @ w) r" for q w
    by (induction s arbitrary: w) (simp_all add: lex_special_def)
  assume "list_all (\<lambda>c. \<not> lex_special c) c"
  with Cons word[of False "[a]"] show ?thesis by (simp add: lex_special_def)
qed simp

lemma lex_single:
  "CHR 0x27 \<notin> set s \<Longrightarrow> shlex_read (LQuote (CHR 0x27)) q w (s @ CHR 0x27 # r) = shlex_read LWord True (rev s @ w) r"
  by (induction s arbitrary: q w) (auto simp: lex_white_def)

lemma single_quote_special: "shlex_read LSpace False [] (CHR 0x27 # s) = shlex_read (LQuote (CHR 0x27)) False [] s"
  by (simp add: lex_white_def)

lemma split_plain_then:
  "c \<noteq> [] \<Longrightarrow> list_all (\<lambda>c. \<not> lex_special c) c \<Longrightarrow>
     shlex_read LSpace False [] (c @ CHR '' '' # r) = cons_words [c] (shlex_read LSpace False [] r)"
  by (simp add: lex_word lex_white_def emit_word_def)

lemma split_single_then:
  "CHR 0x27 \<notin> set s \<Longrightarrow>
     shlex_read LSpace False [] (single_quoted s @ CHR '' '' # r) = cons_words [s] (shlex_read LSpace False [] r)"
  "CHR 0x27 \<notin> set s \<Longrightarrow> shlex_read LSpace False [] (single_quoted s) = Inr [s]"
  using lex_single[of s False "[]" "CHR '' '' # r"] lex_single[of s False "[]" "[]"]
  by (simp_all add: single_quoted_def lex_white_def emit_word_def)

fun name_words :: "string list \<Rightarrow> string list" where
  "name_words [] = []"
| "name_words [n] = [''-name'', n]"
| "name_words (n # ns) = [''-name'', n, ''-o''] @ name_words ns"

lemma split_name_tests:
  "names \<noteq> [] \<Longrightarrow> list_all (\<lambda>n. CHR 0x27 \<notin> set n) names \<Longrightarrow> split_command (name_tests names) = Inr (name_words names)"
proof (induction names rule: name_words.induct)
  case (2 n)
  have "shlex_read LSpace False [] (''-name'' @ CHR '' '' # single_quoted n) = Inr [''-name'', n]"
    using 2 by (subst split_plain_then) (simp_all add: split_single_then cons_words_def lex_special_def lex_white_def)
  then show ?case by (simp add: split_command_def name_tests_def)
next
  case (3 n m ns)
  let ?r = "name_tests (m # ns)"
  have "shlex_read LSpace False [] (''-name'' @ CHR '' '' # (single_quoted n @ CHR '' '' # (''-o'' @ CHR '' '' # ?r)))
      = Inr (name_words (n # m # ns))"
    using 3 by (subst split_plain_then; (subst split_single_then(1))?; (subst split_plain_then)?)
      (simp_all add: cons_words_def lex_special_def lex_white_def split_command_def)
  moreover have "name_tests (n # m # ns) = ''-name'' @ CHR '' '' # (single_quoted n @ CHR '' '' # (''-o'' @ CHR '' '' # ?r))"
    by (simp add: name_tests_def)
  ultimately show ?case by (simp add: split_command_def)
qed simp

lemma split_option:
  assumes "CHR 0x27 \<notin> set v" and "list_all (\<lambda>c. \<not> lex_special c) opt" and "opt \<noteq> []"
  shows "split_command (opt @ CHR '' '' # single_quoted v) = Inr [opt, v]"
  unfolding split_command_def split_plain_then[OF assms(3,2)]
  using assms(1) by (simp add: split_single_then cons_words_def)

lemma split_option_plain:
  assumes "list_all (\<lambda>c. \<not> lex_special c) v" and "v \<noteq> []"
    and "list_all (\<lambda>c. \<not> lex_special c) opt" and "opt \<noteq> []"
  shows "split_command (opt @ CHR '' '' # v) = Inr [opt, v]"
  unfolding split_command_def split_plain_then[OF assms(4,3)]
  using lex_word[OF assms(2,1), of "[]"] assms(2) by (simp add: cons_words_def emit_word_def)

lemma str_int_safe: "list_all safe_char (str_int i)"
proof -
  have "safe_char c" if "c \<in> set (str_nat n)" for c n
    using str_nat_chars[OF that] digit_char(1) by (auto simp: safe_char_def word_char_def)
  then show ?thesis by (auto simp: str_int_def list_all_iff safe_char_def)
qed

lemma str_int_plain: "list_all (\<lambda>c. \<not> lex_special c) (str_int i)" and str_int_quote: "CHR 0x27 \<notin> set (str_int i)"
  using str_int_safe[of i] safe_not_special by (auto simp: list_all_iff lex_special_def)

lemma str_int_nonempty: "str_int i \<noteq> []"
  by (simp add: str_int_def str_nat_nonempty)

definition option_words :: "string \<Rightarrow> ('a \<Rightarrow> string) \<Rightarrow> 'a option \<Rightarrow> string list" where
  "option_words opt f v = (case v of None \<Rightarrow> [] | Some x \<Rightarrow> [opt, f x])"

text \<open>
  The words of the find command: the paths, the depth, the type, then the tests of
  the names with \<open>-o\<close> between them, then the age. The names are not grouped, so that
  the type goes with the first name only and the age with the last one only.
\<close>
theorem find_command_words:
  assumes "list_all (\<lambda>n. CHR 0x27 \<notin> set n) (case name of None \<Rightarrow> [] | Some n \<Rightarrow> names_of n)"
    and "CHR 0x27 \<notin> set (case type of None \<Rightarrow> [] | Some t \<Rightarrow> t)"
  shows "find_command_line (Text ''find'') (Items paths) depth type name age =
    Inr (''find'' # paths @ option_words ''-maxdepth'' str_int depth @ option_words ''-type'' id type @
      name_words (case name of None \<Rightarrow> [] | Some n \<Rightarrow> names_of n) @ option_words ''-mmin'' (\<lambda>m. str_int \<lceil>m / 60\<rceil>) age)"
proof -
  have plain: "list_all (\<lambda>c. \<not> lex_special c) ''-maxdepth''" "list_all (\<lambda>c. \<not> lex_special c) ''-type''"
      "list_all (\<lambda>c. \<not> lex_special c) ''-mmin''" "list_all (\<lambda>c. \<not> lex_special c) ''find''"
    by (simp_all add: lex_special_def lex_white_def)
  have find: "split_command ''find'' = Inr [''find'']" by (simp add: split_command_def lex_white_def emit_word_def)
  have depth: "add_option (\<lambda>d. ''-maxdepth '' @ single_quoted (str_int d)) depth c = Inr (c @ option_words ''-maxdepth'' str_int depth)" for c
    using split_option[OF str_int_quote plain(1)]
    by (simp add: add_option_def option_words_def command_add_def shell_command_def split: option.split)
  have type: "add_option (\<lambda>t. ''-type '' @ single_quoted t) type c = Inr (c @ option_words ''-type'' id type)" for c
    using split_option[OF _ plain(2), of "the type"] assms(2)
    by (auto simp: add_option_def option_words_def command_add_def shell_command_def split: option.split)
  have "split_command (''-mmin'' @ CHR '' '' # str_int i) = Inr [''-mmin'', str_int i]" for i
    by (rule split_option_plain[OF str_int_plain str_int_nonempty plain(3)]) simp
  then have age: "add_option (\<lambda>m. ''-mmin '' @ str_int \<lceil>m / 60\<rceil>) age c = Inr (c @ option_words ''-mmin'' (\<lambda>m. str_int \<lceil>m / 60\<rceil>) age)" for c
    by (simp add: add_option_def option_words_def command_add_def shell_command_def split: option.split)
  have names: "(case name of None \<Rightarrow> Inr c | Some n \<Rightarrow> if names_of n = [] then Inr c else command_add c (Text (name_tests (names_of n))))
      = Inr (c @ name_words (case name of None \<Rightarrow> [] | Some n \<Rightarrow> names_of n))" for c
    using assms(1) split_name_tests[of "names_of (the name)"]
    by (cases name) (auto simp: command_add_def shell_command_def)
  have start: "shell_command (Text ''find'') = Inr [''find'']" "command_add [''find''] (Items paths) = Inr (''find'' # paths)"
    by (simp_all only: shell_command_def command_arg.case find command_add_def) simp
  show ?thesis unfolding find_command_line_def depth type age names start then_res_Inr by simp
qed

lemma find_command_words_witness:
  "find_command_line (Text ''find'') (Items [''/etc'']) (Some 1) (Some ''f'') (Some (Names [''a.yaml'', ''b.json''])) None =
     Inr [''find'', ''/etc'', ''-maxdepth'', ''1'', ''-type'', ''f'', ''-name'', ''a.yaml'', ''-o'', ''-name'', ''b.json'']"
proof -
  have one: "str_int 1 = ''1''" by code_simp
  show ?thesis
    using find_command_words[of "Some (Names [''a.yaml'', ''b.json''])" "Some ''f''" "[''/etc'']" "Some 1" None]
    by (simp add: names_of_def option_words_def one)
qed

text \<open>Lines are only missing when there are none to show.\<close>

lemma grep_found:
  assumes "grep X sh login pattern command grep_command files blank w = (Inr lines, w')"
  shows "lines \<noteq> [] \<and> pattern \<noteq> [] \<and> (\<forall>l \<in> set lines. blank \<or> strip l \<noteq> [])"
  using assms
  by (auto simp: grep_def bindA_eq_Inr lift_res_def grep_command_line_def Let_def ret_def raise_act_def bindA_def
      split: if_splits prod.splits sum.splits)

end
