(* ===== verification/Keystone_Clouds.thy ===== *)
theory Keystone_Clouds
  imports Keystone_Credentials Shell_Find
begin

text \<open>
  tobiko/openstack/keystone/_clouds_file.py: Keystone credentials from the clouds files of a
  host, with the secrets of a second file merged in. The content of a file is a dictionary of
  Python values; reading a file and the JSON and YAML libraries are parameters.
\<close>

section \<open>Merging\<close>

type_synonym clouds_content = "(string \<times> pyval) list"

text \<open>\<open>deep_merge\<close>, and the value it stores for a key of the overriding dictionary.\<close>

function deep_merge :: "clouds_content \<Rightarrow> clouds_content \<Rightarrow> clouds_content"
  and merge_value :: "pyval option \<Rightarrow> pyval \<Rightarrow> pyval" where
  "deep_merge base [] = base"
| "deep_merge base ((key, value) # override) =
     deep_merge (dict_set base key (merge_value (map_of base key) value)) override"
| "merge_value old value =
     (case (old, value) of (Some (PDict b), PDict v) \<Rightarrow> PDict (deep_merge b v) | _ \<Rightarrow> value)"
  by pat_completeness auto
termination
  by (relation "measure (\<lambda>x. case x of Inl (b, ov) \<Rightarrow> size_list (size_prod (\<lambda>_. 0) size) ov | Inr (old, v) \<Rightarrow> size v)") auto

section \<open>The credentials of a cloud\<close>

definition no_credentials_in :: "string \<Rightarrow> string \<Rightarrow> 'a res" where
  "no_credentials_in what place = Inl (no_such_credentials (what @ place))"

fun first_true :: "pyval list \<Rightarrow> pyval" where
  "first_true [] = PNone"
| "first_true [v] = v"
| "first_true (v # vs) = val_or v (first_true vs)"

text \<open>\<open>a.get(k1) or ... or a.get(kn)\<close>.\<close>

definition get_first :: "pyval \<Rightarrow> string list \<Rightarrow> pyval res" where
  "get_first d ks = map_sum id first_true (map_res (val_get d) ks)"

definition domain_params :: "pyval \<Rightarrow> pyval \<Rightarrow> (string \<times> pyval) list res" where
  "domain_params auth cacert =
     then_res (get_first auth [''domain_name'', ''domain_id'']) (\<lambda>domain_name.
     then_res (get_first auth [''user_domain_name'', ''user_domain_id'']) (\<lambda>user_domain_name.
     then_res (val_get auth ''project_domain_name'') (\<lambda>project_domain_name.
     then_res (val_get auth ''project_domain_id'') (\<lambda>project_domain_id.
     then_res (val_get auth ''trust_id'') (\<lambda>trust_id.
       Inr [(''domain_name'', domain_name), (''user_domain_name'', user_domain_name),
            (''project_domain_name'', project_domain_name), (''project_domain_id'', project_domain_id),
            (''cacert'', cacert), (''trust_id'', trust_id)])))))"

definition config_version :: "pyval \<Rightarrow> pyval \<Rightarrow> pyval res" where
  "config_version clouds_config auth_url =
     then_res (case clouds_config of
                 PDict d \<Rightarrow> val_int (case map_of d ''identity_api_version'' of None \<Rightarrow> PInt 0 | Some v \<Rightarrow> v)
               | _ \<Rightarrow> Raise PyAttributeError ''object has no attribute get'') (\<lambda>v.
       version_or_url (PInt v) auth_url)"

text \<open>The credentials of the section \<open>auth\<close>, once it is found.\<close>

definition auth_credentials :: "string \<Rightarrow> pyval \<Rightarrow> pyval \<Rightarrow> credentials res" where
  "auth_credentials place clouds_config auth =
     then_res (val_get auth ''auth_url'') (\<lambda>auth_url.
     if \<not> truthy auth_url then no_credentials_in (str_repr ''auth_url'' @ '' is '' @ val_repr auth_url) place
     else then_res (get_first auth [''username'', ''user_id'']) (\<lambda>username.
     if \<not> truthy username then no_credentials_in (str_repr ''username'' @ '' is '' @ val_repr username) place
     else then_res (val_get auth ''password'') (\<lambda>password.
     if \<not> truthy password then no_credentials_in (str_repr ''password'' @ '' is '' @ val_repr password) place
     else then_res (val_get clouds_config ''cacert'') (\<lambda>cacert.
     then_res (get_first auth [''project_name'', ''tenant_name'', ''project_id'', ''tenant_id'']) (\<lambda>project_name.
     then_res (config_version clouds_config auth_url) (\<lambda>api_version.
       let params = [(''api_version'', api_version), (''auth_url'', auth_url), (''username'', username),
             (''password'', PText (val_str password)), (''project_name'', project_name)]
       in if api_version = PInt 2 then make_credentials params
          else then_res (domain_params auth cacert) (\<lambda>others. make_credentials (params @ others))))))))"

definition parse_credentials :: "string \<Rightarrow> string \<Rightarrow> clouds_content \<Rightarrow> credentials res" where
  "parse_credentials file_spec cloud_name content =
     (let in_file = '' in '' @ str_repr file_spec;
          for_cloud = '' for cloud name '' @ str_repr cloud_name @ '' in '' @ str_repr file_spec
      in then_res (val_get (PDict content) ''clouds'') (\<lambda>clouds_section.
         if clouds_section = PNone then no_credentials_in (str_repr ''clouds'' @ '' section not found'') in_file
         else then_res (val_get clouds_section cloud_name) (\<lambda>clouds_config.
         if clouds_config = PNone then no_credentials_in (''cloud name '' @ str_repr cloud_name @ '' not found'') in_file
         else then_res (val_get clouds_config ''auth'') (\<lambda>auth.
         if auth = PNone then no_credentials_in (str_repr ''auth'' @ '' section not found'') for_cloud
         else auth_credentials for_cloud clouds_config auth))))"

section \<open>Reading the files\<close>

text \<open>The part after the last dot of a file name, with the dot, unless the name starts with it.\<close>

definition file_suffix :: "string \<Rightarrow> string" where
  "file_suffix path =
     (let name = (case rsplit1 (CHR ''/'') path of None \<Rightarrow> path | Some (_, b) \<Rightarrow> b)
      in case rsplit1 (CHR ''.'') name of
           None \<Rightarrow> []
         | Some (a, b) \<Rightarrow> if list_all (\<lambda>c. c = CHR ''.'') a then [] else ''.'' @ b)"

type_synonym 'c clouds_cache = "'c \<times> string \<rightharpoonup> clouds_content"

definition find_content :: "'v \<times> 'c clouds_cache \<Rightarrow> 'c \<times> string \<Rightarrow> clouds_content option" where
  "find_content s k = snd s k"

definition put_content :: "'c \<times> string \<Rightarrow> clouds_content \<Rightarrow> 'v \<times> 'c clouds_cache \<Rightarrow> 'v \<times> 'c clouds_cache" where
  "put_content k v s = (fst s, (snd s)(k \<mapsto> v))"

interpretation contents: memo_table find_content put_content
  by unfold_locales (simp add: find_content_def put_content_def)

text \<open>
  What the fixture of clouds files relies on besides: opening a file, the JSON and YAML
  readers (nothing for an empty file), commands on a host, the paths of a connection, and
  the options of the configuration.
\<close>

record ('v, 'c) clouds_env =
  ce_open :: "'c \<Rightarrow> string \<Rightarrow> ('v, string) act"
  ce_json :: "string \<Rightarrow> clouds_content res"
  ce_yaml :: "string \<Rightarrow> clouds_content res"
  ce_os_error :: "exn \<Rightarrow> bool"
  ce_execute :: "'c \<Rightarrow> string list \<Rightarrow> ('v, execute_result) act"
  ce_client_login :: "'c \<Rightarrow> ('v, string option) act"
  ce_config_path :: "'c \<Rightarrow> string \<Rightarrow> ('v, string) act"
  ce_cloud_name :: "string option"
  ce_directories :: "string list"
  ce_filenames :: "string list"
  ce_secure_filenames :: "string list"

definition load_clouds_file_content :: "('v, 'c) clouds_env \<Rightarrow> 'c \<Rightarrow> string \<Rightarrow> ('v \<times> 'c clouds_cache, clouds_content) act" where
  "load_clouds_file_content F c filename =
     get_or_create find_content put_content
       (on_fst (bindA (ce_open F c filename) (\<lambda>text.
          lift_res (if file_suffix filename = ''.json'' then ce_json F text else ce_yaml F text)))) (c, filename)"

record ('c, 'r) clouds_attrs = "('c, 'r) keystone_attrs" +
  ca_cloud_name :: "string option"
  ca_directories :: "string list option"
  ca_filenames :: "string list option"

type_synonym ('v, 'c, 'r, 'a) clouds_act = "(('v \<times> 'c clouds_cache) \<times> ('c, 'r) clouds_attrs, 'a) act"

type_synonym ('v, 'c, 'r) clouds_base = "('v \<times> 'c clouds_cache, 'c, 'r) keystone_env"

definition clouds_directories :: "('v, 'c, 'r) clouds_base \<Rightarrow> ('v, 'c) clouds_env \<Rightarrow> ('v, 'c, 'r, string list) clouds_act" where
  "clouds_directories E F s =
     (case ca_directories (snd s) of
        Some ds \<Rightarrow> (Inr ds, s)
      | None \<Rightarrow>
          bindA (map_act (\<lambda>d. bindA (connection E) (\<lambda>c. on_fst (on_fst (ce_config_path F c d)))) (ce_directories F)) (\<lambda>ds.
          bindA (set_snd (ca_directories_update (\<lambda>_. Some ds))) (\<lambda>_. ret ds)) s)"

definition clouds_filenames :: "('v, 'c) clouds_env \<Rightarrow> ('v, 'c, 'r, string list) clouds_act" where
  "clouds_filenames F s =
     (case ca_filenames (snd s) of
        Some fs \<Rightarrow> (Inr fs, s)
      | None \<Rightarrow> (Inr (ce_filenames F), (fst s, (snd s)\<lparr>ca_filenames := Some (ce_filenames F)\<rparr>)))"

text \<open>The first of the two variables that is set, or the name in the configuration.\<close>

definition get_cloud_name :: "(string \<rightharpoonup> string) \<Rightarrow> string option \<Rightarrow> string option" where
  "get_cloud_name env conf =
     (case filter (\<lambda>n. n \<noteq> []) (List.map_filter env [''OS_CLOUD'', ''OS_CLOUDNAME'']) of n # _ \<Rightarrow> Some n | [] \<Rightarrow> conf)"

definition cloud_name :: "('v, 'c, 'r) clouds_base \<Rightarrow> ('v, 'c) clouds_env \<Rightarrow> ('v, 'c, 'r, string option) clouds_act" where
  "cloud_name E F s =
     (case ca_cloud_name (snd s) of
        Some n \<Rightarrow> (Inr (Some n), s)
      | None \<Rightarrow>
          bindA (fixture_environ E) (\<lambda>env.
          bindA (set_snd (ca_cloud_name_update (\<lambda>_. get_cloud_name env (ce_cloud_name F)))) (\<lambda>_.
            ret (get_cloud_name env (ce_cloud_name F)))) s)"

text \<open>The files that can be read and are not empty; others are skipped.\<close>

fun load_files ::
  "('v, 'c, 'r) clouds_base \<Rightarrow> ('v, 'c) clouds_env \<Rightarrow> string list \<Rightarrow> ('v, 'c, 'r, (string \<times> clouds_content) list) clouds_act" where
  "load_files E F [] = ret []"
| "load_files E F (f # fs) =
     bindA (try_except (bindA (connection E) (\<lambda>c. bindA (on_fst (load_clouds_file_content F c f)) (\<lambda>x. ret (Some x))))
              (ce_os_error F) (\<lambda>_. ret None)) (\<lambda>x.
     bindA (load_files E F fs) (\<lambda>rest.
       ret (case x of None \<Rightarrow> rest | Some content \<Rightarrow> if content = [] then rest else (f, content) # rest)))"

definition find_and_load_files ::
  "('v, 'c, 'r) clouds_base \<Rightarrow> ('v, 'c) clouds_env \<Rightarrow> string list \<Rightarrow> ('v, 'c, 'r, (string \<times> clouds_content) list) clouds_act" where
  "find_and_load_files E F filenames =
     bindA (try_except
              (bindA (clouds_directories E F) (\<lambda>ds.
               bindA (connection E) (\<lambda>c.
                 on_fst (on_fst (find_files (ce_execute F c) (ce_client_login F c) (Text ''find'') (Items ds) (Some 1)
                   (Some ''f'') (Some (Names filenames)) None)))))
              (\<lambda>e. isinstance_exn e FilesNotFound) (\<lambda>_. ret []))
       (load_files E F)"

definition load_secure_content :: "('v, 'c, 'r) clouds_base \<Rightarrow> ('v, 'c) clouds_env \<Rightarrow> ('v, 'c, 'r, clouds_content option) clouds_act" where
  "load_secure_content E F =
     (if ce_secure_filenames F = [] then ret None
      else bindA (find_and_load_files E F (ce_secure_filenames F)) (\<lambda>files.
           case files of
             [] \<Rightarrow> bindA (clouds_directories E F) (\<lambda>_. ret None)
           | (_, content) # _ \<Rightarrow> ret (Some content)))"

definition merge_secure :: "clouds_content option \<Rightarrow> clouds_content \<Rightarrow> clouds_content" where
  "merge_secure secure content = (case secure of None \<Rightarrow> content | Some o' \<Rightarrow> deep_merge content o')"

text \<open>The files in turn; a file without the cloud is passed over.\<close>

fun first_credentials ::
  "('v, 'c, 'r) clouds_base \<Rightarrow> string \<Rightarrow> clouds_content option \<Rightarrow> (string \<Rightarrow> exn) \<Rightarrow> (string \<times> clouds_content) list \<Rightarrow>
   ('v, 'c, 'r, credentials) clouds_act" where
  "first_credentials E name secure none [] = bindA (login E) (\<lambda>l. raise_act (none l))"
| "first_credentials E name secure none ((filename, content) # files) =
     bindA (login E) (\<lambda>l.
       try_except (lift_res (parse_credentials (l @ '':'' @ filename) name (merge_secure secure content)))
         (\<lambda>e. isinstance_exn e NoSuchKeystoneCredentials)
         (\<lambda>_. first_credentials E name secure none files))"

definition text_lines :: "string list \<Rightarrow> string" where
  "text_lines ls = concat (map (\<lambda>l. l @ [CHR 0x0A]) ls)"

definition clouds_get_credentials :: "('v, 'c, 'r) clouds_base \<Rightarrow> ('v, 'c) clouds_env \<Rightarrow> ('v, 'c, 'r, credentials) clouds_act" where
  "clouds_get_credentials E F =
     bindA (clouds_filenames F) (\<lambda>filenames.
     bindA (find_and_load_files E F filenames) (\<lambda>clouds_files.
     if clouds_files = []
     then bindA (login E) (\<lambda>l. bindA (clouds_directories E F) (\<lambda>ds.
            raise_act (no_such_credentials (text_lines [''Cloud files not found:'', ''  login: '' @ l,
              ''  directories: '' @ list_repr ds, ''  filenames: '' @ list_repr filenames]))))
     else bindA (cloud_name E F) (\<lambda>name.
       case name of
         None \<Rightarrow> bindA (login E) (\<lambda>l. raise_act (no_such_credentials (''['' @ ke_name E @ ''] Clouds name not found at '' @ str_repr l)))
       | Some n \<Rightarrow>
           bindA (load_secure_content E F) (\<lambda>secure.
             first_credentials E n secure
               (\<lambda>l. no_such_credentials (''['' @ ke_name E @ ''] Keystone credentials not found for cloud name '' @ str_repr n @
                  '' in files '' @ list_repr (map fst clouds_files) @ '' (login='' @ l @ '')''))
               clouds_files))))"

section \<open>Properties\<close>

text \<open>Dictionaries whose keys are distinct on every level, and what a path leads to when that is no dictionary.\<close>

function wf_val :: "pyval \<Rightarrow> bool" where
  "wf_val (PDict d) = (distinct (map fst d) \<and> list_all (\<lambda>(k, v). wf_val v) d)"
| "wf_val PNone = True" | "wf_val (PBool b) = True" | "wf_val (PInt i) = True" | "wf_val (PText t) = True"
| "wf_val (PList xs) = True"
  by pat_completeness auto
termination by (relation "measure size") (auto dest: size_pair)

fun leaf_at :: "pyval \<Rightarrow> string list \<Rightarrow> pyval option" where
  "leaf_at (PDict d) [] = None"
| "leaf_at v [] = Some v"
| "leaf_at (PDict d) (k # ks) = (case map_of d k of None \<Rightarrow> None | Some v \<Rightarrow> leaf_at v ks)"
| "leaf_at v (k # ks) = None"

fun covers :: "pyval \<Rightarrow> string list \<Rightarrow> bool" where
  "covers v [] = True"
| "covers (PDict d) (k # ks) = (case map_of d k of None \<Rightarrow> False | Some v \<Rightarrow> covers v ks)"
| "covers v (k # ks) = True"

lemma map_of_deep_merge:
  "distinct (map fst ov) \<Longrightarrow>
     map_of (deep_merge b ov) k =
       (case map_of ov k of None \<Rightarrow> map_of b k | Some v \<Rightarrow> Some (merge_value (map_of b k) v))"
proof (induction ov arbitrary: b)
  case (Cons p ov)
  obtain k' v where p: "p = (k', v)" by (cases p)
  with Cons have "map_of ov k' = None" by (simp add: map_of_eq_None_iff)
  with Cons p show ?case by (auto split: option.split)
qed simp

lemma leaf_no_dict: "\<forall>d. v \<noteq> PDict d \<Longrightarrow> leaf_at v ks = (if ks = [] then Some v else None)"
  by (cases v; cases ks) auto

lemma merge_no_dict: "\<forall>d. v \<noteq> PDict d \<Longrightarrow> merge_value x v = v"
  by (cases v) (auto split: option.split pyval.split)

lemma covers_no_dict: "\<forall>d. v \<noteq> PDict d \<Longrightarrow> covers v ks"
  by (cases v; cases ks) auto

lemma leaf_covers: "\<not> covers v ks \<Longrightarrow> leaf_at v ks = None"
  by (induction v ks rule: covers.induct) (auto split: option.splits)

text \<open>
  Property (C35). Merging overrides along whole paths: wherever the overriding dictionary says
  something about a path, the merged one says the same; everywhere else it says what the
  base says. Secrets replace single values of a clouds file and drop none of the others.
\<close>
theorem deep_merge_paths:
  assumes "wf_val (PDict ov)"
  shows "leaf_at (PDict (deep_merge b ov)) ks =
    (if covers (PDict ov) ks then leaf_at (PDict ov) ks else leaf_at (PDict b) ks)"
  using assms
proof (induction ks arbitrary: b ov)
  case (Cons k ks)
  then have d: "distinct (map fst ov)" by simp
  show ?case
  proof (cases "map_of ov k")
    case None
    then show ?thesis by (simp add: map_of_deep_merge[OF d])
  next
    case (Some v)
    have leaf: "leaf_at (PDict (deep_merge b ov)) (k # ks) = leaf_at (merge_value (map_of b k) v) ks"
      using Some by (simp add: map_of_deep_merge[OF d])
    show ?thesis
    proof (cases "\<exists>e. v = PDict e")
      case True
      then obtain e where PDict: "v = PDict e" by blast
      have e: "wf_val (PDict e)" using map_of_SomeD[OF Some] Cons.prems PDict by (fastforce simp del: wf_val.simps(1) simp: wf_val.simps(1)[of ov] list_all_iff)
      show ?thesis
      proof (cases "\<exists>c. map_of b k = Some (PDict c)")
        case True
        then obtain c where "map_of b k = Some (PDict c)" by blast
        with leaf Some PDict Cons.IH[OF e, of c] show ?thesis by simp
      next
        case False
        then have "merge_value (map_of b k) v = v" by (simp split: option.split pyval.split)
        moreover have "leaf_at (PDict b) (k # ks) = None" if "\<not> covers v ks"
        proof (cases "map_of b k")
          case (Some w)
          with False have "\<forall>d. w \<noteq> PDict d" by blast
          moreover have "ks \<noteq> []" using that by auto
          ultimately show ?thesis using Some by (simp add: leaf_no_dict)
        qed simp
        ultimately show ?thesis using leaf Some leaf_covers[of v ks] by (cases "covers v ks") auto
      qed
    next
      case False
      with leaf Some show ?thesis by (simp add: merge_no_dict covers_no_dict del: merge_value.simps)
    qed
  qed
qed simp

lemma deep_merge_paths_witness:
  "leaf_at (PDict (deep_merge [(''clouds'', PDict [(''c'', PDict [(''user'', PText ''u'')])])]
      [(''clouds'', PDict [(''c'', PDict [(''password'', PText ''p'')])])])) [''clouds'', ''c'', ''password''] = Some (PText ''p'') \<and>
   leaf_at (PDict (deep_merge [(''clouds'', PDict [(''c'', PDict [(''user'', PText ''u'')])])]
      [(''clouds'', PDict [(''c'', PDict [(''password'', PText ''p'')])])])) [''clouds'', ''c'', ''user''] = Some (PText ''u'')"
  using deep_merge_paths[of "[(''clouds'', PDict [(''c'', PDict [(''password'', PText ''p'')])])]"
      "[(''clouds'', PDict [(''c'', PDict [(''user'', PText ''u'')])])]"] by simp

lemma then_res_eq_Inr: "then_res r f = Inr y \<longleftrightarrow> (\<exists>x. r = Inr x \<and> f x = Inr y)"
  by (cases r) (simp_all add: then_res_def)

lemma if_Inl_eq: "(if b then Inl e else r) = Inr y \<longleftrightarrow> \<not> b \<and> r = Inr y"
  by simp

lemma make_defaults:
  "make_credentials [(''api_version'', a), (''auth_url'', u), (''username'', n), (''password'', p), (''project_name'', j)] = Inr c \<Longrightarrow>
     list_all (\<lambda>k. map_of (credentials_dict c) k = Some PNone) (tl default_params)"
  by (auto simp: make_credentials_def required_params_def default_params_def credentials_dict_def split: if_splits)

lemma domain_params_keys: "domain_params auth x = Inr others \<Longrightarrow> fst ` set others \<subseteq> set default_params"
  by (auto simp: domain_params_def then_res_eq_Inr default_params_def)

lemma auth_credentials_Inr:
  assumes "auth_credentials place conf auth = Inr c"
  shows "\<exists>u n p j a others. truthy u \<and> truthy n \<and> truthy p \<and> fst ` set others \<subseteq> set default_params \<and> (a = PInt 2 \<longrightarrow> others = []) \<and>
    make_credentials ([(''api_version'', a), (''auth_url'', u), (''username'', n), (''password'', PText (val_str p)), (''project_name'', j)] @ others) = Inr c"
proof -
  let ?ps = "\<lambda>u n p j a. [(''api_version'', a), (''auth_url'', u), (''username'', n), (''password'', PText (val_str p)), (''project_name'', j)]"
  from assms obtain u n p j a cacert where t: "truthy u" "truthy n" "truthy p"
    and m: "(if a = PInt 2 then make_credentials (?ps u n p j a)
      else then_res (domain_params auth cacert) (\<lambda>others. make_credentials (?ps u n p j a @ others))) = Inr c"
    unfolding auth_credentials_def no_credentials_in_def then_res_eq_Inr if_Inl_eq Let_def not_not by blast
  show ?thesis
  proof (cases "a = PInt 2")
    case True
    with t m show ?thesis by (intro exI[of _ u] exI[of _ n] exI[of _ p] exI[of _ j] exI[of _ a] exI[of _ "[]"]) simp
  next
    case False
    with m obtain others where "domain_params auth cacert = Inr others" "make_credentials (?ps u n p j a @ others) = Inr c"
      by (auto simp: then_res_eq_Inr)
    with t False domain_params_keys show ?thesis
      by (intro exI[of _ u] exI[of _ n] exI[of _ p] exI[of _ j] exI[of _ a] exI[of _ others]) simp
  qed
qed


end
