(* ===== verification/Shell_Logs.thy ===== *)
theory Shell_Logs
  imports Shell_Find Retry_Partial
begin

text \<open>
  tobiko/shell/files/_logs.py: log files and journals that are searched again and again, on one
  host or on many, and the lines that were found in them so far. What searching a log and
  the names of the hosts are parameters of the operations over them.
\<close>

section \<open>Searching\<close>

text \<open>\<open>os.path.split\<close>.\<close>

definition path_split :: "string \<Rightarrow> string \<times> string" where
  "path_split path =
     (case rsplit1 (CHR ''/'') path of
        None \<Rightarrow> ([], path)
      | Some (a, b) \<Rightarrow>
          (let head = a @ ''/''
           in (if list_all (\<lambda>c. c = CHR ''/'') head then head else rstrip_by (\<lambda>c. c = CHR ''/'') head, b)))"

definition list_log_files ::
  "(string list \<Rightarrow> ('w, execute_result) act) \<Rightarrow> ('w, string option) act \<Rightarrow> string \<Rightarrow> ('w, string list) act" where
  "list_log_files sh login filename =
     (case path_split filename of (file_path, file_name) \<Rightarrow>
        find_files sh login (Text ''find'') (Text file_path) None None (Some (OneName file_name)) None)"

definition grep_log_lines ::
  "shell_exn \<Rightarrow> (string list \<Rightarrow> ('w, execute_result) act) \<Rightarrow> ('w, string option) act \<Rightarrow> string \<Rightarrow> string \<Rightarrow> ('w, string list) act" where
  "grep_log_lines X sh login filename pattern =
     bindA (list_log_files sh login filename) (\<lambda>files. grep_files X sh login pattern files)"

text \<open>\<open>shlex.quote\<close> of the standard library.\<close>

definition shlex_quote :: "string \<Rightarrow> string" where
  "shlex_quote s =
     (if s = [] then [CHR 0x27, CHR 0x27]
      else if list_all (\<lambda>c. word_char c \<or> c \<in> set ''@%+=:,./-'') s then s
      else CHR 0x27 # concat (map (\<lambda>c. if c = CHR 0x27 then double_quoted_quote else [c]) s) @ [CHR 0x27])"

definition journal_command :: "string \<Rightarrow> string \<Rightarrow> string list" where
  "journal_command unit pattern =
     [''journalctl'', ''--no-pager'', ''--unit'', shlex_quote unit, ''--output'', ''short-iso'', ''--grep'', shlex_quote pattern]"

definition journal_lines ::
  "shell_exn \<Rightarrow> (string list \<Rightarrow> ('w, execute_result) act) \<Rightarrow> ('w, string option) act \<Rightarrow> string \<Rightarrow> string \<Rightarrow> ('w, string list) act" where
  "journal_lines X sh login filename pattern w =
     (case sh (journal_command filename pattern) w of
        (Inr result, w') \<Rightarrow>
          (case stream_text (r_stdout result) of
             Inl e \<Rightarrow> (Inl e, w') | Inr out \<Rightarrow> (Inr (filter (\<lambda>l. \<not> prefix ''-- '' l) (splitlines out)), w'))
      | (Inl e, w') \<Rightarrow>
          if isinstance_exn e ShellCommandFailed
          then (case failed_stdout X e of
                  None \<Rightarrow> (Raise PyAttributeError ''NoneType object has no attribute endswith'', w')
                | Some out \<Rightarrow>
                    if suffix (''-- No entries --'' @ [CHR 0x0A]) out
                    then bindA login (\<lambda>l. raise_act (no_matching_lines pattern (Some [filename]) l)) w'
                    else (Inr [], w'))
          else (Inl e, w'))"

section \<open>One host\<close>

text \<open>\<open>dg_found\<close>: the keys of the ordered dictionary; \<open>dg_ready\<close>: the fixture was set up.\<close>

record log_digger =
  dg_pattern :: "string option"
  dg_found :: "string list"
  dg_ready :: bool

definition mk_digger :: "string option \<Rightarrow> log_digger" where
  "mk_digger pattern = \<lparr>dg_pattern = pattern, dg_found = [], dg_ready = False\<rparr>"

definition add_found :: "string list \<Rightarrow> string list \<Rightarrow> string list" where
  "add_found found lines = foldl (\<lambda>fs l. if l \<in> set fs then fs else fs @ [l]) found lines"

text \<open>The search itself, for the pattern that applies.\<close>

definition dig :: "(string \<Rightarrow> ('w, string list) act) \<Rightarrow> string \<Rightarrow> bool \<Rightarrow> ('w \<times> log_digger, string list) act" where
  "dig lines_of pattern new_lines s =
     (case lines_of pattern (fst s) of
        (Inl e, w) \<Rightarrow>
          if isinstance_exn e NoMatchingLinesFound
          then (Inr (if new_lines then [] else dg_found (snd s)), (w, snd s)) else (Inl e, (w, snd s))
      | (Inr lines, w) \<Rightarrow>
          (let lines' = filter (\<lambda>l. l \<notin> set (dg_found (snd s))) lines;
               found = add_found (dg_found (snd s)) lines'
           in (Inr (if new_lines then lines' else found), (w, (snd s)\<lparr>dg_found := found\<rparr>))))"

definition find_lines ::
  "(string \<Rightarrow> ('w, string list) act) \<Rightarrow> string option \<Rightarrow> bool \<Rightarrow> ('w \<times> log_digger, string list) act" where
  "find_lines lines_of pattern new_lines s =
     (case pattern of
        None \<Rightarrow>
          (case dg_pattern (snd s) of
             None \<Rightarrow> (Raise PyValueError ''Invalid pattern: None'', s)
           | Some p \<Rightarrow> dig lines_of p new_lines s)
      | Some p \<Rightarrow>
          if dg_pattern (snd s) \<noteq> None then (Raise PyNotImplementedError ''Combining patterns is not supported'', s)
          else dig lines_of p new_lines s)"

text \<open>Setting up a digger, once: a failed set up is cleaned up, unless creating is prevented.\<close>

definition setup_digger :: "(string \<Rightarrow> ('w, string list) act) \<Rightarrow> bool \<Rightarrow> ('w \<times> log_digger, unit) act" where
  "setup_digger lines_of prevent s =
     (if dg_ready (snd s) then (Inr (), s)
      else if dg_pattern (snd s) = None then (Inr (), (fst s, (snd s)\<lparr>dg_ready := True\<rparr>))
      else (case find_lines lines_of None False s of
              (Inr _, t) \<Rightarrow> (Inr (), (fst t, (snd t)\<lparr>dg_ready := True\<rparr>))
            | (Inl e, t) \<Rightarrow> (Inl e, (fst t, if prevent then snd t else (snd t)\<lparr>dg_found := []\<rparr>))))"

definition cleanup_digger :: "log_digger \<Rightarrow> log_digger" where
  "cleanup_digger d = d\<lparr>dg_found := []\<rparr>"

section \<open>Many hosts\<close>

text \<open>The diggers by the names of their hosts, each with the SSH client it was made for.\<close>

record 'c multi_digger =
  md_pattern :: "string option"
  md_clients :: "'c list"
  md_diggers :: "(string \<times> 'c \<times> log_digger) list option"
  md_ready :: bool

definition mk_multi :: "string option \<Rightarrow> 'c list option \<Rightarrow> 'c multi_digger" where
  "mk_multi pattern clients =
     \<lparr>md_pattern = pattern, md_clients = (case clients of None \<Rightarrow> [] | Some cs \<Rightarrow> cs), md_diggers = None, md_ready = False\<rparr>"

definition diggers_of :: "'c multi_digger \<Rightarrow> (string \<times> 'c \<times> log_digger) list" where
  "diggers_of m = (case md_diggers m of None \<Rightarrow> [] | Some ds \<Rightarrow> ds)"

definition add_host ::
  "('c \<Rightarrow> ('w, string) act) \<Rightarrow> 'c \<Rightarrow> string option \<Rightarrow> ('w \<times> 'c multi_digger, log_digger) act" where
  "add_host get_hostname client hostname =
     bindA (set_snd (\<lambda>m. m\<lparr>md_diggers := Some (diggers_of m)\<rparr>)) (\<lambda>_.
     bindA (case hostname of Some h \<Rightarrow> ret h | None \<Rightarrow> on_fst (get_hostname client)) (\<lambda>h s.
       case map_of (diggers_of (snd s)) h of
         Some (c, d) \<Rightarrow> (Inr d, s)
       | None \<Rightarrow>
           (let d = mk_digger (md_pattern (snd s))
            in (Inr d, (fst s, (snd s)\<lparr>md_diggers := Some (dict_set (diggers_of (snd s)) h (client, d))\<rparr>)))))"

text \<open>Running an operation on every digger, in order; each keeps what it found when a later one raises.\<close>

fun on_diggers ::
  "('c \<Rightarrow> ('w \<times> log_digger, 'a) act) \<Rightarrow> (string \<times> 'c \<times> log_digger) list \<Rightarrow> 'w \<Rightarrow>
   (string \<times> 'a) list res \<times> 'w \<times> (string \<times> 'c \<times> log_digger) list" where
  "on_diggers f [] w = (Inr [], w, [])"
| "on_diggers f ((h, c, d) # ds) w =
     (case f c (w, d) of
        (Inl e, (w', d')) \<Rightarrow> (Inl e, w', (h, c, d') # ds)
      | (Inr x, (w', d')) \<Rightarrow>
          (case on_diggers f ds w' of (r, w'', ds') \<Rightarrow>
             (map_sum id (\<lambda>xs. (h, x) # xs) r, w'', (h, c, d') # ds')))"

definition with_diggers ::
  "('c \<Rightarrow> ('w \<times> log_digger, 'a) act) \<Rightarrow> ('w \<times> 'c multi_digger, (string \<times> 'a) list) act" where
  "with_diggers f s =
     (case md_diggers (snd s) of
        None \<Rightarrow> (Inr [], s)
      | Some ds \<Rightarrow>
          (case on_diggers f ds (fst s) of (r, w, ds') \<Rightarrow> (r, (w, (snd s)\<lparr>md_diggers := Some ds'\<rparr>))))"

definition setup_multi ::
  "('c \<Rightarrow> string \<Rightarrow> ('w, string list) act) \<Rightarrow> ('c \<Rightarrow> ('w, string) act) \<Rightarrow> bool \<Rightarrow> ('w \<times> 'c multi_digger, unit) act" where
  "setup_multi lines_of get_hostname prevent s =
     (if md_ready (snd s) then (Inr (), s)
      else (case bindA (map_act (\<lambda>c. add_host get_hostname c None) (md_clients (snd s)))
                   (\<lambda>_. with_diggers (\<lambda>c. setup_digger (lines_of c) prevent)) s of
              (Inr _, t) \<Rightarrow> (Inr (), (fst t, (snd t)\<lparr>md_ready := True\<rparr>))
            | (Inl e, t) \<Rightarrow>
                (Inl e, (fst t, (snd t)\<lparr>md_diggers :=
                   (if prevent then map_option (map (\<lambda>(h, c, d). (h, c, d\<lparr>dg_ready := False\<rparr>))) (md_diggers (snd t)) else None)\<rparr>))))"

definition host_lines :: "(string \<times> string list) list \<Rightarrow> (string \<times> string) list" where
  "host_lines found = concat (map (\<lambda>(h, ls). map (\<lambda>l. (h, l)) ls) found)"

definition multi_found_lines ::
  "('c \<Rightarrow> string \<Rightarrow> ('w, string list) act) \<Rightarrow> ('c \<Rightarrow> ('w, string) act) \<Rightarrow> bool \<Rightarrow>
   ('w \<times> 'c multi_digger, (string \<times> string) list) act" where
  "multi_found_lines lines_of get_hostname prevent =
     bindA (setup_multi lines_of get_hostname prevent) (\<lambda>_ s.
       (Inr (host_lines (map (\<lambda>(h, c, d). (h, dg_found d)) (diggers_of (snd s)))), s))"

definition multi_find_lines ::
  "('c \<Rightarrow> string \<Rightarrow> ('w, string list) act) \<Rightarrow> ('c \<Rightarrow> ('w, string) act) \<Rightarrow> bool \<Rightarrow> string option \<Rightarrow> bool \<Rightarrow>
   ('w \<times> 'c multi_digger, (string \<times> string) list) act" where
  "multi_find_lines lines_of get_hostname prevent pattern new_lines =
     bindA (setup_multi lines_of get_hostname prevent) (\<lambda>_.
     bindA (with_diggers (\<lambda>c. find_lines (lines_of c) pattern new_lines)) (\<lambda>found. ret (host_lines found)))"

definition new_lines_turn where
  "new_lines_turn lines_of get_hostname prevent pattern attempt =
     bindA (multi_find_lines lines_of get_hostname prevent pattern True) (\<lambda>ls.
       ret (if ls \<noteq> [] then Done ls else Next))"

definition find_new_lines ::
  "('c \<Rightarrow> string \<Rightarrow> ('z world_scheme, string list) act) \<Rightarrow> ('c \<Rightarrow> ('z world_scheme, string) act) \<Rightarrow> bool \<Rightarrow> string option \<Rightarrow>
   int option \<Rightarrow> rat option \<Rightarrow> rat option \<Rightarrow> ('z world_scheme \<times> 'c multi_digger, (string \<times> string) list) pact" where
  "find_new_lines lines_of get_hostname prevent pattern count timeout interval =
     retry_iter fst_now fst_sleep (retry None count timeout None interval None (Some 60) None (Some 1))
       (new_lines_turn lines_of get_hostname prevent pattern)"

section \<open>Properties\<close>

lemma add_found_set: "set (add_found found ls) = set found \<union> set ls"
  unfolding add_found_def by (induction ls arbitrary: found) auto

lemma add_found_distinct: "distinct found \<Longrightarrow> distinct (add_found found ls)"
  unfolding add_found_def by (induction ls arbitrary: found) auto

lemma dig_new:
  assumes "dig lines_of p True s = (Inr ls, t)"
  shows "set ls \<inter> set (dg_found (snd s)) = {} \<and> set (dg_found (snd t)) = set (dg_found (snd s)) \<union> set ls \<and>
    (distinct (dg_found (snd s)) \<longrightarrow> distinct (dg_found (snd t)))"
  using assms by (auto simp: dig_def Let_def add_found_set add_found_distinct split: prod.splits sum.splits if_splits)

lemma find_new:
  assumes "find_lines lines_of p True s = (Inr ls, t)"
  shows "set ls \<inter> set (dg_found (snd s)) = {} \<and> set (dg_found (snd t)) = set (dg_found (snd s)) \<union> set ls \<and>
    (distinct (dg_found (snd s)) \<longrightarrow> distinct (dg_found (snd t)))"
  using assms by (auto simp: find_lines_def split: option.splits if_splits dest!: dig_new)



text \<open>Waiting for new lines on many hosts returns only with some.\<close>

lemma find_new_lines_some:
  assumes "find_new_lines lines_of hn prevent pattern count timeout interval s = Some (Inr ls, t)"
  shows "ls \<noteq> []"
proof -
  have "valid (\<lambda>_. True) (find_new_lines lines_of hn prevent pattern count timeout interval) (post (\<lambda>e s. True) (\<lambda>ls s. ls \<noteq> []))"
    unfolding find_new_lines_def
    by (rule valid_retry_iter[where I = "\<lambda>_ _. True"])
      (auto simp: turn_post_def post_def new_lines_turn_def bindA_def ret_def split: prod.splits sum.splits turn.splits if_splits)
  from validD[OF this TrueI assms] show ?thesis by simp
qed

end
