(* ===== verification/Topology_Addresses.thy ===== *)
theory Topology_Addresses
  imports Py_Values Registry
begin

text \<open>
  tobiko/openstack/topology/_address.py: the IP addresses of a host, of an address or of a
  sequence of them. The netaddr library and the resolver of the socket library are parameters.
\<close>

datatype address_family = AF_INET | AF_INET6 | AF_UNSPEC

text \<open>
  \<open>al_parse\<close>: \<open>netaddr.IPAddress\<close>, None when it raises \<open>AddrFormatError\<close> or \<open>ValueError\<close>;
  \<open>al_getaddrinfo\<close>: the families and addresses of \<open>socket.getaddrinfo\<close>, None for a \<open>gaierror\<close>.
\<close>

record ('w, 'a) address_lib =
  al_parse :: "string \<Rightarrow> 'a option"
  al_version :: "'a \<Rightarrow> int"
  al_getaddrinfo :: "string \<Rightarrow> pyval \<Rightarrow> address_family \<Rightarrow> ('w, (address_family \<times> string) list option) act"

definition parse_host_ip :: "('w, 'a) address_lib \<Rightarrow> string \<Rightarrow> 'a option" where
  "parse_host_ip A host = al_parse A host"

definition get_address_family :: "int option \<Rightarrow> address_family res" where
  "get_address_family ip_version =
     (case ip_version of
        None \<Rightarrow> Inr AF_UNSPEC
      | Some v \<Rightarrow>
          if v = 4 then Inr AF_INET else if v = 6 then Inr AF_INET6
          else Raise PyValueError (str_int v @ '' is an invalid value for getting address family''))"

text \<open>What is kept of one answer of the resolver.\<close>

definition resolved_address :: "('w, 'a) address_lib \<Rightarrow> address_family \<Rightarrow> int option \<Rightarrow> address_family \<times> string \<Rightarrow> 'a list" where
  "resolved_address A family ip_version info =
     (if family \<noteq> AF_UNSPEC \<and> family \<noteq> fst info then []
      else case parse_host_ip A (snd info) of
             None \<Rightarrow> []
           | Some a \<Rightarrow>
               (case ip_version of
                  None \<Rightarrow> [a]
                | Some v \<Rightarrow> if v \<noteq> 0 \<and> v \<noteq> al_version A a then [] else [a]))"

definition resolv_host_addresses :: "('w, 'a) address_lib \<Rightarrow> string \<Rightarrow> pyval \<Rightarrow> int option \<Rightarrow> ('w, 'a list) act" where
  "resolv_host_addresses A host port ip_version =
     bindA (lift_res (get_address_family ip_version)) (\<lambda>family.
     bindA (al_getaddrinfo A host port family) (\<lambda>infos.
       ret (case infos of None \<Rightarrow> [] | Some is \<Rightarrow> concat (map (resolved_address A family ip_version) is))))"

text \<open>The loop over the hosts still to resolve, the next one first.\<close>

fun resolve_hosts ::
  "('w, 'a) address_lib \<Rightarrow> pyval \<Rightarrow> int option \<Rightarrow> string list \<Rightarrow> string set \<Rightarrow> 'a list \<Rightarrow> ('w, 'a list) act" where
  "resolve_hosts A port ip_version [] resolved addresses = ret addresses"
| "resolve_hosts A port ip_version (host # hosts) resolved addresses =
     (if host \<in> resolved then resolve_hosts A port ip_version hosts resolved addresses
      else case parse_host_ip A host of
             Some a \<Rightarrow> resolve_hosts A port ip_version hosts (insert host resolved) (addresses @ [a])
           | None \<Rightarrow>
               bindA (resolv_host_addresses A host port ip_version) (\<lambda>found.
                 resolve_hosts A port ip_version hosts (insert host resolved) (addresses @ found)))"

text \<open>The cache of \<open>lru_cache\<close>, by the arguments.\<close>

type_synonym host_key = "string \<times> int option \<times> pyval \<times> bool"

type_synonym 'a address_cache = "host_key \<rightharpoonup> 'a list"

definition find_addresses :: "'w \<times> 'a address_cache \<Rightarrow> host_key \<Rightarrow> 'a list option" where
  "find_addresses s k = snd s k"

definition put_addresses :: "host_key \<Rightarrow> 'a list \<Rightarrow> 'w \<times> 'a address_cache \<Rightarrow> 'w \<times> 'a address_cache" where
  "put_addresses k v s = (fst s, (snd s)(k \<mapsto> v))"

interpretation host_addresses: memo_table find_addresses put_addresses
  by unfold_locales (simp add: find_addresses_def put_addresses_def)

definition list_host_addresses ::
  "('w, 'a) address_lib \<Rightarrow> string \<Rightarrow> int option \<Rightarrow> pyval \<Rightarrow> bool \<Rightarrow> ('w \<times> 'a address_cache, 'a list) act" where
  "list_host_addresses A host ip_version port ssh_config =
     get_or_create find_addresses put_addresses
       (on_fst (resolve_hosts A (if truthy port then port else if ssh_config then PInt 22 else PInt 0) ip_version [host] {} []))
       (host, ip_version, port, ssh_config)"

text \<open>What addresses are listed for: a selection, an address, a name, a sequence, or something else.\<close>

datatype 'a host_arg = HostSelection "'a list" | HostAddress 'a | HostName string | HostItems "'a host_arg list" | HostOther string

definition with_version :: "('w, 'a) address_lib \<Rightarrow> int option \<Rightarrow> 'a list \<Rightarrow> 'a list" where
  "with_version A ip_version addresses =
     (case ip_version of None \<Rightarrow> addresses | Some v \<Rightarrow> filter (\<lambda>a. al_version A a = v) addresses)"

text \<open>The items of a sequence are listed without the version, the port and the flag.\<close>

fun list_addresses ::
  "('w, 'a) address_lib \<Rightarrow> int option \<Rightarrow> pyval \<Rightarrow> bool \<Rightarrow> 'a host_arg \<Rightarrow> ('w \<times> 'a address_cache, 'a list) act"
  and list_items :: "('w, 'a) address_lib \<Rightarrow> 'a host_arg list \<Rightarrow> ('w \<times> 'a address_cache, 'a list) act" where
  "list_addresses A v port ssh (HostSelection as) = ret (with_version A v as)"
| "list_addresses A v port ssh (HostAddress a) = ret (with_version A v [a])"
| "list_addresses A v port ssh (HostName h) =
     bindA (list_host_addresses A h v port ssh) (\<lambda>as. ret (with_version A v as))"
| "list_addresses A v port ssh (HostItems items) = bindA (list_items A items) (\<lambda>as. ret (with_version A v as))"
| "list_addresses A v port ssh (HostOther t) =
     raise_act (Exn PyTypeError (t @ '' object is not of a valid address(es) type''))"
| "list_items A [] = ret []"
| "list_items A (item # items) =
     bindA (list_addresses A None PNone False item) (\<lambda>as. bindA (list_items A items) (\<lambda>bs. ret (as @ bs)))"

section \<open>Properties\<close>

text \<open>An address is listed as itself, without asking the resolver.\<close>

lemma literal_address:
  assumes "al_parse A h = Some a" and "snd s (h, v, port, ssh) = None"
  shows "list_host_addresses A h v port ssh s = (Inr [a], put_addresses (h, v, port, ssh) [a] s)"
proof -
  have "parse_host_ip A h = Some a" using assms(1) by (simp add: parse_host_ip_def)
  then show ?thesis using assms(2)
    by (simp add: list_host_addresses_def get_or_create_def find_addresses_def on_fst_def ret_def)
qed

text \<open>Only addresses of the version that was asked for are listed.\<close>

lemma listed_version:
  "list_addresses A (Some v) port ssh obj s = (Inr as, t) \<Longrightarrow> a \<in> set as \<Longrightarrow> al_version A a = v"
  by (cases obj) (auto simp: bindA_eq_Inr ret_def raise_act_def with_version_def split: if_splits)

end
