(* ===== verification/Topology_Connections.thy ===== *)
theory Topology_Connections
  imports Tobiko_Select
begin

text \<open>
  tobiko/openstack/topology/_connection.py: the SSH connections to addresses, each tried once
  and then remembered with its client or its failure. Connecting a client and closing it are
  parameters.
\<close>

record 'c ssh_connection =
  cn_client :: "'c option"
  cn_failure :: "exn option"

definition is_valid :: "'c ssh_connection \<Rightarrow> bool" where
  "is_valid cn = (cn_failure cn = None \<and> cn_client cn \<noteq> None)"

definition UreachableSSHServer :: pyclass where
  "UreachableSSHServer = ''UreachableSSHServer'' # TobikoException"

declare UreachableSSHServer_def [exn_classes]

text \<open>The connections by address and proxy client, in the order they were made.\<close>

type_synonym ('a, 'c) connections = "(('a \<times> 'c option) \<times> 'c ssh_connection) list"

text \<open>\<open>cm_connect\<close>: making a client for an address through a proxy and connecting it.\<close>

record ('w, 'a, 'c) connection_lib =
  cm_connect :: "'a \<Rightarrow> 'c option \<Rightarrow> ('w, 'c) act"
  cm_close :: "'c \<Rightarrow> ('w, unit) act"
  cm_show :: "'a list \<Rightarrow> string"

text \<open>The parameters of a new client: those that were given, or those of the configuration.\<close>

definition client_parameters ::
  "string option \<times> int option \<times> string option \<Rightarrow> string option \<times> int option \<times> string option \<Rightarrow>
   string option \<times> int option \<times> string option" where
  "client_parameters given conf =
     (case (given, conf) of ((user, port, key), (cuser, cport, ckey)) \<Rightarrow>
        (opt_or (\<lambda>t. t \<noteq> []) user cuser, opt_or (\<lambda>p. p \<noteq> 0) port cport, opt_or (\<lambda>t. t \<noteq> []) key ckey))"

definition new_connection :: "'c ssh_connection" where
  "new_connection = \<lparr>cn_client = None, cn_failure = None\<rparr>"

definition get_connection :: "'a \<Rightarrow> 'c option \<Rightarrow> ('a, 'c) connections \<Rightarrow> ('a, 'c) connections" where
  "get_connection address proxy cs =
     (if map_of cs (address, proxy) = None then dict_set cs (address, proxy) new_connection else cs)"

text \<open>The connections of the addresses, each address once.\<close>

definition list_connections :: "'a list \<Rightarrow> 'c option \<Rightarrow> ('a, 'c) connections \<Rightarrow> 'a list \<times> ('a, 'c) connections" where
  "list_connections addresses proxy cs =
     (let as = uniq_onto (=) [] addresses in (as, fold (\<lambda>a cs. get_connection a proxy cs) as cs))"

definition connection_of :: "('a, 'c) connections \<Rightarrow> 'c option \<Rightarrow> 'a \<Rightarrow> 'c ssh_connection" where
  "connection_of cs proxy a = (case map_of cs (a, proxy) of None \<Rightarrow> new_connection | Some cn \<Rightarrow> cn)"

text \<open>Trying the addresses that did not fail before, in order.\<close>

fun try_addresses ::
  "('w, 'a, 'c) connection_lib \<Rightarrow> 'c option \<Rightarrow> 'a list \<Rightarrow> ('w \<times> ('a, 'c) connections, 'c option) act" where
  "try_addresses M proxy [] s = (Inr None, s)"
| "try_addresses M proxy (a # as) s =
     (if cn_failure (connection_of (snd s) proxy a) \<noteq> None then try_addresses M proxy as s
      else case cm_connect M a proxy (fst s) of
             (Inr c, w) \<Rightarrow>
               (Inr (Some c), (w, dict_set (snd s) (a, proxy) ((connection_of (snd s) proxy a)\<lparr>cn_client := Some c\<rparr>)))
           | (Inl e, w) \<Rightarrow>
               if catches [PyException] e
               then try_addresses M proxy as
                      (w, dict_set (snd s) (a, proxy) ((connection_of (snd s) proxy a)\<lparr>cn_failure := Some e\<rparr>))
               else (Inl e, (w, snd s)))"

definition failures_text :: "('a, 'c) connections \<Rightarrow> 'c option \<Rightarrow> 'a list \<Rightarrow> string" where
  "failures_text cs proxy as =
     str_join [CHR 0x0A] (map (\<lambda>a. case cn_failure (connection_of cs proxy a) of None \<Rightarrow> ''None'' | Some e \<Rightarrow> exn_msg e) as)"

definition unreachable :: "('w, 'a, 'c) connection_lib \<Rightarrow> 'a list \<Rightarrow> string \<Rightarrow> exn" where
  "unreachable M addresses failures =
     Exn UreachableSSHServer (''Unable to reach SSH server through any address: '' @ cm_show M addresses @ ''. Failures: '' @ failures)"

definition connect :: "('w, 'a, 'c) connection_lib \<Rightarrow> 'a list \<Rightarrow> 'c option \<Rightarrow> ('w \<times> ('a, 'c) connections, 'c) act" where
  "connect M addresses proxy s =
     (if addresses = [] then (Raise PyValueError (cm_show M addresses @ '' list is empty''), s)
      else case list_connections addresses proxy (snd s) of
        (as, cs) \<Rightarrow>
          (case filter (\<lambda>a. is_valid (connection_of cs proxy a)) as of
             a # _ \<Rightarrow> (Inr (the (cn_client (connection_of cs proxy a))), (fst s, cs))
           | [] \<Rightarrow>
               bindA (try_addresses M proxy as) (\<lambda>found t.
                 case found of
                   Some c \<Rightarrow> (Inr c, t)
                 | None \<Rightarrow> (Inl (unreachable M addresses (failures_text (snd t) proxy as)), t)) (fst s, cs)))"

text \<open>Cleaning up: the connections are forgotten, then their clients are closed.\<close>

definition cleanup_connections :: "('w, 'a, 'c) connection_lib \<Rightarrow> ('w \<times> ('a, 'c) connections, unit) act" where
  "cleanup_connections M s =
     bindA (map_act (\<lambda>c. on_fst (cm_close M c)) (List.map_filter (\<lambda>(k, cn). cn_client cn) (snd s))) (\<lambda>_. ret ()) (fst s, [])"

section \<open>Properties\<close>

lemma connection_of_get: "connection_of (get_connection b p cs) q a = connection_of cs q a"
  by (simp add: connection_of_def get_connection_def)

lemma connection_of_fold: "connection_of (fold (\<lambda>a cs. get_connection a p cs) as cs) q a = connection_of cs q a"
  by (induction as arbitrary: cs) (simp_all add: connection_of_get)

lemma get_connection_known: "map_of cs (a, p) \<noteq> None \<Longrightarrow> get_connection a p cs = cs"
  by (auto simp: get_connection_def)

lemma map_of_fold_get:
  "map_of (fold (\<lambda>a cs. get_connection a p cs) as cs) k \<noteq> None \<longleftrightarrow> map_of cs k \<noteq> None \<or> (snd k = p \<and> fst k \<in> set as)"
  by (induction as arbitrary: cs) (auto simp: get_connection_def)

lemma fold_get_known: "\<forall>a \<in> set as. map_of cs (a, p) \<noteq> None \<Longrightarrow> fold (\<lambda>a cs. get_connection a p cs) as cs = cs"
  by (induction as) (auto simp: get_connection_def)

lemma connection_of_set: "connection_of (dict_set cs (a, p) cn) q b = (if (b, q) = (a, p) then cn else connection_of cs q b)"
  by (simp add: connection_of_def)

lemma try_keeps_known:
  "try_addresses M p as s = (r, t) \<Longrightarrow> map_of (snd s) k \<noteq> None \<Longrightarrow> map_of (snd t) k \<noteq> None"
proof (induction M p as s rule: try_addresses.induct)
  case (2 M p a as s)
  show ?case
  proof (cases "cm_connect M a p (fst s)")
    case (Pair q w)
    with 2 show ?thesis by (cases q) (auto split: if_splits)
  qed
qed auto

lemma try_frame:
  "try_addresses M p as s = (r, t) \<Longrightarrow> b \<notin> set as \<Longrightarrow> connection_of (snd t) p b = connection_of (snd s) p b"
proof (induction M p as s rule: try_addresses.induct)
  case (2 M p a as s)
  show ?case
  proof (cases "cm_connect M a p (fst s)")
    case (Pair q w)
    with 2 show ?thesis by (cases q) (auto simp: connection_of_set split: if_splits)
  qed
qed simp

text \<open>After trying, one of the addresses has the client and those before it failed, or all failed.\<close>

lemma try_addresses_outcome:
  assumes "try_addresses M p as s = (Inr r, t)" and "distinct as" and "\<forall>a \<in> set as. \<not> is_valid (connection_of (snd s) p a)"
  shows "case r of
      None \<Rightarrow> \<forall>a \<in> set as. cn_failure (connection_of (snd t) p a) \<noteq> None
    | Some c \<Rightarrow> \<exists>us a vs. as = us @ a # vs \<and> (\<forall>u \<in> set us. \<not> is_valid (connection_of (snd t) p u)) \<and>
        is_valid (connection_of (snd t) p a) \<and> cn_client (connection_of (snd t) p a) = Some c"
  using assms
proof (induction M p as s rule: try_addresses.induct)
  case (2 M p a as s)
  let ?cn = "connection_of (snd s) p a"
  have step: ?case if rest: "try_addresses M p as u = (Inr r, t)" and f: "cn_failure (connection_of (snd u) p a) \<noteq> None"
      and IH: "case r of
        None \<Rightarrow> \<forall>a \<in> set as. cn_failure (connection_of (snd t) p a) \<noteq> None
      | Some c \<Rightarrow> \<exists>us a vs. as = us @ a # vs \<and> (\<forall>u \<in> set us. \<not> is_valid (connection_of (snd t) p u)) \<and>
          is_valid (connection_of (snd t) p a) \<and> cn_client (connection_of (snd t) p a) = Some c" for u
  proof -
    have a: "cn_failure (connection_of (snd t) p a) \<noteq> None"
      using try_frame[OF rest, of a] f "2.prems"(2) by simp
    show ?thesis
    proof (cases r)
      case None
      with IH a show ?thesis by simp
    next
      case (Some c)
      with IH obtain us b vs where "as = us @ b # vs" "\<forall>u \<in> set us. \<not> is_valid (connection_of (snd t) p u)"
          "is_valid (connection_of (snd t) p b)" "cn_client (connection_of (snd t) p b) = Some c" by auto
      moreover have "\<not> is_valid (connection_of (snd t) p a)" using a by (simp add: is_valid_def)
      ultimately show ?thesis unfolding Some option.case
        by (intro exI[of _ "a # us"] exI[of _ b] exI[of _ vs]) simp
    qed
  qed
  show ?case
  proof (cases "cn_failure ?cn = None")
    case False
    with "2.prems" have rest: "try_addresses M p as s = (Inr r, t)" by simp
    from "2.IH"(1)[OF _ rest] "2.prems" False show ?thesis by (intro step[OF rest]) auto
  next
    case True
    obtain q w where m: "cm_connect M a p (fst s) = (q, w)" by (cases "cm_connect M a p (fst s)")
    show ?thesis
    proof (cases q)
      case (Inr d)
      with True m "2.prems"(1) have "r = Some d" "snd t = dict_set (snd s) (a, p) (?cn\<lparr>cn_client := Some d\<rparr>)" by auto
      with True show ?thesis by (auto simp: connection_of_set is_valid_def intro!: exI[of _ "[]"])
    next
      case (Inl e)
      let ?u = "(w, dict_set (snd s) (a, p) (?cn\<lparr>cn_failure := Some e\<rparr>))"
      from Inl True m "2.prems"(1) have c: "catches [PyException] e" and rest: "try_addresses M p as ?u = (Inr r, t)"
        by (auto split: if_splits)
      have nv: "\<forall>b \<in> set as. \<not> is_valid (connection_of (snd ?u) p b)"
        using "2.prems" by (auto simp: connection_of_set)
      have "\<not> cn_failure ?cn \<noteq> None" using True by simp
      from "2.IH"(2)[OF this m[symmetric] Inl c rest] nv "2.prems"(2)
      show ?thesis by (intro step[OF rest]) (simp_all add: connection_of_set)
    qed
  qed
qed simp

lemma try_raises: "try_addresses M p as s = (Inl e, t) \<Longrightarrow> \<not> catches [PyException] e"
  by (induction M p as s rule: try_addresses.induct) (auto split: if_splits prod.splits sum.splits)

lemma try_skip:
  "\<forall>a \<in> set as. cn_failure (connection_of (snd s) p a) \<noteq> None \<Longrightarrow> try_addresses M p as s = (Inr None, s)"
  by (induction as) auto

lemma distinct_uniq: "distinct (uniq_onto (=) seen xs) \<and> set (uniq_onto (=) seen xs) = set xs - set seen"
  by (induction "(=) :: 'a \<Rightarrow> 'a \<Rightarrow> bool" seen xs rule: uniq_onto.induct) auto

definition known_connections :: "'a list \<Rightarrow> 'c option \<Rightarrow> ('a, 'c) connections \<Rightarrow> ('a, 'c) connections" where
  "known_connections as proxy cs = fold (\<lambda>a cs. get_connection a proxy cs) as cs"

definition outcome :: "('w, 'a, 'c) connection_lib \<Rightarrow> 'a list \<Rightarrow> 'c option \<Rightarrow> 'a list \<Rightarrow> 'c option \<Rightarrow> ('w \<times> ('a, 'c) connections, 'c) act" where
  "outcome M addresses proxy as found t =
     (case found of Some c \<Rightarrow> (Inr c, t) | None \<Rightarrow> (Inl (unreachable M addresses (failures_text (snd t) proxy as)), t))"

lemma connect_eq:
  assumes "addresses \<noteq> []" and "uniq_onto (=) [] addresses = as" and "known_connections as proxy (snd s) = cs"
  shows "connect M addresses proxy s =
    (case filter (\<lambda>a. is_valid (connection_of cs proxy a)) as of
       a # _ \<Rightarrow> (Inr (the (cn_client (connection_of cs proxy a))), (fst s, cs))
     | [] \<Rightarrow> bindA (try_addresses M proxy as) (outcome M addresses proxy as) (fst s, cs))"
  unfolding connect_def list_connections_def Let_def assms(2) assms(3)[unfolded known_connections_def] prod.case outcome_def
  by (simp only: assms(1) if_False)

lemma connect_known:
  assumes "addresses \<noteq> []" and "\<forall>a \<in> set (uniq_onto (=) [] addresses). map_of (snd u) (a, proxy) \<noteq> None"
  shows "connect M addresses proxy u =
    (let as = uniq_onto (=) [] addresses in
     case filter (\<lambda>a. is_valid (connection_of (snd u) proxy a)) as of
       a # _ \<Rightarrow> (Inr (the (cn_client (connection_of (snd u) proxy a))), u)
     | [] \<Rightarrow> bindA (try_addresses M proxy as) (outcome M addresses proxy as) u)"
  using connect_eq[OF assms(1) refl, of proxy u "snd u" M] fold_get_known[OF assms(2)]
  unfolding known_connections_def prod.collapse Let_def by blast

lemma unreachable_library: "unreachable (M\<lparr>cm_connect := f\<rparr>) = unreachable M"
  by (intro ext) (simp add: unreachable_def)

text \<open>What trying the addresses left decides the next attempt.\<close>

lemma tried_again:
  assumes tr: "try_addresses M proxy as s = (Inr x, t)" and d: "distinct as"
    and nv: "\<forall>a \<in> set as. \<not> is_valid (connection_of (snd s) proxy a)"
  shows "(case filter (\<lambda>a. is_valid (connection_of (snd t) proxy a)) as of
       a # _ \<Rightarrow> (Inr (the (cn_client (connection_of (snd t) proxy a))), t)
     | [] \<Rightarrow> bindA (try_addresses (M\<lparr>cm_connect := f\<rparr>) proxy as) (outcome (M\<lparr>cm_connect := f\<rparr>) addresses proxy as) t) =
    outcome M addresses proxy as x t"
proof (cases x)
  case None
  with try_addresses_outcome[OF tr d nv] have f: "\<forall>a \<in> set as. cn_failure (connection_of (snd t) proxy a) \<noteq> None" by simp
  then have "filter (\<lambda>a. is_valid (connection_of (snd t) proxy a)) as = []" by (auto simp: filter_empty_conv is_valid_def)
  with try_skip[OF f, of "M\<lparr>cm_connect := f\<rparr>"] None show ?thesis
    by (simp add: bindA_def outcome_def unreachable_library)
next
  case (Some c)
  with try_addresses_outcome[OF tr d nv] obtain us a vs
    where a: "as = us @ a # vs" "\<forall>u \<in> set us. \<not> is_valid (connection_of (snd t) proxy u)"
        "is_valid (connection_of (snd t) proxy a)" "cn_client (connection_of (snd t) proxy a) = Some c" by auto
  then have "filter (\<lambda>a. is_valid (connection_of (snd t) proxy a)) us = []" by (simp add: filter_empty_conv)
  with Some a show ?thesis by (simp add: outcome_def)
qed

text \<open>
  Property (C34). Connecting settles the addresses: when a client was returned, or none of them
  could be reached, connecting to them again has the same outcome, changes nothing and does
  not try any address again.
\<close>
theorem connect_settled:
  assumes "connect M addresses proxy s = (r, t)" and "case r of Inr c \<Rightarrow> True | Inl e \<Rightarrow> exn_class e = UreachableSSHServer"
  shows "connect (M\<lparr>cm_connect := f\<rparr>) addresses proxy t = (r, t)"
proof (cases "addresses = []")
  case True
  with assms(1) show ?thesis by (simp add: connect_def)
next
  case False
  let ?as = "uniq_onto (=) [] addresses"
  let ?cs = "known_connections ?as proxy (snd s)"
  have known: "\<forall>a \<in> set ?as. map_of ?cs (a, proxy) \<noteq> None" unfolding known_connections_def map_of_fold_get by simp
  note first = connect_eq[OF False refl refl, of M proxy s, unfolded assms(1)]
  show ?thesis
  proof (cases "filter (\<lambda>a. is_valid (connection_of ?cs proxy a)) ?as")
    case (Cons a as)
    with first have "r = Inr (the (cn_client (connection_of ?cs proxy a)))" "t = (fst s, ?cs)" by simp_all
    with connect_known[OF False, of t proxy "M\<lparr>cm_connect := f\<rparr>"] known Cons show ?thesis by (simp add: Let_def)
  next
    case Nil
    obtain q u where tr: "try_addresses M proxy ?as (fst s, ?cs) = (q, u)" by (cases "try_addresses M proxy ?as (fst s, ?cs)")
    have out: "(case q of Inl e \<Rightarrow> (Inl e, u) | Inr x \<Rightarrow> outcome M addresses proxy ?as x u) = (r, t)"
      using first Nil tr by (simp add: bindA_def)
    then have t: "t = u" by (auto simp: outcome_def split: sum.splits option.splits)
    have known_t: "\<forall>a \<in> set ?as. map_of (snd t) (a, proxy) \<noteq> None" using try_keeps_known[OF tr] known t by simp
    obtain x where x: "q = Inr x"
      using out assms(2) try_raises[of M proxy ?as "(fst s, ?cs)" _ u] tr
      by (cases q) (auto simp: catches_def isinstance_exn_def issubclass_def exn_classes)
    have d: "distinct ?as" using distinct_uniq[of "[]" addresses] by simp
    have nv: "\<forall>a \<in> set ?as. \<not> is_valid (connection_of (snd (fst s, ?cs)) proxy a)" using Nil by (simp add: filter_empty_conv)
    from tried_again[OF tr[unfolded x t[symmetric]] d nv, of f addresses] out x t show ?thesis
      unfolding connect_known[OF False known_t] Let_def by simp
  qed
qed

lemma connect_settled_witness:
  "connect \<lparr>cm_connect = \<lambda>a p w. (Raise PyException ''refused'', w), cm_close = \<lambda>c. ret (), cm_show = \<lambda>as. ''hosts''\<rparr>
     [1 :: nat, 2] (None :: nat option)
     (5 :: nat, [((1, None), \<lparr>cn_client = None, cn_failure = Some (Exn PyException ''timed out'')\<rparr>),
                 ((2, None), \<lparr>cn_client = Some 7, cn_failure = None\<rparr>)]) =
   (Inr 7, (5, [((1, None), \<lparr>cn_client = None, cn_failure = Some (Exn PyException ''timed out'')\<rparr>),
                ((2, None), \<lparr>cn_client = Some 7, cn_failure = None\<rparr>)]))"
proof -
  let ?M = "\<lparr>cm_connect = \<lambda>a p w. if a = 2 then (Inr 7, w) else (Raise PyException ''timed out'', w), cm_close = \<lambda>c. ret (),
      cm_show = \<lambda>as. ''hosts''\<rparr> :: (nat, nat, nat) connection_lib"
  have "connect ?M [1, 2] None (5, []) =
      (Inr 7, (5, [((1, None), \<lparr>cn_client = None, cn_failure = Some (Exn PyException ''timed out'')\<rparr>),
                   ((2, None), \<lparr>cn_client = Some 7, cn_failure = None\<rparr>)]))"
    by (simp add: connect_def list_connections_def get_connection_def connection_of_def new_connection_def is_valid_def
        catches_def isinstance_exn_def issubclass_def exn_classes bindA_def)
  from connect_settled[OF this, of "\<lambda>a p w. (Raise PyException ''refused'', w)"] show ?thesis by simp
qed

end
