(* ===== verification/Topology_Nodes.thy ===== *)
theory Topology_Nodes
  imports Topology_Addresses Topology_Connections
begin

text \<open>
  tobiko/openstack/topology/_topology.py: the nodes of a cloud with their names, addresses and
  groups. A node object is referred to by its name, which is the key it has in the table of
  the nodes and never changes. The state is the tables of the topology with the addresses the
  resolver found before and the SSH connections tried before.
\<close>

section \<open>Names\<close>

definition node_name_from_hostname :: "string \<Rightarrow> string" where
  "node_name_from_hostname hostname = str_lower (hd (split_max 1 ''.'' hostname))"

definition remove_duplications :: "'a list \<Rightarrow> 'a list" where
  "remove_duplications items = map fst (fold (\<lambda>k mapping. dict_set mapping k ()) items [])"

section \<open>State\<close>

record ('a, 'c) node =
  nd_name :: string
  nd_client :: "'c option"
  nd_groups :: "string set"
  nd_addresses :: "'a list"
  nd_hostname :: string

record ('w, 'a, 'c) topology =
  tp_world :: "'w \<times> 'a address_cache"
  tp_connections :: "('a, 'c) connections"
  tp_names :: "(string \<times> ('a, 'c) node) list"
  tp_groups :: "(string \<times> string list) list"
  tp_addresses :: "('a \<times> string) list"

text \<open>
  What the topology calls: the resolver, the connections, \<open>ssh.ssh_client(hostname)\<close> set up
  as a fixture, \<open>sh.get_hostname\<close>, \<open>ip.list_ip_addresses\<close> with the global scope, and the option
  \<open>ip_version\<close> of the configuration.
\<close>

record ('w, 'a, 'c) node_lib =
  nl_address :: "('w, 'a) address_lib"
  nl_connection :: "('w, 'a, 'c) connection_lib"
  nl_client :: "string \<Rightarrow> ('w, 'c) act"
  nl_hostname :: "'c option \<Rightarrow> ('w, string) act"
  nl_host_addresses :: "'c \<Rightarrow> int option \<Rightarrow> ('w, 'a list) act"
  nl_conf_ip_version :: "string option"
  nl_show :: "string option \<Rightarrow> 'a host_arg option \<Rightarrow> string"

type_synonym ('w, 'a, 'c, 'r) topology_act = "(('w, 'a, 'c) topology, 'r) act"

definition on_hosts :: "('w, 'r) act \<Rightarrow> ('w, 'a, 'c, 'r) topology_act" where
  "on_hosts m s = (case m (fst (tp_world s)) of (r, w) \<Rightarrow> (r, s\<lparr>tp_world := (w, snd (tp_world s))\<rparr>))"

definition on_cache :: "('w \<times> 'a address_cache, 'r) act \<Rightarrow> ('w, 'a, 'c, 'r) topology_act" where
  "on_cache m s = (case m (tp_world s) of (r, w) \<Rightarrow> (r, s\<lparr>tp_world := w\<rparr>))"

definition on_connections :: "('w \<times> ('a, 'c) connections, 'r) act \<Rightarrow> ('w, 'a, 'c, 'r) topology_act" where
  "on_connections m s =
     (case m (fst (tp_world s), tp_connections s) of
        (r, (w, cs)) \<Rightarrow> (r, s\<lparr>tp_world := (w, snd (tp_world s)), tp_connections := cs\<rparr>))"

definition node_of :: "('w, 'a, 'c) topology \<Rightarrow> string \<Rightarrow> ('a, 'c) node option" where
  "node_of s name = map_of (tp_names s) name"

section \<open>Addresses\<close>

definition topology_ip_version :: "('w, 'a, 'c) node_lib \<Rightarrow> int option res" where
  "topology_ip_version L =
     (case nl_conf_ip_version L of
        None \<Rightarrow> Inr None
      | Some t \<Rightarrow>
          if t = [] then Inr None
          else (case py_int t of Inl e \<Rightarrow> Inl e | Inr v \<Rightarrow> Inr (if v = 0 then None else Some v)))"

definition topology_list_addresses :: "('w, 'a, 'c) node_lib \<Rightarrow> 'a host_arg \<Rightarrow> ('w, 'a, 'c, 'a list) topology_act" where
  "topology_list_addresses L obj =
     bindA (lift_res (topology_ip_version L)) (\<lambda>v. on_cache (list_addresses (nl_address L) v PNone True obj))"

definition list_addresses_from_host :: "('w, 'a, 'c) node_lib \<Rightarrow> 'c option \<Rightarrow> ('w, 'a, 'c, 'a list) topology_act" where
  "list_addresses_from_host L client =
     (case client of
        None \<Rightarrow> ret []
      | Some c \<Rightarrow> bindA (lift_res (topology_ip_version L)) (\<lambda>v. on_hosts (nl_host_addresses L c v)))"

section \<open>Nodes\<close>

definition NoSuchOpenStackTopologyNode :: pyclass where
  "NoSuchOpenStackTopologyNode = ''NoSuchOpenStackTopologyNode'' # TobikoException"

definition NoSuchOpenStackTopologyNodeGroup :: pyclass where
  "NoSuchOpenStackTopologyNodeGroup = ''NoSuchOpenStackTopologyNodeGroup'' # TobikoException"

declare NoSuchOpenStackTopologyNode_def [exn_classes] NoSuchOpenStackTopologyNodeGroup_def [exn_classes]

definition no_such_node :: "('w, 'a, 'c) node_lib \<Rightarrow> string option \<Rightarrow> 'a host_arg option \<Rightarrow> exn" where
  "no_such_node L name address = Exn NoSuchOpenStackTopologyNode (''No such topology node: '' @ nl_show L name address)"

text \<open>The node of the first address that is known.\<close>

fun first_known :: "('a \<times> string) list \<Rightarrow> 'a list \<Rightarrow> string option" where
  "first_known table [] = None"
| "first_known table (a # as) = (case map_of table a of Some n \<Rightarrow> Some n | None \<Rightarrow> first_known table as)"

definition get_node ::
  "('w, 'a, 'c) node_lib \<Rightarrow> string option \<Rightarrow> string option \<Rightarrow> 'a host_arg option \<Rightarrow> ('w, 'a, 'c, string) topology_act" where
  "get_node L name hostname address s =
     (let name = (case (name, hostname) of (None, Some h) \<Rightarrow> Some (node_name_from_hostname h) | _ \<Rightarrow> name)
      in if (case name of None \<Rightarrow> False | Some n \<Rightarrow> node_of s n \<noteq> None) then (Inr (the name), s)
         else case address of
                None \<Rightarrow> (Inl (no_such_node L name None), s)
              | Some obj \<Rightarrow>
                  bindA (topology_list_addresses L obj) (\<lambda>as t.
                    case first_known (tp_addresses t) as of
                      Some n \<Rightarrow> (Inr n, t)
                    | None \<Rightarrow> (Inl (no_such_node L name (Some obj)), t)) s)"

definition nodes :: "('w, 'a, 'c) node_lib \<Rightarrow> ('w, 'a, 'c, string list) topology_act" where
  "nodes L s = map_act (\<lambda>name. get_node L (Some name) None None) (map fst (tp_names s)) s"

text \<open>Connecting through a client as proxy, and then without it when the host can be reached.\<close>

definition ssh_connect :: "('w, 'a, 'c) node_lib \<Rightarrow> 'a list \<Rightarrow> 'c option \<Rightarrow> ('w, 'a, 'c, 'c) topology_act" where
  "ssh_connect L addresses proxy = on_connections (connect (nl_connection L) addresses proxy)"

definition is_unreachable :: "exn \<Rightarrow> bool" where
  "is_unreachable e = catches [UreachableSSHServer] e"

definition ssh_connect_with_proxy_client :: "('w, 'a, 'c) node_lib \<Rightarrow> 'a list \<Rightarrow> 'c \<Rightarrow> ('w, 'a, 'c, 'c) topology_act" where
  "ssh_connect_with_proxy_client L addresses proxy =
     bindA (ssh_connect L addresses (Some proxy)) (\<lambda>client.
     bindA (list_addresses_from_host L (Some client)) (\<lambda>found.
       try_except (ssh_connect L found None) is_unreachable (\<lambda>e. ret client)))"

fun connect_through :: "('w, 'a, 'c) node_lib \<Rightarrow> 'a list \<Rightarrow> exn \<Rightarrow> string list \<Rightarrow> ('w, 'a, 'c, 'c) topology_act" where
  "connect_through L addresses failure [] s = (Inl failure, s)"
| "connect_through L addresses failure (n # ns) s =
     (case Option.bind (node_of s n) nd_client of
        None \<Rightarrow> connect_through L addresses failure ns s
      | Some proxy \<Rightarrow>
          try_except (ssh_connect_with_proxy_client L addresses proxy) is_unreachable
            (\<lambda>e. connect_through L addresses failure ns) s)"

definition topology_ssh_connect :: "('w, 'a, 'c) node_lib \<Rightarrow> 'a list \<Rightarrow> string option \<Rightarrow> ('w, 'a, 'c, 'c) topology_act" where
  "topology_ssh_connect L addresses hostname =
     (let by_address = try_except (ssh_connect L addresses None) is_unreachable
            (\<lambda>e. bindA (nodes L) (connect_through L addresses e))
      in case hostname of
           None \<Rightarrow> by_address
         | Some h \<Rightarrow> try_except (on_hosts (nl_client L h)) (catches [PyException]) (\<lambda>e. by_address))"

text \<open>The client of a new node: the one that was given, a new one, or none.\<close>

definition node_client ::
  "('w, 'a, 'c) node_lib \<Rightarrow> 'a list \<Rightarrow> string option \<Rightarrow> 'c option \<Rightarrow> bool \<Rightarrow> ('w, 'a, 'c, 'c option) topology_act" where
  "node_client L addresses hostname client create_ssh_client =
     (if client = None \<and> create_ssh_client
      then bindA (topology_ssh_connect L addresses hostname) (\<lambda>c. ret (Some c))
      else ret client)"

definition node_hostname :: "('w, 'a, 'c) node_lib \<Rightarrow> string option \<Rightarrow> 'c option \<Rightarrow> ('w, 'a, 'c, string) topology_act" where
  "node_hostname L hostname client =
     (case hostname of
        Some h \<Rightarrow> if h = [] then on_hosts (nl_hostname L client) else ret h
      | None \<Rightarrow> on_hosts (nl_hostname L client))"

definition set_default_address :: "string \<Rightarrow> 'a \<Rightarrow> ('a \<times> string) list \<Rightarrow> ('a \<times> string) list" where
  "set_default_address name a table = (if map_of table a = None then dict_set table a name else table)"

text \<open>The tables with a node: a name that is known keeps its node, an address its owner.\<close>

definition create_node :: "string \<Rightarrow> 'c option \<Rightarrow> 'a list \<Rightarrow> string \<Rightarrow> ('a, 'c) node" where
  "create_node name client addresses hostname =
     \<lparr>nd_name = name, nd_client = client, nd_groups = {}, nd_addresses = addresses, nd_hostname = hostname\<rparr>"

definition store_node ::
  "string \<Rightarrow> 'c option \<Rightarrow> 'a list \<Rightarrow> ('w, 'a, 'c) topology \<Rightarrow> ('w, 'a, 'c) topology" where
  "store_node hostname client addresses s =
     (let name = node_name_from_hostname hostname;
          t = (if node_of s name = None
               then s\<lparr>tp_names := dict_set (tp_names s) name (create_node name client addresses hostname)\<rparr>
               else s)
      in t\<lparr>tp_addresses := fold (set_default_address name) addresses (tp_addresses t)\<rparr>)"

definition add_new_node ::
  "('w, 'a, 'c) node_lib \<Rightarrow> 'a list \<Rightarrow> string option \<Rightarrow> 'c option \<Rightarrow> bool \<Rightarrow> ('w, 'a, 'c, string) topology_act" where
  "add_new_node L addresses hostname client create_ssh_client =
     bindA (node_client L addresses hostname client create_ssh_client) (\<lambda>client.
     bindA (list_addresses_from_host L client) (\<lambda>found.
     bindA (node_hostname L hostname client) (\<lambda>hostname s.
       (Inr (node_name_from_hostname hostname),
        store_node hostname client (remove_duplications (addresses @ found)) s))))"

section \<open>Groups\<close>

definition add_group :: "string \<Rightarrow> ('w, 'a, 'c) topology \<Rightarrow> ('w, 'a, 'c) topology" where
  "add_group grp s =
     (if map_of (tp_groups s) grp = None then s\<lparr>tp_groups := dict_set (tp_groups s) grp []\<rparr> else s)"

definition group_members :: "('w, 'a, 'c) topology \<Rightarrow> string \<Rightarrow> string list" where
  "group_members s grp = (case map_of (tp_groups s) grp of None \<Rightarrow> [] | Some ns \<Rightarrow> ns)"

text \<open>\<open>node.add_group\<close>.\<close>

definition node_add_group :: "string \<Rightarrow> string \<Rightarrow> ('w, 'a, 'c) topology \<Rightarrow> ('w, 'a, 'c) topology" where
  "node_add_group name grp s =
     (case node_of s name of
        None \<Rightarrow> s
      | Some n \<Rightarrow> s\<lparr>tp_names := dict_set (tp_names s) name (n\<lparr>nd_groups := insert grp (nd_groups n)\<rparr>)\<rparr>)"

definition join_group :: "string option \<Rightarrow> string \<Rightarrow> ('w, 'a, 'c) topology \<Rightarrow> ('w, 'a, 'c) topology" where
  "join_group grp name s =
     (case grp of
        None \<Rightarrow> s
      | Some g \<Rightarrow>
          if g = [] then s
          else let t = add_group g s
               in if name \<in> set (group_members t g) then t
                  else node_add_group name g (t\<lparr>tp_groups := dict_set (tp_groups t) g (group_members t g @ [name])\<rparr>))"

text \<open>The host name of a client that was given; a client whose host cannot tell it is dropped.\<close>

definition client_hostname ::
  "('w, 'a, 'c) node_lib \<Rightarrow> string option \<Rightarrow> 'c option \<Rightarrow> ('w, 'a, 'c, string option \<times> 'c option) topology_act" where
  "client_hostname L hostname client =
     (case client of
        None \<Rightarrow> ret (hostname, None)
      | Some c \<Rightarrow>
          try_except (bindA (on_hosts (nl_hostname L (Some c))) (\<lambda>h. ret (Some h, client)))
            (catches [PyException]) (\<lambda>e. ret (hostname, None)))"

definition given_addresses :: "('w, 'a, 'c) node_lib \<Rightarrow> string option \<Rightarrow> ('w, 'a, 'c, 'a list) topology_act" where
  "given_addresses L address =
     (case address of
        None \<Rightarrow> ret []
      | Some a \<Rightarrow>
          if a = [] then ret []
          else bindA (topology_list_addresses L (HostName a)) (\<lambda>as. ret (remove_duplications as)))"

definition given_name :: "string option \<Rightarrow> string option" where
  "given_name hostname =
     (case hostname of
        None \<Rightarrow> None
      | Some h \<Rightarrow> if h = [] \<or> node_name_from_hostname h = [] then None else Some (node_name_from_hostname h))"

definition is_no_such_node :: "exn \<Rightarrow> bool" where
  "is_no_such_node e = catches [NoSuchOpenStackTopologyNode] e"

definition add_node ::
  "('w, 'a, 'c) node_lib \<Rightarrow> string option \<Rightarrow> string option \<Rightarrow> string option \<Rightarrow> 'c option \<Rightarrow> bool \<Rightarrow>
   ('w, 'a, 'c, string) topology_act" where
  "add_node L hostname address grp client create_ssh_client =
     bindA (client_hostname L hostname client) (\<lambda>(hostname, client).
     bindA (given_addresses L address) (\<lambda>addresses.
     bindA (try_except (get_node L (given_name hostname) None (Some (HostSelection addresses))) is_no_such_node
              (\<lambda>e. add_new_node L addresses hostname client create_ssh_client)) (\<lambda>name s.
       (Inr name, join_group grp name s))))"

section \<open>Discovery\<close>

text \<open>The hosts of the end points are visited in the order the set of them yields.\<close>

record ('w, 'c) cloud_lib =
  cl_proxy_client :: "('w, 'c option) act"
  cl_conf_nodes :: "string list"
  cl_has_keystone_credentials :: "('w, bool) act"
  cl_endpoint_hosts :: "('w, string option list) act"
  cl_set_order :: "string option list \<Rightarrow> string option list"
  cl_hypervisors :: "('w, (string \<times> string) list) act"

definition discover_ssh_proxy_jump_node where
  "discover_ssh_proxy_jump_node C L =
     bindA (on_hosts (cl_proxy_client C)) (\<lambda>client.
       case client of
         None \<Rightarrow> ret ()
       | Some c \<Rightarrow> bindA (add_node L None None (Some ''proxy_jump'') (Some c) True) (\<lambda>_. ret ()))"

definition discover_configured_nodes where
  "discover_configured_nodes C L =
     bindA (map_act (\<lambda>address. add_node L None (Some address) None None True) (cl_conf_nodes C)) (\<lambda>_. ret ())"

definition discover_controller_nodes where
  "discover_controller_nodes C L =
     bindA (on_hosts (cl_endpoint_hosts C)) (\<lambda>hosts.
     bindA (map_act (\<lambda>address.
        try_except (bindA (add_node L None address (Some ''controller'') None True) (\<lambda>_. ret ()))
          is_unreachable (\<lambda>e. ret ())) (cl_set_order C hosts)) (\<lambda>_. ret ()))"

definition discover_compute_nodes where
  "discover_compute_nodes C L =
     bindA (on_hosts (cl_hypervisors C)) (\<lambda>hs.
     bindA (map_act (\<lambda>(hostname, host_ip). add_node L (Some hostname) (Some host_ip) (Some ''compute'') None True) hs)
       (\<lambda>_. ret ()))"

definition discover_nodes :: "('w, 'c) cloud_lib \<Rightarrow> ('w, 'a, 'c) node_lib \<Rightarrow> ('w, 'a, 'c, unit) topology_act" where
  "discover_nodes C L =
     bindA (discover_ssh_proxy_jump_node C L) (\<lambda>_.
     bindA (discover_configured_nodes C L) (\<lambda>_.
     bindA (on_hosts (cl_has_keystone_credentials C)) (\<lambda>credentials.
       if credentials then bindA (discover_controller_nodes C L) (\<lambda>_. discover_compute_nodes C L) else ret ())))"

text \<open>
  The clean-up empties the tables. The manager of connections it cleans up is the one of the
  fixtures, not the one of the module that \<open>ssh_connect\<close> uses, so the connections stay.
\<close>

definition cleanup_topology :: "('w, 'a, 'c) topology \<Rightarrow> ('w, 'a, 'c) topology" where
  "cleanup_topology s = s\<lparr>tp_names := [], tp_groups := [], tp_addresses := []\<rparr>"

end
