(* ===== verification/Topology_Invariant.thy ===== *)
theory Topology_Invariant
  imports Topology_Nodes
begin

text \<open>
  What holds of the tables of a topology: the names, addresses and groups agree with the
  nodes, adding a node keeps it whatever the hosts answer, and a node that was added is found.
\<close>

section \<open>Actions on the world leave the tables alone\<close>

definition quiet :: "('s \<Rightarrow> 'v) \<Rightarrow> ('s, 'r) act \<Rightarrow> bool" where
  "quiet view m = (\<forall>s. view (snd (m s)) = view s)"

named_theorems quiet_intros \<open>actions that leave a part of the state alone\<close>

lemma quietI: "(\<And>s. view (snd (m s)) = view s) \<Longrightarrow> quiet view m"
  by (simp add: quiet_def)

lemma quiet_at: "quiet view m \<Longrightarrow> view (snd (m s)) = view s"
  by (simp add: quiet_def)

lemma quietD: "quiet view m \<Longrightarrow> m s = (r, t) \<Longrightarrow> view t = view s"
  by (metis quiet_def snd_conv)

lemma quiet_ret [quiet_intros]: "quiet view (ret x)"
  by (simp add: quiet_def ret_def)

lemma quiet_raise [quiet_intros]: "quiet view (raise_act e)"
  by (simp add: quiet_def raise_act_def)

lemma quiet_lift [quiet_intros]: "quiet view (lift_res r)"
  by (simp add: quiet_def lift_res_def)

lemma quiet_bind [quiet_intros]:
  assumes "quiet view m" and "\<And>x. quiet view (f x)"
  shows "quiet view (bindA m f)"
proof (rule quietI)
  fix s
  from quiet_at[OF assms(1), of s] show "view (snd (bindA m f s)) = view s"
    by (cases "m s"; cases "fst (m s)") (simp_all add: bindA_def quiet_at[OF assms(2)])
qed

lemma quiet_try [quiet_intros]:
  assumes "quiet view m" and "\<And>e. quiet view (h e)"
  shows "quiet view (try_except m p h)"
proof (rule quietI)
  fix s
  from quiet_at[OF assms(1), of s] show "view (snd (try_except m p h s)) = view s"
    by (cases "m s"; cases "fst (m s)") (simp_all add: try_except_def quiet_at[OF assms(2)])
qed

lemma quiet_map [quiet_intros]:
  assumes "\<And>x. quiet view (f x)"
  shows "quiet view (map_act f xs)"
proof (rule quietI)
  fix s
  show "view (snd (map_act f xs s)) = view s"
  proof (induction xs arbitrary: s)
    case (Cons x xs)
    from quiet_at[OF assms, of x s] Cons.IH[of "snd (f x s)"] show ?case
      by (cases "f x s"; cases "fst (f x s)"; cases "map_act f xs (snd (f x s))"; cases "fst (map_act f xs (snd (f x s)))")
        simp_all
  qed simp
qed

text \<open>A part of the state that neither the world nor the connections belong to.\<close>

locale topology_frame =
  fixes view :: "('w, 'a, 'c) topology \<Rightarrow> 'v"
  assumes view_world: "view (s\<lparr>tp_world := (w, snd (tp_world s))\<rparr>) = view s"
    and view_connections: "view (s\<lparr>tp_connections := cs\<rparr>) = view s"
begin

lemma quiet_world [quiet_intros]: "quiet view (on_hosts m)"
  by (simp add: quiet_def on_hosts_def view_world split: prod.split)

lemma quiet_connections [quiet_intros]: "quiet view (on_connections m)"
proof (rule quietI)
  fix s :: "('w, 'a, 'c) topology"
  obtain r w cs where m: "m (fst (tp_world s), tp_connections s) = (r, (w, cs))" by (metis prod_cases3)
  let ?t = "s\<lparr>tp_world := (w, snd (tp_world s))\<rparr>"
  have "view (?t\<lparr>tp_connections := cs\<rparr>) = view s" by (simp only: view_connections view_world)
  with m show "view (snd (on_connections m s)) = view s" by (simp add: on_connections_def)
qed

lemma quiet_from_host [quiet_intros]: "quiet view (list_addresses_from_host L client)"
  unfolding list_addresses_from_host_def by (cases client) (auto intro!: quiet_intros)

lemma quiet_get_name [quiet_intros]: "quiet view (get_node L name hostname None)"
  by (rule quietI) (simp add: get_node_def Let_def)

lemma quiet_nodes [quiet_intros]: "quiet view (nodes L)"
  using quiet_map[of view "\<lambda>name. get_node L (Some name) None None", OF quiet_get_name]
  by (simp add: nodes_def quiet_def)

lemma quiet_ssh_connect [quiet_intros]: "quiet view (ssh_connect L addresses proxy)"
  unfolding ssh_connect_def by (intro quiet_intros)

lemma quiet_proxy_client [quiet_intros]: "quiet view (ssh_connect_with_proxy_client L addresses proxy)"
  unfolding ssh_connect_with_proxy_client_def by (intro quiet_intros)

lemma quiet_through [quiet_intros]: "quiet view (connect_through L addresses e ns)"
proof (induction ns)
  case (Cons n ns)
  show ?case
  proof (rule quietI)
    fix s :: "('w, 'a, 'c) topology"
    show "view (snd (connect_through L addresses e (n # ns) s)) = view s"
      using quiet_at[OF quiet_try[OF quiet_proxy_client Cons]] quiet_at[OF Cons]
      by (cases "Option.bind (node_of s n) nd_client") simp_all
  qed
qed (simp add: quiet_def)

lemma quiet_topology_connect [quiet_intros]: "quiet view (topology_ssh_connect L addresses hostname)"
  unfolding topology_ssh_connect_def Let_def by (cases hostname) (auto intro!: quiet_intros)

lemma quiet_node_client [quiet_intros]: "quiet view (node_client L addresses hostname client create)"
  unfolding node_client_def by (auto intro!: quiet_intros)

lemma quiet_node_hostname [quiet_intros]: "quiet view (node_hostname L hostname client)"
  unfolding node_hostname_def by (cases hostname) (auto intro!: quiet_intros)

lemma quiet_client_hostname [quiet_intros]: "quiet view (client_hostname L hostname client)"
  unfolding client_hostname_def by (cases client) (auto intro!: quiet_intros)

lemma quiet_selection [quiet_intros]: "quiet view (topology_list_addresses L (HostSelection as))"
proof -
  have "quiet view (on_cache (list_addresses (nl_address L) v PNone True (HostSelection as)))" for v
    by (simp add: quiet_def on_cache_def ret_def)
  then show ?thesis unfolding topology_list_addresses_def by (intro quiet_intros)
qed

lemma quiet_get_listed:
  assumes "quiet view (topology_list_addresses L obj)"
  shows "quiet view (get_node L name hostname (Some obj))"
proof -
  have "quiet view (\<lambda>t. case f t of Some n \<Rightarrow> (Inr n, t) | None \<Rightarrow> (Inl e, t))"
    for f :: "('w, 'a, 'c) topology \<Rightarrow> string option" and e
    by (simp add: quiet_def split: option.split)
  from quiet_at[OF quiet_bind[OF assms this]] show ?thesis
    by (intro quietI) (simp add: get_node_def Let_def)
qed

lemmas quiet_get_selection [quiet_intros] = quiet_get_listed[OF quiet_selection]

end

definition tables where
  "tables s = (tp_names s, tp_groups s, tp_addresses s)"

interpretation tables: topology_frame tables
  by unfold_locales (simp_all add: tables_def)

interpretation cached: topology_frame "\<lambda>s. snd (tp_world s)"
  by unfold_locales simp_all

lemma quiet_cache: "quiet tables (on_cache m)"
  by (simp add: quiet_def on_cache_def tables_def split: prod.split)

lemma quiet_list_addresses: "quiet tables (topology_list_addresses L obj)"
  unfolding topology_list_addresses_def by (intro quiet_bind quiet_lift quiet_cache)

lemma quiet_get_node: "quiet tables (get_node L name hostname address)"
  by (cases address) (simp_all add: tables.quiet_get_name tables.quiet_get_listed[OF quiet_list_addresses])

lemma quiet_given_addresses: "quiet tables (given_addresses L address)"
  unfolding given_addresses_def by (cases address) (auto intro!: quiet_intros quiet_list_addresses)

section \<open>The invariant\<close>

text \<open>
  Every node has the name of its host as key, its addresses are all known, and it lists the
  groups that list it; addresses and groups name known nodes only, each node once.
\<close>

definition node_fits :: "('w, 'a, 'c) topology \<Rightarrow> string \<Rightarrow> ('a, 'c) node \<Rightarrow> bool" where
  "node_fits s k n \<longleftrightarrow>
     nd_name n = k \<and> node_name_from_hostname (nd_hostname n) = k \<and>
     (\<forall>a \<in> set (nd_addresses n). map_of (tp_addresses s) a \<noteq> None) \<and>
     (\<forall>g. g \<in> nd_groups n \<longleftrightarrow> k \<in> set (group_members s g))"

definition consistent :: "('w, 'a, 'c) topology \<Rightarrow> bool" where
  "consistent s \<longleftrightarrow>
     distinct (map fst (tp_names s)) \<and>
     (\<forall>k n. node_of s k = Some n \<longrightarrow> node_fits s k n) \<and>
     (\<forall>a k. map_of (tp_addresses s) a = Some k \<longrightarrow> node_of s k \<noteq> None) \<and>
     (\<forall>g. distinct (group_members s g) \<and> (\<forall>k \<in> set (group_members s g). node_of s k \<noteq> None))"

lemma consistent_tables: "tables t = tables s \<Longrightarrow> consistent t = consistent s"
  by (simp add: consistent_def node_fits_def tables_def node_of_def group_members_def)

lemma consistent_empty: "consistent (cleanup_topology s)"
  by (simp add: consistent_def cleanup_topology_def node_of_def group_members_def)

lemma map_of_default_addresses:
  "map_of (fold (set_default_address name) as table) a =
     (case map_of table a of Some k \<Rightarrow> Some k | None \<Rightarrow> if a \<in> set as then Some name else None)"
proof (induction as arbitrary: table)
  case (Cons b as)
  show ?case unfolding fold_simps o_apply Cons.IH
    by (cases "map_of table a"; cases "a = b") (simp_all add: set_default_address_def)
qed (simp split: option.split)

lemma node_of_store:
  "node_of (store_node h c as s) k =
     (if node_of s k = None \<and> k = node_name_from_hostname h
      then Some (create_node k c as h) else node_of s k)"
  by (auto simp: store_node_def Let_def node_of_def)

lemma group_members_store [simp]: "group_members (store_node h c as s) g = group_members s g"
  by (simp add: store_node_def Let_def group_members_def)

lemma addresses_store:
  "map_of (tp_addresses (store_node h c as s)) a =
     (case map_of (tp_addresses s) a of
        Some k \<Rightarrow> Some k | None \<Rightarrow> if a \<in> set as then Some (node_name_from_hostname h) else None)"
  by (simp add: store_node_def Let_def map_of_default_addresses)

lemma distinct_store:
  "distinct (map fst (tp_names s)) \<Longrightarrow> distinct (map fst (tp_names (store_node h c as s)))"
  by (simp add: store_node_def Let_def distinct_dict_set)

lemma node_fits_store:
  assumes c: "consistent s" and n: "node_of (store_node h c as s) k = Some n"
  shows "node_fits (store_node h c as s) k n"
proof (cases "node_of s k")
  case (Some m)
  with n have "m = n" by (simp add: node_of_store)
  with Some c have "node_fits s k n" by (auto simp: consistent_def)
  then show ?thesis by (fastforce simp: node_fits_def addresses_store split: option.splits)
next
  case None
  with n have "k = node_name_from_hostname h" "n = create_node k c as h" by (auto simp: node_of_store split: if_splits)
  moreover have "k \<notin> set (group_members s g)" for g using c None by (metis consistent_def)
  ultimately show ?thesis by (auto simp: node_fits_def create_node_def addresses_store split: option.splits)
qed

lemma store_node_consistent:
  assumes "consistent s"
  shows "consistent (store_node h c as s)"
proof -
  have "node_of (store_node h c as s) k \<noteq> None" if "map_of (tp_addresses (store_node h c as s)) a = Some k" for a k
  proof (cases "map_of (tp_addresses s) a = Some k")
    case True
    with assms show ?thesis by (auto simp: consistent_def node_of_store)
  next
    case False
    with that have "k = node_name_from_hostname h" by (auto simp: addresses_store split: option.splits if_splits)
    then show ?thesis by (simp add: node_of_store)
  qed
  moreover have "node_of (store_node h c as s) k \<noteq> None" if "node_of s k \<noteq> None" for k
    using that by (simp add: node_of_store)
  ultimately show ?thesis using assms node_fits_store[OF assms]
    by (simp add: consistent_def distinct_store)
qed

lemma node_of_join:
  "node_of (join_group gr name s) k =
     (case gr of None \<Rightarrow> node_of s k
      | Some g \<Rightarrow> if g = [] \<or> name \<in> set (group_members s g) \<or> k \<noteq> name then node_of s k
                  else map_option (\<lambda>n. n\<lparr>nd_groups := insert g (nd_groups n)\<rparr>) (node_of s k))"
  by (cases "node_of s name")
     (auto simp: join_group_def node_add_group_def add_group_def group_members_def node_of_def split: option.splits)

lemma group_members_join:
  "group_members (join_group gr name s) g =
     (if gr = Some g \<and> g \<noteq> [] \<and> name \<notin> set (group_members s g) then group_members s g @ [name]
      else group_members s g)"
  by (cases "node_of s name")
     (auto simp: join_group_def node_add_group_def add_group_def group_members_def node_of_def split: option.splits)

lemma addresses_join [simp]: "tp_addresses (join_group gr name s) = tp_addresses s"
  by (auto simp: join_group_def Let_def node_add_group_def add_group_def split: option.splits)

lemma distinct_join:
  "distinct (map fst (tp_names s)) \<Longrightarrow> distinct (map fst (tp_names (join_group gr name s)))"
  by (auto simp: join_group_def Let_def node_add_group_def add_group_def distinct_dict_set split: option.splits)

lemma node_fits_join:
  assumes "node_fits s k n" and "node_of s k = Some n" and "node_of (join_group gr name s) k = Some m"
  shows "node_fits (join_group gr name s) k m"
  using assms unfolding node_fits_def group_members_join node_of_join
  by (auto split: option.splits if_splits)

lemma join_group_consistent:
  assumes c: "consistent s" and "node_of s name \<noteq> None"
  shows "consistent (join_group gr name s)"
proof -
  have known: "node_of (join_group gr name s) k \<noteq> None \<longleftrightarrow> node_of s k \<noteq> None" for k
    by (simp add: node_of_join split: option.split)
  have "node_fits (join_group gr name s) k m" if m: "node_of (join_group gr name s) k = Some m" for k m
  proof -
    from m known obtain n where n: "node_of s k = Some n" by fastforce
    with c have "node_fits s k n" by (simp add: consistent_def)
    from node_fits_join[OF this n m] show ?thesis .
  qed
  moreover have "distinct (group_members (join_group gr name s) g) \<and>
      (\<forall>k \<in> set (group_members (join_group gr name s) g). node_of s k \<noteq> None)" for g
    using assms by (auto simp: group_members_join consistent_def)
  ultimately show ?thesis using c unfolding consistent_def known addresses_join
    by (simp add: distinct_join)
qed

section \<open>Adding nodes\<close>

text \<open>What \<open>get_node\<close> returns is the name of a node.\<close>

lemma first_known_node:
  "consistent s \<Longrightarrow> first_known (tp_addresses s) as = Some n \<Longrightarrow> node_of s n \<noteq> None"
  by (induction "tp_addresses s" as rule: first_known.induct) (auto simp: consistent_def split: option.splits)

lemma get_node_known:
  assumes "get_node L name hostname address s = (Inr n, t)" and "consistent s"
  shows "node_of t n \<noteq> None"
proof -
  have t: "consistent t" using consistent_tables[OF quietD[OF quiet_get_node assms(1)]] assms(2) by simp
  show ?thesis using assms t first_known_node
    by (auto simp: get_node_def Let_def bindA_eq_Inr split: if_splits option.splits)
qed

lemma quiet_keeps:
  fixes m :: "('w, 'a, 'c, 'r) topology_act"
  assumes "quiet tables m"
  shows "triple consistent m (\<lambda>_. consistent) consistent"
proof (rule tripleI)
  fix s :: "('w, 'a, 'c) topology" assume "consistent s"
  with consistent_tables[OF quiet_at[OF assms]] have "consistent (snd (m s))" by simp
  then show "case m s of (Inr x, t) \<Rightarrow> consistent t | (Inl e, t) \<Rightarrow> consistent t"
    by (cases "m s"; cases "fst (m s)") simp_all
qed

definition known_node :: "string \<Rightarrow> ('w, 'a, 'c) topology \<Rightarrow> bool" where
  "known_node n s = (consistent s \<and> node_of s n \<noteq> None)"

lemma get_node_triple:
  fixes L :: "('w, 'a, 'c) node_lib"
  shows "triple consistent (get_node L name hostname address) known_node consistent"
proof (rule tripleI)
  fix s :: "('w, 'a, 'c) topology" assume s: "consistent s"
  let ?m = "get_node L name hostname address s"
  have "consistent (snd ?m)" by (rule triple_kept[OF quiet_keeps[OF quiet_get_node] s])
  then show "case ?m of (Inr n, t) \<Rightarrow> known_node n t | (Inl e, t) \<Rightarrow> consistent t"
    using get_node_known[OF _ s, of L name hostname address]
    by (cases ?m; cases "fst ?m") (auto simp: known_node_def)
qed

lemma add_new_node_triple: "triple consistent (add_new_node L as hostname client create) known_node consistent"
  unfolding add_new_node_def
  by (rule triple_bind[OF quiet_keeps[OF tables.quiet_node_client]], rule triple_bind[OF quiet_keeps[OF tables.quiet_from_host]],
      rule triple_bind[OF quiet_keeps[OF tables.quiet_node_hostname]])
     (simp add: triple_def known_node_def store_node_consistent node_of_store)

lemma known_node_join: "known_node n s \<Longrightarrow> known_node n (join_group gr n s)"
  by (auto simp: known_node_def join_group_consistent node_of_join split: option.split)

lemma add_node_triple: "triple consistent (add_node L hostname address gr client create) known_node consistent"
  unfolding add_node_def case_prod_unfold
  by (rule triple_bind[OF quiet_keeps[OF tables.quiet_client_hostname]], rule triple_bind[OF quiet_keeps[OF quiet_given_addresses]],
      rule triple_bind[OF triple_try[OF get_node_triple add_new_node_triple]])
     (simp add: triple_def known_node_join)

lemma add_node_keeps: "triple consistent (add_node L hostname address gr client create) (\<lambda>_. consistent) consistent"
  by (rule triple_post[OF add_node_triple]) (simp add: known_node_def)

lemma triple_keeps_bind:
  "triple I m (\<lambda>_. I) I \<Longrightarrow> (\<And>x. triple I (f x) (\<lambda>_. I) I) \<Longrightarrow> triple I (bindA m f) (\<lambda>_. I) I"
  by (rule triple_bind)

lemma triple_keeps_ret: "triple I (ret x) (\<lambda>_. I) I"
  by (simp add: triple_ret)

lemmas keeps_node = triple_keeps_bind triple_try triple_map add_node_keeps triple_keeps_ret quiet_keeps[OF tables.quiet_world]

lemma discover_keeps: "triple consistent (discover_nodes C L) (\<lambda>_. consistent) consistent"
proof -
  have "triple consistent (discover_ssh_proxy_jump_node C L) (\<lambda>_. consistent) consistent"
    unfolding discover_ssh_proxy_jump_node_def by (rule triple_keeps_bind) (auto intro: keeps_node split: option.split)
  moreover have "triple consistent (discover_configured_nodes C L) (\<lambda>_. consistent) consistent"
    unfolding discover_configured_nodes_def by (intro keeps_node)
  moreover have "triple consistent (discover_controller_nodes C L) (\<lambda>_. consistent) consistent"
    unfolding discover_controller_nodes_def by (intro keeps_node)
  moreover have "triple consistent (discover_compute_nodes C L) (\<lambda>_. consistent) consistent"
    unfolding discover_compute_nodes_def case_prod_unfold by (intro keeps_node)
  ultimately show ?thesis
    unfolding discover_nodes_def by (auto intro!: keeps_node)
qed

section \<open>Adding a node again\<close>

lemma world_join [simp]: "tp_world (join_group gr name s) = tp_world s"
  by (auto simp: join_group_def Let_def node_add_group_def add_group_def split: option.splits)

lemma world_store [simp]: "tp_world (store_node h c as s) = tp_world s"
  by (simp add: store_node_def Let_def)

lemma join_group_again [simp]: "join_group gr n (join_group gr n s) = join_group gr n s"
proof (cases gr)
  case (Some g)
  have "g \<noteq> [] \<Longrightarrow> n \<in> set (group_members (join_group gr n s) g)" by (simp add: group_members_join Some)
  moreover have "add_group g t = t" if "n \<in> set (group_members t g)" for t :: "('a, 'b, 'c) topology"
    using that by (cases "map_of (tp_groups t) g") (simp_all add: add_group_def group_members_def)
  ultimately show ?thesis by (simp add: Some join_group_def Let_def)
qed (simp add: join_group_def)

lemma listed_is_cached: "list_host_addresses A h v port ssh s = (Inr as, u) \<Longrightarrow> snd u (h, v, port, ssh) = Some as"
  by (auto simp: list_host_addresses_def get_or_create_def find_addresses_def put_addresses_def
      split: option.splits prod.splits sum.splits)

lemma cached_is_listed: "snd u (h, v, port, ssh) = Some as \<Longrightarrow> list_host_addresses A h v port ssh u = (Inr as, u)"
  by (simp add: list_host_addresses_def get_or_create_def find_addresses_def)

text \<open>What the hosts answer may change, but not how addresses are read and selected.\<close>

definition same_reading :: "('w, 'a, 'c) node_lib \<Rightarrow> ('w, 'a, 'c) node_lib \<Rightarrow> bool" where
  "same_reading L L' \<longleftrightarrow> nl_conf_ip_version L' = nl_conf_ip_version L \<and> al_version (nl_address L') = al_version (nl_address L)"

lemma same_ip_version: "same_reading L L' \<Longrightarrow> topology_ip_version L' = topology_ip_version L"
  by (simp add: same_reading_def topology_ip_version_def)

lemma same_selection: "same_reading L L' \<Longrightarrow> with_version (nl_address L') v as = with_version (nl_address L) v as"
  by (simp add: same_reading_def with_version_def split: option.split)

lemma on_cache_eq_Inr: "on_cache m s = (Inr x, t) \<longleftrightarrow> (\<exists>w. m (tp_world s) = (Inr x, w) \<and> t = s\<lparr>tp_world := w\<rparr>)"
  by (auto simp: on_cache_def split: prod.splits)

lemma given_addresses_again:
  assumes "given_addresses L address s = (Inr as, u)" and "snd (tp_world t) = snd (tp_world u)" and "same_reading L L'"
  shows "given_addresses L' address t = (Inr as, t)"
proof (cases "address = None \<or> address = Some []")
  case True
  with assms show ?thesis by (auto simp: given_addresses_def ret_def)
next
  case False
  then obtain a where a: "address = Some a" "a \<noteq> []" by auto
  with assms(1) obtain v bs cs x where v: "topology_ip_version L = Inr v"
      and l: "list_host_addresses (nl_address L) a v PNone True (tp_world s) = (Inr bs, x)"
      and u: "as = remove_duplications (with_version (nl_address L) v bs)" "u = s\<lparr>tp_world := x\<rparr>"
    by (auto simp: given_addresses_def topology_list_addresses_def bindA_eq_Inr ret_def lift_res_def on_cache_eq_Inr)
  from listed_is_cached[OF l] u assms(2) have "snd (tp_world t) (a, v, PNone, True) = Some bs" by simp
  from cached_is_listed[OF this, of "nl_address L'"] v u a show ?thesis
    by (simp add: given_addresses_def topology_list_addresses_def bindA_def lift_res_def on_cache_def ret_def
        same_ip_version[OF assms(3)] same_selection[OF assms(3)])
qed

lemma get_node_selection:
  "get_node L (Some nm) None (Some (HostSelection as)) s =
     (if node_of s nm \<noteq> None then (Inr nm, s)
      else case topology_ip_version L of
        Inl e \<Rightarrow> (Inl e, s)
      | Inr v \<Rightarrow>
          (case first_known (tp_addresses s) (with_version (nl_address L) v as) of
             Some n \<Rightarrow> (Inr n, s)
           | None \<Rightarrow> (Inl (no_such_node L (Some nm) (Some (HostSelection as))), s)))"
  by (simp add: get_node_def topology_list_addresses_def bindA_def lift_res_def on_cache_def ret_def split: sum.split option.split)

lemma quiet_add_new_node: "quiet (\<lambda>s. snd (tp_world s)) (add_new_node L as hostname client create)"
proof -
  have "quiet (\<lambda>s. snd (tp_world s)) (\<lambda>s. (Inr (f h), store_node h c bs s))" for f :: "string \<Rightarrow> string" and h c bs
    by (simp add: quiet_def)
  then show ?thesis unfolding add_new_node_def by (intro quiet_intros)
qed

text \<open>
  Property (C31). Adding a node again by its host name and address returns the node that was
  returned before, changes nothing and asks no host, whatever the resolver, the SSH servers and
  the hosts would answer now.
\<close>
theorem add_node_again:
  assumes added: "add_node L (Some h) address gr None create s = (Inr n, t)"
    and h: "node_name_from_hostname h \<noteq> []" and L: "same_reading L L'"
  shows "add_node L' (Some h) address gr None create t = (Inr n, t)"
proof -
  let ?nm = "node_name_from_hostname h"
  have h': "h \<noteq> []" using h by (auto simp: node_name_from_hostname_def str_lower_def)
  then have name: "given_name (Some h) = Some ?nm" using h by (simp add: given_name_def)
  let ?find = "\<lambda>L as. try_except (get_node L (Some ?nm) None (Some (HostSelection as))) is_no_such_node
    (\<lambda>e. add_new_node L as (Some h) None create)"
  from added obtain as u v where as: "given_addresses L address s = (Inr as, u)"
      and find: "?find L as u = (Inr n, v)" and t: "t = join_group gr n v"
    by (auto simp: add_node_def client_hostname_def bindA_eq_Inr name)
  have "snd (tp_world v) = snd (tp_world u)"
    using quietD[OF quiet_try[OF cached.quiet_get_selection quiet_add_new_node] find] .
  with given_addresses_again[OF as _ L] t have as': "given_addresses L' address t = (Inr as, t)" by simp
  have "?find L' as t = (Inr n, t)"
  proof (cases "node_of v ?nm = None")
    case False
    with find h' have "n = ?nm"
      by (auto simp: try_except_def get_node_selection add_new_node_def bindA_eq_Inr node_hostname_def ret_def
          split: if_splits option.splits sum.splits prod.splits)
    moreover from False t have "node_of t ?nm \<noteq> None" by (cases gr) (auto simp: node_of_join)
    ultimately show ?thesis by (simp add: try_except_def get_node_selection)
  next
    case True
    have new: "node_of w ?nm \<noteq> None" if "add_new_node L as (Some h) None create u = (Inr m, w)" for m w
      using that h' by (auto simp: add_new_node_def bindA_eq_Inr node_hostname_def ret_def node_of_store)
    obtain x where x: "topology_ip_version L = Inr x" "first_known (tp_addresses u) (with_version (nl_address L) x as) = Some n"
        "v = u" "node_of u ?nm = None"
      using find True new
      by (auto simp: try_except_def get_node_selection split: if_splits option.splits sum.splits prod.splits)
    moreover have "node_of t ?nm = None" using True t by (cases gr) (auto simp: node_of_join)
    ultimately show ?thesis using t
      by (simp add: try_except_def get_node_selection same_ip_version[OF L] same_selection[OF L])
  qed
  with as' t show ?thesis by (simp add: add_node_def client_hostname_def name bindA_def)
qed

end
