(* ===== verification/Topology_Lookup.thy ===== *)
theory Topology_Lookup
  imports Topology_Invariant Tobiko_Select Shell_Logs
begin

text \<open>
  tobiko/openstack/topology/_topology.py: what is looked up in a topology: groups and their
  nodes, nodes by address, host name or attributes, the names of services, containers and
  configuration files, and the log files of the nodes. The run of a topology as a state
  machine: it starts empty and is changed by discovery, by adding nodes and by clean-up.
\<close>

section \<open>Groups\<close>

datatype group_matcher = MatchString string | MatchPattern "string \<Rightarrow> bool"

definition match_strings :: "string list \<Rightarrow> group_matcher list \<Rightarrow> string list" where
  "match_strings strings matchers =
     concat (map (\<lambda>m. case m of
         MatchString t \<Rightarrow> (if t \<in> set strings then [t] else [])
       | MatchPattern matches \<Rightarrow> filter matches strings) matchers)"

definition groups :: "('w, 'a, 'c) topology \<Rightarrow> string list" where
  "groups s = map fst (tp_groups s)"

definition list_group_names :: "group_matcher list \<Rightarrow> ('w, 'a, 'c) topology \<Rightarrow> string list" where
  "list_group_names matchers s =
     (if matchers \<noteq> [] \<and> groups s \<noteq> [] then match_strings (groups s) matchers else groups s)"

definition no_such_group :: "string \<Rightarrow> exn" where
  "no_such_group grp = Exn NoSuchOpenStackTopologyNodeGroup (''No such topology node group: '' @ str_repr grp)"

definition get_group :: "string \<Rightarrow> ('w, 'a, 'c) topology \<Rightarrow> string list res" where
  "get_group grp s = (case map_of (tp_groups s) grp of Some ns \<Rightarrow> Inr ns | None \<Rightarrow> Inl (no_such_group grp))"

definition node_names :: "group_matcher list \<Rightarrow> ('w, 'a, 'c) topology \<Rightarrow> string set res" where
  "node_names matchers s = map_sum id (\<lambda>nss. set (concat nss)) (map_res (\<lambda>g. get_group g s) (list_group_names matchers s))"

definition get_groups :: "('w, 'a, 'c) node_lib \<Rightarrow> group_matcher list \<Rightarrow> ('w, 'a, 'c, string list) topology_act" where
  "get_groups L matchers s =
     bindA (lift_res (node_names matchers s)) (\<lambda>names.
     bindA (nodes L) (\<lambda>ns. ret (filter (\<lambda>n. n \<in> names) ns))) s"

section \<open>Selecting nodes\<close>

definition split_addresses_and_names :: "('w, 'a) address_lib \<Rightarrow> ('a + string) list \<Rightarrow> 'a set \<times> string set" where
  "split_addresses_and_names A hosts =
     fold (\<lambda>host (addresses, hostnames).
       case (case host of Inl a \<Rightarrow> Some a | Inr t \<Rightarrow> al_parse A t) of
         Some a \<Rightarrow> (insert a addresses, hostnames)
       | None \<Rightarrow> (addresses, (case host of Inl a \<Rightarrow> hostnames | Inr t \<Rightarrow> insert t hostnames))) hosts ({}, {})"

definition addresses_of :: "('w, 'a, 'c) topology \<Rightarrow> string \<Rightarrow> 'a list" where
  "addresses_of s n = (case node_of s n of None \<Rightarrow> [] | Some node \<Rightarrow> nd_addresses node)"

definition select_openstack_nodes ::
  "(('w, 'a, 'c) topology \<Rightarrow> string \<Rightarrow> string \<Rightarrow> 'v res) \<Rightarrow> ('w, 'a, 'c) topology \<Rightarrow> string list \<Rightarrow>
   'a list option \<Rightarrow> string list option \<Rightarrow> (string \<times> 'v matcher) list \<Rightarrow> string list res" where
  "select_openstack_nodes getattr s ns addresses hostnames attributes =
     (if addresses = Some [] \<or> hostnames = Some [] then Inr []
      else
        let ns = (case addresses of None \<Rightarrow> ns | Some as \<Rightarrow> filter (\<lambda>n. set (addresses_of s n) \<inter> set as \<noteq> {}) ns);
            ns = (case hostnames of None \<Rightarrow> ns | Some hs \<Rightarrow> filter (\<lambda>n. n \<in> node_name_from_hostname ` set hs) ns)
        in if attributes \<noteq> [] then with_attributes (getattr s) attributes ns else Inr ns)"

datatype group_arg = AnyGroup | GroupName string | GroupPattern "string \<Rightarrow> bool" | GroupMatchers "group_matcher list"

definition grouped_nodes :: "('w, 'a, 'c) node_lib \<Rightarrow> group_arg \<Rightarrow> ('w, 'a, 'c, string list) topology_act" where
  "grouped_nodes L grp =
     (case grp of
        AnyGroup \<Rightarrow> nodes L
      | GroupName g \<Rightarrow> (\<lambda>s. (get_group g s, s))
      | GroupPattern p \<Rightarrow> get_groups L [MatchPattern p]
      | GroupMatchers ms \<Rightarrow> get_groups L ms)"

definition list_openstack_nodes where
  "list_openstack_nodes L getattr grp addresses hostnames attributes =
     bindA (grouped_nodes L grp) (\<lambda>ns s. (select_openstack_nodes getattr s ns addresses hostnames attributes, s))"

definition find_openstack_node where
  "find_openstack_node L getattr show_nodes grp addresses hostnames unique attributes =
     bindA (list_openstack_nodes L getattr grp addresses hostnames attributes) (\<lambda>ns.
       lift_res (if unique then select_unique show_nodes ns else select_first ns))"

section \<open>Services, containers and configuration files\<close>

definition UnknowOpenStackServiceNameError :: pyclass where
  "UnknowOpenStackServiceNameError = ''UnknowOpenStackServiceNameError'' # TobikoException"

definition UnknowOpenStackContainerNameError :: pyclass where
  "UnknowOpenStackContainerNameError = ''UnknowOpenStackContainerNameError'' # TobikoException"

definition UnknownOpenStackConfigurationFile :: pyclass where
  "UnknownOpenStackConfigurationFile = ''UnknownOpenStackConfigurationFile'' # TobikoException"

declare UnknowOpenStackServiceNameError_def [exn_classes] UnknowOpenStackContainerNameError_def [exn_classes]
  UnknownOpenStackConfigurationFile_def [exn_classes]

text \<open>The tables of a topology class; subclasses replace them.\<close>

record topology_class =
  tc_name :: string  \<comment> \<open>the text of the class in a message\<close>
  tc_services :: "(string \<times> string) list"
  tc_containers :: "(string \<times> string) list"
  tc_config_files :: "(string \<times> string) list"
  tc_log_names :: "(string \<times> string) list"

definition devstack_services :: "(string \<times> string) list" where
  "devstack_services =
     [(''neutron-dhcp-agent'', ''devstack@q-dhcp''), (''neutron-l3-agent'', ''devstack@q-l3''),
      (''neutron-openvswitch-agent'', ''devstack@q-agt''), (''neutron-metadata-agent'', ''devstack@q-meta''),
      (''networking-ovn-metadata-agent'', ''devstack@q-ovn-metadata-agent''),
      (''neutron-ovn-metadata-agent'', ''devstack@q-ovn-metadata-agent''),
      (''neutron-ovn-agent'', ''devstack@q-ovn-agent''), (''ovn-controller'', ''ovn-controller''),
      (''ovn-bgp-agent'', ''ovn-bgp-agent''), (''frr'', ''frr''), (''neutron'', ''neutron'')]"

definition devstack_config_files :: "(string \<times> string) list" where
  "devstack_config_files =
     [(''ml2_conf.ini'', ''/etc/neutron/plugins/ml2/ml2_conf.ini''), (''bgp-agent.conf'', ''/etc/ovn-bgp-agent/bgp-agent.conf''),
      (''octavia.conf'', ''/etc/octavia/octavia.conf'')]"

definition OpenStackTopology :: "string \<Rightarrow> topology_class" where
  "OpenStackTopology devstack_neutron_service =
     \<lparr>tc_name = ''OpenStackTopology'', tc_services = devstack_services, tc_containers = [],
      tc_config_files = devstack_config_files,
      tc_log_names = [(''neutron-server'', ''devstack@'' @ devstack_neutron_service)]\<rparr>"

definition lookup_name :: "(string \<times> string) list \<Rightarrow> exn \<Rightarrow> string \<Rightarrow> string res" where
  "lookup_name table error key = (case map_of table key of Some v \<Rightarrow> Inr v | None \<Rightarrow> Inl error)"

definition unknown_name :: "pyclass \<Rightarrow> string \<Rightarrow> topology_class \<Rightarrow> string \<Rightarrow> exn" where
  "unknown_name c what T agent_name =
     Exn c (''Unknown '' @ what @ '' name for agent name '' @ str_repr agent_name @ '' and topology class '' @ str_repr (tc_name T))"

definition get_agent_service_name :: "topology_class \<Rightarrow> string \<Rightarrow> string res" where
  "get_agent_service_name T agent_name =
     lookup_name (tc_services T) (unknown_name UnknowOpenStackServiceNameError ''service'' T agent_name) agent_name"

definition get_agent_container_name :: "topology_class \<Rightarrow> string \<Rightarrow> string res" where
  "get_agent_container_name T agent_name =
     lookup_name (tc_containers T) (unknown_name UnknowOpenStackContainerNameError ''container'' T agent_name) agent_name"

definition get_config_file_path :: "topology_class \<Rightarrow> string \<Rightarrow> string res" where
  "get_config_file_path T file_name =
     lookup_name (tc_config_files T)
       (Exn UnknownOpenStackConfigurationFile (''Unknown configuration file '' @ str_repr file_name)) file_name"

text \<open>\<open>check_systemd_monitors_agent\<close>: the name of the service is looked up for every unit that is listed.\<close>

fun monitored :: "topology_class \<Rightarrow> string \<Rightarrow> string list \<Rightarrow> bool res" where
  "monitored T agent_name [] = Inr False"
| "monitored T agent_name (service # services) =
     (case get_agent_service_name T agent_name of
        Inl e \<Rightarrow> Inl e
      | Inr name \<Rightarrow> if str_in name service then Inr True else monitored T agent_name services)"

definition node_client_of :: "('w, 'a, 'c) topology \<Rightarrow> string \<Rightarrow> 'c option" where
  "node_client_of s n = Option.bind (node_of s n) nd_client"

definition check_systemd_monitors_agent ::
  "('w, 'a, 'c) node_lib \<Rightarrow> topology_class \<Rightarrow> ('c option \<Rightarrow> string \<Rightarrow> ('w, string) act) \<Rightarrow> string \<Rightarrow> string \<Rightarrow>
   ('w, 'a, 'c, bool) topology_act" where
  "check_systemd_monitors_agent L T sudo hostname agent_name =
     bindA (get_node L None (Some hostname) None) (\<lambda>n s.
       bindA (on_hosts (sudo (node_client_of s n) ''systemctl list-units --type=service --all --no-pager --no-legend''))
         (\<lambda>output. lift_res (monitored T agent_name (split_on [CHR 0x0A] output))) s)"

section \<open>Log files\<close>

definition log_nodes :: "('w, 'a, 'c) node_lib \<Rightarrow> group_matcher list option \<Rightarrow> ('w, 'a, 'c, string list) topology_act" where
  "log_nodes L grps = (case grps of None \<Rightarrow> nodes L | Some gs \<Rightarrow> get_groups L gs)"

text \<open>The name of the log files and the digger with a host for every node.\<close>

definition get_log_file_digger ::
  "('w, 'a, 'c) node_lib \<Rightarrow> topology_class \<Rightarrow> ('c option \<Rightarrow> ('w, string) act) \<Rightarrow> string \<Rightarrow> string option \<Rightarrow>
   group_matcher list option \<Rightarrow> ('w, 'a, 'c, string \<times> 'c option multi_digger) topology_act" where
  "get_log_file_digger L T get_hostname service_name pattern grps =
     bindA (lift_res (lookup_name (tc_log_names T) (Exn PyKeyError (str_repr service_name)) service_name)) (\<lambda>filename.
     bindA (log_nodes L grps) (\<lambda>ns s.
       case map_act (\<lambda>n. add_host get_hostname (node_client_of s n) (Some n)) ns (fst (tp_world s), mk_multi pattern None) of
         (r, (w, m)) \<Rightarrow> (map_sum id (\<lambda>_. (filename, m)) r, s\<lparr>tp_world := (w, snd (tp_world s))\<rparr>)))"

section \<open>Runs\<close>

inductive topology_run :: "('w, 'c) cloud_lib \<Rightarrow> ('w, 'a, 'c) node_lib \<Rightarrow> ('w, 'a, 'c) topology \<Rightarrow> bool" for C L where
  run_start: "tables s = ([], [], []) \<Longrightarrow> topology_run C L s"
| run_discover: "topology_run C L s \<Longrightarrow> discover_nodes C L s = (r, t) \<Longrightarrow> topology_run C L t"
| run_add: "topology_run C L s \<Longrightarrow> add_node L hostname address gr client create s = (r', t) \<Longrightarrow> topology_run C L t"
| run_get: "topology_run C L s \<Longrightarrow> get_node L name hostname address s = (r', t) \<Longrightarrow> topology_run C L t"
| run_cleanup: "topology_run C L s \<Longrightarrow> topology_run C L (cleanup_topology s)"

section \<open>Properties\<close>

lemma run_consistent: "topology_run C L s \<Longrightarrow> consistent s"
proof (induction rule: topology_run.induct)
  case (run_start s)
  then show ?case using consistent_empty[of s] consistent_tables[of s "cleanup_topology s"]
    by (simp add: tables_def cleanup_topology_def)
next
  case (run_discover s r t)
  then show ?case using triple_kept[OF discover_keeps, of s C L] by simp
next
  case (run_add s hostname address gr client create r' t)
  then show ?case using triple_kept[OF add_node_keeps, of s L hostname address gr client create] by simp
next
  case (run_get s name hostname address r' t)
  then show ?case using consistent_tables[OF quietD[OF quiet_get_node]] by blast
qed (rule consistent_empty)

text \<open>
  Property (C30). In every run of a topology, whatever the hosts, the resolver and the cloud
  answer and whichever steps fail, the tables agree: every node has the name of its host as
  key and its addresses are known, addresses and groups name known nodes only, each once, and
  a node lists the groups that list it.
\<close>
theorem topology_consistent:
  assumes "topology_run C L s"
  shows "consistent s"
  using assms by (rule run_consistent)

lemma nodes_names: "nodes L s = (Inr (map fst (tp_names s)), s)"
proof -
  have "get_node L (Some n) None None s = (Inr n, s)" if "n \<in> set (map fst (tp_names s))" for n
    using that by (auto simp: get_node_def node_of_def Let_def map_of_eq_None_iff)
  then show ?thesis
    using map_act_pure[of "map fst (tp_names s)" "\<lambda>n. get_node L (Some n) None None" s "\<lambda>n. n"] by (simp add: nodes_def)
qed

lemma listed_group: "g \<in> set (list_group_names ms s) \<Longrightarrow> g \<in> set (groups s)"
  unfolding list_group_names_def match_strings_def by (auto split: if_splits) (case_tac x; auto split: if_splits)

lemma group_known: "g \<in> set (list_group_names ms s) \<Longrightarrow> get_group g s = Inr (group_members s g)"
  using listed_group[of g ms s]
  by (cases "map_of (tp_groups s) g") (auto simp: groups_def get_group_def group_members_def map_of_eq_None_iff)

lemma node_names_eq: "node_names ms s = Inr (\<Union>g \<in> set (list_group_names ms s). set (group_members s g))"
  using map_res_Inr[of "list_group_names ms s" "\<lambda>g. get_group g s" "group_members s"] by (simp add: node_names_def group_known)

definition node_groups :: "('w, 'a, 'c) topology \<Rightarrow> string \<Rightarrow> string set" where
  "node_groups s n = (case node_of s n of None \<Rightarrow> {} | Some node \<Rightarrow> nd_groups node)"


text \<open>
  Property (C32). A node that was added is there: it is found by its name without asking the
  resolver, it is listed by the group it was added to, and the node lists that group.
\<close>
theorem added_node_found:
  assumes run: "topology_run C L s" and added: "add_node L hostname address gr client create s = (Inr n, t)"
  shows "get_node M (Some n) None None t = (Inr n, t) \<and>
    (case gr of None \<Rightarrow> True | Some g \<Rightarrow>
       g = [] \<or> (\<exists>ns. get_group g t = Inr ns \<and> n \<in> set ns \<and> distinct ns \<and> g \<in> node_groups t n))"
proof -
  have k: "known_node n t" by (rule tripleD[OF add_node_triple run_consistent[OF run] added])
  from added obtain u where t: "t = join_group gr n u" by (auto simp: add_node_def bindA_eq_Inr)
  have listed: "get_group g t = Inr (group_members t g) \<and> n \<in> set (group_members t g)" if "gr = Some g" "g \<noteq> []" for g
  proof -
    have n: "n \<in> set (group_members t g)" using that by (simp add: t group_members_join)
    then show ?thesis by (cases "map_of (tp_groups t) g") (simp_all add: get_group_def group_members_def)
  qed
  have "distinct (group_members t g)" "n \<in> set (group_members t g) \<longleftrightarrow> g \<in> node_groups t n" for g
    using k by (auto simp: known_node_def consistent_def node_fits_def node_groups_def)
  with listed have "case gr of None \<Rightarrow> True | Some g \<Rightarrow>
       g = [] \<or> (\<exists>ns. get_group g t = Inr ns \<and> n \<in> set ns \<and> distinct ns \<and> g \<in> node_groups t n)"
    by (cases gr) auto
  moreover have "get_node M (Some n) None None t = (Inr n, t)" using k by (simp add: known_node_def get_node_def)
  ultimately show ?thesis by simp
qed

section \<open>Examples\<close>

definition demo_nodes :: "(unit, string, nat) node_lib" where
  "demo_nodes =
     \<lparr>nl_address = \<lparr>al_parse = (\<lambda>t. if t = ''10.0.0.5'' then Some t else None), al_version = (\<lambda>a. 4),
        al_getaddrinfo = (\<lambda>h p f. ret (Some []))\<rparr>,
      nl_connection = \<lparr>cm_connect = (\<lambda>a p. ret 7), cm_close = (\<lambda>c. ret ()), cm_show = (\<lambda>as. ''hosts'')\<rparr>,
      nl_client = (\<lambda>h. raise_act (Exn PyException ''no route'')), nl_hostname = (\<lambda>c. ret ''Ctl-0.example.org''),
      nl_host_addresses = (\<lambda>c v. ret [''10.0.0.5'', ''10.0.1.5'']), nl_conf_ip_version = Some ''4'',
      nl_show = (\<lambda>n a. ''node'')\<rparr>"

definition demo_cloud :: "(unit, nat) cloud_lib" where
  "demo_cloud =
     \<lparr>cl_proxy_client = ret None, cl_conf_nodes = [''10.0.0.5''], cl_has_keystone_credentials = ret False,
      cl_endpoint_hosts = ret [], cl_set_order = remdups, cl_hypervisors = ret []\<rparr>"

definition demo_start :: "(unit, string, nat) topology" where
  "demo_start = \<lparr>tp_world = ((), Map.empty), tp_connections = [], tp_names = [], tp_groups = [], tp_addresses = []\<rparr>"

definition demo_added :: "string res \<times> (unit, string, nat) topology" where
  "demo_added = add_node demo_nodes None (Some ''10.0.0.5'') (Some ''controller'') None True demo_start"

lemma demo_start_run: "topology_run demo_cloud demo_nodes demo_start"
  by (rule run_start) (simp add: tables_def demo_start_def)

lemma demo_added_result:
  "fst demo_added = Inr ''ctl-0'' \<and> addresses_of (snd demo_added) ''ctl-0'' = [''10.0.0.5'', ''10.0.1.5''] \<and>
   group_members (snd demo_added) ''controller'' = [''ctl-0'']"
  by code_simp

lemma demo_add: "add_node demo_nodes None (Some ''10.0.0.5'') (Some ''controller'') None True demo_start = (Inr ''ctl-0'', snd demo_added)"
  using demo_added_result by (simp add: prod_eq_iff demo_added_def)

lemma topology_consistent_witness:
  "consistent (snd demo_added) \<and> group_members (snd demo_added) ''controller'' = [''ctl-0'']"
  using topology_consistent[OF run_add[OF demo_start_run demo_add]] demo_added_result by blast


lemma added_node_found_witness:
  "get_node demo_nodes (Some ''ctl-0'') None None (snd demo_added) = (Inr ''ctl-0'', snd demo_added) \<and>
   (\<exists>ns. get_group ''controller'' (snd demo_added) = Inr ns \<and> ''ctl-0'' \<in> set ns)"
  using added_node_found[OF demo_start_run demo_add, of demo_nodes] by auto

lemma add_node_again_witness:
  "\<exists>t. add_node demo_nodes (Some ''Ctl-0.example.org'') (Some ''10.0.0.5'') None None True demo_start = (Inr ''ctl-0'', t) \<and>
     add_node demo_nodes (Some ''Ctl-0.example.org'') (Some ''10.0.0.5'') None None True t = (Inr ''ctl-0'', t)"
proof -
  let ?a = "add_node demo_nodes (Some ''Ctl-0.example.org'') (Some ''10.0.0.5'') None None True demo_start"
  have "fst ?a = Inr ''ctl-0''" by code_simp
  then have a: "?a = (Inr ''ctl-0'', snd ?a)" by (simp add: prod_eq_iff)
  have "node_name_from_hostname ''Ctl-0.example.org'' \<noteq> []" by code_simp
  from add_node_again[OF a this, of demo_nodes] a show ?thesis by (auto simp: same_reading_def)
qed

end
