(* ===== verification/Tobiko_Ini.thy ===== *)
theory Tobiko_Ini
  imports Py_Strings Py_Prelude
begin

text \<open>
  tobiko/common/_ini.py: reading the settings of an INI file, by section and key.
\<close>

type_synonym ini_content = "((string \<times> string) \<times> string) list"

text \<open>The text of a line up to its last \<open>#\<close>.\<close>

definition uncommented :: "string \<Rightarrow> string" where
  "uncommented line = (case rsplit1 (CHR ''#'') line of None \<Rightarrow> line | Some (left, right) \<Rightarrow> left)"

definition parse_ini_line :: "string \<Rightarrow> string \<times> ini_content \<Rightarrow> string \<times> ini_content" where
  "parse_ini_line line s =
     (case s of (section, content) \<Rightarrow>
       let line = strip (uncommented line)
       in if line = [] then (section, content)
          else if hd line = CHR ''['' then (strip (butlast (tl line)), content)
          else case split_max 1 ''='' line of
                 left # right # _ \<Rightarrow> (section, dict_set content (section, strip left) (strip right))
               | _ \<Rightarrow> (section, content))"

definition parse_ini_lines :: "string list \<Rightarrow> string \<Rightarrow> ini_content" where
  "parse_ini_lines lines section = snd (fold parse_ini_line lines (section, []))"

definition parse_ini_file :: "string + string list \<Rightarrow> string \<Rightarrow> ini_content" where
  "parse_ini_file text section =
     parse_ini_lines (case text of Inl t \<Rightarrow> splitlines t | Inr lines \<Rightarrow> lines) section"

section \<open>What is read of a file that was written\<close>

text \<open>
  A file of sections, each a head line followed by a line for each setting. A clean text has no
  white space around it, no comment and no equal sign.
\<close>

definition clean :: "string \<Rightarrow> bool" where
  "clean t \<longleftrightarrow> t \<noteq> [] \<and> \<not> py_space (hd t) \<and> \<not> py_space (last t) \<and> CHR ''#'' \<notin> set t"

definition clean_key :: "string \<Rightarrow> bool" where
  "clean_key k \<longleftrightarrow> clean k \<and> hd k \<noteq> CHR ''['' \<and> CHR ''='' \<notin> set k"

definition setting_line :: "string \<times> string \<Rightarrow> string" where
  "setting_line kv = fst kv @ '' = '' @ snd kv"

definition ini_lines :: "(string \<times> (string \<times> string) list) list \<Rightarrow> string list" where
  "ini_lines sections = concat (map (\<lambda>(s, kvs). (''['' @ s @ '']'') # map setting_line kvs) sections)"

definition ini_settings :: "(string \<times> (string \<times> string) list) list \<Rightarrow> ini_content" where
  "ini_settings sections = concat (map (\<lambda>(s, kvs). map (\<lambda>(k, v). ((s, k), v)) kvs) sections)"

definition clean_sections :: "(string \<times> (string \<times> string) list) list \<Rightarrow> bool" where
  "clean_sections sections \<longleftrightarrow> (\<forall>(s, kvs) \<in> set sections. clean s \<and> (\<forall>(k, v) \<in> set kvs. clean_key k \<and> clean v))"

lemma strip_clean: "clean t \<Longrightarrow> strip t = t"
  by (simp add: strip_def strip_id clean_def)

lemma uncommented_clean: "CHR ''#'' \<notin> set t \<Longrightarrow> uncommented t = t"
  by (simp add: uncommented_def rsplit1_def)

lemma section_line:
  assumes "clean s"
  shows "parse_ini_line (''['' @ s @ '']'') (section, content) = (s, content)"
proof -
  have "strip (''['' @ s @ '']'') = ''['' @ s @ '']''" by (simp add: strip_def strip_id py_space_def)
  then show ?thesis using assms strip_clean[OF assms]
    by (simp add: parse_ini_line_def uncommented_clean clean_def butlast_append)
qed

lemma strip_blank_end: "clean t \<Longrightarrow> strip (t @ '' '') = t"
  using rstrip_id[of t py_space] by (cases t) (auto simp: strip_def strip_by_def lstrip_by_def rstrip_by_def clean_def py_space_def)

lemma strip_blank_start: "clean t \<Longrightarrow> strip (CHR '' '' # t) = t"
  using strip_clean[of t] by (simp add: strip_def strip_by_def lstrip_by_def py_space_def)

lemma setting_line_read:
  assumes "clean_key k" and "clean v"
  shows "parse_ini_line (setting_line (k, v)) (section, content) = (section, dict_set content (section, k) v)"
proof -
  let ?l = "k @ '' = '' @ v"
  have k: "k \<noteq> []" "v \<noteq> []" using assms by (auto simp: clean_key_def clean_def)
  have s: "strip ?l = ?l" unfolding strip_def using assms by (intro strip_id) (auto simp: clean_key_def clean_def)
  have "CHR ''='' \<notin> set (k @ '' '')" using assms by (simp add: clean_key_def)
  from str_find_char_Some[OF this, of "CHR '' '' # v"] have "str_find ''='' ?l = Some (Suc (length k))" by simp
  then have "split_max 1 ''='' ?l = [k @ '' '', CHR '' '' # v]" by (simp add: One_nat_def del: One_nat_def[symmetric])
  with s k assms show ?thesis
    by (simp add: parse_ini_line_def setting_line_def uncommented_clean strip_blank_end strip_blank_start clean_key_def clean_def)
qed

lemma settings_read:
  assumes "\<forall>(k, v) \<in> set kvs. clean_key k \<and> clean v"
  shows "fold parse_ini_line (map setting_line kvs) (s, content) = (s, dict_update content (map (\<lambda>(k, v). ((s, k), v)) kvs))"
  using assms by (induction kvs arbitrary: content) (auto simp: setting_line_read dict_update_def)

lemma sections_read:
  assumes "clean_sections sections"
  shows "snd (fold parse_ini_line (ini_lines sections) (s, content)) = dict_update content (ini_settings sections)"
  using assms
proof (induction sections arbitrary: s content)
  case (Cons p sections)
  obtain s' kvs where p: "p = (s', kvs)" by (cases p)
  have *: "dict_update (dict_update content a) b = dict_update content (a @ b)" for a b :: ini_content
    by (simp add: dict_update_def)
  from Cons.prems p have s: "clean s'" "\<forall>(k, v) \<in> set kvs. clean_key k \<and> clean v" and r: "clean_sections sections"
    by (auto simp: clean_sections_def)
  let ?c = "dict_update content (map (\<lambda>(k, v). ((s', k), v)) kvs)"
  have "snd (fold parse_ini_line (ini_lines (p # sections)) (s, content)) = snd (fold parse_ini_line (ini_lines sections) (s', ?c))"
    using section_line[OF s(1)] by (simp add: p ini_lines_def settings_read[OF s(2)])
  with Cons.IH[OF r] show ?case by (simp add: p * ini_settings_def)
qed (simp add: ini_lines_def ini_settings_def dict_update_def)

lemma dict_update_distinct:
  "distinct (map fst (d @ e)) \<Longrightarrow> dict_update d e = d @ e"
proof (induction e arbitrary: d)
  case (Cons p e)
  obtain k v where p: "p = (k, v)" by (cases p)
  have "k \<notin> fst ` set d" using Cons.prems p by auto
  then have "dict_set d k v = d @ [(k, v)]" by (induction d k v rule: dict_set.induct) auto
  with Cons p show ?case by (simp add: dict_update_def)
qed (simp add: dict_update_def)

text \<open>
  Property (C40). Reading the lines of a file gives the settings that were written to it, by
  section and key in their order, when no setting is written twice.
\<close>
theorem ini_file_read:
  assumes "clean_sections sections" and "distinct (map fst (ini_settings sections))"
  shows "parse_ini_file (Inr (ini_lines sections)) section = ini_settings sections"
  using sections_read[OF assms(1)] dict_update_distinct[of "[]"] assms(2)
  by (simp add: parse_ini_file_def parse_ini_lines_def)

lemma ini_file_read_witness:
  "parse_ini_file (Inr [''[DEFAULT]'', ''agent_mode = dvr_snat'', ''[ovs]'', ''agent_mode = x'', ''debug = a=b'']) ''DEFAULT'' =
     [((''DEFAULT'', ''agent_mode''), ''dvr_snat''), ((''ovs'', ''agent_mode''), ''x''), ((''ovs'', ''debug''), ''a=b'')]"
  using ini_file_read[of "[(''DEFAULT'', [(''agent_mode'', ''dvr_snat'')]), (''ovs'', [(''agent_mode'', ''x''), (''debug'', ''a=b'')])]" "''DEFAULT''"]
  by (simp add: clean_sections_def clean_key_def clean_def py_space_def ini_settings_def ini_lines_def setting_line_def)

text \<open>Only the last comment of a line is removed.\<close>

lemma comment_kept: "parse_ini_file (Inr [''mode = dvr # one # two'']) ''DEFAULT'' = [((''DEFAULT'', ''mode''), ''dvr # one'')]"
  by code_simp

end
