(* ===== verification/Topology_Hosts.thy ===== *)
theory Topology_Hosts
  imports Topology_Lookup Tobiko_Ini Tobiko_Version Shell_Process
begin

text \<open>
  tobiko/openstack/topology/_topology.py and tobiko/openstack/neutron/_agent.py: what is read
  from the hosts of the nodes: the mode of the L3 agent, settings, versions, and the tool that
  synchronises Octavia with OVN. The log messages are not modelled.
\<close>

section \<open>L3 agents\<close>

text \<open>Opening a file on the host of a connection gives its lines; \<open>local\<close> tells where the connection goes.\<close>

definition get_l3_agent_mode ::
  "(string \<Rightarrow> bool \<Rightarrow> ('w, string list) act) \<Rightarrow> bool \<Rightarrow> string \<Rightarrow> string \<Rightarrow> bool option \<Rightarrow> ('w, string) act" where
  "get_l3_agent_mode open_file local path dflt sudo =
     bindA (open_file path (case sudo of None \<Rightarrow> \<not> local | Some b \<Rightarrow> b)) (\<lambda>lines.
       ret (case map_of (parse_ini_file (Inr lines) ''DEFAULT'') (''DEFAULT'', ''agent_mode'') of
              None \<Rightarrow> dflt | Some mode \<Rightarrow> mode))"

text \<open>The modes that are known of the nodes, by name.\<close>

type_synonym l3_modes = "string \<rightharpoonup> string"

definition find_mode :: "'w \<times> l3_modes \<Rightarrow> string \<Rightarrow> string option" where
  "find_mode s n = snd s n"

definition put_mode :: "string \<Rightarrow> string \<Rightarrow> 'w \<times> l3_modes \<Rightarrow> 'w \<times> l3_modes" where
  "put_mode n mode s = (fst s, (snd s)(n \<mapsto> mode))"

interpretation l3_mode: memo_table find_mode put_mode
  by unfold_locales (simp add: find_mode_def put_mode_def)

definition l3_agent_mode ::
  "(string \<Rightarrow> bool \<Rightarrow> ('w, string list) act) \<Rightarrow> bool \<Rightarrow> string \<Rightarrow> ('w \<times> l3_modes, string) act" where
  "l3_agent_mode open_file local name =
     get_or_create find_mode put_mode
       (on_fst (try_except (get_l3_agent_mode open_file local ''/etc/neutron/l3_agent.ini'' ''legacy'' None)
          (catches [ShellCommandFailed]) (\<lambda>e. ret ''legacy''))) name"

section \<open>Settings\<close>

text \<open>What \<open>configparser\<close> reads of a text: the defaults and the sections, whose settings include the defaults.\<close>

record parsed_config =
  pc_defaults :: "string \<rightharpoonup> string"
  pc_sections :: "(string \<times> (string \<rightharpoonup> string)) list"

definition get_config_setting ::
  "(string \<Rightarrow> parsed_config res) \<Rightarrow> topology_class \<Rightarrow> (string \<Rightarrow> ('w, string) act) \<Rightarrow> string \<Rightarrow> string \<Rightarrow> string option \<Rightarrow>
   ('w, string option) act" where
  "get_config_setting parse T sudo file_name param section =
     bindA (lift_res (get_config_file_path T file_name)) (\<lambda>path.
     bindA (sudo (''cat '' @ path)) (\<lambda>content.
     bindA (lift_res (parse content)) (\<lambda>config.
       ret (case section of
              None \<Rightarrow> pc_defaults config param
            | Some s \<Rightarrow> (case map_of (pc_sections config) s of None \<Rightarrow> None | Some settings \<Rightarrow> settings param)))))"

section \<open>Versions\<close>

text \<open>\<open>ho_run client command sudo\<close> is the standard output of a command.\<close>

type_synonym ('w, 'c) host_run = "'c option \<Rightarrow> string \<Rightarrow> bool \<Rightarrow> ('w, string) act"

definition controller_client :: "('w, 'a, 'c, 'c option) topology_act" where
  "controller_client s =
     (case get_group ''controller'' s of
        Inl e \<Rightarrow> (Inl e, s)
      | Inr [] \<Rightarrow> (Raise PyIndexError ''list index out of range'', s)
      | Inr (n # ns) \<Rightarrow> (Inr (node_client_of s n), s))"

definition get_rhosp_version :: "('w, 'c) host_run \<Rightarrow> ('w, 'a, 'c, string) topology_act" where
  "get_rhosp_version run =
     bindA controller_client (\<lambda>client.
     bindA (on_hosts (run client ''cat /etc/rhosp-release'' False)) (\<lambda>release.
       case version_search release of
         Some v \<Rightarrow> ret v
       | None \<Rightarrow> raise_act (Exn PyTypeError ''NoneType object is not subscriptable'')))"

definition get_nova_version_from_container :: "('w, 'c) host_run \<Rightarrow> ('w, 'a, 'c, string option) topology_act" where
  "get_nova_version_from_container run =
     bindA controller_client (\<lambda>client.
       try_except (bindA (on_hosts (run client ''podman exec -uroot nova_conductor nova-manage --version'' True)) (\<lambda>v. ret (Some v)))
         (catches [ShellCommandFailed]) (\<lambda>e. ret None))"

definition os_to_nova_versions :: "(string \<times> string) list" where
  "os_to_nova_versions = [(''13.0.0'', ''17''), (''16.0.0'', ''19''), (''16.1.0'', ''20''), (''17.0.0'', ''23'')]"

definition os_version_of_nova :: "string \<Rightarrow> string option" where
  "os_version_of_nova nova_version =
     map_option fst (List.find (\<lambda>(os, nova). hd (split_on ''.'' nova_version) = nova) os_to_nova_versions)"

definition read_openstack_version :: "('w, 'c) host_run \<Rightarrow> ('w, 'a, 'c, string option) topology_act" where
  "read_openstack_version run =
     try_except (bindA (get_rhosp_version run) (\<lambda>v. ret (Some v))) (catches [PyTypeError, ShellCommandFailed]) (\<lambda>e.
       bindA (get_nova_version_from_container run) (\<lambda>nova.
       bindA (case nova of
                Some v \<Rightarrow> ret v
              | None \<Rightarrow> bindA controller_client (\<lambda>client. on_hosts (run client ''nova-manage --version'' True))) (\<lambda>v.
         ret (os_version_of_nova v))))"

text \<open>The cache of \<open>lru_cache\<close> on a function without arguments.\<close>

definition find_version :: "('w, 'a, 'c) topology \<times> string option option \<Rightarrow> unit \<Rightarrow> string option option" where
  "find_version s u = snd s"

definition put_version ::
  "unit \<Rightarrow> string option \<Rightarrow> ('w, 'a, 'c) topology \<times> string option option \<Rightarrow> ('w, 'a, 'c) topology \<times> string option option" where
  "put_version u v s = (fst s, Some v)"

interpretation openstack_version: memo_table find_version put_version
  by unfold_locales (simp add: find_version_def put_version_def)

definition get_openstack_version ::
  "('w, 'c) host_run \<Rightarrow> (('w, 'a, 'c) topology \<times> string option option, string option) act" where
  "get_openstack_version run = get_or_create find_version put_version (on_fst (read_openstack_version run)) ()"

definition parse_osp_version :: "'v version_lib \<Rightarrow> string \<Rightarrow> 'v res" where
  "parse_osp_version V text = (case vl_parse V text of Some v \<Rightarrow> Inr v | None \<Rightarrow> Raise PyValueError (''Invalid version: '' @ str_repr text))"

definition compare_osp_versions :: "'v version_lib \<Rightarrow> 'v \<Rightarrow> 'v \<Rightarrow> bool \<Rightarrow> bool \<Rightarrow> bool res" where
  "compare_osp_versions V current required higher lower =
     (if higher \<and> lower then Raise PyRuntimeError ''''
      else if \<not> higher \<and> \<not> lower then Inr (\<not> vl_less V current required \<and> \<not> vl_less V required current)
      else if higher then Inr (vl_less V required current)
      else Inr (vl_less V current required))"

definition verify_osp_version ::
  "'v version_lib \<Rightarrow> ('w, 'c) host_run \<Rightarrow> string \<Rightarrow> bool \<Rightarrow> bool \<Rightarrow>
   (('w, 'a, 'c) topology \<times> string option option, bool) act" where
  "verify_osp_version V run required_version higher lower =
     bindA (try_except (get_openstack_version run) (catches [PyException]) (\<lambda>e. ret None)) (\<lambda>current.
       case current of
         None \<Rightarrow> ret True
       | Some text \<Rightarrow>
           bindA (lift_res (parse_osp_version V required_version)) (\<lambda>required.
           bindA (lift_res (parse_osp_version V text)) (\<lambda>v.
             lift_res (compare_osp_versions V v required higher lower))))"

section \<open>Synchronising Octavia\<close>

definition ovn_octavia_path :: string where
  "ovn_octavia_path = ''/opt/stack/ovn-octavia-provider''"

definition as_owner :: "string \<Rightarrow> string \<Rightarrow> string \<Rightarrow> string" where
  "as_owner owner user command =
     (if user \<noteq> owner then ''sudo -u '' @ owner @ '' bash -c '' @ [CHR 0x22] @ command @ [CHR 0x22] else command)"

definition check_venv_command :: string where
  "check_venv_command = ''test -d '' @ ovn_octavia_path @ ''/venv && echo env_exists || echo env_not_exists''"

definition create_venv_command :: string where
  "create_venv_command =
     ''cd '' @ ovn_octavia_path @ '' && python3 -m venv venv && source venv/bin/activate && pip install -e .''"

definition sync_command :: string where
  "sync_command = ''source '' @ ovn_octavia_path @ ''/venv/bin/activate && octavia-ovn-db-sync-util''"

text \<open>\<open>execute command timeout\<close> gives the standard output.\<close>

definition run_octavia_ovn_db_sync :: "(string \<Rightarrow> nat option \<Rightarrow> ('w, string) act) \<Rightarrow> ('w, string) act" where
  "run_octavia_ovn_db_sync execute =
     bindA (execute (''stat -c %U '' @ ovn_octavia_path) None) (\<lambda>owner.
     bindA (execute ''whoami'' None) (\<lambda>user.
       let as_user = as_owner (strip owner) (strip user)
       in bindA (execute (as_user check_venv_command) None) (\<lambda>venv.
          bindA (if str_in ''env_exists'' venv then ret '''' else execute (as_user create_venv_command) (Some 300)) (\<lambda>_.
            execute (as_user sync_command) (Some 300)))))"

section \<open>Properties\<close>

text \<open>The mode of a node is read once.\<close>

lemma l3_mode_again:
  assumes "l3_agent_mode open_file local name s = (Inr mode, t)"
  shows "l3_agent_mode open_file' local' name t = (Inr mode, t)"
  unfolding l3_agent_mode_def by (rule l3_mode.get_again[OF assms[unfolded l3_agent_mode_def]])

text \<open>A host whose file cannot be read is taken to have the legacy mode, one whose file can be read the mode it holds.\<close>

lemma l3_mode_read:
  assumes "clean_sections sections" and "distinct (map fst (ini_settings sections))" and "snd s name = None"
    and "open_file ''/etc/neutron/l3_agent.ini'' (\<not> local) (fst s) = (Inr (ini_lines sections), w)"
    and "((''DEFAULT'', ''agent_mode''), mode) \<in> set (ini_settings sections)"
  shows "l3_agent_mode open_file local name s = (Inr mode, put_mode name mode (w, snd s))"
proof -
  have "parse_ini_lines (ini_lines sections) ''DEFAULT'' = ini_settings sections"
    using sections_read[OF assms(1)] dict_update_distinct[of "[]"] assms(2) by (simp add: parse_ini_lines_def)
  with assms(2,5) have "map_of (parse_ini_file (Inr (ini_lines sections)) ''DEFAULT'') (''DEFAULT'', ''agent_mode'') = Some mode"
    by (simp add: parse_ini_file_def)
  with assms(3,4) show ?thesis
    by (simp add: l3_agent_mode_def get_or_create_def find_mode_def on_fst_def try_except_def get_l3_agent_mode_def bindA_def ret_def)
qed

text \<open>Without a known version every requirement holds; otherwise exactly one of lower, equal and higher does.\<close>

lemma version_trichotomy:
  assumes "\<And>a b. vl_less V a b \<Longrightarrow> \<not> vl_less V b a"
  shows "length (filter (\<lambda>(h, l). compare_osp_versions V current required h l = Inr True)
    [(False, False), (True, False), (False, True)]) = 1"
  using assms[of current required] assms[of required current]
  by (cases "vl_less V current required"; cases "vl_less V required current") (simp_all add: compare_osp_versions_def)

end
