(* ===== verification/Cloud_Waits.thy ===== *)
theory Cloud_Waits
  imports Retry_Partial Py_Values
begin

text \<open>
  What the loops that wait for the cloud share: a turn asks, looks at the answer, and either
  ends with it or goes on within the limits of the retry. Asking is an action on the world,
  whose clock is that of \<open>Tobiko_Retry\<close>.
\<close>

text \<open>The turn of the loops that end when the answer is ready, and check the limits themselves otherwise.\<close>

definition ready_turn :: "('w, 'o) act \<Rightarrow> ('o \<Rightarrow> bool res) \<Rightarrow> retry_attempt \<Rightarrow> ('w, 'o turn) act" where
  "ready_turn ask ready attempt =
     bindA ask (\<lambda>x.
     bindA (lift_res (ready x)) (\<lambda>b.
       if b then ret (Done x) else bindA (lift_res (check_limits None attempt)) (\<lambda>_. ret Next)))"

text \<open>\<open>response[key] == value\<close>; \<open>wl_get\<close> subscripts an answer of the cloud.\<close>

definition key_is :: "('o \<Rightarrow> string \<Rightarrow> pyval res) \<Rightarrow> string \<Rightarrow> pyval \<Rightarrow> 'o \<Rightarrow> bool res" where
  "key_is item key value x = map_sum id (\<lambda>v. v = value) (item x key)"

lemma ready_turn_Done:
  "ready_turn ask ready a w = (Inr (Done x), w') \<Longrightarrow> ask w = (Inr x, w') \<and> ready x = Inr True"
  by (auto simp: ready_turn_def bindA_eq_Inr lift_res_def ret_def split: if_splits)

lemma ready_turn_Next: "ready_turn ask ready a w = (Inr Next, w') \<Longrightarrow> \<exists>x. ask w = (Inr x, w') \<and> ready x = Inr False"
  by (auto simp: ready_turn_def bindA_eq_Inr lift_res_def ret_def split: if_splits)

lemma ready_turn_Inl:
  "ready_turn ask ready a w = (Inl e, w') \<Longrightarrow>
     ask w = (Inl e, w') \<or> (\<exists>x. ask w = (Inr x, w') \<and> (ready x = Inl e \<or> ready x = Inr False \<and> limit_error e))"
  by (auto simp: ready_turn_def bindA_def lift_res_def ret_def intro: check_limits_error split: prod.splits sum.splits if_splits)

text \<open>What \<open>raise Cls(prop=..., ...)\<close> raises, with values as properties.\<close>

definition cloud_error :: "pyclass \<Rightarrow> string \<Rightarrow> (string \<times> pyval) list \<Rightarrow> exn" where
  "cloud_error cls template props = raised (\<lambda>v spec. Inr (val_str v)) cls template props"

text \<open>The class of the exception when the properties are those of the template.\<close>

definition template_ok :: "string \<Rightarrow> string list \<Rightarrow> bool" where
  "template_ok template names =
     (case fmt_parse template of
        Inl e \<Rightarrow> False
      | Inr segs \<Rightarrow>
          \<forall>g \<in> set segs. case g of Lit c \<Rightarrow> True
            | Field f \<Rightarrow> \<not> list_all is_digit (field_name f) \<and> field_name f \<in> set names)"

lemma fmt_seg_ok:
  "(case g of Lit c \<Rightarrow> True | Field f \<Rightarrow> \<not> list_all is_digit (field_name f) \<and> field_name f \<in> set (map fst props)) \<Longrightarrow>
     \<exists>t. fmt_seg (\<lambda>v spec. Inr (val_str v)) props g = Inr t"
  by (auto simp: fmt_seg_def split: seg.splits option.splits dest: map_of_eq_None_iff[THEN iffD1])

lemma map_res_total: "(\<And>x. x \<in> set xs \<Longrightarrow> \<exists>y. f x = Inr y) \<Longrightarrow> \<exists>ys. map_res f xs = Inr ys"
proof (induction xs)
  case (Cons x xs)
  then obtain ys where "map_res f xs = Inr ys" by auto
  moreover obtain y where "f x = Inr y" using Cons.prems by fastforce
  ultimately show ?case by simp
qed simp

lemma cloud_error_class:
  assumes "template_ok template (map fst props)"
  shows "exn_class (cloud_error cls template props) = cls"
proof -
  obtain segs where segs: "fmt_parse template = Inr segs" using assms by (auto simp: template_ok_def split: sum.splits)
  have "\<exists>t. map_res (fmt_seg (\<lambda>v spec. Inr (val_str v)) props) segs = Inr t"
  proof (rule map_res_total)
    fix g assume "g \<in> set segs"
    then have "case g of Lit c \<Rightarrow> True | Field f \<Rightarrow> \<not> list_all is_digit (field_name f) \<and> field_name f \<in> set (map fst props)"
      using assms segs by (simp add: template_ok_def)
    then show "\<exists>t. fmt_seg (\<lambda>v spec. Inr (val_str v)) props g = Inr t" by (rule fmt_seg_ok)
  qed
  with segs show ?thesis
    by (auto simp: cloud_error_def raised_def tobiko_exception_def str_format_def)
qed

section \<open>What a loop returns\<close>

text \<open>When every turn that ends the loop leaves \<open>Q\<close>, so does the loop.\<close>

lemma iter_returns:
  assumes "retry_iter now slp R body w = Some (Inr x, w')"
    and "\<And>a u. body a u = (Inr (Done x), w') \<Longrightarrow> Q"
  shows Q
proof -
  have "valid (\<lambda>_. True) (retry_iter now slp R body) (post (\<lambda>e s. True) (\<lambda>y s. \<exists>a u. body a u = (Inr (Done y), s)))"
    by (rule valid_retry_iter) (auto simp: turn_post_def split: sum.splits turn.splits)
  from validD[OF this TrueI assms(1)] assms(2) show ?thesis by auto
qed

lemma piter_returns:
  assumes "retry_piter now slp R body w = Some (Inr x, w')"
    and "\<And>a u. body a u = Some (Inr (Done x), w') \<Longrightarrow> Q"
  shows Q
proof -
  have "valid (\<lambda>_. True) (retry_piter now slp R body) (post (\<lambda>e s. True) (\<lambda>y s. \<exists>a u. body a u = Some (Inr (Done y), s)))"
    by (rule valid_retry_piter) (auto simp: valid_def turn_post_def split: sum.splits turn.splits)
  from validD[OF this TrueI assms(1)] assms(2) show ?thesis by auto
qed

lemma iter_raises:
  assumes "retry_iter now slp R body w = Some (Inl e, w')"
  shows "limit_error e \<or> (\<exists>a u. body a u = (Inl e, w'))"
proof -
  have "valid (\<lambda>_. True) (retry_iter now slp R body) (post (\<lambda>e s. limit_error e \<or> (\<exists>a u. body a u = (Inl e, s))) (\<lambda>y s. True))"
    by (rule valid_retry_iter) (auto simp: turn_post_def split: sum.splits turn.splits)
  from validD[OF this TrueI assms] show ?thesis by simp
qed

text \<open>A loop whose turns check the limits themselves is never left by the iterator.\<close>

lemma run_raises:
  "retry_run now slp R body start n el w atts r w' \<Longrightarrow>
     (\<And>a u v. at_count a = rt_count R \<Longrightarrow> body a u = (Inr Next, v) \<Longrightarrow> check_limits None a = Inr ()) \<Longrightarrow> r = Inl e \<Longrightarrow> \<exists>a u. body a u = (Inl e, w')"
proof (induction rule: retry_run.induct)
  case (run_limit n el w w1 e')
  from run_limit(3)[OF _ run_limit(1)] run_limit(2) show ?case by simp
qed blast+

lemma iter_raises_own:
  assumes "retry_iter now slp R body w = Some (Inl e, w')"
    and "\<And>a u v. at_count a = rt_count R \<Longrightarrow> body a u = (Inr Next, v) \<Longrightarrow> check_limits None a = Inr ()"
  shows "\<exists>a u. body a u = (Inl e, w')"
  using assms unfolding retry_iter_iff_run by (blast dest: run_raises)

text \<open>An invariant of the turns, indexed by the number of the attempt.\<close>

lemma run_invariant:
  assumes "retry_run now slp R body start n el w atts r w'"
    and slp: "\<And>n d s. I n s \<Longrightarrow> I n (slp d s)"
    and raised: "\<And>st n el s e t. I n s \<Longrightarrow> body (retry_number R st n el) s = (Inl e, t) \<Longrightarrow> Q (Inl e) t"
    and finished: "\<And>st n el s x t. I n s \<Longrightarrow> body (retry_number R st n el) s = (Inr (Done x), t) \<Longrightarrow> Q (Inr x) t"
    and limit: "\<And>st n el s e t. I n s \<Longrightarrow> body (retry_number R st n el) s = (Inr Next, t) \<Longrightarrow>
      check_limits None (retry_number R st n el) = Inl e \<Longrightarrow> Q (Inl e) t"
    and again: "\<And>st n el s t. I n s \<Longrightarrow> body (retry_number R st n el) s = (Inr Next, t) \<Longrightarrow>
      check_limits None (retry_number R st n el) = Inr () \<Longrightarrow> I (n + 1) t"
  shows "I n w \<Longrightarrow> Q r w'"
  using assms(1)
proof (induction rule: retry_run.induct)
  case (run_again n el w w1 u el' w2 atts r w3)
  have "I (n + 1) w1" by (rule again[OF run_again.prems run_again.hyps(1)]) (use run_again.hyps(2) in simp)
  then have "I (n + 1) w2" using pause_keeps[of "I (n + 1)" slp, OF slp] run_again.hyps(3) by blast
  then show ?case by (rule run_again.IH)
qed (rule raised finished limit, assumption+)+

lemma iter_invariant:
  assumes "retry_iter now slp R body w = Some (r, w')" and "I 1 w"
    and "\<And>n d s. I n s \<Longrightarrow> I n (slp d s)"
    and "\<And>st n el s e t. I n s \<Longrightarrow> body (retry_number R st n el) s = (Inl e, t) \<Longrightarrow> Q (Inl e) t"
    and "\<And>st n el s x t. I n s \<Longrightarrow> body (retry_number R st n el) s = (Inr (Done x), t) \<Longrightarrow> Q (Inr x) t"
    and "\<And>st n el s e t. I n s \<Longrightarrow> body (retry_number R st n el) s = (Inr Next, t) \<Longrightarrow>
      check_limits None (retry_number R st n el) = Inl e \<Longrightarrow> Q (Inl e) t"
    and "\<And>st n el s t. I n s \<Longrightarrow> body (retry_number R st n el) s = (Inr Next, t) \<Longrightarrow>
      check_limits None (retry_number R st n el) = Inr () \<Longrightarrow> I (n + 1) t"
  shows "Q r w'"
proof -
  obtain atts where "retry_run now slp R body (now w) 1 0 w atts r w'"
    using assms(1) unfolding retry_iter_iff_run by blast
  from run_invariant[OF this assms(3-7) assms(2)] show ?thesis .
qed

text \<open>A loop without limits whose turns all go on does not end.\<close>

lemma iter_forever:
  assumes "rt_count R = None" "rt_timeout R = None"
    and "J w" and "\<And>d s. J s \<Longrightarrow> J (slp d s)" and "\<And>a s. J s \<Longrightarrow> at_count a = None \<Longrightarrow> at_timeout a = None \<Longrightarrow> \<exists>t. body a s = (Inr Next, t) \<and> J t"
  shows "retry_iter now slp R body w = None"
proof (rule ccontr)
  assume "retry_iter now slp R body w \<noteq> None"
  then obtain r w' where it: "retry_iter now slp R body w = Some (r, w')" by auto
  have ok: "check_limits None (retry_number R st n el) = Inr ()" for st n el
    using assms(1,2) by (simp add: check_limits_None count_left_def time_left_def to_secs_def)
  have turn: "\<exists>t. body (retry_number R st n el) s = (Inr Next, t) \<and> J t" if "J s" for st n el s
    by (rule assms(5)[OF that]) (use assms(1,2) in \<open>simp_all add: to_secs_def\<close>)
  show False
  proof (rule iter_invariant[OF it, where I = "\<lambda>n. J" and Q = "\<lambda>r s. False"], goal_cases)
    case (3 st n el s e t) then show ?case using turn[of s st n el] by simp
  next
    case (4 st n el s x t) then show ?case using turn[of s st n el] by simp
  next
    case (5 st n el s e t) then show ?case using ok[of st n el] by simp
  next
    case (6 st n el s t) then show ?case using turn[of s st n el] by simp
  qed (rule assms; assumption?)+
qed

lemma is_last_None: "is_last None a = Inr (count_left a = Some 0 \<or> time_left a = Some 0)"
  by (simp add: is_last_def check_limits_None catches_def isinstance_exn_def issubclass_def exn_classes)

text \<open>A loop that waits for a ready answer returns the last answer, which is ready.\<close>

lemma wait_ready:
  assumes "retry_iter now slp R (ready_turn ask ready) w = Some (Inr x, w')"
  shows "ready x = Inr True \<and> (\<exists>u. ask u = (Inr x, w'))"
  by (rule iter_returns[OF assms]) (auto dest: ready_turn_Done)

section \<open>Loops that end\<close>

text \<open>Asking takes time, at least \<open>d\<close>.\<close>

definition asks_slowly :: "rat \<Rightarrow> ('z world_scheme, 'o) act \<Rightarrow> bool" where
  "asks_slowly d ask \<longleftrightarrow> 0 < d \<and> (\<forall>w. py_time w + d \<le> py_time (snd (ask w)))"

lemma asks_slowly_at: "asks_slowly d ask \<Longrightarrow> ask w = (r, w') \<Longrightarrow> py_time w + d \<le> py_time w'"
  by (metis asks_slowly_def snd_conv)

lemma asks_slowly_like: "asks_slowly d ask \<Longrightarrow> (\<And>w. snd (ask' w) = snd (ask w)) \<Longrightarrow> asks_slowly d ask'"
  by (simp add: asks_slowly_def)

lemma slow_turns_end:
  assumes turn: "\<And>a w w'. body a w = (Inr Next, w') \<Longrightarrow> py_time w + d \<le> py_time w'"
    and d: "0 < d" and t: "rt_timeout R = Some t"
  shows "ends (retry_iter py_time py_sleep R body)"
  unfolding retry_iter_eq
proof (rule clk.retry_timeout_ends[where J = "\<lambda>_. True", OF _ _ _ _ d t])
  fix a w w' assume "liftP (body a) w = Some (Inr Next, w')"
  then have "py_time w + d \<le> py_time w'" using turn by (simp add: liftP_def)
  then show "True \<and> py_time w \<le> py_time w'" "py_time w + d \<le> py_time w'" using d by simp_all
qed simp_all

lemma slow_ready_ends:
  assumes "asks_slowly d ask" and "rt_timeout R = Some t"
  shows "ends (retry_iter py_time py_sleep R (ready_turn ask ready))"
proof (rule slow_turns_end[OF _ _ assms(2)])
  show "0 < d" using assms(1) by (simp add: asks_slowly_def)
  fix a w w' assume "ready_turn ask ready a w = (Inr Next, w')"
  from ready_turn_Next[OF this] asks_slowly_at[OF assms(1)] show "py_time w + d \<le> py_time w'" by blast
qed

text \<open>A loop with a default time limit has a time limit.\<close>

lemma default_timeout: "\<exists>t. rt_timeout (retry None c timeout sl i dc (Some T) ds di) = Some t"
  by (cases timeout) (auto simp: retry_def mk_retry_def opt_or_def to_secs_def)

lemma ends_bind_lift: "(\<And>u x u'. m u = (Inr x, u') \<Longrightarrow> ends (f x)) \<Longrightarrow> ends (bindP (liftP m) f)"
  by (fastforce simp: ends_def bindP_def liftP_def split: option.splits sum.splits prod.splits)

end
