(* ===== verification/Nova_Servers.thy ===== *)
theory Nova_Servers
  imports Cloud_Waits Tobiko_Select
begin

text \<open>
  tobiko/openstack/nova/_client.py: finding servers, hypervisors and services, reading the
  console, migrating, and bringing a server into a status by stopping, starting, rebooting and
  waiting. The argument \<open>client\<close> is the action that \<open>nova_client\<close> makes of it
  (\<open>Openstack_Clients\<close>); what Nova does is a parameter.
\<close>

section \<open>Servers and the client\<close>

record nova_server =
  ns_id :: string
  ns_status :: string
  ns_attributes :: "(string \<times> pyval) list"

definition object_getattr :: "(string \<times> pyval) list \<Rightarrow> string \<Rightarrow> pyval res" where
  "object_getattr attributes name =
     (case map_of attributes name of
        Some v \<Rightarrow> Inr v
      | None \<Rightarrow> Raise PyAttributeError (''object has no attribute '' @ str_repr name))"

definition server_getattr :: "nova_server \<Rightarrow> string \<Rightarrow> pyval res" where
  "server_getattr s = object_getattr ((''id'', PText (ns_id s)) # (''status'', PText (ns_status s)) # ns_attributes s)"

text \<open>\<open>na_not_found\<close> and \<open>na_bad_request\<close> tell the exceptions of the client library.\<close>

record 'w nova_api =
  na_servers :: "('w, nova_server list) act"
  na_hypervisors :: "bool \<Rightarrow> ('w, (string \<times> pyval) list list) act"
  na_services :: "('w, (string \<times> pyval) list list) act"
  na_get :: "string \<Rightarrow> (string \<times> pyval) list \<Rightarrow> ('w, nova_server) act"
  na_delete :: "string \<Rightarrow> (string \<times> pyval) list \<Rightarrow> ('w, unit) act"
  na_action :: "string \<Rightarrow> string \<Rightarrow> (string \<times> pyval) list \<Rightarrow> ('w, unit) act"
  na_live_migrate :: "string \<Rightarrow> (string \<times> pyval) list \<Rightarrow> ('w, unit) act"
  na_confirm_resize :: "string \<Rightarrow> (string \<times> pyval) list \<Rightarrow> ('w, unit) act"
  na_console :: "string \<Rightarrow> int \<Rightarrow> ('w, string option) act"
  na_start :: "string \<Rightarrow> ('w, unit) act"
  na_stop :: "string \<Rightarrow> ('w, unit) act"
  na_reboot :: "string \<Rightarrow> string option \<Rightarrow> ('w, unit) act"

type_synonym 'w nova_ref = "('w, 'w nova_api) act"

record nova_lib =
  nl_not_found :: "exn \<Rightarrow> bool"
  nl_bad_request :: "exn \<Rightarrow> bool"
  nl_show :: "rat \<Rightarrow> string"

definition listed ::
  "('o \<Rightarrow> string \<Rightarrow> pyval res) \<Rightarrow> 'w nova_ref \<Rightarrow> ('w nova_api \<Rightarrow> ('w, 'o list) act) \<Rightarrow> (string \<times> pyval matcher) list \<Rightarrow>
   ('w, 'o list) act" where
  "listed getattr client all params = bindA client (\<lambda>c. bindA (all c) (\<lambda>os. lift_res (with_attributes getattr params os)))"

definition found :: "('o list \<Rightarrow> string) \<Rightarrow> bool \<Rightarrow> ('w, 'o list) act \<Rightarrow> ('w, 'o) act" where
  "found repr unique ask = bindA ask (\<lambda>os. lift_res (if unique then select_unique repr os else select_first os))"

definition list_hypervisors where
  "list_hypervisors client detailed params = listed object_getattr client (\<lambda>c. na_hypervisors c detailed) params"
definition find_hypervisor where
  "find_hypervisor repr client unique params = found repr unique (list_hypervisors client True params)"
definition list_servers where
  "list_servers client params = listed server_getattr client na_servers params"
definition find_server where
  "find_server repr client unique params = found repr unique (list_servers client params)"
definition nova_list_services where
  "nova_list_services client params = listed object_getattr client na_services params"
definition nova_find_service where
  "nova_find_service repr client unique params = found repr unique (nova_list_services client params)"

datatype server_arg = NoServer | ServerId string | Server nova_server

definition get_server_id :: "server_arg \<Rightarrow> string option \<Rightarrow> string res" where
  "get_server_id server server_id =
     (case server_id of
        Some i \<Rightarrow> Inr i
      | None \<Rightarrow>
          (case server of
             ServerId i \<Rightarrow> Inr i
           | NoServer \<Rightarrow> Raise PyAssertionError []
           | Server s \<Rightarrow> Inr (ns_id s)))"

section \<open>Errors\<close>

definition GetServerError :: pyclass where
  "GetServerError = ''GetServerError'' # TobikoException"
definition ServerNotFoundError :: pyclass where
  "ServerNotFoundError = [''ServerNotFoundError'', ''GetServerError''] @ ObjectNotFound"
definition BootStuckError :: pyclass where
  "BootStuckError = ''BootStuckError'' # TobikoException"
definition MigrateServerError :: pyclass where
  "MigrateServerError = ''MigrateServerError'' # TobikoException"
definition NoValidHostFoundMigrateServerError :: pyclass where
  "NoValidHostFoundMigrateServerError = ''NoValidHostFoundMigrateServerError'' # MigrateServerError"
definition PreCheckMigrateServerError :: pyclass where
  "PreCheckMigrateServerError = ''PreCheckMigrateServerError'' # MigrateServerError"
definition NotInLocalStorageMigrateServerError :: pyclass where
  "NotInLocalStorageMigrateServerError = ''NotInLocalStorageMigrateServerError'' # MigrateServerError"
definition NotInSharedStorageMigrateServerError :: pyclass where
  "NotInSharedStorageMigrateServerError = ''NotInSharedStorageMigrateServerError'' # MigrateServerError"
definition WaitForServerStatusError :: pyclass where
  "WaitForServerStatusError = ''WaitForServerStatusError'' # TobikoException"
definition WaitForServerStatusTimeout :: pyclass where
  "WaitForServerStatusTimeout = ''WaitForServerStatusTimeout'' # WaitForServerStatusError"

declare GetServerError_def [exn_classes] ServerNotFoundError_def [exn_classes] BootStuckError_def [exn_classes]
  MigrateServerError_def [exn_classes] NoValidHostFoundMigrateServerError_def [exn_classes]
  PreCheckMigrateServerError_def [exn_classes] NotInLocalStorageMigrateServerError_def [exn_classes]
  NotInSharedStorageMigrateServerError_def [exn_classes] WaitForServerStatusError_def [exn_classes]
  WaitForServerStatusTimeout_def [exn_classes]

definition get_server_template :: string where
  "get_server_template = ''Error getting server '{server_id}' details (params={params}):'' @ [CHR 0x0A] @ ''{reason}''"

definition migrate_template :: string where
  "migrate_template = ''Error migrating server '{server_id}' (params={params}):'' @ [CHR 0x0A] @ ''{reason}''"

definition not_found :: "nova_lib \<Rightarrow> string \<Rightarrow> (string \<times> pyval) list \<Rightarrow> ('w, 'a) act \<Rightarrow> ('w, 'a) act" where
  "not_found L server_id params m =
     try_except m (nl_not_found L)
       (\<lambda>ex. raise_act (cloud_error ServerNotFoundError get_server_template
          [(''server_id'', PText server_id), (''params'', PDict params), (''reason'', PText (exn_msg ex))]))"

section \<open>Requests\<close>

definition get_server :: "nova_lib \<Rightarrow> server_arg \<Rightarrow> string option \<Rightarrow> 'w nova_ref \<Rightarrow> (string \<times> pyval) list \<Rightarrow> ('w, nova_server) act" where
  "get_server L server server_id client params =
     bindA (lift_res (get_server_id server server_id)) (\<lambda>i. not_found L i params (bindA client (\<lambda>c. na_get c i params)))"

definition delete_server :: "nova_lib \<Rightarrow> server_arg \<Rightarrow> string option \<Rightarrow> 'w nova_ref \<Rightarrow> (string \<times> pyval) list \<Rightarrow> ('w, unit) act" where
  "delete_server L server server_id client params =
     bindA (lift_res (get_server_id server server_id)) (\<lambda>i. not_found L i params (bindA client (\<lambda>c. na_delete c i params)))"

text \<open>Of several texts that the reason holds, the last one of the code decides.\<close>

definition migration_error_class :: "string \<Rightarrow> pyclass" where
  "migration_error_class reason =
     (let c = MigrateServerError;
          c = (if str_in ''No valid host was found'' reason then NoValidHostFoundMigrateServerError else c);
          c = (if str_in ''Migration pre-check error'' reason then PreCheckMigrateServerError else c);
          c = (if str_in ''is not on shared storage'' reason then NotInSharedStorageMigrateServerError else c)
      in if str_in ''is not on local storage'' reason then NotInLocalStorageMigrateServerError else c)"

definition handle_migration_errors :: "nova_lib \<Rightarrow> string \<Rightarrow> (string \<times> pyval) list \<Rightarrow> ('w, 'a) act \<Rightarrow> ('w, 'a) act" where
  "handle_migration_errors L server_id params m =
     try_except m (nl_bad_request L)
       (\<lambda>ex. raise_act (cloud_error (migration_error_class (exn_msg ex)) migrate_template
          [(''server_id'', PText server_id), (''reason'', PText (exn_msg ex)), (''params'', PDict params)]))"

definition migrate_server ::
  "nova_lib \<Rightarrow> server_arg \<Rightarrow> string option \<Rightarrow> string option \<Rightarrow> 'w nova_ref \<Rightarrow> (string \<times> pyval) list \<Rightarrow> ('w, unit) act" where
  "migrate_server L server server_id host client params =
     bindA (lift_res (get_server_id server server_id)) (\<lambda>i.
       (let params = (case host of None \<Rightarrow> params | Some h \<Rightarrow> dict_set params ''host'' (PText h))
        in handle_migration_errors L i params (bindA client (\<lambda>c. na_action c ''migrate'' i params))))"

definition live_migrate_server ::
  "nova_lib \<Rightarrow> server_arg \<Rightarrow> string option \<Rightarrow> string option \<Rightarrow> bool option \<Rightarrow> 'w nova_ref \<Rightarrow> (string \<times> pyval) list \<Rightarrow> ('w, unit) act" where
  "live_migrate_server L server server_id host block_migration client params =
     bindA (lift_res (get_server_id server server_id)) (\<lambda>i.
       (let params = dict_set params ''host'' (case host of None \<Rightarrow> PNone | Some h \<Rightarrow> PText h);
            params = dict_set params ''block_migration'' (case block_migration of None \<Rightarrow> PText ''auto'' | Some b \<Rightarrow> PBool b)
        in handle_migration_errors L i params (bindA client (\<lambda>c. na_live_migrate c i params))))"

definition confirm_resize :: "server_arg \<Rightarrow> string option \<Rightarrow> 'w nova_ref \<Rightarrow> (string \<times> pyval) list \<Rightarrow> ('w, unit) act" where
  "confirm_resize server server_id client params =
     bindA (lift_res (get_server_id server server_id)) (\<lambda>i. bindA client (\<lambda>c. na_confirm_resize c i params))"

section \<open>The console\<close>

definition MAX_SERVER_CONSOLE_OUTPUT_LENGTH :: int where
  "MAX_SERVER_CONSOLE_OUTPUT_LENGTH = 1024 * 256"

definition console_length :: "int option \<Rightarrow> int" where
  "console_length n =
     (case n of None \<Rightarrow> MAX_SERVER_CONSOLE_OUTPUT_LENGTH | Some k \<Rightarrow> min k MAX_SERVER_CONSOLE_OUTPUT_LENGTH)"

text \<open>
  One turn. An exception of the kinds that the code catches makes it look at the status of the server, with the
  default client \<open>dflt\<close>; what ends the loop is the text, or None.
\<close>

definition give_up :: "retry_attempt \<Rightarrow> ('w, string option turn) act" where
  "give_up attempt = bindA (lift_res (is_last None attempt)) (\<lambda>b. ret (if b then Done None else Next))"

definition console_turn ::
  "nova_lib \<Rightarrow> 'w nova_ref \<Rightarrow> 'w nova_ref \<Rightarrow> string \<Rightarrow> int \<Rightarrow> retry_attempt \<Rightarrow> ('w, string option turn) act" where
  "console_turn L dflt client i n attempt w =
     (case bindA client (\<lambda>c. na_console c i n) w of
        (Inl e, w') \<Rightarrow>
          if isinstance_exn e PyTypeError \<or> nl_not_found L e
          then bindA (get_server L NoServer (Some i) dflt [])
                 (\<lambda>s. if ns_status s \<noteq> ''ACTIVE'' then ret (Done None) else give_up attempt) w'
          else (Inl e, w')
      | (Inr output, w') \<Rightarrow>
          (case output of
             Some (c # cs) \<Rightarrow> (Inr (Done (Some (c # cs))), w')
           | _ \<Rightarrow> give_up attempt w'))"

definition get_console_output ::
  "nova_lib \<Rightarrow> 'z world_scheme nova_ref \<Rightarrow> server_arg \<Rightarrow> string option \<Rightarrow> rat option \<Rightarrow> rat option \<Rightarrow> int option \<Rightarrow>
   'z world_scheme nova_ref \<Rightarrow> ('z world_scheme, string option) pact" where
  "get_console_output L dflt server server_id timeout interval n client =
     bindP (liftP (lift_res (get_server_id server server_id))) (\<lambda>i.
       retry_iter py_time py_sleep (retry None None timeout None interval None (Some 60) None (Some 5))
         (console_turn L dflt client i (console_length n)))"

definition boot_stuck_indicators :: "string list" where
  "boot_stuck_indicators = [''I/O error, dev vda'', ''forced readonly'']"

definition is_boot_stuck :: "string \<Rightarrow> bool" where
  "is_boot_stuck console_output = list_all (\<lambda>i. str_in i console_output) boot_stuck_indicators"

definition login_prompted :: "string \<Rightarrow> bool" where
  "login_prompted console_output = list_ex (\<lambda>line. str_in ''login:'' (str_lower line)) (splitlines console_output)"

definition guest_ready_turn ::
  "nova_lib \<Rightarrow> 'z world_scheme nova_ref \<Rightarrow> string \<Rightarrow> 'z world_scheme nova_ref \<Rightarrow> retry_attempt \<Rightarrow>
   ('z world_scheme, unit turn) pact" where
  "guest_ready_turn L dflt i client attempt =
     bindP (get_console_output L dflt NoServer (Some i) None None None client) (\<lambda>output.
       (let text = (case output of None \<Rightarrow> [] | Some t \<Rightarrow> t)
        in if login_prompted text then retP (Done ())
           else if is_boot_stuck text
           then raiseP (cloud_error BootStuckError
                  ''Server '{server_id}' boot is stuck due to disk I/O errors detected in the console output''
                  [(''server_id'', PText i)])
           else retP Next))"

definition wait_for_guest_os_ready ::
  "nova_lib \<Rightarrow> 'z world_scheme nova_ref \<Rightarrow> server_arg \<Rightarrow> string option \<Rightarrow> rat option \<Rightarrow> rat option \<Rightarrow>
   'z world_scheme nova_ref \<Rightarrow> ('z world_scheme, unit) pact" where
  "wait_for_guest_os_ready L dflt server server_id timeout interval client =
     bindP (liftP (lift_res (get_server_id server server_id))) (\<lambda>i.
       retry_piter py_time py_sleep (retry None None timeout None interval None None None None)
         (guest_ready_turn L dflt i client))"

section \<open>Waiting for a status\<close>

definition nova_transient_status :: "string \<Rightarrow> string list" where
  "nova_transient_status status =
     (if status = ''ACTIVE'' then [''BUILD'', ''SHUTOFF'', ''REBOOT'']
      else if status = ''SHUTOFF'' then [''ACTIVE'']
      else if status = ''VERIFY_RESIZE'' then [''RESIZE''] else [])"

definition wait_error :: "string \<Rightarrow> nova_server \<Rightarrow> string \<Rightarrow> exn" where
  "wait_error i s status =
     cloud_error WaitForServerStatusError ''Server {server_id} not changing status from {server_status} to {status}''
       [(''server_id'', PText i), (''server_status'', PText (ns_status s)), (''status'', PText status)]"

text \<open>The message of a timeout prints the argument, also when the default applies.\<close>

definition wait_timeout :: "nova_lib \<Rightarrow> string \<Rightarrow> nova_server \<Rightarrow> string \<Rightarrow> rat option \<Rightarrow> exn" where
  "wait_timeout L i s status timeout =
     cloud_error WaitForServerStatusTimeout
       ''Server {server_id} didn't change its status from {server_status} to {status} status after {timeout} seconds''
       [(''server_id'', PText i), (''server_status'', PText (ns_status s)), (''status'', PText status),
        (''timeout'', case timeout of None \<Rightarrow> PNone | Some t \<Rightarrow> PText (nl_show L t))]"

definition status_wait_turn ::
  "nova_lib \<Rightarrow> 'w nova_ref \<Rightarrow> string \<Rightarrow> string \<Rightarrow> string list \<Rightarrow> rat option \<Rightarrow> retry_attempt \<Rightarrow> ('w, nova_server turn) act" where
  "status_wait_turn L client i status transient timeout attempt =
     bindA (get_server L NoServer (Some i) client []) (\<lambda>s.
       if ns_status s = status then ret (Done s)
       else if ns_status s \<notin> set transient then raise_act (wait_error i s status)
       else (case check_time_left None attempt of
               Inl e \<Rightarrow> raise_act (if isinstance_exn e RetryTimeLimitError then wait_timeout L i s status timeout else e)
             | Inr _ \<Rightarrow> ret Next))"

definition wait_for_server_status ::
  "nova_lib \<Rightarrow> server_arg \<Rightarrow> string \<Rightarrow> 'z world_scheme nova_ref \<Rightarrow> rat option \<Rightarrow> rat option \<Rightarrow> string list option \<Rightarrow>
   ('z world_scheme, nova_server) pact" where
  "wait_for_server_status L server status client timeout sleep_time transient =
     (let transient = (case transient of None \<Rightarrow> nova_transient_status status | Some t \<Rightarrow> t)
      in bindP (liftP (lift_res (get_server_id server None))) (\<lambda>i.
           retry_iter py_time py_sleep (retry None None timeout None sleep_time None (Some 300) None (Some 3))
             (status_wait_turn L client i status transient timeout)))"

section \<open>Changing the status\<close>

definition shutoff_server ::
  "nova_lib \<Rightarrow> server_arg \<Rightarrow> 'z world_scheme nova_ref \<Rightarrow> rat option \<Rightarrow> rat option \<Rightarrow> ('z world_scheme, nova_server) pact" where
  "shutoff_server L server client timeout sleep_time =
     bindP (liftP client) (\<lambda>c.
     bindP (liftP (get_server L server None (ret c) [])) (\<lambda>s.
       if ns_status s = ''SHUTOFF'' then retP s
       else bindP (liftP (na_stop c (ns_id s))) (\<lambda>_.
              wait_for_server_status L (ServerId (ns_id s)) ''SHUTOFF'' (ret c) timeout sleep_time None)))"

definition activate_server ::
  "nova_lib \<Rightarrow> server_arg \<Rightarrow> 'z world_scheme nova_ref \<Rightarrow> rat option \<Rightarrow> rat option \<Rightarrow> ('z world_scheme, nova_server) pact" where
  "activate_server L server client timeout sleep_time =
     bindP (liftP client) (\<lambda>c.
     bindP (liftP (get_server L server None (ret c) [])) (\<lambda>s.
       if ns_status s = ''ACTIVE'' then retP s
       else bindP
         (if ns_status s = ''SHUTOFF'' then bindP (liftP (na_start c (ns_id s))) (\<lambda>_. retP s)
          else if ns_status s = ''RESIZE''
          then bindP (wait_for_server_status L (ServerId (ns_id s)) ''VERIFY_RESIZE'' (ret c) timeout sleep_time None) (\<lambda>s'.
               bindP (liftP (na_confirm_resize c (ns_id s') [])) (\<lambda>_. retP s'))
          else if ns_status s = ''VERIFY_RESIZE'' then bindP (liftP (na_confirm_resize c (ns_id s) [])) (\<lambda>_. retP s)
          else if ns_status s \<noteq> ''REBOOT'' then bindP (liftP (na_reboot c (ns_id s) (Some ''HARD''))) (\<lambda>_. retP s)
          else retP s)
         (\<lambda>s'. wait_for_server_status L (ServerId (ns_id s')) ''ACTIVE'' (ret c) timeout sleep_time None)))"

definition reboot_server ::
  "nova_lib \<Rightarrow> server_arg \<Rightarrow> 'z world_scheme nova_ref \<Rightarrow> rat option \<Rightarrow> rat option \<Rightarrow> ('z world_scheme, nova_server) pact" where
  "reboot_server L server client timeout sleep_time =
     bindP (liftP client) (\<lambda>c.
     bindP (liftP (get_server L server None (ret c) [])) (\<lambda>s.
       if ns_status s = ''REBOOT'' then retP s
       else bindP (liftP (if ns_status s = ''SHUTOFF'' then na_start c (ns_id s) else na_reboot c (ns_id s) None)) (\<lambda>_.
              wait_for_server_status L (ServerId (ns_id s)) ''ACTIVE'' (ret c) timeout sleep_time None)))"

definition ensure_server_status ::
  "nova_lib \<Rightarrow> server_arg \<Rightarrow> string \<Rightarrow> 'z world_scheme nova_ref \<Rightarrow> rat option \<Rightarrow> rat option \<Rightarrow> ('z world_scheme, nova_server) pact" where
  "ensure_server_status L server status client timeout sleep_time =
     (if status = ''ACTIVE'' then activate_server L server client timeout sleep_time
      else if status = ''SHUTOFF'' then shutoff_server L server client timeout sleep_time
      else raiseP (Exn PyValueError (''Unsupported server status: '' @ str_repr status)))"

section \<open>What waiting returns\<close>

lemma nova_turn_Done:
  "status_wait_turn L client i status tr timeout a w = (Inr (Done s), w') \<Longrightarrow>
     ns_status s = status \<and> get_server L NoServer (Some i) client [] w = (Inr s, w')"
  by (auto simp: status_wait_turn_def bindA_eq_Inr ret_def raise_act_def split: if_splits sum.splits)

lemma status_turn_Next:
  "status_wait_turn L client i status tr timeout a w = (Inr Next, w') \<Longrightarrow>
     \<exists>s. get_server L NoServer (Some i) client [] w = (Inr s, w') \<and> ns_status s \<in> set tr \<and> (\<exists>t. check_time_left None a = Inr t)"
  by (auto simp: status_wait_turn_def bindA_eq_Inr ret_def raise_act_def split: if_splits sum.splits)

lemma time_limit_class: "check_time_left None a = Inl e \<Longrightarrow> isinstance_exn e RetryTimeLimitError"
  by (auto simp: check_time_left_def isinstance_exn_def issubclass_def RetryTimeLimitError_def exc_info_def info_reraise_def
      split: if_splits sum.splits)

lemma status_turn_Inl:
  assumes "status_wait_turn L client i status tr timeout a w = (Inl e, w')"
  shows "get_server L NoServer (Some i) client [] w = (Inl e, w') \<or>
     (\<exists>s. ns_status s \<noteq> status \<and>
        ((ns_status s \<notin> set tr \<and> e = wait_error i s status) \<or> (ns_status s \<in> set tr \<and> e = wait_timeout L i s status timeout)))"
  using assms
  by (auto simp: status_wait_turn_def bindA_def ret_def raise_act_def dest: time_limit_class
      split: if_splits sum.splits prod.splits)

lemma wait_status_returns:
  assumes "wait_for_server_status L server status client timeout sleep_time tr w = Some (Inr s, w')"
  shows "ns_status s = status \<and> (\<exists>i u. get_server L NoServer (Some i) client [] u = (Inr s, w'))"
proof -
  obtain i R tr' where "retry_iter py_time py_sleep R (status_wait_turn L client i status tr' timeout) w = Some (Inr s, w')"
    using assms by (auto simp: wait_for_server_status_def Let_def bindP_def liftP_def lift_res_def split: sum.splits)
  then show ?thesis by (rule iter_returns) (blast dest: nova_turn_Done)
qed

lemma valid_wait_status:
  "valid P (wait_for_server_status L server status client timeout sleep_time tr) (post (\<lambda>e s. True) (\<lambda>x s. ns_status x = status))"
  by (auto simp: valid_def post_def split: sum.split dest: wait_status_returns)

lemma valid_activate:
  "valid (\<lambda>w. True) (activate_server L server client timeout sleep_time) (post (\<lambda>e s. True) (\<lambda>x s. ns_status x = ''ACTIVE''))"
  unfolding activate_server_def by (intro valid_after valid_if valid_wait_status valid_ret) simp

lemma valid_shutoff:
  "valid (\<lambda>w. True) (shutoff_server L server client timeout sleep_time) (post (\<lambda>e s. True) (\<lambda>x s. ns_status x = ''SHUTOFF''))"
  unfolding shutoff_server_def by (intro valid_after valid_if valid_wait_status valid_ret) simp

text \<open>
  \<open>ensure_server_status\<close> returns only a server that Nova has shown in the
  status asked for, whatever had to be done to the server to bring it there.
\<close>

theorem ensured_status:
  assumes "ensure_server_status L server status client timeout sleep_time w = Some (Inr s, w')"
  shows "ns_status s = status"
  using assms validD[OF valid_activate TrueI, of L server client timeout sleep_time w "Inr s" w']
    validD[OF valid_shutoff TrueI, of L server client timeout sleep_time w "Inr s" w']
  by (auto simp: ensure_server_status_def raiseP_def split: if_splits)

text \<open>
  Waiting that fails does so with the error of Nova for the server, with the error for a status
  that is not expected on the way, or with the timeout of the server: never with the time limit
  of the retry itself.
\<close>

theorem wait_status_raises:
  assumes "wait_for_server_status L server status client timeout sleep_time tr w = Some (Inl e, w')"
    and "get_server_id server None = Inr i"
  shows "(\<exists>u. get_server L NoServer (Some i) client [] u = (Inl e, w'))
       \<or> exn_class e = WaitForServerStatusError \<or> exn_class e = WaitForServerStatusTimeout"
proof -
  let ?R = "retry None None timeout None sleep_time None (Some 300) None (Some 3)"
  obtain tr' where it: "retry_iter py_time py_sleep ?R (status_wait_turn L client i status tr' timeout) w = Some (Inl e, w')"
    using assms by (auto simp: wait_for_server_status_def Let_def bindP_def liftP_def lift_res_def split: sum.splits)
  have none: "rt_count ?R = None" by (simp add: retry_def mk_retry_def Let_def)
  have turn: "check_limits None a = Inr ()"
    if "at_count a = rt_count ?R" and "status_wait_turn L client i status tr' timeout a u = (Inr Next, v)" for a u v
    using status_turn_Next[OF that(2)] that(1) none by (auto simp: check_limits_def check_count_left_def count_left_def)
  have "\<exists>a u. status_wait_turn L client i status tr' timeout a u = (Inl e, w')"
    by (rule iter_raises_own[OF it]) (rule turn)
  then obtain a u where "status_wait_turn L client i status tr' timeout a u = (Inl e, w')" by blast
  moreover have "exn_class (wait_error i s status) = WaitForServerStatusError" for s
    unfolding wait_error_def by (rule cloud_error_class) code_simp
  moreover have "exn_class (wait_timeout L i s status timeout) = WaitForServerStatusTimeout" for s
    unfolding wait_timeout_def by (rule cloud_error_class) code_simp
  ultimately show ?thesis using status_turn_Inl by metis
qed

section \<open>Waiting ends\<close>

lemma get_server_slow: "asks_slowly d (na_get c i []) \<Longrightarrow> asks_slowly d (get_server L NoServer (Some i) (ret c) [])"
proof (erule asks_slowly_like)
  fix w show "snd (get_server L NoServer (Some i) (ret c) [] w) = snd (na_get c i [] w)"
    by (cases "na_get c i [] w"; cases "fst (na_get c i [] w)")
      (simp_all add: get_server_def get_server_id_def not_found_def bindA_def lift_res_def try_except_def ret_def raise_act_def)
qed

lemma wait_status_ends:
  assumes "\<And>i. asks_slowly d (na_get c i [])"
  shows "ends (wait_for_server_status L server status (ret c) timeout sleep_time tr)"
  unfolding wait_for_server_status_def Let_def
proof (rule ends_bind)
  fix i
  obtain t where t: "rt_timeout (retry None None timeout None sleep_time None (Some 300) None (Some 3)) = Some t"
    using default_timeout by blast
  have slow: "asks_slowly d (get_server L NoServer (Some i) (ret c) [])" by (rule get_server_slow) (rule assms)
  show "ends (retry_iter py_time py_sleep (retry None None timeout None sleep_time None (Some 300) None (Some 3))
     (status_wait_turn L (ret c) i status (case tr of None \<Rightarrow> nova_transient_status status | Some t \<Rightarrow> t) timeout))"
    by (rule slow_turns_end[OF _ _ t]) (use slow asks_slowly_at[OF slow] in \<open>auto simp: asks_slowly_def dest!: status_turn_Next\<close>)
qed simp

text \<open>
  Whatever Nova answers to the requests, \<open>ensure_server_status\<close> comes to an end,
  as soon as looking at a server takes some time, however little.
\<close>

theorem ensure_status_ends:
  assumes "\<And>u c u' i. client u = (Inr c, u') \<Longrightarrow> asks_slowly d (na_get c i [])"
  shows "ends (ensure_server_status L server status client timeout sleep_time)"
proof -
  have "ends (activate_server L server client timeout sleep_time)"
    unfolding activate_server_def
  proof (rule ends_bind_lift)
    fix u c u' assume "client u = (Inr c, u')"
    note wait = wait_status_ends[of d c, OF assms[OF this]]
    show "ends (bindP (liftP (get_server L server None (ret c) [])) (\<lambda>s. if ns_status s = ''ACTIVE'' then retP s
        else bindP
         (if ns_status s = ''SHUTOFF'' then bindP (liftP (na_start c (ns_id s))) (\<lambda>_. retP s)
          else if ns_status s = ''RESIZE''
          then bindP (wait_for_server_status L (ServerId (ns_id s)) ''VERIFY_RESIZE'' (ret c) timeout sleep_time None) (\<lambda>s'.
               bindP (liftP (na_confirm_resize c (ns_id s') [])) (\<lambda>_. retP s'))
          else if ns_status s = ''VERIFY_RESIZE'' then bindP (liftP (na_confirm_resize c (ns_id s) [])) (\<lambda>_. retP s)
          else if ns_status s \<noteq> ''REBOOT'' then bindP (liftP (na_reboot c (ns_id s) (Some ''HARD''))) (\<lambda>_. retP s)
          else retP s)
         (\<lambda>s'. wait_for_server_status L (ServerId (ns_id s')) ''ACTIVE'' (ret c) timeout sleep_time None)))"
      by (simp add: ends_bind wait)
  qed
  moreover have "ends (shutoff_server L server client timeout sleep_time)"
    unfolding shutoff_server_def
  proof (rule ends_bind_lift)
    fix u c u' assume "client u = (Inr c, u')"
    note wait = wait_status_ends[of d c, OF assms[OF this]]
    show "ends (bindP (liftP (get_server L server None (ret c) [])) (\<lambda>s. if ns_status s = ''SHUTOFF'' then retP s
       else bindP (liftP (na_stop c (ns_id s))) (\<lambda>_.
              wait_for_server_status L (ServerId (ns_id s)) ''SHUTOFF'' (ret c) timeout sleep_time None)))"
      by (simp add: ends_bind wait)
  qed
  ultimately show ?thesis by (simp add: ensure_server_status_def)
qed

section \<open>The console\<close>

lemma give_up_none [simp]: "give_up a u = (Inr (Done (Some t)), v) \<longleftrightarrow> False"
  by (simp add: give_up_def bindA_def lift_res_def ret_def split: sum.splits)

lemma console_turn_Done:
  assumes "console_turn L dflt client i n a w = (Inr (Done (Some t)), w')"
  shows "t \<noteq> [] \<and> (\<exists>c u. client w = (Inr c, u) \<and> na_console c i n u = (Inr (Some t), w'))"
proof -
  obtain r u where m: "bindA client (\<lambda>c. na_console c i n) w = (r, u)" by (cases "bindA client (\<lambda>c. na_console c i n) w")
  show ?thesis
  proof (cases r)
    case (Inl e)
    with assms m show ?thesis
      by (auto simp: console_turn_def bindA_eq_Inr ret_def split: if_splits)
  next
    case (Inr o')
    with assms m have "t \<noteq> [] \<and> o' = Some t \<and> u = w'"
      by (auto simp: console_turn_def split: option.splits list.splits)
    with m Inr show ?thesis by (auto simp: bindA_eq_Inr)
  qed
qed

text \<open>
  Console output is what Nova answered last for the server; it is never an empty
  text, and it was asked for with a length of at most 256 KiB.
\<close>

theorem console_output_answered:
  assumes "get_console_output L dflt server server_id timeout interval n client w = Some (Inr (Some t), w')"
  shows "t \<noteq> [] \<and> (\<exists>i k c u v. get_server_id server server_id = Inr i \<and> k \<le> 1024 * 256 \<and> (\<forall>m. n = Some m \<longrightarrow> k \<le> m)
           \<and> client u = (Inr c, v) \<and> na_console c i k v = (Inr (Some t), w'))"
proof -
  obtain i where i: "get_server_id server server_id = Inr i"
    and it: "retry_iter py_time py_sleep (retry None None timeout None interval None (Some 60) None (Some 5))
        (console_turn L dflt client i (console_length n)) w = Some (Inr (Some t), w')"
    using assms by (auto simp: get_console_output_def bindP_def liftP_def lift_res_def split: sum.splits)
  have k: "console_length n \<le> 1024 * 256 \<and> (\<forall>m. n = Some m \<longrightarrow> console_length n \<le> m)"
    by (cases n) (simp_all add: console_length_def MAX_SERVER_CONSOLE_OUTPUT_LENGTH_def)
  show ?thesis by (rule iter_returns[OF it], drule console_turn_Done) (use i k in blast)
qed

text \<open>
  An argument that is not a client is not reported: the exception for it is taken for a missing
  console, and the server is looked for with the default client.
\<close>

lemma console_wrong_client:
  assumes "client w = (Inl e, w')" and "isinstance_exn e PyTypeError"
    and "get_server L NoServer (Some i) dflt [] w' = (Inr s, w'')" and "ns_status s \<noteq> ''ACTIVE''"
  shows "get_console_output L dflt NoServer (Some i) timeout interval n client w = Some (Inr None, w'')"
proof -
  have "console_turn L dflt client i k a w = (Inr (Done None), w'')" for k a
    using assms by (simp add: console_turn_def bindA_def ret_def)
  from retry_iter_first[where body = "console_turn L dflt client i (console_length n)", OF this]
  show ?thesis by (simp add: get_console_output_def bindP_def liftP_def lift_res_def get_server_id_def)
qed

text \<open>
  A guest is ready only when its console, the last time it was read, prompted for a login.
\<close>

theorem guest_ready_prompted:
  assumes "wait_for_guest_os_ready L dflt server server_id timeout interval client w = Some (Inr (), w')"
  shows "\<exists>i t u. get_console_output L dflt NoServer (Some i) None None None client u = Some (Inr (Some t), w') \<and> login_prompted t"
proof -
  obtain i R where "retry_piter py_time py_sleep R (guest_ready_turn L dflt i client) w = Some (Inr (), w')"
    using assms by (auto simp: wait_for_guest_os_ready_def bindP_def liftP_def lift_res_def split: sum.splits)
  then show ?thesis
  proof (rule piter_returns)
    fix a u assume "guest_ready_turn L dflt i client a u = Some (Inr (Done ()), w')"
    then obtain t where t: "get_console_output L dflt NoServer (Some i) None None None client u = Some (Inr t, w')"
        "login_prompted (case t of None \<Rightarrow> [] | Some t \<Rightarrow> t)"
      by (auto simp: guest_ready_turn_def bindP_def retP_def raiseP_def Let_def split: option.splits sum.splits prod.splits if_splits)
    have "\<not> login_prompted []" by (simp add: login_prompted_def splitlines_def)
    with t show ?thesis by (cases t) auto
  qed
qed

section \<open>A cloud\<close>

text \<open>A server that is shut off until it has been running for a second; an answer takes a second.\<close>

definition demo_server :: "string \<Rightarrow> nova_server" where
  "demo_server status = \<lparr>ns_id = ''1'', ns_status = status, ns_attributes = []\<rparr>"

definition demo_nova :: "world nova_api" where
  "demo_nova = \<lparr>na_servers = ret [], na_hypervisors = (\<lambda>b. ret []), na_services = ret [],
     na_get = (\<lambda>i ps w. (Inr (demo_server (if wtime w < 1 then ''SHUTOFF'' else ''ACTIVE'')), w\<lparr>wtime := wtime w + 1\<rparr>)),
     na_delete = (\<lambda>i ps. ret ()), na_action = (\<lambda>a i ps. ret ()), na_live_migrate = (\<lambda>i ps. ret ()),
     na_confirm_resize = (\<lambda>i ps. ret ()), na_console = (\<lambda>i n. ret (Some ''login: '')), na_start = (\<lambda>i. ret ()),
     na_stop = (\<lambda>i. ret ()), na_reboot = (\<lambda>i t. ret ())\<rparr>"

definition demo_nova_lib :: nova_lib where
  "demo_nova_lib = \<lparr>nl_not_found = (\<lambda>e. isinstance_exn e [''NotFound'']), nl_bad_request = (\<lambda>e. False), nl_show = (\<lambda>r. [])\<rparr>"

lemma demo_get_server:
  "get_server demo_nova_lib (ServerId i) None (ret demo_nova) [] w
     = (Inr (demo_server (if wtime w < 1 then ''SHUTOFF'' else ''ACTIVE'')), w\<lparr>wtime := wtime w + 1\<rparr>)"
  "get_server demo_nova_lib NoServer (Some i) (ret demo_nova) [] w
     = (Inr (demo_server (if wtime w < 1 then ''SHUTOFF'' else ''ACTIVE'')), w\<lparr>wtime := wtime w + 1\<rparr>)"
  by (simp_all add: get_server_def get_server_id_def not_found_def demo_nova_def bindA_def lift_res_def ret_def try_except_def)

lemma demo_activated:
  "ensure_server_status demo_nova_lib (ServerId ''1'') ''ACTIVE'' (ret demo_nova) None None \<lparr>wtime = 0\<rparr>
     = Some (Inr (demo_server ''ACTIVE''), \<lparr>wtime = 2\<rparr>)"
proof -
  have turn: "status_wait_turn demo_nova_lib (ret demo_nova) i ''ACTIVE'' tr None a \<lparr>wtime = 1\<rparr>
      = (Inr (Done (demo_server ''ACTIVE'')), \<lparr>wtime = 2\<rparr>)" for i tr a
    by (simp add: status_wait_turn_def bindA_def demo_get_server demo_server_def ret_def)
  have "retry_iter py_time py_sleep R (status_wait_turn demo_nova_lib (ret demo_nova) i ''ACTIVE'' tr None) \<lparr>wtime = 1\<rparr>
      = Some (Inr (demo_server ''ACTIVE''), \<lparr>wtime = 2\<rparr>)" for R i tr
    by (rule retry_iter_first) (rule turn)
  then show ?thesis
    by (simp add: ensure_server_status_def activate_server_def wait_for_server_status_def get_server_id_def bindP_def liftP_def
        lift_res_def ret_def demo_get_server demo_server_def demo_nova_def[THEN arg_cong[where f = na_start]] retP_def)
qed

lemma ensured_status_witness: "ns_status (demo_server ''ACTIVE'') = ''ACTIVE''"
  by (rule ensured_status[OF demo_activated])

lemma ensure_status_ends_witness: "ends (ensure_server_status demo_nova_lib NoServer ''SHUTOFF'' (ret demo_nova) (Some 10) None)"
  by (rule ensure_status_ends[where d = 1]) (auto simp: ret_def demo_nova_def asks_slowly_def py_time_def)

lemma console_output_answered_witness:
  "''login: '' \<noteq> [] \<and> (\<exists>i k c u v. get_server_id (ServerId ''1'') None = Inr i \<and> k \<le> 1024 * 256 \<and> (\<forall>m. None = Some m \<longrightarrow> k \<le> m)
     \<and> ret demo_nova u = (Inr c, v) \<and> na_console c i k v = (Inr (Some ''login: ''), \<lparr>wtime = 0\<rparr>))"
proof (rule console_output_answered)
  have "console_turn demo_nova_lib (ret demo_nova) (ret demo_nova) i n a \<lparr>wtime = 0\<rparr> = (Inr (Done (Some ''login: '')), \<lparr>wtime = 0\<rparr>)"
    for i n a by (simp add: console_turn_def bindA_def ret_def demo_nova_def)
  from retry_iter_first[where body = "console_turn demo_nova_lib (ret demo_nova) (ret demo_nova) i n" for i n, OF this]
  show "get_console_output demo_nova_lib (ret demo_nova) (ServerId ''1'') None None None None (ret demo_nova) \<lparr>wtime = 0\<rparr>
      = Some (Inr (Some ''login: ''), \<lparr>wtime = 0\<rparr>)"
    by (simp add: get_console_output_def bindP_def liftP_def lift_res_def get_server_id_def)
qed

end
