(* ===== verification/Openstack_Clients.thy ===== *)
theory Openstack_Clients
  imports Keystone_Credentials Registry
begin

text \<open>
  tobiko/openstack/keystone/_session.py and tobiko/openstack/_client.py, with what the modules
  of the services make of it: Keystone sessions by credentials and clients by session, each made
  once and shared. Fixtures are numbers of a list that grows; the state is the world with the
  fixtures and the table of a manager. The Keystone library and the client libraries are
  parameters.
\<close>

section \<open>Keystone sessions\<close>

record ('f, 's) session_fixture =
  sf_credentials :: "'f credentials_arg"
  sf_session :: "'s option"

text \<open>\<open>se_load\<close>: an authentication plugin made of the options, and a session made of it.\<close>

record ('w, 'f, 's) session_env =
  se_default :: "('w, credentials) act"
  se_credentials_of :: "'f \<Rightarrow> ('w, credentials option) act"
  se_load :: "(string \<times> pyval) list \<Rightarrow> ('w, 's) act"

definition session_credentials ::
  "('w, 'f, 's) session_env \<Rightarrow> ('w \<times> ('f, 's) session_fixture, credentials) act" where
  "session_credentials E s =
     (case sf_credentials (snd s) of
        Credentials c \<Rightarrow> (Inr c, s)
      | arg \<Rightarrow>
          bindA (on_fst (case arg of
                           FixtureArg f \<Rightarrow> keystone_credentials (se_default E) (se_credentials_of E) arg []
                         | _ \<Rightarrow> se_default E))
            (\<lambda>c. bindA (set_snd (\<lambda>x. x\<lparr>sf_credentials := Credentials c\<rparr>)) (\<lambda>_. ret c)) s)"

definition session_options :: "credentials \<Rightarrow> (string \<times> pyval) list" where
  "session_options c = filter (\<lambda>(k, v). k \<noteq> ''api_version'' \<and> k \<noteq> ''cacert'') (to_dict c)"

definition session_get ::
  "('w, 'f, 's) session_env \<Rightarrow> ('w \<times> ('f, 's) session_fixture, 's) act" where
  "session_get E =
     bindA (session_credentials E) (\<lambda>c.
     bindA (lift_res (validate None c)) (\<lambda>_.
       on_fst (se_load E (session_options c))))"

definition setup_session ::
  "('w, 'f, 's) session_env \<Rightarrow> ('w \<times> ('f, 's) session_fixture, unit) act" where
  "setup_session E s =
     (if sf_session (snd s) = None
      then bindA (session_get E) (\<lambda>x. set_snd (\<lambda>f. f\<lparr>sf_session := Some x\<rparr>)) s
      else (Inr (), s))"

record ('f, 's) sessions =
  sm_fixtures :: "('f, 's) session_fixture list"
  sm_sessions :: "credentials \<rightharpoonup> nat"

text \<open>Setting a fixture of the list up; its \<open>session\<close> is what \<open>setup_session\<close> left there.\<close>

definition setup_session_at ::
  "('w, 'f, 's) session_env \<Rightarrow> nat \<Rightarrow> ('w \<times> ('f, 's) sessions, 's option) act" where
  "setup_session_at E n s =
     (if n < length (sm_fixtures (snd s))
      then (case setup_session E (fst s, sm_fixtures (snd s) ! n) of
              (r, (w, f)) \<Rightarrow>
                (map_sum id (\<lambda>_. sf_session f) r, (w, (snd s)\<lparr>sm_fixtures := (sm_fixtures (snd s))[n := f]\<rparr>)))
      else (Raise PyTypeError ''not a fixture'', s))"

definition init_session :: "credentials \<Rightarrow> ('w \<times> ('f, 's) sessions, nat option) act" where
  "init_session c s =
     (Inr (Some (length (sm_fixtures (snd s)))),
      (fst s, (snd s)\<lparr>sm_fixtures := sm_fixtures (snd s) @ [\<lparr>sf_credentials = Credentials c, sf_session = None\<rparr>]\<rparr>))"

text \<open>None: the object that the given function makes is not a \<open>KeystoneSessionFixture\<close>.\<close>

definition create_session ::
  "credentials \<Rightarrow> (credentials \<Rightarrow> ('w \<times> ('f, 's) sessions, nat option) act) option \<Rightarrow>
   ('w \<times> ('f, 's) sessions, nat) act" where
  "create_session c init =
     bindA (case init of None \<Rightarrow> init_session c | Some f \<Rightarrow> f c)
       (\<lambda>n. case n of None \<Rightarrow> raise_act (Exn PyTypeError ''Object is not of a valid type'') | Some n \<Rightarrow> ret n)"

definition find_session :: "'w \<times> ('f, 's) sessions \<Rightarrow> credentials \<Rightarrow> nat option" where
  "find_session s c = sm_sessions (snd s) c"

definition put_session :: "credentials \<Rightarrow> nat \<Rightarrow> 'w \<times> ('f, 's) sessions \<Rightarrow> 'w \<times> ('f, 's) sessions" where
  "put_session c n s = (fst s, (snd s)\<lparr>sm_sessions := (sm_sessions (snd s))(c \<mapsto> n)\<rparr>)"

interpretation session_table: memo_table find_session put_session
  by unfold_locales (simp add: find_session_def put_session_def)

definition manager_get_session ::
  "('w, 'f, 's) session_env \<Rightarrow> 'f credentials_arg \<Rightarrow>
   (credentials \<Rightarrow> ('w \<times> ('f, 's) sessions, nat option) act) option \<Rightarrow> bool \<Rightarrow> ('w \<times> ('f, 's) sessions, nat) act" where
  "manager_get_session E arg init shared =
     bindA (on_fst (keystone_credentials (se_default E) (se_credentials_of E) arg [])) (\<lambda>c.
       if shared then get_or_create find_session put_session (create_session c init) c
       else create_session c init)"

definition get_keystone_session ::
  "('w, 'f, 's) session_env \<Rightarrow> 'f credentials_arg \<Rightarrow> bool \<Rightarrow>
   (credentials \<Rightarrow> ('w \<times> ('f, 's) sessions, nat option) act) option \<Rightarrow> ('w \<times> ('f, 's) sessions, 's option) act" where
  "get_keystone_session E arg shared init = bindA (manager_get_session E arg init shared) (setup_session_at E)"

definition default_keystone_session where
  "default_keystone_session E shared init = get_keystone_session E NoCredentials shared init"

text \<open>\<open>OtherSession\<close>: an object that is neither a session nor a fixture of one.\<close>

datatype 's session_arg = NoSession | SessionObject 's | SessionFixture nat | OtherSession string

definition keystone_session ::
  "('w, 'f, 's) session_env \<Rightarrow> 's session_arg \<Rightarrow> ('w \<times> ('f, 's) sessions, 's) act" where
  "keystone_session E arg =
     bindA (case arg of
              NoSession \<Rightarrow> default_keystone_session E True None
            | SessionObject x \<Rightarrow> ret (Some x)
            | SessionFixture n \<Rightarrow> setup_session_at E n
            | OtherSession name \<Rightarrow> ret None)
       (\<lambda>x. case x of None \<Rightarrow> raise_act (Exn PyTypeError ''Object is not of a valid type'') | Some y \<Rightarrow> ret y)"

section \<open>Clients\<close>

record ('s, 'c) client_fixture =
  cf_session :: "'s session_arg"
  cf_client :: "'c option"

text \<open>\<open>ce_name\<close> is the name of a session fixture; \<open>ce_init\<close> makes the client of the service.\<close>

record ('w, 's, 'c) client_env =
  ce_session :: "'s session_arg \<Rightarrow> ('w, 's) act"
  ce_name :: "nat \<Rightarrow> string"
  ce_init :: "'s \<Rightarrow> ('w, 'c) act"

definition setup_client ::
  "('w, 's, 'c) client_env \<Rightarrow> ('w \<times> ('s, 'c) client_fixture, 'c) act" where
  "setup_client E s =
     (case cf_client (snd s) of
        Some c \<Rightarrow> (Inr c, s)
      | None \<Rightarrow>
          bindA (on_fst (ce_session E (cf_session (snd s)))) (\<lambda>x.
          bindA (set_snd (\<lambda>f. f\<lparr>cf_session := SessionObject x\<rparr>)) (\<lambda>_.
          bindA (on_fst (ce_init E x)) (\<lambda>c.
          bindA (set_snd (\<lambda>f. f\<lparr>cf_client := Some c\<rparr>)) (\<lambda>_. ret c)))) s)"

text \<open>The key of a client: the session, or the name of a session fixture.\<close>

datatype 's shared_key = NoKey | SessionKey 's | NameKey string

fun client_key :: "('w, 's, 'c) client_env \<Rightarrow> 's session_arg \<Rightarrow> 's shared_key" where
  "client_key E NoSession = NoKey"
| "client_key E (SessionObject x) = SessionKey x"
| "client_key E (SessionFixture n) = NameKey (ce_name E n)"
| "client_key E (OtherSession name) = NameKey name"

record ('s, 'c) clients =
  cm_fixtures :: "('s, 'c) client_fixture list"
  cm_clients :: "'s shared_key \<rightharpoonup> nat"

definition find_client :: "'w \<times> ('s, 'c) clients \<Rightarrow> 's shared_key \<Rightarrow> nat option" where
  "find_client s k = cm_clients (snd s) k"

definition put_client :: "'s shared_key \<Rightarrow> nat \<Rightarrow> 'w \<times> ('s, 'c) clients \<Rightarrow> 'w \<times> ('s, 'c) clients" where
  "put_client k n s = (fst s, (snd s)\<lparr>cm_clients := (cm_clients (snd s))(k \<mapsto> n)\<rparr>)"

interpretation client_table: memo_table find_client put_client
  by unfold_locales (simp add: find_client_def put_client_def)

definition create_client :: "'s session_arg \<Rightarrow> ('w \<times> ('s, 'c) clients, nat) act" where
  "create_client arg s =
     (Inr (length (cm_fixtures (snd s))),
      (fst s, (snd s)\<lparr>cm_fixtures := cm_fixtures (snd s) @ [\<lparr>cf_session = arg, cf_client = None\<rparr>]\<rparr>))"

definition manager_get_client ::
  "('w, 's, 'c) client_env \<Rightarrow> 's session_arg \<Rightarrow> bool \<Rightarrow> ('s session_arg \<Rightarrow> ('w \<times> ('s, 'c) clients, nat) act) option \<Rightarrow>
   ('w \<times> ('s, 'c) clients, nat) act" where
  "manager_get_client E arg shared init =
     (let create = (case init of None \<Rightarrow> create_client | Some f \<Rightarrow> f) arg
      in if shared then get_or_create find_client put_client create (client_key E arg) else create)"

definition setup_client_at ::
  "('w, 's, 'c) client_env \<Rightarrow> nat \<Rightarrow> ('w \<times> ('s, 'c) clients, 'c) act" where
  "setup_client_at E n s =
     (if n < length (cm_fixtures (snd s))
      then (case setup_client E (fst s, cm_fixtures (snd s) ! n) of
              (r, (w, f)) \<Rightarrow> (r, (w, (snd s)\<lparr>cm_fixtures := (cm_fixtures (snd s))[n := f]\<rparr>)))
      else (Raise PyTypeError ''not a fixture'', s))"

definition get_client ::
  "('w, 's, 'c) client_env \<Rightarrow> 's session_arg \<Rightarrow> bool \<Rightarrow> ('s session_arg \<Rightarrow> ('w \<times> ('s, 'c) clients, nat) act) option \<Rightarrow>
   ('w \<times> ('s, 'c) clients, 'c) act" where
  "get_client E arg shared init = bindA (manager_get_client E arg shared init) (setup_client_at E)"

text \<open>
  The argument \<open>client\<close> of the functions of a service: nothing, a client, a fixture of the
  service, or another object, which setting up as a fixture may refuse.
\<close>

datatype ('c, 'x) client_arg = NoClient | ClientObject 'c | ClientFixture nat | OtherObject 'x

record ('w, 'x) other_ops =
  oo_setup :: "'x \<Rightarrow> ('w, unit) act"
  oo_repr :: "'x \<Rightarrow> string"

definition service_client ::
  "string \<Rightarrow> ('w, 's, 'c) client_env \<Rightarrow> ('w \<times> ('s, 'c) clients, 'x) other_ops \<Rightarrow> ('c, 'x) client_arg \<Rightarrow>
   ('w \<times> ('s, 'c) clients, 'c) act" where
  "service_client what E Ops arg =
     (case arg of
        NoClient \<Rightarrow> get_client E NoSession True None
      | ClientObject c \<Rightarrow> ret c
      | ClientFixture n \<Rightarrow> setup_client_at E n
      | OtherObject x \<Rightarrow>
          bindA (oo_setup Ops x) (\<lambda>_. raise_act (Exn PyTypeError (''Object '' @ oo_repr Ops x @ '' is not '' @ what))))"

definition nova_client where
  "nova_client = service_client ''a NovaClientFixture''"
definition neutron_client where
  "neutron_client = service_client ''a NeutronClientFixture''"
definition keystone_client where
  "keystone_client = service_client ''a KeystoneClientFixture''"
definition designate_client where
  "designate_client = service_client ''an DesignateClientFixture''"
definition ironic_client where
  "ironic_client = service_client ''an IronicClientFixture instance''"
definition metalsmith_client where
  "metalsmith_client = service_client ''a MetalsmithProvisionerFixture''"

text \<open>Heat and Octavia may be missing, then the test is skipped; \<open>missing\<close> tells.\<close>

definition needs_service :: "string \<Rightarrow> ('s, bool) act \<Rightarrow> ('s, 'a) act \<Rightarrow> ('s, 'a) act" where
  "needs_service name missing m =
     bindA missing (\<lambda>b. if b then raise_act (Exn PySkipTest ((''missing service: {'' @ str_repr ''name'' @ '': '') @ str_repr name @ ''}'')) else m)"

definition octavia_client where
  "octavia_client missing E Ops arg = needs_service ''octavia'' missing (service_client ''an OctaviaClientFixture'' E Ops arg)"

text \<open>The client of Heat does not set another fixture up, it only looks for it.\<close>

definition heat_client where
  "heat_client missing E Ops arg =
     needs_service ''heat'' missing
       (case arg of
          OtherObject x \<Rightarrow> raise_act (Exn PyTypeError (''Object '' @ oo_repr Ops x @ '' is not a NeutronClientFixture''))
        | _ \<Rightarrow> service_client ''a NeutronClientFixture'' E Ops arg)"

section \<open>Sessions and clients are shared\<close>

lemma setup_session_again:
  assumes "setup_session_at E n s = (Inr x, t)"
  shows "setup_session_at E n t = (Inr x, t)"
proof -
  have n: "n < length (sm_fixtures (snd s))" using assms by (auto simp: setup_session_at_def split: if_splits)
  obtain r w f where f: "setup_session E (fst s, sm_fixtures (snd s) ! n) = (r, (w, f))" by (metis prod.exhaust)
  have r: "r = Inr ()" and t: "t = (w, (snd s)\<lparr>sm_fixtures := (sm_fixtures (snd s))[n := f]\<rparr>)" and x: "x = sf_session f"
    using assms n f by (cases r; simp add: setup_session_at_def)+
  have "sf_session f \<noteq> None"
    using f r by (auto simp: setup_session_def bindA_eq_Inr set_snd_def split: if_splits)
  then have "setup_session E (w, f) = (Inr (), (w, f))" by (auto simp: setup_session_def)
  with n t x show ?thesis by (simp add: setup_session_at_def)
qed

lemma setup_client_again:
  assumes "setup_client_at E n s = (Inr x, t)"
  shows "setup_client_at E n t = (Inr x, t)"
proof -
  have n: "n < length (cm_fixtures (snd s))" using assms by (auto simp: setup_client_at_def split: if_splits)
  obtain r w f where f: "setup_client E (fst s, cm_fixtures (snd s) ! n) = (r, (w, f))" by (metis prod.exhaust)
  have r: "r = Inr x" and t: "t = (w, (snd s)\<lparr>cm_fixtures := (cm_fixtures (snd s))[n := f]\<rparr>)"
    using assms n f by (simp_all add: setup_client_at_def)
  have "cf_client f = Some x"
    using f r by (auto simp: setup_client_def bindA_eq_Inr set_snd_def ret_def split: option.splits)
  then have "setup_client E (w, f) = (Inr x, (w, f))" by (auto simp: setup_client_def)
  with n t show ?thesis by (simp add: setup_client_at_def)
qed

lemma setup_client_keeps_table:
  "setup_client_at E n s = (r, t) \<Longrightarrow> cm_clients (snd t) = cm_clients (snd s)"
  by (auto simp: setup_client_at_def split: if_splits prod.splits)

lemma setup_session_keeps_table:
  "setup_session_at E n s = (r, t) \<Longrightarrow> sm_sessions (snd t) = sm_sessions (snd s)"
  by (auto simp: setup_session_at_def split: if_splits prod.splits)

lemma stored_after_get:
  "get_or_create find_session put_session create c s = (Inr n, t) \<Longrightarrow> sm_sessions (snd t) c = Some n"
  by (auto simp: get_or_create_def find_session_def put_session_def split: option.splits prod.splits sum.splits)

lemma client_after_get:
  "get_or_create find_client put_client create k s = (Inr n, t) \<Longrightarrow> cm_clients (snd t) k = Some n"
  by (auto simp: get_or_create_def find_client_def put_client_def split: option.splits prod.splits sum.splits)

lemma manager_get_session_given:
  "manager_get_session E (Credentials c) init True = get_or_create find_session put_session (create_session c init) c"
  by (simp add: manager_get_session_def keystone_credentials_def on_fst_def bindA_def ret_def fun_eq_iff)

text \<open>
  A Keystone session is made once for its credentials: after a session was got,
  getting one for the same credentials gives the same session again, whatever function would
  make it, and leaves the world and the fixtures as they are.
\<close>

theorem keystone_session_shared:
  assumes "get_keystone_session E (Credentials c) True init s = (Inr x, t)"
  shows "get_keystone_session E (Credentials c) True init' t = (Inr x, t)"
proof -
  obtain n u where get: "manager_get_session E (Credentials c) init True s = (Inr n, u)"
    and set_up: "setup_session_at E n u = (Inr x, t)"
    using assms by (auto simp: get_keystone_session_def bindA_eq_Inr)
  from get have "sm_sessions (snd u) c = Some n" unfolding manager_get_session_given by (rule stored_after_get)
  then have "manager_get_session E (Credentials c) init' True t = (Inr n, t)"
    by (simp add: manager_get_session_given get_or_create_def find_session_def setup_session_keeps_table[OF set_up])
  with setup_session_again[OF set_up] show ?thesis by (simp add: get_keystone_session_def bindA_def)
qed

text \<open>
  The client of a service is made once for its session: after a function of the
  service got one, every later call for the same session gets the same client and leaves the
  world and the fixtures as they are; so do the functions that are called without a client.
\<close>

theorem client_shared:
  assumes "get_client E arg True init s = (Inr c, t)"
  shows "get_client E arg True init' t = (Inr c, t)
       \<and> (arg = NoSession \<longrightarrow> service_client what E Ops NoClient t = (Inr c, t))"
proof -
  let ?create = "\<lambda>init. (case init of None \<Rightarrow> create_client | Some f \<Rightarrow> f) arg"
  obtain n u where get: "get_or_create find_client put_client (?create init) (client_key E arg) s = (Inr n, u)"
    and set_up: "setup_client_at E n u = (Inr c, t)"
    using assms by (auto simp: get_client_def manager_get_client_def bindA_eq_Inr)
  have "cm_clients (snd t) (client_key E arg) = Some n"
    using client_after_get[OF get] by (simp add: setup_client_keeps_table[OF set_up])
  then have again: "get_client E arg True init' t = (Inr c, t)" for init'
    using setup_client_again[OF set_up]
    by (simp add: get_client_def manager_get_client_def get_or_create_def find_client_def bindA_def)
  then show ?thesis by (auto simp: service_client_def)
qed

section \<open>Sessions come from complete credentials\<close>

definition session_valid :: "('f, 's) session_fixture \<Rightarrow> bool" where
  "session_valid f \<longleftrightarrow> (sf_session f \<noteq> None \<longrightarrow> (\<exists>c. sf_credentials f = Credentials c \<and> validate None c = Inr ()))"

definition sessions_valid :: "('f, 's) sessions \<Rightarrow> bool" where
  "sessions_valid m \<longleftrightarrow> list_all session_valid (sm_fixtures m)"

lemma session_credentials_sets:
  "session_credentials E s = (Inr c, t) \<Longrightarrow> sf_credentials (snd t) = Credentials c \<and> sf_session (snd t) = sf_session (snd s)"
  by (auto simp: session_credentials_def bindA_eq_Inr set_snd_def ret_def on_fst_def split: credentials_arg.splits prod.splits)

lemma session_credentials_raises:
  "session_credentials E s = (Inl e, t) \<Longrightarrow> snd t = snd s"
  by (auto simp: session_credentials_def bindA_def set_snd_def ret_def on_fst_def split: credentials_arg.splits prod.splits sum.splits)

lemma setup_session_valid:
  assumes "session_valid (snd s)" and "setup_session E s = (r, t)"
  shows "session_valid (snd t)"
proof (cases "sf_session (snd s)")
  case None
  obtain rc u where c: "session_credentials E s = (rc, u)" by (cases "session_credentials E s")
  show ?thesis
  proof (cases rc)
    case (Inl e)
    with assms None c session_credentials_raises[of E s e u] show ?thesis
      by (auto simp: setup_session_def session_get_def bindA_def)
  next
    case (Inr k)
    from session_credentials_sets[OF c[unfolded Inr]] None
    have k: "sf_credentials (snd u) = Credentials k" "sf_session (snd u) = None" by simp_all
    with assms(2) None c Inr show ?thesis
      by (auto simp: setup_session_def session_get_def bindA_def session_valid_def lift_res_def on_fst_def set_snd_def
          split: sum.splits prod.splits)
  qed
qed (use assms in \<open>simp add: setup_session_def\<close>)

lemma setup_session_at_valid:
  assumes "sessions_valid (snd s)" and "setup_session_at E n s = (r, t)"
  shows "sessions_valid (snd t)"
proof (cases "n < length (sm_fixtures (snd s))")
  case True
  obtain q w f where f: "setup_session E (fst s, sm_fixtures (snd s) ! n) = (q, (w, f))" by (metis prod.exhaust)
  have "session_valid (sm_fixtures (snd s) ! n)" using assms(1) True by (simp add: sessions_valid_def list_all_length)
  from setup_session_valid[OF _ f] this have "session_valid f" by simp
  with assms True f show ?thesis
    by (auto simp: setup_session_at_def sessions_valid_def list_all_length nth_list_update)
qed (use assms in \<open>auto simp: setup_session_at_def\<close>)

lemma manager_get_session_valid:
  assumes "sessions_valid (snd s)" and "manager_get_session E arg None shared s = (r, t)"
  shows "sessions_valid (snd t)"
proof -
  have init: "sessions_valid (snd (snd (create_session c None u)))" if "sessions_valid (snd u)" for c u
    using that by (simp add: create_session_def bindA_def init_session_def ret_def sessions_valid_def session_valid_def)
  show ?thesis using assms
    by (auto simp: manager_get_session_def bindA_def on_fst_def get_or_create_def put_session_def sessions_valid_def
        create_session_def init_session_def ret_def session_valid_def split: prod.splits sum.splits option.splits if_splits)
qed

text \<open>
  However sessions are asked for, and whatever fails on the way, a fixture of the
  manager that holds a session holds the credentials it was made of, and they have passed their
  validation: a session never comes from incomplete credentials.
\<close>

theorem sessions_from_valid_credentials:
  assumes "sessions_valid (snd s)" and "keystone_session E arg s = (r, t)"
  shows "sessions_valid (snd t)"
proof (cases arg)
  case NoSession
  obtain q u where m: "manager_get_session E NoCredentials None True s = (q, u)"
    by (cases "manager_get_session E NoCredentials None True s")
  from manager_get_session_valid[OF assms(1) m] have u: "sessions_valid (snd u)" .
  with assms(2) m NoSession setup_session_at_valid[OF u] show ?thesis
    by (auto simp: keystone_session_def default_keystone_session_def get_keystone_session_def bindA_def ret_def raise_act_def
        split: sum.splits prod.splits option.splits)
next
  case (SessionFixture n)
  with assms setup_session_at_valid[OF assms(1)] show ?thesis
    by (auto simp: keystone_session_def bindA_def ret_def raise_act_def split: sum.splits prod.splits option.splits)
qed (use assms in \<open>auto simp: keystone_session_def bindA_def ret_def raise_act_def\<close>)

definition full_credentials :: credentials where
  "full_credentials = demo_credentials\<lparr>kc_password := PText ''p'', kc_project_name := PText ''t''\<rparr>"

definition demo_session_env :: "(nat, unit, nat) session_env" where
  "demo_session_env = \<lparr>se_default = ret full_credentials, se_credentials_of = (\<lambda>f. ret None), se_load = (\<lambda>ps w. (Inr w, Suc w))\<rparr>"

definition demo_sessions :: "(unit, nat) sessions" where
  "demo_sessions = \<lparr>sm_fixtures = [], sm_sessions = Map.empty\<rparr>"

lemma demo_valid: "validate None full_credentials = Inr ()"
  by (simp add: full_credentials_def demo_credentials_def validate_def required_params_def credentials_getattr_def credentials_dict_def)

lemma demo_session:
  "get_keystone_session demo_session_env (Credentials full_credentials) True None (5, demo_sessions)
     = (Inr (Some 5), (6, \<lparr>sm_fixtures = [\<lparr>sf_credentials = Credentials full_credentials, sf_session = Some 5\<rparr>],
          sm_sessions = [full_credentials \<mapsto> 0]\<rparr>))"
  by (simp add: get_keystone_session_def manager_get_session_given get_or_create_def find_session_def put_session_def
      create_session_def init_session_def bindA_def ret_def demo_sessions_def demo_session_env_def setup_session_at_def
      setup_session_def session_get_def session_credentials_def lift_res_def demo_valid on_fst_def set_snd_def)

lemma keystone_session_shared_witness:
  "get_keystone_session demo_session_env (Credentials full_credentials) True (Some (\<lambda>c. ret None))
     (6, \<lparr>sm_fixtures = [\<lparr>sf_credentials = Credentials full_credentials, sf_session = Some 5\<rparr>], sm_sessions = [full_credentials \<mapsto> 0]\<rparr>)
   = (Inr (Some 5), (6, \<lparr>sm_fixtures = [\<lparr>sf_credentials = Credentials full_credentials, sf_session = Some 5\<rparr>],
        sm_sessions = [full_credentials \<mapsto> 0]\<rparr>))"
  by (rule keystone_session_shared[OF demo_session])

lemma sessions_from_valid_credentials_witness:
  "sessions_valid (snd (snd (keystone_session demo_session_env NoSession (5 :: nat, demo_sessions))))"
  by (rule sessions_from_valid_credentials[OF _ prod.collapse[symmetric]]) (simp add: sessions_valid_def demo_sessions_def)

definition demo_client_env :: "(nat, nat, string) client_env" where
  "demo_client_env = \<lparr>ce_session = (\<lambda>a. ret 7), ce_name = (\<lambda>n. ''session''), ce_init = (\<lambda>s w. (Inr ''client'', Suc w))\<rparr>"

lemma client_shared_witness:
  "\<exists>t. get_client demo_client_env NoSession True None (0, \<lparr>cm_fixtures = [], cm_clients = Map.empty\<rparr>) = (Inr ''client'', t)
     \<and> get_client demo_client_env NoSession True None t = (Inr ''client'', t)"
proof -
  have g: "get_client demo_client_env NoSession True None (0, \<lparr>cm_fixtures = [], cm_clients = Map.empty\<rparr>)
      = (Inr ''client'', (1, \<lparr>cm_fixtures = [\<lparr>cf_session = SessionObject 7, cf_client = Some ''client''\<rparr>], cm_clients = [NoKey \<mapsto> 0]\<rparr>))"
    by (simp add: get_client_def manager_get_client_def get_or_create_def find_client_def put_client_def create_client_def
        bindA_def ret_def setup_client_at_def setup_client_def demo_client_env_def on_fst_def set_snd_def)
  from client_shared[OF g, of None undefined undefined] g show ?thesis by blast
qed

end
