(* ===== verification/Keystone_Services.thy ===== *)
theory Keystone_Services
  imports Openstack_Clients Tobiko_Select
begin

text \<open>
  tobiko/openstack/keystone/_client.py and _services.py: the services of a cloud and their
  endpoints, for both versions of the Keystone client. Values and objects are types of their
  own; the Keystone client is a parameter.
\<close>

text \<open>\<open>vo_none\<close> is None; \<open>vo_id\<close> is \<open>base.getid\<close>.\<close>

record ('v, 'o) value_ops =
  vo_truthy :: "'v \<Rightarrow> bool"
  vo_none :: 'v
  vo_id :: "'v \<Rightarrow> 'v"
  vo_flag :: "bool \<Rightarrow> 'v"
  vo_getattr :: "'o \<Rightarrow> string \<Rightarrow> 'v res"
  vo_endpoint :: "(string \<times> 'v) list \<Rightarrow> 'o"
  vo_object :: "'o \<Rightarrow> 'v"
  vo_interfaces :: "'v list"
  vo_url_name :: "'v \<Rightarrow> string"

record ('w, 'v, 'o) keystone_api =
  ka_v2 :: bool
  ka_services_v2 :: "('w, 'o list) act"
  ka_services :: "'v \<Rightarrow> 'v \<Rightarrow> ('w, 'o list) act"
  ka_endpoints_v2 :: "('w, 'o list) act"
  ka_endpoints :: "'v \<Rightarrow> 'v \<Rightarrow> 'v \<Rightarrow> ('w, 'o list) act"

text \<open>\<open>value or attributes.pop(key, None)\<close>, with what is left of the attributes.\<close>

definition or_pop :: "('v, 'o) value_ops \<Rightarrow> 'v \<Rightarrow> string \<Rightarrow> (string \<times> 'v) list \<Rightarrow> 'v \<times> (string \<times> 'v) list" where
  "or_pop V value key attributes =
     (if vo_truthy V value then (value, attributes)
      else (case map_of attributes key of None \<Rightarrow> vo_none V | Some v \<Rightarrow> v, filter (\<lambda>(k, v). k \<noteq> key) attributes))"

text \<open>A value that was given, or popped, becomes the attribute to select by.\<close>

definition pop_id :: "('v, 'o) value_ops \<Rightarrow> 'v \<Rightarrow> string \<Rightarrow> (string \<times> 'v) list \<Rightarrow> 'v \<times> (string \<times> 'v) list" where
  "pop_id V value key attributes =
     (case or_pop V value key attributes of
        (v, attributes) \<Rightarrow> (v, if vo_truthy V v then dict_set attributes key (vo_id V v) else attributes))"

definition select_by :: "('v, 'o) value_ops \<Rightarrow> (string \<times> 'v) list \<Rightarrow> 'o list \<Rightarrow> 'o list res" where
  "select_by V attributes objs =
     (if attributes = [] then Inr objs
      else with_attributes (vo_getattr V) (map (\<lambda>(k, v). (k, MValue v)) attributes) objs)"

definition v2_endpoint :: "('v, 'o) value_ops \<Rightarrow> 'o \<Rightarrow> 'v \<Rightarrow> 'o res" where
  "v2_endpoint V endpoint interface =
     map_sum id (\<lambda>vs. vo_endpoint V
         [(''id'', vs ! 1), (''interface'', interface), (''region_id'', vs ! 2), (''service_id'', vs ! 3),
          (''url'', vs ! 0), (''enabled'', vs ! 4)])
       (map_res (vo_getattr V endpoint) [vo_url_name V interface @ ''url'', ''id'', ''region'', ''service_id'', ''enabled''])"

definition translate_v2_endpoints :: "('v, 'o) value_ops \<Rightarrow> 'o list \<Rightarrow> 'v \<Rightarrow> 'o list res" where
  "translate_v2_endpoints V v2_endpoints interface =
     (let interfaces = (if vo_truthy V interface then [interface] else vo_interfaces V)
      in map_res (\<lambda>(e, i). v2_endpoint V e i) (concat (map (\<lambda>e. map (\<lambda>i. (e, i)) interfaces) v2_endpoints)))"

definition list_endpoints ::
  "('v, 'o) value_ops \<Rightarrow> ('w, 'v, 'o) keystone_api \<Rightarrow> 'v \<Rightarrow> 'v \<Rightarrow> 'v \<Rightarrow> bool \<Rightarrow> (string \<times> 'v) list \<Rightarrow> ('w, 'o list) act" where
  "list_endpoints V K service interface region translate attributes =
     (case pop_id V service ''service_id'' attributes of
        (service, attributes) \<Rightarrow>
          (case pop_id V region ''region_id'' attributes of
             (region, attributes) \<Rightarrow>
               bindA (if ka_v2 K
                      then bindA (ka_endpoints_v2 K)
                             (\<lambda>es. if translate then lift_res (translate_v2_endpoints V es interface) else ret es)
                      else ka_endpoints K service interface region)
                 (\<lambda>es. lift_res (select_by V attributes es))))"

definition keystone_list_services ::
  "('v, 'o) value_ops \<Rightarrow> ('w, 'v, 'o) keystone_api \<Rightarrow> 'v \<Rightarrow> 'v \<Rightarrow> (string \<times> 'v) list \<Rightarrow> ('w, 'o list) act" where
  "keystone_list_services V K name service_type attributes =
     (case pop_id V service_type ''type'' attributes of
        (service_type, attributes) \<Rightarrow>
          (let attributes = (if vo_truthy V name then dict_set attributes ''name'' name else attributes)
           in bindA (if ka_v2 K then ka_services_v2 K else ka_services K name service_type)
                (\<lambda>ss. lift_res (select_by V attributes ss))))"

text \<open>The first or the only object found; without any the default value, when there is one.\<close>

definition pick :: "('o list \<Rightarrow> string) \<Rightarrow> bool \<Rightarrow> 'o option \<Rightarrow> 'o list \<Rightarrow> 'o res" where
  "pick repr unique dflt objs =
     (case dflt of
        Some d \<Rightarrow> if objs = [] then Inr d else if unique then select_unique repr objs else select_first objs
      | None \<Rightarrow> if unique then select_unique repr objs else select_first objs)"

definition find_endpoint where
  "find_endpoint V K repr unique dflt service interface region attributes =
     bindA (list_endpoints V K service interface region True attributes) (\<lambda>es. lift_res (pick repr unique dflt es))"

definition keystone_find_service where
  "keystone_find_service V K repr unique dflt name service_type attributes =
     bindA (keystone_list_services V K name service_type attributes) (\<lambda>ss. lift_res (pick repr unique dflt ss))"

definition find_service_endpoint ::
  "('v, 'o) value_ops \<Rightarrow> ('w, 'v, 'o) keystone_api \<Rightarrow> ('o list \<Rightarrow> string) \<Rightarrow> bool \<Rightarrow> 'v \<Rightarrow> 'v \<Rightarrow> 'v \<Rightarrow> ('w, 'o) act" where
  "find_service_endpoint V K repr enabled interface name service_type =
     bindA (keystone_find_service V K repr False None name service_type [(''enabled'', vo_flag V enabled)]) (\<lambda>s.
       find_endpoint V K repr False None (vo_object V s) interface (vo_none V) [(''enabled'', vo_flag V enabled)])"

section \<open>Missing services\<close>

definition service_listed :: "('v, 'o) value_ops \<Rightarrow> (string \<times> 'v) list \<Rightarrow> 'o list \<Rightarrow> bool res" where
  "service_listed V attributes services =
     (if services \<noteq> [] \<and> attributes \<noteq> [] then map_sum id (\<lambda>ss. ss \<noteq> []) (select_by V attributes services)
      else Inr (services \<noteq> []))"

text \<open>The services are listed once: by setting the shared fixture up, \<open>None\<close> before.\<close>

definition has_service ::
  "('v, 'o) value_ops \<Rightarrow> ('w, 'v, 'o) keystone_api \<Rightarrow> (string \<times> 'v) list \<Rightarrow> ('w \<times> 'o list option, bool) act" where
  "has_service V K attributes s =
     bindA (\<lambda>s. case snd s of
              Some ss \<Rightarrow> (Inr ss, s)
            | None \<Rightarrow> bindA (on_fst (keystone_list_services V K (vo_none V) (vo_none V) []))
                        (\<lambda>ss. bindA (set_snd (\<lambda>_. Some ss)) (\<lambda>_. ret ss)) s)
       (\<lambda>ss. lift_res (service_listed V attributes ss)) s"

definition is_service_missing ::
  "('v, 'o) value_ops \<Rightarrow> ('w, 'v, 'o) keystone_api \<Rightarrow> string \<Rightarrow> (string \<times> 'v) list \<Rightarrow> ('w \<times> 'o list option, bool) act" where
  "is_service_missing V K test_module attributes =
     (if prefix ''tobiko.tests.unit.'' test_module then ret False
      else bindA (has_service V K attributes) (\<lambda>b. ret (\<not> b)))"

section \<open>What is found\<close>

lemma select_sub: "select p b xs = Inr ys \<Longrightarrow> y \<in> set ys \<Longrightarrow> y \<in> set xs \<and> p y = Inr b"
  by (induction xs arbitrary: ys) (auto split: sum.splits if_splits)

lemma equal_attributes_all:
  "equal_attributes getattr obj (map (\<lambda>(k, v). (k, MValue v)) attributes) False = Inr True \<Longrightarrow>
     (k, v) \<in> set attributes \<Longrightarrow> getattr obj k = Inr v"
  by (induction attributes) (auto simp: match_value_def split: sum.splits if_splits)

lemma select_by_attributes:
  "select_by V attributes objs = Inr ys \<Longrightarrow> y \<in> set ys \<Longrightarrow>
     y \<in> set objs \<and> (\<forall>(k, v) \<in> set attributes. vo_getattr V y k = Inr v)"
  by (auto simp: select_by_def with_attributes_def split: if_splits dest: select_sub equal_attributes_all)

lemma pick_in: "pick repr unique None objs = Inr y \<Longrightarrow> y \<in> set objs"
  by (auto simp: pick_def select_unique_def select_first_def split: if_splits list.splits)

text \<open>
  With either version of the client, the endpoint found for a service is an
  enabled one (or a disabled one, as asked) of an enabled service of that name, and its
  \<open>service_id\<close> is the id of the service.
\<close>

theorem endpoint_of_service:
  assumes "find_service_endpoint V K repr enabled interface name service_type w = (Inr e, w')"
    and "vo_truthy V name" and "\<And>s. vo_truthy V (vo_object V s)" and "\<not> vo_truthy V (vo_none V)"
  shows "vo_getattr V e ''enabled'' = Inr (vo_flag V enabled)
       \<and> (\<exists>s. vo_getattr V e ''service_id'' = Inr (vo_id V (vo_object V s))
            \<and> vo_getattr V s ''name'' = Inr name \<and> vo_getattr V s ''enabled'' = Inr (vo_flag V enabled))"
proof -
  obtain s u where s: "keystone_find_service V K repr False None name service_type [(''enabled'', vo_flag V enabled)] w = (Inr s, u)"
    and e: "find_endpoint V K repr False None (vo_object V s) interface (vo_none V) [(''enabled'', vo_flag V enabled)] u = (Inr e, w')"
    using assms(1) by (auto simp: find_service_endpoint_def bindA_eq_Inr)
  from s obtain ss objs atts where ss: "select_by V atts objs = Inr ss" "s \<in> set ss"
    and atts: "(''name'', name) \<in> set atts" "(''enabled'', vo_flag V enabled) \<in> set atts"
    using assms(2)
    by (auto simp: keystone_find_service_def keystone_list_services_def pop_id_def or_pop_def bindA_eq_Inr lift_res_def
        Let_def dest!: pick_in split: if_splits)
  from e obtain es objs' where es: "select_by V [(''enabled'', vo_flag V enabled), (''service_id'', vo_id V (vo_object V s))] objs' = Inr es"
      "e \<in> set es"
    using assms(3,4)
    by (auto simp: find_endpoint_def list_endpoints_def pop_id_def or_pop_def bindA_eq_Inr lift_res_def dest!: pick_in)
  from select_by_attributes[OF ss] select_by_attributes[OF es] atts show ?thesis by auto
qed

definition demo_values :: "(nat, nat) value_ops" where
  "demo_values = \<lparr>vo_truthy = (\<lambda>v. v \<noteq> 0), vo_none = 0, vo_id = id, vo_flag = (\<lambda>b. if b then 1 else 0),
     vo_getattr = (\<lambda>x k. Inr (if k = ''enabled'' then 1 else if k = ''service_id'' then x - 1 else 3)),
     vo_endpoint = (\<lambda>i. 9), vo_object = Suc, vo_interfaces = [], vo_url_name = (\<lambda>v. [])\<rparr>"

definition demo_keystone_api :: "(unit, nat, nat) keystone_api" where
  "demo_keystone_api = \<lparr>ka_v2 = False, ka_services_v2 = ret [], ka_services = (\<lambda>n t. ret [4]),
     ka_endpoints_v2 = ret [], ka_endpoints = (\<lambda>s i r. ret [5, 6])\<rparr>"

lemma endpoint_of_service_witness:
  "vo_getattr demo_values 6 ''enabled'' = Inr (vo_flag demo_values True)
   \<and> (\<exists>s. vo_getattr demo_values 6 ''service_id'' = Inr (vo_id demo_values (vo_object demo_values s))
        \<and> vo_getattr demo_values s ''name'' = Inr 3 \<and> vo_getattr demo_values s ''enabled'' = Inr (vo_flag demo_values True))"
proof (rule endpoint_of_service[of demo_values demo_keystone_api _ True _ 3 0])
  show "find_service_endpoint demo_values demo_keystone_api (\<lambda>_. []) True 2 3 0 () = (Inr 6, ())"
    by (simp add: find_service_endpoint_def keystone_find_service_def keystone_list_services_def find_endpoint_def
        list_endpoints_def pop_id_def or_pop_def select_by_def with_attributes_def match_value_def pick_def select_first_def
        bindA_def ret_def lift_res_def demo_values_def demo_keystone_api_def)
qed (simp_all add: demo_values_def)

end
