(* ===== verification/Octavia_Waiters.thy ===== *)
theory Octavia_Waiters
  imports Cloud_Waits Shell_Process Tobiko_Select
begin

text \<open>
  tobiko/openstack/octavia: waiting for load balancers, for the service and for the monitors of
  OVN (_waiters.py), checking that traffic is balanced between members (_validators.py), finding
  the master amphora (_amphora.py) and an IPv6 address (_client.py). What Octavia and the command
  curl answer are parameters.
\<close>

definition RoundRobinException :: pyclass where
  "RoundRobinException = ''RoundRobinException'' # TobikoException"
definition TrafficTimeoutError :: pyclass where
  "TrafficTimeoutError = ''TrafficTimeoutError'' # TobikoException"
definition OctaviaClientException :: pyclass where
  "OctaviaClientException = ''OctaviaClientException'' # PyException"

declare RoundRobinException_def [exn_classes] TrafficTimeoutError_def [exn_classes] OctaviaClientException_def [exn_classes]

section \<open>Waiting\<close>

text \<open>\<open>item\<close> subscripts an answer; \<open>ct\<close> and \<open>ci\<close> are the options check_timeout and check_interval.\<close>

definition octavia_wait_for_status ::
  "('o \<Rightarrow> string \<Rightarrow> pyval res) \<Rightarrow> rat option \<Rightarrow> rat option \<Rightarrow> string \<Rightarrow> string \<Rightarrow>
   (string \<Rightarrow> ('z world_scheme, 'o) act) \<Rightarrow> rat option \<Rightarrow> rat option \<Rightarrow> string \<Rightarrow> ('z world_scheme, 'o) pact" where
  "octavia_wait_for_status item ct ci status_key status get interval timeout object_id =
     retry_iter py_time py_sleep (retry None None timeout None interval None ct None ci)
       (ready_turn (get object_id) (key_is item status_key (PText status)))"

definition wait_for_load_balancer ::
  "rat option \<Rightarrow> rat option \<Rightarrow> ('o \<Rightarrow> bool res) \<Rightarrow> (string \<Rightarrow> ('z world_scheme, 'o) act) \<Rightarrow> rat option \<Rightarrow> rat option \<Rightarrow>
   string \<Rightarrow> ('z world_scheme, 'o) pact" where
  "wait_for_load_balancer ct ci ready get interval timeout lb_id =
     retry_iter py_time py_sleep (retry None None timeout None interval None ct None ci) (ready_turn (get lb_id) ready)"

text \<open>An entry of \<open>additional_vips\<close> is a dictionary or an object; in both cases its address may be missing.\<close>

fun ipv6_vip :: "pyval list \<Rightarrow> string option" where
  "ipv6_vip [] = None"
| "ipv6_vip (addr # rest) =
     (if truthy addr \<and> CHR '':'' \<in> set (val_str addr) then Some (val_str addr) else ipv6_vip rest)"

text \<open>\<open>vips\<close>: the addresses of the entries of the load balancer, none for a balancer without entries.\<close>

definition find_ipv6_vip_on_load_balancer :: "('o \<Rightarrow> pyval list) \<Rightarrow> 'o \<Rightarrow> string option" where
  "find_ipv6_vip_on_load_balancer vips lb = ipv6_vip (vips lb)"

definition wait_for_ipv6_additional_vip ::
  "('o \<Rightarrow> pyval list) \<Rightarrow> rat option \<Rightarrow> rat option \<Rightarrow> (string \<Rightarrow> ('z world_scheme, 'o) act) \<Rightarrow> string \<Rightarrow>
   ('z world_scheme, 'o option) pact" where
  "wait_for_ipv6_additional_vip vips ct ci get lb_id =
     catchP
       (bindP (wait_for_load_balancer ct ci (\<lambda>lb. Inr (find_ipv6_vip_on_load_balancer vips lb \<noteq> None)) get None None lb_id)
          (\<lambda>lb. retP (Some lb)))
       (\<lambda>e. isinstance_exn e RetryTimeLimitError)
       (\<lambda>e. bindP (liftP (get lb_id)) (\<lambda>lb. retP None))"

definition octavia_service_turn :: "('w, unit) act \<Rightarrow> retry_attempt \<Rightarrow> ('w, unit turn) act" where
  "octavia_service_turn list_amphorae attempt =
     try_except (bindA list_amphorae (\<lambda>_. ret (Done ()))) (\<lambda>e. isinstance_exn e OctaviaClientException)
       (\<lambda>e. bindA (lift_res (is_last (Some e) attempt)) (\<lambda>b. if b then raise_act e else ret Next))"

definition wait_for_octavia_service ::
  "('z world_scheme, unit) act \<Rightarrow> rat option \<Rightarrow> rat option \<Rightarrow> ('z world_scheme, unit) pact" where
  "wait_for_octavia_service list_amphorae interval timeout =
     retry_iter py_time py_sleep (retry None None timeout None interval None (Some 180) None (Some 3))
       (octavia_service_turn list_amphorae)"

text \<open>\<open>run\<close> builds the command of a query and executes it where OVN runs; None when it runs nowhere.\<close>

definition service_monitor_query :: "string \<Rightarrow> int \<Rightarrow> string" where
  "service_monitor_query member_ip protocol_port =
     ''--no-headings --data=bare --columns=status find Service_Monitor ip='' @ member_ip @
     '' port='' @ str_int protocol_port"

definition wait_for_ovn_service_monitor_status ::
  "('z world_scheme, (string \<Rightarrow> ('z world_scheme, string) act) option) act \<Rightarrow> string \<Rightarrow> string \<Rightarrow> int \<Rightarrow> rat option \<Rightarrow>
   rat option \<Rightarrow> ('z world_scheme, unit) pact" where
  "wait_for_ovn_service_monitor_status run member_ip expected_status protocol_port interval timeout =
     bindP (liftP run) (\<lambda>run.
       case run of
         None \<Rightarrow> retP ()
       | Some execute \<Rightarrow>
           bindP (retry_iter py_time py_sleep (retry None None timeout None interval None (Some 360) None (Some 5))
                    (ready_turn (execute (service_monitor_query member_ip protocol_port))
                       (\<lambda>out. Inr (strip out \<noteq> [] \<and> strip out = expected_status))))
             (\<lambda>_. retP ()))"

section \<open>Balanced traffic\<close>

text \<open>\<open>ol_members\<close> counts the members of a pool; \<open>ol_curl\<close> asks with a scheme for the page that names a member.\<close>

record 'w octavia_lib =
  ol_members :: "string \<Rightarrow> ('w, int) act"
  ol_curl :: "string \<Rightarrow> ('w, string) act"
  ol_status :: "exn \<Rightarrow> int"
  ol_stderr :: "exn \<Rightarrow> string"

type_synonym replies = "(string \<times> int) list"

definition count_reply :: "replies \<Rightarrow> string \<Rightarrow> replies" where
  "count_reply replies content =
     dict_set replies content ((case map_of replies content of None \<Rightarrow> 0 | Some n \<Rightarrow> n) + 1)"

definition same_host :: "int \<Rightarrow> string \<Rightarrow> string \<Rightarrow> exn" where
  "same_host members_count expected actual =
     Exn RoundRobinException
       (''Request was forwarded two times to the same host:'' @ [CHR 0x0A] @ ''members_count: '' @ str_int members_count @
        [CHR 0x0A] @ ''expected: '' @ expected @ [CHR 0x0A] @ ''actual: '' @ actual @ [CHR 0x0A])"

definition traffic_timeout :: "string \<Rightarrow> exn" where
  "traffic_timeout reason = cloud_error TrafficTimeoutError ''Traffic timeout error: {reason}'' [(''reason'', PText reason)]"

text \<open>One request; the state has the last reply and the counts.\<close>

definition balanced_turn ::
  "'w octavia_lib \<Rightarrow> string \<Rightarrow> string option \<Rightarrow> int \<Rightarrow> retry_attempt \<Rightarrow> ('w \<times> string option \<times> replies, unit turn) act" where
  "balanced_turn L protocol lb_algorithm members_count attempt s =
     (case ol_curl L (if protocol = ''TCP'' then ''HTTP'' else protocol) (fst s) of
        (Inl ex, w) \<Rightarrow>
          (Inl (if isinstance_exn ex ShellCommandFailed \<and> ol_status L ex = 28 then traffic_timeout (ol_stderr L ex) else ex),
           (w, snd s))
      | (Inr output, w) \<Rightarrow>
          (let content = strip output; last_content = fst (snd s); replies = count_reply (snd (snd s)) content
           in if last_content = Some content \<and> lb_algorithm = Some ''ROUND_ROBIN'' \<and> members_count > 1
              then (Inl (same_host members_count content content), (w, last_content, replies))
              else (case is_last None attempt of
                      Inl e \<Rightarrow> (Inl e, (w, Some content, replies))
                    | Inr final \<Rightarrow> (Inr (if final then Done () else Next), (w, Some content, replies)))))"

definition check_replies :: "int \<Rightarrow> replies \<Rightarrow> replies res" where
  "check_replies members_count replies =
     (let missing = members_count - int (length replies)
      in if missing \<noteq> 0
         then Raise RoundRobinException (''Missing replies from '' @ str_int missing @ '' members.'')
         else Inr replies)"

definition count_members :: "'w octavia_lib \<Rightarrow> string option \<Rightarrow> int option \<Rightarrow> ('w, int) act" where
  "count_members L pool_id members_count =
     (case members_count of
        Some n \<Rightarrow> ret n
      | None \<Rightarrow>
          (case pool_id of
             None \<Rightarrow> raise_act (Exn PyValueError ''Either members_count or pool_id has to be passed to the function.'')
           | Some p \<Rightarrow> ol_members L p))"

definition balanced_retry :: "int \<Rightarrow> int \<Rightarrow> rat option \<Rightarrow> retry_obj" where
  "balanced_retry members_count requests_count interval =
     retry None (Some (members_count * requests_count)) None None interval None None None None"

definition check_members_balanced ::
  "'z world_scheme octavia_lib \<Rightarrow> string \<Rightarrow> string option \<Rightarrow> int option \<Rightarrow> string option \<Rightarrow> int \<Rightarrow> rat option \<Rightarrow>
   ('z world_scheme, replies) pact" where
  "check_members_balanced L protocol pool_id members_count lb_algorithm requests_count interval =
     bindP (liftP (count_members L pool_id members_count)) (\<lambda>n w.
       case retry_iter fst_now fst_sleep (balanced_retry n requests_count interval)
              (balanced_turn L protocol lb_algorithm n) (w, None, []) of
         None \<Rightarrow> None
       | Some (Inl e, s) \<Rightarrow> Some (Inl e, fst s)
       | Some (Inr _, s) \<Rightarrow> Some (check_replies n (snd (snd s)), fst s))"

definition traffic_exceptions :: "pyclass list" where
  "traffic_exceptions = [RoundRobinException, TrafficTimeoutError, ShellCommandFailed, OctaviaClientException]"

definition traffic_turn ::
  "'z world_scheme octavia_lib \<Rightarrow> string \<Rightarrow> string option \<Rightarrow> int option \<Rightarrow> string option \<Rightarrow> int \<Rightarrow> rat option \<Rightarrow>
   pyclass list \<Rightarrow> retry_attempt \<Rightarrow> ('z world_scheme, replies turn) pact" where
  "traffic_turn L protocol pool_id members_count lb_algorithm requests_count interval exceptions attempt =
     catchP (bindP (check_members_balanced L protocol pool_id members_count lb_algorithm requests_count interval)
               (\<lambda>r. retP (Done r)))
       (catches exceptions)
       (\<lambda>e. bindP (liftP (lift_res (is_last (Some e) attempt))) (\<lambda>b. if b then raiseP e else retP Next))"

definition verify_lb_traffic ::
  "'z world_scheme octavia_lib \<Rightarrow> string \<Rightarrow> string option \<Rightarrow> int option \<Rightarrow> string option \<Rightarrow> int \<Rightarrow> rat option \<Rightarrow>
   rat option \<Rightarrow> pyclass list option \<Rightarrow> ('z world_scheme, replies) pact" where
  "verify_lb_traffic L protocol pool_id members_count lb_algorithm requests_count interval timeout exceptions =
     retry_piter py_time py_sleep (retry None None timeout None None None None None None)
       (traffic_turn L protocol pool_id members_count lb_algorithm requests_count interval
          (case exceptions of None \<Rightarrow> traffic_exceptions | Some es \<Rightarrow> es))"

section \<open>The master amphora\<close>

text \<open>\<open>ids\<close> and \<open>stats\<close> give the id of an amphora and the connections of its listeners.\<close>

fun busy_amphora :: "('o \<Rightarrow> ('w, int list) act) \<Rightarrow> 'o list \<Rightarrow> ('w, 'o) act" where
  "busy_amphora stats [] = raise_act (Exn PyValueError ''Master Amphora wasn't found!'')"
| "busy_amphora stats (a # rest) =
     bindA (stats a) (\<lambda>total_connections.
       if \<exists>n \<in> set total_connections. n > 0 then ret a else busy_amphora stats rest)"

definition get_master_amphora ::
  "'z world_scheme octavia_lib \<Rightarrow> ('o \<Rightarrow> ('z world_scheme, int list) act) \<Rightarrow> string \<Rightarrow> 'o list \<Rightarrow> ('z world_scheme, 'o) pact" where
  "get_master_amphora L stats protocol amphorae =
     (case amphorae of
        [] \<Rightarrow> raiseP object_not_found
      | [a] \<Rightarrow> retP a
      | _ \<Rightarrow>
          bindP (check_members_balanced L protocol None (Some 1) None 1 (Some 1)) (\<lambda>_.
            liftP (busy_amphora stats amphorae)))"

section \<open>What waiting returns\<close>

text \<open>
  Waiting for a status ends with the last answer, whose status is the one asked for; when it
  raises, it raises what asking or subscripting the answer raised, or a limit of the retry,
  which is not one of the exceptions that its documentation names.
\<close>

theorem octavia_status_reached:
  "(octavia_wait_for_status item ct ci key status get interval timeout i w = Some (Inr x, w') \<longrightarrow>
      item x key = Inr (PText status) \<and> (\<exists>u. get i u = (Inr x, w')))
 \<and> (octavia_wait_for_status item ct ci key status get interval timeout i w = Some (Inl e, w') \<longrightarrow>
      limit_error e \<or> (\<exists>u. get i u = (Inl e, w') \<or> (\<exists>x. get i u = (Inr x, w') \<and> item x key = Inl e)))"
proof (intro conjI impI)
  assume a: "octavia_wait_for_status item ct ci key status get interval timeout i w = Some (Inr x, w')"
  from wait_ready[OF a[unfolded octavia_wait_for_status_def]]
  show "item x key = Inr (PText status)" "\<exists>u. get i u = (Inr x, w')" by (auto simp: key_is_def map_sum_eq_Inr)
next
  assume a: "octavia_wait_for_status item ct ci key status get interval timeout i w = Some (Inl e, w')"
  from iter_raises[OF a[unfolded octavia_wait_for_status_def]]
  show "limit_error e \<or> (\<exists>u. get i u = (Inl e, w') \<or> (\<exists>x. get i u = (Inr x, w') \<and> item x key = Inl e))"
    by (auto simp: key_is_def map_sum_eq_Inl dest!: ready_turn_Inl)
qed

lemma octavia_status_ends:
  "asks_slowly d (get i) \<Longrightarrow> ends (octavia_wait_for_status item (Some ct) ci key status get interval timeout i)"
proof -
  assume slow: "asks_slowly d (get i)"
  obtain t where "rt_timeout (retry None None timeout None interval None (Some ct) None ci) = Some t"
    using default_timeout by blast
  from slow_ready_ends[OF slow this] show ?thesis
    by (simp add: octavia_wait_for_status_def[abs_def])
qed

lemma ipv6_vip_found: "ipv6_vip entries = Some a \<Longrightarrow> CHR '':'' \<in> set a \<and> a \<in> val_str ` set entries"
  by (induction entries) (auto split: if_splits)

theorem ipv6_vip_waited:
  assumes "wait_for_ipv6_additional_vip vips ct ci get i w = Some (Inr (Some lb), w')"
  shows "\<exists>a. find_ipv6_vip_on_load_balancer vips lb = Some a \<and> CHR '':'' \<in> set a"
proof -
  have "wait_for_load_balancer ct ci (\<lambda>lb. Inr (find_ipv6_vip_on_load_balancer vips lb \<noteq> None)) get None None i w
      = Some (Inr lb, w')"
    using assms by (auto simp: wait_for_ipv6_additional_vip_def catchP_def bindP_def retP_def liftP_def
        split: option.splits sum.splits prod.splits if_splits)
  from wait_ready[OF this[unfolded wait_for_load_balancer_def]] ipv6_vip_found
  show ?thesis by (auto simp: find_ipv6_vip_on_load_balancer_def)
qed

section \<open>Balanced replies\<close>

definition tallied :: "int \<Rightarrow> replies \<Rightarrow> bool" where
  "tallied n replies \<longleftrightarrow>
     distinct (map fst replies) \<and> (\<forall>(k, v) \<in> set replies. 1 \<le> v) \<and> sum_list (map snd replies) = n"

lemma sum_dict_set:
  "sum_list (map snd (dict_set d k v)) = sum_list (map snd d) - (case map_of d k of None \<Rightarrow> 0 | Some u \<Rightarrow> u) + (v :: int)"
  by (induction d k v rule: dict_set.induct) auto

lemma set_dict_set: "(k', v') \<in> set (dict_set d k v) \<Longrightarrow> (k' = k \<and> v' = v) \<or> (k', v') \<in> set d"
  by (induction d k v rule: dict_set.induct) (auto split: if_splits)

lemma tallied_reply: "tallied n replies \<Longrightarrow> tallied (n + 1) (count_reply replies content)"
  by (auto simp: tallied_def count_reply_def sum_dict_set distinct_dict_set dest!: set_dict_set split: option.split
      dest: map_of_SomeD)

lemma balanced_turn_counts:
  assumes "balanced_turn L protocol lb n a s = (Inr r, t)" and "tallied k (snd (snd s))"
  shows "tallied (k + 1) (snd (snd t)) \<and> (r = Done () \<longrightarrow> count_left a = Some 0 \<or> time_left a = Some 0)"
  using assms tallied_reply
  by (auto simp: balanced_turn_def Let_def is_last_None split: prod.splits sum.splits if_splits)

lemma balanced_loop:
  assumes "retry_iter fst_now fst_sleep (balanced_retry m q interval) (balanced_turn L protocol lb m) (w, None, []) = Some (Inr (), s)"
    and "0 < m * q"
  shows "tallied (m * q) (snd (snd s))"
proof -
  have R: "rt_count (balanced_retry m q interval) = Some (m * q)" "rt_timeout (balanced_retry m q interval) = None"
    using assms(2) by (auto simp: balanced_retry_def retry_def mk_retry_def to_secs_def opt_or_def)
  let ?I = "\<lambda>n s. tallied (n - 1) (snd (snd s)) \<and> n \<le> m * q"
  let ?Q = "\<lambda>(r :: unit res) s. case r of Inl e \<Rightarrow> True | Inr u \<Rightarrow> tallied (m * q) (snd (snd s))"
  have "?Q (Inr ()) s"
  proof (rule iter_invariant[OF assms(1), where I = ?I and Q = ?Q], goal_cases)
    case 1 then show ?case using assms(2) by (simp add: tallied_def)
  next
    case 2 then show ?case by (simp add: fst_sleep_def)
  next
    case (4 st n el s x t)
    have "tallied (n - 1) (snd (snd s))" using 4(1) by blast
    from balanced_turn_counts[OF 4(2) this] 4(1) R show ?case by (auto simp: count_left_def time_left_def to_secs_def)
  next
    case (6 st n el s t)
    have "tallied (n - 1) (snd (snd s))" using 6(1) by blast
    from balanced_turn_counts[OF 6(2) this] check_limits_count[OF 6(3) R(1)] show ?case by auto
  qed simp_all
  then show ?thesis by simp
qed

text \<open>
  When the check of balanced traffic succeeds, every member has replied: there is
  one count for each, none of them is zero, and together they are the requests that were sent,
  \<open>requests_count\<close> for each member.
\<close>

theorem balanced_replies:
  assumes "check_members_balanced L protocol pool_id members_count lb_algorithm requests_count interval w = Some (Inr replies, w')"
  shows "\<exists>m u v. count_members L pool_id members_count w = (Inr m, u) \<and> int (length replies) = m
     \<and> (0 < m * requests_count \<longrightarrow> tallied (m * requests_count) replies)"
proof -
  obtain m u where m: "count_members L pool_id members_count w = (Inr m, u)"
    using assms by (auto simp: check_members_balanced_def bindP_def liftP_def split: prod.splits sum.splits)
  obtain s where it: "retry_iter fst_now fst_sleep (balanced_retry m requests_count interval)
        (balanced_turn L protocol lb_algorithm m) (u, None, []) = Some (Inr (), s)"
      and r: "check_replies m (snd (snd s)) = Inr replies"
    using assms m by (auto simp: check_members_balanced_def bindP_def liftP_def split: prod.splits sum.splits option.splits)
  have "int (length replies) = m" "replies = snd (snd s)"
    using r by (auto simp: check_replies_def Let_def split: if_splits)
  with m balanced_loop[OF it] show ?thesis by auto
qed

text \<open>
  For a pool without members the check does not end as long as the address
  replies: a count of zero requests is no limit for the retry.
\<close>

theorem empty_pool_never_ends:
  assumes "\<And>scheme u. \<exists>page u'. ol_curl L scheme u = (Inr page, u')" and "count_members L pool_id members_count w = (Inr 0, u)"
  shows "check_members_balanced L protocol pool_id members_count lb_algorithm requests_count interval w = None"
proof -
  have turn: "\<exists>t. balanced_turn L protocol lb_algorithm 0 a s = (Inr Next, t) \<and> True"
    if "at_count a = None" "at_timeout a = None" for a s
  proof -
    obtain page u' where "ol_curl L (if protocol = ''TCP'' then ''HTTP'' else protocol) (fst s) = (Inr page, u')"
      using assms(1) by blast
    with that show ?thesis by (simp add: balanced_turn_def Let_def is_last_None count_left_def time_left_def)
  qed
  have "retry_iter fst_now fst_sleep (balanced_retry 0 requests_count interval) (balanced_turn L protocol lb_algorithm 0) (u, None, []) = None"
    by (rule iter_forever[where J = "\<lambda>s. True"], rule_tac [5] turn) (simp_all add: balanced_retry_def retry_def mk_retry_def to_secs_def)
  then show ?thesis using assms(2) by (simp add: check_members_balanced_def bindP_def liftP_def)
qed

text \<open>Verifying the traffic gives what a check of it gave at last.\<close>

lemma traffic_verified:
  assumes "verify_lb_traffic L protocol pool_id members_count lb_algorithm requests_count interval timeout exceptions w
      = Some (Inr replies, w')"
  shows "\<exists>u. check_members_balanced L protocol pool_id members_count lb_algorithm requests_count interval u = Some (Inr replies, w')"
  using assms[unfolded verify_lb_traffic_def]
proof (rule piter_returns)
  fix a u
  assume "traffic_turn L protocol pool_id members_count lb_algorithm requests_count interval
      (case exceptions of None \<Rightarrow> traffic_exceptions | Some es \<Rightarrow> es) a u = Some (Inr (Done replies), w')"
  then show ?thesis
    by (auto simp: traffic_turn_def catchP_def bindP_def retP_def raiseP_def liftP_def lift_res_def
        split: option.splits sum.splits prod.splits if_splits)
qed

section \<open>Verifying ends\<close>

lemma balanced_ends:
  assumes "m * requests_count \<noteq> 0"
  shows "ends (check_members_balanced L protocol pool_id (Some m) lb_algorithm requests_count interval)"
proof -
  have "rt_count (balanced_retry m requests_count interval) = Some (m * requests_count)"
    using assms by (simp add: balanced_retry_def retry_def mk_retry_def opt_or_def)
  then have "ends (retry_iter fst_now fst_sleep (balanced_retry m requests_count interval) (balanced_turn L protocol lb_algorithm m))"
    unfolding retry_iter_eq by (rule retry_count_ends) simp
  then show ?thesis
    by (auto simp: ends_def check_members_balanced_def count_members_def bindP_def liftP_def ret_def
        split: option.splits sum.splits prod.splits)
qed

lemma balanced_takes_time:
  assumes slow: "\<And>scheme. asks_slowly d (ol_curl L scheme)"
    and "check_members_balanced L protocol pool_id (Some m) lb_algorithm requests_count interval w = Some (r, w')"
  shows "py_time w + d \<le> py_time w'"
proof -
  have d: "0 < d" using slow by (simp add: asks_slowly_def)
  obtain q s where it: "retry_iter fst_now fst_sleep (balanced_retry m requests_count interval)
      (balanced_turn L protocol lb_algorithm m) (w, None, []) = Some (q, s)" and w': "w' = fst s"
    using assms(2) by (auto simp: check_members_balanced_def count_members_def bindP_def liftP_def ret_def
        split: option.splits sum.splits prod.splits)
  have turn: "py_time (fst u) + d \<le> py_time (fst t)" if "balanced_turn L protocol lb_algorithm m a u = (x, t)" for a u x t
  proof -
    obtain y v where c: "ol_curl L (if protocol = ''TCP'' then ''HTTP'' else protocol) (fst u) = (y, v)" by fastforce
    with that have "fst t = v" by (auto simp: balanced_turn_def Let_def split: sum.splits if_splits)
    with asks_slowly_at[OF slow c] show ?thesis by simp
  qed
  have "py_time w + d \<le> py_time (fst s)"
  proof (rule iter_invariant[OF it, where I = "\<lambda>n s. py_time w \<le> py_time (fst s)" and Q = "\<lambda>r s. py_time w + d \<le> py_time (fst s)"], goal_cases)
    case 2 then show ?case by (simp add: fst_sleep_def py_sleep_def py_time_def to_secs_def)
  qed (use d in \<open>auto dest!: turn\<close>)
  with w' show ?thesis by simp
qed

text \<open>
  Verifying the traffic ends, with the replies or with an exception, whatever the
  members reply, when the number of requests and the timeout are not zero and a request takes
  some time.
\<close>

theorem verify_traffic_ends:
  assumes slow: "\<And>scheme. asks_slowly d (ol_curl L scheme)" and "m * requests_count \<noteq> 0" and "t \<noteq> 0"
  shows "ends (verify_lb_traffic L protocol pool_id (Some m) lb_algorithm requests_count interval (Some t) exceptions)"
proof -
  have "\<exists>t'. rt_timeout (retry None None (Some t) None None None None None None) = Some t'"
    using assms(3) by (simp add: retry_def mk_retry_def opt_or_def to_secs_def)
  then obtain t' where t': "rt_timeout (retry None None (Some t) None None None None None None) = Some t'" by blast
  let ?turn = "traffic_turn L protocol pool_id (Some m) lb_algorithm requests_count interval
      (case exceptions of None \<Rightarrow> traffic_exceptions | Some es \<Rightarrow> es)"
  have d: "0 < d" using slow by (simp add: asks_slowly_def)
  have step: "py_time w + d \<le> py_time w'" if "?turn a w = Some (Inr Next, w')" for a w w'
  proof -
    have "\<exists>e. check_members_balanced L protocol pool_id (Some m) lb_algorithm requests_count interval w = Some (Inl e, w')"
      using that by (auto simp: traffic_turn_def catchP_def bindP_def retP_def raiseP_def liftP_def lift_res_def
          split: option.splits sum.splits prod.splits if_splits)
    with balanced_takes_time[OF slow] show ?thesis by blast
  qed
  have total: "ends (?turn a)" for a
    unfolding traffic_turn_def using balanced_ends[OF assms(2)] by (intro ends_catch ends_bind) auto
  have "ends (retry_piter py_time py_sleep (retry None None (Some t) None None None None None None) ?turn)"
  proof (rule clk.retry_timeout_ends[where J = "\<lambda>_. True", OF _ _ _ _ d t'])
    fix a w w' assume "?turn a w = Some (Inr Next, w')"
    from step[OF this] show "py_time w + d \<le> py_time w'" "True \<and> py_time w \<le> py_time w'" using d by simp_all
  qed (use total in simp_all)
  then show ?thesis by (simp add: verify_lb_traffic_def[abs_def])
qed

section \<open>Members\<close>

text \<open>A pool whose two members reply in turns: a reply takes a second.\<close>

definition demo_octavia :: "world octavia_lib" where
  "demo_octavia = \<lparr>ol_members = (\<lambda>p. ret 2),
     ol_curl = (\<lambda>s w. (Inr (if wtime w = 0 then ''a'' else ''b''), w\<lparr>wtime := wtime w + 1\<rparr>)),
     ol_status = (\<lambda>e. 1), ol_stderr = (\<lambda>e. [])\<rparr>"

lemma demo_balanced:
  "check_members_balanced demo_octavia ''TCP'' (Some ''p'') None (Some ''ROUND_ROBIN'') 1 None \<lparr>wtime = 0\<rparr>
     = Some (Inr [(''a'', 1), (''b'', 1)], \<lparr>wtime = 2\<rparr>)"
proof -
  let ?B = "balanced_turn demo_octavia ''TCP'' (Some ''ROUND_ROBIN'') 2"
  note eval = balanced_turn_def demo_octavia_def Let_def is_last_None count_left_def time_left_def balanced_retry_def retry_def
      mk_retry_def to_secs_def opt_or_def count_reply_def strip_def strip_by_def lstrip_by_def rstrip_by_def py_space_def
      retry_number_def mk_retry_attempt_def check_limits_None retry_pause_def fst_now_def py_time_def
  have "retry_loop fst_now fst_sleep (balanced_retry 2 1 None) ?B 0 2 1 (\<lparr>wtime = 1\<rparr>, Some ''a'', [(''a'', 1)])
      = Some (Inr (), \<lparr>wtime = 2\<rparr>, Some ''b'', [(''a'', 1), (''b'', 1)])"
    by (subst retry_loop.simps) (simp add: eval)
  then have "retry_iter fst_now fst_sleep (balanced_retry 2 1 None) ?B
      (\<lparr>wtime = 0\<rparr>, None, []) = Some (Inr (), \<lparr>wtime = 2\<rparr>, Some ''b'', [(''a'', 1), (''b'', 1)])"
    unfolding retry_iter_def by (subst retry_loop.simps) (simp add: eval)
  then show ?thesis
    by (simp add: check_members_balanced_def count_members_def bindP_def liftP_def demo_octavia_def[THEN arg_cong[where f = ol_members]]
        ret_def check_replies_def)
qed

lemma balanced_replies_witness:
  "\<exists>m u v. count_members demo_octavia (Some ''p'') None \<lparr>wtime = 0\<rparr> = (Inr m, u) \<and> int (length [(''a'', 1 :: int), (''b'', 1)]) = m
     \<and> (0 < m * 1 \<longrightarrow> tallied (m * 1) [(''a'', 1), (''b'', 1)])"
  by (rule balanced_replies[OF demo_balanced])

lemma empty_pool_never_ends_witness:
  "check_members_balanced demo_octavia ''HTTP'' None (Some 0) None 10 (Some 1) \<lparr>wtime = 0\<rparr> = None"
  by (rule empty_pool_never_ends[where u = "\<lparr>wtime = 0\<rparr>"]) (auto simp: demo_octavia_def count_members_def ret_def)

lemma verify_traffic_ends_witness:
  "ends (verify_lb_traffic demo_octavia ''TCP'' None (Some 2) None 10 (Some 1) (Some 300) None)"
  by (rule verify_traffic_ends[where d = 1]) (simp_all add: asks_slowly_def demo_octavia_def py_time_def)

end
