(* ===== verification/Manila_Shares.thy ===== *)
theory Manila_Shares
  imports Cloud_Waits Tobiko_Select
begin

text \<open>
  tobiko/openstack/manila: shares, access rules and snapshots (_client.py, _exceptions.py), and
  waiting for their status, size and deletion (_waiters.py). The Manila client, which raises its
  own NotFound, and the options of the configuration are parameters.
\<close>

section \<open>Objects as dictionaries\<close>

text \<open>
  What the client returns: a dictionary, a list, an object with a method \<open>to_dict\<close>, one with its
  information, or another object, which \<open>dict\<close> turns into a dictionary or refuses.
\<close>

datatype manila_obj =
    ODict "(string \<times> pyval) list"
  | OList "manila_obj list"
  | OToDict "(string \<times> pyval) list"
  | OInfo "(string \<times> pyval) list"
  | OOther "(string \<times> pyval) list res"

fun manila_to_dict :: "manila_obj \<Rightarrow> pyval res" where
  "manila_to_dict (ODict d) = Inr (PDict d)"
| "manila_to_dict (OList os) = map_sum id PList (map_res manila_to_dict os)"
| "manila_to_dict (OToDict d) = Inr (PDict d)"
| "manila_to_dict (OInfo d) = Inr (PDict d)"
| "manila_to_dict (OOther r) = map_sum id PDict r"

definition val_item :: "pyval \<Rightarrow> string \<Rightarrow> pyval res" where
  "val_item v key =
     (case v of
        PDict d \<Rightarrow> (case map_of d key of None \<Rightarrow> Raise PyKeyError (str_repr key) | Some x \<Rightarrow> Inr x)
      | _ \<Rightarrow> Raise PyTypeError ''object is not subscriptable by a text'')"

section \<open>Errors\<close>

definition ShareNotFound :: pyclass where
  "ShareNotFound = ''ShareNotFound'' # ObjectNotFound"
definition ShareReleaseFailed :: pyclass where
  "ShareReleaseFailed = ''ShareReleaseFailed'' # ObjectNotFound"
definition SnapshotNotFound :: pyclass where
  "SnapshotNotFound = ''SnapshotNotFound'' # ObjectNotFound"
definition SnapshotReleaseFailed :: pyclass where
  "SnapshotReleaseFailed = ''SnapshotReleaseFailed'' # ObjectNotFound"
definition ShareStatusError :: pyclass where
  "ShareStatusError = ''ShareStatusError'' # TobikoException"

text \<open>The exception of the client library that the loops raise; it has no text.\<close>

definition ManilaTimeout :: pyclass where
  "ManilaTimeout = ''TimeoutException'' # PyException"

declare ShareNotFound_def [exn_classes] ShareReleaseFailed_def [exn_classes] SnapshotNotFound_def [exn_classes]
  SnapshotReleaseFailed_def [exn_classes] ShareStatusError_def [exn_classes] ManilaTimeout_def [exn_classes]

definition STATUS_AVAILABLE :: string where "STATUS_AVAILABLE = ''available''"
definition STATUS_ERROR :: string where "STATUS_ERROR = ''error''"
definition STATUS_ERROR_DELETING :: string where "STATUS_ERROR_DELETING = ''error_deleting''"
definition ACCESS_STATE_ACTIVE :: string where "ACCESS_STATE_ACTIVE = ''active''"

section \<open>The client\<close>

record 'w manila_api =
  mn_create :: "(string \<times> pyval) list \<Rightarrow> ('w, manila_obj) act"
  mn_list :: "(string \<times> pyval) list \<Rightarrow> ('w, manila_obj) act"
  mn_delete :: "string \<Rightarrow> (string \<times> pyval) list \<Rightarrow> ('w, unit) act"
  mn_get :: "string \<Rightarrow> ('w, manila_obj) act"
  mn_types :: "('w, string list) act"
  mn_create_type :: "string \<Rightarrow> bool \<Rightarrow> ('w, unit) act"
  mn_allow :: "string \<Rightarrow> pyval \<Rightarrow> pyval \<Rightarrow> pyval \<Rightarrow> ('w, manila_obj) act"
  mn_get_rule :: "string \<Rightarrow> ('w, manila_obj) act"
  mn_delete_snapshot :: "string \<Rightarrow> ('w, unit) act"
  mn_get_snapshot :: "string \<Rightarrow> ('w, manila_obj) act"

record manila_conf =
  mc_share_protocol :: pyval
  mc_size :: pyval
  mc_type_name :: string
  mc_dhss :: bool
  mc_access_type :: pyval
  mc_access_to :: pyval
  mc_access_level :: pyval

type_synonym 'w manila_ref = "('w, 'w manila_api) act"

definition as_dict :: "('w, manila_obj) act \<Rightarrow> ('w, pyval) act" where
  "as_dict m = bindA m (\<lambda>x. lift_res (manila_to_dict x))"

definition create_share :: "manila_conf \<Rightarrow> 'w manila_ref \<Rightarrow> pyval \<Rightarrow> pyval \<Rightarrow> (string \<times> pyval) list \<Rightarrow> ('w, pyval) act" where
  "create_share C client share_protocol share_size kwargs =
     as_dict (bindA client (\<lambda>c. mn_create c
       ((''share_proto'', val_or share_protocol (mc_share_protocol C)) # (''size'', val_or share_size (mc_size C)) # kwargs)))"

definition list_shares :: "'w manila_ref \<Rightarrow> (string \<times> pyval) list \<Rightarrow> ('w, pyval) act" where
  "list_shares client kwargs =
     (let kwargs = (if ''search_opts'' \<in> fst ` set kwargs then kwargs else kwargs @ [(''search_opts'', PDict [])])
      in as_dict (bindA client (\<lambda>c. mn_list c kwargs)))"

text \<open>Deleting: whether there was something to delete.\<close>

definition deleted_if_found ::
  "(exn \<Rightarrow> bool) \<Rightarrow> 'w manila_ref \<Rightarrow> ('w manila_api \<Rightarrow> ('w, unit) act) \<Rightarrow> ('w, bool) act" where
  "deleted_if_found nf client delete = try_except (bindA (bindA client delete) (\<lambda>_. ret True)) nf (\<lambda>e. ret False)"

definition delete_share where
  "delete_share nf client share_id kwargs = deleted_if_found nf client (\<lambda>c. mn_delete c share_id kwargs)"
definition delete_snapshot where
  "delete_snapshot nf client snapshot_id = deleted_if_found nf client (\<lambda>c. mn_delete_snapshot c snapshot_id)"

definition get_or_not_found ::
  "(exn \<Rightarrow> bool) \<Rightarrow> pyclass \<Rightarrow> string \<Rightarrow> string \<Rightarrow> 'w manila_ref \<Rightarrow> ('w manila_api \<Rightarrow> ('w, manila_obj) act) \<Rightarrow> ('w, pyval) act" where
  "get_or_not_found nf cls what i client get =
     try_except (as_dict (bindA client get)) nf
       (\<lambda>e. raise_act (Exn cls (''No such manila '' @ what @ '' '' @ str_repr i)))"

definition get_share where
  "get_share nf client share_id = get_or_not_found nf ShareNotFound ''share'' share_id client (\<lambda>c. mn_get c share_id)"
definition get_snapshot where
  "get_snapshot nf client snapshot_id =
     get_or_not_found nf SnapshotNotFound ''snapshot'' snapshot_id client (\<lambda>c. mn_get_snapshot c snapshot_id)"

definition get_access_rule :: "'w manila_ref \<Rightarrow> string \<Rightarrow> ('w, pyval) act" where
  "get_access_rule client access_id = as_dict (bindA client (\<lambda>c. mn_get_rule c access_id))"

definition get_shares_by_name :: "'w manila_ref \<Rightarrow> string \<Rightarrow> ('w, pyval list) act" where
  "get_shares_by_name client share_name =
     bindA (list_shares client []) (\<lambda>shares.
       case shares of
         PList ss \<Rightarrow> lift_res (map_sum id (\<lambda>ps. map fst (filter (\<lambda>(s, n). n = PText share_name) ps))
                               (map_res (\<lambda>s. map_sum id (\<lambda>n. (s, n)) (val_item s ''name'')) ss))
       | _ \<Rightarrow> raise_act (Exn PyTypeError ''string indices must be integers''))"

definition ensure_default_share_type_exists :: "manila_conf \<Rightarrow> 'w manila_ref \<Rightarrow> ('w, unit) act" where
  "ensure_default_share_type_exists C client =
     bindA (bindA client mn_types) (\<lambda>names.
       if mc_type_name C \<in> set names then ret ()
       else bindA client (\<lambda>c. mn_create_type c (mc_type_name C) (mc_dhss C)))"

definition allow_access :: "manila_conf \<Rightarrow> 'w manila_ref \<Rightarrow> string \<Rightarrow> pyval \<Rightarrow> pyval \<Rightarrow> pyval \<Rightarrow> ('w, pyval) act" where
  "allow_access C client share_id access_type access_to access_level =
     (let access_type = val_or access_type (mc_access_type C);
          access_to = val_or access_to (mc_access_to C);
          access_level = val_or access_level (mc_access_level C)
      in if \<not> truthy access_to then raise_act (Exn PyValueError ''access_to must be specified'')
         else as_dict (bindA client (\<lambda>c. mn_allow c share_id access_type access_to access_level)))"

definition create_share_from_snapshot ::
  "manila_conf \<Rightarrow> 'w manila_ref \<Rightarrow> pyval \<Rightarrow> pyval \<Rightarrow> pyval \<Rightarrow> pyval \<Rightarrow> pyval \<Rightarrow> ('w, pyval) act" where
  "create_share_from_snapshot C client snapshot_id share_protocol share_size name description =
     as_dict (bindA client (\<lambda>c. mn_create c
       [(''share_proto'', val_or share_protocol (mc_share_protocol C)), (''size'', val_or share_size (mc_size C)),
        (''snapshot_id'', snapshot_id), (''name'', name), (''description'', description)]))"

section \<open>Waiting\<close>

definition manila_wait_for_status ::
  "string \<Rightarrow> string \<Rightarrow> (string \<Rightarrow> ('z world_scheme, pyval) act) \<Rightarrow> rat option \<Rightarrow> rat option \<Rightarrow> string \<Rightarrow> ('z world_scheme, pyval) pact" where
  "manila_wait_for_status status_key status get interval timeout object_id =
     retry_iter py_time py_sleep (retry None None timeout None interval None (Some 300) None (Some 3))
       (ready_turn (get object_id) (key_is val_item status_key (PText status)))"

definition wait_for_share_status where
  "wait_for_share_status nf client share_id =
     bindP (manila_wait_for_status ''status'' STATUS_AVAILABLE (get_share nf client) None None share_id) (\<lambda>_. retP ())"
definition wait_for_access_rule_status where
  "wait_for_access_rule_status client access_id state =
     bindP (manila_wait_for_status ''state'' state (get_access_rule client) None None access_id) (\<lambda>_. retP ())"
definition wait_for_snapshot_status where
  "wait_for_snapshot_status nf client snapshot_id status =
     bindP (manila_wait_for_status ''status'' status (get_snapshot nf client) None None snapshot_id) (\<lambda>_. retP ())"

text \<open>The share has its size and is available; a share in error raises.\<close>

definition size_ready :: "string \<Rightarrow> pyval \<Rightarrow> pyval \<Rightarrow> bool res" where
  "size_ready share_id expected_size share =
     (case val_item share ''status'' of
        Inl e \<Rightarrow> Inl e
      | Inr status \<Rightarrow>
          if status = PText STATUS_ERROR
          then Inl (cloud_error ShareStatusError ''share {id} reached error status'' [(''id'', PText share_id)])
          else map_sum id (\<lambda>size. size = expected_size \<and> status = PText STATUS_AVAILABLE) (val_item share ''size''))"

definition wait_for_share_size :: "(exn \<Rightarrow> bool) \<Rightarrow> 'z world_scheme manila_ref \<Rightarrow> string \<Rightarrow> pyval \<Rightarrow> ('z world_scheme, pyval) pact" where
  "wait_for_share_size nf client share_id expected_size =
     retry_iter py_time py_sleep (retry None None (Some 300) None (Some 3) None None None None)
       (ready_turn (get_share nf client share_id) (size_ready share_id expected_size))"

section \<open>Waiting for a deletion\<close>

definition is_deleted :: "pyclass \<Rightarrow> pyclass \<Rightarrow> string \<Rightarrow> ('w, pyval) act \<Rightarrow> ('w, bool) act" where
  "is_deleted not_found_class failed_class failed_message get w =
     (case get w of
        (Inl e, w1) \<Rightarrow> (if isinstance_exn e not_found_class then Inr True else Inl e, w1)
      | (Inr res, w1) \<Rightarrow>
          (case val_get res ''status'' of
             Inl e \<Rightarrow> (Inl e, w1)
           | Inr status \<Rightarrow>
               if status \<in> {PText STATUS_ERROR, PText STATUS_ERROR_DELETING}
               then (Raise failed_class failed_message, w1) else (Inr False, w1)))"

definition is_share_deleted where
  "is_share_deleted nf client share_id =
     is_deleted ShareNotFound ShareReleaseFailed ''Share has 'error_deleting' status and can not be deleted''
       (get_share nf client share_id)"

definition is_snapshot_deleted where
  "is_snapshot_deleted nf client snapshot_id =
     is_deleted SnapshotNotFound SnapshotReleaseFailed ''Snapshot has 'error_deleting' status and can not be deleted''
       (get_snapshot nf client snapshot_id)"

text \<open>The loop; \<open>time.sleep\<close> refuses a negative number of seconds, time is read in whole seconds.\<close>

partial_function (option) deletion_loop ::
  "('z world_scheme, bool) act \<Rightarrow> int \<Rightarrow> rat \<Rightarrow> rat \<Rightarrow> 'z world_scheme \<Rightarrow> (unit res \<times> 'z world_scheme) option" where
  "deletion_loop deleted start_time build_interval build_timeout w =
     (case deleted w of
        (Inl e, w1) \<Rightarrow> Some (Inl e, w1)
      | (Inr b, w1) \<Rightarrow>
          if b then Some (Inr (), w1)
          else if of_int (\<lfloor>py_time w1\<rfloor> - start_time) \<ge> build_timeout then Some (Raise ManilaTimeout [], w1)
          else if build_interval < 0 then Some (Raise PyValueError ''sleep length must be non-negative'', w1)
          else deletion_loop deleted start_time build_interval build_timeout (w1\<lparr>wtime := wtime w1 + build_interval\<rparr>))"

definition wait_for_resource_deletion ::
  "(exn \<Rightarrow> bool) \<Rightarrow> 'z world_scheme manila_ref \<Rightarrow> string \<Rightarrow> rat \<Rightarrow> rat \<Rightarrow> ('z world_scheme, unit) pact" where
  "wait_for_resource_deletion nf client share_id build_interval build_timeout w =
     deletion_loop (is_share_deleted nf client share_id) \<lfloor>py_time w\<rfloor> build_interval build_timeout w"

definition wait_for_snapshot_deletion ::
  "(exn \<Rightarrow> bool) \<Rightarrow> 'z world_scheme manila_ref \<Rightarrow> string \<Rightarrow> rat \<Rightarrow> rat \<Rightarrow> ('z world_scheme, unit) pact" where
  "wait_for_snapshot_deletion nf client snapshot_id build_interval build_timeout w =
     deletion_loop (is_snapshot_deleted nf client snapshot_id) \<lfloor>py_time w\<rfloor> build_interval build_timeout w"

section \<open>What waiting returns\<close>

lemma size_ready_True:
  "size_ready i n x = Inr True \<longleftrightarrow> val_item x ''size'' = Inr n \<and> val_item x ''status'' = Inr (PText STATUS_AVAILABLE)"
  by (auto simp: size_ready_def map_sum_eq_Inr STATUS_AVAILABLE_def STATUS_ERROR_def split: sum.split)

text \<open>A share is returned only when it is available with the size that was expected.\<close>

theorem share_size_reached:
  assumes "wait_for_share_size nf client i n w = Some (Inr x, w')"
  shows "val_item x ''size'' = Inr n \<and> val_item x ''status'' = Inr (PText STATUS_AVAILABLE)
       \<and> (\<exists>u. get_share nf client i u = (Inr x, w'))"
  using wait_ready[OF assms[unfolded wait_for_share_size_def]] by (simp add: size_ready_True)

text \<open>A deletion ends well only when the resource was not found; it times out only after \<open>build_timeout\<close> whole seconds.\<close>

definition deletion_post ::
  "('z world_scheme, bool) act \<Rightarrow> int \<Rightarrow> rat \<Rightarrow> rat \<Rightarrow> unit res \<times> 'z world_scheme \<Rightarrow> bool" where
  "deletion_post deleted st i t y \<longleftrightarrow>
     (fst y = Inr () \<longrightarrow> (\<exists>u. deleted u = (Inr True, snd y)))
   \<and> (\<forall>e. fst y = Inl e \<longrightarrow> (\<exists>u. deleted u = (Inl e, snd y)) \<or> i < 0
        \<or> (e = Exn ManilaTimeout [] \<and> (\<exists>u. deleted u = (Inr False, snd y)) \<and> t \<le> of_int (\<lfloor>py_time (snd y)\<rfloor> - st)))"

lemma deletion_loop_post:
  assumes "deletion_loop deleted st i t w = Some y"
  shows "deletion_post deleted st i t y"
proof (rule deletion_loop.raw_induct[where P = "\<lambda>deleted st i t w y. deletion_post deleted st i t y", OF _ assms], goal_cases)
  case (1 loop deleted st i t w y)
  obtain q w1 where q: "deleted w = (q, w1)" by fastforce
  show ?case
  proof (cases "q = Inr False \<and> \<not> t \<le> of_int (\<lfloor>py_time w1\<rfloor> - st) \<and> \<not> i < 0")
    case True
    with 1(2) q have "loop deleted st i t (w1\<lparr>wtime := wtime w1 + i\<rparr>) = Some y" by simp
    from 1(1)[OF this] show ?thesis .
  next
    case False
    with 1(2) q show ?thesis by (auto simp: deletion_post_def split: sum.splits if_splits)
  qed
qed

lemma is_deleted_True:
  "is_deleted nfc fc fm get w = (Inr True, w') \<longleftrightarrow> (\<exists>e. get w = (Inl e, w') \<and> isinstance_exn e nfc)"
  by (auto simp: is_deleted_def split: prod.splits sum.splits if_splits)

text \<open>
  Waiting for the deletion of a share ends well only after Manila did not find
  the share; it times out only after \<open>build_timeout\<close> whole seconds, right after the share was
  still seen.
\<close>

theorem deletion_seen:
  assumes "wait_for_resource_deletion nf client i build_interval build_timeout w = Some (r, w')" and "0 \<le> build_interval"
  shows "(r = Inr () \<longrightarrow> (\<exists>u e. get_share nf client i u = (Inl e, w') \<and> isinstance_exn e ShareNotFound))
       \<and> (\<forall>e. r = Inl e \<longrightarrow> (\<exists>u. is_share_deleted nf client i u = (Inl e, w'))
            \<or> (e = Exn ManilaTimeout [] \<and> (\<exists>u. is_share_deleted nf client i u = (Inr False, w'))
               \<and> build_timeout \<le> of_int (\<lfloor>py_time w'\<rfloor> - \<lfloor>py_time w\<rfloor>)))"
  using deletion_loop_post[OF assms(1)[unfolded wait_for_resource_deletion_def]] assms(2)
  by (auto simp: deletion_post_def is_share_deleted_def is_deleted_True)

section \<open>Waiting ends\<close>

lemma deletion_loop_ends:
  assumes mono: "\<And>w. py_time w \<le> py_time (snd (deleted w))" and i: "0 < i"
  shows "deletion_loop deleted st i t w \<noteq> None"
proof (induction "nat \<lceil>(of_int st + t + 1 - wtime w) / i\<rceil>" arbitrary: w rule: less_induct)
  case less
  obtain q w1 where q: "deleted w = (q, w1)" by fastforce
  with mono[of w] have m: "wtime w \<le> wtime w1" by (simp add: py_time_def)
  show ?case
  proof (cases "q = Inr False \<and> \<not> t \<le> of_int (\<lfloor>py_time w1\<rfloor> - st)")
    case True
    then have lt: "of_int \<lfloor>wtime w1\<rfloor> < of_int st + t" by (simp add: py_time_def)
    have "wtime w1 < of_int \<lfloor>wtime w1\<rfloor> + 1" by linarith
    with lt m have "0 < (of_int st + t + 1 - wtime w) / i" using i by (simp add: field_simps)
    moreover have "(of_int st + t + 1 - (wtime w1 + i)) / i \<le> (of_int st + t + 1 - wtime w) / i - 1"
      using m i by (simp add: field_simps)
    ultimately have "nat \<lceil>(of_int st + t + 1 - wtime (w1\<lparr>wtime := wtime w1 + i\<rparr>)) / i\<rceil> < nat \<lceil>(of_int st + t + 1 - wtime w) / i\<rceil>"
      by (simp; linarith)
    from less[OF this] True q i show ?thesis by (subst deletion_loop.simps) simp
  next
    case False
    with q show ?thesis by (subst deletion_loop.simps) (auto split: sum.splits)
  qed
qed

text \<open>
  Waiting for the deletion of a share ends, however long the share stays, when
  the interval is positive and asking does not turn the clock back.
\<close>

theorem deletion_wait_ends:
  assumes "\<And>w. py_time w \<le> py_time (snd (get_share nf client i w))" and "0 < build_interval"
  shows "ends (wait_for_resource_deletion nf client i build_interval build_timeout)"
  unfolding ends_def wait_for_resource_deletion_def
proof (intro allI deletion_loop_ends)
  fix w
  have "snd (is_share_deleted nf client i w) = snd (get_share nf client i w)"
    by (simp add: is_share_deleted_def is_deleted_def split: prod.split sum.split)
  with assms(1)[of w] show "py_time w \<le> py_time (snd (is_share_deleted nf client i w))" by simp
qed (rule assms(2))

section \<open>A cloud\<close>

definition demo_manila :: "world manila_api" where
  "demo_manila = \<lparr>mn_create = (\<lambda>ps. ret (ODict [])), mn_list = (\<lambda>ps. ret (OList [])), mn_delete = (\<lambda>i ps. ret ()),
     mn_get = (\<lambda>i w. (if wtime w < 1 then Inr (ODict [(''status'', PText ''deleting'')]) else Raise [''NotFound''] [], w)),
     mn_types = ret [], mn_create_type = (\<lambda>n d. ret ()), mn_allow = (\<lambda>i a b c. ret (ODict [])),
     mn_get_rule = (\<lambda>i. ret (ODict [])), mn_delete_snapshot = (\<lambda>i. ret ()), mn_get_snapshot = (\<lambda>i. ret (ODict []))\<rparr>"

definition manila_nf :: "exn \<Rightarrow> bool" where
  "manila_nf e = isinstance_exn e [''NotFound'']"

lemma demo_get_share:
  "get_share manila_nf (ret demo_manila) i w =
     (if wtime w < 1 then Inr (PDict [(''status'', PText ''deleting'')])
      else Raise ShareNotFound (''No such manila share '' @ str_repr i), w)"
  by (simp add: get_share_def get_or_not_found_def as_dict_def demo_manila_def bindA_def ret_def lift_res_def try_except_def
      raise_act_def manila_nf_def isinstance_exn_def issubclass_def)

lemma demo_is_deleted: "is_share_deleted manila_nf (ret demo_manila) i w = (Inr (1 \<le> wtime w), w)"
  by (simp add: is_share_deleted_def is_deleted_def demo_get_share isinstance_exn_def issubclass_def exn_classes val_get_def
      STATUS_ERROR_def STATUS_ERROR_DELETING_def)

lemma demo_deletion:
  "wait_for_resource_deletion manila_nf (ret demo_manila) ''1'' 1 60 \<lparr>wtime = 0\<rparr> = Some (Inr (), \<lparr>wtime = 1\<rparr>)"
proof -
  have "deletion_loop (is_share_deleted manila_nf (ret demo_manila) ''1'') 0 1 60 \<lparr>wtime = 1\<rparr> = Some (Inr (), \<lparr>wtime = 1\<rparr>)"
    by (subst deletion_loop.simps) (simp add: demo_is_deleted)
  then show ?thesis unfolding wait_for_resource_deletion_def by (subst deletion_loop.simps) (simp add: demo_is_deleted py_time_def)
qed

lemma deletion_seen_witness:
  "\<exists>u e. get_share manila_nf (ret demo_manila) ''1'' u = (Inl e, \<lparr>wtime = 1\<rparr>) \<and> isinstance_exn e ShareNotFound"
  using deletion_seen[OF demo_deletion] by simp

lemma deletion_wait_ends_witness: "ends (wait_for_resource_deletion manila_nf (ret demo_manila) ''1'' 1 60)"
  by (rule deletion_wait_ends) (simp_all add: demo_get_share)

end
