(* ===== verification/Designate_Zones.thy ===== *)
theory Designate_Zones
  imports Cloud_Waits
begin

text \<open>
  tobiko/openstack/designate/_client.py and _zone.py: zones by their id, their record sets, and
  waiting for a status. The Designate client is a parameter.
\<close>

text \<open>A zone is named by its id, or given as a mapping; other objects are refused.\<close>

datatype zone_arg = ZoneId string | ZoneMapping "(string \<times> pyval) list" | OtherZone string

definition designate_zone_id :: "zone_arg \<Rightarrow> pyval res" where
  "designate_zone_id zone =
     (case zone of
        ZoneId i \<Rightarrow> Inr (PText i)
      | ZoneMapping d \<Rightarrow> (case map_of d ''id'' of None \<Rightarrow> Raise PyKeyError (str_repr ''id'') | Some i \<Rightarrow> Inr i)
      | OtherZone text_of \<Rightarrow> Raise PyTypeError (text_of @ '' object is an invalid Designate zone type''))"

record ('w, 'o) designate_api =
  da_get_zone :: "pyval \<Rightarrow> ('w, 'o) act"
  da_list_recordsets :: "pyval \<Rightarrow> ('w, 'o) act"
  da_create_recordset :: "pyval \<Rightarrow> string \<Rightarrow> string \<Rightarrow> string list \<Rightarrow> ('w, 'o) act"
  da_get_recordset :: "string \<Rightarrow> string \<Rightarrow> ('w, 'o) act"

definition with_zone ::
  "('w, ('w, 'o) designate_api) act \<Rightarrow> zone_arg \<Rightarrow> (('w, 'o) designate_api \<Rightarrow> pyval \<Rightarrow> ('w, 'o) act) \<Rightarrow> ('w, 'o) act" where
  "with_zone client zone f = bindA (lift_res (designate_zone_id zone)) (\<lambda>i. bindA client (\<lambda>c. f c i))"

definition get_designate_zone where
  "get_designate_zone client zone = with_zone client zone da_get_zone"
definition list_recordsets where
  "list_recordsets client zone = with_zone client zone da_list_recordsets"
definition create_recordsets where
  "create_recordsets client zone name kind records = with_zone client zone (\<lambda>c i. da_create_recordset c i name kind records)"
definition get_recordset where
  "get_recordset client zone_id recordset_id = bindA client (\<lambda>c. da_get_recordset c zone_id recordset_id)"

definition designate_wait_for_status ::
  "('o \<Rightarrow> string \<Rightarrow> pyval res) \<Rightarrow> string \<Rightarrow> string \<Rightarrow> (string \<Rightarrow> ('z world_scheme, 'o) act) \<Rightarrow> string \<Rightarrow> rat option \<Rightarrow>
   rat option \<Rightarrow> ('z world_scheme, 'o) pact" where
  "designate_wait_for_status item status_key status get object_id interval timeout =
     retry_iter py_time py_sleep (retry None None timeout None interval None (Some 300) None (Some 3))
       (ready_turn (get object_id) (key_is item status_key (PText status)))"

text \<open>
  Waiting returns only an object that has been shown with the status, and ends when asking takes
  time; a time limit leaves as the exception of the retry.
\<close>

theorem designate_status_reached:
  assumes "designate_wait_for_status item key status get i interval timeout w = Some (r, w')"
  shows "(\<exists>x. r = Inr x \<and> item x key = Inr (PText status)) \<or> (\<exists>e. r = Inl e \<and> (limit_error e
           \<or> (\<exists>u. get i u = (Inl e, w') \<or> (\<exists>x. get i u = (Inr x, w') \<and> item x key = Inl e))))"
proof (cases r)
  case (Inr x)
  from wait_ready[OF assms[unfolded Inr designate_wait_for_status_def]] Inr show ?thesis by (auto simp: key_is_def map_sum_eq_Inr)
next
  case (Inl e)
  from iter_raises[OF assms[unfolded Inl designate_wait_for_status_def]] Inl show ?thesis
    by (auto simp: key_is_def map_sum_eq_Inr map_sum_eq_Inl dest!: ready_turn_Inl)
qed

theorem designate_wait_ends:
  assumes "asks_slowly d (get i)"
  shows "ends (designate_wait_for_status item key status get i interval timeout)"
proof -
  obtain t where "rt_timeout (retry None None timeout None interval None (Some 300) None (Some 3)) = Some t"
    using default_timeout by blast
  from slow_ready_ends[OF assms this] show ?thesis by (simp add: designate_wait_for_status_def[abs_def])
qed

end
