(* ===== verification/Glance_Images.thy ===== *)
theory Glance_Images
  imports Cloud_Waits Tobiko_Select
begin

text \<open>
  tobiko/openstack/glance: the requests for images (_client.py) and the fixtures of images
  (_image.py), which find an image, wait for its status, create and upload it when it is missing,
  and delete the duplicates they made. The state is the world with the attribute \<open>image\<close> of
  the fixture. What Glance does is a parameter.
\<close>

section \<open>Requests\<close>

record glance_image =
  gi_id :: string
  gi_status :: string

text \<open>\<open>ga_http_not_found\<close> tells the exception HTTPNotFound of the client library.\<close>

record ('w, 'd) glance_api =
  ga_get :: "string \<Rightarrow> ('w, glance_image) act"
  ga_list :: "nat option \<Rightarrow> (string \<times> pyval) list \<Rightarrow> ('w, glance_image list) act"
  ga_delete :: "string option \<Rightarrow> ('w, unit) act"
  ga_create :: "(string \<times> pyval) list \<Rightarrow> ('w, string) act"
  ga_upload :: "string \<Rightarrow> 'd \<Rightarrow> nat \<Rightarrow> ('w, unit) act"

type_synonym ('w, 'd) glance_ref = "('w, ('w, 'd) glance_api) act"

text \<open>\<open>dflt\<close>: None is the marker that makes a missing img raise.\<close>

definition glance_delete_image :: "(exn \<Rightarrow> bool) \<Rightarrow> ('w, 'd) glance_ref \<Rightarrow> string option \<Rightarrow> ('w, bool) act" where
  "glance_delete_image nf client i =
     try_except (bindA client (\<lambda>c. bindA (ga_delete c i) (\<lambda>_. ret True))) nf (\<lambda>e. ret False)"

definition glance_get_image ::
  "(exn \<Rightarrow> bool) \<Rightarrow> ('w, 'd) glance_ref \<Rightarrow> string \<Rightarrow> glance_image option option \<Rightarrow> ('w, glance_image option) act" where
  "glance_get_image nf client i dflt =
     try_except (bindA client (\<lambda>c. bindA (ga_get c i) (\<lambda>x. ret (Some x)))) nf
       (\<lambda>e. case dflt of None \<Rightarrow> raise_act e | Some d \<Rightarrow> ret d)"

definition glance_list_images ::
  "('w, 'd) glance_ref \<Rightarrow> nat option \<Rightarrow> (string \<times> pyval) list \<Rightarrow> ('w, glance_image list) act" where
  "glance_list_images client limit filters = bindA client (\<lambda>c. ga_list c limit filters)"

text \<open>The first or the only image, or the default value when there is one and no image.\<close>

definition choose_image ::
  "(glance_image list \<Rightarrow> string) \<Rightarrow> bool \<Rightarrow> glance_image option option \<Rightarrow> glance_image list \<Rightarrow> glance_image option res" where
  "choose_image repr unique dflt images =
     (case dflt of
        Some d \<Rightarrow> if images = [] then Inr d
                  else map_sum id Some (if unique then select_unique repr images else select_first images)
      | None \<Rightarrow> map_sum id Some (if unique then select_unique repr images else select_first images))"

text \<open>An image that is named is first looked for as an id, with the default client \<open>std\<close>.\<close>

definition glance_find_image ::
  "(exn \<Rightarrow> bool) \<Rightarrow> (glance_image list \<Rightarrow> string) \<Rightarrow> ('w, 'd) glance_ref \<Rightarrow> ('w, 'd) glance_ref \<Rightarrow> string option \<Rightarrow> bool \<Rightarrow>
   glance_image option option \<Rightarrow> (string \<times> pyval) list \<Rightarrow> ('w, glance_image option) act" where
  "glance_find_image nf repr std client img unique dflt params =
     bindA client (\<lambda>c.
     bindA (case img of
              Some (x # xs) \<Rightarrow>
                try_except (bindA (glance_get_image nf std (x # xs) None) (\<lambda>i. ret (Inl i))) nf
                  (\<lambda>e. ret (Inr (if ''name'' \<in> fst ` set params then params else params @ [(''name'', PText (x # xs))])))
            | _ \<Rightarrow> ret (Inr params)) (\<lambda>r.
       case r of
         Inl i \<Rightarrow> ret i
       | Inr ps \<Rightarrow> bindA (glance_list_images (ret c) (Some (if unique then 2 else 1)) ps)
                     (\<lambda>images. lift_res (choose_image repr unique dflt images))))"

section \<open>Statuses\<close>

definition CHANGING_STATUS :: "string list" where
  "CHANGING_STATUS = [''queued'', ''importing'', ''pending_delete'', ''saving'', ''uploading'']"
definition GETTING_ACTIVE_STATUS :: "string list" where
  "GETTING_ACTIVE_STATUS = [''queued'', ''saving'', ''active'']"

definition image_status :: "glance_image option \<Rightarrow> string" where
  "image_status img = (case img of None \<Rightarrow> ''deleted'' | Some i \<Rightarrow> if gi_status i = [] then ''deleted'' else gi_status i)"

definition is_image_status_changing :: "glance_image option \<Rightarrow> bool" where
  "is_image_status_changing img = (case img of None \<Rightarrow> False | Some i \<Rightarrow> gi_status i \<in> set CHANGING_STATUS)"

definition is_image_getting_active :: "glance_image option \<Rightarrow> bool" where
  "is_image_getting_active img = (case img of None \<Rightarrow> False | Some i \<Rightarrow> gi_status i \<in> set GETTING_ACTIVE_STATUS)"

definition InvalidGlanceImageStatus :: pyclass where
  "InvalidGlanceImageStatus = ''InvalidGlanceImageStatus'' # TobikoException"

declare InvalidGlanceImageStatus_def [exn_classes]

definition invalid_image_message :: "string \<Rightarrow> glance_image option \<Rightarrow> string list \<Rightarrow> string" where
  "invalid_image_message name img expected =
     ''Invalid image '' @ str_repr name @ '' (id '' @
     (case img of None \<Rightarrow> ''None'' | Some i \<Rightarrow> if gi_id i = [] then ''None'' else str_repr (gi_id i)) @ '') status: '' @
     str_repr (image_status img) @ '' not in {'' @ str_join '', '' (map str_repr expected) @ ''}''"

definition check_image_status :: "string \<Rightarrow> glance_image option \<Rightarrow> string list \<Rightarrow> unit res" where
  "check_image_status name img expected =
     (if image_status img \<notin> set expected then Raise InvalidGlanceImageStatus (invalid_image_message name img expected)
      else Inr ())"

section \<open>The fixture\<close>

text \<open>
  \<open>gf_created\<close> is the set of the images made by the running \<open>create_image\<close>; \<open>gv_std\<close> is the
  default client; \<open>gv_data\<close> is \<open>get_image_data\<close> of the class, the data with its size.
\<close>

record glance_attrs =
  gf_image :: "glance_image option"
  gf_created :: "string list"

record ('w, 'd) glance_env =
  gv_name :: string
  gv_nf :: "exn \<Rightarrow> bool"
  gv_repr :: "glance_image list \<Rightarrow> string"
  gv_std :: "('w, 'd) glance_ref"
  gv_client :: "('w, 'd) glance_ref"
  gv_interval :: rat
  gv_retries :: "int option"
  gv_prevent :: bool
  gv_parameters :: "(string \<times> pyval) list"
  gv_data :: "('w, 'd \<times> nat) act"

definition set_image :: "glance_image option \<Rightarrow> ('w \<times> glance_attrs, unit) act" where
  "set_image img = set_snd (\<lambda>a. a\<lparr>gf_image := img\<rparr>)"

text \<open>\<open>get_image\<close> without arguments.\<close>

definition fixture_get_image :: "('w, 'd) glance_env \<Rightarrow> ('w \<times> glance_attrs, glance_image option) act" where
  "fixture_get_image E =
     bindA (on_fst (glance_find_image (gv_nf E) (gv_repr E) (gv_std E) (gv_client E) None False (Some None)
                      [(''name'', PText (gv_name E))]))
       (\<lambda>img. bindA (set_image img) (\<lambda>_. ret img))"

definition current_image :: "('w, 'd) glance_env \<Rightarrow> ('w \<times> glance_attrs, glance_image option) act" where
  "current_image E s = (case gf_image (snd s) of Some i \<Rightarrow> (Inr (Some i), s) | None \<Rightarrow> fixture_get_image E s)"

definition fixture_image_id :: "('w, 'd) glance_env \<Rightarrow> ('w \<times> glance_attrs, string option) act" where
  "fixture_image_id E =
     bindA (current_image E) (\<lambda>img. ret (case img of None \<Rightarrow> None | Some i \<Rightarrow> if gi_id i = [] then None else Some (gi_id i)))"

definition fixture_delete_image :: "('w, 'd) glance_env \<Rightarrow> string option \<Rightarrow> ('w \<times> glance_attrs, unit) act" where
  "fixture_delete_image E image_id =
     bindA (case image_id of
              Some (x # xs) \<Rightarrow> ret (Some (x # xs))
            | _ \<Rightarrow> bindA (fixture_image_id E) (\<lambda>i. bindA (set_image None) (\<lambda>_. ret i)))
       (\<lambda>i. bindA (on_fst (glance_delete_image (gv_nf E) (gv_client E) i)) (\<lambda>_. ret ()))"

text \<open>The loop of \<open>wait_for_image_status\<close>; it has no limit.\<close>

partial_function (option) image_wait_loop ::
  "('z world_scheme, 'd) glance_env \<Rightarrow> string list \<Rightarrow> glance_image option \<Rightarrow> 'z world_scheme \<times> glance_attrs \<Rightarrow>
   (glance_image option res \<times> ('z world_scheme \<times> glance_attrs)) option" where
  "image_wait_loop E expected img s =
     (if image_status img \<notin> set expected \<and> is_image_status_changing img
      then (case fixture_get_image E ((fst s)\<lparr>wtime := wtime (fst s) + gv_interval E\<rparr>, snd s) of
              (Inl e, t) \<Rightarrow> Some (Inl e, t)
            | (Inr img', t) \<Rightarrow> image_wait_loop E expected img' t)
      else Some (Inr img, s))"

definition wait_for_image_status ::
  "('z world_scheme, 'd) glance_env \<Rightarrow> string list \<Rightarrow> bool \<Rightarrow> ('z world_scheme \<times> glance_attrs, glance_image option) pact" where
  "wait_for_image_status E expected check =
     bindP (liftP (current_image E)) (\<lambda>img.
     bindP (image_wait_loop E expected img) (\<lambda>img.
       if check then bindP (liftP (lift_res (check_image_status (gv_name E) img expected))) (\<lambda>_. retP img)
       else retP img))"

definition wait_for_image_active where
  "wait_for_image_active E check = wait_for_image_status E [''active''] check"
definition wait_for_image_deleted where
  "wait_for_image_deleted E check = wait_for_image_status E [''deleted''] check"
definition wait_for_getting_active_image where
  "wait_for_getting_active_image E check = wait_for_image_status E GETTING_ACTIVE_STATUS check"

section \<open>Creating\<close>

definition upload_image :: "('w, 'd) glance_env \<Rightarrow> ('w \<times> glance_attrs, unit) act" where
  "upload_image E =
     bindA (\<lambda>s. lift_res (check_image_status (gv_name E) (gf_image (snd s)) [''queued'']) s) (\<lambda>_.
     bindA (on_fst (gv_data E)) (\<lambda>(data, n).
     bindA (fixture_image_id E) (\<lambda>i.
       on_fst (bindA (gv_std E) (\<lambda>c. ga_upload c (case i of None \<Rightarrow> [] | Some i \<Rightarrow> i) data n)))))"

definition replace_image :: "('z world_scheme, 'd) glance_env \<Rightarrow> glance_image option \<Rightarrow> ('z world_scheme \<times> glance_attrs, unit) pact" where
  "replace_image E img =
     bindP (case img of
              None \<Rightarrow> retP ()
            | Some i \<Rightarrow> bindP (liftP (fixture_delete_image E (Some (gi_id i)))) (\<lambda>_.
                         bindP (wait_for_image_deleted E True) (\<lambda>_. retP ()))) (\<lambda>_.
     liftP (bindA (set_image None) (\<lambda>_.
            bindA (on_fst (bindA (gv_client E) (\<lambda>c. ga_create c (gv_parameters E)))) (\<lambda>i.
              set_snd (\<lambda>a. a\<lparr>gf_created := List.insert i (gf_created a)\<rparr>)))))"

text \<open>The loop of \<open>create_image\<close> with \<open>n\<close> retries left.\<close>

fun create_rounds :: "('z world_scheme, 'd) glance_env \<Rightarrow> nat \<Rightarrow> ('z world_scheme \<times> glance_attrs, glance_image option) pact" where
  "create_rounds E n =
     bindP (wait_for_getting_active_image E (n = 0)) (\<lambda>img.
       if is_image_getting_active img then retP img
       else bindP (if gv_prevent E then retP img else bindP (replace_image E img) (\<lambda>_. retP None)) (\<lambda>img.
              case n of 0 \<Rightarrow> retP img | Suc m \<Rightarrow> create_rounds E m))"

declare create_rounds.simps [simp del]

definition created_here :: "glance_attrs \<Rightarrow> glance_image option \<Rightarrow> bool" where
  "created_here a img = (case img of None \<Rightarrow> False | Some i \<Rightarrow> gi_id i \<in> set (gf_created a))"

definition create_body ::
  "('z world_scheme, 'd) glance_env \<Rightarrow> int option \<Rightarrow> ('z world_scheme \<times> glance_attrs, glance_image option) pact" where
  "create_body E retries =
     (let n = (case num_or (num_or retries (gv_retries E)) (Some 1) of None \<Rightarrow> 1 | Some k \<Rightarrow> k)
      in if n < 0 then raiseP (Exn [''UnboundLocalError'', ''NameError'', ''Exception'', ''BaseException'']
                        ''local variable 'image' referenced before assignment'')
         else bindP (create_rounds E (nat n)) (\<lambda>img.
              bindP (\<lambda>s. if created_here (snd s) img then liftP (upload_image E) s else retP () s) (\<lambda>_.
              bindP (wait_for_image_active E True) (\<lambda>img.
              bindP (liftP (set_snd (\<lambda>a. case img of None \<Rightarrow> a | Some i \<Rightarrow> a\<lparr>gf_created := removeAll (gi_id i) (gf_created a)\<rparr>)))
                (\<lambda>_. retP img)))))"

text \<open>Images that were made and are not the one in use are deleted; exceptions of that are only logged.\<close>

fun cleanup_images :: "('w, 'd) glance_env \<Rightarrow> string list \<Rightarrow> ('w \<times> glance_attrs, unit) act" where
  "cleanup_images E [] = ret ()"
| "cleanup_images E (i # is) =
     bindA (try_except (fixture_delete_image E (Some i)) (\<lambda>e. isinstance_exn e PyException) (\<lambda>e. ret ()))
       (\<lambda>_. cleanup_images E is)"

definition create_image ::
  "('z world_scheme, 'd) glance_env \<Rightarrow> int option \<Rightarrow> ('z world_scheme \<times> glance_attrs, glance_image option) pact" where
  "create_image E retries s =
     (case create_body E retries (fst s, (snd s)\<lparr>gf_created := []\<rparr>) of
        None \<Rightarrow> None
      | Some (r, t) \<Rightarrow>
          (case cleanup_images E (gf_created (snd t)) t of
             (Inl e, u) \<Rightarrow> Some (Inl e, u)
           | (Inr _, u) \<Rightarrow> Some (r, u)))"

section \<open>Images from a URL\<close>

text \<open>
  \<open>UrlGlanceImageFixture\<close>: the state is the world with the files of the host. The functions on
  paths and URLs, requests and \<open>open_image_file\<close> are parameters.
\<close>

record response =
  rs_length :: "string option"
  rs_chunks :: "string list"
  rs_error :: "exn option"

type_synonym files = "string \<rightharpoonup> string"

record ('w, 'd) url_lib =
  ul_scheme :: "string \<Rightarrow> string"
  ul_path :: "string \<Rightarrow> string"
  ul_basename :: "string \<Rightarrow> string"
  ul_expanduser :: "string \<Rightarrow> string"
  ul_realpath :: "string \<Rightarrow> string"
  ul_join :: "string \<Rightarrow> string \<Rightarrow> string"
  ul_temp :: "string \<Rightarrow> files \<Rightarrow> string"
  ul_dirname :: "string \<Rightarrow> string"
  ul_get :: "string \<Rightarrow> ('w, response) act"
  ul_open :: "string \<Rightarrow> string \<Rightarrow> 'd res"

record url_image =
  ui_name :: string
  ui_url :: string
  ui_dir :: string
  ui_file :: string

text \<open>\<open>__init__\<close>, over the class attributes; \<open>unnamed\<close> is the name made of the id of the object.\<close>

definition init_url_image ::
  "('w, 'd) url_lib \<Rightarrow> string \<Rightarrow> string \<Rightarrow> url_image \<Rightarrow> string option \<Rightarrow> string option \<Rightarrow> url_image res" where
  "init_url_image U unnamed conf_dir cls image_url image_dir =
     (let given = (\<lambda>v old. case v of Some (x # xs) \<Rightarrow> x # xs | _ \<Rightarrow> old);
          url = given image_url (ui_url cls);
          dir = given image_dir (if ui_dir cls \<noteq> [] then ui_dir cls else if conf_dir \<noteq> [] then conf_dir else ''.'')
      in if url = [] then Inr (cls\<lparr>ui_url := url, ui_dir := dir\<rparr>)
         else if ul_scheme U url = [] then Raise PyValueError (''Invalid image URL (missing scheme): '' @ url)
         else (let file = (if ui_file cls \<noteq> [] then ui_file cls
                           else if ul_scheme U url = ''file'' then ul_path U url
                           else if ul_basename U (ul_path U url) \<noteq> [] then ul_basename U (ul_path U url) else unnamed)
               in Inr (cls\<lparr>ui_url := url, ui_dir := dir, ui_file := file\<rparr>)))"

definition real_image_file :: "('w, 'd) url_lib \<Rightarrow> url_image \<Rightarrow> string" where
  "real_image_file U x =
     (if CHR ''/'' \<in> set (ui_file x) then ul_expanduser U (ui_file x)
      else ul_join U (ul_realpath U (ul_expanduser U (ui_dir x))) (ui_file x))"

definition PyFileNotFound :: pyclass where
  "PyFileNotFound = [''FileNotFoundError'', ''OSError''] @ PyException"

definition get_image_from_file :: "('w, 'd) url_lib \<Rightarrow> string \<Rightarrow> ('w \<times> files, 'd \<times> nat) act" where
  "get_image_from_file U path s =
     (case snd s path of
        None \<Rightarrow> (Raise PyFileNotFound path, s)
      | Some content \<Rightarrow> (map_sum id (\<lambda>d. (d, length content)) (ul_open U path content), s))"

text \<open>The file appears under its name only when all of it was received; a part stays in the temporary file.\<close>

definition download_image_file :: "('w, 'd) url_lib \<Rightarrow> string \<Rightarrow> string list \<Rightarrow> int \<Rightarrow> ('w \<times> files, unit) act" where
  "download_image_file U path chunks expected_size s =
     (let temp = ul_temp U (ul_dirname U path) (snd s); content = concat chunks
      in if expected_size \<noteq> 0 \<and> int (length content) \<noteq> expected_size
         then (Raise PyRuntimeError (''Download file size mismatch: '' @ str_int expected_size @ '' != '' @ str_int (int (length content))),
               (fst s, (snd s)(temp \<mapsto> content)))
         else (Inr (), (fst s, (snd s)(temp := None, path \<mapsto> content))))"

definition cached_file :: "files \<Rightarrow> string \<Rightarrow> int \<Rightarrow> bool" where
  "cached_file fs path expected_size =
     (expected_size \<noteq> 0 \<and> (case fs path of None \<Rightarrow> False | Some c \<Rightarrow> int (length c) = expected_size))"

definition get_image_from_url :: "('w, 'd) url_lib \<Rightarrow> url_image \<Rightarrow> string \<Rightarrow> ('w \<times> files, 'd \<times> nat) act" where
  "get_image_from_url U x path =
     bindA (on_fst (ul_get U (ui_url x))) (\<lambda>r.
     bindA (lift_res (case rs_length r of None \<Rightarrow> Inr 0 | Some n \<Rightarrow> py_int n)) (\<lambda>expected_size.
       case rs_error r of
         Some e \<Rightarrow> raise_act e
       | None \<Rightarrow>
           bindA (\<lambda>s. if cached_file (snd s) path expected_size then (Inr (), s)
                      else download_image_file U path (rs_chunks r) expected_size s)
             (\<lambda>_. get_image_from_file U path)))"

definition get_image_data :: "('w, 'd) url_lib \<Rightarrow> url_image \<Rightarrow> ('w \<times> files, 'd \<times> nat) act" where
  "get_image_data U x s =
     (let path = real_image_file U x
      in if snd s path \<noteq> None then get_image_from_file U path s
         else if ui_url x = []
         then (Raise PyAssertionError (''image_url is required to download image '' @ str_repr (ui_name x) @
                 '' because the image file '' @ str_repr path @ '' does not exist.''), s)
         else get_image_from_url U x path s)"

section \<open>What is returned\<close>

lemma valid_wait_image:
  "valid P (wait_for_image_status E expected True) (post (\<lambda>e s. True) (\<lambda>i s. image_status i \<in> set expected))"
  unfolding wait_for_image_status_def
  by (auto simp: valid_def post_def bindP_def liftP_def lift_res_def retP_def check_image_status_def
      split: option.splits sum.splits prod.splits if_splits)

definition in_use :: "glance_image option \<Rightarrow> glance_attrs \<Rightarrow> bool" where
  "in_use img a \<longleftrightarrow> (\<exists>i. img = Some i \<and> gi_status i = ''active'' \<and> gi_id i \<notin> set (gf_created a))"

lemma active_image: "image_status img = ''active'' \<Longrightarrow> \<exists>i. img = Some i \<and> gi_status i = ''active''"
  by (auto simp: image_status_def split: option.splits if_splits)

lemma valid_create_body:
  "valid (\<lambda>s. True) (create_body E retries) (post (\<lambda>e s. True) (\<lambda>img s. in_use img (snd s)))"
proof -
  have last: "valid (\<lambda>s. image_status img = ''active'')
      (bindP (liftP (set_snd (\<lambda>a. case img of None \<Rightarrow> a | Some i \<Rightarrow> a\<lparr>gf_created := removeAll (gi_id i) (gf_created a)\<rparr>))) (\<lambda>_. retP img))
      (post (\<lambda>e s. True) (\<lambda>img s. in_use img (snd s)))" for img
    by (auto simp: valid_def post_def bindP_def liftP_def set_snd_def retP_def in_use_def dest: active_image)
  show ?thesis
    unfolding create_body_def Let_def
  proof (rule valid_if)
    show "valid (\<lambda>s. True) (bindP (create_rounds E k) (\<lambda>img. bindP (f img) (\<lambda>_. bindP (wait_for_image_active E True) (\<lambda>img.
        bindP (liftP (set_snd (\<lambda>a. case img of None \<Rightarrow> a | Some i \<Rightarrow> a\<lparr>gf_created := removeAll (gi_id i) (gf_created a)\<rparr>)))
          (\<lambda>_. retP img))))) (post (\<lambda>e s. True) (\<lambda>img s. in_use img (snd s)))" for k f
      unfolding wait_for_image_active_def
      by (rule valid_after, rule valid_after, rule valid_bind[where R = "\<lambda>img s. image_status img \<in> set [''active'']"],
          rule valid_conseq[OF valid_wait_image]) (simp_all add: last post_def split: sum.splits)
  qed (simp add: valid_raise)
qed

text \<open>
  The image that \<open>create_image\<close> returns is active, and the images that it deletes
  before it returns are those it made itself, without the one it returns.
\<close>

theorem created_image_active:
  assumes "create_image E retries s = Some (Inr img, u)"
  shows "\<exists>i t. img = Some i \<and> gi_status i = ''active''
     \<and> create_body E retries (fst s, (snd s)\<lparr>gf_created := []\<rparr>) = Some (Inr img, t)
     \<and> gi_id i \<notin> set (gf_created (snd t)) \<and> cleanup_images E (gf_created (snd t)) t = (Inr (), u)"
proof -
  obtain t where t: "create_body E retries (fst s, (snd s)\<lparr>gf_created := []\<rparr>) = Some (Inr img, t)"
    and u: "cleanup_images E (gf_created (snd t)) t = (Inr (), u)"
    using assms by (auto simp: create_image_def split: option.splits prod.splits sum.splits)
  from validD[OF valid_create_body TrueI t] have "in_use img (snd t)" by simp
  with t u show ?thesis by (auto simp: in_use_def)
qed

text \<open>
  Waiting for an image has no limit: when Glance shows it in a status that may
  still change, and goes on doing so, waiting never ends.
\<close>

theorem image_wait_forever:
  assumes "\<And>w. \<exists>w'. glance_find_image (gv_nf E) (gv_repr E) (gv_std E) (gv_client E) None False (Some None)
      [(''name'', PText (gv_name E))] w = (Inr (Some i), w')"
    and "gi_status i \<in> set CHANGING_STATUS" and "gi_status i \<notin> set expected" and "gf_image (snd s) = None"
  shows "wait_for_image_status E expected check s = None"
proof -
  have i: "image_status (Some i) \<notin> set expected \<and> is_image_status_changing (Some i)"
    using assms(2,3) by (auto simp: image_status_def is_image_status_changing_def CHANGING_STATUS_def)
  have get: "\<exists>t. fixture_get_image E u = (Inr (Some i), t)" for u
  proof -
    obtain w' where "glance_find_image (gv_nf E) (gv_repr E) (gv_std E) (gv_client E) None False (Some None)
      [(''name'', PText (gv_name E))] (fst u) = (Inr (Some i), w')" using assms(1) by blast
    then show ?thesis by (simp add: fixture_get_image_def bindA_def on_fst_def set_image_def set_snd_def ret_def)
  qed
  have loop: "image_wait_loop E expected (Some i) u = Some y \<Longrightarrow> False" for u y
  proof -
    assume l: "image_wait_loop E expected (Some i) u = Some y"
    have "E' = E \<and> ex = expected \<and> img = Some i \<longrightarrow> False" if "image_wait_loop E' ex img v = Some z" for E' ex img v z
    proof (rule image_wait_loop.raw_induct[where P = "\<lambda>E' ex img v z. E' = E \<and> ex = expected \<and> img = Some i \<longrightarrow> False", OF _ that], goal_cases)
      case (1 loop E' ex img v z)
      show ?case
      proof
        assume e: "E' = E \<and> ex = expected \<and> img = Some i"
        obtain t where "fixture_get_image E ((fst v)\<lparr>wtime := wtime (fst v) + gv_interval E\<rparr>, snd v) = (Inr (Some i), t)"
          using get by blast
        with 1(2) e i have "loop E expected (Some i) t = Some z" by simp
        from 1(1)[OF this] show False by simp
      qed
    qed
    from this[OF l] show False by simp
  qed
  obtain t where t: "fixture_get_image E s = (Inr (Some i), t)" using get by blast
  have "image_wait_loop E expected (Some i) t = None" using loop by (metis not_None_eq)
  with t assms(4) show ?thesis by (simp add: wait_for_image_status_def current_image_def bindP_def liftP_def)
qed

text \<open>
  The data of an image taken from its URL is the whole file: the file is there
  under its name, the size that is returned is its size, and it is the length that the server
  announced, when it announced one.
\<close>

theorem downloaded_whole:
  assumes "get_image_from_url U x path (w, fs) = (Inr (d, n), (w', fs'))"
  shows "\<exists>r u content. ul_get U (ui_url x) w = (Inr r, u) \<and> fs' path = Some content \<and> n = length content
     \<and> ul_open U path content = Inr d \<and> (\<forall>text_of k. rs_length r = Some text_of \<longrightarrow> py_int text_of = Inr k \<longrightarrow> k \<noteq> 0 \<longrightarrow> int n = k)"
proof -
  obtain r v where get: "on_fst (ul_get U (ui_url x)) (w, fs) = (Inr r, v)"
    and v: "bindA (lift_res (case rs_length r of None \<Rightarrow> Inr 0 | Some n \<Rightarrow> py_int n)) (\<lambda>k.
       case rs_error r of Some e \<Rightarrow> raise_act e
       | None \<Rightarrow> bindA (\<lambda>s. if cached_file (snd s) path k then (Inr (), s) else download_image_file U path (rs_chunks r) k s)
             (\<lambda>_. get_image_from_file U path)) v = (Inr (d, n), (w', fs'))"
    using assms unfolding get_image_from_url_def bindA_eq_Inr by blast
  from get obtain u where r: "ul_get U (ui_url x) w = (Inr r, u)" and vu: "v = (u, fs)"
    by (auto simp: on_fst_def split: prod.splits)
  from v obtain k where k: "(case rs_length r of None \<Rightarrow> Inr 0 | Some n \<Rightarrow> py_int n) = Inr k"
    and rest: "bindA (\<lambda>s. if cached_file (snd s) path k then (Inr (), s) else download_image_file U path (rs_chunks r) k s)
             (\<lambda>_. get_image_from_file U path) (u, fs) = (Inr (d, n), (w', fs'))"
    unfolding vu by (cases "rs_error r") (auto simp: bindA_eq_Inr lift_res_def raise_act_def)
  from rest obtain content where c: "fs' path = Some content" "n = length content" "ul_open U path content = Inr d"
    by (auto simp: bindA_eq_Inr get_image_from_file_def map_sum_eq_Inr split: option.splits)
  moreover have "k \<noteq> 0 \<longrightarrow> int n = k"
    using rest c(1,2)
    by (auto simp: bindA_eq_Inr get_image_from_file_def cached_file_def download_image_file_def Let_def
        split: option.splits if_splits)
  ultimately show ?thesis using r k by (auto split: option.splits)
qed

section \<open>A cloud\<close>

definition demo_glance :: "string \<Rightarrow> (world, string) glance_api" where
  "demo_glance status = \<lparr>ga_get = (\<lambda>i. ret \<lparr>gi_id = i, gi_status = status\<rparr>), ga_list = (\<lambda>n ps. ret [\<lparr>gi_id = ''1'', gi_status = status\<rparr>]),
     ga_delete = (\<lambda>i. ret ()), ga_create = (\<lambda>ps. ret ''2''), ga_upload = (\<lambda>i d n. ret ())\<rparr>"

definition demo_image_env :: "string \<Rightarrow> (world, string) glance_env" where
  "demo_image_env status = \<lparr>gv_name = ''cirros'', gv_nf = (\<lambda>e. False), gv_repr = (\<lambda>is. []), gv_std = ret (demo_glance status),
     gv_client = ret (demo_glance status), gv_interval = 3, gv_retries = None, gv_prevent = False, gv_parameters = [],
     gv_data = ret (''data'', 4)\<rparr>"

lemma demo_find:
  "glance_find_image (gv_nf (demo_image_env st)) (gv_repr (demo_image_env st)) (gv_std (demo_image_env st)) (gv_client (demo_image_env st))
     None False (Some None) ps w = (Inr (Some \<lparr>gi_id = ''1'', gi_status = st\<rparr>), w)"
  by (simp add: demo_image_env_def demo_glance_def glance_find_image_def glance_list_images_def choose_image_def select_first_def
      bindA_def ret_def lift_res_def)

lemma image_wait_forever_witness:
  "wait_for_image_status (demo_image_env ''saving'') [''active''] True (\<lparr>wtime = 0\<rparr>, \<lparr>gf_image = None, gf_created = []\<rparr>) = None"
  by (rule image_wait_forever[where i = "\<lparr>gi_id = ''1'', gi_status = ''saving''\<rparr>"]) (simp_all add: demo_find CHANGING_STATUS_def)

lemma demo_created:
  "create_image (demo_image_env ''active'') (Some 2) (\<lparr>wtime = 0\<rparr>, \<lparr>gf_image = None, gf_created = []\<rparr>)
     = Some (Inr (Some \<lparr>gi_id = ''1'', gi_status = ''active''\<rparr>),
         (\<lparr>wtime = 0\<rparr>, \<lparr>gf_image = Some \<lparr>gi_id = ''1'', gi_status = ''active''\<rparr>, gf_created = []\<rparr>))"
proof -
  let ?i = "\<lparr>gi_id = ''1'', gi_status = ''active''\<rparr>"
  have loop: "''active'' \<in> set xs \<Longrightarrow> image_wait_loop E xs (Some ?i) s = Some (Inr (Some ?i), s)"
    for E :: "(world, string) glance_env" and xs s
    by (subst image_wait_loop.simps) (simp add: image_status_def)
  have get: "fixture_get_image (demo_image_env ''active'') (w, a) = (Inr (Some ?i), (w, a\<lparr>gf_image := Some ?i\<rparr>))" for w a
    by (simp add: fixture_get_image_def demo_find on_fst_def bindA_def set_image_def set_snd_def ret_def)
  have rounds: "create_rounds (demo_image_env ''active'') 2 (\<lparr>wtime = 0\<rparr>, \<lparr>gf_image = None, gf_created = []\<rparr>)
      = Some (Inr (Some ?i), (\<lparr>wtime = 0\<rparr>, \<lparr>gf_image = Some ?i, gf_created = []\<rparr>))"
    by (subst create_rounds.simps) (simp add: wait_for_getting_active_image_def wait_for_image_status_def current_image_def
        get loop bindP_def liftP_def retP_def is_image_getting_active_def GETTING_ACTIVE_STATUS_def)
  have active: "wait_for_image_active (demo_image_env ''active'') True (\<lparr>wtime = 0\<rparr>, \<lparr>gf_image = Some ?i, gf_created = []\<rparr>)
      = Some (Inr (Some ?i), (\<lparr>wtime = 0\<rparr>, \<lparr>gf_image = Some ?i, gf_created = []\<rparr>))"
    by (simp add: wait_for_image_active_def wait_for_image_status_def current_image_def loop bindP_def liftP_def retP_def
        lift_res_def check_image_status_def image_status_def)
  show ?thesis
    by (simp add: create_image_def create_body_def opt_or_def rounds active bindP_def liftP_def retP_def created_here_def set_snd_def ret_def
        Let_def)
qed

lemma created_image_active_witness:
  "\<exists>i t. Some \<lparr>gi_id = ''1'', gi_status = ''active''\<rparr> = Some i \<and> gi_status i = ''active''
     \<and> create_body (demo_image_env ''active'') (Some 2)
         (fst (\<lparr>wtime = 0\<rparr>, \<lparr>gf_image = None, gf_created = []\<rparr>), (snd (\<lparr>wtime = 0\<rparr>, \<lparr>gf_image = None, gf_created = []\<rparr>))\<lparr>gf_created := []\<rparr>)
         = Some (Inr (Some \<lparr>gi_id = ''1'', gi_status = ''active''\<rparr>), t)
     \<and> gi_id i \<notin> set (gf_created (snd t)) \<and> cleanup_images (demo_image_env ''active'') (gf_created (snd t)) t
         = (Inr (), (\<lparr>wtime = 0\<rparr>, \<lparr>gf_image = Some \<lparr>gi_id = ''1'', gi_status = ''active''\<rparr>, gf_created = []\<rparr>))"
  by (rule created_image_active[OF demo_created])

definition demo_url :: "(unit, string) url_lib" where
  "demo_url = \<lparr>ul_scheme = (\<lambda>u. ''http''), ul_path = id, ul_basename = id, ul_expanduser = id, ul_realpath = id,
     ul_join = (\<lambda>a b. a @ ''/'' @ b), ul_temp = (\<lambda>d fs. ''tmp''), ul_dirname = (\<lambda>p. ''.''),
     ul_get = (\<lambda>u. ret \<lparr>rs_length = Some ''3'', rs_chunks = [''ab'', ''c''], rs_error = None\<rparr>), ul_open = (\<lambda>p c. Inr c)\<rparr>"

lemma downloaded_whole_witness:
  "\<exists>r u content. ul_get demo_url ''u'' () = (Inr r, u) \<and> ((Map.empty(''tmp'' := None, ''f'' \<mapsto> ''abc'')) :: files) ''f'' = Some content
     \<and> 3 = length content \<and> ul_open demo_url ''f'' content = Inr ''abc''
     \<and> (\<forall>text_of k. rs_length r = Some text_of \<longrightarrow> py_int text_of = Inr k \<longrightarrow> k \<noteq> 0 \<longrightarrow> int 3 = k)"
proof -
  have three: "py_int ''3'' = Inr 3" by code_simp
  have "get_image_from_url demo_url \<lparr>ui_name = [], ui_url = ''u'', ui_dir = [], ui_file = []\<rparr> ''f'' ((), Map.empty)
      = (Inr (''abc'', 3), ((), Map.empty(''tmp'' := None, ''f'' \<mapsto> ''abc'')))"
    by (simp add: get_image_from_url_def demo_url_def bindA_def on_fst_def ret_def lift_res_def three cached_file_def
        download_image_file_def Let_def get_image_from_file_def)
  from downloaded_whole[OF this] show ?thesis by simp
qed

end
