(* ===== verification/Ironic_Nodes.thy ===== *)
theory Ironic_Nodes
  imports Cloud_Waits
begin

text \<open>
  tobiko/openstack/ironic/_node.py: the nodes of Ironic, waiting for their power state, powering
  them on and off. The argument \<open>client\<close> is the action that \<open>ironic_client\<close> makes of it
  (\<open>Openstack_Clients\<close>); what Ironic does is a parameter.
\<close>

record ironic_node =
  nd_uuid :: string
  nd_power_state :: string

record 'w ironic_api =
  ia_get :: "string \<Rightarrow> (string \<times> pyval) list \<Rightarrow> ('w, ironic_node) act"
  ia_set_power_state :: "string \<Rightarrow> string \<Rightarrow> bool option \<Rightarrow> ('w, unit) act"

type_synonym 'w ironic_ref = "('w, 'w ironic_api) act"

datatype node_arg = NoNode | NodeId string | Node ironic_node

definition get_node_id :: "node_arg \<Rightarrow> string option \<Rightarrow> string res" where
  "get_node_id node node_id =
     (case node_id of
        Some i \<Rightarrow> Inr i
      | None \<Rightarrow> (case node of NodeId i \<Rightarrow> Inr i | NoNode \<Rightarrow> Raise PyAssertionError [] | Node n \<Rightarrow> Inr (nd_uuid n)))"

definition ironic_get_node :: "node_arg \<Rightarrow> string option \<Rightarrow> 'w ironic_ref \<Rightarrow> (string \<times> pyval) list \<Rightarrow> ('w, ironic_node) act" where
  "ironic_get_node node node_id client params =
     bindA (lift_res (get_node_id node node_id)) (\<lambda>i. bindA client (\<lambda>c. ia_get c i params))"

definition WaitForNodePowerStateError :: pyclass where
  "WaitForNodePowerStateError = ''WaitForNodePowerStateError'' # TobikoException"
definition WaitForNodePowerStateTimeout :: pyclass where
  "WaitForNodePowerStateTimeout = ''WaitForNodePowerStateTimeout'' # WaitForNodePowerStateError"

declare WaitForNodePowerStateError_def [exn_classes] WaitForNodePowerStateTimeout_def [exn_classes]

definition power_error :: "string \<Rightarrow> ironic_node \<Rightarrow> string \<Rightarrow> exn" where
  "power_error i node power_state =
     cloud_error WaitForNodePowerStateError ''Node {node_id} not changing power state from {node_power_state} to {power_state}''
       [(''node_id'', PText i), (''node_power_state'', PText (nd_power_state node)), (''power_state'', PText power_state)]"

definition power_timeout :: "(rat \<Rightarrow> string) \<Rightarrow> string \<Rightarrow> ironic_node \<Rightarrow> string \<Rightarrow> rat option \<Rightarrow> exn" where
  "power_timeout show i node power_state timeout =
     cloud_error WaitForNodePowerStateTimeout
       ''Node {node_id} didn't change its state from {node_power_state} to {power_state} state after {timeout} seconds''
       [(''node_id'', PText i), (''node_power_state'', PText (nd_power_state node)), (''power_state'', PText power_state),
        (''timeout'', case timeout of None \<Rightarrow> PNone | Some t \<Rightarrow> PText (show t))]"

definition transient_power_states :: "string \<Rightarrow> string list" where
  "transient_power_states power_state =
     (if power_state = ''power on'' then [''power off''] else if power_state = ''power off'' then [''power on''] else [])"

definition power_turn ::
  "(rat \<Rightarrow> string) \<Rightarrow> 'w ironic_ref \<Rightarrow> string \<Rightarrow> string \<Rightarrow> string list \<Rightarrow> rat option \<Rightarrow> retry_attempt \<Rightarrow> ('w, ironic_node turn) act" where
  "power_turn show client i power_state transient timeout attempt =
     bindA (ironic_get_node NoNode (Some i) client []) (\<lambda>node.
       if nd_power_state node = power_state then ret (Done node)
       else if nd_power_state node \<notin> set transient then raise_act (power_error i node power_state)
       else bindA (lift_res (is_last None attempt))
              (\<lambda>b. if b then raise_act (power_timeout show i node power_state timeout) else ret Next))"

definition wait_for_node_power_state ::
  "(rat \<Rightarrow> string) \<Rightarrow> node_arg \<Rightarrow> string \<Rightarrow> 'z world_scheme ironic_ref \<Rightarrow> rat option \<Rightarrow> rat option \<Rightarrow> string list option \<Rightarrow>
   ('z world_scheme, ironic_node) pact" where
  "wait_for_node_power_state show node power_state client timeout sleep_time transient =
     bindP (liftP (lift_res (get_node_id node None))) (\<lambda>i.
       retry_iter py_time py_sleep (retry None None timeout None sleep_time None (Some 300) None (Some 3))
         (power_turn show client i power_state
            (case transient of None \<Rightarrow> transient_power_states power_state | Some t \<Rightarrow> t) timeout))"

definition power_off_node ::
  "(rat \<Rightarrow> string) \<Rightarrow> node_arg \<Rightarrow> bool \<Rightarrow> 'z world_scheme ironic_ref \<Rightarrow> rat option \<Rightarrow> rat option \<Rightarrow> ('z world_scheme, ironic_node) pact" where
  "power_off_node show node soft client timeout sleep_time =
     bindP (liftP client) (\<lambda>c.
     bindP (liftP (ironic_get_node node None (ret c) [])) (\<lambda>n.
       if nd_power_state n = ''power off'' then retP n
       else bindP (liftP (ia_set_power_state c (nd_uuid n) ''off'' (Some soft))) (\<lambda>_.
              wait_for_node_power_state show (NodeId (nd_uuid n)) ''power off'' (ret c) timeout sleep_time None)))"

definition power_on_node ::
  "(rat \<Rightarrow> string) \<Rightarrow> node_arg \<Rightarrow> 'z world_scheme ironic_ref \<Rightarrow> rat option \<Rightarrow> rat option \<Rightarrow> ('z world_scheme, ironic_node) pact" where
  "power_on_node show node client timeout sleep_time =
     bindP (liftP client) (\<lambda>c.
     bindP (liftP (ironic_get_node node None (ret c) [])) (\<lambda>n.
       if nd_power_state n = ''power on'' then retP n
       else bindP (liftP (ia_set_power_state c (nd_uuid n) ''on'' None)) (\<lambda>_.
              wait_for_node_power_state show (NodeId (nd_uuid n)) ''power on'' (ret c) timeout sleep_time None)))"

section \<open>What waiting returns\<close>

lemma power_turn_Done:
  "power_turn show client i st tr timeout a w = (Inr (Done n), w') \<Longrightarrow>
     nd_power_state n = st \<and> ironic_get_node NoNode (Some i) client [] w = (Inr n, w')"
  by (auto simp: power_turn_def bindA_eq_Inr ret_def raise_act_def lift_res_def split: if_splits)

lemma power_turn_Next:
  "power_turn show client i st tr timeout a w = (Inr Next, w') \<Longrightarrow> \<exists>n. ironic_get_node NoNode (Some i) client [] w = (Inr n, w')"
  by (auto simp: power_turn_def bindA_eq_Inr ret_def raise_act_def lift_res_def split: if_splits)

lemma valid_power_wait:
  "valid P (wait_for_node_power_state show node st client timeout sleep_time tr) (post (\<lambda>e s. True) (\<lambda>n s. nd_power_state n = st))"
  unfolding wait_for_node_power_state_def
proof (rule valid_after)
  fix i
  let ?turn = "power_turn show client i st (case tr of None \<Rightarrow> transient_power_states st | Some t \<Rightarrow> t) timeout"
  show "valid (\<lambda>s. True) (retry_iter py_time py_sleep (retry None None timeout None sleep_time None (Some 300) None (Some 3)) ?turn)
     (post (\<lambda>e s. True) (\<lambda>n s. nd_power_state n = st))"
    by (auto simp: valid_def post_def split: sum.split elim!: iter_returns dest!: power_turn_Done)
qed

text \<open>A node that was powered on or off is returned only when Ironic shows it so.\<close>

theorem powered:
  "power_on_node show node client timeout sleep_time w = Some (Inr n, w') \<Longrightarrow> nd_power_state n = ''power on''"
  "power_off_node show node soft client timeout sleep_time w = Some (Inr n, w') \<Longrightarrow> nd_power_state n = ''power off''"
proof -
  have "valid (\<lambda>w. True) (power_on_node show node client timeout sleep_time) (post (\<lambda>e s. True) (\<lambda>n s. nd_power_state n = ''power on''))"
    unfolding power_on_node_def by (intro valid_after valid_if valid_power_wait valid_ret) simp
  from validD[OF this TrueI]
  show "power_on_node show node client timeout sleep_time w = Some (Inr n, w') \<Longrightarrow> nd_power_state n = ''power on''" by fastforce
  have "valid (\<lambda>w. True) (power_off_node show node soft client timeout sleep_time) (post (\<lambda>e s. True) (\<lambda>n s. nd_power_state n = ''power off''))"
    unfolding power_off_node_def by (intro valid_after valid_if valid_power_wait valid_ret) simp
  from validD[OF this TrueI]
  show "power_off_node show node soft client timeout sleep_time w = Some (Inr n, w') \<Longrightarrow> nd_power_state n = ''power off''" by fastforce
qed

lemma get_node_slow: "asks_slowly d (ia_get c i []) \<Longrightarrow> asks_slowly d (ironic_get_node NoNode (Some i) (ret c) [])"
  by (erule asks_slowly_like) (simp add: ironic_get_node_def get_node_id_def bindA_def lift_res_def ret_def)

theorem power_wait_ends:
  assumes "\<And>i. asks_slowly d (ia_get c i [])"
  shows "ends (wait_for_node_power_state show node st (ret c) timeout sleep_time tr)"
  unfolding wait_for_node_power_state_def
proof (rule ends_bind)
  fix i
  obtain t where t: "rt_timeout (retry None None timeout None sleep_time None (Some 300) None (Some 3)) = Some t"
    using default_timeout by blast
  have slow: "asks_slowly d (ironic_get_node NoNode (Some i) (ret c) [])" by (rule get_node_slow) (rule assms)
  show "ends (retry_iter py_time py_sleep (retry None None timeout None sleep_time None (Some 300) None (Some 3))
     (power_turn show (ret c) i st (case tr of None \<Rightarrow> transient_power_states st | Some t \<Rightarrow> t) timeout))"
    by (rule slow_turns_end[OF _ _ t]) (use slow asks_slowly_at[OF slow] in \<open>auto simp: asks_slowly_def dest!: power_turn_Next\<close>)
qed simp

end
