(* ===== verification/Nova_Addresses.thy ===== *)
theory Nova_Addresses
  imports Nova_Servers
begin

text \<open>
  tobiko/openstack/nova/_server.py: the IP addresses of a server. Making an address
  (\<open>netaddr.IPAddress\<close>) and pinging a list of them are parameters.
\<close>

record server_address =
  sa_addr :: string
  sa_version :: int
  sa_type :: "string option"

text \<open>\<open>check_server_ip_address\<close>; the type may be missing in what Nova shows.\<close>

definition check_server_ip_address :: "int option \<Rightarrow> string option \<Rightarrow> server_address \<Rightarrow> bool res" where
  "check_server_ip_address ip_version address_type a =
     (if (case ip_version of None \<Rightarrow> False | Some v \<Rightarrow> v \<noteq> 0 \<and> v \<noteq> sa_version a) then Inr False
      else (case address_type of
              Some (t # ts) \<Rightarrow>
                (case sa_type a of
                   None \<Rightarrow> Raise PyValueError ''Unable to get IP type from server address''
                 | Some t' \<Rightarrow> Inr (t # ts = t'))
            | _ \<Rightarrow> Inr True))"

fun add_addresses ::
  "(string \<Rightarrow> int \<Rightarrow> 'a res) \<Rightarrow> int option \<Rightarrow> string option \<Rightarrow> server_address list \<Rightarrow> 'a list \<Rightarrow> 'a list res" where
  "add_addresses ip ip_version address_type [] ips = Inr ips"
| "add_addresses ip ip_version address_type (a # as) ips =
     (case check_server_ip_address ip_version address_type a of
        Inl e \<Rightarrow> Inl e
      | Inr False \<Rightarrow> add_addresses ip ip_version address_type as ips
      | Inr True \<Rightarrow>
          (case ip (sa_addr a) (sa_version a) of
             Inl e \<Rightarrow> Inl e
           | Inr x \<Rightarrow> add_addresses ip ip_version address_type as (ips @ [x])))"

text \<open>The count is looked at before each network only, and only for equality.\<close>

fun network_addresses ::
  "(string \<Rightarrow> int \<Rightarrow> 'a res) \<Rightarrow> string option \<Rightarrow> int option \<Rightarrow> string option \<Rightarrow> nat option \<Rightarrow>
   (string \<times> server_address list) list \<Rightarrow> 'a list \<Rightarrow> 'a list res" where
  "network_addresses ip network_name ip_version address_type cnt [] ips = Inr ips"
| "network_addresses ip network_name ip_version address_type cnt ((name, addresses) # rest) ips =
     (if (case cnt of None \<Rightarrow> False | Some n \<Rightarrow> n \<noteq> 0 \<and> length ips = n) then Inr ips
      else if (case network_name of Some (c # cs) \<Rightarrow> c # cs \<noteq> name | _ \<Rightarrow> False)
      then network_addresses ip network_name ip_version address_type cnt rest ips
      else (case add_addresses ip ip_version address_type addresses ips of
              Inl e \<Rightarrow> Inl e
            | Inr ips' \<Rightarrow> network_addresses ip network_name ip_version address_type cnt rest ips'))"

definition list_server_ip_addresses ::
  "(string \<Rightarrow> int \<Rightarrow> 'a res) \<Rightarrow> ('a list \<Rightarrow> ('w, 'a list) act) \<Rightarrow> (string \<times> server_address list) list \<Rightarrow> string option \<Rightarrow>
   int option \<Rightarrow> string option \<Rightarrow> bool \<Rightarrow> nat option \<Rightarrow> ('w, 'a list) act" where
  "list_server_ip_addresses ip reachable networks network_name ip_version address_type check_connectivity cnt =
     bindA (lift_res (network_addresses ip network_name ip_version address_type cnt networks [])) (\<lambda>ips.
       if check_connectivity then reachable ips else ret ips)"

definition find_server_ip_address ::
  "('a list \<Rightarrow> string) \<Rightarrow> (string \<Rightarrow> int \<Rightarrow> 'a res) \<Rightarrow> ('a list \<Rightarrow> ('w, 'a list) act) \<Rightarrow> (string \<times> server_address list) list \<Rightarrow>
   bool \<Rightarrow> string option \<Rightarrow> int option \<Rightarrow> string option \<Rightarrow> bool \<Rightarrow> ('w, 'a) act" where
  "find_server_ip_address repr ip reachable networks unique network_name ip_version address_type check_connectivity =
     bindA (list_server_ip_addresses ip reachable networks network_name ip_version address_type check_connectivity
              (Some (if unique then 2 else 1)))
       (\<lambda>ips. lift_res (if unique then select_unique repr ips else select_first ips))"

section \<open>What is listed\<close>

lemma add_addresses_filter:
  "add_addresses ip v t as ips = Inr ys \<Longrightarrow>
     \<exists>xs. ys = ips @ xs \<and> length xs \<le> length as
        \<and> (\<forall>x \<in> set xs. \<exists>a \<in> set as. check_server_ip_address v t a = Inr True \<and> ip (sa_addr a) (sa_version a) = Inr x)"
proof (induction as arbitrary: ips)
  case (Cons a as)
  show ?case
  proof (cases "check_server_ip_address v t a")
    case (Inr b)
    show ?thesis
    proof (cases b)
      case True
      with Cons.prems Inr obtain x where x: "ip (sa_addr a) (sa_version a) = Inr x" "add_addresses ip v t as (ips @ [x]) = Inr ys"
        by (auto split: sum.splits)
      from Cons.IH[OF x(2)] obtain xs where xs: "ys = (ips @ [x]) @ xs" "length xs \<le> length as"
          "\<forall>y \<in> set xs. \<exists>b \<in> set as. check_server_ip_address v t b = Inr True \<and> ip (sa_addr b) (sa_version b) = Inr y" by blast
      have "ys = ips @ (x # xs)" using xs(1) by simp
      then show ?thesis using xs(2,3) x(1) Inr True by (intro exI[of _ "x # xs"]) auto
    next
      case False
      with Cons Inr show ?thesis by fastforce
    qed
  qed (use Cons in auto)
qed simp

lemma network_addresses_filter:
  "network_addresses ip net v t cnt networks ips = Inr ys \<Longrightarrow>
     \<exists>xs. ys = ips @ xs \<and> (\<forall>x \<in> set xs. \<exists>(name, as) \<in> set networks. \<exists>a \<in> set as.
        check_server_ip_address v t a = Inr True \<and> ip (sa_addr a) (sa_version a) = Inr x
        \<and> (\<forall>c cs. net = Some (c # cs) \<longrightarrow> name = c # cs))"
proof (induction networks arbitrary: ips)
  case (Cons n networks)
  obtain name as where n: "n = (name, as)" by fastforce
  show ?case
  proof (cases "(case cnt of None \<Rightarrow> False | Some k \<Rightarrow> k \<noteq> 0 \<and> length ips = k)")
    case True
    with Cons.prems n show ?thesis by auto
  next
    case False
    show ?thesis
    proof (cases "case net of Some (c # cs) \<Rightarrow> c # cs \<noteq> name | _ \<Rightarrow> False")
      case True
      with Cons.prems n False have "network_addresses ip net v t cnt networks ips = Inr ys" by simp
      from Cons.IH[OF this] show ?thesis using n by fastforce
    next
      case fit: False
      with Cons.prems n False obtain zs where z: "add_addresses ip v t as ips = Inr zs" "network_addresses ip net v t cnt networks zs = Inr ys"
        by (auto split: sum.splits)
      from add_addresses_filter[OF z(1)] obtain us where us: "zs = ips @ us"
          "\<forall>x \<in> set us. \<exists>a \<in> set as. check_server_ip_address v t a = Inr True \<and> ip (sa_addr a) (sa_version a) = Inr x" by blast
      from Cons.IH[OF z(2)] obtain vs where vs: "ys = zs @ vs"
          "\<forall>x \<in> set vs. \<exists>(name, as) \<in> set networks. \<exists>a \<in> set as. check_server_ip_address v t a = Inr True
             \<and> ip (sa_addr a) (sa_version a) = Inr x \<and> (\<forall>c cs. net = Some (c # cs) \<longrightarrow> name = c # cs)" by blast
      have "\<forall>c cs. net = Some (c # cs) \<longrightarrow> name = c # cs" using fit by auto
      with us vs n show ?thesis by (intro exI[of _ "us @ vs"]) fastforce
    qed
  qed
qed simp

text \<open>
  The addresses that are listed are addresses of the server on the network that was named, of
  the version and the type that were asked for.
\<close>

theorem server_addresses_match:
  assumes "list_server_ip_addresses ip reachable networks net v t False cnt w = (Inr ips, w')" and "x \<in> set ips"
  shows "\<exists>name as a. (name, as) \<in> set networks \<and> a \<in> set as \<and> ip (sa_addr a) (sa_version a) = Inr x
     \<and> (\<forall>c cs. net = Some (c # cs) \<longrightarrow> name = c # cs) \<and> (\<forall>k. v = Some k \<longrightarrow> k \<noteq> 0 \<longrightarrow> sa_version a = k)
     \<and> (\<forall>c cs. t = Some (c # cs) \<longrightarrow> sa_type a = Some (c # cs))"
proof -
  have "network_addresses ip net v t cnt networks [] = Inr ips"
    using assms(1) by (auto simp: list_server_ip_addresses_def bindA_eq_Inr lift_res_def ret_def)
  from network_addresses_filter[OF this] assms(2) obtain name as a where
    "(name, as) \<in> set networks" "a \<in> set as" "check_server_ip_address v t a = Inr True" "ip (sa_addr a) (sa_version a) = Inr x"
    "\<forall>c cs. net = Some (c # cs) \<longrightarrow> name = c # cs" by fastforce
  then show ?thesis
    by (intro exI[of _ name] exI[of _ as] exI[of _ a])
      (auto simp: check_server_ip_address_def split: if_splits option.splits list.splits)
qed

text \<open>The count is no bound: a network with two addresses gives both although one was asked for, and so do later networks.\<close>

lemma count_not_kept:
  "network_addresses (\<lambda>a v. Inr a) None None None (Some 1)
     [(''n1'', [\<lparr>sa_addr = ''1.1.1.1'', sa_version = 4, sa_type = None\<rparr>, \<lparr>sa_addr = ''1.1.1.2'', sa_version = 4, sa_type = None\<rparr>]),
      (''n2'', [\<lparr>sa_addr = ''2.1.1.1'', sa_version = 4, sa_type = None\<rparr>])] []
   = Inr [''1.1.1.1'', ''1.1.1.2'', ''2.1.1.1'']"
  by (simp add: check_server_ip_address_def)

end
