(* ===== verification/Tripleo_Pacemaker.thy ===== *)
theory Tripleo_Pacemaker
  imports Table_Csv Cloud_Waits Shell_Process
begin

text \<open>
  tobiko/tripleo/pacemaker.py: running pcs, the table of the resources of the cluster, the
  checks of their health, and operations on resources. Executing a command, the version of the
  cloud, the services that need redis and Python's \<open>eval\<close> are parameters.
\<close>

text \<open>
  \<open>px_execute\<close> runs the words of a command on a controller within a time, and gives what it
  wrote; \<open>px_eval\<close> evaluates the text of a query; \<open>px_before_17\<close> is
  \<open>verify_osp_version('17.0', lower=True)\<close>.
\<close>

record 'w pcs_lib =
  px_execute :: "string list \<Rightarrow> rat \<Rightarrow> ('w, string \<times> string) act"
  px_eval :: "string \<Rightarrow> bool res"
  px_before_17 :: "('w, bool) act"
  px_redis_expected :: "('w, bool) act"
  px_external_balancer :: bool
  px_has_overcloud :: "('w, bool) act"

section \<open>Running pcs\<close>

definition execute_pcs :: "'w pcs_lib \<Rightarrow> string list \<Rightarrow> string list option \<Rightarrow> bool \<Rightarrow> rat \<Rightarrow> ('w, string) act" where
  "execute_pcs L command_args pcs_command add_stderr timeout =
     bindA (px_execute L ((case pcs_command of Some (c # cs) \<Rightarrow> c # cs | _ \<Rightarrow> [''pcs'']) @ command_args) timeout)
       (\<lambda>(out, err). ret (if add_stderr then out @ [CHR 0x0A] @ err else out))"

definition run_pcs_status :: "'w pcs_lib \<Rightarrow> string list \<Rightarrow> string \<Rightarrow> ('w, string) act" where
  "run_pcs_status L options grep_str =
     bindA (execute_pcs L (''status'' # options) None False 40) (\<lambda>output.
       ret (if grep_str = [] then output else str_join [CHR 0x0A] (filter (str_in grep_str) (splitlines output))))"

definition pcs_columns :: "string list" where
  "pcs_columns = [''resource'', ''resource_type'', ''resource_state'', ''overcloud_node'']"

definition pcs_table :: "string \<Rightarrow> table res" where
  "pcs_table output =
     (case read_csv (strip (filter (\<lambda>c. c \<noteq> CHR ''*'') output)) None 0 None '','' True of
        Inl e \<Rightarrow> Inl e
      | Inr t \<Rightarrow> (case set_columns pcs_columns t of (Inl e, u) \<Rightarrow> Inl e | (Inr _, u) \<Rightarrow> Inr u))"

definition pcs_table_turn :: "'w pcs_lib \<Rightarrow> retry_attempt \<Rightarrow> ('w, table turn) act" where
  "pcs_table_turn L attempt =
     try_except (bindA (run_pcs_status L [''resources''] ''ocf'') (\<lambda>out. bindA (lift_res (pcs_table out)) (\<lambda>t. ret (Done t))))
       (catches [PyValueError, ShellCommandFailed, ShellTimeoutExpired])
       (\<lambda>e. bindA (lift_res (is_last (Some e) attempt)) (\<lambda>b. if b then raise_act e else ret Next))"

definition get_pcs_resources_table :: "'z world_scheme pcs_lib \<Rightarrow> rat option \<Rightarrow> rat option \<Rightarrow> ('z world_scheme, table) pact" where
  "get_pcs_resources_table L timeout interval =
     retry_iter py_time py_sleep (retry None None timeout None interval None None None None) (pcs_table_turn L)"

section \<open>The resources of the cluster\<close>

record pcs_status =
  ps_table :: table
  ps_prefix :: string
  ps_promoted :: string
  ps_unpromoted :: string

definition pcs_prefix_and_status_values :: "bool \<Rightarrow> string \<times> string \<times> string" where
  "pcs_prefix_and_status_values before_17 =
     (if before_17 then (''ocf::'', ''Master'', ''Slave'') else (''ocf:'', ''Promoted'', ''Unpromoted''))"

definition init_pcs_status :: "'z world_scheme pcs_lib \<Rightarrow> ('z world_scheme, pcs_status) pact" where
  "init_pcs_status L =
     bindP (get_pcs_resources_table L (Some 720) (Some 2)) (\<lambda>t.
     bindP (liftP (px_before_17 L)) (\<lambda>b.
       (case pcs_prefix_and_status_values b of
          (p, m, s) \<Rightarrow> retP \<lparr>ps_table = t, ps_prefix = p, ps_promoted = m, ps_unpromoted = s\<rparr>)))"

definition quoted :: "string \<Rightarrow> string" where
  "quoted s = [CHR 0x22] @ s @ [CHR 0x22]"

definition column_of :: "table \<Rightarrow> string \<Rightarrow> column_data res" where
  "column_of t name =
     (case table_getitem t (KCol name) of
        Inl e \<Rightarrow> Inl e | Inr (VColumn c) \<Rightarrow> Inr c | Inr _ \<Rightarrow> Raise PyTypeError ''not a column'')"

definition count_query :: "(string \<Rightarrow> bool res) \<Rightarrow> table \<Rightarrow> string \<Rightarrow> nat res" where
  "count_query ev t q =
     (case query ev t q of
        Inl e \<Rightarrow> Inl e | Inr found \<Rightarrow> map_sum id column_count (column_of found ''resource_state''))"

definition type_query :: "string \<Rightarrow> string" where
  "type_query resource_type = ''resource_type == '' @ quoted resource_type"

definition state_query :: "string \<Rightarrow> string \<Rightarrow> string" where
  "state_query resource_type resource_state =
     ''resource_type == '' @ quoted resource_type @ '' and resource_state == '' @ quoted resource_state"

definition resource_count :: "(string \<Rightarrow> bool res) \<Rightarrow> pcs_status \<Rightarrow> string \<Rightarrow> nat res" where
  "resource_count ev p resource_type = count_query ev (ps_table p) (type_query resource_type)"

definition resource_count_in_state :: "(string \<Rightarrow> bool res) \<Rightarrow> pcs_status \<Rightarrow> string \<Rightarrow> string \<Rightarrow> nat res" where
  "resource_count_in_state ev p resource_type resource_state =
     count_query ev (ps_table p) (state_query resource_type resource_state)"

definition none_of_type :: "(string \<Rightarrow> bool res) \<Rightarrow> pcs_status \<Rightarrow> string \<Rightarrow> bool res" where
  "none_of_type ev p resource_type = map_sum id table_empty (query ev (ps_table p) (type_query resource_type))"

definition resource_name :: "pcs_status \<Rightarrow> string \<Rightarrow> string" where
  "resource_name p agent = ''('' @ ps_prefix p @ agent @ ''):''"

definition container_runtime :: "(string \<Rightarrow> bool res) \<Rightarrow> pcs_status \<Rightarrow> string option res" where
  "container_runtime ev p =
     map_sum id (\<lambda>none. if none then None else Some ''podman'') (none_of_type ev p (resource_name p ''heartbeat:podman''))"

section \<open>Health\<close>

text \<open>Two counts, the second asked for when the first succeeded.\<close>

definition counts2 :: "nat res \<Rightarrow> nat res \<Rightarrow> (nat \<Rightarrow> nat \<Rightarrow> bool) \<Rightarrow> bool res" where
  "counts2 a b f = (case a of Inl e \<Rightarrow> Inl e | Inr n \<Rightarrow> map_sum id (f n) b)"

definition all_in_state :: "(string \<Rightarrow> bool res) \<Rightarrow> pcs_status \<Rightarrow> string \<Rightarrow> string \<Rightarrow> bool res" where
  "all_in_state ev p resource_type resource_state =
     counts2 (resource_count ev p resource_type) (resource_count_in_state ev p resource_type resource_state)
       (\<lambda>nodes started. nodes = started \<and> nodes > 0)"

text \<open>One promoted, the others not; the subtraction is that of integers.\<close>

definition one_promoted :: "(string \<Rightarrow> bool res) \<Rightarrow> pcs_status \<Rightarrow> string \<Rightarrow> bool res" where
  "one_promoted ev p resource_type =
     (case resource_count ev p resource_type of
        Inl e \<Rightarrow> Inl e
      | Inr nodes \<Rightarrow>
          counts2 (resource_count_in_state ev p resource_type (ps_promoted p))
            (resource_count_in_state ev p resource_type (ps_unpromoted p))
            (\<lambda>master slave. master = 1 \<and> int slave = int nodes - int master))"

definition rabbitmq_resource_healthy where
  "rabbitmq_resource_healthy ev p = all_in_state ev p (resource_name p ''heartbeat:rabbitmq-cluster'') ''Started''"

definition galera_resource_healthy where
  "galera_resource_healthy ev p = all_in_state ev p (resource_name p ''heartbeat:galera'') (ps_promoted p)"

definition redis_resource_healthy :: "'w pcs_lib \<Rightarrow> pcs_status \<Rightarrow> ('w, bool) act" where
  "redis_resource_healthy L p =
     bindA (px_redis_expected L) (\<lambda>expected.
       lift_res (if expected then one_promoted (px_eval L) p (resource_name p ''heartbeat:redis'')
                 else none_of_type (px_eval L) p (resource_name p ''heartbeat:redis'')))"

definition vips_resource_healthy :: "'w pcs_lib \<Rightarrow> pcs_status \<Rightarrow> bool res" where
  "vips_resource_healthy L p =
     (if px_external_balancer L then Inr True
      else all_in_state (px_eval L) p (resource_name p ''heartbeat:IPaddr2'') ''Started'')"

definition ha_proxy_cinder_healthy :: "'w pcs_lib \<Rightarrow> pcs_status \<Rightarrow> bool res" where
  "ha_proxy_cinder_healthy L p =
     (if px_external_balancer L then Inr True
      else (case container_runtime (px_eval L) p of
              Inl e \<Rightarrow> Inl e
            | Inr runtime \<Rightarrow>
                all_in_state (px_eval L) p
                  (resource_name p (''heartbeat:'' @ (case runtime of None \<Rightarrow> ''None'' | Some r \<Rightarrow> r))) ''Started''))"

definition ovn_resource_healthy :: "(string \<Rightarrow> bool res) \<Rightarrow> pcs_status \<Rightarrow> bool res" where
  "ovn_resource_healthy ev p =
     (case none_of_type ev p (resource_name p ''ovn:ovndb-servers'') of
        Inl e \<Rightarrow> Inl e
      | Inr none \<Rightarrow> if none then Inr True else one_promoted ev p (resource_name p ''ovn:ovndb-servers''))"

text \<open>All six are computed, in this order, before their conjunction.\<close>

definition resources_healthy :: "'w pcs_lib \<Rightarrow> pcs_status \<Rightarrow> ('w, bool) act" where
  "resources_healthy L p =
     bindA (lift_res (rabbitmq_resource_healthy (px_eval L) p)) (\<lambda>rabbitmq.
     bindA (lift_res (galera_resource_healthy (px_eval L) p)) (\<lambda>galera.
     bindA (redis_resource_healthy L p) (\<lambda>redis.
     bindA (lift_res (vips_resource_healthy L p)) (\<lambda>vips.
     bindA (lift_res (ha_proxy_cinder_healthy L p)) (\<lambda>ha_proxy.
     bindA (lift_res (ovn_resource_healthy (px_eval L) p)) (\<lambda>ovn.
       ret (rabbitmq \<and> galera \<and> redis \<and> vips \<and> ha_proxy \<and> ovn)))))))"

text \<open>\<open>all_healthy\<close> with \<open>n\<close> attempts left; the status object keeps the last table.\<close>

fun healthy_loop :: "'z world_scheme pcs_lib \<Rightarrow> nat \<Rightarrow> ('z world_scheme \<times> pcs_status, bool) pact" where
  "healthy_loop L 0 = raiseP (Exn PyAssertionError ''pcs cluster is not in a healthy state'')"
| "healthy_loop L (Suc n) =
     bindP (liftP (\<lambda>s. on_fst (resources_healthy L (snd s)) s)) (\<lambda>healthy.
       if healthy then retP True
       else bindP (\<lambda>s. map_option (\<lambda>(r, w). (r, (w, snd s)))
                      (get_pcs_resources_table L (Some 720) (Some 2) (py_sleep 1 (fst s)))) (\<lambda>t.
            bindP (liftP (set_snd (\<lambda>p. p\<lparr>ps_table := t\<rparr>))) (\<lambda>_. healthy_loop L n)))"

definition all_healthy :: "'z world_scheme pcs_lib \<Rightarrow> ('z world_scheme \<times> pcs_status, bool) pact" where
  "all_healthy L = healthy_loop L 360"

section \<open>Nodes and resources\<close>

definition unique_of :: "(string \<Rightarrow> bool res) \<Rightarrow> table \<Rightarrow> string \<Rightarrow> string \<Rightarrow> cell list res" where
  "unique_of ev t q name =
     (case query ev t q of Inl e \<Rightarrow> Inl e | Inr found \<Rightarrow> map_sum id column_unique (column_of found name))"

definition eq_query :: "string \<Rightarrow> string \<Rightarrow> string" where
  "eq_query column v = column @ ''=='' @ quoted v"

definition by_type_query :: "string \<Rightarrow> string \<Rightarrow> string" where
  "by_type_query resource_type resource_state =
     (if resource_state = [] then eq_query ''resource_type'' resource_type
      else eq_query ''resource_type'' resource_type @ '' and '' @ eq_query ''resource_state'' resource_state)"

text \<open>Empty texts stand for arguments that are not given; without a resource and a type the answer is None.\<close>

definition get_overcloud_nodes_running_pcs_resource ::
  "'z world_scheme pcs_lib \<Rightarrow> string \<Rightarrow> string \<Rightarrow> string \<Rightarrow> ('z world_scheme, cell list option) pact" where
  "get_overcloud_nodes_running_pcs_resource L resource resource_type resource_state =
     bindP (get_pcs_resources_table L (Some 720) (Some 2)) (\<lambda>t.
       if resource \<noteq> []
       then liftP (lift_res (map_sum id Some (unique_of (px_eval L) t (eq_query ''resource'' resource) ''overcloud_node'')))
       else if resource_type \<noteq> []
       then liftP (lift_res (map_sum id Some
              (unique_of (px_eval L) t (by_type_query resource_type resource_state) ''overcloud_node'')))
       else retP None)"

text \<open>The nodes are looked up and not returned.\<close>

definition get_resource_master_node :: "'z world_scheme pcs_lib \<Rightarrow> string \<Rightarrow> ('z world_scheme, unit) pact" where
  "get_resource_master_node L resource_type =
     bindP (get_overcloud_nodes_running_pcs_resource L [] resource_type ''Master'') (\<lambda>_. retP ())"

definition get_ovn_db_master_node :: "'z world_scheme pcs_lib \<Rightarrow> ('z world_scheme, cell list option) pact" where
  "get_ovn_db_master_node L =
     bindP (liftP (px_before_17 L)) (\<lambda>b.
       (case pcs_prefix_and_status_values b of
          (p, m, s) \<Rightarrow> get_overcloud_nodes_running_pcs_resource L [] (''('' @ p @ ''ovn:ovndb-servers):'') m))"

definition get_overcloud_resource ::
  "'z world_scheme pcs_lib \<Rightarrow> string \<Rightarrow> string \<Rightarrow> ('z world_scheme, cell list option) pact" where
  "get_overcloud_resource L resource_type resource_state =
     bindP (get_pcs_resources_table L (Some 720) (Some 2)) (\<lambda>t.
       if resource_type \<noteq> []
       then liftP (lift_res (map_sum id Some (unique_of (px_eval L) t (by_type_query resource_type resource_state) ''resource'')))
       else retP None)"

text \<open>The nodes that run nova-evacuate, None when there is no cloud at all.\<close>

definition instanceha_deployed :: "'z world_scheme pcs_lib \<Rightarrow> ('z world_scheme, cell list option) pact" where
  "instanceha_deployed L =
     bindP (liftP (px_has_overcloud L)) (\<lambda>b.
       if b then get_overcloud_nodes_running_pcs_resource L ''nova-evacuate'' [] [] else retP None)"

definition fencing_deployed :: "'w pcs_lib \<Rightarrow> ('w, bool) act" where
  "fencing_deployed L = bindA (run_pcs_status L [] ''stonith:fence_ipmilan'') (\<lambda>out. ret (out \<noteq> []))"

section \<open>Operations on resources\<close>

datatype pcs_operation = DISABLE | ENABLE | RESTART | SHOW

definition pcs_word :: "pcs_operation \<Rightarrow> string" where
  "pcs_word op = (case op of DISABLE \<Rightarrow> ''disable'' | ENABLE \<Rightarrow> ''enable'' | RESTART \<Rightarrow> ''restart'' | SHOW \<Rightarrow> ''show'')"

definition pcs_operation_args :: "string \<Rightarrow> pcs_operation \<Rightarrow> string option \<Rightarrow> int \<Rightarrow> string list" where
  "pcs_operation_args resource op node wait =
     [''resource'', pcs_word op, resource] @ (case node of None \<Rightarrow> [] | Some n \<Rightarrow> [n]) @ [''--wait='' @ str_int wait]"

definition pcs_operation_turn ::
  "'w pcs_lib \<Rightarrow> string \<Rightarrow> pcs_operation \<Rightarrow> string option \<Rightarrow> int \<Rightarrow> retry_attempt \<Rightarrow> ('w, string turn) act" where
  "pcs_operation_turn L resource op node wait attempt =
     try_except
       (bindA (execute_pcs L (pcs_operation_args resource op node wait) None (op \<in> {DISABLE, ENABLE}) (of_int wait + 10))
          (\<lambda>out. ret (Done out)))
       (\<lambda>e. isinstance_exn e ShellCommandFailed)
       (\<lambda>e. bindA (lift_res (is_last (Some e) attempt)) (\<lambda>b. if b then raise_act e else ret Next))"

definition run_pcs_resource_operation ::
  "'z world_scheme pcs_lib \<Rightarrow> string \<Rightarrow> pcs_operation \<Rightarrow> string option \<Rightarrow> int \<Rightarrow> rat option \<Rightarrow> rat option \<Rightarrow>
   ('z world_scheme, string) pact" where
  "run_pcs_resource_operation L resource op node wait retry_timeout retry_interval =
     retry_iter py_time py_sleep (retry None None retry_timeout None retry_interval None None None None)
       (pcs_operation_turn L resource op node wait)"

section \<open>What the waits give\<close>

lemma set_columns_schema: "set_columns cs t = (Inr x, u) \<Longrightarrow> td_schema u = cs"
  by (auto simp: set_columns_def split: sum.splits if_splits)

lemma pcs_table_schema: "pcs_table out = Inr t \<Longrightarrow> td_schema t = pcs_columns"
  by (auto simp: pcs_table_def split: sum.splits prod.splits dest: set_columns_schema)

text \<open>
  The table of resources that is given has the four columns resource,
  resource_type, resource_state and overcloud_node, and no row has others; it is read from what
  a \<open>pcs status resources\<close> wrote, and only from the lines that name an ocf agent.
\<close>
theorem pcs_resources_columns:
  assumes "get_pcs_resources_table L timeout interval w = Some (Inr t, w')"
  shows "td_schema t = pcs_columns \<and>
    (\<exists>u out. execute_pcs L [''status'', ''resources''] None False 40 u = (Inr out, w') \<and>
       pcs_table (str_join [CHR 0x0A] (filter (str_in ''ocf'') (splitlines out))) = Inr t)"
proof -
  have "\<exists>u out. execute_pcs L [''status'', ''resources''] None False 40 u = (Inr out, w') \<and>
       pcs_table (str_join [CHR 0x0A] (filter (str_in ''ocf'') (splitlines out))) = Inr t"
    using assms unfolding get_pcs_resources_table_def
    by (rule iter_returns)
      (auto simp: pcs_table_turn_def try_except_def bindA_def run_pcs_status_def ret_def lift_res_def raise_act_def
         split: prod.splits sum.splits if_splits)
  then show ?thesis by (blast dest: pcs_table_schema)
qed

lemma healthy_loop_True:
  "healthy_loop L n s = Some (r, s') \<Longrightarrow>
     (\<exists>e. r = Inl e) \<or> r = Inr True \<and> (\<exists>u. resources_healthy L (snd s') u = (Inr True, fst s'))"
  by (induction n arbitrary: s)
    (auto simp: bindP_def liftP_def raiseP_def raise_act_def retP_def ret_def on_fst_def set_snd_def split: option.splits prod.splits sum.splits if_splits)

text \<open>
  \<open>all_healthy\<close> never answers false: it returns true, when the six groups of
  resources were found healthy on the table it kept, or it raises.
\<close>
theorem all_healthy_is_true:
  assumes "all_healthy L s = Some (r, s')"
  shows "(\<exists>e. r = Inl e) \<or> r = Inr True \<and> (\<exists>u. resources_healthy L (snd s') u = (Inr True, fst s'))"
  using assms unfolding all_healthy_def by (rule healthy_loop_True)


text \<open>
  Executing a command takes time, at least \<open>d\<close>, and nothing else goes back in time.
\<close>

definition slow_pcs :: "rat \<Rightarrow> 'z world_scheme pcs_lib \<Rightarrow> bool" where
  "slow_pcs d L \<longleftrightarrow> 0 < d \<and> (\<forall>ws t w. py_time w + d \<le> py_time (snd (px_execute L ws t w)))"

lemma pcs_turn_is:
  "pcs_table_turn L a w = (r, w') \<Longrightarrow> w' = snd (px_execute L [''pcs'', ''status'', ''resources''] 40 w)"
  by (auto simp: pcs_table_turn_def try_except_def bindA_def run_pcs_status_def execute_pcs_def ret_def lift_res_def raise_act_def
      split: prod.splits sum.splits if_splits)

lemma table_wait_ends: "slow_pcs d L \<Longrightarrow> t \<noteq> 0 \<Longrightarrow> ends (get_pcs_resources_table L (Some t) interval)"
  unfolding get_pcs_resources_table_def
  by (rule slow_turns_end[where d = d])
    (auto simp: slow_pcs_def retry_def mk_retry_def opt_or_def to_secs_def Let_def dest!: pcs_turn_is)

lemma operation_turn_is:
  "pcs_operation_turn L resource op node wait a w = (r, w') \<Longrightarrow>
     w' = snd (px_execute L (''pcs'' # pcs_operation_args resource op node wait) (of_int wait + 10) w)"
  by (auto simp: pcs_operation_turn_def try_except_def bindA_def execute_pcs_def ret_def lift_res_def raise_act_def
      split: prod.splits sum.splits if_splits)

lemma ends_step: "ends m \<Longrightarrow> ends (\<lambda>s. map_option (\<lambda>(r, w). (r, (w, snd s))) (m (g s)))"
  by (simp add: ends_def)

lemma healthy_loop_ends: "slow_pcs d L \<Longrightarrow> ends (healthy_loop L n)"
  by (induction n) (auto intro!: ends_bind ends_step table_wait_ends[of d L])

text \<open>
  When executing a command takes time, the check of the cluster's health ends
  after its 360 attempts, and so do building the status, finding nodes and operating on a
  resource (with a time limit that is not zero, which would mean none): a cluster that never answers well makes them raise, not wait for ever.
\<close>
theorem pacemaker_ends:
  assumes "slow_pcs d L" and "t \<noteq> 0"
  shows "ends (all_healthy L) \<and> ends (init_pcs_status L) \<and> ends (get_overcloud_nodes_running_pcs_resource L r rt rs) \<and>
    ends (run_pcs_resource_operation L r op node wait (Some t) interval)"
proof (intro conjI)
  show "ends (all_healthy L)" unfolding all_healthy_def by (rule healthy_loop_ends[OF assms(1)])
  show "ends (init_pcs_status L)" unfolding init_pcs_status_def
    by (intro ends_bind table_wait_ends[OF assms(1)]) (auto split: prod.splits)
  show "ends (get_overcloud_nodes_running_pcs_resource L r rt rs)" unfolding get_overcloud_nodes_running_pcs_resource_def
    by (intro ends_bind table_wait_ends[OF assms(1)]) auto
  show "ends (run_pcs_resource_operation L r op node wait (Some t) interval)"
    unfolding run_pcs_resource_operation_def
    by (rule slow_turns_end[where d = d])
      (use assms in \<open>auto simp: slow_pcs_def retry_def mk_retry_def opt_or_def to_secs_def Let_def dest!: operation_turn_is\<close>)
qed

section \<open>Examples\<close>

definition demo_output :: string where
  "demo_output = ''  * g-0 (ocf:heartbeat:galera): Promoted c-0'' @ [CHR 0x0A] @ ''Full List of Resources''"

definition demo_pcs :: "'z world_scheme pcs_lib" where
  "demo_pcs = \<lparr>px_execute = (\<lambda>ws t w. (Inr (demo_output, []), py_sleep 1 w)), px_eval = (\<lambda>q. Inr False),
     px_before_17 = ret False, px_redis_expected = ret False, px_external_balancer = True, px_has_overcloud = ret True\<rparr>"

definition demo_row :: "(string \<times> cell) list" where
  "demo_row = [(''resource'', CStr ''g-0''), (''resource_type'', CStr ''(ocf:heartbeat:galera):''),
     (''resource_state'', CStr ''Promoted''), (''overcloud_node'', CStr ''c-0'')]"

lemma demo_pcs_table:
  "pcs_table (str_join [CHR 0x0A] (filter (str_in ''ocf'') (splitlines demo_output))) =
     Inr \<lparr>td_schema = pcs_columns, td_data = [demo_row]\<rparr>"
  by code_simp

lemma pcs_resources_columns_witness:
  "td_schema \<lparr>td_schema = pcs_columns, td_data = [demo_row]\<rparr> = pcs_columns"
proof -
  have "get_pcs_resources_table demo_pcs (Some 720) (Some 2) \<lparr>wtime = 0\<rparr> =
    Some (Inr \<lparr>td_schema = pcs_columns, td_data = [demo_row]\<rparr>, \<lparr>wtime = 1\<rparr>)"
    unfolding get_pcs_resources_table_def
    by (rule retry_iter_first)
      (simp add: pcs_table_turn_def try_except_def bindA_def run_pcs_status_def execute_pcs_def demo_pcs_def demo_pcs_table ret_def lift_res_def py_sleep_def py_time_def to_secs_def)
  from pcs_resources_columns[OF this] show ?thesis by blast
qed

lemma pacemaker_ends_witness: "ends (all_healthy (demo_pcs :: world pcs_lib))"
  proof -
  have "slow_pcs 1 (demo_pcs :: world pcs_lib)" by (simp add: slow_pcs_def demo_pcs_def py_sleep_def py_time_def to_secs_def)
  from pacemaker_ends[OF this, of 1] show ?thesis by simp
qed

end
