(* ===== verification/Ssh_Config.thy ===== *)
theory Ssh_Config
  imports Py_Strings Tobiko_Select
begin

text \<open>
  tobiko/shell/ssh/_config.py, _key_file.py (the local keys) and the text of a login of
  _command.py: what is known of a host before connecting to it. The files of OpenSSH as paramiko
  reads them, the options of tobiko.conf, netaddr and the file system are parameters.
\<close>

section \<open>Values\<close>

text \<open>The values of options, parameters of a connection and entries of a configuration.\<close>

datatype cfg_value = CfNone | CfBool bool | CfInt int | CfFloat rat | CfText string | CfTexts "string list"
  | CfDict "(string \<times> cfg_value) list"

fun cf_true :: "cfg_value \<Rightarrow> bool" where
  "cf_true CfNone = False"
| "cf_true (CfBool b) = b"
| "cf_true (CfInt i) = (i \<noteq> 0)"
| "cf_true (CfFloat r) = (r \<noteq> 0)"
| "cf_true (CfText t) = (t \<noteq> [])"
| "cf_true (CfTexts ts) = (ts \<noteq> [])"
| "cf_true (CfDict d) = (d \<noteq> [])"

definition cf_or :: "cfg_value \<Rightarrow> cfg_value \<Rightarrow> cfg_value" where
  "cf_or v w = (if cf_true v then v else w)"

text \<open>\<open>str(v)\<close>; \<open>fmt\<close> is Python's text of a float, a list or a dictionary.\<close>

fun cf_str :: "(cfg_value \<Rightarrow> string) \<Rightarrow> cfg_value \<Rightarrow> string" where
  "cf_str fmt CfNone = ''None''"
| "cf_str fmt (CfBool b) = (if b then ''True'' else ''False'')"
| "cf_str fmt (CfInt i) = str_int i"
| "cf_str fmt (CfText t) = t"
| "cf_str fmt v = fmt v"

text \<open>Iterating over a value that should be a list of texts.\<close>

fun cf_iter :: "cfg_value \<Rightarrow> string list res" where
  "cf_iter (CfTexts ts) = Inr ts"
| "cf_iter (CfText t) = Inr (map (\<lambda>c. [c]) t)"
| "cf_iter (CfDict d) = Inr (map fst d)"
| "cf_iter v = Raise PyTypeError ''object is not iterable''"

text \<open>\<open>d.get(k)\<close> and \<open>d.setdefault(k, v)\<close>.\<close>

definition cf_get :: "(string \<times> cfg_value) list \<Rightarrow> string \<Rightarrow> cfg_value" where
  "cf_get d k = (case map_of d k of None \<Rightarrow> CfNone | Some v \<Rightarrow> v)"

definition setdefault :: "('k \<times> 'v) list \<Rightarrow> 'k \<Rightarrow> 'v \<Rightarrow> ('k \<times> 'v) list" where
  "setdefault d k v = (if k \<in> fst ` set d then d else d @ [(k, v)])"

lemma map_of_setdefault: "map_of (setdefault d k v) k' = (if k' = k \<and> k \<notin> fst ` set d then Some v else map_of d k')"
  using map_of_eq_None_iff[of d k] by (auto simp: setdefault_def map_add_def split: option.splits)

text \<open>\<open>x or y\<close> of texts that may be None.\<close>

abbreviation text_or :: "string option \<Rightarrow> string option \<Rightarrow> string option" where
  "text_or \<equiv> opt_or (\<lambda>t. t \<noteq> [])"

section \<open>The URL of a host\<close>

definition partition_at :: "char \<Rightarrow> string \<Rightarrow> string \<times> bool \<times> string" where
  "partition_at c s = (takeWhile (\<lambda>x. x \<noteq> c) s, c \<in> set s, tl (dropWhile (\<lambda>x. x \<noteq> c) s))"

lemma until_char:
  "c \<notin> set s \<Longrightarrow> takeWhile (\<lambda>x. x \<noteq> c) (s @ c # t) = s \<and> dropWhile (\<lambda>x. x \<noteq> c) (s @ c # t) = c # t"
  "c \<notin> set s \<Longrightarrow> takeWhile (\<lambda>x. x \<noteq> c) s = s \<and> dropWhile (\<lambda>x. x \<noteq> c) s = []"
  by (induction s) auto

lemma partition_at_simps:
  "c \<notin> set s \<Longrightarrow> partition_at c s = (s, False, [])"
  "c \<notin> set s \<Longrightarrow> partition_at c (s @ c # t) = (s, True, t)"
  by (simp_all add: partition_at_def until_char)

definition rpartition_at :: "char \<Rightarrow> string \<Rightarrow> string \<times> bool \<times> string" where
  "rpartition_at c s = (case rsplit1 c s of None \<Rightarrow> ([], False, s) | Some (a, b) \<Rightarrow> (a, True, b))"

lemma rpartition_at_simps:
  "c \<notin> set s \<Longrightarrow> rpartition_at c s = ([], False, s)"
  "c \<notin> set t \<Longrightarrow> rpartition_at c (s @ c # t) = (s, True, t)"
  using until_char(1)[of c "rev t" "rev s"] by (simp_all add: rpartition_at_def rsplit1_def)

text \<open>
  \<open>parse.urlparse('ssh://' + host)\<close> as far as the code reads it: the part before the first of
  \<open>/?#\<close> without tabs and ends of lines, and its attributes.
\<close>

definition ssh_netloc :: "string \<Rightarrow> string res" where
  "ssh_netloc host =
     (let netloc = takeWhile (\<lambda>c. c \<notin> set ''/?#'') (filter (\<lambda>c. c \<notin> {CHR 0x09, CHR 0x0A, CHR 0x0D}) host)
      in if (CHR ''['' \<in> set netloc) \<noteq> (CHR '']'' \<in> set netloc) then Raise PyValueError ''Invalid IPv6 URL'' else Inr netloc)"

definition url_username :: "string \<Rightarrow> string option" where
  "url_username netloc =
     (case rpartition_at (CHR ''@'') netloc of
        (userinfo, have, _) \<Rightarrow> if have then Some (fst (partition_at (CHR '':'') userinfo)) else None)"

definition url_hostinfo :: "string \<Rightarrow> string \<times> string" where
  "url_hostinfo netloc =
     (case rpartition_at (CHR ''@'') netloc of (_, _, hostinfo) \<Rightarrow>
      case partition_at (CHR ''['') hostinfo of (_, have, bracketed) \<Rightarrow>
        if have
        then (case partition_at (CHR '']'') bracketed of (h, _, rest) \<Rightarrow> (h, snd (snd (partition_at (CHR '':'') rest))))
        else (case partition_at (CHR '':'') hostinfo of (h, _, p) \<Rightarrow> (h, p)))"

definition url_hostname :: "string \<Rightarrow> string option" where
  "url_hostname netloc =
     (case fst (url_hostinfo netloc) of
        [] \<Rightarrow> None
      | h \<Rightarrow> (case partition_at (CHR ''%'') h of
                (name, have, zone) \<Rightarrow> Some (str_lower name @ (if have then CHR ''%'' # zone else []))))"

definition url_port :: "string \<Rightarrow> int option res" where
  "url_port netloc =
     (case snd (url_hostinfo netloc) of
        [] \<Rightarrow> Inr None
      | p \<Rightarrow> if \<not> list_all is_digit p then Raise PyValueError ''Port could not be cast to integer value''
             else if nat_of_digits p > 65535 then Raise PyValueError ''Port out of range 0-65535''
             else Inr (Some (int (nat_of_digits p))))"

text \<open>\<open>ip_version\<close> is the version of an address, None where netaddr raises AddrFormatError.\<close>

definition get_ssh_host_url :: "(string \<Rightarrow> nat option res) \<Rightarrow> string \<Rightarrow> string res" where
  "get_ssh_host_url ip_version host =
     (case ip_version host of
        Inl e \<Rightarrow> Inl e
      | Inr v \<Rightarrow> ssh_netloc (if v = Some 6 then ''['' @ host @ '']'' else host))"

section \<open>The configuration of a host\<close>

record ssh_defaults =
  df_port :: cfg_value
  df_username :: cfg_value
  df_proxy_jump :: cfg_value
  df_proxy_command :: cfg_value
  df_allow_agent :: cfg_value
  df_compress :: cfg_value
  df_timeout :: cfg_value
  df_attempts :: cfg_value
  df_interval :: cfg_value
  df_conn_timeout :: cfg_value
  df_command :: string
  df_key_file :: "string list"

record ssh_env =
  sn_default :: ssh_defaults
  sn_lookup :: "string \<Rightarrow> (string \<times> cfg_value) list"
  sn_ip_version :: "string \<Rightarrow> nat option res"
  sn_isfile :: "string \<Rightarrow> bool"
  sn_path :: "string \<Rightarrow> string"
  sn_fmt :: "cfg_value \<Rightarrow> string"

record host_config =
  sc_host :: "string option"
  sc_config :: "(string \<times> cfg_value) list"

text \<open>Host, user and port of what \<open>lookup\<close> is asked for.\<close>

definition lookup_names ::
  "ssh_env \<Rightarrow> string option \<Rightarrow> string option \<Rightarrow> string option \<Rightarrow> int option \<Rightarrow> (string option \<times> string option \<times> int option) res" where
  "lookup_names V host hostname username port =
     (case host of
        Some h \<Rightarrow>
          if CHR ''@'' \<in> set h \<or> CHR '':'' \<in> set h
          then (case get_ssh_host_url (sn_ip_version V) h of
                  Inl e \<Rightarrow> Inl e
                | Inr url \<Rightarrow>
                    map_sum id (\<lambda>p. (text_or hostname (text_or (url_hostname url) None), text_or username (text_or (url_username url) None), p))
                      (if opt_or (\<lambda>p. p \<noteq> 0) port None \<noteq> None then Inr port
                       else map_sum id (\<lambda>p. opt_or (\<lambda>p. p \<noteq> 0) p None) (url_port url)))
          else Inr (text_or hostname host, username, port)
      | None \<Rightarrow> Inr (text_or hostname host, username, port))"

text \<open>\<open>host_config.setdefault(key, value)\<close> when the value is given.\<close>

definition default_if :: "bool \<Rightarrow> string \<Rightarrow> cfg_value \<Rightarrow> (string \<times> cfg_value) list \<Rightarrow> (string \<times> cfg_value) list" where
  "default_if given key v d = (if given then setdefault d key v else d)"

definition ssh_config_lookup ::
  "ssh_env \<Rightarrow> string option \<Rightarrow> string option \<Rightarrow> string option \<Rightarrow> int option \<Rightarrow> host_config res" where
  "ssh_config_lookup V host hostname username port =
     (case lookup_names V host hostname username port of
        Inl e \<Rightarrow> Inl e
      | Inr (hostname, username, port) \<Rightarrow>
          (let found = (case hostname of Some (c # cs) \<Rightarrow> sn_lookup V (c # cs) | _ \<Rightarrow> []);
               d = filter (\<lambda>(k, v). k \<noteq> ''include'') found;
               d = (case hostname of Some h \<Rightarrow> default_if (h \<noteq> []) ''hostname'' (CfText h) d | None \<Rightarrow> d);
               d = (case username of Some u \<Rightarrow> default_if (u \<noteq> []) ''user'' (CfText u) d | None \<Rightarrow> d);
               d = (case port of Some p \<Rightarrow> default_if (p \<noteq> 0) ''port'' (CfInt p) d | None \<Rightarrow> d)
           in Inr \<lparr>sc_host = host, sc_config = d\<rparr>))"

definition ssh_host_config :: "ssh_env \<Rightarrow> string option \<Rightarrow> host_config res" where
  "ssh_host_config V host = ssh_config_lookup V host None None None"

definition sc_hostname :: "host_config \<Rightarrow> cfg_value" where
  "sc_hostname c =
     (case map_of (sc_config c) ''hostname'' of
        Some v \<Rightarrow> v | None \<Rightarrow> (case sc_host c of None \<Rightarrow> CfNone | Some h \<Rightarrow> CfText h))"

definition sc_or :: "ssh_env \<Rightarrow> host_config \<Rightarrow> string \<Rightarrow> (ssh_defaults \<Rightarrow> cfg_value) \<Rightarrow> cfg_value" where
  "sc_or V c key dflt = cf_or (cf_get (sc_config c) key) (dflt (sn_default V))"

definition sc_port where "sc_port V c = sc_or V c ''port'' df_port"
definition sc_username where "sc_username V c = sc_or V c ''user'' df_username"
definition sc_proxy_command where "sc_proxy_command V c = sc_or V c ''proxycommand'' df_proxy_command"
definition sc_timeout where "sc_timeout V c = sc_or V c ''connetcttimeout'' df_timeout"
definition sc_attempts where "sc_attempts V c = sc_or V c ''connectionattempts'' df_attempts"

definition is_yes :: "(cfg_value \<Rightarrow> string) \<Rightarrow> cfg_value \<Rightarrow> bool" where
  "is_yes fmt v = (cf_true v \<and> str_lower (cf_str fmt v) = ''yes'')"

definition yes_or :: "ssh_env \<Rightarrow> host_config \<Rightarrow> string \<Rightarrow> (ssh_defaults \<Rightarrow> cfg_value) \<Rightarrow> cfg_value" where
  "yes_or V c key dflt = (if is_yes (sn_fmt V) (cf_get (sc_config c) key) then CfBool True else dflt (sn_default V))"

definition sc_allow_agent where "sc_allow_agent V c = yes_or V c ''forwardagent'' df_allow_agent"
definition sc_compress where "sc_compress V c = yes_or V c ''compression'' df_compress"

section \<open>Key files\<close>

definition add_key_file :: "ssh_env \<Rightarrow> string list \<Rightarrow> string \<Rightarrow> string list" where
  "add_key_file V keys f =
     (if f = [] then keys
      else if sn_path V f \<notin> set keys \<and> sn_isfile V (sn_path V f) then keys @ [sn_path V f] else keys)"

definition list_key_filenames :: "ssh_env \<Rightarrow> string list" where
  "list_key_filenames V = foldl (add_key_file V) [] (select_uniques (df_key_file (sn_default V)) [])"

definition sc_key_filename :: "ssh_env \<Rightarrow> host_config \<Rightarrow> string list res" where
  "sc_key_filename V c =
     (let v = cf_get (sc_config c) ''identityfile''
      in map_sum id (\<lambda>fs. map (sn_path V) (filter (\<lambda>f. f \<noteq> [] \<and> sn_isfile V f) fs) @ list_key_filenames V)
           (if cf_true v then cf_iter v else Inr []))"

section \<open>The proxy of a host\<close>

definition sc_proxy_jump :: "ssh_env \<Rightarrow> host_config \<Rightarrow> string option res" where
  "sc_proxy_jump V c =
     (let proxy_jump = sc_or V c ''proxyjump'' df_proxy_jump
      in if \<not> cf_true proxy_jump then Inr None
         else (case proxy_jump of
                 CfText p \<Rightarrow>
                   map_sum id (\<lambda>pc. if {CfText p, sc_hostname pc} \<inter> {case sc_host c of None \<Rightarrow> CfNone | Some h \<Rightarrow> CfText h, sc_hostname c} \<noteq> {}
                                    then None else Some p)
                     (ssh_config_lookup V (Some p) None None None)
               | _ \<Rightarrow> Raise PyTypeError ''argument is not iterable''))"

definition sc_connect_parameters :: "ssh_env \<Rightarrow> host_config \<Rightarrow> (string \<times> cfg_value) list res" where
  "sc_connect_parameters V c =
     map_sum id (\<lambda>keys.
       [(''hostname'', sc_hostname c), (''port'', sc_port V c), (''username'', sc_username V c), (''key_filename'', CfTexts keys),
        (''compress'', sc_compress V c), (''timeout'', sc_timeout V c), (''allow_agent'', sc_allow_agent V c),
        (''connection_attempts'', sc_attempts V c), (''connection_interval'', df_interval (sn_default V)),
        (''connection_timeout'', df_conn_timeout (sn_default V))])
       (sc_key_filename V c)"

section \<open>Logins\<close>

definition ssh_login :: "string \<Rightarrow> string option \<Rightarrow> int option \<Rightarrow> string" where
  "ssh_login hostname username port =
     (let login = (case port of Some p \<Rightarrow> if p \<noteq> 0 then hostname @ '':'' @ str_int p else hostname | None \<Rightarrow> hostname)
      in case username of Some (u # us) \<Rightarrow> (u # us) @ ''@'' @ login | _ \<Rightarrow> login)"

section \<open>What a lookup finds\<close>

text \<open>Names that a URL takes as they are.\<close>

definition url_delims :: "char set" where
  "url_delims = set ''/?#[]'' \<union> {CHR 0x09, CHR 0x0A, CHR 0x0D}"

definition url_plain :: "string \<Rightarrow> bool" where
  "url_plain t = (t \<noteq> [] \<and> set t \<inter> (url_delims \<union> set ''@:%'') = {} \<and> str_lower t = t)"

lemma plain_char: "url_plain t \<Longrightarrow> c \<in> url_delims \<union> set ''@:%'' \<Longrightarrow> c \<notin> set t"
  unfolding url_plain_def by blast

lemma delims: "c \<in> url_delims \<Longrightarrow> \<not> is_digit c \<and> c \<noteq> CHR '':'' \<and> c \<noteq> CHR ''@''"
  unfolding url_delims_def by (elim UnE) (auto simp: is_digit_def)

lemma in_delims: "set ''/?#'' \<subseteq> url_delims" "{CHR 0x09, CHR 0x0A, CHR 0x0D} \<subseteq> url_delims" "CHR ''['' \<in> url_delims" "CHR '']'' \<in> url_delims"
  by (simp_all add: url_delims_def)

lemma str_nat_char_not: "\<not> is_digit c \<Longrightarrow> c \<notin> set (str_nat n)"
  using str_nat_chars digit_char by blast

lemma digits_str_nat_all: "list_all is_digit (str_nat n)"
  using str_nat_char_not by (auto simp: list_all_iff)

definition port_text :: "int option \<Rightarrow> string" where
  "port_text p = (case p of None \<Rightarrow> [] | Some n \<Rightarrow> '':'' @ str_nat (nat n))"

definition user_text :: "string option \<Rightarrow> string" where
  "user_text u = (case u of None \<Rightarrow> [] | Some n \<Rightarrow> n @ ''@'')"

definition port_ok :: "int option \<Rightarrow> bool" where
  "port_ok p = (case p of None \<Rightarrow> True | Some n \<Rightarrow> 0 < n \<and> n \<le> 65535)"

lemma login_text: "pred_option url_plain u \<Longrightarrow> port_ok p \<Longrightarrow> ssh_login h u p = user_text u @ h @ port_text p"
  by (cases u; cases p; cases "the u")
    (auto simp: ssh_login_def user_text_def port_text_def port_ok_def url_plain_def str_int_def Let_def)

lemma port_text_char: "\<not> is_digit c \<Longrightarrow> c \<noteq> CHR '':'' \<Longrightarrow> c \<notin> set (port_text p)"
  by (auto simp: port_text_def str_nat_char_not split: option.splits)

lemma user_text_char: "pred_option url_plain u \<Longrightarrow> c \<in> url_delims \<Longrightarrow> c \<notin> set (user_text u)"
  using plain_char[of "the u" c] delims[of c] by (cases u) (simp_all add: user_text_def)

lemma login_netloc:
  assumes "url_plain h" "pred_option url_plain u" "port_ok p"
  shows "ssh_netloc (user_text u @ h @ port_text p) = Inr (user_text u @ h @ port_text p)"
proof -
  let ?t = "user_text u @ h @ port_text p"
  have no: "c \<notin> set ?t" if "c \<in> url_delims" for c
    using that plain_char[OF assms(1), of c] user_text_char[OF assms(2), of c] port_text_char[of c p] delims[of c] by simp
  have "filter (\<lambda>c. c \<notin> {CHR 0x09, CHR 0x0A, CHR 0x0D}) ?t = ?t"
    by (rule filter_True) (use no in_delims(2) in blast)
  moreover have "takeWhile (\<lambda>c. c \<notin> set ''/?#'') ?t = ?t"
    by (rule takeWhile_eq_all_conv[THEN iffD2]) (use no in_delims(1) in blast)
  moreover have "CHR ''['' \<notin> set ?t" "CHR '']'' \<notin> set ?t" by (rule no, rule in_delims)+
  ultimately show ?thesis unfolding ssh_netloc_def Let_def by presburger
qed

lemma login_split:
  assumes "url_plain h" "pred_option url_plain u" "port_ok p"
  shows "rpartition_at (CHR ''@'') (user_text u @ h @ port_text p) =
    (case u of None \<Rightarrow> [] | Some n \<Rightarrow> n, u \<noteq> None, h @ port_text p)"
proof -
  have no: "CHR ''@'' \<notin> set (h @ port_text p)"
    using plain_char[OF assms(1), of "CHR ''@''"] port_text_char[of "CHR ''@''" p] by (simp add: is_digit_def)
  show ?thesis
    by (cases u) (use rpartition_at_simps(1)[OF no] rpartition_at_simps(2)[OF no] in \<open>simp_all add: user_text_def\<close>)
qed

lemma login_hostinfo:
  assumes "url_plain h" "pred_option url_plain u" "port_ok p"
  shows "url_hostinfo (user_text u @ h @ port_text p) = (h, case p of None \<Rightarrow> [] | Some n \<Rightarrow> str_nat (nat n))"
proof -
  have "CHR ''['' \<notin> set (h @ port_text p)"
    using plain_char[OF assms(1), of "CHR ''[''"] port_text_char[of "CHR ''[''" p] in_delims(3) by (simp add: is_digit_def)
  then have open_bracket: "partition_at (CHR ''['') (h @ port_text p) = (h @ port_text p, False, [])"
    by (rule partition_at_simps(1))
  have "partition_at (CHR '':'') (h @ port_text p) = (h, p \<noteq> None, case p of None \<Rightarrow> [] | Some n \<Rightarrow> str_nat (nat n))"
    using plain_char[OF assms(1), of "CHR '':''"] by (cases p) (simp_all add: port_text_def partition_at_simps)
  then show ?thesis unfolding url_hostinfo_def login_split[OF assms] by (simp add: open_bracket)
qed

lemma login_parts:
  assumes "url_plain h" "pred_option url_plain u" "port_ok p"
  shows "url_hostname (user_text u @ h @ port_text p) = Some h"
    and "url_username (user_text u @ h @ port_text p) = u"
    and "url_port (user_text u @ h @ port_text p) = Inr p"
proof -
  show "url_hostname (user_text u @ h @ port_text p) = Some h"
  proof (cases h)
    case (Cons c cs)
    have "partition_at (CHR ''%'') h = (h, False, [])" using plain_char[OF assms(1), of "CHR ''%''"] by (simp add: partition_at_simps)
    then show ?thesis
      using assms(1) Cons unfolding url_hostname_def login_hostinfo[OF assms] by (simp add: url_plain_def)
  qed (use assms(1) in \<open>simp add: url_plain_def\<close>)
  show "url_username (user_text u @ h @ port_text p) = u"
    using assms(2) plain_char[of "the u" "CHR '':''"] unfolding url_username_def login_split[OF assms]
    by (cases u) (simp_all add: partition_at_simps)
  show "url_port (user_text u @ h @ port_text p) = Inr p"
  proof (cases p)
    case (Some n)
    obtain d ds where d: "str_nat (nat n) = d # ds" using str_nat_nonempty by (cases "str_nat (nat n)") auto
    have "list_all is_digit (d # ds)" "nat_of_digits (d # ds) = nat n"
      using digits_str_nat_all[of "nat n"] nat_of_digits_str_nat[of "nat n"] d by simp_all
    moreover have "\<not> 65535 < nat n" using Some assms(3) by (simp add: port_ok_def not_less nat_le_iff)
    ultimately show ?thesis using Some assms(3) unfolding url_port_def login_hostinfo[OF assms] by (simp add: d port_ok_def)
  next
    case None
    then show ?thesis unfolding url_port_def login_hostinfo[OF assms] by simp
  qed
qed

text \<open>
  The text of a login, given as a host, is looked up as the host name, the user
  and the port it was made of, for names that a URL takes as they are and ports from 1 to 65535.
\<close>
theorem login_roundtrip:
  assumes "url_plain h" and "pred_option url_plain u" and "port_ok p" and "u \<noteq> None \<or> p \<noteq> None"
    and "sn_ip_version V (ssh_login h u p) = Inr None"
  shows "lookup_names V (Some (ssh_login h u p)) None None None = Inr (Some h, u, p)"
proof -
  let ?t = "user_text u @ h @ port_text p"
  have "CHR ''@'' \<in> set ?t \<or> CHR '':'' \<in> set ?t" using assms(4) by (auto simp: user_text_def port_text_def)
  moreover have "get_ssh_host_url (sn_ip_version V) ?t = Inr ?t"
    using assms(5) login_text[OF assms(2,3)] login_netloc[OF assms(1-3)] by (simp add: get_ssh_host_url_def)
  moreover have "text_or u None = u" "text_or (Some h) None = Some h" "opt_or (\<lambda>p. p \<noteq> 0) p None = p"
    using assms(1-3) by (auto simp: opt_or_def url_plain_def port_ok_def split: option.splits)
  ultimately show ?thesis
    unfolding login_text[OF assms(2,3)] lookup_names_def using login_parts[OF assms(1-3)] by simp
qed

text \<open>
  A host is never its own proxy: a proxy that is given is neither the host that was
  looked up nor its host name, and its own host name is neither of them.
\<close>
theorem proxy_not_self:
  assumes "sc_proxy_jump V c = Inr (Some p)"
  shows "sc_host c \<noteq> Some p \<and> sc_hostname c \<noteq> CfText p \<and>
    (\<exists>pc. ssh_host_config V (Some p) = Inr pc \<and> sc_hostname pc \<noteq> sc_hostname c \<and>
       (\<forall>h. sc_host c = Some h \<longrightarrow> sc_hostname pc \<noteq> CfText h))"
  using assms
  by (auto simp: sc_proxy_jump_def Let_def ssh_host_config_def map_sum_eq_Inr split: if_splits cfg_value.splits option.splits)

definition keys_ok :: "ssh_env \<Rightarrow> string list \<Rightarrow> bool" where
  "keys_ok V keys \<longleftrightarrow> distinct keys \<and> (\<forall>f \<in> set keys. sn_isfile V f)"

lemma add_key_file_ok: "keys_ok V keys \<Longrightarrow> keys_ok V (add_key_file V keys f)"
  by (auto simp: add_key_file_def keys_ok_def)

lemma add_key_files_ok: "keys_ok V keys \<Longrightarrow> keys_ok V (foldl (add_key_file V) keys fs)"
  by (induction fs arbitrary: keys) (simp_all add: add_key_file_ok)

text \<open>
  The local keys are files, and no one is listed twice.
\<close>
theorem local_keys: "distinct (list_key_filenames V) \<and> (\<forall>f \<in> set (list_key_filenames V). sn_isfile V f)"
  using add_key_files_ok[of V "[]"] by (simp add: list_key_filenames_def keys_ok_def)

text \<open>
  The ConnectTimeout of the configuration of a host does not count: the name that
  is asked for is misspelt, and the time limit is that of tobiko.conf.
\<close>
theorem connect_timeout_ignored:
  assumes "''connetcttimeout'' \<notin> fst ` set (sc_config c)"
  shows "sc_timeout V c = df_timeout (sn_default V)"
proof -
  have "map_of (sc_config c) ''connetcttimeout'' = None" using assms by (simp add: map_of_eq_None_iff)
  then show ?thesis by (simp add: sc_timeout_def sc_or_def cf_get_def cf_or_def)
qed

section \<open>Examples\<close>

definition demo_defaults :: ssh_defaults where
  "demo_defaults = \<lparr>df_port = CfNone, df_username = CfNone, df_proxy_jump = CfText ''gw'', df_proxy_command = CfNone,
     df_allow_agent = CfBool False, df_compress = CfBool False, df_timeout = CfFloat 15, df_attempts = CfInt 120,
     df_interval = CfFloat 5, df_conn_timeout = CfInt 200, df_command = ''/usr/bin/ssh'', df_key_file = [''k'']\<rparr>"

definition demo_ssh :: ssh_env where
  "demo_ssh = \<lparr>sn_default = demo_defaults, sn_lookup = (\<lambda>h. [(''hostname'', CfText h), (''connecttimeout'', CfText ''3'')]),
     sn_ip_version = (\<lambda>h. Inr None), sn_isfile = (\<lambda>f. True), sn_path = (\<lambda>f. f), sn_fmt = (\<lambda>v. [])\<rparr>"

lemma login_roundtrip_witness:
  "lookup_names demo_ssh (Some ''root@h:22'') None None None = Inr (Some ''h'', Some ''root'', Some 22)"
proof -
  have "ssh_login ''h'' (Some ''root'') (Some 22) = ''root@h:22''" by code_simp
  moreover have "url_plain ''h''" "url_plain ''root''" by code_simp+
  ultimately show ?thesis using login_roundtrip[of "''h''" "Some ''root''" "Some 22" demo_ssh] by (simp add: demo_ssh_def port_ok_def)
qed

lemma demo_lookup: "ssh_host_config demo_ssh (Some ''h'') = Inr \<lparr>sc_host = Some ''h'', sc_config = [(''hostname'', CfText ''h''), (''connecttimeout'', CfText ''3'')]\<rparr>"
  by code_simp

lemma proxy_not_self_witness:
  "sc_proxy_jump demo_ssh \<lparr>sc_host = Some ''h'', sc_config = [(''hostname'', CfText ''h'')]\<rparr> = Inr (Some ''gw'') \<and> ''gw'' \<noteq> ''h''"
proof -
  have "sc_proxy_jump demo_ssh \<lparr>sc_host = Some ''h'', sc_config = [(''hostname'', CfText ''h'')]\<rparr> = Inr (Some ''gw'')"
    by code_simp
  with proxy_not_self[OF this] show ?thesis by simp
qed

lemma connect_timeout_ignored_witness:
  "sc_timeout demo_ssh \<lparr>sc_host = Some ''h'', sc_config = [(''hostname'', CfText ''h''), (''connecttimeout'', CfText ''3'')]\<rparr> = CfFloat 15"
  by (subst connect_timeout_ignored) (simp_all add: demo_ssh_def demo_defaults_def)

end
