(* ===== verification/Ssh_Parameters.thy ===== *)
theory Ssh_Parameters
  imports Ssh_Config Retry_Partial
begin

text \<open>
  tobiko/shell/ssh/_client.py, the parameters of a connection: how each value is checked and
  converted, and from which source each parameter comes.
\<close>

section \<open>Checking values\<close>

text \<open>\<open>int(v)\<close> and \<open>float(v)\<close>; \<open>num\<close> reads a text as a float.\<close>

definition cf_int :: "cfg_value \<Rightarrow> int res" where
  "cf_int v =
     (case v of CfInt i \<Rightarrow> Inr i | CfBool b \<Rightarrow> Inr (if b then 1 else 0)
      | CfFloat r \<Rightarrow> Inr (if r < 0 then - \<lfloor>- r\<rfloor> else \<lfloor>r\<rfloor>) | CfText t \<Rightarrow> py_int t
      | _ \<Rightarrow> Raise PyTypeError ''int() argument must be a string or a number'')"

definition cf_float :: "(string \<Rightarrow> rat option) \<Rightarrow> cfg_value \<Rightarrow> rat res" where
  "cf_float num v =
     (case v of CfInt i \<Rightarrow> Inr (of_int i) | CfBool b \<Rightarrow> Inr (if b then 1 else 0) | CfFloat r \<Rightarrow> Inr r
      | CfText t \<Rightarrow> (case num t of None \<Rightarrow> Raise PyValueError ''could not convert string to float'' | Some r \<Rightarrow> Inr r)
      | _ \<Rightarrow> Raise PyTypeError ''float() argument must be a string or a number'')"

definition valid_hostname :: "(cfg_value \<Rightarrow> string) \<Rightarrow> cfg_value \<Rightarrow> cfg_value res" where
  "valid_hostname fmt v =
     (if cf_str fmt v = [] then Raise PyValueError (''Invalid hostname: '' @ str_repr []) else Inr (CfText (cf_str fmt v)))"

definition valid_port :: "cfg_value \<Rightarrow> cfg_value res" where
  "valid_port v =
     (case cf_int v of
        Inl e \<Rightarrow> Inl e
      | Inr port \<Rightarrow> if port \<le> 0 \<or> port > 65535 then Raise PyValueError (''Invalid port number: '' @ str_int port)
                    else Inr (CfInt port))"

definition positive_float :: "(string \<Rightarrow> rat option) \<Rightarrow> cfg_value \<Rightarrow> cfg_value res" where
  "positive_float num v =
     (case cf_float num v of
        Inl e \<Rightarrow> Inl e | Inr r \<Rightarrow> if r \<le> 0 then Raise PyValueError ''value is not positive'' else Inr (CfFloat r))"

definition positive_int :: "cfg_value \<Rightarrow> cfg_value res" where
  "positive_int v =
     (case cf_int v of
        Inl e \<Rightarrow> Inl e | Inr i \<Rightarrow> if i \<le> 0 then Raise PyValueError (str_int i @ '' is not positive'') else Inr (CfInt i))"

definition get_key_filename :: "ssh_env \<Rightarrow> cfg_value \<Rightarrow> cfg_value res" where
  "get_key_filename V v =
     map_sum id (\<lambda>fs. CfTexts (filter (sn_isfile V) (map (sn_path V) fs)))
       (case v of CfText t \<Rightarrow> Inr [t] | _ \<Rightarrow> cf_iter v)"

text \<open>\<open>dict(v)\<close>: an iterable of texts must hold texts of two characters.\<close>

definition text_pairs :: "string list \<Rightarrow> (string \<times> cfg_value) list res" where
  "text_pairs ts =
     map_sum id (dict_update [])
       (map_res (\<lambda>t. case t of [a, b] \<Rightarrow> Inr ([a], CfText [b])
                     | _ \<Rightarrow> Raise PyValueError ''dictionary update sequence element has the wrong length'') ts)"

definition cf_dict :: "cfg_value \<Rightarrow> cfg_value res" where
  "cf_dict v =
     (case v of
        CfDict d \<Rightarrow> Inr (CfDict d)
      | _ \<Rightarrow> (case cf_iter v of Inl e \<Rightarrow> Inl e | Inr ts \<Rightarrow> map_sum id CfDict (text_pairs ts)))"

type_synonym schema = "(string \<times> (cfg_value \<Rightarrow> cfg_value res)) list"

definition SSH_CONNECT_PARAMETERS :: "ssh_env \<Rightarrow> (string \<Rightarrow> rat option) \<Rightarrow> schema" where
  "SSH_CONNECT_PARAMETERS V num =
     (let str = (\<lambda>v. Inr (CfText (cf_str (sn_fmt V) v))); bool = (\<lambda>v. Inr (CfBool (cf_true v)))
      in [(''hostname'', valid_hostname (sn_fmt V)), (''port'', valid_port), (''username'', str), (''password'', str),
          (''passphrase'', str), (''key_filename'', get_key_filename V), (''timeout'', positive_float num), (''allow_agent'', bool),
          (''look_for_keys'', bool), (''compress'', bool), (''gss_auth'', bool), (''gss_kex'', bool), (''gss_deleg_creds'', bool),
          (''gss_host'', str), (''gss_trust_dns'', bool), (''banner_timeout'', positive_float num),
          (''auth_timeout'', positive_float num), (''connection_attempts'', positive_int),
          (''connection_interval'', positive_float num), (''connection_timeout'', positive_float num), (''proxy_command'', str),
          (''disabled_algorithms'', cf_dict)])"

section \<open>Gathering\<close>

text \<open>
  A source gives the value of a name, CfNone when it has none; reading an attribute may raise.
\<close>

type_synonym source = "string \<Rightarrow> cfg_value res"

definition of_dict :: "(string \<times> cfg_value) list \<Rightarrow> source" where
  "of_dict d name = Inr (cf_get d name)"

fun items_from :: "source \<Rightarrow> schema \<Rightarrow> (string \<times> cfg_value) list res" where
  "items_from src [] = Inr []"
| "items_from src ((name, init) # sch) =
     (case src name of
        Inl e \<Rightarrow> Inl e
      | Inr v \<Rightarrow>
          if v = CfNone then items_from src sch
          else (case init v of
                  Inl e \<Rightarrow> Inl e
                | Inr w \<Rightarrow> map_sum id (\<lambda>ps. (name, w) # ps) (items_from src sch)))"

definition remove_names :: "(string \<times> 'x) list \<Rightarrow> schema \<Rightarrow> schema" where
  "remove_names ps sch = filter (\<lambda>(name, init). name \<notin> fst ` set ps) sch"

text \<open>
  \<open>gather_ssh_connect_parameters\<close> with a source: the destination and the schema after it.
\<close>

definition gather :: "source option \<Rightarrow> (string \<times> cfg_value) list \<times> schema \<Rightarrow> ((string \<times> cfg_value) list \<times> schema) res" where
  "gather src st =
     (case src of
        None \<Rightarrow> Inr st
      | Some f \<Rightarrow> map_sum id (\<lambda>ps. (dict_update (fst st) ps, remove_names ps (snd st))) (items_from f (snd st)))"

text \<open>With keyword arguments: those that are not in the schema are an error.\<close>

definition exclude_mapping_items :: "(string \<times> cfg_value) list \<Rightarrow> schema \<Rightarrow> (string \<times> cfg_value) list" where
  "exclude_mapping_items d sch = filter (\<lambda>(k, v). k \<notin> fst ` set sch) d"

definition gather_kwargs :: "schema \<Rightarrow> (string \<times> cfg_value) list \<Rightarrow> (string \<times> cfg_value) list res" where
  "gather_kwargs sch kwargs =
     (case items_from (of_dict kwargs) sch of
        Inl e \<Rightarrow> Inl e
      | Inr ps \<Rightarrow> if exclude_mapping_items kwargs sch \<noteq> []
                  then Raise PyValueError ''Invalid SSH connection parameters'' else Inr (dict_update [] ps))"

section \<open>The parameters of a fixture\<close>

text \<open>
  The attributes of the object: \<open>hostname\<close> is a property that asks for the parameters again, so
  that reading it while they are gathered never ends; port and username are the class's.
\<close>

definition own_attribute :: "(string \<times> cfg_value) list \<Rightarrow> source" where
  "own_attribute attrs name =
     (if name = ''hostname'' then Raise [''RecursionError'', ''RuntimeError'', ''Exception'', ''BaseException''] ''maximum recursion depth exceeded''
      else Inr (cf_get attrs name))"

record ssh_fixture_sources =
  fs_initial :: "(string \<times> cfg_value) list"
  fs_global :: "(string \<times> cfg_value) list option"
  fs_host :: "(string \<times> cfg_value) list option"
  fs_attrs :: "(string \<times> cfg_value) list"

definition truthy_dict :: "(string \<times> cfg_value) list \<Rightarrow> source option" where
  "truthy_dict d = (if d = [] then None else Some (of_dict d))"

definition source_list :: "ssh_fixture_sources \<Rightarrow> source option list" where
  "source_list F =
     [truthy_dict (fs_initial F), (case fs_global F of None \<Rightarrow> None | Some d \<Rightarrow> truthy_dict d),
      (case fs_host F of None \<Rightarrow> None | Some d \<Rightarrow> truthy_dict d), Some (own_attribute (fs_attrs F))]"

fun gather_all :: "source option list \<Rightarrow> (string \<times> cfg_value) list \<times> schema \<Rightarrow> ((string \<times> cfg_value) list \<times> schema) res" where
  "gather_all [] st = Inr st"
| "gather_all (f # fs) st = (case gather f st of Inl e \<Rightarrow> Inl e | Inr st' \<Rightarrow> gather_all fs st')"

definition get_connect_parameters :: "schema \<Rightarrow> ssh_fixture_sources \<Rightarrow> (string \<times> cfg_value) list res" where
  "get_connect_parameters sch F = map_sum id fst (gather_all (source_list F) ([], sch))"

text \<open>
  \<open>use_connect_parameters\<close> around a body that works with the parameters: the initial parameters
  that were replaced come back, whatever the body does.
\<close>

definition use_connect_parameters ::
  "schema \<Rightarrow> (string \<times> cfg_value) list \<Rightarrow> ('w \<times> ssh_fixture_sources, 'a) pact \<Rightarrow> ('w \<times> ssh_fixture_sources, 'a) pact" where
  "use_connect_parameters sch kwargs body s =
     (if kwargs = [] then body s
      else (case gather_kwargs sch kwargs of
              Inl e \<Rightarrow> Some (Inl e, s)
            | Inr ps \<Rightarrow>
                (let F = (snd s)\<lparr>fs_initial := dict_update (fs_initial (snd s)) ps\<rparr>
                 in case get_connect_parameters sch F of
                      Inl e \<Rightarrow> Some (Inl e, (fst s, F))
                    | Inr _ \<Rightarrow>
                        (case body (fst s, F) of
                           None \<Rightarrow> None
                         | Some (r, t) \<Rightarrow>
                             (let G = (snd t)\<lparr>fs_initial := fs_initial (snd s)\<rparr>
                              in case get_connect_parameters sch G of
                                   Inl e \<Rightarrow> Some (Inl e, (fst t, G)) | Inr _ \<Rightarrow> Some (r, (fst t, G)))))))"

section \<open>Where a parameter comes from\<close>

text \<open>The first source that has a value for a name.\<close>

fun first_value :: "source option list \<Rightarrow> string \<Rightarrow> cfg_value" where
  "first_value [] name = CfNone"
| "first_value (None # fs) name = first_value fs name"
| "first_value (Some f # fs) name =
     (case f name of Inl e \<Rightarrow> CfNone | Inr v \<Rightarrow> if v = CfNone then first_value fs name else v)"

definition value_ok :: "(cfg_value \<Rightarrow> cfg_value res) \<Rightarrow> cfg_value \<Rightarrow> cfg_value option \<Rightarrow> cfg_value option \<Rightarrow> bool" where
  "value_ok init v old new = (if v = CfNone then new = old else \<exists>w. init v = Inr w \<and> new = Some w)"

lemma items_from_Cons:
  "items_from f ((n, i) # sch) = Inr its \<Longrightarrow>
     \<exists>v rest. f n = Inr v \<and> items_from f sch = Inr rest \<and>
       (v = CfNone \<and> its = rest \<or> v \<noteq> CfNone \<and> (\<exists>w. i v = Inr w \<and> its = (n, w) # rest))"
  by (auto simp: map_sum_eq_Inr split: sum.splits if_splits)

lemma items_from_names: "items_from f sch = Inr its \<Longrightarrow> fst ` set its \<subseteq> fst ` set sch"
proof (induction sch arbitrary: its)
  case (Cons p sch)
  obtain n i where p: "p = (n, i)" by fastforce
  from items_from_Cons[OF Cons.prems[unfolded p]] obtain rest w
    where rest: "items_from f sch = Inr rest" and its: "its = rest \<or> its = (n, w) # rest" by blast
  have "insert n (fst ` set rest) \<subseteq> insert n (fst ` set sch)" using Cons.IH[OF rest] by (rule insert_mono)
  with its p show ?case by (elim disjE) simp_all
qed simp

lemma items_from_distinct: "items_from f sch = Inr its \<Longrightarrow> distinct (map fst sch) \<Longrightarrow> distinct (map fst its)"
proof (induction sch arbitrary: its)
  case (Cons p sch)
  obtain n i where p: "p = (n, i)" by fastforce
  from items_from_Cons[OF Cons.prems(1)[unfolded p]] obtain rest w
    where rest: "items_from f sch = Inr rest" and its: "its = rest \<or> its = (n, w) # rest" by blast
  have "n \<notin> fst ` set rest" using items_from_names[OF rest] Cons.prems(2) p by auto
  with Cons.IH[OF rest] Cons.prems(2) its show ?case by auto
qed simp

lemma items_from_value:
  "items_from f sch = Inr its \<Longrightarrow> distinct (map fst sch) \<Longrightarrow> (name, init) \<in> set sch \<Longrightarrow>
     \<exists>v. f name = Inr v \<and> value_ok init v None (map_of its name)"
proof (induction sch arbitrary: its)
  case (Cons p sch)
  obtain n i where p: "p = (n, i)" by fastforce
  from items_from_Cons[OF Cons.prems(1)[unfolded p]] obtain v rest where v: "f n = Inr v"
    and rest: "items_from f sch = Inr rest"
    and its: "v = CfNone \<and> its = rest \<or> v \<noteq> CfNone \<and> (\<exists>w. i v = Inr w \<and> its = (n, w) # rest)" by blast
  have no: "map_of rest n = None"
    using items_from_names[OF rest] Cons.prems(2) p by (auto simp: map_of_eq_None_iff)
  show ?case
  proof (cases "name = n")
    case True
    with Cons.prems(2,3) p have "init = i" by (auto simp: image_iff)
    with True v its no show ?thesis by (auto simp: value_ok_def)
  next
    case False
    with Cons.prems(3) p have "(name, init) \<in> set sch" by simp
    with Cons.IH[OF rest] Cons.prems(2) False its show ?thesis by auto
  qed
qed simp

lemma map_of_rev_distinct: "distinct (map fst xs) \<Longrightarrow> map_of (rev xs) = map_of xs"
  by (subst map_of_inject_set) (simp_all add: rev_map[symmetric])

lemma gather_all_values:
  "gather_all fs (d, sch) = Inr (ps, sch') \<Longrightarrow> distinct (map fst sch) \<Longrightarrow>
     (\<forall>(name, init) \<in> set sch. value_ok init (first_value fs name) (map_of d name) (map_of ps name)) \<and>
     (\<forall>name. name \<notin> fst ` set sch \<longrightarrow> map_of ps name = map_of d name)"
proof (induction fs arbitrary: d sch)
  case (Cons f fs)
  show ?case
  proof (cases f)
    case None
    with Cons show ?thesis by (simp add: gather_def)
  next
    case (Some g)
    obtain its where its: "items_from g sch = Inr its"
      and rest: "gather_all fs (dict_update d its, remove_names its sch) = Inr (ps, sch')"
      using Cons.prems(1) Some by (cases "items_from g sch") (simp_all add: gather_def)
    have d: "distinct (map fst (remove_names its sch))" using Cons.prems(2) by (simp add: remove_names_def distinct_map_filter)
    have m: "map_of (dict_update d its) = map_of d ++ map_of its"
      by (simp add: map_of_dict_update map_of_rev_distinct items_from_distinct[OF its Cons.prems(2)])
    note ih = Cons.IH[OF rest d, unfolded m]
    have "value_ok init (first_value (f # fs) name) (map_of d name) (map_of ps name)" if n: "(name, init) \<in> set sch" for name init
    proof -
      obtain v where v: "g name = Inr v" "value_ok init v None (map_of its name)"
        using items_from_value[OF its Cons.prems(2) n] by blast
      show ?thesis
      proof (cases "v = CfNone")
        case True
        then have none: "map_of its name = None" using v(2) by (simp add: value_ok_def)
        then have "(name, init) \<in> set (remove_names its sch)" using n by (auto simp: remove_names_def map_of_eq_None_iff)
        with ih none have "value_ok init (first_value fs name) (map_of d name) (map_of ps name)" by (fastforce simp: map_add_def)
        with True v(1) Some show ?thesis by simp
      next
        case False
        then obtain w where w: "init v = Inr w" "map_of its name = Some w" using v(2) by (auto simp: value_ok_def)
        then have "name \<notin> fst ` set (remove_names its sch)" by (force simp: remove_names_def dest: map_of_SomeD)
        with ih w(2) have "map_of ps name = Some w" by (simp add: map_add_def)
        with False v(1) w(1) Some show ?thesis by (simp add: value_ok_def)
      qed
    qed
    moreover have "map_of ps name = map_of d name" if n: "name \<notin> fst ` set sch" for name
    proof -
      have "map_of its name = None" using items_from_names[OF its] n by (auto simp: map_of_eq_None_iff)
      moreover have "name \<notin> fst ` set (remove_names its sch)" using n by (auto simp: remove_names_def)
      ultimately show ?thesis using ih by (simp add: map_add_def)
    qed
    ultimately show ?thesis by blast
  qed
qed (auto simp: value_ok_def)

lemma parameters_from_first':
  assumes "get_connect_parameters sch F = Inr ps" and "distinct (map fst sch)"
  shows "(\<forall>(name, init) \<in> set sch. value_ok init (first_value (source_list F) name) None (map_of ps name)) \<and>
    fst ` set ps \<subseteq> fst ` set sch"
proof -
  obtain sch' where "gather_all (source_list F) ([], sch) = Inr (ps, sch')"
    using assms(1) by (auto simp: get_connect_parameters_def map_sum_eq_Inr)
  from gather_all_values[OF this assms(2)] have
    v: "\<forall>(name, init) \<in> set sch. value_ok init (first_value (source_list F) name) None (map_of ps name)"
    and n: "\<forall>name. name \<notin> fst ` set sch \<longrightarrow> map_of ps name = None" by simp_all
  from n have "fst ` set ps \<subseteq> fst ` set sch" by (meson map_of_eq_None_iff subsetI)
  with v show ?thesis by blast
qed

text \<open>
  Each parameter has the value of the first source that knows it, in the order of
  the arguments of the fixture, the configuration files, the configuration it was given and its
  attributes, converted by the function of the schema; names outside the schema do not occur.
\<close>
theorem parameters_from_first:
  assumes "get_connect_parameters sch F = Inr ps" and "distinct (map fst sch)"
  shows "(\<forall>(name, init) \<in> set sch. value_ok init (first_value (source_list F) name) None (map_of ps name)) \<and>
    fst ` set ps \<subseteq> fst ` set sch"
  using parameters_from_first'[OF assms] .

section \<open>The parameters of the program\<close>

lemma schema_names: "distinct (map fst (SSH_CONNECT_PARAMETERS V num))"
  by (simp add: SSH_CONNECT_PARAMETERS_def Let_def)

text \<open>When no source has the host name, reading it from the object fails.\<close>

lemma gather_all_last:
  "gather_all fs (d, sch) = Inr r \<Longrightarrow> distinct (map fst sch) \<Longrightarrow> (name, init) \<in> set sch \<Longrightarrow> Some f \<in> set fs \<Longrightarrow> f name = Inl e \<Longrightarrow>
     first_value fs name \<noteq> CfNone"
proof (induction fs arbitrary: d sch)
  case (Cons g fs)
  show ?case
  proof (cases g)
    case None
    with Cons show ?thesis by (simp add: gather_def)
  next
    case (Some h)
    obtain its where its: "items_from h sch = Inr its"
      and rest: "gather_all fs (dict_update d its, remove_names its sch) = Inr r"
      using Cons.prems(1) Some by (cases "items_from h sch") (simp_all add: gather_def)
    obtain v where v: "h name = Inr v" "value_ok init v None (map_of its name)"
      using items_from_value[OF its Cons.prems(2,3)] by blast
    show ?thesis
    proof (cases "v = CfNone")
      case True
      have "Some f \<in> set fs" using Cons.prems(4,5) Some v(1) by auto
      moreover have "(name, init) \<in> set (remove_names its sch)"
        using True v(2) Cons.prems(3) by (auto simp: remove_names_def value_ok_def map_of_eq_None_iff)
      moreover have "distinct (map fst (remove_names its sch))" using Cons.prems(2) by (simp add: remove_names_def distinct_map_filter)
      ultimately show ?thesis using Cons.IH[OF rest] Cons.prems(5) True v(1) Some by simp
    qed (use v(1) Some in simp)
  qed
qed simp

lemma hostname_known:
  assumes "get_connect_parameters (SSH_CONNECT_PARAMETERS V num) F = Inr ps"
  shows "first_value (source_list F) ''hostname'' \<noteq> CfNone"
proof -
  obtain sch' where "gather_all (source_list F) ([], SSH_CONNECT_PARAMETERS V num) = Inr (ps, sch')"
    using assms by (auto simp: get_connect_parameters_def map_sum_eq_Inr)
  moreover have "(''hostname'', valid_hostname (sn_fmt V)) \<in> set (SSH_CONNECT_PARAMETERS V num)"
    by (simp add: SSH_CONNECT_PARAMETERS_def Let_def)
  moreover have "Some (own_attribute (fs_attrs F)) \<in> set (source_list F)" by (simp add: source_list_def)
  ultimately show ?thesis by (rule gather_all_last[OF _ schema_names]) (simp add: own_attribute_def)
qed

lemma valid_port_ok: "valid_port v = Inr w \<Longrightarrow> \<exists>p. w = CfInt p \<and> 0 < p \<and> p \<le> 65535"
  by (auto simp: valid_port_def split: sum.splits if_splits)

lemma positive_int_ok: "positive_int v = Inr w \<Longrightarrow> \<exists>i. w = CfInt i \<and> 0 < i"
  by (auto simp: positive_int_def split: sum.splits if_splits)

lemma valid_hostname_ok: "valid_hostname fmt v = Inr w \<Longrightarrow> \<exists>h. w = CfText h \<and> h \<noteq> []"
  by (auto simp: valid_hostname_def split: if_splits)

text \<open>
  The parameters of a connection always have a host name, which is not empty; the
  port is from 1 to 65535, the number of attempts is positive, and the key files are files.
\<close>
theorem parameters_bounds:
  assumes "get_connect_parameters (SSH_CONNECT_PARAMETERS V num) F = Inr ps"
  shows "(\<exists>h. map_of ps ''hostname'' = Some (CfText h) \<and> h \<noteq> []) \<and>
    (\<forall>v. map_of ps ''port'' = Some v \<longrightarrow> (\<exists>p. v = CfInt p \<and> 0 < p \<and> p \<le> 65535)) \<and>
    (\<forall>v. map_of ps ''connection_attempts'' = Some v \<longrightarrow> (\<exists>i. v = CfInt i \<and> 0 < i)) \<and>
    (\<forall>v. map_of ps ''key_filename'' = Some v \<longrightarrow> (\<exists>fs. v = CfTexts fs \<and> (\<forall>f \<in> set fs. sn_isfile V f)))"
proof -
  let ?sch = "SSH_CONNECT_PARAMETERS V num"
  have from_first: "value_ok init (first_value (source_list F) name) None (map_of ps name)" if "(name, init) \<in> set ?sch" for name init
    using parameters_from_first'[OF assms schema_names] that by blast
  have port: "value_ok valid_port (first_value (source_list F) ''port'') None (map_of ps ''port'')"
    and host: "value_ok (valid_hostname (sn_fmt V)) (first_value (source_list F) ''hostname'') None (map_of ps ''hostname'')"
    and tries: "value_ok positive_int (first_value (source_list F) ''connection_attempts'') None (map_of ps ''connection_attempts'')"
    and keys: "value_ok (get_key_filename V) (first_value (source_list F) ''key_filename'') None (map_of ps ''key_filename'')"
    by (rule from_first; simp add: SSH_CONNECT_PARAMETERS_def Let_def)+
  have "first_value (source_list F) ''hostname'' \<noteq> CfNone" by (rule hostname_known[OF assms])
  then have "\<exists>h. map_of ps ''hostname'' = Some (CfText h) \<and> h \<noteq> []"
    using host by (auto simp: value_ok_def dest: valid_hostname_ok)
  moreover have "\<exists>p. v = CfInt p \<and> 0 < p \<and> p \<le> 65535" if "map_of ps ''port'' = Some v" for v
    using port that by (auto simp: value_ok_def dest!: valid_port_ok split: if_splits)
  moreover have "\<exists>i. v = CfInt i \<and> 0 < i" if "map_of ps ''connection_attempts'' = Some v" for v
    using tries that by (auto simp: value_ok_def dest!: positive_int_ok split: if_splits)
  moreover have "\<exists>fs. v = CfTexts fs \<and> (\<forall>f \<in> set fs. sn_isfile V f)" if "map_of ps ''key_filename'' = Some v" for v
    using keys that by (auto simp: value_ok_def get_key_filename_def map_sum_eq_Inr split: if_splits)
  ultimately show ?thesis by blast
qed

text \<open>
  Parameters that are given for the time of a body are taken back after it: the
  fixture has its own initial parameters again, whatever the body did or raised.
\<close>
theorem parameters_restored:
  assumes "use_connect_parameters sch kwargs body s = Some (r, t)" and "kwargs \<noteq> []"
    and "gather_kwargs sch kwargs = Inr ps"
    and "get_connect_parameters sch ((snd s)\<lparr>fs_initial := dict_update (fs_initial (snd s)) ps\<rparr>) = Inr qs"
  shows "fs_initial (snd t) = fs_initial (snd s)"
  using assms by (auto simp: use_connect_parameters_def Let_def split: option.splits prod.splits sum.splits)

section \<open>Examples\<close>

definition demo_sources :: ssh_fixture_sources where
  "demo_sources = \<lparr>fs_initial = [(''port'', CfText ''2222'')], fs_global = Some [(''hostname'', CfText ''h''), (''port'', CfInt 22)],
     fs_host = None, fs_attrs = [(''port'', CfInt 22), (''username'', CfText ''me'')]\<rparr>"

lemma demo_parameters:
  "get_connect_parameters (SSH_CONNECT_PARAMETERS demo_ssh (\<lambda>t. None)) demo_sources =
     Inr [(''port'', CfInt 2222), (''hostname'', CfText ''h''), (''username'', CfText ''me'')]"
  by code_simp

lemma parameters_from_first_witness:
  "fst ` set [(''port'', CfInt 2222), (''hostname'', CfText ''h''), (''username'', CfText ''me'')]
     \<subseteq> fst ` set (SSH_CONNECT_PARAMETERS demo_ssh (\<lambda>t. None))"
  using parameters_from_first[OF demo_parameters schema_names] by blast

lemma parameters_bounds_witness:
  "\<exists>p. CfInt 2222 = CfInt p \<and> 0 < p \<and> p \<le> 65535"
  using parameters_bounds[OF demo_parameters] by simp

lemma parameters_restored_witness:
  "\<exists>r t. use_connect_parameters (SSH_CONNECT_PARAMETERS demo_ssh (\<lambda>t. None)) [(''password'', CfText ''x'')]
     (liftP (set_snd (fs_initial_update (\<lambda>_. [])))) ((), demo_sources) = Some (r, t) \<and> fs_initial (snd t) = fs_initial demo_sources"
proof -
  let ?sch = "SSH_CONNECT_PARAMETERS demo_ssh (\<lambda>t. None)"
  have g: "gather_kwargs ?sch [(''password'', CfText ''x'')] = Inr [(''password'', CfText ''x'')]" by code_simp
  have p: "get_connect_parameters ?sch ((snd ((), demo_sources))
        \<lparr>fs_initial := dict_update (fs_initial (snd ((), demo_sources))) [(''password'', CfText ''x'')]\<rparr>) =
      Inr [(''port'', CfInt 2222), (''password'', CfText ''x''), (''hostname'', CfText ''h''), (''username'', CfText ''me'')]"
    by code_simp
  have "use_connect_parameters ?sch [(''password'', CfText ''x'')]
     (liftP (set_snd (fs_initial_update (\<lambda>_. [])))) ((), demo_sources) \<noteq> None"
    using p by (auto simp: use_connect_parameters_def g Let_def liftP_def set_snd_def split: sum.splits)
  then obtain r t where u: "use_connect_parameters ?sch [(''password'', CfText ''x'')]
     (liftP (set_snd (fs_initial_update (\<lambda>_. [])))) ((), demo_sources) = Some (r, t)" by fastforce
  from parameters_restored[OF this _ g p] u show ?thesis by simp
qed

end
