(* ===== verification/Ssh_Connect.thy ===== *)
theory Ssh_Connect
  imports Ssh_Parameters Cloud_Waits
begin

text \<open>
  tobiko/shell/ssh/_client.py, connecting: the private keys, the socket through a proxy, the loop
  that logs in with each key, and the fixture that is connected again when it was lost. The
  library paramiko is a parameter.
\<close>

section \<open>Private keys\<close>

definition SSHException :: pyclass where "SSHException = ''SSHException'' # PyException"
definition AuthenticationException :: pyclass where "AuthenticationException = ''AuthenticationException'' # SSHException"
definition LoadPrivateKeyError :: pyclass where "LoadPrivateKeyError = ''LoadPrivateKeyError'' # TobikoException"

declare SSHException_def [exn_classes] AuthenticationException_def [exn_classes] LoadPrivateKeyError_def [exn_classes]

datatype key_class = RSAKey | ECDSAKey | Ed25519Key

definition KEY_CLASSES :: "key_class list" where
  "KEY_CLASSES = [RSAKey, ECDSAKey, Ed25519Key]"

text \<open>\<open>load c f p\<close> is \<open>c.from_private_key_file(f, p)\<close>.\<close>

type_synonym 'k key_loader = "key_class \<Rightarrow> string \<Rightarrow> string option \<Rightarrow> 'k res"

fun load_with :: "'k key_loader \<Rightarrow> string \<Rightarrow> string option \<Rightarrow> key_class list \<Rightarrow> 'k res" where
  "load_with load filename password [] =
     Inl (cloud_error LoadPrivateKeyError ''Unable to load private key from file {filename}'' [(''filename'', PText filename)])"
| "load_with load filename password (c # cs) =
     (case load c filename password of
        Inl e \<Rightarrow> if catches [SSHException, PyValueError] e then load_with load filename password cs else Inl e
      | Inr k \<Rightarrow> Inr k)"

definition load_private_key :: "'k key_loader \<Rightarrow> string \<Rightarrow> string option \<Rightarrow> 'k res" where
  "load_private_key load filename password = load_with load filename password KEY_CLASSES"

fun load_private_keys :: "(string \<Rightarrow> bool) \<Rightarrow> 'k key_loader \<Rightarrow> string option \<Rightarrow> string list \<Rightarrow> 'k list res" where
  "load_private_keys exists load password [] = Inr []"
| "load_private_keys exists load password (f # fs) =
     (if exists f
      then (case load_private_key load f password of
              Inl e \<Rightarrow> if isinstance_exn e LoadPrivateKeyError then load_private_keys exists load password fs else Inl e
            | Inr k \<Rightarrow> map_sum id (\<lambda>ks. k # ks) (load_private_keys exists load password fs))
      else load_private_keys exists load password fs)"

section \<open>The socket through a proxy\<close>

text \<open>\<open>subprocess.list2cmdline\<close>: \<open>n\<close> is the number of backslashes that wait.\<close>

fun cmdline_chars :: "nat \<Rightarrow> string \<Rightarrow> string \<times> nat" where
  "cmdline_chars n [] = ([], n)"
| "cmdline_chars n (c # cs) =
     (if c = CHR 0x5C then cmdline_chars (Suc n) cs
      else if c = CHR 0x22 then (case cmdline_chars 0 cs of (t, m) \<Rightarrow> (replicate (2 * n) (CHR 0x5C) @ [CHR 0x5C, CHR 0x22] @ t, m))
      else (case cmdline_chars 0 cs of (t, m) \<Rightarrow> (replicate n (CHR 0x5C) @ [c] @ t, m)))"

definition cmdline_arg :: "string \<Rightarrow> string" where
  "cmdline_arg arg =
     (let quote = CHR '' '' \<in> set arg \<or> CHR 0x09 \<in> set arg \<or> arg = [] in
      case cmdline_chars 0 arg of (t, m) \<Rightarrow>
        (if quote then [CHR 0x22] else []) @ t @ replicate m (CHR 0x5C) @
        (if quote then replicate m (CHR 0x5C) @ [CHR 0x22] else []))"

definition list2cmdline :: "string list \<Rightarrow> string" where
  "list2cmdline args = str_join '' '' (map cmdline_arg args)"

datatype proxy_command = NoCommand | CommandText string | CommandWords "string list"

definition command_given :: "proxy_command \<Rightarrow> bool" where
  "command_given c = (case c of NoCommand \<Rightarrow> False | CommandText t \<Rightarrow> t \<noteq> [] | CommandWords ws \<Rightarrow> ws \<noteq> [])"

datatype ('f, 'c) proxy_client = NoClient | FixtureClient 'f | ParamikoClient 'c | OtherClient

text \<open>\<open>pk_open\<close>: a session of the transport of a client; \<open>pk_local\<close>: \<open>paramiko.ProxyCommand\<close>.\<close>

record ('w, 'f, 'c, 's) paramiko_lib =
  pk_fixture :: "'f \<Rightarrow> ('w, 'c) act"
  pk_open :: "'c \<Rightarrow> ('w, 's) act"
  pk_exec :: "'s \<Rightarrow> string \<Rightarrow> ('w, unit) act"
  pk_local :: "string \<Rightarrow> ('w, 's) act"

definition proxy_text :: "string \<Rightarrow> int option \<Rightarrow> string option \<Rightarrow> proxy_command \<Rightarrow> string res" where
  "proxy_text hostname port source command =
     (let words = (if command_given command then command
                   else CommandWords ([''nc''] @ (case source of Some (c # cs) \<Rightarrow> [''-s'', c # cs] | _ \<Rightarrow> []) @ [''{hostname!s}'', ''{port!s}'']));
          text = (case words of CommandText t \<Rightarrow> t | CommandWords ws \<Rightarrow> list2cmdline ws | NoCommand \<Rightarrow> []);
          port = (case num_or port (Some 22) of None \<Rightarrow> 22 | Some p \<Rightarrow> p)
      in if hostname = [] then Inr text
         else (case fmt_parse text of
                 Inl e \<Rightarrow> Inl e
               | Inr segs \<Rightarrow>
                   map_sum id concat (map_res (fmt_seg (\<lambda>v spec. Inr v) [(''hostname'', hostname), (''port'', str_int port)]) segs)))"

definition ssh_proxy_sock ::
  "('w, 'f, 'c, 's) paramiko_lib \<Rightarrow> string \<Rightarrow> int option \<Rightarrow> proxy_command \<Rightarrow> ('f, 'c) proxy_client \<Rightarrow> string option \<Rightarrow> ('w, 's option) act" where
  "ssh_proxy_sock P hostname port command client source =
     (if \<not> command_given command \<and> client = NoClient then ret None
      else bindA (lift_res (proxy_text hostname port source command)) (\<lambda>text.
           if client = NoClient then bindA (pk_local P text) (\<lambda>s. ret (Some s))
           else bindA (case client of
                         FixtureClient f \<Rightarrow> pk_fixture P f
                       | ParamikoClient c \<Rightarrow> ret c
                       | _ \<Rightarrow> raise_act (Exn PyTypeError ''Object is not an SSHClient'')) (\<lambda>c.
                bindA (pk_open P c) (\<lambda>s. bindA (pk_exec P s text) (\<lambda>_. ret (Some s))))))"

section \<open>Logging in\<close>

text \<open>
  \<open>lg_sock\<close> makes the socket through the proxy, \<open>lg_connect\<close> is \<open>client.connect\<close> with a socket and a
  key, \<open>lg_close\<close> closes a socket.
\<close>

record ('w, 's, 'k) login_lib =
  lg_sock :: "('w, 's option) act"
  lg_connect :: "(string \<times> cfg_value) list \<Rightarrow> 's option \<Rightarrow> 'k option \<Rightarrow> ('w, unit) act"
  lg_close :: "'s \<Rightarrow> ('w, unit) act"

text \<open>A socket is closed after every failure; an exception of that does not count.\<close>

definition close_sock :: "('w, 's, 'k) login_lib \<Rightarrow> 's option \<Rightarrow> ('w, unit) act" where
  "close_sock L sock =
     (case sock of
        None \<Rightarrow> ret ()
      | Some s \<Rightarrow> try_except (lg_close L s) (\<lambda>e. isinstance_exn e PyException) (\<lambda>e. ret ()))"

text \<open>One attempt: every key, then none; \<open>failed\<close> is the last refusal.\<close>

fun try_keys ::
  "('w, 's, 'k) login_lib \<Rightarrow> (string \<times> cfg_value) list \<Rightarrow> retry_attempt \<Rightarrow> 'k option list \<Rightarrow> exn option \<Rightarrow> ('w, 's option turn) act" where
  "try_keys L params a [] failed = (case failed of None \<Rightarrow> ret Next | Some e \<Rightarrow> raise_act e)"
| "try_keys L params a (k # ks) failed =
     bindA (lg_sock L) (\<lambda>sock w.
       (case lg_connect L params sock k w of
          (Inr _, w1) \<Rightarrow> (Inr (Done sock), w1)
        | (Inl e, w1) \<Rightarrow>
            if isinstance_exn e AuthenticationException
            then bindA (close_sock L sock) (\<lambda>_. try_keys L params a ks (Some e)) w1
            else if isinstance_exn e PyException
            then (case check_limits (Some e) a of
                    Inl e' \<Rightarrow> bindA (close_sock L sock) (\<lambda>_. raise_act e') w1
                  | Inr _ \<Rightarrow> bindA (close_sock L sock) (\<lambda>_. ret Next) w1)
            else bindA (close_sock L sock) (\<lambda>_. raise_act e) w1))"

text \<open>
  The parameters that are passed on to \<open>client.connect\<close>: those with a name of their own in
  \<open>ssh_connect_client\<close> are not among the others.
\<close>

definition own_names :: "string list" where
  "own_names = [''connection_interval'', ''connection_attempts'', ''connection_timeout'', ''proxy_command'', ''proxy_client'',
     ''key_filename'', ''password'']"

definition login_params :: "(string \<times> cfg_value) list \<Rightarrow> (string \<times> cfg_value) list" where
  "login_params ps = filter (\<lambda>(k, v). k \<notin> set own_names) ps"

definition cf_number :: "cfg_value \<Rightarrow> rat option" where
  "cf_number v = (case v of CfInt i \<Rightarrow> Some (of_int i) | CfFloat r \<Rightarrow> Some r | _ \<Rightarrow> None)"

definition cf_count :: "cfg_value \<Rightarrow> int option" where
  "cf_count v = (case v of CfInt i \<Rightarrow> Some i | _ \<Rightarrow> None)"

definition login_retry :: "(string \<times> cfg_value) list \<Rightarrow> retry_obj" where
  "login_retry ps =
     retry None (cf_count (cf_get ps ''connection_attempts'')) (cf_number (cf_get ps ''connection_timeout'')) None
       (cf_number (cf_get ps ''connection_interval'')) (Some 60) (Some 300) None (Some 5)"

definition ssh_connect_client ::
  "('z world_scheme, 's, 'k) login_lib \<Rightarrow> (string \<Rightarrow> bool) \<Rightarrow> 'k key_loader \<Rightarrow> (string \<times> cfg_value) list \<Rightarrow> ('z world_scheme, 's option) pact" where
  "ssh_connect_client L exists load ps =
     (case cf_get ps ''key_filename'' of
        CfTexts fs \<Rightarrow>
          bindP (liftP (lift_res (load_private_keys exists load (case cf_get ps ''password'' of CfText p \<Rightarrow> Some p | _ \<Rightarrow> None) fs))) (\<lambda>pkeys.
            retry_iter py_time py_sleep (login_retry ps) (\<lambda>a. try_keys L (login_params ps) a (map Some pkeys @ [None]) None))
      | _ \<Rightarrow> raiseP (Exn PyAssertionError []))"

section \<open>A fixture that connects\<close>

text \<open>
  \<open>SSHClientFixture.connect\<close>: \<open>setup\<close> is \<open>setup_fixture(self).client\<close>, \<open>cleanup\<close> is
  \<open>cleanup_fixture(self)\<close>.
\<close>

definition close_client :: "('w, unit) act \<Rightarrow> ('w, unit) act" where
  "close_client cleanup = try_except cleanup (\<lambda>e. isinstance_exn e PyException) (\<lambda>e. ret ())"

definition connect_turn :: "('w, 'c) pact \<Rightarrow> ('w, unit) act \<Rightarrow> retry_attempt \<Rightarrow> ('w, 'c turn) pact" where
  "connect_turn setup cleanup a =
     catchP (bindP setup (\<lambda>c. retP (Done c))) (\<lambda>e. isinstance_exn e PyException)
       (\<lambda>e. bindP (liftP (lift_res (check_limits (Some e) a))) (\<lambda>_. bindP (liftP (close_client cleanup)) (\<lambda>_. retP Next)))"

definition connect_client ::
  "schema \<Rightarrow> ('z world_scheme \<times> ssh_fixture_sources, 'c) pact \<Rightarrow> ('z world_scheme \<times> ssh_fixture_sources, unit) act \<Rightarrow>
   int option \<Rightarrow> rat option \<Rightarrow> rat option \<Rightarrow> (string \<times> cfg_value) list \<Rightarrow> ('z world_scheme \<times> ssh_fixture_sources, 'c) pact" where
  "connect_client sch setup cleanup retry_count retry_timeout retry_interval ssh_parameters =
     use_connect_parameters sch ssh_parameters
       (retry_piter (\<lambda>s. py_time (fst s)) (\<lambda>d s. (py_sleep d (fst s), snd s))
          (retry None retry_count retry_timeout None retry_interval None None None None) (connect_turn setup cleanup))"

section \<open>The keys that are loaded\<close>

definition first_key :: "'k key_loader \<Rightarrow> string option \<Rightarrow> string \<Rightarrow> 'k list" where
  "first_key load password f =
     take 1 (concat (map (\<lambda>c. case load c f password of Inl e \<Rightarrow> [] | Inr k \<Rightarrow> [k]) KEY_CLASSES))"

lemma load_error_class: "exn_class (cloud_error LoadPrivateKeyError ''Unable to load private key from file {filename}''
    [(''filename'', PText f)]) = LoadPrivateKeyError"
proof (rule cloud_error_class)
  show "template_ok ''Unable to load private key from file {filename}'' (map fst [(''filename'', PText f)])"
    unfolding list.map fst_conv by code_simp
qed

lemma load_with_first:
  assumes "\<And>c e. load c f p = Inl e \<Longrightarrow> catches [SSHException, PyValueError] e"
  shows "(case load_with load f p cs of Inl e \<Rightarrow> isinstance_exn e LoadPrivateKeyError | Inr k \<Rightarrow> True) \<and>
    take 1 (concat (map (\<lambda>c. case load c f p of Inl e \<Rightarrow> [] | Inr k \<Rightarrow> [k]) cs)) =
      (case load_with load f p cs of Inl e \<Rightarrow> [] | Inr k \<Rightarrow> [k])"
proof (induction cs)
  case Nil
  have "issubclass LoadPrivateKeyError LoadPrivateKeyError" by (simp add: issubclass_def LoadPrivateKeyError_def)
  then show ?case by (simp add: isinstance_exn_def load_error_class)
next
  case (Cons c cs)
  show ?case
  proof (cases "load c f p")
    case (Inl e)
    with assms[OF Inl] Cons show ?thesis by simp
  qed simp
qed

text \<open>
  When files only fail to be read with the errors of a wrong key, the keys are those
  of the files that exist, in order, each read by the first class of keys that can.
\<close>
theorem loaded_keys:
  assumes "\<And>c f e. load c f p = Inl e \<Longrightarrow> catches [SSHException, PyValueError] e"
  shows "load_private_keys exists load p fs = Inr (concat (map (first_key load p) (filter exists fs)))"
proof (induction fs)
  case (Cons f fs)
  note first = load_with_first[of load f p KEY_CLASSES, OF assms]
  show ?case
  proof (cases "load_with load f p KEY_CLASSES")
    case (Inl e)
    with first Cons show ?thesis by (simp add: load_private_key_def first_key_def)
  next
    case (Inr k)
    with first Cons show ?thesis by (simp add: load_private_key_def first_key_def)
  qed
qed simp

lemma loaded_length: "load_private_keys exists load p fs = Inr ks \<Longrightarrow> length ks \<le> length fs"
  by (induction fs arbitrary: ks) (auto simp: map_sum_eq_Inr split: if_splits sum.splits intro: le_SucI)

section \<open>No socket is left open\<close>

text \<open>\<open>opens\<close> is the set of the sockets that were handed out and not closed.\<close>

definition tracks_socks :: "('z world_scheme, 's, 'k) login_lib \<Rightarrow> ('z world_scheme \<Rightarrow> 's set) \<Rightarrow> bool" where
  "tracks_socks L opens \<longleftrightarrow>
     (\<forall>w s w'. lg_sock L w = (Inr (Some s), w') \<longrightarrow> opens w' \<subseteq> insert s (opens w)) \<and>
     (\<forall>w w'. lg_sock L w = (Inr None, w') \<longrightarrow> opens w' \<subseteq> opens w) \<and>
     (\<forall>w e w'. lg_sock L w = (Inl e, w') \<longrightarrow> opens w' \<subseteq> opens w) \<and>
     (\<forall>ps s k w. opens (snd (lg_connect L ps s k w)) \<subseteq> opens w) \<and>
     (\<forall>s w. opens (snd (lg_close L s w)) \<subseteq> opens w - {s}) \<and> (\<forall>d w. opens (py_sleep d w) = opens w)"

definition sock_of :: "'s option turn res \<Rightarrow> 's set" where
  "sock_of r = (case r of Inr (Done (Some s)) \<Rightarrow> {s} | _ \<Rightarrow> {})"

lemma close_sock_opens:
  assumes "tracks_socks L opens" and "close_sock L sock w = (r, w')"
  shows "opens w' \<subseteq> opens w - set_option sock"
proof (cases sock)
  case (Some s)
  obtain q u where q: "lg_close L s w = (q, u)" by fastforce
  have "opens u \<subseteq> opens w - {s}" using assms(1) q by (auto simp: tracks_socks_def dest!: spec[of _ s] spec[of _ w])
  moreover have "w' = u" using assms(2) q Some by (auto simp: close_sock_def try_except_def ret_def split: sum.splits if_splits)
  ultimately show ?thesis using Some by simp
qed (use assms(2) in \<open>simp add: close_sock_def ret_def\<close>)

lemma sock_opens:
  assumes "tracks_socks L opens" and "lg_sock L w = (Inr sock, w')"
  shows "opens w' \<subseteq> opens w \<union> set_option sock"
  using assms by (cases sock) (auto simp: tracks_socks_def)

lemma close_then:
  assumes "tracks_socks L opens" and "lg_sock L w = (Inr sock, w1)" and "lg_connect L ps sock k w1 = (q, w2)"
    and "close_sock L sock w2 = (c, w3)"
  shows "opens w3 \<subseteq> opens w"
proof -
  have "opens w2 \<subseteq> opens w1" using assms(1,3) unfolding tracks_socks_def by (metis snd_conv)
  with sock_opens[OF assms(1,2)] close_sock_opens[OF assms(1,4)] show ?thesis by blast
qed

lemma try_keys_opens:
  assumes "tracks_socks L opens"
  shows "try_keys L ps a ks failed w = (r, w') \<Longrightarrow> opens w' \<subseteq> opens w \<union> sock_of r"
proof (induction ks arbitrary: failed w)
  case Nil
  then show ?case by (auto simp: ret_def raise_act_def split: option.splits)
next
  case (Cons k ks)
  obtain q w1 where q: "lg_sock L w = (q, w1)" by fastforce
  show ?case
  proof (cases q)
    case (Inl e)
    with assms q have "opens w1 \<subseteq> opens w" by (simp add: tracks_socks_def)
    with Cons.prems q Inl show ?thesis by (auto simp: bindA_def)
  next
    case sock: (Inr sock)
    obtain x w2 where x: "lg_connect L ps sock k w1 = (x, w2)" by fastforce
    obtain c w3 where c: "close_sock L sock w2 = (c, w3)" by fastforce
    note closed = close_then[OF assms q[unfolded sock] x c]
    show ?thesis
    proof (cases x)
      case (Inr u)
      have "opens w2 \<subseteq> opens w1" using assms x unfolding tracks_socks_def by (metis snd_conv)
      with sock_opens[OF assms q[unfolded sock]] Cons.prems q sock x Inr show ?thesis
        by (cases sock) (auto simp: bindA_def sock_of_def)
    next
      case (Inl e)
      show ?thesis
      proof (cases c)
        case c': (Inl e')
        with closed Cons.prems q sock x Inl c show ?thesis
          by (auto simp: bindA_def split: if_splits sum.splits)
      next
        case c': (Inr u)
        consider "try_keys L ps a ks (Some e) w3 = (r, w')" | "w' = w3"
          using Cons.prems q sock x Inl c c' by (auto simp: bindA_def raise_act_def ret_def split: if_splits sum.splits)
        then show ?thesis
        proof cases
          case 1
          from Cons.IH[OF 1] closed show ?thesis by blast
        qed (use closed in auto)
      qed
    qed
  qed
qed

lemma iter_opens:
  assumes "tracks_socks L opens" and "retry_iter py_time py_sleep R (\<lambda>a. try_keys L ps a ks None) w = Some (r, w')"
  shows "opens w' \<subseteq> opens w \<union> (case r of Inr (Some s) \<Rightarrow> {s} | _ \<Rightarrow> {})"
  using assms(2)
proof (rule iter_invariant[where I = "\<lambda>n s. opens s \<subseteq> opens w"])
  show "opens (py_sleep d s) \<subseteq> opens w" if "opens s \<subseteq> opens w" for d s
    using assms(1) that by (simp add: tracks_socks_def)
qed (auto dest!: try_keys_opens[OF assms(1)] simp: sock_of_def split: option.splits)

text \<open>Logging in raises before it starts, or is the loop over the keys that were loaded.\<close>

lemma ssh_connect_result:
  assumes "ssh_connect_client L exists load ps w = Some (r, w')"
  shows "(\<exists>e. r = Inl e \<and> w' = w) \<or>
    (\<exists>fs password keys. cf_get ps ''key_filename'' = CfTexts fs \<and> load_private_keys exists load password fs = Inr keys \<and>
       retry_iter py_time py_sleep (login_retry ps) (\<lambda>a. try_keys L (login_params ps) a (map Some keys @ [None]) None) w = Some (r, w'))"
proof (cases "\<exists>fs. cf_get ps ''key_filename'' = CfTexts fs")
  case True
  then obtain fs where fs: "cf_get ps ''key_filename'' = CfTexts fs" by blast
  let ?pw = "case cf_get ps ''password'' of CfText p \<Rightarrow> Some p | _ \<Rightarrow> None"
  show ?thesis
    by (cases "load_private_keys exists load ?pw fs")
      (use assms fs in \<open>auto simp: ssh_connect_client_def bindP_def liftP_def lift_res_def\<close>)
next
  case False
  with assms show ?thesis by (auto simp: ssh_connect_client_def raiseP_def split: cfg_value.splits)
qed

text \<open>
  However logging in ends, every socket through the proxy that was made for it is
  closed, except the one that is returned with the client.
\<close>
theorem login_closes:
  assumes "ssh_connect_client L exists load ps w = Some (r, w')" and "tracks_socks L opens"
  shows "opens w' \<subseteq> opens w \<union> (case r of Inr (Some s) \<Rightarrow> {s} | _ \<Rightarrow> {})"
  using ssh_connect_result[OF assms(1)]
proof (elim disjE exE conjE)
  fix fs password keys
  assume "retry_iter py_time py_sleep (login_retry ps) (\<lambda>a. try_keys L (login_params ps) a (map Some keys @ [None]) None) w = Some (r, w')"
  then show ?thesis by (rule iter_opens[OF assms(2)])
qed simp

section \<open>Limits\<close>

text \<open>
  Logging in ends, whatever the servers answer: when no number of attempts is given
  there are at most sixty.
\<close>
theorem login_ends: "ends (ssh_connect_client L exists load ps)"
proof -
  have "\<exists>c. rt_count (login_retry ps) = Some c" by (auto simp: login_retry_def retry_def mk_retry_def opt_or_def Let_def split: option.splits)
  then obtain c where c: "rt_count (login_retry ps) = Some c" by blast
  have "ends (retry_iter py_time py_sleep (login_retry ps) (\<lambda>a. try_keys L (login_params ps) a ks None))" for ks
    unfolding retry_iter_eq by (rule retry_count_ends[OF c]) simp
  then show ?thesis unfolding ssh_connect_client_def by (auto split: cfg_value.split intro: ends_bind)
qed

text \<open>\<open>tries\<close> counts the calls of \<open>client.connect\<close>.\<close>

definition counts_tries :: "('z world_scheme, 's, 'k) login_lib \<Rightarrow> ('z world_scheme \<Rightarrow> nat) \<Rightarrow> bool" where
  "counts_tries L tries \<longleftrightarrow>
     (\<forall>ps s k w. tries (snd (lg_connect L ps s k w)) \<le> Suc (tries w)) \<and> (\<forall>w. tries (snd (lg_sock L w)) = tries w) \<and>
     (\<forall>s w. tries (snd (lg_close L s w)) = tries w) \<and> (\<forall>d w. tries (py_sleep d w) = tries w)"

lemma close_sock_tries: "counts_tries L tries \<Longrightarrow> close_sock L sock w = (r, w') \<Longrightarrow> tries w' = tries w"
proof (cases sock)
  case (Some s)
  assume "counts_tries L tries" "close_sock L sock w = (r, w')"
  then show ?thesis using Some
    by (auto simp: close_sock_def try_except_def ret_def counts_tries_def split: sum.splits prod.splits if_splits) (metis snd_conv)+
qed (simp add: close_sock_def ret_def)

lemma try_keys_tries:
  assumes c: "counts_tries L tries"
  shows "try_keys L ps a ks failed w = (r, w') \<Longrightarrow> tries w' \<le> tries w + length ks"
proof (induction ks arbitrary: failed w)
  case Nil
  then show ?case by (auto simp: ret_def raise_act_def split: option.splits)
next
  case (Cons k ks)
  obtain q w1 where q: "lg_sock L w = (q, w1)" by fastforce
  then have w1: "tries w1 = tries w" using c unfolding counts_tries_def by (metis snd_conv)
  show ?case
  proof (cases q)
    case (Inl e)
    with Cons.prems q w1 show ?thesis by (auto simp: bindA_def)
  next
    case sock: (Inr sock)
    obtain x w2 where x: "lg_connect L ps sock k w1 = (x, w2)" by fastforce
    have w2: "tries w2 \<le> Suc (tries w1)" using c x unfolding counts_tries_def by (metis snd_conv)
    obtain cl w3 where cl: "close_sock L sock w2 = (cl, w3)" by fastforce
    have w3: "tries w3 = tries w2" by (rule close_sock_tries[OF c cl])
    consider "w' = w2" | "w' = w3" | e where "try_keys L ps a ks (Some e) w3 = (r, w')"
      using Cons.prems q sock x cl by (cases cl) (auto simp: bindA_def raise_act_def ret_def split: if_splits sum.splits)
    then show ?thesis
    proof cases
      case 3
      from Cons.IH[OF 3] w1 w2 w3 show ?thesis by simp
    qed (use w1 w2 w3 in simp_all)
  qed
qed

lemma iter_tries:
  assumes c: "counts_tries L tries" and R: "rt_count R = Some (int m)" and m: "0 < m"
    and "retry_iter py_time py_sleep R (\<lambda>a. try_keys L ps a ks None) w = Some (r, w')"
  shows "tries w' \<le> tries w + m * length ks"
  using assms(4)
proof (rule iter_invariant[where I = "\<lambda>n s. 1 \<le> n \<and> n \<le> int m \<and> tries s \<le> tries w + (nat n - 1) * length ks"])
  have step: "tries t \<le> tries w + nat n * length ks"
    if "1 \<le> n \<and> n \<le> int m \<and> tries s \<le> tries w + (nat n - 1) * length ks" "try_keys L ps a ks None s = (q, t)" for n s a q t
  proof -
    have "nat n = Suc (nat n - 1)" using that(1) by simp
    then have "nat n * length ks = length ks + (nat n - 1) * length ks" by (metis mult_Suc)
    with that(1) try_keys_tries[OF c that(2)] show ?thesis by linarith
  qed
  have bound: "tries w + nat n * length ks \<le> tries w + m * length ks" if "n \<le> int m" for n
  proof -
    from that have "nat n \<le> m" by (simp add: nat_le_iff)
    then show ?thesis by (rule add_left_mono[OF mult_le_mono1])
  qed
  show "tries t \<le> tries w + m * length ks"
    if "1 \<le> n \<and> n \<le> int m \<and> tries s \<le> tries w + (nat n - 1) * length ks" "try_keys L ps (retry_number R st n el) ks None s = (q, t)"
    for st n el s q t
    using step[OF that] bound[of n] that(1) by linarith
  then show "tries t \<le> tries w + m * length ks"
    if "1 \<le> n \<and> n \<le> int m \<and> tries s \<le> tries w + (nat n - 1) * length ks" "try_keys L ps (retry_number R st n el) ks None s = (q, t)"
    for st n el s q t
    using that by blast
  then show "tries t \<le> tries w + m * length ks"
    if "1 \<le> n \<and> n \<le> int m \<and> tries s \<le> tries w + (nat n - 1) * length ks" "try_keys L ps (retry_number R st n el) ks None s = (q, t)"
    for st n el s q t
    using that by blast
  show "1 \<le> n + 1 \<and> n + 1 \<le> int m \<and> tries t \<le> tries w + (nat (n + 1) - 1) * length ks"
    if "1 \<le> n \<and> n \<le> int m \<and> tries s \<le> tries w + (nat n - 1) * length ks"
      "try_keys L ps (retry_number R st n el) ks None s = (Inr Next, t)" "check_limits None (retry_number R st n el) = Inr ()"
    for st n el s t
    using step[OF that(1,2)] check_limits_count[OF that(3) R] that(1) by (simp add: nat_add_distrib)
qed (use m c in \<open>auto simp: counts_tries_def\<close>)

text \<open>
  A server is asked to log in at most once in each attempt with each key that was
  loaded, and once without a key.
\<close>
theorem login_bounded:
  assumes "ssh_connect_client L exists load ps w = Some (r, w')" and "counts_tries L tries"
    and "rt_count (login_retry ps) = Some (int m)" and "0 < m" and "cf_get ps ''key_filename'' = CfTexts fs"
  shows "tries w' \<le> tries w + m * (length fs + 1)"
  using ssh_connect_result[OF assms(1)]
proof (elim disjE exE conjE)
  fix gs password keys
  assume gs: "cf_get ps ''key_filename'' = CfTexts gs" "load_private_keys exists load password gs = Inr keys"
    and loop: "retry_iter py_time py_sleep (login_retry ps) (\<lambda>a. try_keys L (login_params ps) a (map Some keys @ [None]) None) w = Some (r, w')"
  have "length keys \<le> length fs" using loaded_length[OF gs(2)] gs(1) assms(5) by simp
  then have "m * (length keys + 1) \<le> m * (length fs + 1)" by (intro mult_le_mono2) simp
  moreover have "tries w' \<le> tries w + m * (length keys + 1)" using iter_tries[OF assms(2-4) loop] by simp
  ultimately show ?thesis by linarith
qed simp

text \<open>
  The password of the parameters is never sent to a server: it only reads the files
  of the keys.
\<close>
theorem password_not_sent: "''password'' \<notin> fst ` set (login_params ps) \<and>
    try_keys L (login_params ps) = try_keys L (login_params (filter (\<lambda>(k, v). k \<noteq> ''password'') ps))"
proof -
  have "login_params (filter (\<lambda>(k, v). k \<noteq> ''password'') ps) = login_params ps"
    unfolding login_params_def filter_filter by (rule filter_cong) (auto simp: own_names_def)
  then show ?thesis by (auto simp: login_params_def own_names_def)
qed

lemma use_parameters_ends: "ends body \<Longrightarrow> ends (use_connect_parameters sch kwargs body)"
  unfolding ends_def
proof (intro allI)
  fix s assume "\<forall>s. body s \<noteq> None"
  then have "\<exists>r t. body u = Some (r, t)" for u by fastforce
  then show "use_connect_parameters sch kwargs body s \<noteq> None"
    unfolding use_connect_parameters_def Let_def by (cases "kwargs = []") (auto split: sum.splits option.splits prod.splits; metis option.distinct(1))+
qed

text \<open>
  Connecting a fixture ends when setting it up does, for any number of retries that
  is given: it was tried at most as often as that, and its own parameters are kept.
\<close>
theorem connect_ends:
  assumes "ends setup" and "n \<noteq> 0"
  shows "\<exists>r t. connect_client sch setup cleanup (Some n) timeout interval kwargs s = Some (r, t)"
proof -
  let ?R = "retry None (Some n) timeout None interval None None None None"
  have "rt_count ?R = Some n" using assms(2) by (simp add: retry_def mk_retry_def Let_def opt_or_def)
  moreover have "ends (connect_turn setup cleanup a)" for a
    unfolding connect_turn_def by (intro ends_catch ends_bind assms(1)) auto
  ultimately have "ends (retry_piter (\<lambda>s. py_time (fst s)) (\<lambda>d s. (py_sleep d (fst s), snd s)) ?R (connect_turn setup cleanup))"
    by (rule retry_count_ends)
  then have "ends (connect_client sch setup cleanup (Some n) timeout interval kwargs)"
    unfolding connect_client_def by (rule use_parameters_ends)
  then show ?thesis unfolding ends_def by fastforce
qed

section \<open>Examples\<close>

text \<open>A server that refuses the first key and takes the second; a file with one RSA key each.\<close>

definition demo_login :: "(world, nat, string) login_lib" where
  "demo_login = \<lparr>lg_sock = ret (Some 7),
     lg_connect = (\<lambda>ps s k. if k = Some ''k1'' then raise_act (Exn AuthenticationException ''refused'') else ret ()), lg_close = (\<lambda>s. ret ())\<rparr>"

definition demo_loader :: "string key_loader" where
  "demo_loader c f p = (if c = ECDSAKey then Inr f else Raise SSHException ''not a valid key file'')"

lemma loaded_keys_witness: "load_private_keys (\<lambda>f. f \<noteq> ''none'') demo_loader None [''k1'', ''none'', ''k2''] = Inr [''k1'', ''k2'']"
proof -
  have soft: "catches [SSHException, PyValueError] e" if "demo_loader c f p = Inl e" for c f p e
    using that by (auto simp: demo_loader_def catches_def isinstance_exn_def issubclass_def SSHException_def split: if_splits)
  show ?thesis
    by (subst loaded_keys[OF soft]) (simp_all add: first_key_def demo_loader_def KEY_CLASSES_def)
qed

lemma demo_connect: "ssh_connect_client demo_login (\<lambda>f. True) demo_loader [(''key_filename'', CfTexts [''k1'', ''k2''])] \<lparr>wtime = 0\<rparr> =
    Some (Inr (Some 7), \<lparr>wtime = 0\<rparr>)"
proof -
  have keys: "load_private_keys (\<lambda>f. True) demo_loader None [''k1'', ''k2''] = Inr [''k1'', ''k2'']" by code_simp
  have first: "try_keys demo_login (login_params [(''key_filename'', CfTexts [''k1'', ''k2''])]) a [Some ''k1'', Some ''k2'', None] None \<lparr>wtime = 0\<rparr> =
      (Inr (Done (Some 7)), \<lparr>wtime = 0\<rparr>)" for a
    by (simp add: demo_login_def bindA_def ret_def raise_act_def isinstance_exn_def issubclass_def AuthenticationException_def
        close_sock_def try_except_def)
  have "retry_iter py_time py_sleep R (\<lambda>a. try_keys demo_login (login_params [(''key_filename'', CfTexts [''k1'', ''k2''])]) a
      [Some ''k1'', Some ''k2'', None] None) \<lparr>wtime = 0\<rparr> = Some (Inr (Some 7), \<lparr>wtime = 0\<rparr>)" for R
    by (rule retry_iter_first) (rule first)
  then show ?thesis
    by (simp add: ssh_connect_client_def cf_get_def keys bindP_def liftP_def lift_res_def
        del: try_keys.simps load_private_keys.simps)
qed

lemma login_closes_witness: "\<exists>w r. ssh_connect_client demo_login (\<lambda>f. True) demo_loader [(''key_filename'', CfTexts [''k1'', ''k2''])] \<lparr>wtime = 0\<rparr> = Some (r, w) \<and>
    {7} \<subseteq> {} \<union> (case r of Inr (Some s) \<Rightarrow> {s} | _ \<Rightarrow> {})"
proof -
  let ?opens = "\<lambda>w :: world. {} :: nat set"
  have "tracks_socks demo_login ?opens" by (simp add: tracks_socks_def)
  from login_closes[OF demo_connect this] demo_connect show ?thesis by auto
qed

lemma login_bounded_witness: "(0 :: nat) \<le> 0 + 60 * (length [''k1'', ''k2''] + 1)"
proof -
  have "counts_tries demo_login (\<lambda>w. 0)" by (simp add: counts_tries_def)
  moreover have "rt_count (login_retry [(''key_filename'', CfTexts [''k1'', ''k2''])]) = Some (int 60)"
    by (simp add: login_retry_def retry_def mk_retry_def Let_def cf_get_def cf_count_def)
  ultimately show ?thesis
    using login_bounded[OF demo_connect, of "\<lambda>w. 0" 60 "[''k1'', ''k2'']"] by (simp add: cf_get_def)
qed

lemma connect_ends_witness:
  "\<exists>r t. connect_client (SSH_CONNECT_PARAMETERS demo_ssh (\<lambda>t. None)) (raiseP (Exn SSHException ''down'')) (ret ()) (Some 2) None None [] (\<lparr>wtime = 0\<rparr> :: world, demo_sources) =
     Some (r, t)"
  by (rule connect_ends) simp_all

end
