(* ===== verification/Ssh_Manager.thy ===== *)
theory Ssh_Manager
  imports Ssh_Parameters
begin

text \<open>
  tobiko/shell/ssh/_client.py, the manager of SSH clients: one fixture for each host name, port,
  user and proxy, made after the fixture of its proxy. The manager marks the fixture that it is
  making, and finds by the mark a host that is reached through itself.
\<close>

section \<open>Clients\<close>

datatype ssh_fixture = SSHFixture (fx_host: "string option") (fx_params: "(string \<times> cfg_value) list")
  (fx_proxy: "ssh_fixture option") (fx_host_config: "host_config option")

datatype proxy_arg = NoProxy | ProxyName string | ProxyClient ssh_fixture

record client_args =
  ca_host :: string
  ca_hostname :: cfg_value
  ca_port :: cfg_value
  ca_username :: cfg_value
  ca_proxy_jump :: proxy_arg
  ca_host_config :: "host_config option"
  ca_proxy_client :: "ssh_fixture option"
  ca_params :: "(string \<times> cfg_value) list"

type_synonym ssh_host_key = "cfg_value \<times> cfg_value \<times> cfg_value \<times> proxy_arg"

datatype client_entry = UNDEFINED_CLIENT | Client ssh_fixture

type_synonym ssh_clients = "ssh_host_key \<rightharpoonup> client_entry"

definition host_args :: "string \<Rightarrow> client_args" where
  "host_args host = \<lparr>ca_host = host, ca_hostname = CfNone, ca_port = CfNone, ca_username = CfNone, ca_proxy_jump = NoProxy,
     ca_host_config = None, ca_proxy_client = None, ca_params = []\<rparr>"

text \<open>Host name, port and user: the argument, the given configuration, the configuration files.\<close>

definition client_names :: "ssh_env \<Rightarrow> client_args \<Rightarrow> (cfg_value \<times> cfg_value \<times> cfg_value) res" where
  "client_names V a =
     (let given = (\<lambda>v get. case ca_host_config a of None \<Rightarrow> v | Some c \<Rightarrow> cf_or v (get c))
      in map_sum id (\<lambda>g. (cf_or (given (ca_hostname a) sc_hostname) (sc_hostname g), cf_or (given (ca_port a) (sc_port V)) (sc_port V g),
                          cf_or (given (ca_username a) (sc_username V)) (sc_username V g)))
           (ssh_host_config V (Some (ca_host a))))"

definition ssh_client_key :: "ssh_env \<Rightarrow> client_args \<Rightarrow> ssh_host_key res" where
  "ssh_client_key V a = map_sum id (\<lambda>(h, p, u). (h, p, u, ca_proxy_jump a)) (client_names V a)"

text \<open>The proxy: a fixture that is known, or the name of a host to get a fixture of.\<close>

datatype proxy_step = Known "ssh_fixture option" | Ask string

definition proxy_step_of :: "ssh_env \<Rightarrow> client_args \<Rightarrow> proxy_step res" where
  "proxy_step_of V a =
     (case ca_proxy_client a of
        Some f \<Rightarrow> Inr (Known (Some f))
      | None \<Rightarrow>
          (case ca_proxy_jump a of
             ProxyClient f \<Rightarrow> Inr (Known (Some f))
           | _ \<Rightarrow>
               (case ssh_host_config V (Some (ca_host a)) of
                  Inl e \<Rightarrow> Inl e
                | Inr c \<Rightarrow> map_sum id (\<lambda>p. case p of None \<Rightarrow> Known None | Some n \<Rightarrow> if n = [] then Known None else Ask n)
                             (sc_proxy_jump V c))))"

text \<open>\<open>SSHClientFixture(...)\<close>: its initial parameters are checked by the schema.\<close>

definition client_kwargs :: "ssh_host_key \<Rightarrow> client_args \<Rightarrow> (string \<times> cfg_value) list" where
  "client_kwargs key a = (case key of (h, p, u, _) \<Rightarrow> [(''hostname'', h), (''port'', p), (''username'', u)] @ ca_params a)"

definition new_fixture :: "schema \<Rightarrow> ssh_host_key \<Rightarrow> client_args \<Rightarrow> ssh_fixture option \<Rightarrow> ssh_fixture res" where
  "new_fixture sch key a proxy =
     map_sum id (\<lambda>ps. SSHFixture (if ca_host a = [] then None else Some (ca_host a)) ps proxy (ca_host_config a))
       (gather_kwargs sch (client_kwargs key a))"

definition put_ssh_fixture :: "schema \<Rightarrow> ssh_host_key \<Rightarrow> client_args \<Rightarrow> ssh_fixture option \<Rightarrow> ssh_clients \<Rightarrow> ssh_fixture res \<times> ssh_clients" where
  "put_ssh_fixture sch key a proxy s =
     (case new_fixture sch key a proxy of Inl e \<Rightarrow> (Inl e, s) | Inr f \<Rightarrow> (Inr f, s(key \<mapsto> Client f)))"

text \<open>\<open>V\<close> is read from the files of the call, \<open>V0\<close> from the default ones, which proxies are looked up in.\<close>

partial_function (option) get_ssh_client ::
  "schema \<Rightarrow> ssh_env \<Rightarrow> ssh_env \<Rightarrow> client_args \<Rightarrow> ssh_clients \<Rightarrow> (ssh_fixture res \<times> ssh_clients) option" where
  "get_ssh_client sch V0 V a s =
     (case ssh_client_key V a of
        Inl e \<Rightarrow> Some (Inl e, s)
      | Inr key \<Rightarrow>
          (case s key of
             Some (Client f) \<Rightarrow> Some (Inr f, s)
           | Some UNDEFINED_CLIENT \<Rightarrow> Some (Raise PyRuntimeError ''Recursive SSH proxy client definition'', s)
           | None \<Rightarrow>
               (case proxy_step_of V a of
                  Inl e \<Rightarrow> Some (Inl e, s(key \<mapsto> UNDEFINED_CLIENT))
                | Inr (Known p) \<Rightarrow> Some (put_ssh_fixture sch key a p (s(key \<mapsto> UNDEFINED_CLIENT)))
                | Inr (Ask n) \<Rightarrow>
                    Option.bind (get_ssh_client sch V0 V0 (host_args n) (s(key \<mapsto> UNDEFINED_CLIENT)))
                      (\<lambda>(r, t). case r of Inl e \<Rightarrow> Some (Inl e, t) | Inr p \<Rightarrow> Some (put_ssh_fixture sch key a (Some p) t)))))"

definition ssh_proxy_client ::
  "schema \<Rightarrow> ssh_env \<Rightarrow> ssh_env \<Rightarrow> host_config option \<Rightarrow> string option \<Rightarrow> ssh_clients \<Rightarrow> (ssh_fixture option res \<times> ssh_clients) option" where
  "ssh_proxy_client sch V0 V hc host s =
     (case (case hc of Some c \<Rightarrow> Inr c | None \<Rightarrow> ssh_host_config V host) of
        Inl e \<Rightarrow> Some (Inl e, s)
      | Inr c \<Rightarrow>
          (case sc_proxy_jump V c of
             Inl e \<Rightarrow> Some (Inl e, s)
           | Inr None \<Rightarrow> Some (Inr None, s)
           | Inr (Some n) \<Rightarrow>
               if n = [] then Some (Inr None, s)
               else map_option (\<lambda>(r, t). (map_sum id Some r, t)) (get_ssh_client sch V0 V0 (host_args n) s)))"

text \<open>The argument \<open>ssh_client\<close> of the shell functions: None is the default proxy, False is none.\<close>

datatype ssh_client_arg = SSHDefault | SSHNone | SSHGiven ssh_fixture | SSHOther

definition ssh_client_fixture ::
  "schema \<Rightarrow> ssh_env \<Rightarrow> ssh_client_arg \<Rightarrow> ssh_clients \<Rightarrow> (ssh_fixture option res \<times> ssh_clients) option" where
  "ssh_client_fixture sch V0 obj s =
     (case obj of
        SSHDefault \<Rightarrow> ssh_proxy_client sch V0 V0 None None s
      | SSHNone \<Rightarrow> Some (Inr None, s)
      | SSHGiven f \<Rightarrow> Some (Inr (Some f), s)
      | SSHOther \<Rightarrow> Some (Raise PyTypeError ''Can't get an SSHClientFixture from objeck'', s))"

section \<open>Entries are kept\<close>

lemma put_fixture_result:
  assumes "put_ssh_fixture sch key a p s = (r, t)"
  shows "(\<exists>e. r = Inl e \<and> t = s) \<or> (\<exists>f. r = Inr f \<and> new_fixture sch key a p = Inr f \<and> t = s(key \<mapsto> Client f))"
proof (cases "new_fixture sch key a p")
  case (Inl e)
  with assms have "r = Inl e \<and> t = s" by (simp add: put_ssh_fixture_def)
  then show ?thesis by blast
next
  case (Inr f)
  with assms have "r = Inr f \<and> t = s(key \<mapsto> Client f)" by (simp add: put_ssh_fixture_def)
  with Inr show ?thesis by blast
qed

text \<open>The cases of a call, with the result of the call for the proxy.\<close>

lemma get_ssh_client_cases:
  assumes "get_ssh_client sch V0 V a s = Some (r, t)" and "ssh_client_key V a = Inr key"
  obtains (found) f where "s key = Some (Client f)" "r = Inr f" "t = s"
  | (marked) "s key = Some UNDEFINED_CLIENT" "r = Raise PyRuntimeError ''Recursive SSH proxy client definition''" "t = s"
  | (no_proxy) e where "s key = None" "r = Inl e" "t = s(key \<mapsto> UNDEFINED_CLIENT)"
  | (known) p where "s key = None" "put_ssh_fixture sch key a p (s(key \<mapsto> UNDEFINED_CLIENT)) = (r, t)"
  | (asked_raises) n e where "s key = None"
      "get_ssh_client sch V0 V0 (host_args n) (s(key \<mapsto> UNDEFINED_CLIENT)) = Some (Inl e, t)" "r = Inl e"
  | (asked) n p u where "s key = None"
      "get_ssh_client sch V0 V0 (host_args n) (s(key \<mapsto> UNDEFINED_CLIENT)) = Some (Inr p, u)" "put_ssh_fixture sch key a (Some p) u = (r, t)"
  using assms(1)[unfolded get_ssh_client.simps[of sch V0 V a s]] assms(2)
  by (auto split: option.splits client_entry.splits sum.splits proxy_step.splits bind_splits)

text \<open>
  A property of calls that holds for a call when it holds for the call for its proxy; \<open>s\<close> and \<open>t\<close>
  are the clients before and after.
\<close>

lemma client_induct [consumes 1, case_names raised found no_proxy put asked_raises asked]:
  assumes "get_ssh_client sch V0 V a s = Some (r, t)"
    and raised: "\<And>s e. P s (Inl e) s"
    and found: "\<And>s key f. s key = Some (Client f) \<Longrightarrow> P s (Inr f) s"
    and no_proxy: "\<And>s key e. key \<notin> dom s \<Longrightarrow> P s (Inl e) (s(key \<mapsto> UNDEFINED_CLIENT))"
    and put: "\<And>V a s key p r t. key \<notin> dom s \<Longrightarrow> ssh_client_key V a = Inr key \<Longrightarrow>
       put_ssh_fixture sch key a p (s(key \<mapsto> UNDEFINED_CLIENT)) = (r, t) \<Longrightarrow> P s r t"
    and asked_raises: "\<And>s key e t. key \<notin> dom s \<Longrightarrow> P (s(key \<mapsto> UNDEFINED_CLIENT)) (Inl e) t \<Longrightarrow> P s (Inl e) t"
    and asked: "\<And>V a s key p r t u. key \<notin> dom s \<Longrightarrow> ssh_client_key V a = Inr key \<Longrightarrow> P (s(key \<mapsto> UNDEFINED_CLIENT)) (Inr p) u \<Longrightarrow>
       put_ssh_fixture sch key a (Some p) u = (r, t) \<Longrightarrow> P s r t"
  shows "P s r t"
proof -
  have "sch' = sch \<longrightarrow> P s (fst y) (snd y)" if "get_ssh_client sch' V0 V a s = Some y" for sch' V0 V a s y
  proof (rule get_ssh_client.raw_induct[where P = "\<lambda>sch' V0 V a s y. sch' = sch \<longrightarrow> P s (fst y) (snd y)", OF _ that], goal_cases)
    case (1 self sch' V0 V a s y)
    show ?case
    proof
      assume sch: "sch' = sch"
      note ih = 1(1)[THEN mp, OF _ sch]
      show "P s (fst y) (snd y)"
      proof (cases "ssh_client_key V a")
        case (Inl e)
        with 1(2) raised show ?thesis by auto
      next
        case key: (Inr key)
        show ?thesis
        proof (cases "s key")
          case None
          then have new: "key \<notin> dom s" by (simp add: domIff)
          show ?thesis
          proof (cases "proxy_step_of V a")
            case (Inl e)
            with 1(2) key None have "y = (Inl e, s(key \<mapsto> UNDEFINED_CLIENT))" by simp
            with no_proxy[of key s e, OF new] show ?thesis by simp
          next
            case (Inr st)
            show ?thesis
            proof (cases st)
              case (Known p)
              with 1(2) key None Inr sch have "put_ssh_fixture sch key a p (s(key \<mapsto> UNDEFINED_CLIENT)) = (fst y, snd y)" by simp
              then show ?thesis by (rule put[OF new key])
            next
              case (Ask n)
              obtain q u where q: "self sch' V0 V0 (host_args n) (s(key \<mapsto> UNDEFINED_CLIENT)) = Some (q, u)"
                using 1(2) key None Inr Ask by (auto split: bind_splits)
              have "P (s(key \<mapsto> UNDEFINED_CLIENT)) q u" using ih[OF q] by simp
              show ?thesis
              proof (cases q)
                case (Inl e)
                with 1(2) key None Inr Ask q have "y = (Inl e, u)" by simp
                moreover have "P s (Inl e) u" using \<open>P _ q u\<close> unfolding Inl by (rule asked_raises[OF new])
                ultimately show ?thesis by simp
              next
                case r: (Inr f)
                with 1(2) key None Inr Ask q sch have "put_ssh_fixture sch key a (Some f) u = (fst y, snd y)" by simp
                with \<open>P _ q u\<close> show ?thesis unfolding r by (rule asked[OF new key])
              qed
            qed
          qed
        next
          case (Some x)
          with 1(2) key raised found[of s key] show ?thesis by (cases x) auto
        qed
      qed
    qed
  qed
  from this[OF assms(1)] show ?thesis by simp
qed

lemma put_keeps: "put_ssh_fixture sch key a p u = (r, t) \<Longrightarrow> key \<notin> dom s \<Longrightarrow> s \<subseteq>\<^sub>m u \<Longrightarrow> s \<subseteq>\<^sub>m t"
  by (auto simp: map_le_def dom_def dest!: put_fixture_result)

lemma mark_le: "key \<notin> dom s \<Longrightarrow> s(key \<mapsto> x) \<subseteq>\<^sub>m t \<Longrightarrow> s \<subseteq>\<^sub>m t"
  unfolding map_le_def by (metis domIff fun_upd_other)

lemma mark_above: "key \<notin> dom s \<Longrightarrow> s \<subseteq>\<^sub>m s(key \<mapsto> x)"
  by (auto simp: map_le_def)

lemma entries_kept:
  assumes "get_ssh_client sch V0 V a s = Some (r, t)"
  shows "s \<subseteq>\<^sub>m t"
  using assms
proof (induction rule: client_induct)
  case (put V a s key p r t)
  from put(3,1) show ?case by (rule put_keeps) (rule mark_above[OF put(1)])
next
  case (asked V a s key p r t u)
  from asked(3,1) show ?case by (rule put_keeps) (rule mark_le[OF asked(1,4)])
next
  case (no_proxy key s e)
  then show ?case by (rule mark_above)
next
  case (asked_raises s key e t)
  then show ?case by (rule mark_le)
qed simp_all

text \<open>The entry of a call's own key, after it.\<close>

lemma own_entry:
  assumes "get_ssh_client sch V0 V a s = Some (r, t)" and key: "ssh_client_key V a = Inr key"
  shows "case r of Inr f \<Rightarrow> t key = Some (Client f) | Inl e \<Rightarrow> t key = Some UNDEFINED_CLIENT"
  using assms
proof (cases rule: get_ssh_client_cases)
  case (known p)
  then show ?thesis by (auto dest!: put_fixture_result)
next
  case (asked_raises n e)
  from entries_kept[OF asked_raises(2)] have "t key = Some UNDEFINED_CLIENT" by (auto simp: map_le_def)
  with asked_raises show ?thesis by simp
next
  case (asked n p u)
  from entries_kept[OF asked(2)] have "u key = Some UNDEFINED_CLIENT" by (auto simp: map_le_def)
  with asked show ?thesis by (auto dest!: put_fixture_result)
qed simp_all

lemma entry_answers:
  assumes "ssh_client_key V a = Inr key"
  shows "s key = Some (Client f) \<Longrightarrow> get_ssh_client sch V0 V a s = Some (Inr f, s)"
    and "s key = Some UNDEFINED_CLIENT \<Longrightarrow>
      get_ssh_client sch V0 V a s = Some (Raise PyRuntimeError ''Recursive SSH proxy client definition'', s)"
  using assms by (simp_all add: get_ssh_client.simps)

text \<open>
  A client that was got is got again: a later call for the same host name, port,
  user and proxy gives the same fixture and changes nothing, whatever its other arguments are.
\<close>
theorem client_kept:
  assumes "get_ssh_client sch V0 V a s = Some (Inr f, t)" and "ssh_client_key V a = Inr key"
    and "t \<subseteq>\<^sub>m u" and "ssh_client_key W b = Inr key"
  shows "get_ssh_client sch' V0 W b u = Some (Inr f, u)"
proof -
  have "t key = Some (Client f)" using own_entry[OF assms(1,2)] by simp
  with assms(3) have "u key = Some (Client f)" by (metis domI map_le_def)
  then show ?thesis by (rule entry_answers(1)[OF assms(4)])
qed

text \<open>
  A call that raised leaves its mark: from then on, every call for the same client
  raises that the definition of the proxy is recursive, even when the reason is gone.
\<close>
theorem failed_client_blocked:
  assumes "get_ssh_client sch V0 V a s = Some (Inl e, t)" and "ssh_client_key V a = Inr key"
    and "t \<subseteq>\<^sub>m u" and "ssh_client_key W b = Inr key"
  shows "get_ssh_client sch' W0 W b u = Some (Raise PyRuntimeError ''Recursive SSH proxy client definition'', u)"
proof -
  have "t key = Some UNDEFINED_CLIENT" using own_entry[OF assms(1,2)] by simp
  with assms(3) have "u key = Some UNDEFINED_CLIENT" by (metis domI map_le_def)
  then show ?thesis by (rule entry_answers(2)[OF assms(4)])
qed

section \<open>The search for a proxy ends\<close>

text \<open>\<open>hosts\<close> are names that are closed under asking for the proxy of a name.\<close>

definition proxies_within :: "ssh_env \<Rightarrow> string set \<Rightarrow> bool" where
  "proxies_within V hosts \<longleftrightarrow> (\<forall>h \<in> hosts. \<forall>n. proxy_step_of V (host_args h) = Inr (Ask n) \<longrightarrow> n \<in> hosts)"

definition host_keys :: "ssh_env \<Rightarrow> string set \<Rightarrow> ssh_host_key set" where
  "host_keys V hosts = {k. \<exists>h \<in> hosts. ssh_client_key V (host_args h) = Inr k}"

lemma finite_host_keys: "finite hosts \<Longrightarrow> finite (host_keys V hosts)"
proof -
  assume "finite hosts"
  moreover have "host_keys V hosts \<subseteq> (\<lambda>h. projr (ssh_client_key V (host_args h))) ` hosts"
    by (force simp: host_keys_def)
  ultimately show ?thesis by (meson finite_imageI finite_subset)
qed

lemma ask_ends:
  assumes "ssh_client_key V a = Inr key" and "key \<notin> dom s" and "proxy_step_of V a = Inr (Ask n)"
    and "get_ssh_client sch V0 V0 (host_args n) (s(key \<mapsto> UNDEFINED_CLIENT)) \<noteq> None"
  shows "get_ssh_client sch V0 V a s \<noteq> None"
  using assms by (auto simp: get_ssh_client.simps[of sch V0 V a s] domIff split: sum.splits)

lemma host_client_ends:
  assumes "finite hosts" and "proxies_within V hosts" and "h \<in> hosts"
  shows "get_ssh_client sch V V (host_args h) s \<noteq> None"
  using assms(3)
proof (induction "card {k \<in> host_keys V hosts. s k = None}" arbitrary: h s rule: less_induct)
  case less
  show ?case
  proof (cases "\<exists>key n. ssh_client_key V (host_args h) = Inr key \<and> key \<notin> dom s \<and> proxy_step_of V (host_args h) = Inr (Ask n)")
    case True
    then obtain key n where k: "ssh_client_key V (host_args h) = Inr key" "key \<notin> dom s" "proxy_step_of V (host_args h) = Inr (Ask n)"
      by blast
    let ?s = "s(key \<mapsto> UNDEFINED_CLIENT)"
    have "key \<in> host_keys V hosts" using k(1) less.prems by (auto simp: host_keys_def)
    then have "{k \<in> host_keys V hosts. ?s k = None} \<subset> {k \<in> host_keys V hosts. s k = None}" using k(2) by (auto simp: domIff)
    then have "card {k \<in> host_keys V hosts. ?s k = None} < card {k \<in> host_keys V hosts. s k = None}"
      by (rule psubset_card_mono[rotated]) (simp add: finite_host_keys[OF assms(1)])
    moreover have "n \<in> hosts" using assms(2) less.prems k(3) by (auto simp: proxies_within_def)
    ultimately show ?thesis using less.hyps by (intro ask_ends[OF k]) blast
  next
    case False
    then show ?thesis
      by (subst get_ssh_client.simps) (auto simp: domIff split: sum.splits option.splits client_entry.splits proxy_step.splits)
  qed
qed

text \<open>
  Getting a client ends, also when hosts are proxies of each other in a circle: it
  is enough that the names that are asked for, one proxy after the other, are finitely many.
\<close>
theorem get_client_ends:
  assumes "finite hosts" and "proxies_within V0 hosts"
    and "\<And>n. proxy_step_of V a = Inr (Ask n) \<Longrightarrow> n \<in> hosts"
  shows "\<exists>r t. get_ssh_client sch V0 V a s = Some (r, t)"
proof -
  have "get_ssh_client sch V0 V a s \<noteq> None"
  proof (cases "\<exists>key n. ssh_client_key V a = Inr key \<and> key \<notin> dom s \<and> proxy_step_of V a = Inr (Ask n)")
    case True
    then obtain key n where k: "ssh_client_key V a = Inr key" "key \<notin> dom s" "proxy_step_of V a = Inr (Ask n)" by blast
    show ?thesis by (rule ask_ends[OF k], rule host_client_ends[OF assms(1,2) assms(3)[OF k(3)]])
  next
    case False
    then show ?thesis
      by (subst get_ssh_client.simps) (auto simp: domIff split: sum.splits option.splits client_entry.splits proxy_step.splits)
  qed
  then show ?thesis by fastforce
qed

section \<open>Examples\<close>

text \<open>Two hosts that are proxies of each other, by their addresses.\<close>

definition demo_circle :: ssh_env where
  "demo_circle = demo_ssh\<lparr>sn_lookup := (\<lambda>h. [(''hostname'', CfText (h @ ''.org'')), (''proxyjump'', CfText (if h = ''a'' then ''b'' else ''a''))])\<rparr>"

abbreviation demo_schema :: schema where
  "demo_schema \<equiv> SSH_CONNECT_PARAMETERS demo_ssh (\<lambda>t. None)"

lemma demo_keys:
  "ssh_client_key demo_circle (host_args ''a'') = Inr (CfText ''a.org'', CfNone, CfNone, NoProxy)"
  "ssh_client_key demo_circle (host_args ''b'') = Inr (CfText ''b.org'', CfNone, CfNone, NoProxy)"
  by code_simp+

lemma demo_steps:
  "proxy_step_of demo_circle (host_args ''a'') = Inr (Ask ''b'')"
  "proxy_step_of demo_circle (host_args ''b'') = Inr (Ask ''a'')"
  by code_simp+

lemma get_client_ends_witness:
  "\<exists>r t. get_ssh_client demo_schema demo_circle demo_circle (host_args ''a'') Map.empty = Some (r, t)"
  by (rule get_client_ends[where hosts = "{''a'', ''b''}"]) (auto simp: proxies_within_def demo_steps)

lemma demo_recursion:
  "\<exists>t. get_ssh_client demo_schema demo_circle demo_circle (host_args ''a'') Map.empty =
     Some (Raise PyRuntimeError ''Recursive SSH proxy client definition'', t)"
proof -
  note step = get_ssh_client.simps[of demo_schema demo_circle demo_circle]
  show ?thesis by (simp add: step[of "host_args ''a''"] step[of "host_args ''b''"] demo_keys demo_steps)
qed

lemma failed_client_blocked_witness:
  "\<exists>t. get_ssh_client demo_schema demo_circle demo_circle (host_args ''a'') t =
     Some (Raise PyRuntimeError ''Recursive SSH proxy client definition'', t)"
proof -
  obtain t where "get_ssh_client demo_schema demo_circle demo_circle (host_args ''a'') Map.empty =
     Some (Raise PyRuntimeError ''Recursive SSH proxy client definition'', t)" using demo_recursion by blast
  from failed_client_blocked[OF this demo_keys(1) map_le_refl demo_keys(1)] show ?thesis by blast
qed

lemma client_kept_witness:
  "\<exists>t. get_ssh_client demo_schema demo_circle demo_circle (host_args ''a'') t = Some (Inr (SSHFixture None [] None None), t)"
proof -
  let ?t = "[(CfText ''a.org'', CfNone, CfNone, NoProxy) \<mapsto> Client (SSHFixture None [] None None)]"
  have "get_ssh_client demo_schema demo_circle demo_circle (host_args ''a'') ?t = Some (Inr (SSHFixture None [] None None), ?t)"
    by (rule entry_answers(1)[OF demo_keys(1)]) simp
  from client_kept[OF this demo_keys(1) map_le_refl demo_keys(1)] show ?thesis by blast
qed

end
