(* ===== verification/Ssh_Forward.thy ===== *)
theory Ssh_Forward
  imports Ssh_Manager "HOL-Library.List_Lexorder" "HOL-Library.Char_ord"
begin

text \<open>
  tobiko/shell/ssh/_command.py: the command line of ssh; _forward.py: forwarding addresses through
  SSH tunnels, one for each address and client; _key_file.py: fetching the keys of a proxy.
  Sockets, tunnels, executing commands and files are parameters.
\<close>

section \<open>The command line of ssh\<close>

text \<open>
  The words of the command are values: the files of keys are appended as the list they are.
  \<open>txt\<close> is the text \<open>'{!s}'\<close> of a value.
\<close>

definition ssh_options ::
  "ssh_env \<Rightarrow> host_config \<Rightarrow> string option \<Rightarrow> (string \<times> cfg_value) list \<Rightarrow> (string \<times> cfg_value) list res" where
  "ssh_options V c proxy_command options =
     (let options = (case proxy_command of Some (p # ps) \<Rightarrow> dict_set options ''ProxyCommand'' (CfText (p # ps)) | _ \<Rightarrow> options);
          options = foldl (\<lambda>d (k, v). setdefault d k v) options (filter (\<lambda>(k, v). k \<notin> {''hostname'', ''port'', ''user''}) (sc_config c));
          options = foldl (\<lambda>d (k, v). setdefault d k v) options
            [(''UserKnownHostsFile'', CfText ''/dev/null''), (''StrictHostKeyChecking'', CfText ''no''), (''LogLevel'', CfText ''quiet'')]
      in map_sum id (\<lambda>t. setdefault (setdefault options ''ConnectTimeout'' (CfInt t)) ''ConnectionAttempts'' (sc_attempts V c))
           (cf_int (sc_timeout V c)))"

definition ssh_option_words :: "(cfg_value \<Rightarrow> string) \<Rightarrow> (string \<times> cfg_value) list \<Rightarrow> cfg_value list" where
  "ssh_option_words txt options =
     concat (map (\<lambda>(k, v). [CfText ''-o'', CfText (filter (\<lambda>x. x \<noteq> CHR ''_'') k @ ''='' @ cf_str txt v)]) (sort_key fst options))"

definition text_value :: "cfg_value \<Rightarrow> string option" where
  "text_value v = (case v of CfText t \<Rightarrow> Some t | _ \<Rightarrow> None)"

definition ssh_command ::
  "ssh_env \<Rightarrow> string option \<Rightarrow> cfg_value \<Rightarrow> cfg_value \<Rightarrow> string list option \<Rightarrow> host_config option \<Rightarrow> string option \<Rightarrow> cfg_value \<Rightarrow>
   (string \<times> cfg_value) list \<Rightarrow> cfg_value list res" where
  "ssh_command V host username port command host_config proxy_command key_filename options =
     (case (case host_config of Some c \<Rightarrow> Inr c | None \<Rightarrow> ssh_host_config V host) of
        Inl e \<Rightarrow> Inl e
      | Inr c \<Rightarrow>
          (let words = (case command of Some (w # ws) \<Rightarrow> w # ws | _ \<Rightarrow> split_ws (df_command (sn_default V)));
               username = cf_or username (sc_username V c);
               port = cf_or port (sc_port V c)
           in case sc_hostname c of
                CfText h \<Rightarrow>
                  map_sum id (\<lambda>os.
                      map CfText (words @ [ssh_login h (text_value username) None]) @
                      (if cf_true port then [CfText ''-p'', CfText (cf_str (sn_fmt V) port)] else []) @
                      (if cf_true key_filename then [CfText ''-i'', key_filename] else []) @
                      ssh_option_words (sn_fmt V) os)
                    (ssh_options V c proxy_command options)
              | _ \<Rightarrow> Raise PyTypeError ''can only concatenate str''))"

lemma map_of_setdefaults: "map_of (foldl (\<lambda>d (k, v). setdefault d k v) d e) = map_of e ++ map_of d"
proof (induction e arbitrary: d)
  case (Cons p e)
  obtain k v where p: "p = (k, v)" by fastforce
  have "map_of (setdefault d k v) = (\<lambda>k'. if k' = k \<and> k \<notin> fst ` set d then Some v else map_of d k')"
    by (rule ext) (rule map_of_setdefault)
  moreover have "k \<notin> fst ` set d \<longleftrightarrow> map_of d k = None" by (simp add: map_of_eq_None_iff)
  ultimately show ?case unfolding p by (auto simp: Cons.IH map_add_def fun_eq_iff split: option.splits)
qed simp

text \<open>The values that hold unless others are given.\<close>

definition option_defaults :: "ssh_env \<Rightarrow> host_config \<Rightarrow> int \<Rightarrow> (string \<times> cfg_value) list" where
  "option_defaults V c timeout =
     [(''UserKnownHostsFile'', CfText ''/dev/null''), (''StrictHostKeyChecking'', CfText ''no''), (''LogLevel'', CfText ''quiet''),
      (''ConnectTimeout'', CfInt timeout), (''ConnectionAttempts'', sc_attempts V c)]"

text \<open>
  An option of the command line has the value that was given, else that of the
  configuration of the host, else the value of the program; the proxy command is never lost.
\<close>
theorem options_precedence:
  assumes "ssh_options V c proxy_command options = Inr os" and "cf_int (sc_timeout V c) = Inr timeout"
  shows "map_of os = map_of (option_defaults V c timeout) ++
    map_of (filter (\<lambda>(k, v). k \<notin> {''hostname'', ''port'', ''user''}) (sc_config c)) ++ map_of options ++
    (case proxy_command of Some (p # ps) \<Rightarrow> [''ProxyCommand'' \<mapsto> CfText (p # ps)] | _ \<Rightarrow> Map.empty)"
proof -
  let ?options = "case proxy_command of Some (p # ps) \<Rightarrow> dict_set options ''ProxyCommand'' (CfText (p # ps)) | _ \<Rightarrow> options"
  let ?config = "filter (\<lambda>(k, v). k \<notin> {''hostname'', ''port'', ''user''}) (sc_config c)"
  have os: "os = foldl (\<lambda>d (k, v). setdefault d k v) (foldl (\<lambda>d (k, v). setdefault d k v) ?options ?config) (option_defaults V c timeout)"
    using assms by (simp add: ssh_options_def option_defaults_def Let_def)
  have "map_of ?options = map_of options ++
      (case proxy_command of Some (p # ps) \<Rightarrow> [''ProxyCommand'' \<mapsto> CfText (p # ps)] | _ \<Rightarrow> Map.empty)"
    by (auto split: option.split list.split)
  then show ?thesis unfolding os map_of_setdefaults by (simp only: map_add_assoc)
qed

section \<open>Forwarding\<close>

datatype socket_address = HostPort string "int option" | UnixPath string

datatype forward_url = ForwardURL (url_netloc_of: string) (url_host_of: "string option") (url_port_of: "int option") (url_path_of: string)

definition binding_address :: "forward_url \<Rightarrow> (string option \<times> int option + string) res" where
  "binding_address url =
     (if url_netloc_of url \<noteq> [] then Inr (Inl (url_host_of url, url_port_of url))
      else if url_path_of url \<noteq> [] then Inr (Inr (url_path_of url))
      else Raise PyValueError ''Invalid URL'')"

definition binding_url :: "socket_address \<Rightarrow> string" where
  "binding_url a =
     (case a of
        HostPort h p \<Rightarrow> ''tcp://'' @ h @ '':'' @ (case p of None \<Rightarrow> ''None'' | Some n \<Rightarrow> str_int n)
      | UnixPath p \<Rightarrow> ''unix://'' @ p)"

text \<open>
  A tunnel fixture maps remote addresses to local ones; \<open>tn_free\<close> finds a free local address and
  \<open>tn_start\<close> sets a tunnel up; clients are known by \<open>'c\<close>.
\<close>

type_synonym tunnel = "(socket_address \<times> socket_address) list"

record ('w, 'c) tunnel_lib =
  tn_free :: "('w, socket_address) act"
  tn_start :: "'c \<Rightarrow> tunnel \<Rightarrow> ('w, unit) act"

text \<open>\<open>put_forwarding\<close>: a local address is found even when the remote one is known already.\<close>

definition put_forwarding :: "('w, 'c) tunnel_lib \<Rightarrow> socket_address \<Rightarrow> socket_address option \<Rightarrow> ('w \<times> tunnel, socket_address) act" where
  "put_forwarding T remote local =
     bindA (on_fst (case local of None \<Rightarrow> tn_free T | Some l \<Rightarrow> ret l)) (\<lambda>l s.
       (case map_of (snd s) remote of
          Some old \<Rightarrow> (Inr old, s)
        | None \<Rightarrow> (Inr l, (fst s, snd s @ [(remote, l)]))))"

definition get_forwarding :: "tunnel \<Rightarrow> socket_address \<Rightarrow> socket_address option" where
  "get_forwarding t remote = map_of t remote"

record 'c forward_manager =
  fm_addresses :: "socket_address \<times> 'c option \<rightharpoonup> socket_address option"
  fm_forwarders :: "socket_address \<times> 'c option \<rightharpoonup> tunnel option"

definition make_forwarder :: "('w, 'c) tunnel_lib \<Rightarrow> socket_address \<Rightarrow> 'c \<Rightarrow> ('w, tunnel) act" where
  "make_forwarder T remote client w =
     (case put_forwarding T remote None (w, []) of
        (Inl e, (w1, t)) \<Rightarrow> (Inl e, w1)
      | (Inr _, (w1, t)) \<Rightarrow> bindA (tn_start T client t) (\<lambda>_. ret t) w1)"

definition get_forwarder ::
  "('w, 'c) tunnel_lib \<Rightarrow> socket_address \<Rightarrow> 'c option \<Rightarrow> ('w \<times> 'c forward_manager, tunnel option) act" where
  "get_forwarder T remote client s =
     (case fm_forwarders (snd s) (remote, client) of
        Some f \<Rightarrow> (Inr f, s)
      | None \<Rightarrow>
          bindA (on_fst (case client of None \<Rightarrow> ret None | Some c \<Rightarrow> bindA (make_forwarder T remote c) (\<lambda>t. ret (Some t))))
            (\<lambda>f. bindA (set_snd (\<lambda>m. m\<lparr>fm_forwarders := (fm_forwarders m)((remote, client) \<mapsto> f)\<rparr>)) (\<lambda>_. ret f)) s)"

definition get_forward_port_address ::
  "('w, 'c) tunnel_lib \<Rightarrow> socket_address \<Rightarrow> 'c option \<Rightarrow> ('w \<times> 'c forward_manager, socket_address option) act" where
  "get_forward_port_address T remote client s =
     (case fm_addresses (snd s) (remote, client) of
        Some a \<Rightarrow> (Inr a, s)
      | None \<Rightarrow>
          bindA (get_forwarder T remote client) (\<lambda>f.
            let a = (case f of None \<Rightarrow> Some remote | Some t \<Rightarrow> get_forwarding t remote)
            in bindA (set_snd (\<lambda>m. m\<lparr>fm_addresses := (fm_addresses m)((remote, client) \<mapsto> a)\<rparr>)) (\<lambda>_. ret a)) s)"

text \<open>\<open>get_forward_url\<close> of a URL with a host or a path; the client is given or is the default proxy.\<close>

definition get_forward_url ::
  "('w, 'c) tunnel_lib \<Rightarrow> ('w \<times> 'c forward_manager, 'c option) act \<Rightarrow> forward_url \<Rightarrow> 'c option \<Rightarrow> ('w \<times> 'c forward_manager, string) act" where
  "get_forward_url T proxy url client =
     bindA (case client of Some c \<Rightarrow> ret (Some c) | None \<Rightarrow> proxy) (\<lambda>client.
     bindA (lift_res (binding_address url)) (\<lambda>b.
     bindA (get_forward_port_address T
              (case b of Inl (h, p) \<Rightarrow> HostPort (case h of None \<Rightarrow> ''None'' | Some h \<Rightarrow> h) p | Inr p \<Rightarrow> UnixPath p) client) (\<lambda>a.
       case a of Some a \<Rightarrow> ret (binding_url a) | None \<Rightarrow> raise_act (Exn PyTypeError ''Invalid address type: None''))))"

text \<open>\<open>_get_binds\<close> of the forwarder: one address or several, not both.\<close>

datatype bind = BindHost string | BindAddress socket_address

definition add_random_port :: "bind \<Rightarrow> bind" where
  "add_random_port b = (case b of BindHost h \<Rightarrow> BindAddress (HostPort h (Some 0)) | BindAddress a \<Rightarrow> BindAddress a)"

definition get_binds :: "bind option \<Rightarrow> bind list \<Rightarrow> bool \<Rightarrow> bind list res" where
  "get_binds bind_address bind_addresses is_remote =
     (if bind_address = None \<and> bind_addresses = []
      then if is_remote then Raise PyValueError ''No remote bind addresses specified.'' else Inr []
      else if bind_address \<noteq> None \<and> bind_addresses \<noteq> []
      then Raise PyValueError ''You can't use both bind_address and bind_addresses arguments.''
      else (let bs = (case bind_address of Some b \<Rightarrow> [b] | None \<Rightarrow> bind_addresses)
            in Inr (if is_remote then bs else map add_random_port bs)))"

text \<open>\<open>_merge_parameters\<close>: values that are None do not count.\<close>

definition merge_parameters :: "(string \<times> cfg_value) list list \<Rightarrow> (string \<times> cfg_value) list" where
  "merge_parameters ds = foldl (\<lambda>result d. dict_update result (filter (\<lambda>(k, v). v \<noteq> CfNone) d)) [] ds"

section \<open>The keys of a proxy\<close>

text \<open>
  \<open>GetSSHKeyFileFixture\<close>: \<open>run\<close> executes a command on the proxy and gives what it wrote; the state
  is the world with the files that were written.
\<close>

definition key_name :: "(string \<Rightarrow> string) \<Rightarrow> (string \<Rightarrow> string) \<Rightarrow> string \<Rightarrow> string \<Rightarrow> string" where
  "key_name basename config_path remote host = config_path (''~/.ssh/'' @ basename remote @ ''-'' @ host)"

definition fetch_key ::
  "(string \<Rightarrow> ('w, string) act) \<Rightarrow> (string \<Rightarrow> string) \<Rightarrow> (string \<Rightarrow> string) \<Rightarrow> string \<Rightarrow> ('w \<times> (string \<rightharpoonup> string), string option) act" where
  "fetch_key run basename config_path remote =
     bindA (on_fst (run ''hostname'')) (\<lambda>out.
     let remote_hostname = strip out in
     if remote_hostname = [] then raise_act (Exn PyRuntimeError ''Unable to get hostname from proxy jump server'')
     else bindA (on_fst (run (''cat '' @ remote))) (\<lambda>private.
          if private = [] then ret None
          else bindA (on_fst (run (''cat '' @ remote @ ''.pub''))) (\<lambda>public.
               if public = [] then ret None
               else (let key = key_name basename config_path remote remote_hostname
                     in bindA (set_snd (\<lambda>fs. fs(key \<mapsto> private, key @ ''.pub'' \<mapsto> public))) (\<lambda>_. ret (Some key))))))"

text \<open>\<open>ProxyJumpKeyFilenamesFixture\<close>: \<open>fetch\<close> gets one key of the proxy.\<close>

fun proxy_key_files :: "(string \<Rightarrow> ('w, string option) act) \<Rightarrow> (string \<Rightarrow> bool) \<Rightarrow> string list \<Rightarrow> string list \<Rightarrow> ('w, string list) act" where
  "proxy_key_files fetch isfile [] keys = ret keys"
| "proxy_key_files fetch isfile (r # rs) keys =
     bindA (fetch r) (\<lambda>k.
       proxy_key_files fetch isfile rs
         (case k of Some (c # cs) \<Rightarrow> if c # cs \<notin> set keys \<and> isfile (c # cs) then keys @ [c # cs] else keys | _ \<Rightarrow> keys))"

definition list_proxy_jump_key_filenames ::
  "(string \<Rightarrow> ('w, string option) act) option \<Rightarrow> ssh_env \<Rightarrow> ('w, string list) act" where
  "list_proxy_jump_key_filenames fetch V =
     (case fetch of
        None \<Rightarrow> ret []
      | Some f \<Rightarrow> proxy_key_files f (sn_isfile V) (select_uniques (df_key_file (sn_default V)) []) [])"

section \<open>What is forwarded\<close>

text \<open>
  What the manager knows agrees: an address without a client is not forwarded, an address of a
  client has the local address of the tunnel of that client.
\<close>

definition forwards_ok :: "'c forward_manager \<Rightarrow> bool" where
  "forwards_ok m \<longleftrightarrow>
     (\<forall>r a. fm_addresses m (r, None) = Some a \<longrightarrow> a = Some r) \<and>
     (\<forall>r c a. fm_addresses m (r, Some c) = Some a \<longrightarrow>
        (\<exists>t l. fm_forwarders m (r, Some c) = Some (Some t) \<and> a = Some l \<and> map_of t r = Some l)) \<and>
     (\<forall>r f. fm_forwarders m (r, None) = Some f \<longrightarrow> f = None) \<and>
     (\<forall>r c f. fm_forwarders m (r, Some c) = Some f \<longrightarrow> (\<exists>t l. f = Some t \<and> map_of t r = Some l))"

lemma make_forwarder_knows: "make_forwarder T r c w = (Inr t, w') \<Longrightarrow> \<exists>l. map_of t r = Some l"
  by (auto simp: make_forwarder_def put_forwarding_def bindA_def on_fst_def ret_def split: prod.splits sum.splits)

lemma add_forwarder_ok:
  assumes "forwards_ok m" and "fm_forwarders m (r, client) = None"
    and "case client of None \<Rightarrow> f = None | Some c \<Rightarrow> \<exists>t l. f = Some t \<and> map_of t r = Some l"
  shows "forwards_ok (m\<lparr>fm_forwarders := (fm_forwarders m)((r, client) \<mapsto> f)\<rparr>)"
proof -
  have other: "(r', Some c) \<noteq> (r, client)" if "fm_addresses m (r', Some c) = Some a" for r' c a
    using that assms(1,2) unfolding forwards_ok_def by fastforce
  show ?thesis
    unfolding forwards_ok_def
  proof (intro conjI allI impI)
    fix r' c a assume "fm_addresses (m\<lparr>fm_forwarders := (fm_forwarders m)((r, client) \<mapsto> f)\<rparr>) (r', Some c) = Some a"
    then have a: "fm_addresses m (r', Some c) = Some a" by simp
    then have "\<exists>t l. fm_forwarders m (r', Some c) = Some (Some t) \<and> a = Some l \<and> map_of t r' = Some l"
      using assms(1) unfolding forwards_ok_def by blast
    with other[OF a] show "\<exists>t l. fm_forwarders (m\<lparr>fm_forwarders := (fm_forwarders m)((r, client) \<mapsto> f)\<rparr>) (r', Some c) = Some (Some t) \<and>
        a = Some l \<and> map_of t r' = Some l" by auto
  qed (use assms in \<open>auto simp: forwards_ok_def split: if_splits option.splits\<close>)
qed

lemma get_forwarder_ok:
  assumes "forwards_ok (snd s)" and "get_forwarder T r client s = (x, s')"
  shows "forwards_ok (snd s') \<and> fm_addresses (snd s') = fm_addresses (snd s) \<and>
    (\<forall>f. x = Inr f \<longrightarrow> fm_forwarders (snd s') (r, client) = Some f)"
proof (cases "fm_forwarders (snd s) (r, client)")
  case None
  show ?thesis
  proof (cases client)
    case c: None
    with None assms show ?thesis
      using add_forwarder_ok[OF assms(1) None, of None] by (auto simp: get_forwarder_def bindA_def on_fst_def ret_def set_snd_def)
  next
    case c: (Some c)
    obtain y u where y: "make_forwarder T r c (fst s) = (y, u)" by fastforce
    show ?thesis
    proof (cases y)
      case (Inl e)
      with None c y assms show ?thesis by (auto simp: get_forwarder_def bindA_def on_fst_def ret_def set_snd_def)
    next
      case (Inr t)
      from add_forwarder_ok[OF assms(1) None, of "Some t"] make_forwarder_knows[OF y[unfolded Inr]] None c y Inr assms(2)
      show ?thesis by (auto simp: get_forwarder_def bindA_def on_fst_def ret_def set_snd_def)
    qed
  qed
qed (use assms in \<open>auto simp: get_forwarder_def\<close>)

text \<open>
  What the manager of forwarded ports remembers stays in agreement with its tunnels,
  and the address it gives for a client is the local end of a tunnel of that client to the address
  that was asked for; without a client it is that address itself.
\<close>
theorem forwards_kept:
  assumes "forwards_ok (snd s)" and "get_forward_port_address T r client s = (x, s')"
  shows "forwards_ok (snd s') \<and>
    (\<forall>a. x = Inr a \<longrightarrow> (case client of None \<Rightarrow> a = Some r
       | Some c \<Rightarrow> \<exists>t l. fm_forwarders (snd s') (r, Some c) = Some (Some t) \<and> map_of t r = Some l \<and> a = Some l))"
proof (cases "fm_addresses (snd s) (r, client)")
  case (Some a)
  with assms(2) have "x = Inr a" "s' = s" by (auto simp: get_forward_port_address_def)
  with Some assms(1) show ?thesis unfolding forwards_ok_def by (cases client) (simp, force)
next
  case None
  obtain y u where y: "get_forwarder T r client s = (y, u)" by (cases "get_forwarder T r client s") blast
  note ok = get_forwarder_ok[OF assms(1) y]
  show ?thesis
  proof (cases y)
    case (Inl e)
    with None y ok assms(2) show ?thesis by (auto simp: get_forward_port_address_def bindA_def)
  next
    case (Inr f)
    with None y assms(2) have s': "snd s' = (snd u)\<lparr>fm_addresses := (fm_addresses (snd u))((r, client) \<mapsto>
        (case f of None \<Rightarrow> Some r | Some t \<Rightarrow> get_forwarding t r))\<rparr>"
      and x: "x = Inr (case f of None \<Rightarrow> Some r | Some t \<Rightarrow> get_forwarding t r)"
      by (auto simp: get_forward_port_address_def bindA_def Let_def set_snd_def ret_def)
    have f: "fm_forwarders (snd u) (r, client) = Some f" and inv: "forwards_ok (snd u)" using ok Inr by auto
    show ?thesis
    proof (cases client)
      case c: None
      with f inv have "f = None" by (auto simp: forwards_ok_def)
      with inv s' x c show ?thesis by (auto simp: forwards_ok_def)
    next
      case c: (Some c)
      have "\<exists>t l. f = Some t \<and> map_of t r = Some l"
        using f[unfolded c] inv unfolding forwards_ok_def by blast
      then obtain t l where t: "f = Some t" "map_of t r = Some l" by blast
      with inv s' x c f show ?thesis by (auto simp: forwards_ok_def get_forwarding_def)
    qed
  qed
qed

text \<open>
  An address that was given is given again without a new tunnel: a second request
  for the same address and client has the same answer and changes nothing.
\<close>
theorem forward_once:
  assumes "get_forward_port_address T r client s = (Inr a, s')"
  shows "get_forward_port_address T r client s' = (Inr a, s')"
proof (cases "fm_addresses (snd s) (r, client)")
  case None
  with assms have "fm_addresses (snd s') (r, client) = Some a"
    by (auto simp: get_forward_port_address_def bindA_eq_Inr Let_def set_snd_def ret_def)
  then show ?thesis by (simp add: get_forward_port_address_def)
qed (use assms in \<open>auto simp: get_forward_port_address_def\<close>)

lemma proxy_key_files_ok:
  "proxy_key_files fetch isfile rs keys w = (Inr ks, w') \<Longrightarrow> distinct keys \<Longrightarrow> (\<forall>k \<in> set keys. isfile k) \<Longrightarrow>
     distinct ks \<and> (\<forall>k \<in> set ks. isfile k)"
proof (induction rs arbitrary: keys w)
  case (Cons r rs)
  from Cons.prems(1) obtain k u where
    rest: "proxy_key_files fetch isfile rs
         (case k of Some (c # cs) \<Rightarrow> if c # cs \<notin> set keys \<and> isfile (c # cs) then keys @ [c # cs] else keys | _ \<Rightarrow> keys) u = (Inr ks, w')"
    by (auto simp: bindA_eq_Inr)
  show ?case by (rule Cons.IH[OF rest]) (use Cons.prems(2,3) in \<open>auto split: option.splits list.splits\<close>)
qed (simp add: ret_def)

text \<open>What was written when a key was fetched.\<close>

definition pair_written where
  "pair_written basename config_path remote fs key fs' \<longleftrightarrow>
     (\<exists>host private public. host \<noteq> [] \<and> private \<noteq> [] \<and> public \<noteq> [] \<and>
        key = key_name basename config_path remote host \<and> fs' = fs(key \<mapsto> private, key @ ''.pub'' \<mapsto> public))"

lemma pair_writtenI:
  "host \<noteq> [] \<Longrightarrow> private \<noteq> [] \<Longrightarrow> public \<noteq> [] \<Longrightarrow> pair_written basename config_path remote fs (key_name basename config_path remote host)
     (fs(key_name basename config_path remote host \<mapsto> private, key_name basename config_path remote host @ ''.pub'' \<mapsto> public))"
  by (auto simp: pair_written_def)

text \<open>
  A key of the proxy is written to a file only together with its public key, both not
  empty, and under a name of the proxy; when one of them is missing no file changes.
\<close>
theorem fetched_pair:
  assumes "fetch_key run basename config_path remote (w, fs) = (r, (w', fs'))"
  shows "case r of Inr (Some key) \<Rightarrow> pair_written basename config_path remote fs key fs' | _ \<Rightarrow> fs' = fs"
  using assms
  by (auto simp: fetch_key_def bindA_def on_fst_def Let_def ret_def raise_act_def set_snd_def intro: pair_writtenI
      split: prod.splits sum.splits if_splits)

section \<open>Examples\<close>

definition demo_tunnel :: "(nat, string) tunnel_lib" where
  "demo_tunnel = \<lparr>tn_free = (\<lambda>n. (Inr (HostPort ''127.0.0.1'' (Some (int n))), Suc n)), tn_start = (\<lambda>c t. ret ())\<rparr>"

definition no_forwards :: "string forward_manager" where
  "no_forwards = \<lparr>fm_addresses = Map.empty, fm_forwarders = Map.empty\<rparr>"

lemma demo_forward:
  "\<exists>m. get_forward_port_address demo_tunnel (HostPort ''h'' (Some 80)) (Some ''gw'') (5000, no_forwards) =
     (Inr (Some (HostPort ''127.0.0.1'' (Some 5000))), (5001, m))"
  by (simp add: get_forward_port_address_def get_forwarder_def make_forwarder_def put_forwarding_def demo_tunnel_def no_forwards_def
      bindA_def on_fst_def ret_def set_snd_def get_forwarding_def Let_def)

lemma no_forwards_ok: "forwards_ok no_forwards"
  by (simp add: forwards_ok_def no_forwards_def)

lemma forwards_kept_witness:
  "\<exists>m. get_forward_port_address demo_tunnel (HostPort ''h'' (Some 80)) (Some ''gw'') (5000, no_forwards) =
     (Inr (Some (HostPort ''127.0.0.1'' (Some 5000))), (5001, m)) \<and> forwards_ok m"
proof -
  obtain m where m: "get_forward_port_address demo_tunnel (HostPort ''h'' (Some 80)) (Some ''gw'') (5000, no_forwards) =
     (Inr (Some (HostPort ''127.0.0.1'' (Some 5000))), (5001, m))" using demo_forward by blast
  have "forwards_ok (snd (5000 :: nat, no_forwards))" by (simp add: no_forwards_ok)
  from forwards_kept[OF this m] m show ?thesis by auto
qed

lemma forward_once_witness:
  "\<exists>m. get_forward_port_address demo_tunnel (HostPort ''h'' (Some 80)) (Some ''gw'') (5001, m) =
     (Inr (Some (HostPort ''127.0.0.1'' (Some 5000))), (5001, m))"
  using demo_forward forward_once by blast

lemma fetched_pair_witness:
  "pair_written (\<lambda>p. ''id_rsa'') (\<lambda>p. p) ''~/.ssh/id_rsa'' Map.empty (key_name (\<lambda>p. ''id_rsa'') (\<lambda>p. p) ''~/.ssh/id_rsa'' ''x'')
     [key_name (\<lambda>p. ''id_rsa'') (\<lambda>p. p) ''~/.ssh/id_rsa'' ''x'' \<mapsto> ''x'',
      key_name (\<lambda>p. ''id_rsa'') (\<lambda>p. p) ''~/.ssh/id_rsa'' ''x'' @ ''.pub'' \<mapsto> ''x'']"
proof -
  have x: "strip ''x'' = ''x''" by code_simp
  have "fetch_key (\<lambda>c. ret ''x'') (\<lambda>p. ''id_rsa'') (\<lambda>p. p) ''~/.ssh/id_rsa'' ((), Map.empty) =
    (Inr (Some (key_name (\<lambda>p. ''id_rsa'') (\<lambda>p. p) ''~/.ssh/id_rsa'' ''x'')), ((),
     [key_name (\<lambda>p. ''id_rsa'') (\<lambda>p. p) ''~/.ssh/id_rsa'' ''x'' \<mapsto> ''x'',
      key_name (\<lambda>p. ''id_rsa'') (\<lambda>p. p) ''~/.ssh/id_rsa'' ''x'' @ ''.pub'' \<mapsto> ''x'']))"
    by (simp add: fetch_key_def bindA_def on_fst_def ret_def set_snd_def x Let_def)
  from fetched_pair[OF this] show ?thesis by simp
qed

lemma options_precedence_witness:
  "\<exists>os. ssh_options demo_ssh \<lparr>sc_host = Some ''h'', sc_config = [(''loglevel'', CfText ''debug'')]\<rparr> (Some ''nc'') [(''LogLevel'', CfText ''info'')] = Inr os \<and>
     map_of os ''LogLevel'' = Some (CfText ''info'') \<and> map_of os ''ProxyCommand'' = Some (CfText ''nc'')"
proof -
  let ?c = "\<lparr>sc_host = Some ''h'', sc_config = [(''loglevel'', CfText ''debug'')]\<rparr>"
  have t: "cf_int (sc_timeout demo_ssh ?c) = Inr 15" by code_simp
  then obtain os where os: "ssh_options demo_ssh ?c (Some ''nc'') [(''LogLevel'', CfText ''info'')] = Inr os"
    by (auto simp: ssh_options_def Let_def)
  from options_precedence[OF os t] os show ?thesis by simp
qed

end
