(* ===== verification/Shell_Io.thy ===== *)
theory Shell_Io
  imports Retry_Partial
begin

text \<open>
  tobiko/shell/sh/_io.py: the streams of a process, which keep the chunks of data that went through
  them, and waiting until some of several files are ready. The files themselves are parameters.
\<close>

section \<open>Chunks\<close>

text \<open>\<open>data\<close> joins the chunks and keeps the joined one; an empty list of chunks has no data.\<close>

definition stream_data :: "string list \<Rightarrow> string option \<times> string list" where
  "stream_data chunks =
     (case chunks of [] \<Rightarrow> (None, []) | [c] \<Rightarrow> (Some c, chunks) | _ \<Rightarrow> (Some (concat chunks), [concat chunks]))"

definition stream_str :: "string list \<Rightarrow> string" where
  "stream_str chunks = (case fst (stream_data chunks) of None \<Rightarrow> [] | Some d \<Rightarrow> d)"

definition join_chunks :: "string list \<Rightarrow> string option" where
  "join_chunks chunks =
     (case dropWhile (\<lambda>c. c = []) chunks of
        [] \<Rightarrow> None
      | data # rest \<Rightarrow> Some (data @ concat (filter (\<lambda>c. c \<noteq> []) rest)))"

section \<open>Reading and writing\<close>

definition PyOSError :: pyclass where "PyOSError = ''OSError'' # PyException"

text \<open>The file that a stream delegates to; \<open>dl_write\<close> gives the number of bytes, when it knows it.\<close>

record 'w io_delegate =
  dl_read :: "nat \<Rightarrow> ('w, string option) act"
  dl_write :: "string \<Rightarrow> ('w, nat option) act"
  dl_close :: "('w, unit) act"
  dl_closed :: "'w \<Rightarrow> bool"
  dl_read_ready :: "'w \<Rightarrow> bool"
  dl_write_ready :: "'w \<Rightarrow> bool"

definition read_size :: "nat \<Rightarrow> nat option \<Rightarrow> nat" where
  "read_size buffer_size n = (case n of Some (Suc m) \<Rightarrow> Suc m | _ \<Rightarrow> buffer_size)"

definition stream_read :: "'w io_delegate \<Rightarrow> nat \<Rightarrow> nat option \<Rightarrow> ('w \<times> string list, string) act" where
  "stream_read D buffer_size n =
     bindA (try_except (on_fst (bindA (dl_read D (read_size buffer_size n)) (\<lambda>c. ret (case c of None \<Rightarrow> [] | Some c \<Rightarrow> c))))
              (\<lambda>e. isinstance_exn e PyOSError)
              (\<lambda>e. bindA (try_except (on_fst (dl_close D)) (\<lambda>e. isinstance_exn e PyException) (\<lambda>e. ret ())) (\<lambda>_. raise_act e)))
       (\<lambda>chunk. bindA (set_snd (\<lambda>cs. if chunk = [] then cs else cs @ [chunk])) (\<lambda>_. ret chunk))"

definition read_ready :: "'w io_delegate \<Rightarrow> 'w \<Rightarrow> bool" where
  "read_ready D w = (\<not> dl_closed D w \<and> dl_read_ready D w)"

definition write_ready :: "'w io_delegate \<Rightarrow> 'w \<Rightarrow> bool" where
  "write_ready D w = (\<not> dl_closed D w \<and> dl_write_ready D w)"

text \<open>The chunks that \<open>_readall\<close> yields, from the last to the first.\<close>

partial_function (option) readall_loop ::
  "'w io_delegate \<Rightarrow> nat \<Rightarrow> nat option \<Rightarrow> string list \<Rightarrow> 'w \<times> string list \<Rightarrow> (string list res \<times> ('w \<times> string list)) option" where
  "readall_loop D buffer_size n done s =
     (if \<not> read_ready D (fst s) then Some (Inr done, s)
      else (case stream_read D buffer_size n s of
              (Inl e, t) \<Rightarrow> Some (Inl e, t)
            | (Inr chunk, t) \<Rightarrow> if chunk = [] then Some (Inr done, t) else readall_loop D buffer_size n (chunk # done) t))"

definition readall :: "'w io_delegate \<Rightarrow> nat \<Rightarrow> nat option \<Rightarrow> ('w \<times> string list, string option) pact" where
  "readall D buffer_size n = bindP (readall_loop D buffer_size n []) (\<lambda>cs. retP (join_chunks (rev cs)))"

text \<open>All of the data is kept, also when only a part of it was written.\<close>

definition stream_write :: "'w io_delegate \<Rightarrow> string \<Rightarrow> ('w \<times> string list, nat) act" where
  "stream_write D data =
     bindA (on_fst (dl_write D data)) (\<lambda>k.
       bindA (set_snd (\<lambda>cs. cs @ [data])) (\<lambda>_. ret (case k of None \<Rightarrow> length data | Some k \<Rightarrow> k)))"

section \<open>Waiting for files\<close>

record ('w, 'f) select_env =
  sf_closed :: "'w \<Rightarrow> 'f \<Rightarrow> bool"
  sf_readable :: "'f \<Rightarrow> bool"
  sf_writable :: "'f \<Rightarrow> bool"
  sf_read_ready :: "'w \<Rightarrow> 'f \<Rightarrow> bool"
  sf_write_ready :: "'w \<Rightarrow> 'f \<Rightarrow> bool"
  sf_select :: "'f set \<Rightarrow> 'f set \<Rightarrow> 'f set \<Rightarrow> rat \<Rightarrow> ('w, 'f set \<times> 'f set \<times> 'f set) act"

definition select_opened_files :: "('w, 'f) select_env \<Rightarrow> 'w \<Rightarrow> 'f set \<Rightarrow> 'f set" where
  "select_opened_files S w files = {f \<in> files. \<not> sf_closed S w f}"

definition select_files ::
  "('w, 'f) select_env \<Rightarrow> 'f set \<Rightarrow> rat option \<Rightarrow> string \<Rightarrow> ('w, 'f set \<times> 'f set) act" where
  "select_files S files timeout mode w =
     (case timeout of
        None \<Rightarrow> (Raise PyValueError ''Invalid value for timeout: None'', w)
      | Some t \<Rightarrow>
          (let opened = select_opened_files S w files;
               readable = (if CHR ''r'' \<in> set mode then {f \<in> opened. sf_readable S f} else {});
               writable = (if CHR ''w'' \<in> set mode then {f \<in> opened. sf_writable S f} else {});
               r = {f \<in> readable. sf_read_ready S w f};
               wr = {f \<in> writable. sf_write_ready S w f}
           in if r = {} \<and> wr = {}
              then bindA (sf_select S readable writable opened t)
                     (\<lambda>(rlist, wlist, xlist). ret (readable \<inter> (rlist \<union> xlist), writable \<inter> (wlist \<union> xlist))) w
              else (Inr (r, wr), w)))"

section \<open>Nothing is lost\<close>

lemma concat_filter: "concat (filter (\<lambda>c. c \<noteq> []) cs) = concat cs"
  by (induction cs) auto

text \<open>
  Asking for the data of a stream gives all its chunks in order, and keeps them:
  asking again gives the same, and joining the chunks of a reader gives what they hold, or nothing
  when they are empty.
\<close>
theorem stream_data_keeps:
  "concat (snd (stream_data cs)) = concat cs \<and> stream_str cs = concat cs \<and>
   stream_data (snd (stream_data cs)) = stream_data cs \<and>
   join_chunks cs = (if concat cs = [] then None else Some (concat cs))"
proof (intro conjI)
  show "join_chunks cs = (if concat cs = [] then None else Some (concat cs))"
    by (induction cs) (auto simp: join_chunks_def concat_filter)
qed (auto simp: stream_data_def stream_str_def split: list.split)

lemma readall_loop_chunks:
  assumes "readall_loop D b n done s = Some (Inr cs, t)"
  shows "\<exists>new. cs = rev new @ done \<and> snd t = snd s @ new \<and> [] \<notin> set new"
proof -
  have "fst y = Inr cs \<longrightarrow> (\<exists>new. cs = rev new @ done \<and> snd (snd y) = snd s @ new \<and> [] \<notin> set new)"
    if "readall_loop D b n done s = Some y" for D b n "done" s y
  proof (rule readall_loop.raw_induct[where P = "\<lambda>D b n done s y.
      fst y = Inr cs \<longrightarrow> (\<exists>new. cs = rev new @ done \<and> snd (snd y) = snd s @ new \<and> [] \<notin> set new)", OF _ that], goal_cases)
    case (1 self D b n "done" s y)
    show ?case
    proof (cases "read_ready D (fst s)")
      case False
      with 1(2) show ?thesis by auto
    next
      case True
      obtain r u where r: "stream_read D b n s = (r, u)" by (cases "stream_read D b n s") blast
      show ?thesis
      proof (cases r)
        case (Inl e)
        with True r 1(2) show ?thesis by auto
      next
        case (Inr c)
        have u: "snd u = (if c = [] then snd s else snd s @ [c])"
          using r Inr by (auto simp: stream_read_def bindA_eq_Inr set_snd_def ret_def try_except_def on_fst_def raise_act_def
              split: sum.splits prod.splits if_splits)
        show ?thesis
        proof (cases "c = []")
          case True
          with u r Inr \<open>read_ready D (fst s)\<close> 1(2) show ?thesis by auto
        next
          case False
          with r Inr \<open>read_ready D (fst s)\<close> 1(2) have "self D b n (c # done) u = Some y" by simp
          note ih = 1(1)[OF this]
          show ?thesis
          proof
            assume "fst y = Inr cs"
            with ih obtain new where "cs = rev new @ c # done" "snd (snd y) = snd u @ new" "[] \<notin> set new" by blast
            with u False show "\<exists>new. cs = rev new @ done \<and> snd (snd y) = snd s @ new \<and> [] \<notin> set new"
              by (intro exI[of _ "c # new"]) simp
          qed
        qed
      qed
    qed
  qed
  from this[OF assms] show ?thesis by simp
qed

text \<open>
  Reading all of a stream gives the data that was read, in order, and appends
  it to the data that the stream keeps; no chunk that is kept is empty.
\<close>
theorem readall_appends:
  assumes "readall D b n s = Some (Inr r, t)"
  shows "\<exists>new. snd t = snd s @ new \<and> [] \<notin> set new \<and> r = (if new = [] then None else Some (concat new))"
proof -
  obtain cs where cs: "readall_loop D b n [] s = Some (Inr cs, t)" and r: "r = join_chunks (rev cs)"
    using assms by (auto simp: readall_def bindP_def retP_def split: option.splits prod.splits sum.splits)
  obtain new where new: "cs = rev new" "snd t = snd s @ new" "[] \<notin> set new"
    using readall_loop_chunks[OF cs] by auto
  have "concat new = [] \<longleftrightarrow> new = []" using new(3) by (cases new) auto
  with new r stream_data_keeps[of new] show ?thesis by auto
qed

end
