(* ===== verification/Shell_Communicate.thy ===== *)
theory Shell_Communicate
  imports Shell_Process Shell_Io Cloud_Waits
begin

text \<open>
  tobiko/shell/sh/_process.py, \<open>communicate\<close>: the loop that feeds the standard input of a process
  and reads its outputs, one ready stream at a time. The files behind the streams, selecting them
  and waiting for the exit status are parameters.
\<close>

section \<open>The streams of a process\<close>

text \<open>The world with the chunks that each stream keeps.\<close>

type_synonym 'w streams = "'w \<times> (stream_name \<Rightarrow> string list)"

record 'w comm_lib =
  cl_file :: "stream_name \<Rightarrow> 'w io_delegate"
  cl_select :: "stream_name set \<Rightarrow> stream_name set \<Rightarrow> stream_name set \<Rightarrow> rat \<Rightarrow>
     ('w, stream_name set \<times> stream_name set \<times> stream_name set) act"
  cl_status :: "rat option \<Rightarrow> ('w, int) act"
  cl_stdin_closed :: exn
  cl_buffer :: nat
  cl_poll :: rat

definition stream_files :: "'w comm_lib \<Rightarrow> ('w, stream_name) select_env" where
  "stream_files C =
     \<lparr>sf_closed = (\<lambda>w p. dl_closed (cl_file C p) w), sf_readable = (\<lambda>p. p \<noteq> Stdin), sf_writable = (\<lambda>p. p = Stdin),
      sf_read_ready = (\<lambda>w p. read_ready (cl_file C p) w), sf_write_ready = (\<lambda>w p. write_ready (cl_file C p) w),
      sf_select = cl_select C\<rparr>"

definition on_stream :: "stream_name \<Rightarrow> ('w \<times> string list, 'a) act \<Rightarrow> ('w streams, 'a) act" where
  "on_stream p m s = (case m (fst s, snd s p) of (r, (w, c)) \<Rightarrow> (r, (w, (snd s)(p := c))))"

text \<open>What is left to send; no data is the empty text here.\<close>

definition write_to_stdin :: "'w comm_lib \<Rightarrow> string \<Rightarrow> ('w streams, string) act" where
  "write_to_stdin C data s =
     (if dl_closed (cl_file C Stdin) (fst s) then (Inl (cl_stdin_closed C), s)
      else bindA (on_stream Stdin (stream_write (cl_file C Stdin) data))
             (\<lambda>k. if k \<noteq> 0 then ret (drop k data)
                  else bindA (on_fst (dl_close (cl_file C Stdin))) (\<lambda>_. ret data)) s)"

definition read_from :: "'w comm_lib \<Rightarrow> stream_name \<Rightarrow> nat option \<Rightarrow> ('w streams, string option) act" where
  "read_from C p buffer_size =
     bindA (on_stream p (stream_read (cl_file C p) (cl_buffer C) buffer_size))
       (\<lambda>chunk. if chunk \<noteq> [] then ret (Some chunk)
                else bindA (on_fst (dl_close (cl_file C p))) (\<lambda>_. ret None))"

section \<open>The loop\<close>

definition is_communicating :: "stream_name set \<Rightarrow> string \<Rightarrow> bool \<Rightarrow> bool" where
  "is_communicating files send receive \<longleftrightarrow>
     send \<noteq> [] \<and> Stdin \<in> files \<or> receive \<and> {Stdout, Stderr} \<inter> files \<noteq> {}"

text \<open>The variables of the loop: what is left to send, the streams, and how long to wait for them.\<close>

type_synonym comm_vars = "string \<times> stream_name set \<times> rat"

definition write_part :: "'w comm_lib \<Rightarrow> stream_name set \<Rightarrow> ('w streams \<times> comm_vars, unit) act" where
  "write_part C ready =
     (if Stdin \<in> ready
      then (\<lambda>(s, (send, files, poll)). case write_to_stdin C send s of
              (Inl e, t) \<Rightarrow> (Inl e, (t, (send, files, poll)))
            | (Inr left, t) \<Rightarrow> (Inr (), (t, (left, if left = [] then files - {Stdin} else files, poll))))
      else ret ())"

definition read_part :: "'w comm_lib \<Rightarrow> nat option \<Rightarrow> stream_name set \<Rightarrow> stream_name \<Rightarrow> ('w streams \<times> comm_vars, unit) act" where
  "read_part C buffer_size ready p =
     (if p \<in> ready
      then (\<lambda>(s, (send, files, poll)). case read_from C p buffer_size s of
              (Inl e, t) \<Rightarrow> (Inl e, (t, (send, files, poll)))
            | (Inr chunk, t) \<Rightarrow> (Inr (), (t, (send, if chunk = None then files - {p} else files, poll))))
      else ret ())"

text \<open>\<open>_check_communicate_timeout\<close>: waiting for the exit status may raise before the limit's own error.\<close>

definition check_communicate_timeout :: "'w comm_lib \<Rightarrow> rat option \<Rightarrow> retry_attempt \<Rightarrow> ('w, unit) act" where
  "check_communicate_timeout C timeout attempt =
     (case check_limits None attempt of
        Inl e \<Rightarrow> if isinstance_exn e RetryTimeLimitError then bindA (cl_status C timeout) (\<lambda>_. raise_act e) else raise_act e
      | Inr _ \<Rightarrow> ret ())"

definition communicate_turn ::
  "'w comm_lib \<Rightarrow> rat option \<Rightarrow> bool \<Rightarrow> nat option \<Rightarrow> retry_attempt \<Rightarrow> ('w streams \<times> comm_vars, unit turn) act" where
  "communicate_turn C timeout receive_all buffer_size attempt =
     (\<lambda>(s, (send, files, poll)).
        if \<not> is_communicating files send receive_all then (Inr (Done ()), (s, (send, files, poll)))
        else (let opened = select_opened_files (stream_files C) (fst s) files
              in case on_fst (select_files (stream_files C) opened (Some poll) ''rw'') s of
                   (Inl e, t) \<Rightarrow> (Inl e, (t, (send, opened, poll)))
                 | (Inr (read_set, write_set), t) \<Rightarrow>
                     if read_set \<noteq> {} \<or> write_set \<noteq> {}
                     then bindA (write_part C write_set) (\<lambda>_.
                          bindA (read_part C buffer_size read_set Stdout) (\<lambda>_.
                          bindA (read_part C buffer_size read_set Stderr) (\<lambda>_. ret Next)))
                            (t, (send, opened, 0))
                     else bindA (on_fst (on_fst (check_communicate_timeout C timeout attempt))) (\<lambda>_.
                          bindA (set_snd (\<lambda>(send, files, _). (send, files, cl_poll C))) (\<lambda>_. ret Next))
                            (t, (send, opened, poll))))"

definition asked_files :: "string \<Rightarrow> bool \<Rightarrow> bool \<Rightarrow> stream_name set" where
  "asked_files send out err =
     (if send \<noteq> [] then {Stdin} else {}) \<union> (if out then {Stdout} else {}) \<union> (if err then {Stderr} else {})"

definition communicate ::
  "'z world_scheme comm_lib \<Rightarrow> string \<Rightarrow> bool \<Rightarrow> bool \<Rightarrow> rat option \<Rightarrow> bool \<Rightarrow> nat option \<Rightarrow>
   'z world_scheme streams \<Rightarrow> (unit res \<times> ('z world_scheme streams \<times> comm_vars)) option" where
  "communicate C send out err timeout receive_all buffer_size s =
     retry_iter (\<lambda>v. py_time (fst (fst v))) (\<lambda>d v. ((py_sleep d (fst (fst v)), snd (fst v)), snd v))
       (mk_retry None timeout None None) (communicate_turn C timeout receive_all buffer_size)
       (s, (send, select_opened_files (stream_files C) (fst s) (asked_files send out err), 0))"

section \<open>Data is sent in order\<close>

text \<open>
  The documented behaviour of the files: writing takes the first bytes, as many as it says, or all
  when it does not say; nothing else sends, and a closed file stays closed.
\<close>

definition steady :: "('w \<Rightarrow> string) \<Rightarrow> 'w comm_lib \<Rightarrow> ('w, 'a) act \<Rightarrow> bool" where
  "steady sent C m \<longleftrightarrow>
     (\<forall>w. sent (snd (m w)) = sent w \<and> (dl_closed (cl_file C Stdin) w \<longrightarrow> dl_closed (cl_file C Stdin) (snd (m w))))"

definition in_order :: "('w \<Rightarrow> string) \<Rightarrow> 'w comm_lib \<Rightarrow> bool" where
  "in_order sent C \<longleftrightarrow>
     (\<forall>p. steady sent C (dl_close (cl_file C p))) \<and> (\<forall>p n. steady sent C (dl_read (cl_file C p) n)) \<and>
     (\<forall>r w x t. steady sent C (cl_select C r w x t)) \<and> (\<forall>t. steady sent C (cl_status C t)) \<and>
     (\<forall>d w k w'. dl_write (cl_file C Stdin) d w = (Inr k, w') \<longrightarrow>
        sent w' = sent w @ (case k of None \<Rightarrow> d | Some k \<Rightarrow> take k d))"

text \<open>Between two turns, what is sent and what is left make the whole; what is left has an open stream.\<close>

definition sending :: "('w \<Rightarrow> string) \<Rightarrow> 'w comm_lib \<Rightarrow> string \<Rightarrow> 'w streams \<times> comm_vars \<Rightarrow> bool" where
  "sending sent C whole v \<longleftrightarrow>
     (case v of ((w, _), (send, files, _)) \<Rightarrow>
        sent w @ send = whole \<and> (send \<noteq> [] \<longrightarrow> Stdin \<in> files \<or> dl_closed (cl_file C Stdin) w))"

lemma sending_steady:
  assumes "steady sent C m" and "m w = (r, w')" and "sending sent C whole ((w, cs), (send, files, poll))"
    and "Stdin \<in> files \<longrightarrow> Stdin \<in> files' \<or> dl_closed (cl_file C Stdin) w"
  shows "sending sent C whole ((w', cs'), (send, files', poll'))"
proof -
  from assms(1) have "sent w' = sent w" and "dl_closed (cl_file C Stdin) w \<longrightarrow> dl_closed (cl_file C Stdin) w'"
    using assms(2) unfolding steady_def by (metis snd_conv)+
  with assms(3,4) show ?thesis by (auto simp: sending_def)
qed

lemma stream_read_Inr:
  "stream_read D b n (w, cs) = (Inr c, (w', cs')) \<Longrightarrow>
     (\<exists>r. dl_read D (read_size b n) w = (Inr r, w')) \<and> cs' = (if c = [] then cs else cs @ [c])"
  by (auto simp: stream_read_def bindA_def try_except_def on_fst_def set_snd_def ret_def raise_act_def
      split: sum.splits prod.splits if_splits)

lemma stream_write_Inr:
  "stream_write D d (w, cs) = (Inr k, (w', cs')) \<Longrightarrow>
     (\<exists>r. dl_write D d w = (Inr r, w') \<and> k = (case r of None \<Rightarrow> length d | Some k \<Rightarrow> k)) \<and> cs' = cs @ [d]"
  by (auto simp: stream_write_def bindA_def on_fst_def set_snd_def ret_def split: sum.splits prod.splits option.splits)

lemma write_part_sending:
  assumes C: "in_order sent C" and w: "write_part C ready ((w, cs), (send, files, poll)) = (Inr u, t)"
    and J: "sending sent C whole ((w, cs), (send, files, poll))" and sub: "Stdin \<in> ready \<Longrightarrow> Stdin \<in> files"
  shows "sending sent C whole t"
proof (cases "Stdin \<in> ready")
  case False
  with w J show ?thesis by (simp add: write_part_def ret_def)
next
  case True
  from w True obtain rest w' cs' where ws: "write_to_stdin C send (w, cs) = (Inr rest, (w', cs'))"
    and t: "t = ((w', cs'), (rest, if rest = [] then files - {Stdin} else files, poll))"
    by (auto simp: write_part_def split: prod.splits sum.splits)
  then obtain k w1 cs1 where sw: "stream_write (cl_file C Stdin) send (w, cs Stdin) = (Inr k, (w1, cs1))"
    and rest: "if k \<noteq> 0 then rest = drop k send \<and> w' = w1 else rest = send \<and> (\<exists>r. dl_close (cl_file C Stdin) w1 = (r, w'))"
    by (auto simp: write_to_stdin_def bindA_def on_stream_def on_fst_def ret_def split: if_splits prod.splits sum.splits)
  from stream_write_Inr[OF sw] obtain r where r: "dl_write (cl_file C Stdin) send w = (Inr r, w1)"
    and k: "k = (case r of None \<Rightarrow> length send | Some k \<Rightarrow> k)" by auto
  from C r have s1: "sent w1 = sent w @ (case r of None \<Rightarrow> send | Some k \<Rightarrow> take k send)" by (simp add: in_order_def)
  have "sent w' = sent w1" using rest C by (auto simp: in_order_def steady_def split: if_splits dest: spec) (metis snd_conv)
  with s1 rest k have "sent w' @ rest = sent w @ send" by (auto split: option.splits if_splits)
  with J t True sub show ?thesis by (auto simp: sending_def)
qed

lemma read_part_sending:
  assumes C: "in_order sent C" and w: "read_part C n ready p v = (Inr u, t)" and J: "sending sent C whole v" and p: "p \<noteq> Stdin"
  shows "sending sent C whole t"
proof (cases "p \<in> ready")
  case False
  with w J show ?thesis by (simp add: read_part_def ret_def)
next
  case True
  obtain w0 cs0 send files poll where v: "v = ((w0, cs0), (send, files, poll))" by (metis surj_pair)
  from w True v obtain chunk w' cs' where rf: "read_from C p n (w0, cs0) = (Inr chunk, (w', cs'))"
    and t: "t = ((w', cs'), (send, if chunk = None then files - {p} else files, poll))"
    by (auto simp: read_part_def split: prod.splits sum.splits)
  then obtain c w1 cs1 where sr: "stream_read (cl_file C p) (cl_buffer C) n (w0, cs0 p) = (Inr c, (w1, cs1))"
    and c: "if c \<noteq> [] then w' = w1 else \<exists>r. dl_close (cl_file C p) w1 = (r, w')"
    by (auto simp: read_from_def bindA_def on_stream_def on_fst_def ret_def split: if_splits prod.splits sum.splits)
  from stream_read_Inr[OF sr] obtain r where r: "dl_read (cl_file C p) (read_size (cl_buffer C) n) w0 = (Inr r, w1)" by auto
  from C have rd: "steady sent C (dl_read (cl_file C p) (read_size (cl_buffer C) n))" and cl: "steady sent C (dl_close (cl_file C p))"
    by (auto simp: in_order_def)
  from sending_steady[OF rd r, of whole cs0 send files poll files cs0 poll] J v
  have J1: "sending sent C whole ((w1, cs1'), (send, files, poll))" for cs1' by (simp add: sending_def)
  show ?thesis
  proof (cases "c = []")
    case False
    with c J1 t p show ?thesis by (auto simp: sending_def split: if_splits)
  next
    case True
    with c obtain q where "dl_close (cl_file C p) w1 = (q, w')" by auto
    from sending_steady[OF cl this J1] t p show ?thesis by auto
  qed
qed

lemma select_files_ready:
  "select_files S files (Some x) ''rw'' w = (Inr (r, wr), w') \<Longrightarrow>
     wr \<subseteq> files \<and> r \<subseteq> files \<and> (w' = w \<or> (\<exists>a b q. sf_select S a b (select_opened_files S w files) x w = (q, w')))"
  by (auto simp: select_files_def Let_def bindA_def ret_def select_opened_files_def split: if_splits prod.splits sum.splits)

lemma turn_sending:
  assumes C: "in_order sent C" and w: "communicate_turn C timeout all n a v = (Inr x, t)" and J: "sending sent C whole v"
  shows "sending sent C whole t \<and> (x = Done () \<longrightarrow> (\<exists>s send files poll. t = (s, (send, files, poll)) \<and> \<not> is_communicating files send all))"
proof -
  obtain w0 cs0 send files poll where v: "v = ((w0, cs0), (send, files, poll))" by (metis surj_pair)
  show ?thesis
  proof (cases "is_communicating files send all")
    case False
    with w v J show ?thesis by (auto simp: communicate_turn_def)
  next
    case True
    let ?opened = "select_opened_files (stream_files C) w0 files"
    have keep: "Stdin \<in> files \<longrightarrow> Stdin \<in> ?opened \<or> dl_closed (cl_file C Stdin) w0"
      by (auto simp: select_opened_files_def stream_files_def)
    obtain q w1 where q: "select_files (stream_files C) ?opened (Some poll) ''rw'' w0 = (q, w1)" by fastforce
    show ?thesis
    proof (cases q)
      case (Inl e)
      with w v True q show ?thesis by (simp add: communicate_turn_def on_fst_def Let_def)
    next
      case (Inr rw)
      obtain r wr where rw: "rw = (r, wr)" by (cases rw) blast
      from select_files_ready[OF q[unfolded Inr rw]] have sub: "wr \<subseteq> ?opened"
        and sel: "w1 = w0 \<or> (\<exists>a b q. cl_select C a b (select_opened_files (stream_files C) w0 ?opened) poll w0 = (q, w1))"
        by (auto simp: stream_files_def)
      have J1: "sending sent C whole ((w1, cs0), (send, ?opened, poll'))" for poll'
        using sel
      proof (elim disjE exE)
        assume "w1 = w0"
        with J v keep show ?thesis by (auto simp: sending_def)
      next
        fix a b q assume sl: "cl_select C a b (select_opened_files (stream_files C) w0 ?opened) poll w0 = (q, w1)"
        have st: "steady sent C (cl_select C a b (select_opened_files (stream_files C) w0 ?opened) poll)"
          using C by (simp add: in_order_def)
        show ?thesis by (rule sending_steady[OF st sl J[unfolded v] keep])
      qed
      show ?thesis
      proof (cases "r \<noteq> {} \<or> wr \<noteq> {}")
        case some: True
        from w v True q Inr rw some have "bindA (write_part C wr) (\<lambda>_. bindA (read_part C n r Stdout) (\<lambda>_.
            bindA (read_part C n r Stderr) (\<lambda>_. ret Next))) ((w1, cs0), (send, ?opened, 0)) = (Inr x, t)"
          by (auto simp: communicate_turn_def on_fst_def Let_def)
        then obtain t1 t2 where p: "write_part C wr ((w1, cs0), (send, ?opened, 0)) = (Inr (), t1)"
          "read_part C n r Stdout t1 = (Inr (), t2)" "read_part C n r Stderr t2 = (Inr (), t)" and x: "x = Next"
          by (auto simp: bindA_def ret_def split: prod.splits sum.splits)
        from write_part_sending[OF C p(1) J1] sub have "sending sent C whole t1" by blast
        from read_part_sending[OF C p(3) read_part_sending[OF C p(2) this]] x show ?thesis by simp
      next
        case none: False
        from w v True q Inr rw none obtain w2 where cc: "check_communicate_timeout C timeout a w1 = (Inr (), w2)"
          and t: "t = ((w2, cs0), (send, ?opened, cl_poll C))" and x: "x = Next"
          by (auto simp: communicate_turn_def on_fst_def Let_def bindA_def set_snd_def ret_def split: prod.splits sum.splits)
        from cc have "w2 = w1"
          by (auto simp: check_communicate_timeout_def bindA_def raise_act_def ret_def split: sum.splits if_splits prod.splits)
        with J1 t x show ?thesis by simp
      qed
    qed
  qed
qed

text \<open>
  Sending data through communicate: when it returns, what was sent and what is left make the data, in order,
  and something is left only when the stream was closed before.
\<close>
theorem sent_in_order:
  assumes "in_order sent C" and sleep: "\<And>d. steady sent C (\<lambda>w. (Inr (), py_sleep d w))"
    and com: "communicate C data out err timeout receive_all n (w, cs) = Some (Inr u, ((w', cs'), vars))"
  shows "\<exists>rest. sent w' @ rest = sent w @ data \<and> (rest = [] \<or> dl_closed (cl_file C Stdin) w')"
proof -
  let ?Q = "\<lambda>(r :: unit res) v. \<forall>u. r = Inr u \<longrightarrow> sending sent C (sent w @ data) v \<and> (\<exists>s send files poll. v = (s, (send, files, poll)) \<and> \<not> is_communicating files send receive_all)"
  have "?Q (Inr u) ((w', cs'), vars)"
    using com unfolding communicate_def
  proof (rule iter_invariant[where I = "\<lambda>n. sending sent C (sent w @ data)" and Q = ?Q], goal_cases)
    case 1
    show ?case by (auto simp: sending_def asked_files_def select_opened_files_def stream_files_def)
  next
    case (2 n d s)
    obtain w0 cs0 send files poll where "s = ((w0, cs0), (send, files, poll))" by (metis surj_pair)
    with 2 sending_steady[OF sleep[of d] refl, where w = w0 and cs = cs0 and send = send and files = files and poll = poll and files' = files and cs' = cs0 and poll' = poll] show ?case by simp
  next
    case (4 st n el s x t)
    from turn_sending[OF assms(1) 4(2,1)] show ?case by simp
  next
    case (6 st n el s t)
    from turn_sending[OF assms(1) 6(2,1)] show ?case by simp
  qed simp_all
  then show ?thesis by (cases vars) (auto simp: sending_def is_communicating_def)
qed

text \<open>
  All of the data is kept again by each write that takes a part of it, so that the report of what was sent
  repeats it: a stream that takes one byte at a time keeps "ab" and then "b".
\<close>
theorem partial_write_repeated:
  assumes "dl_write D d w = (Inr (Some k), w')" "dl_write D (drop k d) w' = (Inr (Some l), w'')"
  shows "stream_write D (drop k d) (snd (stream_write D d (w, cs))) = (Inr l, (w'', cs @ [d, drop k d])) \<and>
    stream_str (cs @ [d, drop k d]) = stream_str cs @ d @ drop k d"
  using assms stream_data_keeps[of cs] stream_data_keeps[of "cs @ [d, drop k d]"]
  by (simp add: stream_write_def bindA_def on_fst_def set_snd_def ret_def)

section \<open>An example: one byte at a time\<close>

record pipe_world = world +
  pw_sent :: string

definition byte_file :: "pipe_world io_delegate" where
  "byte_file = \<lparr>dl_read = (\<lambda>n. ret None), dl_write = (\<lambda>d w. (Inr (Some 1), w\<lparr>pw_sent := pw_sent w @ take 1 d\<rparr>)),
     dl_close = ret (), dl_closed = (\<lambda>w. False), dl_read_ready = (\<lambda>w. False), dl_write_ready = (\<lambda>w. True)\<rparr>"

definition byte_lib :: "pipe_world comm_lib" where
  "byte_lib = \<lparr>cl_file = (\<lambda>p. byte_file), cl_select = (\<lambda>r w x t. ret ({}, {}, {})), cl_status = (\<lambda>t. ret 0),
     cl_stdin_closed = Exn ShellStdinClosed [], cl_buffer = 8192, cl_poll = 1\<rparr>"

lemma byte_lib_in_order: "in_order pw_sent byte_lib" "steady pw_sent byte_lib (\<lambda>w. (Inr (), py_sleep d w))"
  by (auto simp: in_order_def steady_def byte_lib_def byte_file_def ret_def py_sleep_def Let_def)

lemma byte_turn:
  "communicate_turn byte_lib timeout False None a ((\<lparr>wtime = 0, pw_sent = x\<rparr>, cs), (c # rest, {Stdin, Stdout, Stderr}, 0)) =
     (Inr Next, ((\<lparr>wtime = 0, pw_sent = x @ [c]\<rparr>, cs(Stdin := cs Stdin @ [c # rest])),
        (rest, {Stdin, Stdout, Stderr} - (if rest = [] then {Stdin} else {}), 0)))"
proof -
  have o: "select_opened_files (stream_files byte_lib) w f = f" for w f
    by (simp add: select_opened_files_def stream_files_def byte_lib_def byte_file_def)
  have s: "select_files (stream_files byte_lib) {Stdin, Stdout, Stderr} (Some 0) ''rw'' w = (Inr ({}, {Stdin}), w)" for w
    by (auto simp: select_files_def select_opened_files_def stream_files_def byte_lib_def byte_file_def read_ready_def write_ready_def Let_def)
  have w: "write_to_stdin byte_lib (c # rest) (\<lparr>wtime = 0, pw_sent = x\<rparr>, cs) =
      (Inr rest, (\<lparr>wtime = 0, pw_sent = x @ [c]\<rparr>, cs(Stdin := cs Stdin @ [c # rest])))"
    by (simp add: write_to_stdin_def byte_lib_def byte_file_def on_stream_def stream_write_def bindA_def on_fst_def set_snd_def ret_def)
  show ?thesis
    by (simp add: communicate_turn_def is_communicating_def o s on_fst_def Let_def bindA_def write_part_def w read_part_def ret_def)
qed

lemma byte_sent:
  "communicate byte_lib ''ab'' True True None False None (\<lparr>wtime = 0, pw_sent = []\<rparr>, (\<lambda>p. [])) =
     Some (Inr (), ((\<lparr>wtime = 0, pw_sent = ''ab''\<rparr>, (\<lambda>p. [])(Stdin := [''ab'', ''b''])), ([], {Stdout, Stderr}, 0)))"
proof -
  have o: "select_opened_files (stream_files byte_lib) w f = f" for w f
    by (simp add: select_opened_files_def stream_files_def byte_lib_def byte_file_def)
  have l: "check_limits None (retry_number (mk_retry None None None None) st n el) = Inr ()" for st n el
    by (simp add: check_limits_None count_left_def time_left_def retry_number_sel mk_retry_def to_secs_def)
  have e: "insert Stdin (insert Stdout {Stderr}) - {Stdin} = {Stdout, Stderr}" by auto
  have d: "communicate_turn byte_lib None False None a (s, ([], files, 0)) = (Inr (Done ()), (s, ([], files, 0)))" for a s files
    by (simp add: communicate_turn_def is_communicating_def)
  have p: "retry_pause now slp (mk_retry None None None None) a v = (now v - at_start a, v)" for now :: "'x \<Rightarrow> rat" and slp a v
    by (simp add: retry_pause_def mk_retry_def to_secs_def Let_def)
  have next1: "retry_loop now slp (mk_retry None None None None) body st n el v =
      retry_loop now slp (mk_retry None None None None) body st (n + 1) (now v' - st) v'"
    if "\<And>a. body a v = (Inr Next, v')" for body :: "retry_attempt \<Rightarrow> ('x, 'y turn) act" and now slp st n el v v'
    by (subst retry_loop.simps) (simp add: that l p retry_number_sel Let_def)
  have f: "{Stdin, Stdout, Stderr} - {Stdin} = {Stdout, Stderr}" by auto
  have a: "asked_files ''ab'' True True = {Stdin, Stdout, Stderr}" by (auto simp: asked_files_def)
  show ?thesis
    unfolding communicate_def retry_iter_def a o
    by (subst next1, rule byte_turn, simp only: if_False list.distinct Diff_empty, subst next1, rule byte_turn, simp only: simp_thms if_True f)
      (subst retry_loop.simps, simp add: d Let_def)
qed

lemma sent_in_order_witness: "\<exists>rest. ''ab'' @ rest = [] @ ''ab'' \<and> (rest = [] \<or> dl_closed (cl_file byte_lib Stdin) \<lparr>wtime = 0, pw_sent = ''ab''\<rparr>)"
  using sent_in_order[OF byte_lib_in_order byte_sent] by simp

lemma partial_write_repeated_witness: "stream_str ([] @ [''ab'', drop 1 ''ab'']) = ''abb''"
proof -
  have w: "dl_write byte_file d w = (Inr (Some 1), w\<lparr>pw_sent := pw_sent w @ take 1 d\<rparr>)" for d w by (simp add: byte_file_def)
  from partial_write_repeated[OF w w, of "''ab''" "\<lparr>wtime = 0, pw_sent = []\<rparr>" "[]"] show ?thesis by (simp add: stream_str_def stream_data_def)
qed

end
