(* ===== verification/Shell_Ssh.thy ===== *)
theory Shell_Ssh
  imports Shell_Process Shell_Io Shell_Logs Cloud_Waits
begin

text \<open>
  tobiko/shell/sh/_ssh.py and _local.py: starting a process on a remote host through an SSH client,
  or on the local host; its exit status and killing it. The SSH session and subprocess are
  parameters.
\<close>

section \<open>The text that is sent to a remote shell\<close>

definition environment_text :: "(string \<times> string) list \<Rightarrow> string" where
  "environment_text env = str_join '' '' (map (\<lambda>(k, v). k @ ''='' @ shlex_quote v) env)"

definition wrap_command :: "(string \<times> string) list \<Rightarrow> string option \<Rightarrow> string \<Rightarrow> string" where
  "wrap_command env current_dir command =
     (let command = (if env \<noteq> [] then environment_text env @ '' '' @ command else command)
      in case current_dir of None \<Rightarrow> command | Some d \<Rightarrow> ''cd '' @ d @ '' && '' @ command)"

section \<open>A remote process\<close>

text \<open>
  \<open>sp_session\<close> connects the client and opens a session, \<open>sp_exec\<close> executes a command in it,
  \<open>sp_close\<close> closes the client.
\<close>

record ('w, 'p) session_lib =
  sp_session :: "('w, 'p) act"
  sp_exec :: "'p \<Rightarrow> string \<Rightarrow> ('w, unit) act"
  sp_close :: "('w, unit) act"

record ssh_process_params =
  sq_env :: "(string \<times> string) list"
  sq_dir :: "string option"
  sq_timeout :: "rat option"
  sq_retry_count :: "int option"
  sq_retry_interval :: "rat option"
  sq_retry_timeout :: "rat option"

text \<open>The client's own limit when it is the higher one: \<open>v if (v and (own is None or v > own)) else own\<close>.\<close>

definition higher_limit :: "'n::{zero,ord} option \<Rightarrow> 'n option \<Rightarrow> 'n option" where
  "higher_limit v own =
     (case v of
        None \<Rightarrow> own
      | Some x \<Rightarrow> if x \<noteq> 0 \<and> (case own of None \<Rightarrow> True | Some y \<Rightarrow> x > y) then Some x else own)"

definition process_retry :: "ssh_process_params \<Rightarrow> rat option \<Rightarrow> int option \<Rightarrow> retry_obj" where
  "process_retry P client_timeout client_attempts =
     retry None None (higher_limit client_timeout (sq_timeout P)) None None
       (higher_limit client_attempts (sq_retry_count P)) (sq_retry_timeout P) None (sq_retry_interval P)"

text \<open>
  One attempt, on the world with the text of the command: the text is extended before it is
  executed, and what it was extended to is what the next attempt starts from.
\<close>

definition start_session :: "('w, 'p) session_lib \<Rightarrow> ssh_process_params \<Rightarrow> ('w \<times> string, 'p) act" where
  "start_session L P =
     bindA (on_fst (sp_session L)) (\<lambda>p.
     bindA (set_snd (wrap_command (sq_env P) (sq_dir P))) (\<lambda>_.
     bindA (\<lambda>s. on_fst (sp_exec L p (snd s)) s) (\<lambda>_. ret p)))"

definition timeout_expired :: "string \<Rightarrow> exn" where
  "timeout_expired command = Exn ShellTimeoutExpired (''command '' @ str_repr command @ '' timed out'')"

definition session_turn :: "('w, 'p) session_lib \<Rightarrow> ssh_process_params \<Rightarrow> retry_attempt \<Rightarrow> ('w \<times> string, 'p turn) act" where
  "session_turn L P a s =
     (case start_session L P s of
        (Inr p, t) \<Rightarrow> (Inr (Done p), t)
      | (Inl e, t) \<Rightarrow>
          if isinstance_exn e PyException
          then bindA (on_fst (sp_close L)) (\<lambda>_ u.
                 (case check_limits None a of
                    Inl e' \<Rightarrow> if isinstance_exn e' RetryTimeLimitError then (Inl (timeout_expired (snd u)), u) else (Inl e', u)
                  | Inr _ \<Rightarrow> (Inr Next, u))) t
          else (Inl e, t))"

definition ssh_create_process ::
  "('z world_scheme, 'p) session_lib \<Rightarrow> ssh_process_params \<Rightarrow> rat option \<Rightarrow> int option \<Rightarrow> ('z world_scheme \<times> string, 'p) pact" where
  "ssh_create_process L P client_timeout client_attempts =
     retry_iter (\<lambda>s. py_time (fst s)) (\<lambda>d s. (py_sleep d (fst s), snd s)) (process_retry P client_timeout client_attempts) (session_turn L P)"

section \<open>Exit status\<close>

text \<open>The status of a channel: -1 until it is known.\<close>

definition ssh_poll_status :: "int option \<Rightarrow> int option" where
  "ssh_poll_status st = (case st of Some s \<Rightarrow> if s < 0 then None else Some s | None \<Rightarrow> None)"

record 'w channel_lib =
  cn_ready :: "'w \<Rightarrow> bool"
  cn_wait :: "rat \<Rightarrow> ('w, bool) act"
  cn_status :: "'w \<Rightarrow> int"

definition ssh_get_status :: "'w channel_lib \<Rightarrow> rat option \<Rightarrow> ('w, int option) act" where
  "ssh_get_status C timeout =
     bindA (\<lambda>w. if cn_ready C w then (Inr True, w)
                else cn_wait C (case timeout of None \<Rightarrow> 120 | Some t \<Rightarrow> min t 120) w)
       (\<lambda>_ w. (Inr (if cn_status C w \<ge> 0 then Some (cn_status C w) else None), w))"

definition kill_quietly :: "('w, unit) act \<Rightarrow> ('w, unit) act" where
  "kill_quietly k = try_except k (\<lambda>e. isinstance_exn e PyException) (\<lambda>e. ret ())"

section \<open>A local process\<close>

definition merge_dictionaries :: "('k \<times> 'v) list list \<Rightarrow> ('k \<times> 'v) list" where
  "merge_dictionaries ds = foldl (\<lambda>merged d. if d \<noteq> [] then dict_update merged d else merged) [] ds"

definition PyFileMissing :: pyclass where
  "PyFileMissing = ''FileNotFoundError'' # ''OSError'' # PyException"

text \<open>\<open>popen\<close> is \<open>subprocess.Popen\<close> with the words and the environment.\<close>

definition local_create_process ::
  "(string list \<Rightarrow> (string \<times> string) list \<Rightarrow> ('w, 'p) act) \<Rightarrow> string list \<Rightarrow> (string \<times> string) list \<Rightarrow> (string \<times> string) list \<Rightarrow> ('w, 'p) act" where
  "local_create_process popen command environ environment =
     try_except (popen command (merge_dictionaries [environ, environment])) (\<lambda>e. isinstance_exn e PyFileMissing)
       (\<lambda>e. raise_act (Exn ShellCommandFailed (''command '' @ str_repr (join_command command) @ '' failed (exit status is -1)'')))"

text \<open>\<open>wait\<close> raises \<open>TimeoutExpired\<close> when the process goes on.\<close>

definition TimeoutExpired :: pyclass where
  "TimeoutExpired = ''TimeoutExpired'' # ''SubprocessError'' # PyException"

definition local_get_status :: "(rat option \<Rightarrow> ('w, int) act) \<Rightarrow> rat option \<Rightarrow> ('w, int option) act" where
  "local_get_status wait timeout =
     try_except (bindA (wait timeout) (\<lambda>s. ret (Some s))) (\<lambda>e. isinstance_exn e TimeoutExpired) (\<lambda>e. ret None)"

definition local_kill :: "(string \<Rightarrow> ('w, unit) act) \<Rightarrow> ('w, unit) act \<Rightarrow> int option \<Rightarrow> bool \<Rightarrow> ('w, unit) act" where
  "local_kill sudo_execute killer pid sudo =
     kill_quietly (if sudo then sudo_execute (''kill '' @ [CHR 0x27] @ (case pid of None \<Rightarrow> ''None'' | Some p \<Rightarrow> str_int p) @ [CHR 0x27]) else killer)"

text \<open>Which process a command is executed with: through the client, the default proxy, or here.\<close>

definition ssh_or_local :: "'c option \<Rightarrow> ('w, 'c option) act \<Rightarrow> ('w, 'c option) act" where
  "ssh_or_local client proxy = (case client of Some c \<Rightarrow> ret (Some c) | None \<Rightarrow> proxy)"

section \<open>What is executed\<close>

lemma start_session_text: "start_session L P s = (r, t) \<Longrightarrow> snd t = snd s \<or> snd t = wrap_command (sq_env P) (sq_dir P) (snd s)"
  by (auto simp: start_session_def bindA_def on_fst_def set_snd_def ret_def split: prod.splits sum.splits)

lemma start_session_ok:
  "start_session L P s = (Inr p, t) \<Longrightarrow>
     snd t = wrap_command (sq_env P) (sq_dir P) (snd s) \<and> (\<exists>w. sp_exec L p (snd t) w = (Inr (), fst t))"
  by (auto simp: start_session_def bindA_def on_fst_def set_snd_def ret_def split: prod.splits sum.splits)

lemma session_turn_Next: "session_turn L P a s = (Inr Next, t) \<Longrightarrow> \<exists>u. start_session L P s = u \<and> snd t = snd (snd u)"
  by (auto simp: session_turn_def bindA_def on_fst_def ret_def split: prod.splits sum.splits if_splits)

lemma session_turn_Done: "session_turn L P a s = (Inr (Done p), t) \<Longrightarrow> start_session L P s = (Inr p, t)"
  by (auto simp: session_turn_def bindA_def on_fst_def ret_def split: prod.splits sum.splits if_splits)

definition sent_text :: "('w, 'p) session_lib \<Rightarrow> (string \<Rightarrow> string) \<Rightarrow> string \<Rightarrow> 'p res \<Rightarrow> 'w \<times> string \<Rightarrow> bool" where
  "sent_text L wrap command r s \<longleftrightarrow>
     (\<forall>p. r = Inr p \<longrightarrow> (\<exists>k. 0 < k \<and> snd s = (wrap ^^ k) command \<and> (\<exists>u. sp_exec L p (snd s) u = (Inr (), fst s))))"

lemma remote_sent:
  assumes "ssh_create_process L P ct ca (w, command) = Some (r, s')"
  shows "sent_text L (wrap_command (sq_env P) (sq_dir P)) command r s'"
  using assms unfolding ssh_create_process_def
proof (rule iter_invariant[where I = "\<lambda>n s. \<exists>k. snd s = (wrap_command (sq_env P) (sq_dir P) ^^ k) command"])
  let ?wrap = "wrap_command (sq_env P) (sq_dir P)"
  show "\<exists>k. snd (w, command) = (?wrap ^^ k) command" by (rule exI[of _ 0]) simp
  show "sent_text L ?wrap command (Inr x) t"
    if k: "\<exists>k. snd s = (?wrap ^^ k) command" and d: "session_turn L P (retry_number (process_retry P ct ca) st n el) s = (Inr (Done x), t)"
    for st n el s x t
  proof -
    from k obtain k where "snd s = (?wrap ^^ k) command" by blast
    then have "snd t = (?wrap ^^ Suc k) command" and "\<exists>u. sp_exec L x (snd t) u = (Inr (), fst t)"
      using start_session_ok[OF session_turn_Done[OF d]] by auto
    then show ?thesis by (auto simp: sent_text_def simp del: funpow.simps)
  qed
  show "\<exists>k. snd t = (?wrap ^^ k) command"
    if k: "\<exists>k. snd s = (?wrap ^^ k) command" and d: "session_turn L P (retry_number (process_retry P ct ca) st n el) s = (Inr Next, t)"
    for st n el s t
  proof -
    obtain u where u: "start_session L P s = u" "snd t = snd (snd u)" using session_turn_Next[OF d] by blast
    from start_session_text[of L P s "fst u" "snd u"] u have "snd t = snd s \<or> snd t = ?wrap (snd s)" by simp
    with k show ?thesis by (metis funpow.simps(2) o_apply)
  qed
qed (auto simp: sent_text_def)

text \<open>
  The text that a remote process is started with is the command with its environment
  and directory put before it, one time or several: once for each attempt that got a session.
\<close>
theorem remote_text:
  assumes "ssh_create_process L P ct ca (w, command) = Some (Inr p, (w', text))"
  shows "\<exists>k. 0 < k \<and> text = (wrap_command (sq_env P) (sq_dir P) ^^ k) command \<and> (\<exists>u. sp_exec L p text u = (Inr (), w'))"
  using remote_sent[OF assms] by (simp add: sent_text_def)

text \<open>
  A command whose first execution fails is executed a second time with its
  environment and directory before it twice.
\<close>
theorem wrapped_twice:
  assumes "sp_session L w = (Inr p, w1)" and "sp_exec L p (wrap_command (sq_env P) (sq_dir P) command) w1 = (Inl e, w2)"
    and "isinstance_exn e PyException" and "sp_close L w2 = (Inr (), w3)"
    and "check_limits None (retry_number R st 1 el) = Inr ()"
  shows "session_turn L P (retry_number R st 1 el) (w, command) = (Inr Next, (w3, wrap_command (sq_env P) (sq_dir P) command)) \<and>
    (sp_session L w3 = (Inr p, w1) \<longrightarrow>
       start_session L P (w3, wrap_command (sq_env P) (sq_dir P) command) =
         bindA (on_fst (sp_exec L p (wrap_command (sq_env P) (sq_dir P) (wrap_command (sq_env P) (sq_dir P) command)))) (\<lambda>_. ret p)
           (w1, wrap_command (sq_env P) (sq_dir P) (wrap_command (sq_env P) (sq_dir P) command)))"
  using assms by (simp add: session_turn_def start_session_def bindA_def on_fst_def set_snd_def)

text \<open>
  Starting a remote process ends when a number of attempts is known, from the client
  or from the process; without an environment and a directory the command is sent as it is.
\<close>
theorem remote_start_ends:
  assumes "higher_limit ca (sq_retry_count P) = Some n" and "n \<noteq> 0"
  shows "ends (ssh_create_process L P ct ca)"
    and "sq_env P = [] \<Longrightarrow> sq_dir P = None \<Longrightarrow> ssh_create_process L P ct ca (w, command) = Some (Inr p, (w', text)) \<Longrightarrow> text = command"
proof -
  have "rt_count (process_retry P ct ca) = Some n" using assms by (simp add: process_retry_def retry_def mk_retry_def opt_or_def Let_def)
  then show "ends (ssh_create_process L P ct ca)" unfolding ssh_create_process_def retry_iter_eq by (rule retry_count_ends) simp
  assume "sq_env P = []" "sq_dir P = None" and r: "ssh_create_process L P ct ca (w, command) = Some (Inr p, (w', text))"
  then have "wrap_command (sq_env P) (sq_dir P) = id" by (auto simp: wrap_command_def)
  then show "text = command" using remote_sent[OF r] by (auto simp: sent_text_def)
qed

section \<open>Examples\<close>

definition demo_process :: ssh_process_params where
  "demo_process = \<lparr>sq_env = [(''A'', ''x y'')], sq_dir = Some ''d'', sq_timeout = None, sq_retry_count = Some 2, sq_retry_interval = None,
     sq_retry_timeout = None\<rparr>"

definition demo_session :: "(world, nat) session_lib" where
  "demo_session = \<lparr>sp_session = ret 1, sp_exec = (\<lambda>p c. ret ()), sp_close = ret ()\<rparr>"

lemma demo_start:
  "ssh_create_process demo_session demo_process None None (\<lparr>wtime = 0\<rparr>, ''ls'') =
     Some (Inr 1, (\<lparr>wtime = 0\<rparr>, wrap_command [(''A'', ''x y'')] (Some ''d'') ''ls''))"
  unfolding ssh_create_process_def
  by (rule retry_iter_first)
    (simp add: session_turn_def start_session_def demo_session_def demo_process_def bindA_def on_fst_def set_snd_def ret_def)

lemma remote_text_witness:
  "wrap_command [(''A'', ''x y'')] (Some ''d'') ''ls'' = ''cd d && A='' @ [CHR 0x27] @ ''x y'' @ [CHR 0x27] @ '' ls'' \<and>
   (\<exists>k. 0 < k \<and> wrap_command [(''A'', ''x y'')] (Some ''d'') ''ls'' = (wrap_command (sq_env demo_process) (sq_dir demo_process) ^^ k) ''ls'')"
proof
  show "wrap_command [(''A'', ''x y'')] (Some ''d'') ''ls'' = ''cd d && A='' @ [CHR 0x27] @ ''x y'' @ [CHR 0x27] @ '' ls''" by code_simp
qed (use remote_text[OF demo_start] in blast)

lemma wrapped_twice_witness:
  "session_turn (demo_session\<lparr>sp_exec := (\<lambda>p c. raise_act (Exn PyOSError ''reset''))\<rparr>) demo_process (retry_number (process_retry demo_process None None) 0 1 0)
     (\<lparr>wtime = 0\<rparr>, ''ls'') = (Inr Next, (\<lparr>wtime = 0\<rparr>, wrap_command [(''A'', ''x y'')] (Some ''d'') ''ls''))"
proof -
  let ?L = "demo_session\<lparr>sp_exec := (\<lambda>p c. raise_act (Exn PyOSError ''reset''))\<rparr>"
  have s: "sp_session ?L \<lparr>wtime = 0\<rparr> = (Inr 1, \<lparr>wtime = 0\<rparr>)" by (simp add: demo_session_def ret_def)
  have x: "sp_exec ?L 1 (wrap_command (sq_env demo_process) (sq_dir demo_process) ''ls'') \<lparr>wtime = 0\<rparr> = (Inl (Exn PyOSError ''reset''), \<lparr>wtime = 0\<rparr>)"
    by (simp add: raise_act_def)
  have c: "sp_close ?L \<lparr>wtime = 0\<rparr> = (Inr (), \<lparr>wtime = 0\<rparr>)" by (simp add: demo_session_def ret_def)
  have l: "check_limits None (retry_number (process_retry demo_process None None) 0 1 0) = Inr ()" by code_simp
  have e: "isinstance_exn (Exn PyOSError ''reset'') PyException" by code_simp
  from wrapped_twice[OF s x e c l] show ?thesis by (simp add: demo_process_def)
qed

lemma remote_start_ends_witness: "ends (ssh_create_process demo_session demo_process None None)"
  by (rule remote_start_ends(1)[of None demo_process 2]) (simp_all add: demo_process_def higher_limit_def)

end
