(* ===== verification/Shell_Connections.thy ===== *)
theory Shell_Connections
  imports Shell_Hosts Shell_Logs "HOL-Library.List_Lexorder" "HOL-Library.Char_ord"
begin

text \<open>
  tobiko/shell/sh/_connection.py: the manager that keeps one connection for every SSH client, and
  what a connection does with files: locally through the operating system, remotely through commands
  and SFTP. The SSH clients, SFTP and the operating system are parameters.
\<close>

section \<open>The manager\<close>

datatype 'c shell_conn = LocalConnection | SshConnection nat 'c

fun conn_client :: "'c shell_conn \<Rightarrow> 'c option" where
  "conn_client LocalConnection = None"
| "conn_client (SshConnection n c) = Some c"

definition is_local :: "'c shell_conn \<Rightarrow> bool" where
  "is_local c = (case c of LocalConnection \<Rightarrow> True | _ \<Rightarrow> False)"

record 'c conn_table =
  sc_table :: "'c option \<rightharpoonup> 'c shell_conn"
  sc_created :: nat
  sc_local :: "string set option"

definition find_conn :: "'w \<times> 'c conn_table \<Rightarrow> 'c option \<Rightarrow> 'c shell_conn option" where
  "find_conn s k = sc_table (snd s) k"

definition put_conn :: "'c option \<Rightarrow> 'c shell_conn \<Rightarrow> 'w \<times> 'c conn_table \<Rightarrow> 'w \<times> 'c conn_table" where
  "put_conn k c s = (fst s, (snd s)\<lparr>sc_table := (sc_table (snd s))(k \<mapsto> c)\<rparr>)"

interpretation conns: memo_table find_conn put_conn
  by unfold_locales (simp add: find_conn_def put_conn_def)

definition get_short_hostname :: "string \<Rightarrow> string" where
  "get_short_hostname h = takeWhile (\<lambda>c. c \<noteq> CHR ''.'') (str_lower h)"

definition local_hostnames :: "('w, string) act \<Rightarrow> ('w \<times> 'c conn_table, string set) act" where
  "local_hostnames gethostname s =
     (case sc_local (snd s) of
        Some names \<Rightarrow> (Inr names, s)
      | None \<Rightarrow>
          (case gethostname (fst s) of
             (Inl e, w) \<Rightarrow> (Inl e, (w, snd s))
           | (Inr h, w) \<Rightarrow> let names = {''localhost'', get_short_hostname h} in (Inr names, (w, (snd s)\<lparr>sc_local := Some names\<rparr>))))"

datatype ('c, 'a) conn_arg = ConnHost string | ConnClient 'a | ConnGiven "'c shell_conn"

text \<open>\<open>sl_client\<close> is \<open>ssh.ssh_client\<close> and \<open>sl_fixture\<close> is \<open>ssh.ssh_client_fixture\<close>.\<close>

record ('w, 'c, 'a) conn_lib =
  sl_gethostname :: "('w, string) act"
  sl_client :: "string \<Rightarrow> ('w, 'c) act"
  sl_fixture :: "'a \<Rightarrow> ('w, 'c option) act"

definition conn_key :: "('w, 'c, 'a) conn_lib \<Rightarrow> ('c, 'a) conn_arg \<Rightarrow> ('w \<times> 'c conn_table, 'c option) act" where
  "conn_key L obj =
     (case obj of
        ConnHost h \<Rightarrow>
          bindA (local_hostnames (sl_gethostname L)) (\<lambda>names.
            if h \<in> names then ret None else bindA (on_fst (sl_client L h)) (\<lambda>c. ret (Some c)))
      | ConnClient a \<Rightarrow> on_fst (sl_fixture L a)
      | ConnGiven c \<Rightarrow> ret (conn_client c))"

definition make_connection :: "'c option \<Rightarrow> ('w \<times> 'c conn_table, 'c shell_conn) act" where
  "make_connection k s =
     (case k of
        None \<Rightarrow> (Inr LocalConnection, s)
      | Some c \<Rightarrow> (Inr (SshConnection (sc_created (snd s)) c), (fst s, (snd s)\<lparr>sc_created := sc_created (snd s) + 1\<rparr>)))"

definition shell_connection :: "('w, 'c, 'a) conn_lib \<Rightarrow> ('c, 'a) conn_arg \<Rightarrow> ('w \<times> 'c conn_table, 'c shell_conn) act" where
  "shell_connection L obj =
     (case obj of
        ConnGiven c \<Rightarrow> ret c
      | _ \<Rightarrow> bindA (conn_key L obj) (\<lambda>k. get_or_create find_conn put_conn (make_connection k) k))"

definition register_shell_connection :: "'c shell_conn \<Rightarrow> ('w \<times> 'c conn_table, unit) act" where
  "register_shell_connection c s = (Inr (), put_conn (conn_client c) c s)"

definition ssh_shell_connection :: "('w, 'c, 'a) conn_lib \<Rightarrow> ('c, 'a) conn_arg \<Rightarrow> ('w \<times> 'c conn_table, 'c shell_conn) act" where
  "ssh_shell_connection L obj =
     bindA (shell_connection L obj) (\<lambda>c. if is_local c then raise_act (Exn PyTypeError []) else ret c)"

section \<open>Paths\<close>

text \<open>\<open>os.path.dirname\<close>, \<open>os.path.basename\<close>, \<open>os.path.join\<close> and \<open>os.path.normpath\<close>.\<close>

definition path_dirname :: "string \<Rightarrow> string" where "path_dirname p = fst (path_split p)"

definition path_basename :: "string \<Rightarrow> string" where "path_basename p = snd (path_split p)"

definition path_join :: "string \<Rightarrow> string \<Rightarrow> string" where
  "path_join a b =
     (if b \<noteq> [] \<and> hd b = CHR ''/'' then b
      else if a = [] \<or> List.last a = CHR ''/'' then a @ b
      else a @ ''/'' @ b)"

text \<open>The parts are kept from the last to the first.\<close>

fun norm_parts :: "bool \<Rightarrow> string list \<Rightarrow> string list \<Rightarrow> string list" where
  "norm_parts rooted acc [] = acc"
| "norm_parts rooted acc (c # cs) =
     (if c = [] \<or> c = ''.'' then norm_parts rooted acc cs
      else if c \<noteq> ''..'' \<or> (\<not> rooted \<and> acc = []) \<or> (acc \<noteq> [] \<and> hd acc = ''..'') then norm_parts rooted (c # acc) cs
      else norm_parts rooted (tl acc) cs)"

definition root_slashes :: "string \<Rightarrow> string" where
  "root_slashes p =
     (if take 2 p = ''//'' \<and> take 3 p \<noteq> ''///'' then ''//'' else if take 1 p = ''/'' then ''/'' else [])"

definition normpath :: "string \<Rightarrow> string" where
  "normpath p =
     (let r = root_slashes p;
          path = r @ str_join ''/'' (rev (norm_parts (r \<noteq> []) [] (split_on ''/'' p)))
      in if path = [] then ''.'' else path)"

section \<open>Putting many files\<close>

text \<open>What the local file system answers: directories, the files below one with their directories, real and relative paths.\<close>

record local_files =
  lf_isdir :: "string \<Rightarrow> bool"
  lf_walk :: "string \<Rightarrow> (string \<times> string list) list"
  lf_realpath :: "string \<Rightarrow> string"
  lf_relpath :: "string \<Rightarrow> string \<Rightarrow> string"

definition file_targets :: "local_files \<Rightarrow> string \<Rightarrow> string \<Rightarrow> (string \<times> string) list" where
  "file_targets F remote_dir local_file =
     (let local_file = normpath local_file
      in if lf_isdir F local_file
         then concat (map (\<lambda>(d, files). map (\<lambda>f.
                let p = path_join d f in (lf_realpath F p, path_join remote_dir (lf_relpath F p (path_dirname local_file)))) files)
                (lf_walk F local_file))
         else [(lf_realpath F local_file, path_join remote_dir (path_basename local_file))])"

definition put_targets :: "local_files \<Rightarrow> string \<Rightarrow> string list \<Rightarrow> (string \<times> string) list" where
  "put_targets F remote_dir files =
     sort_key fst (dict_update [] (concat (map (file_targets F (normpath remote_dir)) files)))"

fun put_loop ::
  "(string \<Rightarrow> ('w, unit) act) \<Rightarrow> (string \<Rightarrow> string \<Rightarrow> ('w, unit) act) \<Rightarrow> bool \<Rightarrow> string set \<Rightarrow> (string \<times> string) list \<Rightarrow> ('w, unit) act" where
  "put_loop mk put mkdirs dirs [] = ret ()"
| "put_loop mk put mkdirs dirs ((l, r) # items) =
     (let d = path_dirname r
      in if mkdirs \<and> d \<notin> dirs
         then bindA (mk d) (\<lambda>_. bindA (put l r) (\<lambda>_. put_loop mk put mkdirs (insert d dirs) items))
         else bindA (put l r) (\<lambda>_. put_loop mk put mkdirs dirs items))"

definition put_files ::
  "local_files \<Rightarrow> (string \<Rightarrow> ('w, unit) act) \<Rightarrow> (string \<Rightarrow> string \<Rightarrow> ('w, unit) act) \<Rightarrow> string list \<Rightarrow> string \<Rightarrow> bool \<Rightarrow> ('w, unit) act" where
  "put_files F mk put files remote_dir mkdirs = put_loop mk put mkdirs {} (put_targets F remote_dir files)"

section \<open>A local connection\<close>

record 'w local_os =
  os_user :: "('w, string) act"
  os_copy :: "string \<Rightarrow> string \<Rightarrow> ('w, unit) act"
  os_expanduser :: "string \<Rightarrow> string"
  os_isdir :: "string \<Rightarrow> 'w \<Rightarrow> bool"
  os_exists :: "string \<Rightarrow> 'w \<Rightarrow> bool"
  os_rmtree :: "string \<Rightarrow> ('w, unit) act"
  os_remove :: "string \<Rightarrow> ('w, unit) act"
  os_mktemp :: "bool \<Rightarrow> ('w, string) act"

definition expand_home :: "(string \<Rightarrow> string) \<Rightarrow> string \<Rightarrow> string" where
  "expand_home expand p = (if take 1 p = ''~'' then expand p else p)"

definition local_get_file :: "'w local_os \<Rightarrow> string \<Rightarrow> string \<Rightarrow> ('w, unit) act" where
  "local_get_file O' remote_file local_file =
     os_copy O' (expand_home (os_expanduser O') remote_file) (expand_home (os_expanduser O') local_file)"

definition local_remove_file :: "'w local_os \<Rightarrow> string \<Rightarrow> ('w, unit) act" where
  "local_remove_file O' f w =
     (if os_isdir O' f w then os_rmtree O' f w else if os_exists O' f w then os_remove O' f w else (Inr (), w))"

definition local_remove_files :: "'w local_os \<Rightarrow> string list \<Rightarrow> ('w, unit) act" where
  "local_remove_files O' files = bindA (map_act (local_remove_file O') files) (\<lambda>_. ret ())"

text \<open>\<open>add_cleanup\<close> has the test case remove the file in the end.\<close>

definition local_make_temp :: "'w local_os \<Rightarrow> (string \<Rightarrow> ('w, unit) act) \<Rightarrow> bool \<Rightarrow> bool \<Rightarrow> ('w, string) act" where
  "local_make_temp O' add_cleanup directory auto_clean =
     bindA (os_mktemp O' directory) (\<lambda>f. bindA (if auto_clean then add_cleanup f else ret ()) (\<lambda>_. ret f))"

text \<open>With \<open>sudo\<close> the directory is made by a command and always removed in the end.\<close>

definition local_make_temp_dir ::
  "'w local_os \<Rightarrow> (string \<Rightarrow> ('w, execute_result) act) \<Rightarrow> (string \<Rightarrow> ('w, unit) act) \<Rightarrow> (string \<Rightarrow> ('w, unit) act) \<Rightarrow> bool \<Rightarrow> bool \<Rightarrow> ('w, string) act" where
  "local_make_temp_dir O' sudo_sh sudo_cleanup add_cleanup auto_clean sudo =
     (if sudo then make_temp_dir sudo_sh sudo_cleanup else local_make_temp O' add_cleanup True auto_clean)"

section \<open>A connection through SSH\<close>

text \<open>The attributes \<open>_hostname\<close>, \<open>_sftp\<close> and \<open>_user_dir\<close>.\<close>

record 'f conn_cache =
  cc_hostname :: "string option"
  cc_sftp :: "'f option"
  cc_user_dir :: "string option"

record ('w, 'f) remote_lib =
  rl_sh :: "string list \<Rightarrow> bool \<Rightarrow> ('w, execute_result) act"
  rl_hostname :: "('w, string) act"
  rl_connect :: "('w, unit) act"
  rl_close :: "('w, unit) act"
  rl_open_sftp :: "('w, 'f) act"
  rl_get :: "'f \<Rightarrow> string \<Rightarrow> string \<Rightarrow> ('w, unit) act"
  rl_put :: "'f \<Rightarrow> string \<Rightarrow> string \<Rightarrow> ('w, unit) act"
  rl_open :: "'f \<Rightarrow> string \<Rightarrow> string \<Rightarrow> int \<Rightarrow> ('w, nat) act"

text \<open>An attribute that is filled in once.\<close>

definition cached_attr ::
  "('f conn_cache \<Rightarrow> 'a option) \<Rightarrow> ('a \<Rightarrow> 'f conn_cache \<Rightarrow> 'f conn_cache) \<Rightarrow> ('w, 'a) act \<Rightarrow> ('w \<times> 'f conn_cache, 'a) act" where
  "cached_attr get put ask s =
     (case get (snd s) of
        Some x \<Rightarrow> (Inr x, s)
      | None \<Rightarrow> bindA (on_fst ask) (\<lambda>x. bindA (set_snd (put x)) (\<lambda>_. ret x)) s)"

definition conn_hostname :: "('w, 'f) remote_lib \<Rightarrow> ('w \<times> 'f conn_cache, string) act" where
  "conn_hostname R = cached_attr cc_hostname (\<lambda>x c. c\<lparr>cc_hostname := Some x\<rparr>) (rl_hostname R)"

definition sftp_client :: "('w, 'f) remote_lib \<Rightarrow> ('w \<times> 'f conn_cache, 'f) act" where
  "sftp_client R = cached_attr cc_sftp (\<lambda>x c. c\<lparr>cc_sftp := Some x\<rparr>) (bindA (rl_connect R) (\<lambda>_. rl_open_sftp R))"

definition out_text :: "execute_result \<Rightarrow> string" where
  "out_text r = strip (case r_stdout r of None \<Rightarrow> [] | Some t \<Rightarrow> t)"

text \<open>\<open>execute(text)\<close>: the text is split into words first.\<close>

definition sh_text :: "('w, 'f) remote_lib \<Rightarrow> bool \<Rightarrow> string \<Rightarrow> ('w, execute_result) act" where
  "sh_text R sudo t = bindA (lift_res (split_command t)) (\<lambda>c. rl_sh R c sudo)"

definition user_dir :: "('w, 'f) remote_lib \<Rightarrow> ('w \<times> 'f conn_cache, string) act" where
  "user_dir R = cached_attr cc_user_dir (\<lambda>x c. c\<lparr>cc_user_dir := Some x\<rparr>)
     (bindA (sh_text R False (''sh -c '' @ double_quoted ''echo $HOME'')) (\<lambda>r. ret (out_text r)))"

definition get_config_path :: "('w, 'f) remote_lib \<Rightarrow> string \<Rightarrow> ('w \<times> 'f conn_cache, string) act" where
  "get_config_path R path =
     (case path of
        [] \<Rightarrow> raise_act (Exn PyIndexError ''string index out of range'')
      | c # rest \<Rightarrow> if c \<in> set ''~.'' then bindA (user_dir R) (\<lambda>d. ret (d @ rest)) else ret path)"

text \<open>Setting the connection up and cleaning it up only connect and close the client.\<close>

definition setup_connection :: "('w, 'f) remote_lib \<Rightarrow> ('w \<times> 'f conn_cache, unit) act" where
  "setup_connection R = on_fst (rl_connect R)"

definition cleanup_connection :: "('w, 'f) remote_lib \<Rightarrow> ('w \<times> 'f conn_cache, unit) act" where
  "cleanup_connection R = on_fst (rl_close R)"

definition remote_put_file :: "('w, 'f) remote_lib \<Rightarrow> string \<Rightarrow> string \<Rightarrow> ('w \<times> 'f conn_cache, unit) act" where
  "remote_put_file R local_file remote_file = bindA (sftp_client R) (\<lambda>f. on_fst (rl_put R f local_file remote_file))"

definition remote_get_file :: "('w, 'f) remote_lib \<Rightarrow> (string \<Rightarrow> string) \<Rightarrow> string \<Rightarrow> string \<Rightarrow> ('w \<times> 'f conn_cache, unit) act" where
  "remote_get_file R expanduser remote_file local_file =
     bindA (if take 1 remote_file = ''~''
            then bindA (on_fst (sh_text R False (''echo '' @ remote_file))) (\<lambda>r. ret (out_text r)) else ret remote_file)
       (\<lambda>remote_file. bindA (sftp_client R) (\<lambda>f. on_fst (rl_get R f remote_file (expand_home expanduser local_file))))"

definition remote_open_file :: "('w, 'f) remote_lib \<Rightarrow> string \<Rightarrow> string \<Rightarrow> int option \<Rightarrow> ('w \<times> 'f conn_cache, nat) act" where
  "remote_open_file R filename mode buffering =
     bindA (sftp_client R) (\<lambda>f. on_fst (rl_open R f filename mode (case buffering of None \<Rightarrow> -1 | Some b \<Rightarrow> b)))"

text \<open>\<open>exists\<close>, \<open>is_file\<close> and \<open>is_directory\<close> with the flags -e, -f and -d.\<close>

definition remote_test :: "('w, 'f) remote_lib \<Rightarrow> string \<Rightarrow> string \<Rightarrow> ('w, bool) act" where
  "remote_test R test_flag path =
     try_except (bindA (rl_sh R [''test'', test_flag, path] False) (\<lambda>_. ret True))
       (\<lambda>e. isinstance_exn e ShellCommandFailed) (\<lambda>_. ret False)"

definition remote_make_temp :: "('w, 'f) remote_lib \<Rightarrow> (string \<Rightarrow> ('w, unit) act) \<Rightarrow> string \<Rightarrow> bool \<Rightarrow> bool \<Rightarrow> ('w, string) act" where
  "remote_make_temp R add_cleanup command auto_clean sudo =
     bindA (sh_text R sudo command) (\<lambda>r.
       bindA (if auto_clean then add_cleanup (out_text r) else ret ()) (\<lambda>_. ret (out_text r)))"

definition remove_command :: "string list \<Rightarrow> string list" where
  "remove_command files = [''rm'', ''-fR''] @ files"

definition remote_remove_files :: "('w, 'f) remote_lib \<Rightarrow> string list \<Rightarrow> ('w, unit) act" where
  "remote_remove_files R files = bindA (rl_sh R (remove_command files) False) (\<lambda>_. ret ())"

text \<open>The name is added as a text, which is split into words.\<close>

definition make_dirs_command :: "string \<Rightarrow> bool \<Rightarrow> string list res" where
  "make_dirs_command name exist_ok =
     command_add ([''mkdir''] @ (if exist_ok then [''-p''] else [])) (Text name)"

definition remote_make_dirs :: "('w, 'f) remote_lib \<Rightarrow> string \<Rightarrow> bool \<Rightarrow> ('w, unit) act" where
  "remote_make_dirs R name exist_ok =
     bindA (lift_res (make_dirs_command name exist_ok)) (\<lambda>c. bindA (rl_sh R c False) (\<lambda>_. ret ()))"

definition parse_env_line :: "string \<Rightarrow> (string \<times> string) res" where
  "parse_env_line line =
     (case split_max 1 ''='' line of
        [a, b] \<Rightarrow> Inr (strip a, strip b)
      | _ \<Rightarrow> Raise PyValueError ''not enough values to unpack (expected 2, got 1)'')"

definition remote_environ :: "('w, 'f) remote_lib \<Rightarrow> ('w, (string \<times> string) list) act" where
  "remote_environ R =
     bindA (sh_text R False ''source /etc/profile; env'') (\<lambda>r.
       bindA (lift_res (map_res parse_env_line (filter (\<lambda>l. strip l \<noteq> []) (splitlines (case r_stdout r of None \<Rightarrow> [] | Some t \<Rightarrow> t)))))
         (\<lambda>ps. ret (dict_update [] ps)))"

text \<open>Opening a file that only the administrator reads: it is copied first.\<close>

definition open_file_sudo ::
  "(string \<Rightarrow> string \<Rightarrow> int option \<Rightarrow> ('w, 'x) act) \<Rightarrow> ('w, string) act \<Rightarrow> (string list \<Rightarrow> bool \<Rightarrow> ('w, execute_result) act) \<Rightarrow>
   string \<Rightarrow> string \<Rightarrow> int option \<Rightarrow> bool \<Rightarrow> ('w, 'x) act" where
  "open_file_sudo open_it temp_file sh filename mode buffering sudo =
     (if sudo
      then if CHR ''r'' \<notin> set mode then raise_act (Exn PyValueError ''sudo only supported in reading mode'')
           else bindA temp_file (\<lambda>t. bindA (sh [''cp'', filename, t] True) (\<lambda>_. open_it t mode buffering))
      else open_it filename mode buffering)"

section \<open>The connections of the manager\<close>

text \<open>Every connection that is kept is the one of its own client.\<close>

definition conns_ok :: "'w \<times> 'c conn_table \<Rightarrow> bool" where
  "conns_ok s \<longleftrightarrow> (\<forall>k c. find_conn s k = Some c \<longrightarrow> conn_client c = k)"

lemma conn_key_table: "conn_key L obj s = (r, t) \<Longrightarrow> sc_table (snd t) = sc_table (snd s)"
  by (auto simp: conn_key_def local_hostnames_def bindA_def on_fst_def ret_def Let_def
      split: conn_arg.splits option.splits prod.splits sum.splits if_splits)

lemma make_connection_made: "make_connection k s = (r, t) \<Longrightarrow> (\<exists>c. r = Inr c \<and> conn_client c = k) \<and> sc_table (snd t) = sc_table (snd s)"
  by (auto simp: make_connection_def split: option.splits)

lemma conns_ok_key: "conn_key L obj s = (r, t) \<Longrightarrow> conns_ok s \<Longrightarrow> conns_ok t"
  using conn_key_table by (fastforce simp: conns_ok_def find_conn_def)

lemma get_connection_ok:
  assumes "get_or_create find_conn put_conn (make_connection k) k s = (r, t)" and ok: "conns_ok s"
  shows "conns_ok t \<and> (\<exists>c. r = Inr c \<and> conn_client c = k)"
proof (cases "find_conn s k")
  case None
  obtain q u where n: "make_connection k s = (q, u)" by (metis surj_pair)
  with make_connection_made[OF n] None assms(1) obtain c where c: "q = Inr c" "conn_client c = k" "r = Inr c" "t = put_conn k c u"
    and tab: "find_conn u = find_conn s"
    by (auto simp: get_or_create_def find_conn_def fun_eq_iff)
  from ok tab have "conns_ok u" by (simp add: conns_ok_def)
  with c show ?thesis by (auto simp: conns_ok_def conns.lookup_store)
next
  case (Some c)
  with conns.get_hit[OF Some] assms show ?thesis by (auto simp: conns_ok_def)
qed

text \<open>
  Looking a connection up keeps the table in order, and gives a connection of the client that
  was asked for: the local one exactly when there is no client. Registering a connection keeps the table in order too.
\<close>
theorem connection_of_client:
  assumes "conns_ok s"
  shows "conns_ok (snd (shell_connection L obj s)) \<and> conns_ok (snd (register_shell_connection c s)) \<and>
    (case shell_connection L obj s of
       (Inr d, t) \<Rightarrow> (\<exists>k u. conn_key L obj s = (Inr k, u) \<and> conn_client d = k \<and> is_local d = (k = None))
     | (Inl e, t) \<Rightarrow> conn_key L obj s = (Inl e, t))"
proof (intro conjI)
  show "conns_ok (snd (register_shell_connection c s))"
    using assms by (auto simp: conns_ok_def register_shell_connection_def conns.lookup_store)
  have loc: "is_local d = (conn_client d = None)" for d :: "'b shell_conn" by (cases d) (auto simp: is_local_def)
  have "conns_ok t \<and> (case r of Inr d \<Rightarrow> (\<exists>k u. conn_key L obj s = (Inr k, u) \<and> conn_client d = k) | Inl e \<Rightarrow> conn_key L obj s = (Inl e, t))"
    if *: "shell_connection L obj s = (r, t)" for r t
  proof (cases "\<exists>d. obj = ConnGiven d")
    case True
    with * assms show ?thesis by (auto simp: shell_connection_def conn_key_def ret_def)
  next
    case False
    then have b: "shell_connection L obj s = bindA (conn_key L obj) (\<lambda>k. get_or_create find_conn put_conn (make_connection k) k) s"
      by (cases obj) (auto simp: shell_connection_def)
    obtain q u where q: "conn_key L obj s = (q, u)" by (metis surj_pair)
    show ?thesis
    proof (cases q)
      case (Inr k)
      with q b * have "get_or_create find_conn put_conn (make_connection k) k u = (r, t)" by (simp add: bindA_def)
      from get_connection_ok[OF this conns_ok_key[OF q assms]] q Inr show ?thesis by auto
    qed (use q b * conns_ok_key[OF q assms] in \<open>auto simp: bindA_def\<close>)
  qed
  from this[of "fst (shell_connection L obj s)" "snd (shell_connection L obj s)"]
  show "conns_ok (snd (shell_connection L obj s))"
    "case shell_connection L obj s of
       (Inr d, t) \<Rightarrow> (\<exists>k u. conn_key L obj s = (Inr k, u) \<and> conn_client d = k \<and> is_local d = (k = None))
     | (Inl e, t) \<Rightarrow> conn_key L obj s = (Inl e, t)"
    by (auto simp: loc split: prod.splits sum.splits)
qed

text \<open>
  Two names of the same client share one connection object: once it was looked up, every
  other way that leads to the same client gives it again and makes no other.
\<close>
theorem connection_shared:
  assumes "conn_key L obj s = (Inr k, t)" "shell_connection L obj s = (Inr c, u)" and "\<forall>d. obj \<noteq> ConnGiven d"
    and "conn_key L' obj' u = (Inr k, v)" "\<forall>d. obj' \<noteq> ConnGiven d"
  shows "shell_connection L' obj' u = (Inr c, v)"
proof -
  from assms(1-3) have "get_or_create find_conn put_conn (make_connection k) k t = (Inr c, u)"
    by (cases obj) (auto simp: shell_connection_def bindA_def)
  then have "find_conn u k = Some c"
    by (auto simp: get_or_create_def conns.lookup_store split: option.splits prod.splits sum.splits)
  with conn_key_table[OF assms(4)] have "find_conn v k = Some c" by (simp add: find_conn_def)
  with assms(4,5) show ?thesis by (cases obj') (auto simp: shell_connection_def bindA_def conns.get_hit)
qed

section \<open>Files are put into directories that exist\<close>

datatype file_call = MakeDir string | PutFile string string

fun put_plan :: "string set \<Rightarrow> (string \<times> string) list \<Rightarrow> file_call list" where
  "put_plan dirs [] = []"
| "put_plan dirs ((l, r) # items) =
     (if path_dirname r \<in> dirs then [] else [MakeDir (path_dirname r)]) @ PutFile l r # put_plan (insert (path_dirname r) dirs) items"

fun run_call :: "(string \<Rightarrow> ('w, unit) act) \<Rightarrow> (string \<Rightarrow> string \<Rightarrow> ('w, unit) act) \<Rightarrow> file_call \<Rightarrow> ('w, unit) act" where
  "run_call mk put (MakeDir d) = mk d"
| "run_call mk put (PutFile l r) = put l r"

fun made_dirs :: "file_call list \<Rightarrow> string list" where
  "made_dirs [] = []"
| "made_dirs (MakeDir d # cs) = d # made_dirs cs"
| "made_dirs (PutFile l r # cs) = made_dirs cs"

fun files_put :: "file_call list \<Rightarrow> (string \<times> string) list" where
  "files_put [] = []"
| "files_put (MakeDir d # cs) = files_put cs"
| "files_put (PutFile l r # cs) = (l, r) # files_put cs"

lemma put_loop_plan: "put_loop mk put True dirs items s = bindA (map_act (run_call mk put) (put_plan dirs items)) (\<lambda>_. ret ()) s"
proof (induction mk put True dirs items arbitrary: s rule: put_loop.induct)
  case (2 mk put dirs l r items)
  then show ?case
    by (cases "path_dirname r \<in> dirs")
      (auto simp: bindA_def ret_def Let_def insert_absorb split: prod.splits sum.splits)
qed (simp add: bindA_def ret_def)

lemma made_dirs_new: "distinct (made_dirs (put_plan dirs items)) \<and> set (made_dirs (put_plan dirs items)) \<inter> dirs = {}"
  by (induction dirs items rule: put_plan.induct) auto

lemma files_put_plan: "files_put (put_plan dirs items) = items"
  by (induction dirs items rule: put_plan.induct) auto

lemma put_after_make: "put_plan dirs items = pre @ PutFile l r # calls \<Longrightarrow> path_dirname r \<in> dirs \<union> set (made_dirs pre)"
proof (induction dirs items arbitrary: pre rule: put_plan.induct)
  case (2 dirs l' r' items)
  let ?d = "path_dirname r'"
  show ?case
  proof (cases "?d \<in> dirs")
    case True
    with 2 show ?thesis by (cases pre) (auto simp: insert_absorb)
  next
    case False
    with 2(2) obtain pre1 where pre: "pre = MakeDir ?d # pre1" and p1: "PutFile l' r' # put_plan (insert ?d dirs) items = pre1 @ PutFile l r # calls"
      by (cases pre) auto
    show ?thesis
    proof (cases pre1)
      case Nil
      with p1 pre show ?thesis by simp
    next
      case (Cons x pre2)
      with p1 2(1)[of pre2] pre show ?thesis by auto
    qed
  qed
qed simp

text \<open>
  Putting files is a plan of calls: every target is put, in the order of the local files,
  a directory is made at most once, and before any file is put into it.
\<close>
theorem put_files_plan:
  assumes "put_plan {} (put_targets F d files) = pre @ PutFile l r # calls"
  shows "put_files F mk put files d True s = bindA (map_act (run_call mk put) (put_plan {} (put_targets F d files))) (\<lambda>_. ret ()) s \<and>
    files_put (put_plan {} (put_targets F d files)) = put_targets F d files \<and>
    distinct (made_dirs (put_plan {} (put_targets F d files))) \<and> path_dirname r \<in> set (made_dirs pre)"
  using put_after_make[OF assms] made_dirs_new files_put_plan put_loop_plan by (auto simp: put_files_def)

section \<open>Normal paths\<close>

fun normal_parts :: "bool \<Rightarrow> string list \<Rightarrow> bool" where
  "normal_parts rooted [] = True"
| "normal_parts rooted (c # acc) \<longleftrightarrow>
     c \<noteq> [] \<and> c \<noteq> ''.'' \<and> CHR ''/'' \<notin> set c \<and> (c = ''..'' \<longrightarrow> \<not> rooted \<and> (acc = [] \<or> hd acc = ''..'')) \<and> normal_parts rooted acc"

lemma normal_parts_made:
  "\<forall>c \<in> set cs. CHR ''/'' \<notin> set c \<Longrightarrow> normal_parts rooted acc \<Longrightarrow> normal_parts rooted (norm_parts rooted acc cs)"
proof (induction rooted acc cs rule: norm_parts.induct)
  case (2 rooted acc c cs)
  then show ?case by (cases acc) auto
qed simp

lemma normal_parts_suffix: "normal_parts rooted (xs @ acc) \<Longrightarrow> normal_parts rooted acc"
  by (induction xs) auto

lemma norm_parts_normal: "normal_parts rooted (rev cs @ acc) \<Longrightarrow> norm_parts rooted acc cs = rev cs @ acc"
proof (induction cs arbitrary: acc)
  case (Cons c cs)
  from Cons.prems have g: "normal_parts rooted (rev cs @ c # acc)" by simp
  from normal_parts_suffix[OF g] have "\<not> (c = [] \<or> c = ''.'')"
    and "c \<noteq> ''..'' \<or> (\<not> rooted \<and> acc = []) \<or> (acc \<noteq> [] \<and> hd acc = ''..'')"
    by (simp_all only: normal_parts.simps) blast+
  then have "norm_parts rooted acc (c # cs) = norm_parts rooted (c # acc) cs" by (simp only: norm_parts.simps if_True if_False)
  with Cons.IH[OF g] show ?case by simp
qed simp

lemma normal_parts_all: "normal_parts rooted acc \<Longrightarrow> c \<in> set acc \<Longrightarrow> c \<noteq> [] \<and> CHR ''/'' \<notin> set c"
  by (induction acc) auto

lemma split_on_roots:
  assumes "r \<in> {[], ''/'', ''//''}" and "normal_parts (r \<noteq> []) acc" and "r @ str_join ''/'' (rev acc) \<noteq> []"
  shows "norm_parts (r \<noteq> []) [] (split_on ''/'' (r @ str_join ''/'' (rev acc))) = acc"
proof -
  have sp: "split_on ''/'' (str_join ''/'' (rev acc)) = (if acc = [] then [[]] else rev acc)"
    using normal_parts_all[OF assms(2)] by (auto simp: split_on_join split_on_char)
  have skip: "split_on ''/'' (CHR ''/'' # t) = [] # split_on ''/'' t" for t using split_on_char_append[of "CHR ''/''" "[]" t] by simp
  have "norm_parts (r \<noteq> []) [] (if acc = [] then [[]] else rev acc) = acc"
    using norm_parts_normal[of "r \<noteq> []" "rev acc" "[]"] assms(2) by auto
  then have "norm_parts (r \<noteq> []) [] (split_on ''/'' (str_join ''/'' (rev acc))) = acc" by (simp only: sp)
  with assms(1) show ?thesis by (elim insertE emptyE) (simp_all add: skip del: list.inject)
qed

lemma root_slashes_cases: "root_slashes p \<in> {[], ''/'', ''//''}"
  by (simp add: root_slashes_def)

lemma root_slashes_again:
  assumes "r \<in> {[], ''/'', ''//''}" and "j = [] \<or> hd j \<noteq> CHR ''/''"
  shows "root_slashes (r @ j) = r"
  using assms by (cases j) (auto simp: root_slashes_def)

text \<open>
  A normal path is its own normal path: no part of it is empty, a dot, or goes up from
  a directory that it names.
\<close>
theorem normpath_normal: "normpath (normpath p) = normpath p"
proof -
  let ?r = "root_slashes p"
  let ?acc = "norm_parts (?r \<noteq> []) [] (split_on ''/'' p)"
  let ?j = "str_join ''/'' (rev ?acc)"
  have good: "normal_parts (?r \<noteq> []) ?acc"
    by (rule normal_parts_made) (use split_on_char_free in \<open>blast, simp\<close>)
  have j: "?j = [] \<or> hd ?j \<noteq> CHR ''/''"
  proof (cases "rev ?acc")
    case (Cons c cs)
    then have "c \<in> set ?acc" by (metis list.set_intros(1) set_rev)
    with normal_parts_all[OF good] have "c \<noteq> []" "hd c \<noteq> CHR ''/''" by (metis hd_in_set)+
    with Cons show ?thesis by (cases cs) auto
  qed simp
  show ?thesis
  proof (cases "?r @ ?j = []")
    case True
    then have "normpath p = ''.''" unfolding normpath_def Let_def by (simp only: refl if_True)
    moreover have "normpath ''.'' = ''.''" by (simp add: normpath_def root_slashes_def split_on_char)
    ultimately show ?thesis by simp
  next
    case False
    then have n: "normpath p = ?r @ ?j" unfolding normpath_def Let_def by (simp only: if_False)
    show ?thesis
      using root_slashes_again[OF root_slashes_cases j] split_on_roots[OF root_slashes_cases good False] False
      unfolding n by (subst normpath_def) (simp only: Let_def if_False)
  qed
qed

section \<open>What connections remember and send\<close>

text \<open>
  The SFTP client that was opened stays the one that is used, also after the
  connection was cleaned up, which closes the SSH client, and set up again.
\<close>
theorem sftp_kept:
  assumes "sftp_client R s = (Inr f, s1)" "cleanup_connection R s1 = (Inr (), s2)" "setup_connection R s2 = (Inr (), s3)"
  shows "sftp_client R s3 = (Inr f, s3)"
proof -
  have "cc_sftp (snd s1) = Some f"
    using assms(1) by (auto simp: sftp_client_def cached_attr_def bindA_def on_fst_def set_snd_def ret_def
        split: option.splits prod.splits sum.splits)
  moreover have "snd s3 = snd s1"
    using assms(2,3) by (auto simp: cleanup_connection_def setup_connection_def on_fst_def split: prod.splits)
  ultimately show ?thesis by (simp add: sftp_client_def cached_attr_def)
qed

text \<open>The name of a directory is split at its blanks: as many directories are made.\<close>
theorem make_dirs_split:
  assumes "\<forall>w \<in> set ws. w \<noteq> [] \<and> list_all safe_char w"
  shows "make_dirs_command (str_join '' '' ws) True = Inr ([''mkdir'', ''-p''] @ ws)"
proof -
  have safe: "\<not> is_quoted w \<and> quote w = w" if "w \<in> set ws" for w
  proof -
    from assms that have w: "w \<noteq> []" "list_all safe_char w" by auto
    then have "safe_char (hd w)" by (cases w) auto
    then have "hd w \<noteq> CHR 0x27" "hd w \<noteq> CHR 0x22" by (auto simp: safe_char_def word_char_def is_digit_def)
    moreover have "List.last w \<noteq> CHR 0x0A"
    proof
      assume "List.last w = CHR 0x0A"
      with w have "safe_char (CHR 0x0A)" by (metis last_in_set list_all_iff)
      then show False by (simp add: safe_char_def word_char_def is_digit_def)
    qed
    ultimately have "\<not> is_quoted w" by (auto simp: is_quoted_def Let_def)
    with w show ?thesis by (simp add: quote_def)
  qed
  then have "join_command ws = str_join '' '' ws" by (simp add: join_command_def cong: map_cong)
  with safe split_join[of ws] show ?thesis
    by (simp add: make_dirs_command_def command_add_def shell_command_def)
qed

text \<open>The path of a file in the home directory loses the dot of a hidden name.\<close>
theorem config_path_home:
  assumes "user_dir R s = (Inr d, t)"
  shows "get_config_path R (''.'' @ name) s = (Inr (d @ name), t) \<and> get_config_path R (''~'' @ name) s = (Inr (d @ name), t)"
  using assms by (simp add: get_config_path_def bindA_def ret_def)

text \<open>The lines that env prints are read back, when the values span one line.\<close>

definition clean_setting :: "string \<times> string \<Rightarrow> bool" where
  "clean_setting kv \<longleftrightarrow> CHR ''='' \<notin> set (fst kv) \<and> strip (fst kv) = fst kv \<and> strip (snd kv) = snd kv"

theorem environ_lines:
  assumes "\<forall>kv \<in> set env. clean_setting kv"
  shows "map_res parse_env_line (map (\<lambda>(k, v). k @ ''='' @ v) env) = Inr env"
  using assms
proof (induction env)
  case (Cons kv env)
  have "split_max 1 ''='' (k @ CHR ''='' # v) = [k, v]" if "CHR ''='' \<notin> set k" for k v
    using str_find_char_Some[OF that, of v] by simp
  with Cons show ?case by (cases kv) (simp add: parse_env_line_def clean_setting_def)
qed simp

section \<open>Examples\<close>

text \<open>Hosts whose clients are their numbers; "localhost" is this host.\<close>

definition demo_conns :: "(unit, nat, nat option) conn_lib" where
  "demo_conns = \<lparr>sl_gethostname = ret ''Here.net'', sl_client = (\<lambda>h. ret (if h = ''abc'' then 3 else 7)), sl_fixture = ret\<rparr>"

abbreviation no_conns :: "unit \<times> nat conn_table" where
  "no_conns \<equiv> ((), \<lparr>sc_table = (\<lambda>_. None), sc_created = 0, sc_local = Some {''localhost'', ''here''}\<rparr>)"

abbreviation one_conn :: "unit \<times> nat conn_table" where
  "one_conn \<equiv> ((), \<lparr>sc_table = (\<lambda>_. None)(Some 3 \<mapsto> SshConnection 0 3), sc_created = 1, sc_local = Some {''localhost'', ''here''}\<rparr>)"

lemma demo_connection:
  "conn_key demo_conns (ConnHost ''abc'') no_conns = (Inr (Some 3), no_conns)"
  "shell_connection demo_conns (ConnHost ''abc'') no_conns = (Inr (SshConnection 0 3), one_conn)"
  "conn_key demo_conns (ConnClient (Some 3)) one_conn = (Inr (Some 3), one_conn)"
  by (simp_all add: shell_connection_def conn_key_def demo_conns_def local_hostnames_def bindA_def on_fst_def ret_def
      get_or_create_def find_conn_def put_conn_def make_connection_def)

lemma connection_of_client_witness: "conns_ok no_conns \<and> conns_ok one_conn"
proof
  show ok: "conns_ok no_conns" by (simp add: conns_ok_def find_conn_def)
  show "conns_ok one_conn" using connection_of_client[OF ok, of demo_conns "ConnHost ''abc''"] by (simp add: demo_connection)
qed

lemma connection_shared_witness: "shell_connection demo_conns (ConnClient (Some 3)) one_conn = (Inr (SshConnection 0 3), one_conn)"
  by (rule connection_shared[OF demo_connection(1,2) _ demo_connection(3)]) simp_all

definition demo_files :: local_files where
  "demo_files = \<lparr>lf_isdir = (\<lambda>p. p = ''x/d''), lf_walk = (\<lambda>p. [(''x/d'', [''a'']), (''x/d/e'', [''b''])]), lf_realpath = (\<lambda>p. CHR ''/'' # p),
     lf_relpath = (\<lambda>p s. drop (length s + 1) p)\<rparr>"

lemma put_files_plan_witness:
  "put_plan {} (put_targets demo_files ''t/'' [''x/./d'', ''f'']) =
     [MakeDir ''t'', PutFile ''/f'' ''t/f'', MakeDir ''t/d''] @ PutFile ''/x/d/a'' ''t/d/a'' # [MakeDir ''t/d/e'', PutFile ''/x/d/e/b'' ''t/d/e/b''] \<and>
   path_dirname ''t/d/a'' \<in> set (made_dirs [MakeDir ''t'', PutFile ''/f'' ''t/f'', MakeDir ''t/d''])"
proof -
  have p: "put_plan {} (put_targets demo_files ''t/'' [''x/./d'', ''f'']) =
     [MakeDir ''t'', PutFile ''/f'' ''t/f'', MakeDir ''t/d''] @ PutFile ''/x/d/a'' ''t/d/a'' # [MakeDir ''t/d/e'', PutFile ''/x/d/e/b'' ''t/d/e/b'']"
    by code_simp
  from p put_files_plan[OF p, THEN conjunct2, THEN conjunct2, THEN conjunct2] show ?thesis by (rule conjI)
qed

definition demo_remote :: "(nat, nat) remote_lib" where
  "demo_remote = \<lparr>rl_sh = (\<lambda>c sudo. ret \<lparr>r_command = [], r_exit_status = Some 0, r_timeout = None, r_status = None, r_login = None, r_stdin = None,
       r_stdout = Some ''/root'', r_stderr = None\<rparr>), rl_hostname = ret ''h'', rl_connect = ret (), rl_close = ret (), rl_open_sftp = ret 5,
     rl_get = (\<lambda>f r l. ret ()), rl_put = (\<lambda>f l r. ret ()), rl_open = (\<lambda>f n m b. ret 1)\<rparr>"

lemma sftp_kept_witness:
  "sftp_client demo_remote (0, \<lparr>cc_hostname = None, cc_sftp = Some 5, cc_user_dir = None\<rparr>) =
     (Inr 5, (0, \<lparr>cc_hostname = None, cc_sftp = Some 5, cc_user_dir = None\<rparr>))"
  by (rule sftp_kept[where s = "(0, \<lparr>cc_hostname = None, cc_sftp = None, cc_user_dir = None\<rparr>)"])
    (simp_all add: sftp_client_def cached_attr_def demo_remote_def cleanup_connection_def setup_connection_def bindA_def on_fst_def
      set_snd_def ret_def)

lemma make_dirs_split_witness: "make_dirs_command ''my files'' True = Inr [''mkdir'', ''-p'', ''my'', ''files'']"
  using make_dirs_split[of "[''my'', ''files'']"] by (simp add: safe_char_def word_char_def)

lemma environ_lines_witness: "map_res parse_env_line [''A=1'', ''B=x=y''] = Inr [(''A'', ''1''), (''B'', ''x=y'')]"
proof -
  have "\<forall>kv \<in> set [(''A'', ''1''), (''B'', ''x=y'')]. clean_setting kv" by code_simp
  from environ_lines[OF this] show ?thesis by simp
qed

end
