(* ===== verification/Spec2Isabelle.thy ===== *)
theory Spec2Isabelle
  imports Py_Strings Tobiko_Select Retry_Runs Tobiko_Cached Tobiko_Loader Fixture_Lifecycle Tobiko_Operation
    Table_Csv Tobiko_Shelves Tobiko_Version Tobiko_Case Fixture_Shared Tobiko_Skip Ping_Run
    Shell_Ss Shell_Ip Shell_Ps Shell_Systemctl Heat_Limits Heat_Namespace Resource_Fixture Shell_Reboot Keystone_Clouds Shell_Logs Topology_Hosts
    Nova_Servers Keystone_Services Octavia_Waiters Manila_Shares Designate_Zones
    Glance_Images Ironic_Nodes Nova_Addresses Tripleo_Pacemaker Ssh_Connect Ssh_Forward
    Shell_Communicate Shell_Ssh Shell_Connections
begin

text \<open>
  Verification development for tobiko, the test framework for OpenStack clouds under
  src/tobiko.

  What the program is. Its core (tobiko/common) is a library of test infrastructure:
  exceptions, selections of objects, retries against a clock, cached properties, a loader of
  Python objects, fixtures with a manager and shared fixtures, operations that run once, skip
  decorators, tables, shelves that test processes share, versions and INI files. The shell
  layer (tobiko/shell) builds command lines, runs them and reads what they print: processes,
  ping, ip, ss, ps, systemctl, find, grep, log files, host names, reboots. The OpenStack layer
  (tobiko/openstack) finds credentials, keeps Heat stacks that tests share, and discovers the
  nodes of a cloud over SSH. Everything above calls downwards: a Heat stack is a shared fixture
  whose creation is a retry, and which the shelves record the users of; the topology lists
  addresses, connects, asks host names and digs in log files.

  How the code is represented. A Python exception is a value (\<open>exn\<close>: its class as the list of the
  names of its ancestors, and its message), a function that may raise returns a sum, and code
  with effects is an action \<open>('s, 'a) act\<close>: it takes the state and returns a result with the
  state it leaves, also when it raises. Records are the attributes of objects, dictionaries are
  association lists in the order of insertion (\<open>dict_set\<close>), or maps where the order does not
  matter. The libraries the code calls (netaddr, packaging, paramiko, the OpenStack clients, the
  resolver, the shell itself) are arguments of the definitions, gathered in records whose names
  end in lib, env or ops; the state of the outside world is a type variable. Loops that follow a list are
  structural recursion; loops that a clock or an answer ends are \<open>partial_function (option)\<close>, so
  that not returning is None, and their ends are theorems.

  The theories, with the files they model.
  Shared: Py_Prelude (exceptions, results, actions and the rules for what holds after them,
  dictionaries), Py_Strings (the text methods of Python), Py_Values (values of JSON and YAML),
  Registry (the locale of a table that is looked up and filled, and of one that also forgets; the
  caches of the program are interpretations of it).
  tobiko/common: Tobiko_Exceptions (_exception.py), Tobiko_Select (_select.py), Tobiko_Retry,
  Retry_Runs and Retry_Partial (_time.py, _retry.py: the iterator, its runs as an inductive
  relation, and retries whose body may itself not return), Tobiko_Cached (_cached.py),
  Tobiko_Loader (_loader.py), Tobiko_Fixture, Fixture_Lifecycle, Fixture_Required and
  Fixture_Shared (_fixture.py: names and manager, set up and clean up, required fixtures, shared
  fixtures as a state machine), Tobiko_Operation (_operation.py), Tobiko_Skip (_skip.py),
  Tobiko_TableData and Table_Csv (_tabledata.py), Tobiko_Shelves (_shelves.py), Tobiko_Version
  (_version.py), Tobiko_Case (_case.py), Tobiko_Ini (_ini.py), Tobiko_Config (tobiko/config.py).
  tobiko/shell: Shell_Command, Shell_Process (sh/_command.py, _process.py, _execute.py),
  Shell_Hosts (sh/_hostname.py, _which.py, _cmdline.py, _uptime.py and the small file commands),
  Shell_Ip (ip.py, ifconfig.py, name servers), Shell_Ss (ss.py), Shell_Ps (sh/_ps.py),
  Shell_Systemctl (sh/_systemctl.py), Shell_Reboot (sh/_reboot.py), Shell_Find (find.py,
  grep.py), Shell_Logs (files/_logs.py), Ping_Parameters, Ping_Statistics, Ping_Interface and
  Ping_Run (ping).
  tobiko/openstack: Keystone_Credentials and Keystone_Clouds (keystone), Heat_Stack,
  Heat_Lifecycle, Heat_Limits and Heat_Namespace (heat/_stack.py), Resource_Fixture
  (base/_fixture.py), Topology_Addresses, Topology_Connections, Topology_Nodes,
  Topology_Invariant, Topology_Lookup and Topology_Hosts (topology).
  What the lemmas show. Refinement: loading with caches equals resolving without them; the
  retry iterator equals its runs. Invariants: shared fixtures follow their protocol, tables keep
  one schema, the stack of test cases is restored, the tables of a topology agree after every
  step whatever fails, cleaning credentials up restores what was given. Round trips: CSV, command
  lines, the footer of ping, INI files, the executable path. Termination: a retry with a count
  limit always ends and so does one with a time limit whose turns take time; creating a Heat
  stack and pinging end whatever the cloud and the hosts answer. Safety: what waiting for hosts,
  units, stacks and reboots returns, that connecting settles the addresses it tried, and that a
  line of a log is new only once. The other theorems say what the operations return on each of
  their branches; some pin down what the code does where it seems to mean something else.

  Bounds. No fuel is used. Counts of turns are natural numbers that the count limit of a retry
  bounds (by 1 + limit); termination by time assumes of a clock that it does not run backwards
  and that each turn costs at least a fixed positive time (the locale \<open>py_clock\<close>). Seconds are rational
  numbers: the rounding of floating point numbers is not modelled. Texts are lists of
  characters; \<open>repr\<close> of a text is given for texts without quotes and control characters.

  Not modelled. Log messages; weak references; the eviction of entries by \<open>lru_cache\<close> (its 128
  entries are not reached by the keys the program uses); threads and the file lock between
  workers. The SSH client (tobiko/shell/ssh) and the streams of processes are network and
  operating system I/O. The modules that describe the resources of tests (tobiko/openstack/stacks),
  the wrappers of the OpenStack clients, TripleO, podified and the other deployments, the
  scenario tests and the command line tools are not modelled: they hold client calls and shell
  commands with little logic of their own. Later extensions start with those that wait for a
  state of the cloud.
\<close>

end
